(* ===== verification/Prelude.thy ===== *)
theory Prelude
  imports Complex_Main
begin

text \<open>
  Shared vocabulary of the development: the identifiers and clocks the program passes around,
  the result type that carries a Python exception as a value, the few string methods the source
  calls, and relational tables as lists of rows (\<open>SELECT ... WHERE\<close> is \<open>filter\<close>,
  \<open>UPDATE ... WHERE\<close> is \<open>upd_where\<close>, \<open>SELECT count(*)\<close> is \<open>count_where\<close>).
  Everything here is used by several component theories.
\<close>

section \<open>Identifiers, instants, dates and times of day\<close>

text \<open>
  A UUID is a natural number. An aware datetime is the number of microseconds since
  1970-01-01T00:00:00Z, a date the number of days since 1970-01-01, a time of day the number of
  microseconds since midnight.
\<close>

type_synonym uuid = nat
type_synonym datetime = int
type_synonym date = int
type_synonym tod = int

abbreviation usec_per_sec :: int where
  "usec_per_sec \<equiv> 1000000"

abbreviation usec_per_day :: int where
  "usec_per_day \<equiv> 86400000000"

abbreviation seconds :: "int \<Rightarrow> int" where
  "seconds n \<equiv> n * usec_per_sec"

section \<open>Collections of facts\<close>

named_theorems bind_simps \<open>equations of the exception monad\<close>
named_theorems table_simps \<open>equations of the table operations\<close>
named_theorems row_frame \<open>fields that an update of a row leaves alone\<close>

section \<open>Results: an exception or a value\<close>

definition r_bind :: "'e + 'a \<Rightarrow> ('a \<Rightarrow> 'e + 'b) \<Rightarrow> 'e + 'b" where
  "r_bind r f = (case r of Inl e \<Rightarrow> Inl e | Inr x \<Rightarrow> f x)"

lemma r_bind_simps [simp, bind_simps]:
  "r_bind (Inl e) f = Inl e"
  "r_bind (Inr x) f = f x"
  by (simp_all add: r_bind_def)

lemma r_bind_Inr_iff [bind_simps]:
  "r_bind r f = Inr y \<longleftrightarrow> (\<exists>x. r = Inr x \<and> f x = Inr y)"
  by (cases r) auto

lemma r_bind_Inl_iff [bind_simps]:
  "r_bind r f = Inl e \<longleftrightarrow> r = Inl e \<or> (\<exists>x. r = Inr x \<and> f x = Inl e)"
  by (cases r) auto

lemma r_bind_assoc: "r_bind (r_bind r f) g = r_bind r (\<lambda>x. r_bind (f x) g)"
  by (cases r) auto

lemma r_bind_cong [fundef_cong]:
  "r = r' \<Longrightarrow> (\<And>x. r' = Inr x \<Longrightarrow> f x = g x) \<Longrightarrow> r_bind r f = r_bind r' g"
  by (cases r') auto

section \<open>Strings\<close>

text \<open>Python's \<open>str.strip()\<close>, \<open>str.rstrip(chars)\<close>, \<open>str.ljust(n, c)\<close> and \<open>str.lower()\<close> on ASCII.\<close>

definition is_space :: "char \<Rightarrow> bool" where
  "is_space c \<longleftrightarrow> (let n = (of_char c :: nat) in n = 32 \<or> (9 \<le> n \<and> n \<le> 13) \<or> (28 \<le> n \<and> n \<le> 31))"

definition rstrip_where :: "(char \<Rightarrow> bool) \<Rightarrow> string \<Rightarrow> string" where
  "rstrip_where p s = rev (dropWhile p (rev s))"

definition strip :: "string \<Rightarrow> string" where
  "strip s = rstrip_where is_space (dropWhile is_space s)"

definition rstrip_char :: "char \<Rightarrow> string \<Rightarrow> string" where
  "rstrip_char c = rstrip_where (\<lambda>x. x = c)"

definition ljust :: "nat \<Rightarrow> char \<Rightarrow> string \<Rightarrow> string" where
  "ljust n c s = s @ replicate (n - length s) c"

definition lower_char :: "char \<Rightarrow> char" where
  "lower_char c = (let n = (of_char c :: nat) in if 65 \<le> n \<and> n \<le> 90 then char_of (n + 32) else c)"

definition lower :: "string \<Rightarrow> string" where
  "lower = map lower_char"

lemma rstrip_char_replicate [simp]:
  "rstrip_char c (s @ replicate n c) = rstrip_char c s"
  by (simp add: rstrip_char_def rstrip_where_def dropWhile_append)

lemma rstrip_char_decomp:
  obtains n where "s = rstrip_char c s @ replicate n c"
proof -
  let ?t = "takeWhile (\<lambda>x. x = c) (rev s)"
  have "s = rev (?t @ dropWhile (\<lambda>x. x = c) (rev s))" by simp
  also have "\<dots> = rstrip_char c s @ rev ?t"
    by (simp only: rev_append rstrip_char_def rstrip_where_def)
  also have "rev ?t = replicate (length ?t) c"
    by (rule replicate_eqI) (auto dest: set_takeWhileD)
  finally show thesis by (rule that)
qed

lemma rstrip_where_idem [simp]: "rstrip_where p (rstrip_where p s) = rstrip_where p s"
  by (simp add: rstrip_where_def)

lemma dropWhile_rstrip_where:
  "dropWhile p (rstrip_where p (dropWhile p s)) = rstrip_where p (dropWhile p s)"
proof (cases "dropWhile p s")
  case Nil
  show ?thesis unfolding Nil by (simp add: rstrip_where_def)
next
  case (Cons a as)
  then have "\<not> p a" by (metis hd_dropWhile list.distinct(1) list.sel(1))
  have "\<exists>ys. rstrip_where p (a # as) = a # ys"
    using \<open>\<not> p a\<close> by (auto simp: rstrip_where_def dropWhile_append intro: rev_rev_ident [symmetric])
  then show ?thesis using Cons \<open>\<not> p a\<close> by auto
qed

lemma strip_idem [simp]: "strip (strip s) = strip s"
  by (simp add: strip_def dropWhile_rstrip_where)

lemma strip_no_space: "list_all (\<lambda>c. \<not> is_space c) s \<Longrightarrow> strip s = s"
proof -
  have id: "dropWhile is_space t = t" if "\<forall>c \<in> set t. \<not> is_space c" for t
    using that by (cases t) auto
  assume "list_all (\<lambda>c. \<not> is_space c) s"
  then have "\<forall>c \<in> set s. \<not> is_space c" "\<forall>c \<in> set (rev s). \<not> is_space c" by (auto simp: list_all_iff)
  then show ?thesis by (simp add: strip_def rstrip_where_def id)
qed

section \<open>Tables as lists of rows\<close>

definition upd_where :: "('r \<Rightarrow> bool) \<Rightarrow> ('r \<Rightarrow> 'r) \<Rightarrow> 'r list \<Rightarrow> 'r list" where
  "upd_where p f rows = map (\<lambda>r. if p r then f r else r) rows"

definition count_where :: "('r \<Rightarrow> bool) \<Rightarrow> 'r list \<Rightarrow> nat" where
  "count_where p rows = length (filter p rows)"

lemma upd_where_simps [simp, table_simps]:
  "upd_where p f [] = []"
  "upd_where p f (r # rs) = (if p r then f r else r) # upd_where p f rs"
  by (simp_all add: upd_where_def)

lemma count_where_simps [simp, table_simps]:
  "count_where p [] = 0"
  "count_where p (r # rs) = (if p r then Suc (count_where p rs) else count_where p rs)"
  "count_where p (xs @ ys) = count_where p xs + count_where p ys"
  by (simp_all add: count_where_def)

lemma length_upd_where [simp]: "length (upd_where p f rows) = length rows"
  by (simp add: upd_where_def)

lemma upd_where_append [simp]: "upd_where p f (xs @ ys) = upd_where p f xs @ upd_where p f ys"
  by (simp add: upd_where_def)

lemma set_upd_where: "set (upd_where p f rows) = (\<lambda>r. if p r then f r else r) ` set rows"
  by (simp add: upd_where_def)

lemma upd_where_mem_iff:
  "r' \<in> set (upd_where p f rows) \<longleftrightarrow>
     (\<exists>r \<in> set rows. (p r \<and> r' = f r) \<or> (\<not> p r \<and> r' = r))"
  by (auto simp: set_upd_where)

lemma map_upd_where_frame:
  "(\<And>r. g (f r) = g r) \<Longrightarrow> map g (upd_where p f rows) = map g rows"
  by (simp add: upd_where_def)

lemma upd_where_id_if_none: "(\<And>r. r \<in> set rows \<Longrightarrow> \<not> p r) \<Longrightarrow> upd_where p f rows = rows"
  by (simp add: upd_where_def map_idI)

lemma count_where_0_iff [table_simps]: "count_where p rows = 0 \<longleftrightarrow> (\<forall>r \<in> set rows. \<not> p r)"
  by (simp add: count_where_def filter_empty_conv)

lemma count_where_pos_iff [table_simps]: "0 < count_where p rows \<longleftrightarrow> (\<exists>r \<in> set rows. p r)"
  by (induction rows) auto

lemma count_where_upd_same:
  "(\<And>r. r \<in> set rows \<Longrightarrow> p r \<Longrightarrow> q (f r) = q r) \<Longrightarrow>
   count_where q (upd_where p f rows) = count_where q rows"
  by (induction rows) auto

lemma count_where_mono:
  "(\<And>r. r \<in> set rows \<Longrightarrow> p r \<Longrightarrow> q r) \<Longrightarrow> count_where p rows \<le> count_where q rows"
  by (induction rows) auto

lemma count_where_upd_mono:
  "(\<And>r. r \<in> set rows \<Longrightarrow> p r \<Longrightarrow> q (f r) \<Longrightarrow> q r) \<Longrightarrow>
   count_where q (upd_where p f rows) \<le> count_where q rows"
  by (induction rows) auto

text \<open>The first row that satisfies a condition: \<open>scalar_one_or_none()\<close> on a unique key.\<close>

definition find_row :: "('r \<Rightarrow> bool) \<Rightarrow> 'r list \<Rightarrow> 'r option" where
  "find_row p rows = find p rows"

lemma find_row_simps [simp, table_simps]:
  "find_row p [] = None"
  "find_row p (r # rs) = (if p r then Some r else find_row p rs)"
  by (simp_all add: find_row_def)

lemma find_row_SomeD: "find_row p rows = Some r \<Longrightarrow> r \<in> set rows \<and> p r"
  by (induction rows) (auto split: if_splits)

lemma find_row_None_iff [table_simps]: "find_row p rows = None \<longleftrightarrow> (\<forall>r \<in> set rows. \<not> p r)"
  by (induction rows) auto

lemma find_row_append:
  "find_row p (xs @ ys) = (case find_row p xs of None \<Rightarrow> find_row p ys | Some r \<Rightarrow> Some r)"
  by (induction xs) auto

lemma find_row_key:
  assumes "distinct (map key rows)" and "r \<in> set rows"
  shows "find_row (\<lambda>x. key x = key r) rows = Some r"
  using assms by (induction rows) (auto simp: image_iff)

lemma filter_key:
  assumes "distinct (map key rows)" and "r \<in> set rows"
  shows "filter (\<lambda>x. key x = key r) rows = [r]"
  using assms by (induction rows) (auto simp: image_iff filter_empty_conv)

lemma filter_key_None:
  "k \<notin> key ` set rows \<Longrightarrow> filter (\<lambda>x. key x = k) rows = []"
  by (auto simp: filter_empty_conv)

lemma find_row_filter: "find_row p rows = (case filter p rows of [] \<Rightarrow> None | r # _ \<Rightarrow> Some r)"
  by (induction rows) auto

lemma find_row_upd_where:
  assumes "\<And>r. key (f r) = key r"
  shows "find_row (\<lambda>x. key x = k) (upd_where p f rows) =
    map_option (\<lambda>r. if p r then f r else r) (find_row (\<lambda>x. key x = k) rows)"
  using assms by (induction rows) auto

lemma distinct_key_eq:
  "distinct (map key rows) \<Longrightarrow> a \<in> set rows \<Longrightarrow> b \<in> set rows \<Longrightarrow> key a = key b \<Longrightarrow> a = b"
  by (auto simp: distinct_map inj_on_def)

text \<open>A partial unique index: among the rows with \<open>p\<close>, the key \<open>k\<close> is unique.\<close>

definition unique_on :: "('r \<Rightarrow> bool) \<Rightarrow> ('r \<Rightarrow> 'k) \<Rightarrow> 'r list \<Rightarrow> bool" where
  "unique_on p k rows \<longleftrightarrow> distinct (map k (filter p rows))"

lemma unique_on_Nil [simp]: "unique_on p k []"
  by (simp add: unique_on_def)

lemma unique_on_snoc:
  "unique_on p k (rows @ [r]) \<longleftrightarrow>
     unique_on p k rows \<and> (p r \<longrightarrow> (\<forall>x \<in> set rows. p x \<longrightarrow> k x \<noteq> k r))"
  by (auto simp: unique_on_def image_iff)

lemma unique_on_upd_where:
  assumes "unique_on p k rows"
    and "\<And>r. r \<in> set rows \<Longrightarrow> q r \<Longrightarrow> p (f r) \<Longrightarrow> p r \<and> k (f r) = k r"
  shows "unique_on p k (upd_where q f rows)"
  using assms
proof (induction rows)
  case (Cons r rs)
  have IH: "unique_on p k (upd_where q f rs)"
    using Cons by (auto simp: unique_on_def split: if_splits)
  have mem: "x \<in> set rs \<and> p x \<and> k x = k y"
    if "x \<in> set rs" "y = (if q x then f x else x)" "p y" for x y
    using that Cons.prems(2)[of x] by (auto split: if_splits)
  have sub: "k ` {y \<in> set (upd_where q f rs). p y} \<subseteq> k ` {y \<in> set rs. p y}"
  proof
    fix z assume "z \<in> k ` {y \<in> set (upd_where q f rs). p y}"
    then obtain x y where "x \<in> set rs" "y = (if q x then f x else x)" "p y" "z = k y"
      by (auto simp: set_upd_where)
    with mem show "z \<in> k ` {y \<in> set rs. p y}" by (metis (mono_tags, lifting) imageI mem_Collect_eq)
  qed
  let ?r = "if q r then f r else r"
  have r: "p ?r \<Longrightarrow> p r \<and> k ?r = k r" using Cons.prems(2)[of r] by auto
  have "p ?r \<Longrightarrow> k ?r \<notin> k ` {y \<in> set rs. p y}"
    using r Cons.prems(1) by (auto simp: unique_on_def)
  then have "p ?r \<Longrightarrow> k ?r \<notin> k ` {y \<in> set (upd_where q f rs). p y}" using sub by auto
  with IH show ?case by (auto simp: unique_on_def)
qed simp

lemma unique_onD:
  "unique_on p k rows \<Longrightarrow> a \<in> set rows \<Longrightarrow> b \<in> set rows \<Longrightarrow> p a \<Longrightarrow> p b \<Longrightarrow> k a = k b \<Longrightarrow> a = b"
  by (auto simp: unique_on_def distinct_map inj_on_def)

section \<open>Numbers\<close>

lemma nat_less_power10: "z < 10 ^ k \<Longrightarrow> nat z < 10 ^ k"
  by (cases "0 \<le> z") (simp_all add: nat_less_iff)

end
