(* ===== verification/Py_Decimal.thy ===== *)
theory Py_Decimal
  imports Prelude
begin

text \<open>
  The part of Python's \<open>decimal\<close> module the program uses, at the level of its triples (sign,
  coefficient, exponent), under the default context (28 digits, half-even rounding, invalid
  operations trapped). Comparison is exact; \<open>+\<close>, \<open>-\<close>, \<open>*\<close>, \<open>/\<close> round to the context precision;
  \<open>//\<close> and \<open>%\<close> raise when the integer quotient needs more than 28 digits. The exponent limits
  (a million digits) are not modelled. \<open>dval\<close> is the rational value of a decimal, and the
  lemmas say when an operation is exact on values.
\<close>

section \<open>Decimals and their values\<close>

datatype decimal = Dec (dneg: bool) (dcoeff: nat) (dexp: int)

definition dint :: "decimal \<Rightarrow> int" where
  "dint d = (if dneg d then - int (dcoeff d) else int (dcoeff d))"

definition dval :: "decimal \<Rightarrow> rat" where
  "dval d = of_int (dint d) * 10 powi dexp d"

text \<open>The signed coefficient of a decimal rescaled to a smaller exponent.\<close>

definition dscale :: "decimal \<Rightarrow> int \<Rightarrow> int" where
  "dscale d e = dint d * 10 ^ nat (dexp d - e)"

lemma powi_10_pos [simp]:
  "0 < (10 powi e :: rat)" "0 \<le> (10 powi e :: rat)"
  "\<not> (10 powi e :: rat) < 0" "\<not> (10 powi e :: rat) \<le> 0"
proof -
  show p: "0 < (10 powi e :: rat)" by (simp add: zero_less_power_int)
  show "0 \<le> (10 powi e :: rat)" "\<not> (10 powi e :: rat) < 0" "\<not> (10 powi e :: rat) \<le> 0"
    using p by linarith+
qed

lemma powi_10_shift: "e \<le> f \<Longrightarrow> (10 powi f :: rat) = 10 ^ nat (f - e) * 10 powi e"
proof -
  assume "e \<le> f"
  have "(10 powi f :: rat) = 10 powi ((f - e) + e)" by simp
  also have "\<dots> = 10 powi (f - e) * 10 powi e" by (rule power_int_add) simp
  also have "10 powi (f - e) = (10 ^ nat (f - e) :: rat)"
    using \<open>e \<le> f\<close> by (simp add: power_int_def)
  finally show ?thesis .
qed

lemma dval_dscale: "e \<le> dexp d \<Longrightarrow> dval d = of_int (dscale d e) * 10 powi e"
  by (simp add: dval_def dscale_def powi_10_shift [of e "dexp d"])

lemma dval_Dec_nonneg_exp: "dval (Dec s c (int k)) = of_int (dint (Dec s c 0)) * 10 ^ k"
  by (simp add: dval_def dint_def power_int_def)

lemma dval_Dec_neg_exp: "dval (Dec s c (- int k)) = of_int (dint (Dec s c 0)) / 10 ^ k"
  by (simp add: dval_def dint_def power_int_minus divide_inverse)

lemma dval_exp0: "dval (Dec s c 0) = of_int (dint (Dec s c 0))"
  by (simp add: dval_def)

lemma dval_nonneg_iff: "0 \<le> dval d \<longleftrightarrow> 0 \<le> dint d"
  by (simp add: dval_def zero_le_mult_iff)

lemma dval_pos_iff: "0 < dval d \<longleftrightarrow> 0 < dint d"
  by (simp add: dval_def zero_less_mult_iff)

lemma dval_zero_iff: "dval d = 0 \<longleftrightarrow> dcoeff d = 0"
  by (simp add: dval_def dint_def)

lemma dint_pos_iff: "0 < dint d \<longleftrightarrow> \<not> dneg d \<and> 0 < dcoeff d"
  by (simp add: dint_def)

section \<open>Comparison\<close>

definition dec_le :: "decimal \<Rightarrow> decimal \<Rightarrow> bool" where
  "dec_le a b = (let e = min (dexp a) (dexp b) in dscale a e \<le> dscale b e)"

definition dec_less :: "decimal \<Rightarrow> decimal \<Rightarrow> bool" where
  "dec_less a b = (let e = min (dexp a) (dexp b) in dscale a e < dscale b e)"

definition dec_eq :: "decimal \<Rightarrow> decimal \<Rightarrow> bool" where
  "dec_eq a b = (let e = min (dexp a) (dexp b) in dscale a e = dscale b e)"

lemma dval_common:
  fixes a b :: decimal
  defines "e \<equiv> min (dexp a) (dexp b)"
  shows "dval a = of_int (dscale a e) * 10 powi e" "dval b = of_int (dscale b e) * 10 powi e"
  by (auto simp: e_def intro!: dval_dscale)

lemma dec_le_iff: "dec_le a b \<longleftrightarrow> dval a \<le> dval b"
  by (simp add: dec_le_def Let_def dval_common [where a = a and b = b])

lemma dec_less_iff: "dec_less a b \<longleftrightarrow> dval a < dval b"
  by (simp add: dec_less_def Let_def dval_common [where a = a and b = b])

lemma dec_eq_iff: "dec_eq a b \<longleftrightarrow> dval a = dval b"
  by (simp add: dec_eq_def Let_def dval_common [where a = a and b = b])

lemmas dec_cmp_iff = dec_le_iff dec_less_iff dec_eq_iff

definition dec_zero :: decimal where
  "dec_zero = Dec False 0 0"

lemma dval_dec_zero [simp]: "dval dec_zero = 0"
  by (simp add: dec_zero_def dval_zero_iff)

text \<open>The builtin \<open>max(a, b)\<close> returns its first argument unless the second is greater.\<close>

definition dec_max :: "decimal \<Rightarrow> decimal \<Rightarrow> decimal" where
  "dec_max a b = (if dec_less a b then b else a)"

lemma dval_dec_max [simp]: "dval (dec_max a b) = max (dval a) (dval b)"
  by (auto simp: dec_max_def dec_less_iff)

section \<open>Context arithmetic\<close>

definition prec :: nat where
  "prec = 28"

lemma prec_pos [simp]: "0 < prec"
  by (simp add: prec_def)

fun ndigits :: "nat \<Rightarrow> nat" where
  "ndigits n = (if n < 10 then 1 else Suc (ndigits (n div 10)))"

declare ndigits.simps [simp del]

lemma ndigits_pos [simp]: "0 < ndigits n"
  by (subst ndigits.simps) simp

lemma ndigits_bound: "n < 10 ^ k \<Longrightarrow> 0 < k \<Longrightarrow> ndigits n \<le> k"
proof (induction n arbitrary: k rule: ndigits.induct)
  case (1 n)
  show ?case
  proof (cases "n < 10")
    case True
    with "1.prems" show ?thesis by (simp add: ndigits.simps [of n])
  next
    case False
    have "k \<noteq> 1" using "1.prems" False by auto
    with "1.prems" obtain j where k: "k = Suc j" "0 < j" by (cases k) auto
    with "1.prems" have "n div 10 < 10 ^ j" by (simp add: less_mult_imp_div_less mult.commute)
    with "1.IH" False k have "ndigits (n div 10) \<le> j" by blast
    with False k show ?thesis by (simp add: ndigits.simps [of n])
  qed
qed

definition dec_fix :: "decimal \<Rightarrow> decimal" where
  "dec_fix d =
     (let c = dcoeff d in
      if c < 10 ^ prec then d
      else let k = ndigits c - prec; q = c div 10 ^ k; r = c mod 10 ^ k;
               up = (10 ^ k < 2 * r \<or> (10 ^ k = 2 * r \<and> odd q));
               q' = (if up then q + 1 else q)
           in if q' = 10 ^ prec then Dec (dneg d) (10 ^ (prec - 1)) (dexp d + int k + 1)
              else Dec (dneg d) q' (dexp d + int k))"

lemma dec_fix_exact: "dcoeff d < 10 ^ prec \<Longrightarrow> dec_fix d = d"
  by (simp add: dec_fix_def Let_def)

definition dec_neg :: "decimal \<Rightarrow> decimal" where
  "dec_neg d = Dec (\<not> dneg d) (dcoeff d) (dexp d)"

lemma dval_dec_neg [simp]: "dval (dec_neg d) = - dval d"
  by (simp add: dec_neg_def dval_def dint_def)

definition dec_add :: "decimal \<Rightarrow> decimal \<Rightarrow> decimal" where
  "dec_add a b =
     (let e = min (dexp a) (dexp b); n = dscale a e + dscale b e
      in dec_fix (Dec (n < 0 \<or> (n = 0 \<and> dneg a \<and> dneg b)) (nat \<bar>n\<bar>) e))"

definition dec_sub :: "decimal \<Rightarrow> decimal \<Rightarrow> decimal" where
  "dec_sub a b = dec_add a (dec_neg b)"

definition dec_mul :: "decimal \<Rightarrow> decimal \<Rightarrow> decimal" where
  "dec_mul a b = dec_fix (Dec (dneg a \<noteq> dneg b) (dcoeff a * dcoeff b) (dexp a + dexp b))"

lemma dval_dec_add_exact:
  assumes "\<bar>dscale a (min (dexp a) (dexp b)) + dscale b (min (dexp a) (dexp b))\<bar> < 10 ^ prec"
  shows "dval (dec_add a b) = dval a + dval b"
proof -
  let ?e = "min (dexp a) (dexp b)"
  let ?n = "dscale a ?e + dscale b ?e"
  let ?d = "Dec (?n < 0 \<or> (?n = 0 \<and> dneg a \<and> dneg b)) (nat \<bar>?n\<bar>) ?e"
  have "nat \<bar>?n\<bar> < 10 ^ prec" using assms
    by (metis abs_ge_zero nat_less_iff of_nat_numeral of_nat_power)
  then have "dec_add a b = ?d"
    by (simp add: dec_add_def Let_def dec_fix_exact)
  moreover have "dint ?d = ?n" by (auto simp: dint_def)
  ultimately show ?thesis
    by (simp add: dval_def [of ?d] dval_common [where a = a and b = b] ring_distribs)
qed

lemma dval_dec_mul_exact:
  assumes "dcoeff a * dcoeff b < 10 ^ prec"
  shows "dval (dec_mul a b) = dval a * dval b"
  using assms by (auto simp: dec_mul_def dec_fix_exact dval_def dint_def power_int_add)

text \<open>True division, as in the reference implementation of the module: enough digits for one
  correct rounding, then trailing zeros removed down to the ideal exponent.\<close>

fun dec_strip :: "nat \<Rightarrow> nat \<Rightarrow> int \<Rightarrow> nat \<times> int" where
  "dec_strip 0 c e = (c, e)"
| "dec_strip (Suc n) c e = (if c mod 10 = 0 then dec_strip n (c div 10) (e + 1) else (c, e))"

datatype dec_error = DivisionByZero | InvalidOperation

definition dec_div :: "decimal \<Rightarrow> decimal \<Rightarrow> dec_error + decimal" where
  "dec_div a b =
     (if dcoeff b = 0 then Inl (if dcoeff a = 0 then InvalidOperation else DivisionByZero)
      else if dcoeff a = 0 then Inr (dec_fix (Dec (dneg a \<noteq> dneg b) 0 (dexp a - dexp b)))
      else
        let shift = int (ndigits (dcoeff b)) - int (ndigits (dcoeff a)) + int prec + 1;
            e = dexp a - dexp b - shift;
            num = dcoeff a * 10 ^ nat shift;
            den = dcoeff b * 10 ^ nat (- shift);
            q = num div den
        in if num mod den \<noteq> 0
           then Inr (dec_fix (Dec (dneg a \<noteq> dneg b) (if q mod 5 = 0 then q + 1 else q) e))
           else let (q', e') = dec_strip (nat shift) q e
                in Inr (dec_fix (Dec (dneg a \<noteq> dneg b) q' e')))"

lemma dec_strip_val:
  "dec_strip n c e = (c', e') \<Longrightarrow> of_nat c' * 10 powi e' = (of_nat c * 10 powi e :: rat)"
proof (induction n arbitrary: c e)
  case (Suc n)
  show ?case
  proof (cases "c mod 10 = 0")
    case True
    then have "c = 10 * (c div 10)" by auto
    then have "(of_nat c :: rat) = 10 * of_nat (c div 10)" by (metis of_nat_mult of_nat_numeral)
    with Suc True show ?thesis by (simp add: power_int_add)
  next
    case False
    with Suc.prems show ?thesis by simp
  qed
qed simp

lemma dec_strip_le: "fst (dec_strip n c e) \<le> c"
proof (induction n arbitrary: c e)
  case (Suc n)
  have "fst (dec_strip n (c div 10) (e + 1)) \<le> c div 10" by (rule Suc.IH)
  also have "\<dots> \<le> c" by simp
  finally show ?case by simp
qed simp

lemma dec_strip_bound: "j \<le> n \<Longrightarrow> fst (dec_strip n (m * 10 ^ j) e) \<le> m"
proof (induction j arbitrary: n e)
  case 0
  then show ?case using dec_strip_le [of n m e] by simp
next
  case (Suc j)
  then obtain k where n: "n = Suc k" and "j \<le> k" by (metis Suc_le_D Suc_le_mono)
  have "m * 10 ^ Suc j mod 10 = 0" "m * 10 ^ Suc j div 10 = m * 10 ^ j" by simp_all
  with Suc.IH [OF \<open>j \<le> k\<close>] n show ?case by simp
qed

text \<open>Division is exact when the quotient terminates within the precision.\<close>

lemma dec_div_exact:
  assumes "dcoeff b * m = dcoeff a * 10 ^ t" and "m < 10 ^ prec"
    and "0 < dcoeff a" and "0 < dcoeff b" and "dcoeff a < 10 ^ prec" and "t \<le> 2"
  shows "\<exists>d. dec_div a b = Inr d \<and> dval d = dval a / dval b \<and> dexp a - dexp b - int t \<le> dexp d"
proof -
  define shift where
    "shift = int (ndigits (dcoeff b)) - int (ndigits (dcoeff a)) + int prec + 1"
  have "ndigits (dcoeff a) \<le> prec" using assms(5) by (intro ndigits_bound) auto
  moreover have "0 < ndigits (dcoeff b)" by simp
  ultimately have shift: "2 \<le> shift" unfolding shift_def by linarith
  define s where "s = nat shift"
  have s: "shift = int s" "t \<le> s" "nat (- shift) = 0" "nat shift = s"
    using shift assms(6) by (auto simp: s_def)
  define j where "j = s - t"
  have sj: "s = t + j" using s(2) by (simp add: j_def)
  have num: "dcoeff a * 10 ^ s = dcoeff b * (m * 10 ^ j)"
    using assms(1) by (simp add: sj power_add mult.assoc [symmetric])
  obtain q e where strip: "dec_strip s (m * 10 ^ j) (dexp a - dexp b - shift) = (q, e)"
    by fastforce
  have "q \<le> m" using dec_strip_bound [of j s m] strip sj by (metis fst_conv le_add2)
  then have qb: "q < 10 ^ prec" using assms(2) by linarith
  let ?d = "Dec (dneg a \<noteq> dneg b) q e"
  have "dec_div a b = Inr (dec_fix ?d)"
    unfolding dec_div_def Let_def shift_def [symmetric] s(3,4)
    using assms(3,4) strip num by simp
  then have eq: "dec_div a b = Inr ?d" using qb by (simp add: dec_fix_exact)
  have "of_nat q * 10 powi e = (of_nat (m * 10 ^ j) * 10 powi (dexp a - dexp b - shift) :: rat)"
    using dec_strip_val [OF strip] .
  also have "\<dots> = of_nat (dcoeff a) * 10 ^ s / of_nat (dcoeff b) * 10 powi (dexp a - dexp b - shift)"
  proof -
    have "(of_nat (dcoeff a) * 10 ^ s :: rat) = of_nat (dcoeff b) * of_nat (m * 10 ^ j)"
      using num by (metis of_nat_mult of_nat_numeral of_nat_power)
    then show ?thesis using assms(4) by simp
  qed
  also have "\<dots> = of_nat (dcoeff a) / of_nat (dcoeff b) * (10 powi (dexp a - dexp b))"
  proof -
    have "(10 powi (dexp a - dexp b) :: rat) = 10 ^ s * 10 powi (dexp a - dexp b - shift)"
      using powi_10_shift [of "dexp a - dexp b - shift" "dexp a - dexp b"] s by simp
    then show ?thesis by simp
  qed
  finally have "of_nat q * 10 powi e =
      (of_nat (dcoeff a) / of_nat (dcoeff b) * (10 powi dexp a / 10 powi dexp b) :: rat)"
    by (simp add: power_int_diff)
  then have val: "dval ?d = dval a / dval b"
    by (auto simp: dval_def dint_def)
  let ?e0 = "dexp a - dexp b - int t"
  have "(10 powi ?e0 :: rat) = 10 ^ j * 10 powi (dexp a - dexp b - shift)"
    using powi_10_shift [of "dexp a - dexp b - shift" ?e0] s(1) sj by simp
  then have q_m: "of_nat q * 10 powi e = (of_nat m * 10 powi ?e0 :: rat)"
    using dec_strip_val [OF strip] by simp
  have "?e0 \<le> e"
  proof (rule ccontr)
    assume "\<not> ?e0 \<le> e"
    then have lt: "(10 powi e :: rat) < 10 powi ?e0" by (intro power_int_strict_increasing) auto
    have m0: "0 < m" using assms(1,3) by (metis gr0I mult_0_right mult_is_0 power_not_zero zero_neq_numeral less_irrefl)
    have "(of_nat q * 10 powi e :: rat) \<le> of_nat m * 10 powi e"
      using \<open>q \<le> m\<close> by (intro mult_right_mono) auto
    also have "\<dots> < of_nat m * 10 powi ?e0" using lt m0 by simp
    finally show False using q_m by simp
  qed
  with eq val show ?thesis by auto
qed

text \<open>
  A decimal that fits \<open>k\<close> fractional digits and a bound: sums, products and the divisions the source
  performs on such numbers are exact as long as the result fits the precision.
\<close>

definition fits :: "nat \<Rightarrow> rat \<Rightarrow> decimal \<Rightarrow> bool" where
  "fits k B d \<longleftrightarrow> - int k \<le> dexp d \<and> \<bar>dval d\<bar> \<le> B"

lemma fits_dscale:
  assumes "fits k B d" and "- int k \<le> e" and "e \<le> dexp d"
  shows "of_int \<bar>dscale d e\<bar> \<le> B * 10 ^ k"
proof -
  have "\<bar>dval d\<bar> = of_int \<bar>dscale d e\<bar> * 10 powi e"
    using dval_dscale [OF assms(3)] by (simp add: abs_mult)
  moreover have "1 \<le> (10 powi e * 10 ^ k :: rat)"
  proof -
    have "(10 powi (e + int k) :: rat) = 10 ^ nat (e + int k)" using assms(2) by (simp add: power_int_def)
    then show ?thesis by (simp add: power_int_add)
  qed
  ultimately have "of_int \<bar>dscale d e\<bar> * 1 \<le> \<bar>dval d\<bar> * (10 ^ k)"
    by (metis abs_ge_zero mult.assoc mult_left_mono of_int_0_le_iff)
  also have "\<dots> \<le> B * 10 ^ k" using assms(1) by (intro mult_right_mono) (auto simp: fits_def)
  finally show ?thesis by simp
qed

lemma fits_coeff: "fits k B d \<Longrightarrow> of_nat (dcoeff d) \<le> B * 10 ^ k"
  using fits_dscale [of k B d "dexp d"] by (simp add: fits_def dscale_def dint_def split: if_splits)

lemma fits_neg: "fits k B d \<Longrightarrow> fits k B (dec_neg d)"
  by (simp add: fits_def dec_neg_def [of d] dec_neg_def [symmetric, of "Dec _ _ _"] dval_dec_neg [of d, unfolded dec_neg_def])

lemma fits_add:
  assumes "fits k A a" and "fits k B b" and "(A + B) * 10 ^ k < 10 ^ prec"
  shows "dval (dec_add a b) = dval a + dval b" "fits k (A + B) (dec_add a b)"
proof -
  let ?e = "min (dexp a) (dexp b)"
  let ?n = "dscale a ?e + dscale b ?e"
  have e: "- int k \<le> ?e" using assms(1,2) by (simp add: fits_def)
  have "of_int \<bar>?n\<bar> \<le> (of_int \<bar>dscale a ?e\<bar> + of_int \<bar>dscale b ?e\<bar> :: rat)"
    by (metis abs_triangle_ineq of_int_add of_int_le_iff)
  also have "\<dots> \<le> A * 10 ^ k + B * 10 ^ k"
    using fits_dscale [OF assms(1) e] fits_dscale [OF assms(2) e] by (intro add_mono) auto
  also have "\<dots> < 10 ^ prec" using assms(3) by (simp only: distrib_right)
  finally have small: "\<bar>?n\<bar> < 10 ^ prec" by (metis of_int_less_iff of_int_numeral of_int_power)
  then show v: "dval (dec_add a b) = dval a + dval b" by (rule dval_dec_add_exact)
  have "nat \<bar>?n\<bar> < 10 ^ prec" using small by (metis abs_ge_zero nat_less_iff of_nat_numeral of_nat_power)
  then have "dexp (dec_add a b) = ?e" by (simp add: dec_add_def Let_def dec_fix_exact)
  with e v assms(1,2) show "fits k (A + B) (dec_add a b)" by (simp add: fits_def)
qed

lemma fits_sub:
  assumes "fits k A a" and "fits k B b" and "(A + B) * 10 ^ k < 10 ^ prec"
  shows "dval (dec_sub a b) = dval a - dval b" "fits k (A + B) (dec_sub a b)"
  using fits_add [OF assms(1) fits_neg [OF assms(2)] assms(3)] by (simp_all add: dec_sub_def)

lemma fits_mul:
  assumes "fits k A a" and "fits l B b" and "0 \<le> A" and "(A * B) * 10 ^ (k + l) < 10 ^ prec"
  shows "dval (dec_mul a b) = dval a * dval b" "fits (k + l) (A * B) (dec_mul a b)"
proof -
  have "(of_nat (dcoeff a * dcoeff b) :: rat) \<le> (A * 10 ^ k) * (B * 10 ^ l)"
    using fits_coeff [OF assms(1)] fits_coeff [OF assms(2)] assms(3) by (simp add: mult_mono)
  also have "\<dots> < 10 ^ prec" using assms(4) by (simp add: power_add mult_ac)
  finally have small: "dcoeff a * dcoeff b < 10 ^ prec"
    by (metis of_nat_less_iff of_nat_numeral of_nat_power)
  then show v: "dval (dec_mul a b) = dval a * dval b" by (rule dval_dec_mul_exact)
  have "dexp (dec_mul a b) = dexp a + dexp b" using small by (simp add: dec_mul_def dec_fix_exact)
  moreover have "\<bar>dval a * dval b\<bar> \<le> A * B"
    using assms(1-3) by (simp add: fits_def abs_mult mult_mono)
  ultimately show "fits (k + l) (A * B) (dec_mul a b)" using v assms(1,2) by (simp add: fits_def)
qed

text \<open>Division by \<open>Decimal("2")\<close> and \<open>Decimal("100")\<close>: \<open>n * m = 10 ^ t\<close>.\<close>

lemma fits_div:
  assumes "fits k A a" and nm: "n * m = 10 ^ t" and "t \<le> 2" and small: "A * 10 ^ k * of_nat m < 10 ^ prec"
    and "A * 10 ^ k < 10 ^ prec"
  shows "\<exists>d. dec_div a (Dec False n 0) = Inr d \<and> dval d = dval a / of_nat n \<and> fits (k + t) (A / of_nat n) d"
proof -
  have n0: "0 < n" using nm by (cases n) auto
  have vn: "dval (Dec False n 0) = of_nat n" by (simp add: dval_def dint_def)
  have bound: "\<bar>dval a / of_nat n\<bar> \<le> A / of_nat n"
    using assms(1) n0 by (simp add: fits_def abs_divide divide_right_mono)
  show ?thesis
  proof (cases "dcoeff a = 0")
    case True
    then have "dec_div a (Dec False n 0) = Inr (Dec (dneg a) 0 (dexp a))" "dval a = 0"
      using n0 by (simp_all add: dec_div_def dec_fix_exact dval_zero_iff)
    moreover have "dval (Dec (dneg a) 0 (dexp a)) = 0" by (simp add: dval_zero_iff)
    ultimately show ?thesis using assms(1) bound by (auto simp: fits_def)
  next
    case False
    have c: "of_nat (dcoeff a) \<le> A * 10 ^ k" using assms(1) by (rule fits_coeff)
    have cp: "dcoeff a < 10 ^ prec"
      using c assms(5) by (metis le_less_trans of_nat_less_iff of_nat_numeral of_nat_power)
    have "(of_nat (m * dcoeff a) :: rat) \<le> A * 10 ^ k * of_nat m" using c by (simp add: mult_mono mult.commute)
    then have mp: "m * dcoeff a < 10 ^ prec"
      using small by (metis le_less_trans of_nat_less_iff of_nat_numeral of_nat_power)
    have "n * (m * dcoeff a) = dcoeff a * 10 ^ t" by (metis mult.assoc mult.commute nm)
    with dec_div_exact [of "Dec False n 0" "m * dcoeff a" a t] mp cp False n0 assms(3)
    obtain d where "dec_div a (Dec False n 0) = Inr d" "dval d = dval a / of_nat n" "dexp a - int t \<le> dexp d"
      by (auto simp: vn)
    then show ?thesis using assms(1) bound by (auto simp: fits_def)
  qed
qed

text \<open>Integer division and remainder truncate towards zero and are refused beyond the precision.\<close>

definition dec_divmod :: "decimal \<Rightarrow> decimal \<Rightarrow> dec_error + decimal \<times> decimal" where
  "dec_divmod a b =
     (let e = min (dexp a) (dexp b); x = nat \<bar>dscale a e\<bar>; y = nat \<bar>dscale b e\<bar>; q = x div y
      in if q < 10 ^ prec
         then Inr (Dec (dneg a \<noteq> dneg b) q 0, dec_fix (Dec (dneg a) (x mod y) e))
         else Inl InvalidOperation)"

definition dec_floordiv :: "decimal \<Rightarrow> decimal \<Rightarrow> dec_error + decimal" where
  "dec_floordiv a b =
     (if dcoeff b = 0 then Inl (if dcoeff a = 0 then InvalidOperation else DivisionByZero)
      else r_bind (dec_divmod a b) (\<lambda>(q, r). Inr q))"

definition dec_mod :: "decimal \<Rightarrow> decimal \<Rightarrow> dec_error + decimal" where
  "dec_mod a b =
     (if dcoeff b = 0 then Inl InvalidOperation
      else r_bind (dec_divmod a b) (\<lambda>(q, r). Inr r))"

lemma ndigits_lower: "10 ^ (ndigits n - 1) \<le> max n 1"
proof (induction n rule: ndigits.induct)
  case (1 n)
  show ?case
  proof (cases "n < 10")
    case True
    then show ?thesis by (simp add: ndigits.simps [of n])
  next
    case False
    let ?k = "ndigits (n div 10)"
    have "(10::nat) ^ ?k = 10 * 10 ^ (?k - 1)"
      using ndigits_pos [of "n div 10"] by (metis Suc_pred' power_Suc)
    also have "\<dots> \<le> 10 * max (n div 10) 1" using "1.IH" [OF False] by (intro mult_left_mono) auto
    also have "\<dots> \<le> n" using False by (auto simp: max_def)
    finally show ?thesis using False by (simp add: ndigits.simps [of n])
  qed
qed

text \<open>Rounding never turns a non-zero value into zero.\<close>

lemma dec_fix_zero_iff: "dcoeff (dec_fix d) = 0 \<longleftrightarrow> dcoeff d = 0"
proof (cases "dcoeff d < 10 ^ prec")
  case True
  then show ?thesis by (simp add: dec_fix_exact)
next
  case False
  define k where "k = ndigits (dcoeff d) - prec"
  have "10 ^ (ndigits (dcoeff d) - 1) \<le> dcoeff d"
    using ndigits_lower [of "dcoeff d"] False by (simp add: max_def prec_def split: if_splits)
  moreover have "k \<le> ndigits (dcoeff d) - 1" by (simp add: k_def prec_def)
  then have "(10::nat) ^ k \<le> 10 ^ (ndigits (dcoeff d) - 1)" by (intro power_increasing) auto
  ultimately have "10 ^ k \<le> dcoeff d" by linarith
  then have "dcoeff d div 10 ^ k \<noteq> 0" by (simp add: div_eq_0_iff)
  moreover have "0 < dcoeff d" using calculation by (intro gr0I) simp
  ultimately show ?thesis
    using False by (auto simp: dec_fix_def Let_def k_def [symmetric])
qed

lemma dscale_nonzero: "dcoeff b \<noteq> 0 \<Longrightarrow> dscale b e \<noteq> 0"
  by (simp add: dscale_def dint_def)

lemma abs_quotient:
  fixes a b :: decimal
  defines "e \<equiv> min (dexp a) (dexp b)"
  assumes "dcoeff b \<noteq> 0"
  shows "\<bar>dval a / dval b\<bar> = of_nat (nat \<bar>dscale a e\<bar>) / of_nat (nat \<bar>dscale b e\<bar>)"
  by (simp add: e_def dval_common [where a = a and b = b] abs_mult)

lemma quotient_floor:
  assumes "(y::nat) \<noteq> 0"
  shows "\<lfloor>of_nat x / of_nat y :: rat\<rfloor> = int (x div y)"
  by (simp add: floor_divide_of_nat_eq)

lemma dec_divmod_small_iff:
  fixes a b :: decimal
  defines "e \<equiv> min (dexp a) (dexp b)"
  assumes "dcoeff b \<noteq> 0"
  shows "nat \<bar>dscale a e\<bar> div nat \<bar>dscale b e\<bar> < 10 ^ prec \<longleftrightarrow> \<bar>dval a / dval b\<bar> < 10 ^ prec"
proof -
  let ?x = "nat \<bar>dscale a e\<bar>" and ?y = "nat \<bar>dscale b e\<bar>"
  have "?y \<noteq> 0" using dscale_nonzero [OF assms(2)] by simp
  then have "int (?x div ?y) < 10 ^ prec \<longleftrightarrow> (of_nat ?x / of_nat ?y :: rat) < 10 ^ prec"
    using quotient_floor [of ?y ?x]
    by (metis floor_less_iff of_int_numeral of_int_power)
  moreover have "int (?x div ?y) < 10 ^ prec \<longleftrightarrow> ?x div ?y < 10 ^ prec"
    by (metis of_nat_less_iff of_nat_numeral of_nat_power)
  ultimately show ?thesis
    using abs_quotient [OF assms(2), of a] by (simp only: e_def)
qed

lemma dec_divmod_Inr:
  fixes a b :: decimal
  defines "e \<equiv> min (dexp a) (dexp b)"
  assumes "dcoeff b \<noteq> 0" and "\<bar>dval a / dval b\<bar> < 10 ^ prec"
  shows "dec_divmod a b =
    Inr (Dec (dneg a \<noteq> dneg b) (nat \<bar>dscale a e\<bar> div nat \<bar>dscale b e\<bar>) 0,
         dec_fix (Dec (dneg a) (nat \<bar>dscale a e\<bar> mod nat \<bar>dscale b e\<bar>) e))"
  using dec_divmod_small_iff [OF assms(2), of a] assms(3)
  unfolding dec_divmod_def Let_def e_def by (simp only: if_True)

text \<open>The remainder is zero exactly on the multiples of the divisor.\<close>

lemma dec_mod_zero_iff:
  assumes b: "dcoeff b \<noteq> 0" and small: "\<bar>dval a / dval b\<bar> < 10 ^ prec"
  shows "\<exists>r. dec_mod a b = Inr r \<and> (dval r = 0 \<longleftrightarrow> (\<exists>k::int. dval a = of_int k * dval b))"
proof -
  let ?e = "min (dexp a) (dexp b)"
  let ?x = "nat \<bar>dscale a ?e\<bar>" and ?y = "nat \<bar>dscale b ?e\<bar>"
  let ?r = "dec_fix (Dec (dneg a) (?x mod ?y) ?e)"
  have "dec_mod a b = Inr ?r"
    unfolding dec_mod_def dec_divmod_Inr [OF b small] using b by (simp only: if_False r_bind_simps prod.case)
  moreover have "dval ?r = 0 \<longleftrightarrow> ?x mod ?y = 0"
    by (simp add: dval_zero_iff dec_fix_zero_iff)
  moreover have "?x mod ?y = 0 \<longleftrightarrow> dscale b ?e dvd dscale a ?e"
  proof -
    have "?x mod ?y = 0 \<longleftrightarrow> int ?y dvd int ?x" by (simp only: mod_eq_0_iff_dvd int_dvd_int_iff)
    then show ?thesis by (simp only: int_nat_eq abs_ge_zero if_True abs_dvd_iff dvd_abs_iff)
  qed
  moreover have "dscale b ?e dvd dscale a ?e \<longleftrightarrow> (\<exists>k::int. dval a = of_int k * dval b)"
  proof
    assume "dscale b ?e dvd dscale a ?e"
    then obtain k where "dscale a ?e = dscale b ?e * k" by (rule dvdE)
    then show "\<exists>k::int. dval a = of_int k * dval b"
      by (intro exI [of _ k]) (simp add: dval_common [where a = a and b = b])
  next
    assume "\<exists>k::int. dval a = of_int k * dval b"
    then obtain k :: int where "dval a = of_int k * dval b" by blast
    then have "(of_int (dscale a ?e) :: rat) = of_int (k * dscale b ?e)"
      by (simp add: dval_common [where a = a and b = b])
    then show "dscale b ?e dvd dscale a ?e" by (simp only: of_int_eq_iff) simp
  qed
  ultimately show ?thesis by (intro exI [of _ ?r] conjI) (simp_all only:)
qed

lemma dec_mod_invalid:
  assumes "dcoeff b \<noteq> 0" and "10 ^ prec \<le> \<bar>dval a / dval b\<bar>"
  shows "dec_mod a b = Inl InvalidOperation"
proof -
  have "\<not> \<bar>dval a / dval b\<bar> < 10 ^ prec" unfolding not_less by (rule assms(2))
  then have "dec_divmod a b = Inl InvalidOperation"
    using dec_divmod_small_iff [OF assms(1), of a] unfolding dec_divmod_def Let_def by (simp only: if_False)
  then show ?thesis unfolding dec_mod_def using assms(1) by (simp only: if_False r_bind_simps)
qed

lemma dec_floordiv_val:
  assumes "0 \<le> dval a" and b: "0 < dval b" and small: "dval a / dval b < 10 ^ prec"
  shows "\<exists>q. dec_floordiv a b = Inr q \<and> dval q = of_int \<lfloor>dval a / dval b\<rfloor> \<and>
           dcoeff q = nat \<lfloor>dval a / dval b\<rfloor>"
proof -
  let ?e = "min (dexp a) (dexp b)"
  let ?x = "nat \<bar>dscale a ?e\<bar>" and ?y = "nat \<bar>dscale b ?e\<bar>"
  have b0: "dcoeff b \<noteq> 0" using b by (auto simp: dval_pos_iff dint_def split: if_splits)
  have nn: "0 \<le> dval a / dval b" using assms by simp
  have q: "dec_floordiv a b = Inr (Dec (dneg a \<noteq> dneg b) (?x div ?y) 0)"
  proof -
    have "\<bar>dval a / dval b\<bar> < 10 ^ prec" unfolding abs_of_nonneg [OF nn] by (rule small)
    from dec_divmod_Inr [OF b0 this] show ?thesis
      unfolding dec_floordiv_def using b0 by (simp only: if_False r_bind_simps prod.case)
  qed
  have fl: "int (?x div ?y) = \<lfloor>dval a / dval b\<rfloor>"
  proof -
    have y0: "?y \<noteq> 0" using dscale_nonzero [OF b0] by simp
    have "\<lfloor>\<bar>dval a / dval b\<bar>\<rfloor> = int (?x div ?y)"
      unfolding abs_quotient [OF b0, of a] by (rule quotient_floor [OF y0])
    then show ?thesis unfolding abs_of_nonneg [OF nn] by (rule sym)
  qed
  have "dneg a \<noteq> dneg b \<Longrightarrow> ?x div ?y = 0"
  proof -
    assume "dneg a \<noteq> dneg b"
    with b have "dneg a" by (simp add: dval_pos_iff dint_def split: if_splits)
    with assms(1) have "dscale a ?e = 0" by (simp add: dval_nonneg_iff dint_def dscale_def)
    then show ?thesis by simp
  qed
  then have "dint (Dec (dneg a \<noteq> dneg b) (?x div ?y) 0) = int (?x div ?y)"
    by (simp add: dint_def)
  then have "dval (Dec (dneg a \<noteq> dneg b) (?x div ?y) 0) = of_int \<lfloor>dval a / dval b\<rfloor>"
    unfolding dval_def [of "Dec _ _ _"] fl [symmetric] by simp
  moreover have "dcoeff (Dec (dneg a \<noteq> dneg b) (?x div ?y) 0) = nat \<lfloor>dval a / dval b\<rfloor>"
    by (simp add: fl [symmetric])
  ultimately show ?thesis using q by blast
qed

lemma dec_floordiv_nonpos:
  assumes "dval a \<le> 0" and b: "0 < dval b" and small: "- (dval a / dval b) < 10 ^ prec"
  shows "\<exists>q. dec_floordiv a b = Inr q \<and> dval q \<le> 0 \<and> dcoeff q < 10 ^ prec \<and>
           dval q = - of_int \<lfloor>- (dval a / dval b)\<rfloor> \<and> dexp q = 0"
proof -
  let ?e = "min (dexp a) (dexp b)"
  let ?x = "nat \<bar>dscale a ?e\<bar>" and ?y = "nat \<bar>dscale b ?e\<bar>"
  have b0: "dcoeff b \<noteq> 0" and nb: "\<not> dneg b" using b by (auto simp: dval_pos_iff dint_def split: if_splits)
  have np: "dval a / dval b \<le> 0" using assms by (simp add: divide_nonpos_pos)
  have abs: "\<bar>dval a / dval b\<bar> = - (dval a / dval b)" using np by (rule abs_of_nonpos)
  have lt: "?x div ?y < 10 ^ prec"
    using small dec_divmod_small_iff [OF b0, of a] unfolding abs by blast
  have q: "dec_floordiv a b = Inr (Dec (dneg a) (?x div ?y) 0)"
  proof -
    have "\<bar>dval a / dval b\<bar> < 10 ^ prec" unfolding abs by (rule small)
    from dec_divmod_Inr [OF b0 this] show ?thesis
      unfolding dec_floordiv_def using b0 nb by (simp only: if_False r_bind_simps prod.case) simp
  qed
  have fl: "int (?x div ?y) = \<lfloor>- (dval a / dval b)\<rfloor>"
  proof -
    have y0: "?y \<noteq> 0" using dscale_nonzero [OF b0] by simp
    have "\<lfloor>\<bar>dval a / dval b\<bar>\<rfloor> = int (?x div ?y)"
      unfolding abs_quotient [OF b0, of a] by (rule quotient_floor [OF y0])
    then show ?thesis unfolding abs by (rule sym)
  qed
  have z: "\<not> dneg a \<Longrightarrow> ?x div ?y = 0"
    using assms(1) by (auto simp: dval_def dint_def dscale_def mult_le_0_iff)
  have di: "dint (Dec (dneg a) (?x div ?y) 0) = - int (?x div ?y)"
    using z by (auto simp: dint_def)
  have v: "dval (Dec (dneg a) (?x div ?y) 0) = - of_int \<lfloor>- (dval a / dval b)\<rfloor>"
    by (simp only: dval_exp0 di fl of_int_minus)
  have le: "dval (Dec (dneg a) (?x div ?y) 0) \<le> 0"
    by (simp only: dval_exp0 di of_int_minus of_int_of_nat_eq neg_le_0_iff_le of_nat_0_le_iff)
  have c: "dcoeff (Dec (dneg a) (?x div ?y) 0) < 10 ^ prec" by (subst decimal.sel) (rule lt)
  have e0: "dexp (Dec (dneg a) (?x div ?y) 0) = 0" by (simp only: decimal.sel)
  show ?thesis using q le c v e0 by blast
qed

lemma dec_fix_sign: "dneg (dec_fix d) = dneg d"
  by (simp add: dec_fix_def Let_def)

lemma dval_dec_mul_nonpos:
  assumes "dval a \<le> 0" and "0 < dval b"
  shows "dval (dec_mul a b) \<le> 0"
proof (cases "dcoeff a = 0")
  case True
  then have "dcoeff (dec_mul a b) = 0" by (simp add: dec_mul_def dec_fix_zero_iff)
  then show ?thesis by (simp add: dval_zero_iff [THEN iffD2])
next
  case False
  then have "dneg a" using assms(1) dval_pos_iff [of a] dint_pos_iff [of a] by auto
  moreover have "\<not> dneg b" using assms(2) by (simp add: dval_pos_iff dint_pos_iff)
  ultimately have "dneg (dec_mul a b)" by (simp add: dec_mul_def dec_fix_sign)
  then show ?thesis using dval_pos_iff [of "dec_mul a b"] dint_pos_iff [of "dec_mul a b"] by (simp add: not_less [symmetric])
qed

end
