(* ===== verification/Decimal_Text.thy ===== *)
theory Decimal_Text
  imports Py_Decimal
begin

text \<open>
  Decimals as text: decimal digits of naturals, the constructor \<open>Decimal(str)\<close> (sign, digits,
  fraction, exponent, infinities and NaNs, underscores ignored), \<open>format(d, "f")\<close> and \<open>str(d)\<close>.
  Digits are the ASCII digits.
\<close>

section \<open>Digits\<close>

definition is_digit :: "char \<Rightarrow> bool" where
  "is_digit c \<longleftrightarrow> 48 \<le> (of_char c :: nat) \<and> (of_char c :: nat) \<le> 57"

definition digit_val :: "char \<Rightarrow> nat" where
  "digit_val c = of_char c - 48"

definition digit_char :: "nat \<Rightarrow> char" where
  "digit_char n = char_of (48 + n)"

lemma of_char_digit_char: "n < 10 \<Longrightarrow> (of_char (digit_char n) :: nat) = 48 + n"
  by (simp add: digit_char_def)

lemma digit_char_props [simp]:
  "n < 10 \<Longrightarrow> is_digit (digit_char n)"
  "n < 10 \<Longrightarrow> digit_val (digit_char n) = n"
  by (simp_all add: is_digit_def digit_val_def of_char_digit_char)

lemma digit_char_0: "digit_char 0 = CHR ''0''"
  unfolding digit_char_def by code_simp

fun digits_val :: "string \<Rightarrow> nat" where
  "digits_val [] = 0"
| "digits_val (c # cs) = digit_val c * 10 ^ length cs + digits_val cs"

lemma digits_val_append: "digits_val (s @ t) = digits_val s * 10 ^ length t + digits_val t"
  by (induction s) (simp_all add: algebra_simps power_add)

lemma digits_val_zeros [simp]: "digits_val (replicate n (CHR ''0'')) = 0"
  by (induction n) (simp_all add: digit_val_def)

fun nat_str :: "nat \<Rightarrow> string" where
  "nat_str n = (if n < 10 then [digit_char n] else nat_str (n div 10) @ [digit_char (n mod 10)])"

declare nat_str.simps [simp del]

lemma nat_str_digits: "list_all is_digit (nat_str n)"
proof (induction n rule: nat_str.induct)
  case (1 n)
  then show ?case by (subst nat_str.simps) auto
qed

lemma nat_str_nonempty [simp]: "nat_str n \<noteq> []"
  by (subst nat_str.simps) simp

lemma digits_val_nat_str [simp]: "digits_val (nat_str n) = n"
proof (induction n rule: nat_str.induct)
  case (1 n)
  then show ?case by (subst nat_str.simps) (auto simp: digits_val_append)
qed

lemma nat_str_inject [simp]: "nat_str m = nat_str n \<longleftrightarrow> m = n"
  by (metis digits_val_nat_str)

text \<open>Exactly \<open>k\<close> digits, padded with zeros on the left.\<close>

fun fixed_digits :: "nat \<Rightarrow> nat \<Rightarrow> string" where
  "fixed_digits 0 x = []"
| "fixed_digits (Suc k) x = fixed_digits k (x div 10) @ [digit_char (x mod 10)]"

lemma length_fixed_digits [simp]: "length (fixed_digits k x) = k"
  by (induction k arbitrary: x) simp_all

lemma fixed_digits_digits: "list_all is_digit (fixed_digits k x)"
  by (induction k arbitrary: x) simp_all

lemma digits_val_fixed_digits: "digits_val (fixed_digits k x) = x mod 10 ^ k"
proof (induction k arbitrary: x)
  case (Suc k)
  have "x mod 10 ^ Suc k = x div 10 mod 10 ^ k * 10 + x mod 10"
    by (metis add.commute mod_mult2_eq mult.commute power_Suc)
  with Suc show ?case by (simp add: digits_val_append)
qed simp

lemma fixed_digits_shift:
  "fixed_digits (k + j) (x * 10 ^ j) = fixed_digits k x @ replicate j (CHR ''0'')"
proof (induction j)
  case (Suc j)
  have "x * 10 ^ Suc j div 10 = x * 10 ^ j" "x * 10 ^ Suc j mod 10 = 0" by simp_all
  then have "fixed_digits (k + Suc j) (x * 10 ^ Suc j) =
      fixed_digits (k + j) (x * 10 ^ j) @ [CHR ''0'']"
    by (simp add: digit_char_0)
  with Suc show ?case by (simp add: replicate_append_same)
qed simp

section \<open>Printing\<close>

definition format_f :: "decimal \<Rightarrow> string" where
  "format_f d =
     (if dneg d then ''-'' else '''') @
     (if 0 \<le> dexp d then nat_str (dcoeff d * 10 ^ nat (dexp d))
      else let k = nat (- dexp d)
           in nat_str (dcoeff d div 10 ^ k) @ ''.'' @ fixed_digits k (dcoeff d mod 10 ^ k))"

definition int_str_signed :: "int \<Rightarrow> string" where
  "int_str_signed n = (if n < 0 then ''-'' else ''+'') @ nat_str (nat \<bar>n\<bar>)"

text \<open>\<open>str(d)\<close>: plain notation while the exponent is not positive and the number is not tiny,
  scientific notation otherwise.\<close>

definition dec_str :: "decimal \<Rightarrow> string" where
  "dec_str d =
     (let ds = nat_str (dcoeff d); n = int (length ds); left = dexp d + n;
          dot = (if dexp d \<le> 0 \<and> - 6 < left then left else 1);
          body = (if dot \<le> 0 then ''0.'' @ replicate (nat (- dot)) (CHR ''0'') @ ds
                  else if n \<le> dot then ds @ replicate (nat (dot - n)) (CHR ''0'')
                  else take (nat dot) ds @ ''.'' @ drop (nat dot) ds)
      in (if dneg d then ''-'' else '''') @ body @
         (if left = dot then '''' else ''E'' @ int_str_signed (left - dot)))"

section \<open>Parsing\<close>

datatype py_number = PFinite decimal | PInfinite bool | PNaN

definition split_sign :: "string \<Rightarrow> bool \<times> string" where
  "split_sign s =
     (case s of
        [] \<Rightarrow> (False, s)
      | c # cs \<Rightarrow> if c = CHR ''-'' then (True, cs) else if c = CHR ''+'' then (False, cs) else (False, s))"

definition parse_exponent :: "string \<Rightarrow> int option" where
  "parse_exponent s =
     (case s of
        [] \<Rightarrow> Some 0
      | c # cs \<Rightarrow>
          if c = CHR ''e'' \<or> c = CHR ''E''
          then let (neg, ds) = split_sign cs
               in if ds \<noteq> [] \<and> list_all is_digit ds
                  then Some (if neg then - int (digits_val ds) else int (digits_val ds))
                  else None
          else None)"

definition parse_digits :: "bool \<Rightarrow> string \<Rightarrow> decimal option" where
  "parse_digits neg s =
     (let ip = takeWhile is_digit s; rest = dropWhile is_digit s;
          (fp, tail) = (case rest of
             c # cs \<Rightarrow> if c = CHR ''.'' then (takeWhile is_digit cs, dropWhile is_digit cs) else ([], rest)
           | [] \<Rightarrow> ([], []))
      in if ip = [] \<and> fp = [] then None
         else map_option (\<lambda>e. Dec neg (digits_val (ip @ fp)) (e - int (length fp))) (parse_exponent tail))"

definition dec_of_string :: "string \<Rightarrow> py_number option" where
  "dec_of_string s =
     (let (neg, body) = split_sign (filter (\<lambda>c. c \<noteq> CHR ''_'') (strip s)); l = lower body
      in if l = ''inf'' \<or> l = ''infinity'' then Some (PInfinite neg)
         else if take 3 l = ''nan'' \<and> list_all is_digit (drop 3 l) then Some PNaN
         else if take 4 l = ''snan'' \<and> list_all is_digit (drop 4 l) then Some PNaN
         else map_option PFinite (parse_digits neg body))"

section \<open>Reading back a printed number\<close>

lemma digit_not_special:
  assumes "is_digit c"
  shows "c \<noteq> CHR ''-''" "c \<noteq> CHR ''+''" "c \<noteq> CHR ''_''" "c \<noteq> CHR ''.''" "\<not> is_space c"
    "lower_char c = c" "c \<noteq> CHR ''i''" "c \<noteq> CHR ''n''" "c \<noteq> CHR ''s''"
  using assms by (auto simp: is_digit_def is_space_def lower_char_def Let_def)

lemma takeWhile_digits:
  "list_all is_digit s \<Longrightarrow> \<not> is_digit c \<Longrightarrow> takeWhile is_digit (s @ c # t) = s"
  "list_all is_digit s \<Longrightarrow> \<not> is_digit c \<Longrightarrow> dropWhile is_digit (s @ c # t) = c # t"
  "list_all is_digit s \<Longrightarrow> takeWhile is_digit s = s"
  "list_all is_digit s \<Longrightarrow> dropWhile is_digit s = []"
  by (induction s) auto

lemma parse_digits_plain:
  assumes "list_all is_digit ip" "ip \<noteq> []" "list_all is_digit fp"
  shows "parse_digits neg (ip @ ''.'' @ fp) = Some (Dec neg (digits_val (ip @ fp)) (- int (length fp)))"
proof -
  have dot: "\<not> is_digit (CHR ''.'')" by (simp add: is_digit_def)
  show ?thesis
    using assms
    by (simp add: parse_digits_def takeWhile_digits dot parse_exponent_def)
qed

lemma dec_of_string_plain:
  assumes "list_all is_digit ip" "ip \<noteq> []" "list_all is_digit fp"
  shows "dec_of_string (ip @ ''.'' @ fp) =
    Some (PFinite (Dec False (digits_val (ip @ fp)) (- int (length fp))))"
proof -
  let ?s = "ip @ ''.'' @ fp"
  from assms(1,2) obtain c cs where ip: "ip = c # cs" and c: "is_digit c" by (cases ip) auto
  have strip: "strip ?s = ?s"
  proof (rule strip_no_space)
    have "\<not> is_space (CHR ''.'')" by (simp add: is_space_def)
    then show "list_all (\<lambda>c. \<not> is_space c) ?s"
      using assms(1,3) by (auto simp: list_all_iff digit_not_special)
  qed
  have filt: "filter (\<lambda>c. c \<noteq> CHR ''_'') ?s = ?s"
    using assms(1,3) by (intro filter_True) (auto simp: list_all_iff dest: digit_not_special(3))
  have sgn: "split_sign ?s = (False, ?s)"
    using c by (simp add: split_sign_def ip digit_not_special)
  have "hd (lower ?s) = c" "lower ?s \<noteq> []"
    using c by (simp_all add: lower_def ip digit_not_special)
  then have words: "lower ?s \<noteq> ''inf''" "lower ?s \<noteq> ''infinity''" "take 3 (lower ?s) \<noteq> ''nan''"
    "take 4 (lower ?s) \<noteq> ''snan''"
    using c by (auto dest!: arg_cong [of _ _ hd] dest: digit_not_special(7-9))
  show ?thesis
    unfolding dec_of_string_def strip filt sgn Let_def prod.case parse_digits_plain [OF assms]
    using words by (simp only: if_False simp_thms option.map)
qed

end
