(* ===== verification/Price.thy ===== *)
theory Price
  imports Decimal_Text
begin

text \<open>
  \<open>domain/price.py\<close>: the tick-size tables of the exchange, parsing and validation of a price,
  the nearest legal prices below and above a price, and the canonical text of a price. The
  lemmas relate every operation to the tick grid of the exchange, stated over rational values
  (\<open>tick_val\<close>, \<open>on_tick\<close>), and show that the text of a price is a canonical form.
\<close>

section \<open>The source\<close>

definition format_price_str :: "decimal \<Rightarrow> string" where
  "format_price_str value =
     (let s = format_f value;
          integer_part = takeWhile (\<lambda>c. c \<noteq> CHR ''.'') s;
          decimal_part = drop (Suc (length integer_part)) s;
          decimal_part' = ljust 2 (CHR ''0'') (rstrip_char (CHR ''0'') decimal_part)
      in integer_part @ ''.'' @ decimal_part')"

definition STOCK_TICK_TABLE :: "(decimal \<times> decimal) list" where
  "STOCK_TICK_TABLE =
     [(Dec False 10 0, Dec False 1 (-2)),
      (Dec False 50 0, Dec False 5 (-2)),
      (Dec False 100 0, Dec False 1 (-1)),
      (Dec False 500 0, Dec False 5 (-1)),
      (Dec False 1000 0, Dec False 1 0)]"

definition STOCK_TICK_ABOVE_1000 :: decimal where
  "STOCK_TICK_ABOVE_1000 = Dec False 5 0"

definition ETF_TICK_TABLE :: "(decimal \<times> decimal) list" where
  "ETF_TICK_TABLE = [(Dec False 50 0, Dec False 1 (-2))]"

definition ETF_TICK_ABOVE_50 :: decimal where
  "ETF_TICK_ABOVE_50 = Dec False 5 (-2)"

datatype security_type = STOCK | ETF

record price_request =
  pr_type :: security_type
  pr_price :: string
  pr_amount :: int

datatype price_error =
    InvalidPriceError string string
  | InvalidTickSizeError string string decimal decimal "string option"
  | InvalidAmountError int string
  | InvalidTypeError string string
  | PriceArithmetic dec_error

definition lift_dec :: "dec_error + 'a \<Rightarrow> price_error + 'a" where
  "lift_dec r = (case r of Inl e \<Rightarrow> Inl (PriceArithmetic e) | Inr x \<Rightarrow> Inr x)"

lemma lift_dec_simps [simp, bind_simps]:
  "lift_dec (Inl e) = Inl (PriceArithmetic e)"
  "lift_dec (Inr x) = Inr x"
  by (simp_all add: lift_dec_def)

definition parse :: "string \<Rightarrow> price_error + decimal" where
  "parse value =
     (if value \<noteq> strip value
      then Inl (InvalidPriceError value ''must not contain leading or trailing whitespace'')
      else if CHR '','' \<in> set value
      then Inl (InvalidPriceError value ''Comma is not allowed in price'')
      else case dec_of_string value of
          None \<Rightarrow> Inl (InvalidPriceError value ''cannot be parsed as a number'')
        | Some (PFinite result) \<Rightarrow>
            if dec_le result dec_zero
            then Inl (InvalidPriceError value ''must be greater than zero'')
            else Inr result
        | Some _ \<Rightarrow> Inl (InvalidPriceError value ''must be a finite number''))"

fun tick_in_table :: "(decimal \<times> decimal) list \<Rightarrow> decimal \<Rightarrow> decimal \<Rightarrow> decimal" where
  "tick_in_table [] beyond price = beyond"
| "tick_in_table ((upper, tick) # rest) beyond price =
     (if dec_less price upper then tick else tick_in_table rest beyond price)"

definition lookup_tick_size :: "security_type \<Rightarrow> decimal \<Rightarrow> decimal" where
  "lookup_tick_size security_type price =
     (case security_type of
        ETF \<Rightarrow> tick_in_table ETF_TICK_TABLE ETF_TICK_ABOVE_50 price
      | STOCK \<Rightarrow> tick_in_table STOCK_TICK_TABLE STOCK_TICK_ABOVE_1000 price)"

definition is_valid_tick :: "security_type \<Rightarrow> decimal \<Rightarrow> dec_error + bool" where
  "is_valid_tick security_type price =
     (let tick = lookup_tick_size security_type price
      in r_bind (dec_mod price tick) (\<lambda>r. Inr (dec_eq r dec_zero)))"

definition nearest_lower :: "security_type \<Rightarrow> decimal \<Rightarrow> dec_error + decimal" where
  "nearest_lower security_type price =
     (let tick = lookup_tick_size security_type price
      in r_bind (dec_floordiv price tick) (\<lambda>q.
           let lower = dec_mul q tick in Inr (dec_max lower tick)))"

definition nearest_upper :: "security_type \<Rightarrow> decimal \<Rightarrow> dec_error + decimal" where
  "nearest_upper security_type price =
     (let tick = lookup_tick_size security_type price
      in r_bind (dec_floordiv price tick) (\<lambda>q.
           let lower = dec_mul q tick
           in Inr (if dec_eq lower price then lower else dec_add lower tick)))"

definition round_down_to_tick :: "security_type \<Rightarrow> decimal \<Rightarrow> dec_error + decimal" where
  "round_down_to_tick security_type price = nearest_lower security_type price"

definition fixed_amount_tick_size :: "security_type \<Rightarrow> decimal" where
  "fixed_amount_tick_size security_type =
     (case security_type of ETF \<Rightarrow> Dec False 5 (-2) | STOCK \<Rightarrow> Dec False 1 (-1))"

definition validate_fixed_amount_tick :: "security_type \<Rightarrow> decimal \<Rightarrow> price_error + unit" where
  "validate_fixed_amount_tick security_type value =
     (let tick = fixed_amount_tick_size security_type
      in r_bind (lift_dec (dec_mod value tick)) (\<lambda>r.
           if dec_eq r dec_zero then Inr ()
           else r_bind (lift_dec (dec_floordiv value tick)) (\<lambda>q.
             let lower = dec_mul q tick
             in Inl (InvalidTickSizeError (dec_str value)
                  (''not a valid fixed amount tick multiple (tick size is '' @ dec_str tick @ '')'')
                  (dec_max lower tick) (dec_add lower tick) (Some ''trailValue'')))))"

definition validate :: "price_request \<Rightarrow> price_error + decimal" where
  "validate request =
     (if pr_amount request \<le> 0
      then Inl (InvalidAmountError (pr_amount request) ''must be greater than zero'')
      else r_bind (parse (pr_price request)) (\<lambda>price.
        r_bind (lift_dec (is_valid_tick (pr_type request) price)) (\<lambda>ok.
          if ok then Inr price
          else let tick = lookup_tick_size (pr_type request) price
               in r_bind (lift_dec (nearest_lower (pr_type request) price)) (\<lambda>lo.
                  r_bind (lift_dec (nearest_upper (pr_type request) price)) (\<lambda>up.
                    Inl (InvalidTickSizeError (pr_price request)
                      (''not a valid tick multiple (tick size for this range is '' @ dec_str tick @ '')'')
                      lo up None))))))"

section \<open>The tick grid\<close>

definition tick_val :: "security_type \<Rightarrow> rat \<Rightarrow> rat" where
  "tick_val st v =
     (case st of
        ETF \<Rightarrow> if v < 50 then 1/100 else 1/20
      | STOCK \<Rightarrow> if v < 10 then 1/100 else if v < 50 then 1/20 else if v < 100 then 1/10
                 else if v < 500 then 1/2 else if v < 1000 then 1 else 5)"

definition on_tick :: "security_type \<Rightarrow> rat \<Rightarrow> bool" where
  "on_tick st v \<longleftrightarrow> (\<exists>k::int. v = of_int k * tick_val st v)"

lemma tick_val_pos [simp]:
  "0 < tick_val st v" "tick_val st v \<noteq> 0" "\<not> tick_val st v < 0" "0 \<le> tick_val st v"
  "\<bar>tick_val st v\<bar> = tick_val st v"
  by (auto simp: tick_val_def split: security_type.splits)

lemma dval_simps:
  "dval (Dec False c 0) = of_nat c"
  "dval (Dec False c (-1)) = of_nat c / 10"
  "dval (Dec False c (-2)) = of_nat c / 100"
  using dval_Dec_neg_exp [of False c 1] dval_Dec_neg_exp [of False c 2]
  by (simp_all add: dval_exp0 dint_def)

lemmas tick_tables = STOCK_TICK_TABLE_def STOCK_TICK_ABOVE_1000_def ETF_TICK_TABLE_def ETF_TICK_ABOVE_50_def

lemma dval_lookup_tick_size: "dval (lookup_tick_size st p) = tick_val st (dval p)"
  by (auto simp: lookup_tick_size_def tick_tables dec_less_iff dval_simps tick_val_def
      split: security_type.splits)

lemma lookup_tick_size_coeff:
  "0 < dcoeff (lookup_tick_size st p)" "dcoeff (lookup_tick_size st p) \<le> 5"
  "\<not> dneg (lookup_tick_size st p)" "dexp (lookup_tick_size st p) \<in> {-2, -1, 0}"
  by (auto simp: lookup_tick_size_def tick_tables split: security_type.splits)

text \<open>The bucket of a positive price: its tick, the lower end of the bucket and, unless it is the
  last one, its upper end, both multiples of the tick.\<close>

definition bucket :: "security_type \<Rightarrow> rat \<Rightarrow> int \<Rightarrow> int option \<Rightarrow> bool" where
  "bucket st v m H \<longleftrightarrow>
     (let t = tick_val st v in
      0 \<le> m \<and> of_int m * t \<le> v \<and>
      (\<forall>w. of_int m * t \<le> w \<and> w \<le> v \<longrightarrow> tick_val st w = t) \<and>
      (case H of
         None \<Rightarrow> \<forall>w. v \<le> w \<longrightarrow> tick_val st w = t
       | Some h \<Rightarrow> v < of_int h * t \<and> on_tick st (of_int h * t) \<and>
           (\<forall>w. v \<le> w \<and> w < of_int h * t \<longrightarrow> tick_val st w = t)))"

lemma on_tick_boundaries:
  "on_tick STOCK 10" "on_tick STOCK 50" "on_tick STOCK 100" "on_tick STOCK 500" "on_tick STOCK 1000"
  "on_tick ETF 50"
  unfolding on_tick_def tick_val_def
  by (rule exI [of _ 200], simp, rule exI [of _ 500], simp, rule exI [of _ 200], simp,
      rule exI [of _ 500], simp, rule exI [of _ 200], simp, rule exI [of _ 1000], simp)

lemma bucketD:
  assumes "bucket st v m H"
  shows "of_int m * tick_val st v \<le> v"
    and "of_int m * tick_val st v \<le> w \<Longrightarrow> w \<le> v \<Longrightarrow> tick_val st w = tick_val st v"
  using assms unfolding bucket_def Let_def by blast+

lemma bucket_None: "bucket st v m None \<Longrightarrow> v \<le> w \<Longrightarrow> tick_val st w = tick_val st v"
  unfolding bucket_def Let_def option.case by blast

lemma bucket_Some:
  assumes "bucket st v m (Some h)"
  shows "v < of_int h * tick_val st v" "on_tick st (of_int h * tick_val st v)"
    and "v \<le> w \<Longrightarrow> w < of_int h * tick_val st v \<Longrightarrow> tick_val st w = tick_val st v"
  using assms unfolding bucket_def Let_def option.case by blast+

lemma bucket_exists: "0 < v \<Longrightarrow> \<exists>m H. bucket st v m H"
proof (cases st)
  case ETF
  assume "0 < v"
  then show ?thesis
  proof (cases "v < 50")
    case True
    with ETF \<open>0 < v\<close> show ?thesis
      by (intro exI [of _ 0] exI [of _ "Some 5000"]) (auto simp: bucket_def tick_val_def on_tick_boundaries)
  next
    case False
    with ETF show ?thesis
      by (intro exI [of _ 1000] exI [of _ None]) (auto simp: bucket_def tick_val_def)
  qed
next
  case STOCK
  assume "0 < v"
  consider "v < 10" | "10 \<le> v" "v < 50" | "50 \<le> v" "v < 100" | "100 \<le> v" "v < 500"
    | "500 \<le> v" "v < 1000" | "1000 \<le> v" by linarith
  then show ?thesis
  proof cases
    case 1
    with STOCK \<open>0 < v\<close> show ?thesis
      by (intro exI [of _ 0] exI [of _ "Some 1000"]) (auto simp: bucket_def tick_val_def on_tick_boundaries)
  next
    case 2
    with STOCK show ?thesis
      by (intro exI [of _ 200] exI [of _ "Some 1000"]) (auto simp: bucket_def tick_val_def on_tick_boundaries)
  next
    case 3
    with STOCK show ?thesis
      by (intro exI [of _ 500] exI [of _ "Some 1000"]) (auto simp: bucket_def tick_val_def on_tick_boundaries)
  next
    case 4
    with STOCK show ?thesis
      by (intro exI [of _ 200] exI [of _ "Some 1000"]) (auto simp: bucket_def tick_val_def on_tick_boundaries)
  next
    case 5
    with STOCK show ?thesis
      by (intro exI [of _ 500] exI [of _ "Some 1000"]) (auto simp: bucket_def tick_val_def on_tick_boundaries)
  next
    case 6
    with STOCK show ?thesis
      by (intro exI [of _ 200] exI [of _ None]) (auto simp: bucket_def tick_val_def)
  qed
qed

definition lower_tick :: "security_type \<Rightarrow> rat \<Rightarrow> rat" where
  "lower_tick st v = of_int \<lfloor>v / tick_val st v\<rfloor> * tick_val st v"

definition upper_tick :: "security_type \<Rightarrow> rat \<Rightarrow> rat" where
  "upper_tick st v = of_int \<lceil>v / tick_val st v\<rceil> * tick_val st v"

lemma lower_tick_le: "lower_tick st v \<le> v"
proof -
  have "of_int \<lfloor>v / tick_val st v\<rfloor> \<le> v / tick_val st v" by (rule of_int_floor_le)
  then show ?thesis by (simp only: lower_tick_def pos_le_divide_eq [OF tick_val_pos(1)])
qed

lemma upper_tick_ge: "v \<le> upper_tick st v"
proof -
  have "v / tick_val st v \<le> of_int \<lceil>v / tick_val st v\<rceil>" by (rule le_of_int_ceiling)
  then show ?thesis by (simp only: upper_tick_def pos_divide_le_eq [OF tick_val_pos(1)])
qed

lemma lower_tick_ge_multiple: "of_int k * tick_val st v \<le> v \<Longrightarrow> of_int k * tick_val st v \<le> lower_tick st v"
  by (simp add: lower_tick_def le_floor_iff pos_le_divide_eq)

lemma upper_tick_le_multiple: "v \<le> of_int k * tick_val st v \<Longrightarrow> upper_tick st v \<le> of_int k * tick_val st v"
  by (simp add: upper_tick_def ceiling_le_iff pos_divide_le_eq)

lemma tick_val_lower_tick:
  assumes "0 < v"
  shows "tick_val st (lower_tick st v) = tick_val st v"
proof -
  from bucket_exists [OF assms] obtain m H where "bucket st v m H" by blast
  then show ?thesis
    using bucketD(2) [OF _ lower_tick_ge_multiple lower_tick_le] bucketD(1) by blast
qed

lemma on_tick_lower_tick: "0 < v \<Longrightarrow> on_tick st (lower_tick st v)"
  unfolding on_tick_def tick_val_lower_tick by (auto simp: lower_tick_def)

text \<open>The rounded price is the greatest legal price below, and the least one above.\<close>

lemma lower_tick_greatest:
  assumes "0 < v" and "on_tick st w" and "w \<le> v"
  shows "w \<le> lower_tick st v"
proof -
  from bucket_exists [OF assms(1)] obtain m H where b: "bucket st v m H" by blast
  show ?thesis
  proof (cases "of_int m * tick_val st v \<le> w")
    case True
    with b assms(3) have "tick_val st w = tick_val st v" by (intro bucketD(2))
    with assms(2) obtain k where "w = of_int k * tick_val st v" by (auto simp: on_tick_def)
    with assms(3) show ?thesis by (auto intro: lower_tick_ge_multiple)
  next
    case False
    moreover have "of_int m * tick_val st v \<le> lower_tick st v"
      using b by (intro lower_tick_ge_multiple bucketD(1))
    ultimately show ?thesis by linarith
  qed
qed

lemma upper_tick_bucket:
  assumes "0 < v"
  shows "on_tick st (upper_tick st v) \<and> (\<forall>w. on_tick st w \<and> v \<le> w \<longrightarrow> upper_tick st v \<le> w)"
proof -
  let ?t = "tick_val st v"
  from bucket_exists [OF assms] obtain m H where b: "bucket st v m H" by blast
  show ?thesis
  proof (cases H)
    case None
    with b have same: "v \<le> w \<Longrightarrow> tick_val st w = ?t" for w by (blast dest: bucket_None)
    have "on_tick st (upper_tick st v)"
      unfolding on_tick_def same [OF upper_tick_ge] by (auto simp: upper_tick_def)
    moreover have "upper_tick st v \<le> w" if "on_tick st w" "v \<le> w" for w
    proof -
      from \<open>on_tick st w\<close> obtain k where "w = of_int k * ?t"
        unfolding on_tick_def same [OF \<open>v \<le> w\<close>] by blast
      with \<open>v \<le> w\<close> show ?thesis by (auto intro: upper_tick_le_multiple)
    qed
    ultimately show ?thesis by blast
  next
    case (Some h)
    with b have h: "v < of_int h * ?t" "on_tick st (of_int h * ?t)"
      and same: "\<And>w. v \<le> w \<Longrightarrow> w < of_int h * ?t \<Longrightarrow> tick_val st w = ?t"
      using bucket_Some by blast+
    have le: "upper_tick st v \<le> of_int h * ?t" using h(1) by (intro upper_tick_le_multiple) simp
    have "on_tick st (upper_tick st v)"
    proof (cases "upper_tick st v < of_int h * ?t")
      case True
      from same [OF upper_tick_ge True] show ?thesis unfolding on_tick_def by (auto simp: upper_tick_def)
    next
      case False
      with le have "upper_tick st v = of_int h * ?t" by linarith
      with h(2) show ?thesis by simp
    qed
    moreover have "upper_tick st v \<le> w" if "on_tick st w" "v \<le> w" for w
    proof (cases "w < of_int h * ?t")
      case True
      with that same obtain k where "w = of_int k * ?t" by (metis on_tick_def)
      with that show ?thesis by (auto intro: upper_tick_le_multiple)
    next
      case False
      with le show ?thesis by linarith
    qed
    ultimately show ?thesis by blast
  qed
qed

lemma lower_tick_mono:
  assumes "0 < v" and "v \<le> w"
  shows "lower_tick st v \<le> lower_tick st w"
  using assms lower_tick_le [of st v]
  by (intro lower_tick_greatest on_tick_lower_tick) auto

section \<open>The operations on the grid\<close>

text \<open>Prices below this bound are computed without rounding and without overflow.\<close>

abbreviation price_bound :: rat where
  "price_bound \<equiv> 10 ^ 24"

lemma tick_val_bounds: "1/100 \<le> tick_val st v" "tick_val st v \<le> 5"
  by (auto simp: tick_val_def split: security_type.splits)

lemma small_quotient:
  assumes "\<bar>v\<bar> < price_bound"
  shows "\<bar>v / tick_val st v\<bar> < 10 ^ 26"
proof -
  have "\<bar>v / tick_val st v\<bar> = \<bar>v\<bar> / tick_val st v" by (simp add: abs_divide)
  also have "\<dots> \<le> \<bar>v\<bar> / (1/100)" by (rule divide_left_mono [OF tick_val_bounds(1)]) simp_all
  also have "\<dots> < 10 ^ 26" using assms by simp
  finally show ?thesis .
qed

lemma lookup_tick_size_pos: "0 < dval (lookup_tick_size st p)" "dcoeff (lookup_tick_size st p) \<noteq> 0"
  using lookup_tick_size_coeff(1) [of st p] by (simp_all add: dval_lookup_tick_size)

lemma is_valid_tick_iff:
  assumes "\<bar>dval p / tick_val st (dval p)\<bar> < 10 ^ prec"
  shows "is_valid_tick st p = Inr (on_tick st (dval p))"
proof -
  obtain r where r: "dec_mod p (lookup_tick_size st p) = Inr r"
    and z: "dval r = 0 \<longleftrightarrow> (\<exists>k::int. dval p = of_int k * dval (lookup_tick_size st p))"
    using dec_mod_zero_iff [OF lookup_tick_size_pos(2), of p st p] assms
    unfolding dval_lookup_tick_size by blast
  have "dec_eq r dec_zero = on_tick st (dval p)"
    unfolding dec_eq_iff dval_dec_zero z on_tick_def dval_lookup_tick_size ..
  then show ?thesis by (simp add: is_valid_tick_def r)
qed

lemma is_valid_tick_overflow:
  assumes "10 ^ prec \<le> \<bar>dval p / tick_val st (dval p)\<bar>"
  shows "is_valid_tick st p = Inl InvalidOperation"
proof -
  have "dec_mod p (lookup_tick_size st p) = Inl InvalidOperation"
    using assms by (intro dec_mod_invalid lookup_tick_size_pos(2)) (simp only: dval_lookup_tick_size)
  then show ?thesis by (simp add: is_valid_tick_def)
qed

text \<open>The quotient by the tick, times the tick: exact below the bound.\<close>

lemma floordiv_tick:
  assumes "0 < dval p" and "dval p < price_bound"
  shows "\<exists>q. dec_floordiv p (lookup_tick_size st p) = Inr q \<and>
    dval (dec_mul q (lookup_tick_size st p)) = lower_tick st (dval p) \<and>
    dec_mul q (lookup_tick_size st p) = Dec (dneg q) (dcoeff q * dcoeff (lookup_tick_size st p))
      (dexp q + dexp (lookup_tick_size st p)) \<and>
    dcoeff q < 10 ^ 26 \<and> dexp q = 0 \<and> \<not> dneg q"
proof -
  let ?t = "lookup_tick_size st p"
  have quot: "dval p / dval ?t < 10 ^ 26" "0 \<le> dval p / dval ?t"
    using small_quotient [of "dval p" st] assms by (simp_all add: dval_lookup_tick_size less_imp_le)
  have prec26: "(10 ^ 26 :: rat) < 10 ^ prec" "(10 ^ 26 * 5 :: nat) < 10 ^ prec"
    by (simp_all add: prec_def)
  have small: "dval p / dval ?t < 10 ^ prec" using quot(1) prec26(1) by (rule less_trans)
  obtain q where q: "dec_floordiv p ?t = Inr q" "dval q = of_int \<lfloor>dval p / dval ?t\<rfloor>"
      "dcoeff q = nat \<lfloor>dval p / dval ?t\<rfloor>"
    using dec_floordiv_val [OF _ lookup_tick_size_pos(1) small] assms(1) by (meson less_imp_le)
  have "\<lfloor>dval p / dval ?t\<rfloor> < 10 ^ 26" using quot(1) by (simp add: floor_less_iff)
  then have c: "dcoeff q < 10 ^ 26" unfolding q(3) by (rule nat_less_power10)
  have "dcoeff q * dcoeff ?t \<le> 10 ^ 26 * 5"
    using c lookup_tick_size_coeff(2) [of st p] by (intro mult_mono) auto
  then have ct: "dcoeff q * dcoeff ?t < 10 ^ prec" using prec26(2) by (rule le_less_trans)
  have sgn: "dneg p = False" using assms(1) by (simp add: dval_pos_iff dint_pos_iff)
  have "dneg q = (dneg p \<noteq> dneg ?t) \<and> dexp q = 0"
    using q(1) unfolding dec_floordiv_def dec_divmod_def Let_def
    by (auto simp only: r_bind_simps prod.case sum.inject decimal.sel split: if_splits)
  then have nq: "\<not> dneg q" "dexp q = 0" using sgn lookup_tick_size_coeff(3) [of st p] by auto
  have "dval (dec_mul q ?t) = lower_tick st (dval p)"
    unfolding dval_dec_mul_exact [OF ct] q(2) dval_lookup_tick_size lower_tick_def ..
  moreover have "dec_mul q ?t = Dec (dneg q) (dcoeff q * dcoeff ?t) (dexp q + dexp ?t)"
    using ct nq lookup_tick_size_coeff(3) [of st p] by (simp add: dec_mul_def dec_fix_exact)
  ultimately show ?thesis using q(1) c nq by blast
qed

lemma nearest_lower_val:
  assumes "0 < dval p" and "dval p < price_bound"
  shows "\<exists>d. nearest_lower st p = Inr d \<and>
    dval d = max (lower_tick st (dval p)) (tick_val st (dval p))"
  using floordiv_tick [OF assms, of st]
  by (auto simp: nearest_lower_def Let_def dval_lookup_tick_size)

lemma lower_tick_eq_iff: "lower_tick st v = v \<longleftrightarrow> on_tick st v"
proof
  assume "lower_tick st v = v"
  then show "on_tick st v" unfolding lower_tick_def on_tick_def by metis
next
  assume "on_tick st v"
  then obtain k where k: "v = of_int k * tick_val st v" by (auto simp: on_tick_def)
  then have "of_int k * tick_val st v \<le> v" by simp
  from lower_tick_ge_multiple [OF this] k have "v \<le> lower_tick st v" by simp
  with lower_tick_le [of st v] show "lower_tick st v = v" by linarith
qed

lemma upper_tick_off_grid:
  assumes "\<not> on_tick st v"
  shows "upper_tick st v = lower_tick st v + tick_val st v"
proof -
  let ?x = "v / tick_val st v"
  have "of_int \<lfloor>?x\<rfloor> \<noteq> ?x"
  proof
    assume "of_int \<lfloor>?x\<rfloor> = ?x"
    then have "lower_tick st v = ?x * tick_val st v" by (simp only: lower_tick_def)
    then have "lower_tick st v = v" by simp
    with assms show False by (simp add: lower_tick_eq_iff)
  qed
  then have "\<lceil>?x\<rceil> = \<lfloor>?x\<rfloor> + 1" by (metis Ints_of_int ceiling_altdef)
  then show ?thesis unfolding upper_tick_def lower_tick_def by (simp add: distrib_right)
qed

lemma nearest_upper_val:
  assumes "0 < dval p" and "dval p < price_bound"
  shows "\<exists>d. nearest_upper st p = Inr d \<and> dval d = upper_tick st (dval p)"
proof -
  let ?t = "lookup_tick_size st p"
  from floordiv_tick [OF assms, of st] obtain q where q: "dec_floordiv p ?t = Inr q"
    and lo: "dval (dec_mul q ?t) = lower_tick st (dval p)"
    and rep: "dec_mul q ?t = Dec (dneg q) (dcoeff q * dcoeff ?t) (dexp q + dexp ?t)"
    and c: "dcoeff q < 10 ^ 26" and nq: "dexp q = 0" "\<not> dneg q" by blast
  show ?thesis
  proof (cases "on_tick st (dval p)")
    case True
    then have eq: "lower_tick st (dval p) = dval p" by (simp add: lower_tick_eq_iff)
    have up: "upper_tick st (dval p) \<le> dval p"
      using upper_tick_bucket [OF assms(1), of st] True by blast
    have "nearest_upper st p = Inr (dec_mul q ?t)"
      by (simp add: nearest_upper_def q Let_def dec_eq_iff lo eq)
    moreover have "dval (dec_mul q ?t) = upper_tick st (dval p)"
      unfolding lo eq using up upper_tick_ge [of "dval p" st] by (intro antisym)
    ultimately show ?thesis by blast
  next
    case False
    then have ne: "lower_tick st (dval p) \<noteq> dval p" by (simp add: lower_tick_eq_iff)
    have "nearest_upper st p = Inr (dec_add (dec_mul q ?t) ?t)"
      by (simp add: nearest_upper_def q Let_def dec_eq_iff lo ne)
    moreover have "dval (dec_add (dec_mul q ?t) ?t) = dval (dec_mul q ?t) + dval ?t"
    proof (rule dval_dec_add_exact)
      have e: "min (dexp (dec_mul q ?t)) (dexp ?t) = dexp ?t" by (simp add: rep nq)
      have "dcoeff q * dcoeff ?t \<le> 10 ^ 26 * 5"
        using c lookup_tick_size_coeff(2) [of st p] by (intro mult_mono) auto
      then have "dcoeff q * dcoeff ?t + dcoeff ?t < 10 ^ prec"
        using lookup_tick_size_coeff(2) [of st p] by (simp add: prec_def)
      then have "int (dcoeff q * dcoeff ?t + dcoeff ?t) < 10 ^ prec"
        by (metis of_nat_less_iff of_nat_numeral of_nat_power)
      then show "\<bar>dscale (dec_mul q ?t) (min (dexp (dec_mul q ?t)) (dexp ?t)) +
          dscale ?t (min (dexp (dec_mul q ?t)) (dexp ?t))\<bar> < 10 ^ prec"
        unfolding e rep using nq lookup_tick_size_coeff(3) [of st p] by (simp add: dscale_def dint_def)
    qed
    ultimately show ?thesis
      using upper_tick_off_grid [OF False] lo by (auto simp: dval_lookup_tick_size)
  qed
qed

section \<open>Prices as text\<close>

text \<open>The integer part, the number of fraction digits and the fraction of a non-negative decimal.\<close>

definition ipart :: "decimal \<Rightarrow> nat" where
  "ipart d = dcoeff d * 10 ^ nat (dexp d) div 10 ^ nat (- dexp d)"

definition fwidth :: "decimal \<Rightarrow> nat" where
  "fwidth d = nat (- dexp d)"

definition fpart :: "decimal \<Rightarrow> nat" where
  "fpart d = dcoeff d * 10 ^ nat (dexp d) mod 10 ^ fwidth d"

definition frac_val :: "string \<Rightarrow> rat" where
  "frac_val s = of_nat (digits_val s) / 10 ^ length s"

lemma dval_parts: "\<not> dneg d \<Longrightarrow> dval d = of_nat (ipart d) + of_nat (fpart d) / 10 ^ fwidth d"
proof -
  assume nn: "\<not> dneg d"
  obtain c e where d: "d = Dec False c e" using nn by (cases d) auto
  have v: "dval d = of_nat (c * 10 ^ nat e) / 10 ^ nat (- e)"
  proof (cases "0 \<le> e")
    case True
    then show ?thesis using dval_Dec_nonneg_exp [of False c "nat e"] by (simp add: d dint_def)
  next
    case False
    then show ?thesis using dval_Dec_neg_exp [of False c "nat (- e)"] by (simp add: d dint_def)
  qed
  let ?n = "c * 10 ^ nat e" and ?m = "10 ^ nat (- e) :: nat"
  have "(of_nat ?n :: rat) = of_nat (?n div ?m) * of_nat ?m + of_nat (?n mod ?m)"
    by (metis div_mult_mod_eq of_nat_add of_nat_mult)
  then have "dval d = (of_nat (?n div ?m) * of_nat ?m + of_nat (?n mod ?m)) / of_nat ?m"
    unfolding v by simp
  also have "\<dots> = of_nat (?n div ?m) + of_nat (?n mod ?m) / of_nat ?m"
    by (simp add: add_divide_distrib)
  finally show ?thesis by (simp add: d ipart_def fpart_def fwidth_def)
qed

lemma fpart_less: "fpart d < 10 ^ fwidth d"
  by (simp add: fpart_def)

lemma frac_val_less_1: "(of_nat (fpart d) / 10 ^ fwidth d :: rat) < 1"
proof -
  have "(of_nat (fpart d) :: rat) < of_nat (10 ^ fwidth d)" using fpart_less by (simp only: of_nat_less_iff)
  then show ?thesis by simp
qed

lemma ipart_floor: "\<not> dneg d \<Longrightarrow> int (ipart d) = \<lfloor>dval d\<rfloor>"
  using frac_val_less_1 [of d] by (simp add: dval_parts floor_unique)

lemma digits_no_dot: "list_all is_digit s \<Longrightarrow> takeWhile (\<lambda>c. c \<noteq> CHR ''.'') (s @ t) = s @ takeWhile (\<lambda>c. c \<noteq> CHR ''.'') t"
  by (induction s) (auto dest: digit_not_special(4))

lemma format_price_str_nonneg:
  assumes "\<not> dneg d"
  shows "format_price_str d =
    nat_str (ipart d) @ ''.'' @ ljust 2 (CHR ''0'') (rstrip_char (CHR ''0'') (fixed_digits (fwidth d) (fpart d)))"
proof (cases "0 \<le> dexp d")
  case True
  then have fmt: "format_f d = nat_str (ipart d)" using assms by (simp add: format_f_def ipart_def)
  have fx: "fixed_digits (fwidth d) (fpart d) = []" using True by (simp add: fwidth_def)
  have tw: "takeWhile (\<lambda>c. c \<noteq> CHR ''.'') (nat_str (ipart d)) = nat_str (ipart d)"
    using digits_no_dot [OF nat_str_digits, of "ipart d" "[]"] by (simp only: append_Nil2 takeWhile.simps)
  show ?thesis unfolding format_price_str_def Let_def fmt tw fx by simp
next
  case False
  then have "format_f d = nat_str (ipart d) @ ''.'' @ fixed_digits (fwidth d) (fpart d)"
    using assms by (simp add: format_f_def ipart_def fpart_def fwidth_def Let_def)
  then show ?thesis
    using digits_no_dot [OF nat_str_digits, of "ipart d" "''.'' @ fixed_digits (fwidth d) (fpart d)"]
    by (simp add: format_price_str_def Let_def)
qed

lemma frac_val_zeros: "frac_val (s @ replicate n (CHR ''0'')) = frac_val s"
  by (simp add: frac_val_def digits_val_append power_add)

lemma frac_val_trim: "frac_val (ljust 2 (CHR ''0'') (rstrip_char (CHR ''0'') s)) = frac_val s"
proof -
  obtain n where "s = rstrip_char (CHR ''0'') s @ replicate n (CHR ''0'')" by (rule rstrip_char_decomp)
  then have "frac_val s = frac_val (rstrip_char (CHR ''0'') s)" by (metis frac_val_zeros)
  then show ?thesis by (simp add: ljust_def frac_val_zeros)
qed

lemma list_all_trim:
  assumes "list_all is_digit s"
  shows "list_all is_digit (ljust n (CHR ''0'') (rstrip_char (CHR ''0'') s))"
proof -
  obtain m where "s = rstrip_char (CHR ''0'') s @ replicate m (CHR ''0'')" by (rule rstrip_char_decomp)
  with assms have "list_all is_digit (rstrip_char (CHR ''0'') s)" by (metis list_all_append)
  moreover have "is_digit (CHR ''0'')" by (simp add: is_digit_def)
  ultimately show ?thesis by (auto simp: ljust_def list_all_iff)
qed

lemma dec_of_format_price_str:
  assumes "\<not> dneg d"
  shows "\<exists>d'. dec_of_string (format_price_str d) = Some (PFinite d') \<and> dval d' = dval d"
proof -
  let ?f = "ljust 2 (CHR ''0'') (rstrip_char (CHR ''0'') (fixed_digits (fwidth d) (fpart d)))"
  let ?d = "Dec False (digits_val (nat_str (ipart d) @ ?f)) (- int (length ?f))"
  have "dec_of_string (format_price_str d) = Some (PFinite ?d)"
    unfolding format_price_str_nonneg [OF assms]
    by (intro dec_of_string_plain nat_str_digits nat_str_nonempty list_all_trim fixed_digits_digits)
  moreover have "dval ?d = of_nat (ipart d) + frac_val ?f"
    by (simp add: dval_Dec_neg_exp dint_def digits_val_append frac_val_def add_divide_distrib)
  moreover have "frac_val ?f = of_nat (fpart d) / 10 ^ fwidth d"
    using fpart_less [of d] unfolding frac_val_trim by (simp add: frac_val_def digits_val_fixed_digits)
  ultimately show ?thesis using dval_parts [OF assms] by auto
qed

lemma fixed_digits_rstrip_eq:
  assumes "x * 10 ^ k' = y * 10 ^ k" and "k \<le> k'"
  shows "rstrip_char (CHR ''0'') (fixed_digits k x) = rstrip_char (CHR ''0'') (fixed_digits k' y)"
proof -
  obtain j where j: "k' = k + j" using assms(2) by (metis le_Suc_ex)
  have "y = x * 10 ^ j" using assms(1) unfolding j power_add by simp
  then show ?thesis unfolding j by (simp add: fixed_digits_shift)
qed

lemma format_price_str_cong:
  assumes "\<not> dneg a" "\<not> dneg b" "dval a = dval b"
  shows "format_price_str a = format_price_str b"
proof -
  have ip: "ipart a = ipart b" using assms ipart_floor by (metis of_nat_eq_iff)
  have "(of_nat (fpart a) / 10 ^ fwidth a :: rat) = of_nat (fpart b) / 10 ^ fwidth b"
    using assms ip by (simp add: dval_parts)
  then have "(of_nat (fpart a) * 10 ^ fwidth b :: rat) = of_nat (fpart b) * 10 ^ fwidth a"
    by (simp add: field_simps)
  then have "(of_nat (fpart a * 10 ^ fwidth b) :: rat) = of_nat (fpart b * 10 ^ fwidth a)" by simp
  then have eq: "fpart a * 10 ^ fwidth b = fpart b * 10 ^ fwidth a" by (simp only: of_nat_eq_iff)
  then have "rstrip_char (CHR ''0'') (fixed_digits (fwidth a) (fpart a)) =
      rstrip_char (CHR ''0'') (fixed_digits (fwidth b) (fpart b))"
    by (metis fixed_digits_rstrip_eq nat_le_linear)
  then show ?thesis by (simp add: format_price_str_nonneg assms ip)
qed

lemma format_price_str_inject:
  assumes "\<not> dneg a" "\<not> dneg b" "format_price_str a = format_price_str b"
  shows "dval a = dval b"
  using dec_of_format_price_str [OF assms(1)] dec_of_format_price_str [OF assms(2)] assms(3) by auto

section \<open>Properties\<close>


lemma parse_pos: "parse s = Inr p \<Longrightarrow> 0 < dval p \<and> dec_of_string s = Some (PFinite p)"
  by (auto simp: parse_def dec_le_iff split: if_splits option.splits py_number.splits)

text \<open>
  An off-grid price is refused with the two legal prices around it: both suggestions are on
  the grid, and no legal price lies strictly between the suggested lower price and the suggested
  upper price; the lower one is below the refused price unless the price is below one tick, when
  both suggestions are that tick.
\<close>

theorem validate_off_grid:
  assumes "0 < pr_amount req" and "parse (pr_price req) = Inr p" and "dval p < price_bound"
    and "\<not> on_tick (pr_type req) (dval p)"
  shows "\<exists>reason lo up. validate req = Inl (InvalidTickSizeError (pr_price req) reason lo up None) \<and>
    on_tick (pr_type req) (dval lo) \<and> on_tick (pr_type req) (dval up) \<and> dval p < dval up \<and>
    (if tick_val (pr_type req) (dval p) \<le> dval p then dval lo < dval p else dval lo = dval up) \<and>
    (\<forall>w. on_tick (pr_type req) w \<longrightarrow> w \<le> dval lo \<or> dval up \<le> w)"
proof -
  let ?st = "pr_type req" and ?v = "dval p"
  let ?t = "tick_val ?st ?v"
  have v: "0 < ?v" using parse_pos [OF assms(2)] by simp
  obtain lo up where lo: "nearest_lower ?st p = Inr lo" "dval lo = max (lower_tick ?st ?v) ?t"
    and up: "nearest_upper ?st p = Inr up" "dval up = upper_tick ?st ?v"
    using nearest_lower_val [OF v assms(3)] nearest_upper_val [OF v assms(3)] by blast
  have "\<bar>?v / ?t\<bar> < 10 ^ 26" using assms(3) v by (intro small_quotient) simp
  also have "(10 ^ 26 :: rat) < 10 ^ prec" by (simp add: prec_def)
  finally have "is_valid_tick ?st p = Inr False"
    using is_valid_tick_iff [of p ?st] assms(4) by (simp only: simp_thms)
  then have res: "\<exists>reason. validate req = Inl (InvalidTickSizeError (pr_price req) reason lo up None)"
    using assms(1,2) lo(1) up(1) by (simp add: validate_def Let_def)
  have ne: "lower_tick ?st ?v \<noteq> ?v" using assms(4) by (simp add: lower_tick_eq_iff)
  have lt: "lower_tick ?st ?v < ?v" using ne lower_tick_le [of ?st ?v] by linarith
  have upv: "upper_tick ?st ?v = lower_tick ?st ?v + ?t" by (rule upper_tick_off_grid [OF assms(4)])
  have gtu: "?v < upper_tick ?st ?v"
    using upper_tick_ge [of ?v ?st] upper_tick_bucket [OF v, of ?st] assms(4) by force
  have between: "w \<le> lower_tick ?st ?v \<or> upper_tick ?st ?v \<le> w" if "on_tick ?st w" for w
    using that lower_tick_greatest [OF v that] upper_tick_bucket [OF v, of ?st] by (meson linear)
  have ont: "on_tick ?st (lower_tick ?st ?v)" "on_tick ?st (upper_tick ?st ?v)"
    using on_tick_lower_tick [OF v] upper_tick_bucket [OF v] by blast+
  show ?thesis
  proof (cases "?t \<le> ?v")
    case True
    have "?t \<le> lower_tick ?st ?v"
      using lower_tick_ge_multiple [of 1 ?st ?v] True by simp
    then have "dval lo = lower_tick ?st ?v" using lo(2) by simp
    with res ont gtu lt between True up(2) show ?thesis by auto
  next
    case False
    then have "\<lfloor>?v / ?t\<rfloor> = 0" using v by (simp add: floor_eq_iff)
    then have "lower_tick ?st ?v = 0" by (simp add: lower_tick_def)
    then have "dval lo = dval up" using lo(2) up(2) upv by simp
    with res ont gtu between False up(2) show ?thesis by (metis linear order_trans le_max_iff_disj lo(2))
  qed
qed

text \<open>Evaluation of the parser on a literal, for the witnesses.\<close>

lemmas parse_eval = parse_def dec_of_string_def strip_def rstrip_where_def is_space_def split_sign_def
  lower_def lower_char_def parse_digits_def is_digit_def parse_exponent_def digit_val_def

lemma parse_600_30: "parse ''600.30'' = Inr (Dec False 60030 (-2))"
  by (simp add: parse_eval Let_def dec_le_iff dval_simps)

lemma tick_600_30: "\<not> on_tick STOCK (dval (Dec False 60030 (-2)))"
proof
  assume "on_tick STOCK (dval (Dec False 60030 (-2)))"
  then obtain k :: int where "60030 / 100 = (of_int k :: rat)"
    by (auto simp: on_tick_def tick_val_def dval_simps)
  then have "(60030 :: rat) = of_int (k * 100)" by simp
  then have "60030 = k * 100" by (metis of_int_eq_iff of_int_numeral)
  then show False by presburger
qed

theorem validate_off_grid_witness:
  "\<exists>reason lo up. validate \<lparr>pr_type = STOCK, pr_price = ''600.30'', pr_amount = 2\<rparr> =
     Inl (InvalidTickSizeError ''600.30'' reason lo up None) \<and> dval lo < 60030 / 100 \<and> 60030 / 100 < dval up"
  using validate_off_grid [of "\<lparr>pr_type = STOCK, pr_price = ''600.30'', pr_amount = 2\<rparr>", simplified,
      OF parse_600_30 _ tick_600_30]
  by (auto simp: dval_simps tick_val_def)

text \<open>
  Two non-negative prices have the same canonical text exactly when they are numerically
  equal, whatever their trailing zeros or exponents: the key the de-duplication index relies on.
\<close>

theorem format_price_str_canonical:
  assumes "\<not> dneg a" and "\<not> dneg b"
  shows "format_price_str a = format_price_str b \<longleftrightarrow> dval a = dval b"
  using format_price_str_cong [OF assms] format_price_str_inject [OF assms] by blast

theorem format_price_str_canonical_witness:
  "format_price_str (Dec False 600 0) = format_price_str (Dec False 6000000 (-4)) \<and>
   format_price_str (Dec False 600 0) \<noteq> format_price_str (Dec False 60001 (-2))"
proof -
  have "dval (Dec False 6000000 (- 4)) = 600"
    using dval_Dec_neg_exp [of False 6000000 4] by (simp add: dint_def)
  then show ?thesis
    using format_price_str_canonical [of "Dec False 600 0" "Dec False 6000000 (-4)"]
      format_price_str_canonical [of "Dec False 600 0" "Dec False 60001 (-2)"]
    by (simp add: dval_simps)
qed

lemma strip_digits_dot:
  assumes "list_all is_digit ip" "list_all is_digit fp"
  shows "strip (ip @ ''.'' @ fp) = ip @ ''.'' @ fp" "CHR '','' \<notin> set (ip @ ''.'' @ fp)"
proof -
  have "\<not> is_space (CHR ''.'')" by (simp add: is_space_def)
  then show "strip (ip @ ''.'' @ fp) = ip @ ''.'' @ fp"
    using assms by (intro strip_no_space) (auto simp: list_all_iff digit_not_special)
  have "\<not> is_digit (CHR '','')" by (simp add: is_digit_def)
  then show "CHR '','' \<notin> set (ip @ ''.'' @ fp)"
    using assms by (auto simp: list_all_iff)
qed

text \<open>
  (C37) Printing then parsing is the identity on values: the canonical text of a positive price is
  accepted by \<open>PriceService.parse\<close> and denotes the same number.
\<close>

theorem parse_format_roundtrip:
  assumes "0 < dval p"
  shows "\<exists>d. parse (format_price_str p) = Inr d \<and> dval d = dval p"
proof -
  have nn: "\<not> dneg p" using assms by (simp add: dval_pos_iff dint_pos_iff)
  obtain d where d: "dec_of_string (format_price_str p) = Some (PFinite d)" "dval d = dval p"
    using dec_of_format_price_str [OF nn] by blast
  have "strip (format_price_str p) = format_price_str p" "CHR '','' \<notin> set (format_price_str p)"
    unfolding format_price_str_nonneg [OF nn]
    by (intro strip_digits_dot nat_str_digits list_all_trim fixed_digits_digits)+
  then have "parse (format_price_str p) = Inr d"
    using d assms by (simp add: parse_def dec_le_iff)
  with d show ?thesis by blast
qed

theorem parse_format_roundtrip_witness:
  "\<exists>d. parse (format_price_str (Dec False 12345 (-2))) = Inr d \<and> dval d = 12345 / 100"
  using parse_format_roundtrip [of "Dec False 12345 (-2)"] by (simp add: dval_simps)

text \<open>
  A price whose quotient by its tick needs more than 28 digits is not refused with a price
  error: the decimal remainder itself raises \<open>InvalidOperation\<close>, which \<open>validate\<close> does not catch.
\<close>

theorem validate_overflow_escapes:
  assumes "0 < pr_amount req" and "parse (pr_price req) = Inr p"
    and "10 ^ prec \<le> dval p / tick_val (pr_type req) (dval p)"
  shows "validate req = Inl (PriceArithmetic InvalidOperation)"
proof -
  have "10 ^ prec \<le> \<bar>dval p / tick_val (pr_type req) (dval p)\<bar>"
    by (rule order_trans [OF assms(3) abs_ge_self])
  from is_valid_tick_overflow [OF this] show ?thesis
    using assms(1,2) by (simp add: validate_def)
qed

lemma parse_1e40: "parse ''1e40'' = Inr (Dec False 1 40)"
  by (simp add: parse_eval Let_def dec_le_iff dval_pos_iff dint_def not_le)

lemma dval_1e40: "dval (Dec False 1 40) = 10 ^ 40"
  using dval_Dec_nonneg_exp [of False 1 40] by (simp add: dint_def)

theorem validate_overflow_escapes_witness:
  "validate \<lparr>pr_type = STOCK, pr_price = ''1e40'', pr_amount = 1\<rparr> = Inl (PriceArithmetic InvalidOperation)"
  by (rule validate_overflow_escapes [of _ "Dec False 1 40"])
    (simp_all add: parse_1e40 dval_1e40 [simplified] tick_val_def prec_def)

end
