(* ===== verification/Trading_Session.thy ===== *)
theory Trading_Session
  imports Prelude
begin

text \<open>
  \<open>domain/trading_session.py\<close>: the regular session of the Taiwan market, Monday to Friday
  09:00 (inclusive) to 13:30 (exclusive) Asia/Taipei, and the trading date, initial status and
  expiry cutoff derived from it. Taipei is UTC+8 without daylight saving time.
\<close>

section \<open>The source\<close>

text \<open>A Python datetime may lack a timezone; the guard \<open>_require_aware\<close> refuses such a value.
  Behind the guard a datetime is an instant, so the operations below take instants.\<close>

datatype py_datetime = Naive int | Aware datetime

datatype session_error = NaiveDatetimeError | NowOutsideSession datetime | QuoteOutsideSession datetime

definition require_aware :: "py_datetime \<Rightarrow> session_error + datetime" where
  "require_aware dt = (case dt of Naive _ \<Rightarrow> Inl NaiveDatetimeError | Aware i \<Rightarrow> Inr i)"

definition TAIPEI_OFFSET :: int where
  "TAIPEI_OFFSET = 8 * 3600 * usec_per_sec"

definition SESSION_START :: tod where
  "SESSION_START = 9 * 3600 * usec_per_sec"

definition SESSION_END :: tod where
  "SESSION_END = (13 * 3600 + 30 * 60) * usec_per_sec"

definition taipei_date :: "datetime \<Rightarrow> date" where
  "taipei_date dt = (dt + TAIPEI_OFFSET) div usec_per_day"

definition taipei_time :: "datetime \<Rightarrow> tod" where
  "taipei_time dt = (dt + TAIPEI_OFFSET) mod usec_per_day"

text \<open>\<open>datetime.combine(d, t, tzinfo=TAIPEI_TZ)\<close>.\<close>

definition combine :: "date \<Rightarrow> tod \<Rightarrow> datetime" where
  "combine d t = d * usec_per_day + t - TAIPEI_OFFSET"

text \<open>\<open>date.weekday()\<close>: Monday is 0; 1970-01-01 was a Thursday.\<close>

definition weekday :: "date \<Rightarrow> int" where
  "weekday d = (d + 3) mod 7"

datatype trading_day_phase = PRE_MARKET | REGULAR_SESSION | POST_MARKET

definition is_trading_day :: "date \<Rightarrow> bool" where
  "is_trading_day d \<longleftrightarrow> weekday d < 5"

definition is_within_regular_session :: "datetime \<Rightarrow> bool" where
  "is_within_regular_session dt =
     (if \<not> is_trading_day (taipei_date dt) then False
      else SESSION_START \<le> taipei_time dt \<and> taipei_time dt < SESSION_END)"

definition get_trading_day_phase :: "datetime \<Rightarrow> trading_day_phase" where
  "get_trading_day_phase dt =
     (if \<not> is_trading_day (taipei_date dt) then POST_MARKET
      else if taipei_time dt < SESSION_START then PRE_MARKET
      else if taipei_time dt < SESSION_END then REGULAR_SESSION
      else POST_MARKET)"

text \<open>The loop of \<open>_next_weekday\<close>.\<close>

function skip_weekend :: "date \<Rightarrow> date" where
  "skip_weekend candidate = (if 5 \<le> weekday candidate then skip_weekend (candidate + 1) else candidate)"
  by pat_completeness auto
termination
proof (relation "measure (\<lambda>d. nat ((4 - d) mod 7))")
  fix d :: date
  assume "5 \<le> weekday d"
  then have "d mod 7 = 2 \<or> d mod 7 = 3" unfolding weekday_def by presburger
  then have "(4 - (d + 1)) mod 7 < (4 - d) mod 7 \<and> 0 \<le> (4 - (d + 1)) mod 7" by presburger
  then show "(d + 1, d) \<in> measure (\<lambda>d. nat ((4 - d) mod 7))" by simp
qed simp

declare skip_weekend.simps [simp del]

definition next_weekday :: "date \<Rightarrow> date" where
  "next_weekday d = skip_weekend (d + 1)"

definition next_trading_day :: "date \<Rightarrow> date" where
  "next_trading_day d = next_weekday d"

definition get_day_intent_trading_date :: "datetime \<Rightarrow> date" where
  "get_day_intent_trading_date now =
     (let today = taipei_date now; t = taipei_time now
      in if is_trading_day today \<and> t < SESSION_END then today else next_weekday today)"

datatype day_status = day_active | day_scheduled

definition get_initial_day_intent_status :: "datetime \<Rightarrow> day_status" where
  "get_initial_day_intent_status now =
     (if is_within_regular_session now then day_active else day_scheduled)"

definition get_expirable_day_intent_cutoff :: "datetime \<Rightarrow> date" where
  "get_expirable_day_intent_cutoff now =
     (let today = taipei_date now
      in if get_trading_day_phase now = POST_MARKET then today else today - 1)"

definition verify_trading_hours :: "py_datetime \<Rightarrow> py_datetime \<Rightarrow> session_error + unit" where
  "verify_trading_hours now quote_time =
     r_bind (require_aware now) (\<lambda>n. r_bind (require_aware quote_time) (\<lambda>q.
       if \<not> is_within_regular_session n then Inl (NowOutsideSession n)
       else if \<not> is_within_regular_session q then Inl (QuoteOutsideSession q)
       else Inr ()))"

section \<open>Dates and times\<close>

lemmas session_consts = SESSION_START_def SESSION_END_def TAIPEI_OFFSET_def

lemma taipei_time_bounds: "0 \<le> taipei_time dt" "taipei_time dt < usec_per_day"
  by (simp_all add: taipei_time_def)

lemma combine_date_time: "combine (taipei_date dt) (taipei_time dt) = dt"
  by (simp add: combine_def taipei_date_def taipei_time_def)

lemma taipei_combine [simp]:
  assumes "0 \<le> t" "t < usec_per_day"
  shows "taipei_date (combine d t) = d" "taipei_time (combine d t) = t"
  using assms by (simp_all add: combine_def taipei_date_def taipei_time_def)

lemma combine_same_day [simp]:
  "combine d t - combine d u = t - u" "combine d t < combine d u \<longleftrightarrow> t < u" "combine d t \<le> combine d u \<longleftrightarrow> t \<le> u"
  by (simp_all add: combine_def)

lemma weekday_bounds: "0 \<le> weekday d" "weekday d < 7"
  by (simp_all add: weekday_def)

lemma skip_weekend_props:
  "is_trading_day (skip_weekend d)" "d \<le> skip_weekend d"
  "d \<le> e \<Longrightarrow> is_trading_day e \<Longrightarrow> skip_weekend d \<le> e"
proof -
  have "is_trading_day (skip_weekend d) \<and> d \<le> skip_weekend d \<and>
    (d \<le> e \<longrightarrow> is_trading_day e \<longrightarrow> skip_weekend d \<le> e)"
  proof (induction d rule: skip_weekend.induct)
    case (1 d)
    show ?case
    proof (cases "5 \<le> weekday d")
      case True
      have "d \<noteq> e" if "is_trading_day e" using True that by (auto simp: is_trading_day_def)
      with "1.IH" [OF True] True show ?thesis by (auto simp: skip_weekend.simps [of d])
    next
      case False
      then show ?thesis by (simp add: skip_weekend.simps [of d] is_trading_day_def)
    qed
  qed
  then show "is_trading_day (skip_weekend d)" "d \<le> skip_weekend d"
    "d \<le> e \<Longrightarrow> is_trading_day e \<Longrightarrow> skip_weekend d \<le> e" by blast+
qed

lemma next_weekday_least:
  "is_trading_day (next_weekday d)" "d < next_weekday d"
  "d < e \<Longrightarrow> is_trading_day e \<Longrightarrow> next_weekday d \<le> e"
  using skip_weekend_props(1,2) [of "d + 1"] skip_weekend_props(3) [of "d + 1" e]
  by (simp_all add: next_weekday_def)

text \<open>The instants at which the session of a date begins and ends.\<close>

definition session_start_at :: "date \<Rightarrow> datetime" where
  "session_start_at d = combine d SESSION_START"

definition session_end_at :: "date \<Rightarrow> datetime" where
  "session_end_at d = combine d SESSION_END"

lemma session_end_le_iff:
  "session_end_at d \<le> now \<longleftrightarrow>
     d < taipei_date now \<or> (d = taipei_date now \<and> SESSION_END \<le> taipei_time now)"
proof -
  have e: "now = taipei_date now * usec_per_day + taipei_time now - TAIPEI_OFFSET"
    using combine_date_time [of now] by (simp add: combine_def)
  have "session_end_at d \<le> now \<longleftrightarrow>
      d * usec_per_day + SESSION_END \<le> taipei_date now * usec_per_day + taipei_time now"
    unfolding session_end_at_def combine_def by (subst e) linarith
  also have "\<dots> \<longleftrightarrow> d < taipei_date now \<or> (d = taipei_date now \<and> SESSION_END \<le> taipei_time now)"
    using taipei_time_bounds [of now] unfolding session_consts
    by (cases d "taipei_date now" rule: linorder_cases) (simp_all; linarith)+
  finally show ?thesis .
qed

lemma within_session_phase:
  "is_within_regular_session dt \<longleftrightarrow> get_trading_day_phase dt = REGULAR_SESSION"
  by (auto simp: is_within_regular_session_def get_trading_day_phase_def)

lemma within_session_date:
  "is_within_regular_session now \<Longrightarrow> get_day_intent_trading_date now = taipei_date now"
  by (auto simp: is_within_regular_session_def get_day_intent_trading_date_def Let_def split: if_splits)

section \<open>Properties\<close>

text \<open>
  The trading date given to a new day intent is the earliest trading day whose session has
  not ended yet: it is a weekday, its session ends after \<open>now\<close>, and no earlier weekday has that
  property.
\<close>

theorem day_intent_trading_date_earliest:
  "is_trading_day (get_day_intent_trading_date now) \<and>
   now < session_end_at (get_day_intent_trading_date now) \<and>
   (\<forall>d. is_trading_day d \<and> now < session_end_at d \<longrightarrow> get_day_intent_trading_date now \<le> d)"
proof -
  let ?today = "taipei_date now"
  have later: "now < session_end_at d \<longleftrightarrow> \<not> (d < ?today \<or> (d = ?today \<and> SESSION_END \<le> taipei_time now))" for d
    using session_end_le_iff [of d now] by linarith
  show ?thesis
  proof (cases "is_trading_day ?today \<and> taipei_time now < SESSION_END")
    case True
    then have "get_day_intent_trading_date now = ?today" by (simp add: get_day_intent_trading_date_def Let_def)
    with True show ?thesis unfolding later by auto
  next
    case False
    then have eq: "get_day_intent_trading_date now = next_weekday ?today"
      by (auto simp: get_day_intent_trading_date_def Let_def)
    have "next_weekday ?today \<le> d" if "is_trading_day d" "now < session_end_at d" for d
    proof -
      have "?today < d" using that False unfolding later by (cases "d = ?today") auto
      with that(1) show ?thesis by (intro next_weekday_least(3))
    qed
    then show ?thesis
      unfolding eq later using next_weekday_least(1,2) [of ?today] by auto
  qed
qed

theorem day_intent_trading_date_earliest_witness:
  "is_trading_day 20000 \<and> get_day_intent_trading_date (combine 20000 0) \<le> 20000"
  using day_intent_trading_date_earliest [of "combine 20000 0"]
  by (auto simp: is_trading_day_def weekday_def session_end_at_def combine_def session_consts)

text \<open>
  The expiry cutoff is exact: a trading day is at or before the cutoff exactly when its
  session is over, so a day intent expires when, and only when, it can no longer trigger.
\<close>

theorem expirable_cutoff_exact:
  assumes "is_trading_day d"
  shows "d \<le> get_expirable_day_intent_cutoff now \<longleftrightarrow> session_end_at d \<le> now"
  unfolding session_end_le_iff
  using assms
  by (cases "d = taipei_date now")
    (auto simp: get_expirable_day_intent_cutoff_def get_trading_day_phase_def Let_def session_consts)

theorem expirable_cutoff_exact_witness:
  "19999 \<le> get_expirable_day_intent_cutoff (combine 20000 0) \<longleftrightarrow> session_end_at 19999 \<le> combine 20000 0"
  by (rule expirable_cutoff_exact) (simp add: is_trading_day_def weekday_def)

lemma new_intent_not_expirable:
  "get_expirable_day_intent_cutoff now < get_day_intent_trading_date now"
  using next_weekday_least(2) [of "taipei_date now"]
  by (auto simp: get_expirable_day_intent_cutoff_def get_trading_day_phase_def
      get_day_intent_trading_date_def Let_def)

end
