(* ===== verification/Trade_Intent.thy ===== *)
theory Trade_Intent
  imports Price Trading_Session
begin

text \<open>
  \<open>domain/trade_intent.py\<close>, \<open>domain/trigger_event.py\<close>, \<open>domain/notification.py\<close> and
  \<open>domain/symbol_errors.py\<close>: the vocabulary every later component speaks. The string-valued
  columns of the program become datatypes with one constructor per literal of the source; where the
  code branches on a string that no constraint has checked yet, the datatype keeps a constructor for
  every other string. The permitted life of an intent is stated as a step relation.
\<close>

section \<open>Statuses and strategies\<close>

datatype intent_status = active | scheduled | triggered | expired | cancelled
  | cancelled_by_account_disabled

definition CANCELLABLE_STATUSES :: "intent_status set" where
  "CANCELLABLE_STATUSES = {active, scheduled}"

definition TERMINAL_STATUSES :: "intent_status set" where
  "TERMINAL_STATUSES = {triggered, expired, cancelled, cancelled_by_account_disabled}"

definition VALID_STATUSES :: "intent_status set" where
  "VALID_STATUSES = {active, scheduled, triggered, expired, cancelled, cancelled_by_account_disabled}"

datatype strategy = buy_price_alert | sell_price_alert | limit_buy_order | limit_sell_order
  | trailing_stop_alert | market_order | market_buy_order | market_sell_order | twap_order
  | other_strategy string

definition BUY_SIDE_STRATEGIES :: "strategy set" where
  "BUY_SIDE_STRATEGIES = {buy_price_alert, limit_buy_order, market_order, market_buy_order}"

definition SELL_SIDE_STRATEGIES :: "strategy set" where
  "SELL_SIDE_STRATEGIES = {sell_price_alert, limit_sell_order, trailing_stop_alert, market_sell_order}"

definition MARKET_ORDER_STRATEGIES :: "strategy set" where
  "MARKET_ORDER_STRATEGIES = {market_order, market_buy_order, market_sell_order}"

lemmas status_sets = CANCELLABLE_STATUSES_def TERMINAL_STATUSES_def VALID_STATUSES_def
lemmas strategy_sets = BUY_SIDE_STRATEGIES_def SELL_SIDE_STRATEGIES_def MARKET_ORDER_STRATEGIES_def

datatype order_side = buy | sell

definition derive_order_side :: "strategy \<Rightarrow> order_side option" where
  "derive_order_side s =
     (if s \<in> BUY_SIDE_STRATEGIES then Some buy
      else if s \<in> SELL_SIDE_STRATEGIES then Some sell
      else None)"

datatype reference_price_type = ref_ask | ref_bid | ref_last_fallback

datatype trail_mode = percentage | fixed_amount | other_mode string

datatype position_side = long_position | short_position

datatype transaction_mode = single_notification | partial_fill_allowed

lemma status_partition:
  "CANCELLABLE_STATUSES \<union> TERMINAL_STATUSES = VALID_STATUSES"
  "CANCELLABLE_STATUSES \<inter> TERMINAL_STATUSES = {}"
  "s \<in> VALID_STATUSES"
  "s \<in> TERMINAL_STATUSES \<longleftrightarrow> s \<notin> CANCELLABLE_STATUSES"
  by (cases s; auto simp: status_sets)+

lemma sides_disjoint: "BUY_SIDE_STRATEGIES \<inter> SELL_SIDE_STRATEGIES = {}"
  by (simp add: strategy_sets)

lemma derive_order_side_None_iff:
  "derive_order_side s = None \<longleftrightarrow> s = twap_order \<or> (\<exists>x. s = other_strategy x)"
  by (cases s) (simp_all add: derive_order_side_def strategy_sets)

section \<open>Errors\<close>

datatype intent_error =
    DuplicateIntentError uuid string strategy
  | IntentNotFoundError uuid
  | CancelNotAllowedError uuid intent_status
  | InvalidCursorError uuid
  | UserIntentLimitExceededError (ul_limit: int) (ul_current: int)
  | SymbolIntentLimitExceededError (sl_symbol: string) (sl_limit: int) (sl_current: int)

datatype symbol_error = UnknownSymbolError string | SymbolNotTradableError string string

text \<open>The old track names the status it found; \<open>None\<close> stands for its literal \<open>stale\<close>.\<close>

datatype trigger_error = DuplicateTriggerError uuid | CoreIntentNotActiveError uuid
  | IntentNotActiveError uuid "intent_status option"

datatype notification_error = NotificationNotFoundError uuid

section \<open>Data\<close>

record trade_intent_data =
  ti_id :: uuid
  ti_owner_user_id :: uuid
  ti_symbol :: string
  ti_strategy :: strategy
  ti_execution_mode :: string
  ti_quantity_lots :: int
  ti_target_price_original :: "decimal option"
  ti_target_price_effective :: "decimal option"
  ti_trigger_reference_price_type :: reference_price_type
  ti_trading_date :: date
  ti_time_in_force :: string
  ti_status :: intent_status
  ti_created_at :: datetime
  ti_updated_at :: datetime
  ti_cancelled_at :: "datetime option"
  ti_triggered_at :: "datetime option"
  ti_transaction_mode :: transaction_mode
  ti_notification_mode :: string
  ti_filled_quantity_lots :: int
  ti_last_fill_at :: "datetime option"
  ti_trail_mode :: "trail_mode option"
  ti_trail_value :: "decimal option"
  ti_baseline :: "decimal option"
  ti_dynamic_trigger_price :: "decimal option"
  ti_baseline_updated_at :: "datetime option"
  ti_security_type :: security_type
  ti_position_side :: "position_side option"
  ti_twap_interval_seconds :: "int option"
  ti_twap_end_time :: "tod option"
  ti_twap_start_at :: "datetime option"
  ti_twap_end_at :: "datetime option"
  ti_twap_available_slice_count :: "int option"
  ti_twap_materialized_slice_count :: "int option"

text \<open>A concrete intent, for instances of the theorems.\<close>

definition sample_intent :: trade_intent_data where
  "sample_intent = \<lparr>ti_id = 1, ti_owner_user_id = 7, ti_symbol = ''2330'', ti_strategy = buy_price_alert,
     ti_execution_mode = ''notify_only'', ti_quantity_lots = 1, ti_target_price_original = None,
     ti_target_price_effective = None, ti_trigger_reference_price_type = ref_ask, ti_trading_date = 20000,
     ti_time_in_force = ''day'', ti_status = active, ti_created_at = 0, ti_updated_at = 0,
     ti_cancelled_at = None, ti_triggered_at = None, ti_transaction_mode = single_notification,
     ti_notification_mode = ''single'', ti_filled_quantity_lots = 0, ti_last_fill_at = None,
     ti_trail_mode = None, ti_trail_value = None, ti_baseline = None, ti_dynamic_trigger_price = None,
     ti_baseline_updated_at = None, ti_security_type = STOCK, ti_position_side = None,
     ti_twap_interval_seconds = None, ti_twap_end_time = None, ti_twap_start_at = None,
     ti_twap_end_at = None, ti_twap_available_slice_count = None, ti_twap_materialized_slice_count = None\<rparr>"

datatype notification_type = price_triggered | limit_order_triggered | trailing_stop_triggered
  | market_order_triggered | twap_slice | twap_price_followup

section \<open>The life of an intent\<close>

text \<open>
  The status changes the system performs: the lifecycle activates and expires, a quote triggers, the
  owner cancels, and disabling the account cancels with a status of its own.
\<close>

inductive intent_step :: "intent_status \<Rightarrow> intent_status \<Rightarrow> bool" where
  activate: "intent_step scheduled active"
| expire: "s \<in> CANCELLABLE_STATUSES \<Longrightarrow> intent_step s expired"
| trigger: "intent_step active triggered"
| cancel: "s \<in> CANCELLABLE_STATUSES \<Longrightarrow> intent_step s cancelled"
| account_disabled: "s \<in> CANCELLABLE_STATUSES \<Longrightarrow> intent_step s cancelled_by_account_disabled"

inductive_cases intent_step_fromE: "intent_step s t"
inductive_simps intent_step_simps: "intent_step s t"

abbreviation intent_evolves :: "intent_status \<Rightarrow> intent_status \<Rightarrow> bool" where
  "intent_evolves \<equiv> intent_step\<^sup>*\<^sup>*"

lemma intent_step_not_terminal: "intent_step s t \<Longrightarrow> s \<notin> TERMINAL_STATUSES"
  by (erule intent_step_fromE) (auto simp: status_sets)

lemma intent_step_not_scheduled: "intent_step s t \<Longrightarrow> t \<noteq> scheduled"
  by (erule intent_step_fromE) auto

lemma terminal_absorbing:
  assumes "intent_evolves s t" and "s \<in> TERMINAL_STATUSES"
  shows "t = s"
  using assms by (induction rule: converse_rtranclp_induct) (auto dest: intent_step_not_terminal)

lemma evolves_cases:
  assumes "intent_evolves s t"
  shows "t = s \<or> (s = scheduled \<and> t = active) \<or> (s \<in> CANCELLABLE_STATUSES \<and> t \<in> TERMINAL_STATUSES)"
  using assms
  by (induction rule: rtranclp_induct) (auto simp: intent_step_simps status_sets)

lemma evolves_from_active: "intent_evolves active t \<Longrightarrow> t \<noteq> scheduled"
  by (drule evolves_cases) (auto simp: status_sets)

lemma intent_step_evolves [intro]: "intent_step s t \<Longrightarrow> intent_evolves s t"
  by blast

end
