(* ===== verification/Quote.thy ===== *)
theory Quote
  imports Trade_Intent
begin

text \<open>
  \<open>services/quote\<close>: the quote snapshot every provider produces, the structural validation of a
  snapshot, the protocol of a quote provider as a locale with the subscription reconciler proved
  once inside it, and the in-memory provider as its first interpretation. Prices of a snapshot are
  finite decimals; times are instants.
\<close>

section \<open>Snapshots and provider errors\<close>

record quote_snapshot =
  q_symbol :: string
  q_bid_price :: "decimal option"
  q_ask_price :: "decimal option"
  q_last_price :: "decimal option"
  q_quote_time :: datetime
  q_received_at :: datetime

datatype quote_error =
    QuoteUnavailableError string
  | QuoteProviderUnavailableError string "string option"
  | SymbolNotAvailableInDemo string "string set"
  | QuoteSubscriptionLimitExceeded string nat nat

text \<open>The class attributes \<open>error_code\<close> and \<open>http_status\<close> of the error classes.\<close>

definition quote_error_code :: "quote_error \<Rightarrow> string" where
  "quote_error_code e = (case e of
      QuoteUnavailableError _ \<Rightarrow> ''QUOTE_UNAVAILABLE''
    | QuoteProviderUnavailableError _ _ \<Rightarrow> ''QUOTE_PROVIDER_UNAVAILABLE''
    | SymbolNotAvailableInDemo _ _ \<Rightarrow> ''SYMBOL_NOT_AVAILABLE_IN_DEMO''
    | QuoteSubscriptionLimitExceeded _ _ _ \<Rightarrow> ''QUOTE_SUBSCRIPTION_LIMIT_EXCEEDED'')"

definition quote_http_status :: "quote_error \<Rightarrow> nat" where
  "quote_http_status e = (case e of
      QuoteUnavailableError _ \<Rightarrow> 503
    | QuoteProviderUnavailableError _ _ \<Rightarrow> 503
    | SymbolNotAvailableInDemo _ _ \<Rightarrow> 422
    | QuoteSubscriptionLimitExceeded _ _ _ \<Rightarrow> 409)"

section \<open>Validation\<close>

datatype validation_reason = now_outside_session | quote_time_outside_session | all_prices_missing
  | price_not_positive string | crossed_quote | no_last_for_fallback

record validated_quote =
  vq_snapshot :: quote_snapshot
  vq_fallback_used :: bool

definition require_session :: "quote_snapshot \<Rightarrow> datetime \<Rightarrow> validation_reason + unit" where
  "require_session snapshot current =
     (if \<not> is_within_regular_session current then Inl now_outside_session
      else if \<not> is_within_regular_session (q_quote_time snapshot) then Inl quote_time_outside_session
      else Inr ())"

definition require_at_least_one_price :: "quote_snapshot \<Rightarrow> validation_reason + unit" where
  "require_at_least_one_price s =
     (if q_bid_price s = None \<and> q_ask_price s = None \<and> q_last_price s = None
      then Inl all_prices_missing else Inr ())"

text \<open>\<open>value is not None and value <= 0\<close>.\<close>

definition nonpositive :: "decimal option \<Rightarrow> bool" where
  "nonpositive v = (case v of None \<Rightarrow> False | Some d \<Rightarrow> dec_le d dec_zero)"

fun first_nonpositive :: "(string \<times> decimal option) list \<Rightarrow> validation_reason + unit" where
  "first_nonpositive [] = Inr ()"
| "first_nonpositive ((label, v) # rest) =
     (if nonpositive v then Inl (price_not_positive label) else first_nonpositive rest)"

definition require_positive_prices :: "quote_snapshot \<Rightarrow> validation_reason + unit" where
  "require_positive_prices s =
     first_nonpositive [(''bid'', q_bid_price s), (''ask'', q_ask_price s), (''last'', q_last_price s)]"

text \<open>\<open>bid is not None and ask is not None and bid > ask\<close>.\<close>

definition crossed :: "quote_snapshot \<Rightarrow> bool" where
  "crossed s = (case (q_bid_price s, q_ask_price s) of
     (Some b, Some a) \<Rightarrow> dec_less a b | _ \<Rightarrow> False)"

definition require_bid_le_ask :: "quote_snapshot \<Rightarrow> validation_reason + unit" where
  "require_bid_le_ask s = (if crossed s then Inl crossed_quote else Inr ())"

definition validate_snapshot :: "quote_snapshot \<Rightarrow> datetime \<Rightarrow> validation_reason + validated_quote" where
  "validate_snapshot s now =
     r_bind (require_session s now) (\<lambda>_.
     r_bind (require_at_least_one_price s) (\<lambda>_.
     r_bind (require_positive_prices s) (\<lambda>_.
     r_bind (require_bid_le_ask s) (\<lambda>_.
       let fallback = q_bid_price s = None \<or> q_ask_price s = None
       in if fallback \<and> q_last_price s = None then Inl no_last_for_fallback
          else Inr \<lparr>vq_snapshot = s, vq_fallback_used = fallback\<rparr>))))"

text \<open>What a snapshot must satisfy, as one predicate over its values.\<close>

definition positive_price :: "decimal option \<Rightarrow> bool" where
  "positive_price v = (case v of None \<Rightarrow> True | Some d \<Rightarrow> 0 < dval d)"

definition well_formed_quote :: "quote_snapshot \<Rightarrow> bool" where
  "well_formed_quote s \<longleftrightarrow>
     positive_price (q_bid_price s) \<and> positive_price (q_ask_price s) \<and> positive_price (q_last_price s) \<and>
     (\<forall>b a. q_bid_price s = Some b \<longrightarrow> q_ask_price s = Some a \<longrightarrow> dval b \<le> dval a) \<and>
     \<not> (q_bid_price s = None \<and> q_ask_price s = None \<and> q_last_price s = None)"

lemma nonpositive_iff: "nonpositive v \<longleftrightarrow> \<not> positive_price v"
  by (auto simp: nonpositive_def positive_price_def dec_cmp_iff split: option.splits)

lemma crossed_iff:
  "\<not> crossed s \<longleftrightarrow> (\<forall>b a. q_bid_price s = Some b \<longrightarrow> q_ask_price s = Some a \<longrightarrow> dval b \<le> dval a)"
  by (auto simp: crossed_def dec_cmp_iff not_less split: option.splits)

lemma validate_snapshot_Inr_iff:
  "validate_snapshot s now = Inr v \<longleftrightarrow>
     is_within_regular_session now \<and> is_within_regular_session (q_quote_time s) \<and>
     well_formed_quote s \<and>
     (q_last_price s = None \<longrightarrow> q_bid_price s \<noteq> None \<and> q_ask_price s \<noteq> None) \<and>
     v = \<lparr>vq_snapshot = s, vq_fallback_used = (q_bid_price s = None \<or> q_ask_price s = None)\<rparr>"
  unfolding validate_snapshot_def require_session_def require_at_least_one_price_def
    require_positive_prices_def require_bid_le_ask_def well_formed_quote_def first_nonpositive.simps
    nonpositive_iff Let_def crossed_iff [symmetric]
  by auto

section \<open>The provider protocol and the subscription reconciler\<close>

definition reconcile_on_create ::
  "('p \<Rightarrow> string set) \<Rightarrow> (string \<Rightarrow> 'p \<Rightarrow> 'e + 'p) \<Rightarrow> string \<Rightarrow> 'p \<Rightarrow> 'e + 'p" where
  "reconcile_on_create active_subscriptions subscribe symbol provider =
     (if symbol \<in> active_subscriptions provider then Inr provider else subscribe symbol provider)"

definition reconcile_on_terminal ::
  "(string \<Rightarrow> 'p \<Rightarrow> 'p) \<Rightarrow> string \<Rightarrow> nat \<Rightarrow> 'p \<Rightarrow> 'p" where
  "reconcile_on_terminal unsubscribe symbol other_active_count provider =
     (if 0 < other_active_count then provider else unsubscribe symbol provider)"

definition reconcile_after_terminal_transition ::
  "(string \<Rightarrow> 'p \<Rightarrow> 'p) \<Rightarrow> (string \<Rightarrow> nat) \<Rightarrow> string \<Rightarrow> 'p \<Rightarrow> 'p" where
  "reconcile_after_terminal_transition unsubscribe count_active_or_scheduled_for_symbol symbol provider =
     reconcile_on_terminal unsubscribe symbol (count_active_or_scheduled_for_symbol symbol) provider"

locale quote_provider =
  fixes get_quotes :: "string list \<Rightarrow> 'p \<Rightarrow> quote_error + quote_snapshot list"
    and subscribe :: "string \<Rightarrow> 'p \<Rightarrow> quote_error + 'p"
    and unsubscribe :: "string \<Rightarrow> 'p \<Rightarrow> 'p"
    and active_subscriptions :: "'p \<Rightarrow> string set"
  assumes subscribe_active:
      "subscribe s p = Inr p' \<Longrightarrow> active_subscriptions p' = insert s (active_subscriptions p)"
    and unsubscribe_active: "active_subscriptions (unsubscribe s p) = active_subscriptions p - {s}"
    and get_quotes_length: "get_quotes ss p = Inr qs \<Longrightarrow> length qs = length ss"
    and unsubscribe_forgets:
      "s \<in> active_subscriptions p \<Longrightarrow> s \<in> set ss \<Longrightarrow> \<exists>e. get_quotes ss (unsubscribe s p) = Inl e"
begin

lemma reconcile_create_active:
  "reconcile_on_create active_subscriptions subscribe s p = Inr p' \<Longrightarrow>
   active_subscriptions p' = insert s (active_subscriptions p)"
  by (auto simp: reconcile_on_create_def dest: subscribe_active split: if_splits)

lemma reconcile_terminal_active:
  "active_subscriptions (reconcile_on_terminal unsubscribe s n p) =
     (if 0 < n then active_subscriptions p else active_subscriptions p - {s})"
  by (simp add: reconcile_on_terminal_def unsubscribe_active)

text \<open>A covered store stays covered: releasing a symbol only happens when nothing counts on it.\<close>

lemma reconcile_terminal_covers:
  assumes "needed \<subseteq> active_subscriptions p" and "n = 0 \<longleftrightarrow> s \<notin> needed"
  shows "needed \<subseteq> active_subscriptions (reconcile_on_terminal unsubscribe s n p)"
  using assms by (auto simp: reconcile_terminal_active)

lemma reconcile_create_covers:
  assumes "needed \<subseteq> active_subscriptions p"
    and "reconcile_on_create active_subscriptions subscribe s p = Inr p'"
  shows "insert s needed \<subseteq> active_subscriptions p'"
  using assms by (auto dest: reconcile_create_active)

end

section \<open>The in-memory provider\<close>

text \<open>Listeners are registered callbacks, named by a number; the environment says what one does.\<close>

record in_memory_provider =
  im_snapshots :: "string \<rightharpoonup> quote_snapshot"
  im_subscribed :: "string set"
  im_listeners :: "nat list"

definition im_init :: in_memory_provider where
  "im_init = \<lparr>im_snapshots = Map.empty, im_subscribed = {}, im_listeners = []\<rparr>"

text \<open>\<open>get_quotes\<close> has the same body in both providers, over the snapshot cache.\<close>

definition cached_quotes ::
  "(string \<rightharpoonup> quote_snapshot) \<Rightarrow> string list \<Rightarrow> quote_error + quote_snapshot list" where
  "cached_quotes snapshots symbols =
     (case filter (\<lambda>s. snapshots s = None) symbols of
        missing # _ \<Rightarrow> Inl (QuoteUnavailableError missing)
      | [] \<Rightarrow> Inr (map (\<lambda>s. the (snapshots s)) symbols))"

definition im_get_quotes :: "string list \<Rightarrow> in_memory_provider \<Rightarrow> quote_error + quote_snapshot list" where
  "im_get_quotes symbols p = cached_quotes (im_snapshots p) symbols"

definition im_subscribe :: "string \<Rightarrow> in_memory_provider \<Rightarrow> quote_error + in_memory_provider" where
  "im_subscribe symbol p = Inr (p\<lparr>im_subscribed := insert symbol (im_subscribed p)\<rparr>)"

definition im_unsubscribe :: "string \<Rightarrow> in_memory_provider \<Rightarrow> in_memory_provider" where
  "im_unsubscribe symbol p =
     p\<lparr>im_subscribed := im_subscribed p - {symbol}, im_snapshots := (im_snapshots p)(symbol := None)\<rparr>"

definition im_active_subscriptions :: "in_memory_provider \<Rightarrow> string set" where
  "im_active_subscriptions p = im_subscribed p"

definition im_shutdown :: "in_memory_provider \<Rightarrow> in_memory_provider" where
  "im_shutdown p = p\<lparr>im_snapshots := Map.empty, im_subscribed := {}\<rparr>"

text \<open>A listener may change the world and may raise; the loop swallows what it raises.\<close>

definition fire_listeners ::
  "(nat \<Rightarrow> quote_snapshot \<Rightarrow> 'w \<Rightarrow> 'w \<times> 'e option) \<Rightarrow> quote_snapshot \<Rightarrow> nat list \<Rightarrow> 'w \<Rightarrow> 'w" where
  "fire_listeners run snapshot listeners w = foldl (\<lambda>w l. fst (run l snapshot w)) w listeners"

definition im_push_quote ::
  "(nat \<Rightarrow> quote_snapshot \<Rightarrow> 'w \<Rightarrow> 'w \<times> 'e option) \<Rightarrow> quote_snapshot \<Rightarrow>
   in_memory_provider \<Rightarrow> 'w \<Rightarrow> in_memory_provider \<times> 'w" where
  "im_push_quote run snapshot p w =
     (p\<lparr>im_subscribed := insert (q_symbol snapshot) (im_subscribed p),
         im_snapshots := (im_snapshots p)(q_symbol snapshot \<mapsto> snapshot)\<rparr>,
      fire_listeners run snapshot (im_listeners p) w)"

definition im_add_quote_listener :: "nat \<Rightarrow> in_memory_provider \<Rightarrow> in_memory_provider" where
  "im_add_quote_listener l p = p\<lparr>im_listeners := im_listeners p @ [l]\<rparr>"

definition im_remove_quote_listener :: "nat \<Rightarrow> in_memory_provider \<Rightarrow> in_memory_provider" where
  "im_remove_quote_listener l p = p\<lparr>im_listeners := remove1 l (im_listeners p)\<rparr>"

lemma cached_quotes_Inr_iff:
  "cached_quotes m ss = Inr qs \<longleftrightarrow> (\<forall>s \<in> set ss. m s \<noteq> None) \<and> qs = map (\<lambda>s. the (m s)) ss"
  by (auto simp: cached_quotes_def filter_empty_conv split: list.splits dest!: filter_eq_ConsD)

lemma cached_quotes_missing: "s \<in> set ss \<Longrightarrow> m s = None \<Longrightarrow> \<exists>e. cached_quotes m ss = Inl e"
  by (cases "cached_quotes m ss") (auto simp: cached_quotes_Inr_iff)

interpretation im: quote_provider im_get_quotes im_subscribe im_unsubscribe im_active_subscriptions
proof unfold_locales
  show "im_active_subscriptions p' = insert s (im_active_subscriptions p)"
    if "im_subscribe s p = Inr p'" for s p p'
    using that by (auto simp: im_subscribe_def im_active_subscriptions_def)
  show "im_active_subscriptions (im_unsubscribe s p) = im_active_subscriptions p - {s}" for s p
    by (simp add: im_unsubscribe_def im_active_subscriptions_def)
  show "length qs = length ss" if "im_get_quotes ss p = Inr qs" for ss p qs
    using that by (simp add: im_get_quotes_def cached_quotes_Inr_iff)
  show "\<exists>e. im_get_quotes ss (im_unsubscribe s p) = Inl e" if "s \<in> set ss" for s p ss
    using that by (simp add: im_get_quotes_def im_unsubscribe_def cached_quotes_missing)
qed

text \<open>Every snapshot of the cache belongs to a subscribed symbol and is filed under its own symbol.\<close>

definition im_wf :: "in_memory_provider \<Rightarrow> bool" where
  "im_wf p \<longleftrightarrow> dom (im_snapshots p) \<subseteq> im_subscribed p \<and>
     (\<forall>s q. im_snapshots p s = Some q \<longrightarrow> q_symbol q = s)"

lemma im_wf_preserved:
  "im_wf im_init"
  "im_wf p \<Longrightarrow> im_subscribe s p = Inr p' \<Longrightarrow> im_wf p'"
  "im_wf p \<Longrightarrow> im_wf (im_unsubscribe s p)"
  "im_wf p \<Longrightarrow> im_wf (im_shutdown p)"
  "im_wf p \<Longrightarrow> im_wf (fst (im_push_quote run q p w))"
  "im_wf p \<Longrightarrow> im_wf (im_add_quote_listener l p)"
  "im_wf p \<Longrightarrow> im_wf (im_remove_quote_listener l p)"
  by (auto simp: im_wf_def dom_def subset_iff im_init_def im_subscribe_def im_unsubscribe_def im_shutdown_def im_push_quote_def
      im_add_quote_listener_def im_remove_quote_listener_def)

lemma push_then_get: "im_get_quotes [q_symbol q] (fst (im_push_quote run q p w)) = Inr [q]"
  by (simp add: im_get_quotes_def im_push_quote_def cached_quotes_def)

end
