(* ===== verification/Twap_Plan.thy ===== *)
theory Twap_Plan
  imports Trade_Intent
begin

text \<open>
  \<open>domain/twap.py\<close>: the plan of a time-weighted order, an equal split of a quantity over equally
  spaced instants of one session. Times of day are microseconds since midnight, instants
  microseconds; \<open>timedelta.total_seconds() // n\<close> is integer division of microseconds.
\<close>

section \<open>The source\<close>

definition TWAP_MIN_QUANTITY_LOTS :: int where "TWAP_MIN_QUANTITY_LOTS = 2"
definition TWAP_MAX_QUANTITY_LOTS :: int where "TWAP_MAX_QUANTITY_LOTS = 1000"
definition TWAP_MIN_INTERVAL_SECONDS :: int where "TWAP_MIN_INTERVAL_SECONDS = 1"
definition TWAP_MAX_INTERVAL_SECONDS :: int where "TWAP_MAX_INTERVAL_SECONDS = 3600"
definition TWAP_MIN_MATERIALIZED_SLICES :: int where "TWAP_MIN_MATERIALIZED_SLICES = 2"
definition TWAP_MAX_MATERIALIZED_SLICES :: int where "TWAP_MAX_MATERIALIZED_SLICES = 200"
definition TWAP_PRICE_FOLLOWUP_MAX_ATTEMPTS :: int where "TWAP_PRICE_FOLLOWUP_MAX_ATTEMPTS = 3"
definition TWAP_PRICE_FOLLOWUP_DELAY_SECONDS :: int where "TWAP_PRICE_FOLLOWUP_DELAY_SECONDS = 10"

definition SESSION_START_TIME :: tod where "SESSION_START_TIME = 9 * 3600 * usec_per_sec"
definition TWAP_LATEST_START_TIME :: tod where "TWAP_LATEST_START_TIME = (13 * 3600 + 20 * 60) * usec_per_sec"
definition TWAP_LATEST_END_TIME :: tod where "TWAP_LATEST_END_TIME = (13 * 3600 + 25 * 60) * usec_per_sec"

lemmas twap_consts = TWAP_MIN_QUANTITY_LOTS_def TWAP_MAX_QUANTITY_LOTS_def TWAP_MIN_INTERVAL_SECONDS_def
  TWAP_MAX_INTERVAL_SECONDS_def TWAP_MIN_MATERIALIZED_SLICES_def TWAP_MAX_MATERIALIZED_SLICES_def
  SESSION_START_TIME_def TWAP_LATEST_START_TIME_def TWAP_LATEST_END_TIME_def

datatype twap_error =
    TwapInvalidIntervalError int
  | TwapInvalidQuantityError int
  | TwapEndTimeOutsideSessionError tod
  | TwapStartTimeOutsideSessionError tod
  | TwapStartTimeAfterEndTimeError tod tod
  | TwapEndTimeAlreadyPassedError datetime datetime
  | TwapInsufficientSlicesError int int
  | TwapTooManySlicesError int
  | TwapDuplicateActivePlanError uuid string position_side

record twap_slice_plan =
  sp_sequence_no :: int
  sp_scheduled_at :: datetime
  sp_planned_quantity_lots :: int

record twap_plan =
  tp_position_side :: position_side
  tp_trading_phase :: trading_day_phase
  tp_trading_date :: date
  tp_requested_start_time :: tod
  tp_start_at :: datetime
  tp_requested_end_time :: tod
  tp_end_at :: datetime
  tp_interval_seconds :: int
  tp_target_quantity_lots :: int
  tp_available_slice_count :: int
  tp_materialized_slice_count :: int
  tp_slices :: "twap_slice_plan list"

definition ceil_to_second :: "datetime \<Rightarrow> datetime" where
  "ceil_to_second dt =
     (if dt mod usec_per_sec = 0 then dt else dt - dt mod usec_per_sec + seconds 1)"

text \<open>The loop of \<open>_allocate_slices\<close>, by the number of slices still to be planned.\<close>

fun allocate_loop :: "datetime \<Rightarrow> int \<Rightarrow> nat \<Rightarrow> nat \<Rightarrow> int \<Rightarrow> twap_slice_plan list" where
  "allocate_loop start_at interval_seconds count 0 remaining_quantity = []"
| "allocate_loop start_at interval_seconds count (Suc k) remaining_quantity =
     (let index = int count - int (Suc k);
          planned_quantity = - ((- remaining_quantity) div int (Suc k))
      in \<lparr>sp_sequence_no = index + 1,
          sp_scheduled_at = start_at + seconds (interval_seconds * index),
          sp_planned_quantity_lots = planned_quantity\<rparr>
         # allocate_loop start_at interval_seconds count k (remaining_quantity - planned_quantity))"

definition allocate_slices :: "datetime \<Rightarrow> int \<Rightarrow> int \<Rightarrow> int \<Rightarrow> twap_slice_plan list" where
  "allocate_slices start_at interval_seconds target_quantity_lots materialized_slice_count =
     allocate_loop start_at interval_seconds (nat materialized_slice_count) (nat materialized_slice_count)
       target_quantity_lots"

text \<open>The date and the instant a plan starts at, from the phase of the day.\<close>

definition twap_start :: "trading_day_phase \<Rightarrow> datetime \<Rightarrow> tod option \<Rightarrow> date \<times> datetime" where
  "twap_start phase now start_time =
     (let today = taipei_date now; t0 = (case start_time of Some t \<Rightarrow> t | None \<Rightarrow> SESSION_START_TIME)
      in case phase of
           PRE_MARKET \<Rightarrow> (today, combine today t0)
         | REGULAR_SESSION \<Rightarrow>
             (today, case start_time of Some t \<Rightarrow> combine today t | None \<Rightarrow> ceil_to_second now)
         | POST_MARKET \<Rightarrow> (let d = next_trading_day today in (d, combine d t0)))"

definition build_twap_plan ::
  "position_side \<Rightarrow> int \<Rightarrow> int \<Rightarrow> tod option \<Rightarrow> tod \<Rightarrow> datetime \<Rightarrow> twap_error + twap_plan" where
  "build_twap_plan position_side quantity_lots interval_seconds start_time end_time now =
     (if interval_seconds < TWAP_MIN_INTERVAL_SECONDS \<or> TWAP_MAX_INTERVAL_SECONDS < interval_seconds
      then Inl (TwapInvalidIntervalError interval_seconds)
      else if quantity_lots < TWAP_MIN_QUANTITY_LOTS \<or> TWAP_MAX_QUANTITY_LOTS < quantity_lots
      then Inl (TwapInvalidQuantityError quantity_lots)
      else if (case start_time of None \<Rightarrow> False
               | Some t \<Rightarrow> t < SESSION_START_TIME \<or> TWAP_LATEST_START_TIME < t)
      then Inl (TwapStartTimeOutsideSessionError (the start_time))
      else if end_time < SESSION_START_TIME \<or> TWAP_LATEST_END_TIME < end_time
      then Inl (TwapEndTimeOutsideSessionError end_time)
      else if (case start_time of None \<Rightarrow> False | Some t \<Rightarrow> end_time < t)
      then Inl (TwapStartTimeAfterEndTimeError (the start_time) end_time)
      else
        let phase = get_trading_day_phase now;
            (trading_date, start_at) = twap_start phase now start_time;
            requested_start_time = (case start_time of Some t \<Rightarrow> t | None \<Rightarrow> taipei_time start_at);
            end_at = combine trading_date end_time
        in if phase = REGULAR_SESSION \<and> end_at < start_at
           then Inl (TwapEndTimeAlreadyPassedError end_at now)
           else if end_at < start_at then Inl (TwapInsufficientSlicesError 0 0)
           else
             let available_slice_count = (end_at - start_at) div seconds interval_seconds + 1;
                 materialized_slice_count = min available_slice_count quantity_lots
             in if materialized_slice_count < TWAP_MIN_MATERIALIZED_SLICES
                then Inl (TwapInsufficientSlicesError available_slice_count materialized_slice_count)
                else if TWAP_MAX_MATERIALIZED_SLICES < materialized_slice_count
                then Inl (TwapTooManySlicesError materialized_slice_count)
                else Inr \<lparr>tp_position_side = position_side, tp_trading_phase = phase,
                  tp_trading_date = trading_date, tp_requested_start_time = requested_start_time,
                  tp_start_at = start_at, tp_requested_end_time = end_time, tp_end_at = end_at,
                  tp_interval_seconds = interval_seconds, tp_target_quantity_lots = quantity_lots,
                  tp_available_slice_count = available_slice_count,
                  tp_materialized_slice_count = materialized_slice_count,
                  tp_slices = allocate_slices start_at interval_seconds quantity_lots materialized_slice_count\<rparr>)"

section \<open>The allocation\<close>

lemma length_allocate_loop [simp]: "length (allocate_loop s iv count k q) = k"
  by (induction k arbitrary: q) (simp_all add: Let_def)

text \<open>The first slices carry one lot more than the others.\<close>

lemma allocate_loop_quantities:
  assumes "r < k"
  shows "map sp_planned_quantity_lots (allocate_loop s iv count k (a * int k + int r)) =
    replicate r (a + 1) @ replicate (k - r) a"
  using assms
proof (induction k arbitrary: r)
  case (Suc k)
  let ?q = "a * int (Suc k) + int r"
  have planned: "- ((- ?q) div int (Suc k)) = a + (if r = 0 then 0 else 1)"
  proof (cases "r = 0")
    case False
    have "- ?q = (- a - 1) * int (Suc k) + (int (Suc k) - int r)" by (simp add: algebra_simps)
    moreover have "(int (Suc k) - int r) div int (Suc k) = 0" using False Suc.prems by simp
    ultimately have "(- ?q) div int (Suc k) = - a - 1"
      by (metis add.right_neutral div_mult_self3 of_nat_Suc of_nat_eq_0_iff nat.distinct(1))
    with False show ?thesis by simp
  next
    case True
    then have "- ?q = (- a) * int (Suc k)" by simp
    then have "(- ?q) div int (Suc k) = - a" by (simp only: nonzero_mult_div_cancel_right of_nat_eq_0_iff)
    with True show ?thesis by simp
  qed
  let ?p = "a + (if r = 0 then 0 else 1)"
  have step: "map sp_planned_quantity_lots (allocate_loop s iv count (Suc k) ?q) =
      ?p # map sp_planned_quantity_lots (allocate_loop s iv count k (?q - ?p))"
    unfolding allocate_loop.simps Let_def planned list.map by simp
  show ?case
  proof (cases "r = 0")
    case True
    then have eq: "?q - ?p = a * int k + int 0" by (simp add: algebra_simps)
    show ?thesis unfolding step eq using True Suc.IH [of 0] by (cases "k = 0") simp_all
  next
    case False
    then have eq: "?q - ?p = a * int k + int (r - 1)" by (simp add: algebra_simps of_nat_diff)
    show ?thesis unfolding step eq using False Suc.prems Suc.IH [of "r - 1"] by (cases r) simp_all
  qed
qed simp

lemma allocate_loop_nth:
  assumes "i < k" and "k \<le> count"
  shows "sp_sequence_no (allocate_loop s iv count k q ! i) = int (count - k + i) + 1 \<and>
    sp_scheduled_at (allocate_loop s iv count k q ! i) = s + seconds (iv * int (count - k + i))"
  using assms
proof (induction k arbitrary: i q)
  case (Suc k)
  show ?case
  proof (cases i)
    case 0
    with Suc.prems show ?thesis by (simp add: Let_def of_nat_diff)
  next
    case (Suc j)
    with Suc.prems Suc.IH [of j] have "count - k + j = count - Suc k + i" by simp
    with Suc Suc.IH [of j] \<open>i < Suc k\<close> \<open>Suc k \<le> count\<close> show ?thesis by (simp add: Let_def)
  qed
qed simp

lemma allocate_slices_quantities:
  assumes "0 < n" and "0 \<le> q"
  shows "map sp_planned_quantity_lots (allocate_slices s iv q n) =
    replicate (nat (q mod n)) (q div n + 1) @ replicate (nat (n - q mod n)) (q div n)"
proof -
  have r: "nat (q mod n) < nat n" using assms by (simp add: zless_nat_eq_int_zless)
  have "q = q div n * int (nat n) + int (nat (q mod n))" using assms by simp
  with allocate_loop_quantities [OF r, of s iv "nat n" "q div n"] show ?thesis
    unfolding allocate_slices_def using assms by (simp add: nat_diff_distrib')
qed

lemma sum_list_map_replicate2:
  "map f xs = replicate m (a + 1) @ replicate n a \<Longrightarrow> (\<Sum>x\<leftarrow>xs. f x) = int m * (a + 1) + int n * (a::int)"
  by (simp add: sum_list_replicate)

section \<open>The plan\<close>

lemma build_twap_plan_Inr:
  assumes "build_twap_plan side q iv st en now = Inr plan"
  shows "1 \<le> iv" "iv \<le> 3600" "2 \<le> q" "q \<le> 1000" "SESSION_START_TIME \<le> en" "en \<le> TWAP_LATEST_END_TIME"
    and "case st of None \<Rightarrow> True | Some t \<Rightarrow> SESSION_START_TIME \<le> t \<and> t \<le> TWAP_LATEST_START_TIME \<and> t \<le> en"
    and "tp_trading_phase plan = get_trading_day_phase now"
    and "(tp_trading_date plan, tp_start_at plan) = twap_start (get_trading_day_phase now) now st"
    and "tp_end_at plan = combine (tp_trading_date plan) en" and "tp_start_at plan \<le> tp_end_at plan"
    and "tp_available_slice_count plan = (tp_end_at plan - tp_start_at plan) div seconds iv + 1"
    and "tp_materialized_slice_count plan = min (tp_available_slice_count plan) q"
    and "2 \<le> tp_materialized_slice_count plan" and "tp_materialized_slice_count plan \<le> 200"
    and "tp_slices plan = allocate_slices (tp_start_at plan) iv q (tp_materialized_slice_count plan)"
    and "tp_target_quantity_lots plan = q" and "tp_interval_seconds plan = iv"
    and "tp_position_side plan = side"
proof -
  obtain d s where ds: "twap_start (get_trading_day_phase now) now st = (d, s)" by fastforce
  note plan = assms [unfolded build_twap_plan_def Let_def ds prod.case]
  have g: "\<not> (iv < TWAP_MIN_INTERVAL_SECONDS \<or> TWAP_MAX_INTERVAL_SECONDS < iv)"
    "\<not> (q < TWAP_MIN_QUANTITY_LOTS \<or> TWAP_MAX_QUANTITY_LOTS < q)"
    "\<not> (en < SESSION_START_TIME \<or> TWAP_LATEST_END_TIME < en)"
    using plan by (auto split: if_split_asm)
  then show "1 \<le> iv" "iv \<le> 3600" "2 \<le> q" "q \<le> 1000" "SESSION_START_TIME \<le> en" "en \<le> TWAP_LATEST_END_TIME"
    by (auto simp: twap_consts)
  show "case st of None \<Rightarrow> True | Some t \<Rightarrow> SESSION_START_TIME \<le> t \<and> t \<le> TWAP_LATEST_START_TIME \<and> t \<le> en"
    using plan g by (cases st) (auto split: if_split_asm)
  let ?e = "combine d en"
  let ?a = "(?e - s) div seconds iv + 1"
  have "\<not> ?e < s" "\<not> min ?a q < TWAP_MIN_MATERIALIZED_SLICES" "\<not> TWAP_MAX_MATERIALIZED_SLICES < min ?a q"
    and rep: "plan = \<lparr>tp_position_side = side, tp_trading_phase = get_trading_day_phase now,
      tp_trading_date = d, tp_requested_start_time = (case st of Some t \<Rightarrow> t | None \<Rightarrow> taipei_time s),
      tp_start_at = s, tp_requested_end_time = en, tp_end_at = ?e, tp_interval_seconds = iv,
      tp_target_quantity_lots = q, tp_available_slice_count = ?a, tp_materialized_slice_count = min ?a q,
      tp_slices = allocate_slices s iv q (min ?a q)\<rparr>"
    using plan by (auto split: if_split_asm)
  then show "tp_start_at plan \<le> tp_end_at plan" "2 \<le> tp_materialized_slice_count plan"
    "tp_materialized_slice_count plan \<le> 200"
    by (auto simp: twap_consts)
  show "tp_trading_phase plan = get_trading_day_phase now"
    "(tp_trading_date plan, tp_start_at plan) = twap_start (get_trading_day_phase now) now st"
    "tp_end_at plan = combine (tp_trading_date plan) en"
    "tp_available_slice_count plan = (tp_end_at plan - tp_start_at plan) div seconds iv + 1"
    "tp_materialized_slice_count plan = min (tp_available_slice_count plan) q"
    "tp_slices plan = allocate_slices (tp_start_at plan) iv q (tp_materialized_slice_count plan)"
    "tp_target_quantity_lots plan = q" "tp_interval_seconds plan = iv" "tp_position_side plan = side"
    by (simp_all add: rep ds)
qed

text \<open>
  (C35) An accepted plan distributes the order exactly: the slices' quantities add up to the
  requested quantity, there are between 2 and 200 of them and never more than lots, every slice
  carries at least one lot, and any two differ by at most one lot.
\<close>

theorem twap_plan_distributes:
  assumes "build_twap_plan side q iv st en now = Inr plan"
  shows "(\<Sum>s\<leftarrow>tp_slices plan. sp_planned_quantity_lots s) = q \<and>
    int (length (tp_slices plan)) = tp_materialized_slice_count plan \<and>
    2 \<le> length (tp_slices plan) \<and> length (tp_slices plan) \<le> 200 \<and>
    (\<forall>s \<in> set (tp_slices plan). 1 \<le> sp_planned_quantity_lots s) \<and>
    (\<forall>s \<in> set (tp_slices plan). \<forall>t \<in> set (tp_slices plan).
       sp_planned_quantity_lots s \<le> sp_planned_quantity_lots t + 1)"
proof -
  note plan = build_twap_plan_Inr [OF assms]
  let ?n = "tp_materialized_slice_count plan"
  have n: "0 < ?n" "?n \<le> q" "2 \<le> ?n" "?n \<le> 200" using plan(13-15) by auto
  have qs: "map sp_planned_quantity_lots (tp_slices plan) =
      replicate (nat (q mod ?n)) (q div ?n + 1) @ replicate (nat (?n - q mod ?n)) (q div ?n)"
    unfolding plan(16) using n plan(3) by (intro allocate_slices_quantities) auto
  have len: "length (tp_slices plan) = nat ?n" unfolding plan(16) by (simp add: allocate_slices_def)
  have "0 \<le> q mod ?n" "q mod ?n \<le> ?n" using n(1) by (simp_all add: less_imp_le)
  then have "(\<Sum>s\<leftarrow>tp_slices plan. sp_planned_quantity_lots s) = q mod ?n + ?n * (q div ?n)"
    using sum_list_map_replicate2 [OF qs] by (simp add: algebra_simps)
  moreover have "q mod ?n + ?n * (q div ?n) = q" by simp
  moreover have rng: "sp_planned_quantity_lots s = q div ?n \<or> sp_planned_quantity_lots s = q div ?n + 1"
    if "s \<in> set (tp_slices plan)" for s
  proof -
    have "sp_planned_quantity_lots s \<in> set (map sp_planned_quantity_lots (tp_slices plan))" using that by simp
    then show ?thesis unfolding qs by auto
  qed
  moreover have "1 \<le> q div ?n" using n by (metis div_self order_less_irrefl zdiv_mono1)
  ultimately show ?thesis using len n by (force dest!: rng)
qed

lemma sample_plan: "\<exists>p. build_twap_plan long_position 10 60 None TWAP_LATEST_END_TIME (combine 20000 0) = Inr p"
  by (simp add: build_twap_plan_def Let_def twap_consts twap_start_def get_trading_day_phase_def
      is_trading_day_def weekday_def session_consts)

theorem twap_plan_distributes_witness:
  "\<exists>p. build_twap_plan long_position 10 60 None TWAP_LATEST_END_TIME (combine 20000 0) = Inr p \<and>
     (\<Sum>s\<leftarrow>tp_slices p. sp_planned_quantity_lots s) = 10"
  using sample_plan twap_plan_distributes [of long_position 10 60 None TWAP_LATEST_END_TIME "combine 20000 0"]
  by blast

lemma ceil_to_second_ge: "dt \<le> ceil_to_second dt"
proof -
  have "dt mod usec_per_sec < usec_per_sec" by simp
  then show ?thesis unfolding ceil_to_second_def by (simp del: pos_mod_bound)
qed

lemma twap_start_props:
  assumes "twap_start (get_trading_day_phase now) now st = (d, s)"
    and "case st of None \<Rightarrow> True | Some t \<Rightarrow> SESSION_START_TIME \<le> t"
  shows "is_trading_day d" "combine d SESSION_START_TIME \<le> s" "st = None \<Longrightarrow> now \<le> s"
proof -
  show "is_trading_day d"
    using assms(1) next_weekday_least(1)
    by (auto simp: twap_start_def get_trading_day_phase_def Let_def next_trading_day_def split: if_splits)
  have ge: "combine (taipei_date now) SESSION_START \<le> now" if "SESSION_START \<le> taipei_time now"
    using that combine_date_time [of now] by (simp add: combine_def)
  show "combine d SESSION_START_TIME \<le> s"
    using assms ge ceil_to_second_ge [of now]
    by (cases st) (auto simp: twap_start_def get_trading_day_phase_def Let_def SESSION_START_TIME_def
        SESSION_START_def split: if_splits)
  have later: "now < combine e SESSION_START_TIME" if "taipei_date now < e" for e
  proof -
    have "now < (taipei_date now + 1) * usec_per_day - TAIPEI_OFFSET"
      using combine_date_time [of now] taipei_time_bounds(2) [of now] by (simp add: combine_def)
    also have "\<dots> \<le> e * usec_per_day - TAIPEI_OFFSET" using that by simp
    also have "\<dots> \<le> combine e SESSION_START_TIME" by (simp add: combine_def SESSION_START_TIME_def)
    finally show ?thesis .
  qed
  have pre: "now \<le> combine (taipei_date now) SESSION_START_TIME" if "taipei_time now < SESSION_START"
    using that combine_date_time [of now] by (simp add: combine_def SESSION_START_TIME_def SESSION_START_def)
  show "now \<le> s" if "st = None"
    using assms(1) that pre later [OF next_weekday_least(2)] ceil_to_second_ge [of now]
    by (auto simp: twap_start_def get_trading_day_phase_def Let_def next_trading_day_def split: if_splits)
qed

lemma between_same_day:
  assumes "combine d a \<le> x" and "x \<le> combine d b" and "0 \<le> a" and "b < usec_per_day"
  shows "taipei_date x = d \<and> a \<le> taipei_time x \<and> taipei_time x \<le> b"
proof -
  let ?t = "x - combine d 0"
  have t: "a \<le> ?t" "?t \<le> b" using assms(1,2) by (simp_all add: combine_def)
  have x: "x = combine d ?t" by (simp add: combine_def)
  from t assms(3,4) taipei_combine [of ?t d] x show ?thesis by simp
qed

lemma twap_slice_due:
  assumes "build_twap_plan side q iv st en now = Inr plan" and "i < length (tp_slices plan)"
  shows "sp_sequence_no (tp_slices plan ! i) = int i + 1 \<and>
    sp_scheduled_at (tp_slices plan ! i) = tp_start_at plan + seconds (iv * int i) \<and>
    sp_scheduled_at (tp_slices plan ! i) \<le> tp_end_at plan"
proof -
  note plan = build_twap_plan_Inr [OF assms(1)]
  let ?n = "tp_materialized_slice_count plan" and ?x = "sp_scheduled_at (tp_slices plan ! i)"
  have i: "i < nat ?n" using assms(2) by (simp add: plan(16) allocate_slices_def)
  from allocate_loop_nth [OF i, of "nat ?n"] have nth: "sp_sequence_no (tp_slices plan ! i) = int i + 1"
    "?x = tp_start_at plan + seconds (iv * int i)" by (simp_all add: plan(16) allocate_slices_def)
  have "int i \<le> (tp_end_at plan - tp_start_at plan) div seconds iv"
    using i plan(12,13) by linarith
  then have "int i * seconds iv \<le> (tp_end_at plan - tp_start_at plan) div seconds iv * seconds iv"
    using plan(1) by (intro mult_right_mono) auto
  also have "\<dots> \<le> tp_end_at plan - tp_start_at plan"
    using plan(1) pos_mod_sign [of "seconds iv" "tp_end_at plan - tp_start_at plan"]
    by (simp add: minus_mod_eq_div_mult [symmetric])
  finally have "?x \<le> tp_end_at plan" unfolding nth(2) by (simp add: mult_ac)
  with nth show ?thesis by blast
qed

text \<open>
  The schedule of an accepted plan: slice \<open>i\<close> is numbered \<open>i + 1\<close> and due \<open>i\<close> intervals after
  the start, no slice is due after the end, every due instant lies inside the regular session of the
  plan's trading date, and without an explicit start time nothing is due before \<open>now\<close>.
\<close>

theorem twap_plan_schedule:
  assumes "build_twap_plan side q iv st en now = Inr plan" and "i < length (tp_slices plan)"
  shows "sp_sequence_no (tp_slices plan ! i) = int i + 1 \<and>
    sp_scheduled_at (tp_slices plan ! i) = tp_start_at plan + seconds (iv * int i) \<and>
    sp_scheduled_at (tp_slices plan ! i) \<le> tp_end_at plan \<and>
    taipei_date (sp_scheduled_at (tp_slices plan ! i)) = tp_trading_date plan \<and>
    is_within_regular_session (sp_scheduled_at (tp_slices plan ! i)) \<and>
    (st = None \<longrightarrow> now \<le> sp_scheduled_at (tp_slices plan ! i))"
proof -
  note plan = build_twap_plan_Inr [OF assms(1)]
  let ?x = "sp_scheduled_at (tp_slices plan ! i)"
  from twap_slice_due [OF assms] have nth: "sp_sequence_no (tp_slices plan ! i) = int i + 1"
    "?x = tp_start_at plan + seconds (iv * int i)" and le: "?x \<le> tp_end_at plan" by blast+
  have st: "case st of None \<Rightarrow> True | Some t \<Rightarrow> SESSION_START_TIME \<le> t" using plan(7) by (cases st) auto
  note start = twap_start_props [OF plan(9) [symmetric] st]
  have ge: "tp_start_at plan \<le> ?x" unfolding nth(2) using plan(1) by simp
  have "combine (tp_trading_date plan) SESSION_START_TIME \<le> ?x" using start(2) ge by linarith
  moreover have "?x \<le> combine (tp_trading_date plan) TWAP_LATEST_END_TIME"
    using le plan(6,10) by (metis combine_same_day(3) order_trans)
  ultimately have "taipei_date ?x = tp_trading_date plan \<and> SESSION_START_TIME \<le> taipei_time ?x \<and>
      taipei_time ?x \<le> TWAP_LATEST_END_TIME"
    by (rule between_same_day) (simp_all add: twap_consts)
  with start(1) have "taipei_date ?x = tp_trading_date plan \<and> is_within_regular_session ?x"
    by (simp add: is_within_regular_session_def session_consts twap_consts)
  with nth le start(3) ge show ?thesis by auto
qed

theorem twap_plan_schedule_witness:
  "\<exists>p. build_twap_plan long_position 10 60 None TWAP_LATEST_END_TIME (combine 20000 0) = Inr p \<and>
     is_within_regular_session (sp_scheduled_at (tp_slices p ! 0))"
proof -
  obtain p where p: "build_twap_plan long_position 10 60 None TWAP_LATEST_END_TIME (combine 20000 0) = Inr p"
    using sample_plan by blast
  have "0 < length (tp_slices p)"
    using build_twap_plan_Inr(14,16) [OF p] by (simp add: allocate_slices_def)
  with p twap_plan_schedule [OF p, of 0] show ?thesis by blast
qed

text \<open>
  With an explicit start time the instant of the request is not consulted: at 13:00 a plan from
  09:00 to 10:00 of the same day is accepted although its end and every slice lie in the past
  (\<open>TwapEndTimeAlreadyPassedError\<close> only compares the end with the requested start).
\<close>

theorem twap_past_plan_accepted:
  "\<exists>p. build_twap_plan long_position 10 60 (Some (9 * 3600 * usec_per_sec)) (10 * 3600 * usec_per_sec)
         (combine 20000 (13 * 3600 * usec_per_sec)) = Inr p \<and>
     tp_end_at p < combine 20000 (13 * 3600 * usec_per_sec) \<and>
     list_all (\<lambda>s. sp_scheduled_at s < combine 20000 (13 * 3600 * usec_per_sec)) (tp_slices p)"
proof -
  let ?now = "combine 20000 (13 * 3600 * usec_per_sec)"
  obtain p where p: "build_twap_plan long_position 10 60 (Some (9 * 3600 * usec_per_sec))
      (10 * 3600 * usec_per_sec) ?now = Inr p"
    by (simp add: build_twap_plan_def Let_def twap_consts twap_start_def get_trading_day_phase_def
        is_trading_day_def weekday_def session_consts)
  note plan = build_twap_plan_Inr [OF p]
  have "tp_trading_date p = 20000"
    using plan(9) by (auto simp: twap_start_def get_trading_day_phase_def is_trading_day_def weekday_def
        session_consts Let_def split: if_splits)
  then have "tp_end_at p < ?now" by (simp add: plan(10))
  moreover have "sp_scheduled_at s \<le> tp_end_at p" if "s \<in> set (tp_slices p)" for s
    using that twap_slice_due [OF p] by (auto simp: in_set_conv_nth)
  ultimately show ?thesis using p by (auto simp: list_all_iff intro: le_less_trans)
qed

end
