(* ===== verification/Auth_Domain.thy ===== *)
theory Auth_Domain
  imports Prelude
begin

text \<open>
  \<open>domain/auth.py\<close>: the vocabulary of accounts and sessions. Roles, account states and revocation reasons
  are text columns under a \<open>CHECK\<close>; each is the datatype of the values the check admits. A
  \<open>retry_after_seconds\<close> of \<open>float("inf")\<close> is \<open>None\<close>.
\<close>

datatype user_role = role_user | role_admin

datatype user_status = st_invited | st_active | st_disabled

datatype revoked_reason =
    rev_rotated
  | rev_logout
  | rev_password_reset
  | rev_reuse_detected
  | rev_account_disabled
  | rev_2fa_reset

datatype auth_error =
    UnauthenticatedError
  | ForbiddenError
  | LoginFailedError
  | LoginLockedError "rat option"
  | RefreshInvalidError
  | RefreshReuseDetectedError
  | CsrfFailedError
  | MfaRequiredError
  | RateLimitedError "rat option"
  | MfaInvalidCodeError

datatype account_error =
    EmailAlreadyExistsError
  | UserNotFoundError
  | InvitationInvalidError
  | InvitationExpiredError
  | InvitationConsumedError
  | WeakPasswordError
  | PasswordResetInvalidError
  | MfaAlreadyEnabledError
  | MfaNotSetupError
  | AccountNotDisabledError

definition normalize_email :: "string \<Rightarrow> string" where
  "normalize_email email = lower (strip email)"

text \<open>Normalising is idempotent: the key of the bucket and the key of the lookup cannot diverge.\<close>

lemma lower_char_space [simp]: "is_space (lower_char c) = is_space c"
  by (auto simp: is_space_def lower_char_def Let_def)

lemma lower_char_idem [simp]: "lower_char (lower_char c) = lower_char c"
  by (auto simp: lower_char_def Let_def)

lemma lower_idem [simp]: "lower (lower s) = lower s"
  by (simp add: lower_def)

lemma strip_lower: "strip (lower s) = lower (strip s)"
proof -
  have drop: "dropWhile is_space (lower t) = lower (dropWhile is_space t)" for t
    by (simp add: lower_def dropWhile_map comp_def)
  have "rstrip_where is_space (lower t) = lower (rstrip_where is_space t)" for t
  proof -
    have "rev (lower t) = lower (rev t)" by (simp add: lower_def rev_map)
    then show ?thesis by (simp add: rstrip_where_def drop) (simp add: lower_def rev_map)
  qed
  then show ?thesis by (simp add: strip_def drop)
qed

lemma normalize_email_idem [simp]: "normalize_email (normalize_email e) = normalize_email e"
  by (simp add: normalize_email_def strip_lower)

lemma lower_normalize_email [simp]: "lower (normalize_email e) = normalize_email e"
  by (simp add: normalize_email_def)

end
