(* ===== verification/Error_Code.thy ===== *)
theory Error_Code
  imports Prelude
begin

text \<open>
  \<open>api/errors.py\<close>: the error codes of the HTTP interface, in the order of \<open>ErrorCode\<close>.
\<close>

datatype error_code =
    INTERNAL_ERROR
  | VALIDATION_ERROR
  | DATABASE_UNAVAILABLE
  | UNKNOWN_SYMBOL
  | SYMBOL_NOT_TRADABLE
  | INVALID_PRICE
  | INVALID_TICK_SIZE
  | INVALID_AMOUNT
  | INVALID_TYPE
  | DUPLICATE_INTENT
  | USER_INTENT_LIMIT_EXCEEDED
  | SYMBOL_INTENT_LIMIT_EXCEEDED
  | IDEMPOTENCY_KEY_REQUIRED
  | IDEMPOTENCY_KEY_CONFLICT
  | NOT_FOUND
  | CANCEL_NOT_ALLOWED
  | INVALID_CURSOR
  | QUOTE_PROVIDER_UNAVAILABLE
  | QUOTE_UNAVAILABLE
  | CURRENT_PRICE_SYMBOL_NOT_ALLOWED
  | TWAP_END_TIME_OUTSIDE_SESSION
  | TWAP_END_TIME_ALREADY_PASSED
  | TWAP_INSUFFICIENT_SLICES
  | TWAP_TOO_MANY_SLICES
  | TWAP_INVALID_INTERVAL
  | TWAP_INVALID_QUANTITY
  | TWAP_DUPLICATE_ACTIVE_PLAN
  | UNAUTHENTICATED
  | FORBIDDEN
  | ACCOUNT_DISABLED
  | SESSION_REVOKED
  | LOGIN_FAILED
  | LOGIN_LOCKED
  | REFRESH_INVALID
  | REFRESH_REUSE_DETECTED
  | CSRF_FAILED
  | MFA_REQUIRED
  | RATE_LIMITED
  | EMAIL_ALREADY_EXISTS
  | INVITATION_INVALID
  | INVITATION_EXPIRED
  | INVITATION_CONSUMED
  | WEAK_PASSWORD
  | PASSWORD_RESET_INVALID
  | MFA_INVALID_CODE
  | MFA_ALREADY_ENABLED
  | MFA_NOT_SETUP
  | ACCOUNT_NOT_DISABLED

end
