(* ===== verification/Exceptions.thy ===== *)
theory Exceptions
  imports Quote Twap_Plan Auth_Domain Error_Code
begin

text \<open>
  The exceptions that cross component boundaries: each component's own error type is one branch,
  an \<open>ApiError\<close> carries its code and HTTP status, and
  the built-in \<open>ValueError\<close>, \<open>TypeError\<close>, \<open>KeyError\<close> and \<open>RuntimeError\<close>, the failures of the mailer and of the
  cryptographic libraries, the database's integrity errors (with the
  constraint they name) and the numeric range error of a \<open>numeric(9,4)\<close> column are the others.
\<close>

datatype db_constraint =
    pk_violation
  | fk_violation
  | not_null_violation
  | check_violation string
  | uq_active_duplicate
  | uq_active_twap_duplicate
  | uq_trigger_intent
  | uq_slice_sequence
  | uq_other string

datatype exn =
    ExPrice price_error
  | ExSession session_error
  | ExIntent intent_error
  | ExSymbol symbol_error
  | ExTrigger trigger_error
  | ExTwap twap_error
  | ExQuote quote_error
  | ExNotification notification_error
  | ExIdempotencyConflict
  | ExAuth auth_error
  | ExAccount account_error
  | ExApi error_code nat
  | ExMailer
  | ExPasswordVerification
  | ExInvalidAccessToken
  | ExDecryption
  | ExType
  | ExKey string
  | ExDecimal dec_error
  | ExValue
  | ExRuntime
  | ExIntegrity db_constraint
  | ExNumericRange
  | ExMultipleResults

text \<open>\<open>Result.scalar_one_or_none()\<close> and \<open>one_or_none()\<close>: more than one row raises.\<close>

definition one_or_none :: "'r list \<Rightarrow> exn + 'r option" where
  "one_or_none rows = (case rows of [] \<Rightarrow> Inr None | [r] \<Rightarrow> Inr (Some r) | _ \<Rightarrow> Inl ExMultipleResults)"

lemma one_or_none_SomeD: "one_or_none rows = Inr (Some r) \<Longrightarrow> r \<in> set rows"
  by (auto simp: one_or_none_def split: list.splits)

definition lift_ex :: "('e \<Rightarrow> exn) \<Rightarrow> 'e + 'a \<Rightarrow> exn + 'a" where
  "lift_ex f r = (case r of Inl e \<Rightarrow> Inl (f e) | Inr x \<Rightarrow> Inr x)"

lemma lift_ex_simps [simp, bind_simps]:
  "lift_ex f (Inl e) = Inl (f e)"
  "lift_ex f (Inr x) = Inr x"
  by (simp_all add: lift_ex_def)

lemma lift_ex_Inr_iff [simp, bind_simps]: "lift_ex f r = Inr x \<longleftrightarrow> r = Inr x"
  by (cases r) auto

lemma lift_ex_Inl_iff [bind_simps]: "lift_ex f r = Inl x \<longleftrightarrow> (\<exists>e. r = Inl e \<and> x = f e)"
  by (cases r) auto

end
