(* ===== verification/Notification_Template.thy ===== *)
theory Notification_Template
  imports Exceptions
begin

text \<open>
  \<open>services/notification_template.py\<close>: the wording of notifications. A rendered line is a list of
  pieces: program text (symbols, numbers, prices), a fixed Chinese phrase of the template, or a
  Taipei time stamp at second precision (\<open>strftime("%Y-%m-%d %H:%M:%S")\<close>, which is a function of
  the local second). A title is one line, a body a list of lines. Every datetime is an aware instant,
  so the \<open>TypeError\<close> guards against naive values do not arise.
\<close>

datatype phrase = zh_buy_price_alert | zh_sell_price_alert | zh_limit_buy | zh_limit_sell
  | zh_market | zh_market_buy | zh_market_sell | zh_disclaimer
  | zh_long_position | zh_buy_action | zh_short_position | zh_sell_action
  | zh_price_alert_triggered | zh_triggered | zh_symbol | zh_strategy | zh_target_price
  | zh_trigger_price | zh_fill_reference_price | zh_quote_time | zh_filled | zh_ordered | zh_lots
  | zh_percentage_mode | zh_fixed_mode | zh_highest | zh_times | zh_trailing_exit_triggered
  | zh_trailing_exit | zh_trail_range | zh_todays_high | zh_actual_trigger_price
  | zh_open_paren | zh_close_paren | zh_nth | zh_slice | zh_suggest_market | zh_colon
  | zh_quote_unavailable | zh_reference_price | zh_followup_price | zh_sent_at | zh_late_price_note

datatype piece = Txt string | Zh phrase | Stamp int

type_synonym line = "piece list"
type_synonym rendered = "line \<times> line list"

definition stamp :: "datetime \<Rightarrow> piece" where
  "stamp t = Stamp ((t + TAIPEI_OFFSET) div usec_per_sec)"

definition price_piece :: "decimal \<Rightarrow> piece" where
  "price_piece p = Txt (format_price_str p)"

definition int_piece :: "int \<Rightarrow> piece" where
  "int_piece n = Txt (if n < 0 then CHR ''-'' # nat_str (nat (- n)) else nat_str (nat n))"

definition ref_str :: "reference_price_type \<Rightarrow> string" where
  "ref_str t = (case t of ref_ask \<Rightarrow> ''ask'' | ref_bid \<Rightarrow> ''bid'' | ref_last_fallback \<Rightarrow> ''last_fallback'')"

definition STRATEGY_LABELS :: "strategy \<rightharpoonup> phrase" where
  "STRATEGY_LABELS = [buy_price_alert \<mapsto> zh_buy_price_alert, sell_price_alert \<mapsto> zh_sell_price_alert]"

definition LIMIT_ORDER_LABELS :: "strategy \<rightharpoonup> phrase" where
  "LIMIT_ORDER_LABELS = [limit_buy_order \<mapsto> zh_limit_buy, limit_sell_order \<mapsto> zh_limit_sell]"

definition MARKET_ORDER_LABELS :: "strategy \<rightharpoonup> phrase" where
  "MARKET_ORDER_LABELS =
     [market_order \<mapsto> zh_market, market_buy_order \<mapsto> zh_market_buy, market_sell_order \<mapsto> zh_market_sell]"

definition POSITION_LABELS :: "position_side \<Rightarrow> phrase \<times> phrase" where
  "POSITION_LABELS p = (case p of
      long_position \<Rightarrow> (zh_long_position, zh_buy_action)
    | short_position \<Rightarrow> (zh_short_position, zh_sell_action))"

definition render_price_triggered ::
  "string \<Rightarrow> strategy \<Rightarrow> decimal \<Rightarrow> decimal \<Rightarrow> datetime \<Rightarrow> exn + rendered" where
  "render_price_triggered symbol strategy target_price trigger_price quote_time =
     (case STRATEGY_LABELS strategy of
        None \<Rightarrow> Inl ExValue
      | Some label \<Rightarrow> Inr ([Txt symbol, Zh zh_price_alert_triggered],
          [[Zh label], [], [Zh zh_symbol, Txt symbol], [Zh zh_target_price, price_piece target_price],
           [Zh zh_trigger_price, price_piece trigger_price], [Zh zh_quote_time, stamp quote_time], [],
           [Zh zh_disclaimer]]))"

definition render_limit_order_triggered ::
  "string \<Rightarrow> strategy \<Rightarrow> decimal \<Rightarrow> decimal \<Rightarrow> int \<Rightarrow> int \<Rightarrow> datetime \<Rightarrow> exn + rendered" where
  "render_limit_order_triggered symbol strategy target_price trigger_price filled_quantity_lots quantity_lots
     quote_time =
     (case LIMIT_ORDER_LABELS strategy of
        None \<Rightarrow> Inl ExValue
      | Some label \<Rightarrow> Inr ([Txt symbol, Zh label, Zh zh_triggered],
          [[Zh zh_strategy, Zh label], [Zh zh_symbol, Txt symbol],
           [Zh zh_target_price, price_piece target_price], [Zh zh_trigger_price, price_piece trigger_price],
           [Zh zh_filled, int_piece filled_quantity_lots, Zh zh_lots, Zh zh_ordered, int_piece quantity_lots,
            Zh zh_lots],
           [Zh zh_quote_time, stamp quote_time], [], [Zh zh_disclaimer]]))"

definition render_market_order_triggered ::
  "string \<Rightarrow> strategy \<Rightarrow> decimal \<Rightarrow> int \<Rightarrow> int \<Rightarrow> datetime \<Rightarrow> exn + rendered" where
  "render_market_order_triggered symbol strategy trigger_price filled_quantity_lots quantity_lots quote_time =
     (case MARKET_ORDER_LABELS strategy of
        None \<Rightarrow> Inl ExValue
      | Some label \<Rightarrow> Inr ([Txt symbol, Zh label, Zh zh_triggered],
          [[Zh zh_strategy, Zh label], [Zh zh_symbol, Txt symbol],
           [Zh zh_fill_reference_price, price_piece trigger_price],
           [Zh zh_filled, int_piece filled_quantity_lots, Zh zh_lots, Zh zh_ordered, int_piece quantity_lots,
            Zh zh_lots],
           [Zh zh_quote_time, stamp quote_time], [], [Zh zh_disclaimer]]))"

text \<open>\<open>format_price_str(x).rstrip('0').rstrip('.')\<close>.\<close>

definition trimmed_price :: "decimal \<Rightarrow> string" where
  "trimmed_price d = rstrip_char (CHR ''.'') (rstrip_char (CHR ''0'') (format_price_str d))"

definition render_trailing_stop_triggered ::
  "string \<Rightarrow> trail_mode \<Rightarrow> decimal \<Rightarrow> decimal \<Rightarrow> decimal \<Rightarrow> decimal \<Rightarrow> reference_price_type \<Rightarrow> datetime \<Rightarrow>
   exn + rendered" where
  "render_trailing_stop_triggered symbol mode trail_value baseline dynamic_trigger_price trigger_price
     trigger_reference_price_type quote_time =
     (case mode of other_mode _ \<Rightarrow> Inl ExValue
      | _ \<Rightarrow>
        let (mode_label, trail_text, trigger_formula) =
          (if mode = percentage
           then (zh_percentage_mode, [Txt (trimmed_price trail_value @ ''%'')],
                 [Zh zh_highest, Zh zh_times, Txt (trimmed_price (dec_sub (Dec False 100 0) trail_value) @ ''%'')])
           else (zh_fixed_mode, [Txt (''NT$'' @ format_price_str trail_value)],
                 [Zh zh_highest, Txt (''- '' @ trimmed_price trail_value)]))
        in Inr ([Txt symbol, Zh zh_trailing_exit_triggered],
          [[Zh zh_strategy, Zh zh_trailing_exit],
           [Zh zh_trail_range] @ trail_text @ [Zh zh_open_paren, Zh mode_label, Zh zh_close_paren],
           [Zh zh_todays_high, price_piece baseline],
           [Zh zh_trigger_price, Zh zh_open_paren] @ trigger_formula @
             [Zh zh_close_paren, price_piece dynamic_trigger_price],
           [Zh zh_actual_trigger_price, price_piece trigger_price, Zh zh_open_paren,
            Txt (ref_str trigger_reference_price_type), Zh zh_close_paren],
           [Zh zh_quote_time, stamp quote_time], [], [Zh zh_disclaimer]]))"

definition render_twap_slice ::
  "string \<Rightarrow> position_side \<Rightarrow> int \<Rightarrow> int \<Rightarrow> int \<Rightarrow> decimal option \<Rightarrow> reference_price_type option \<Rightarrow>
   datetime option \<Rightarrow> exn + rendered" where
  "render_twap_slice symbol side sequence_no total_slices planned_quantity_lots reference_price
     reference_price_type quote_time =
     (let (side_label, action_label) = POSITION_LABELS side;
          title = [Txt symbol, Txt '' TWAP '', Zh zh_nth, int_piece sequence_no, Txt ''/'', int_piece total_slices,
                   Zh zh_slice];
          body_lines = [[Zh side_label],
            [Zh zh_suggest_market, Zh action_label, Zh zh_colon, int_piece planned_quantity_lots, Zh zh_lots]]
      in case reference_price of
           None \<Rightarrow> Inr (title, body_lines @ [[Zh zh_quote_unavailable]])
         | Some p \<Rightarrow> (case (reference_price_type, quote_time) of
               (Some t, Some q) \<Rightarrow> Inr (title, body_lines @
                 [[Zh zh_reference_price, price_piece p, Zh zh_open_paren, Txt (ref_str t), Zh zh_close_paren],
                  [Zh zh_quote_time, stamp q]])
             | _ \<Rightarrow> Inl ExValue))"

definition render_twap_price_followup ::
  "string \<Rightarrow> int \<Rightarrow> int \<Rightarrow> decimal \<Rightarrow> reference_price_type \<Rightarrow> datetime \<Rightarrow> rendered" where
  "render_twap_price_followup symbol sequence_no total_slices reference_price reference_price_type sent_at =
     ([Txt symbol, Txt '' TWAP '', Zh zh_followup_price],
      [[Zh zh_nth, int_piece sequence_no, Txt ''/'', int_piece total_slices, Zh zh_slice, Zh zh_reference_price,
        price_piece reference_price, Zh zh_open_paren, Txt (ref_str reference_price_type), Zh zh_close_paren],
       [Zh zh_sent_at, stamp sent_at], [Zh zh_late_price_note]])"

section \<open>When rendering succeeds\<close>

lemma render_price_ok_iff:
  "(\<exists>r. render_price_triggered s st a b q = Inr r) \<longleftrightarrow> st \<in> {buy_price_alert, sell_price_alert}"
  by (auto simp: render_price_triggered_def STRATEGY_LABELS_def split: option.splits if_splits)

lemma render_limit_ok_iff:
  "(\<exists>r. render_limit_order_triggered s st a b m n q = Inr r) \<longleftrightarrow> st \<in> {limit_buy_order, limit_sell_order}"
  by (auto simp: render_limit_order_triggered_def LIMIT_ORDER_LABELS_def split: option.splits if_splits)

lemma render_market_ok_iff:
  "(\<exists>r. render_market_order_triggered s st a m n q = Inr r) \<longleftrightarrow> st \<in> MARKET_ORDER_STRATEGIES"
  by (auto simp: render_market_order_triggered_def MARKET_ORDER_LABELS_def MARKET_ORDER_STRATEGIES_def
      split: option.splits if_splits)

lemma render_trailing_ok_iff:
  "(\<exists>r. render_trailing_stop_triggered s mode v b d p t q = Inr r) \<longleftrightarrow> mode \<in> {percentage, fixed_amount}"
  by (cases mode) (auto simp: render_trailing_stop_triggered_def Let_def)

lemma render_twap_ok:
  "reference_price = None \<or> (reference_price_type \<noteq> None \<and> quote_time \<noteq> None) \<Longrightarrow>
   \<exists>r. render_twap_slice s side i n k reference_price reference_price_type quote_time = Inr r"
  by (cases side) (auto simp: render_twap_slice_def POSITION_LABELS_def Let_def split: option.splits)

lemma int_piece_inject [simp]: "int_piece m = int_piece n \<longleftrightarrow> m = n"
proof -
  have "nat_str k \<noteq> CHR ''-'' # t" for k t
  proof
    assume "nat_str k = CHR ''-'' # t"
    with nat_str_digits [of k] show False by (simp add: is_digit_def)
  qed
  then show ?thesis by (auto simp: int_piece_def nat_eq_iff dest: sym)
qed

text \<open>
  A limit-order notification determines what it reports: two rendered messages coincide only
  for the same symbol, side, quantities and second, and for numerically equal prices, so the text
  sent to the user cannot hide which price triggered.
\<close>

theorem render_limit_faithful:
  assumes "render_limit_order_triggered s st a b m n q = Inr msg"
    and "render_limit_order_triggered s' st' a' b' m' n' q' = Inr msg"
    and "\<not> dneg a" "\<not> dneg a'" "\<not> dneg b" "\<not> dneg b'"
  shows "s = s' \<and> st = st' \<and> dval a = dval a' \<and> dval b = dval b' \<and> m = m' \<and> n = n' \<and>
    (q + TAIPEI_OFFSET) div usec_per_sec = (q' + TAIPEI_OFFSET) div usec_per_sec"
proof -
  have "st \<in> {limit_buy_order, limit_sell_order}" "st' \<in> {limit_buy_order, limit_sell_order}"
    using assms(1,2) render_limit_ok_iff by blast+
  moreover have "format_price_str a = format_price_str a' \<Longrightarrow> dval a = dval a'"
    "format_price_str b = format_price_str b' \<Longrightarrow> dval b = dval b'"
    using assms(3-6) by (auto dest: format_price_str_inject)
  ultimately show ?thesis
    using assms(1,2) by (auto simp: render_limit_order_triggered_def LIMIT_ORDER_LABELS_def price_piece_def
        stamp_def split: option.splits)
qed

theorem render_limit_faithful_witness:
  "\<exists>r. render_limit_order_triggered ''2330'' limit_buy_order (Dec False 600 0) (Dec False 599 0) 1 1 0 = Inr r \<and>
     dval (Dec False 600 0) = dval (Dec False 600 0)"
proof -
  obtain r where r: "render_limit_order_triggered ''2330'' limit_buy_order (Dec False 600 0) (Dec False 599 0) 1 1 0 = Inr r"
    by (simp add: render_limit_order_triggered_def LIMIT_ORDER_LABELS_def)
  with render_limit_faithful [OF r r] show ?thesis by simp
qed

end
