(* ===== verification/Core_Store.thy ===== *)
theory Core_Store
  imports Notification_Template
begin

text \<open>
  \<open>db/models/trade_intent_core.py\<close>, \<open>repositories/trade_intent_core_repository.py\<close>,
  \<open>services/symbol.py\<close>: the tables of the new order track and every operation of its repository.
  A table is the list of its rows; \<open>flush\<close> checks the constraints the models declare, in the order
  the server reports them (range, \<open>CHECK\<close>, primary key, unique index, foreign key). \<open>uuid4()\<close> is an
  argument, and so is \<open>func.now()\<close>, the start instant of the transaction. A query without
  \<open>ORDER BY\<close> returns rows in table order.
\<close>

section \<open>Columns and rows\<close>

text \<open>A \<open>numeric(9,4)\<close> column rounds half away from zero to four decimals and refuses 100000 and more.\<close>

definition numeric94 :: "decimal \<Rightarrow> exn + decimal" where
  "numeric94 d =
     (let n = (if -4 \<le> dexp d then dcoeff d * 10 ^ nat (dexp d + 4)
               else (2 * dcoeff d + 10 ^ nat (- 4 - dexp d)) div (2 * 10 ^ nat (- 4 - dexp d)))
      in if n < 10 ^ 9 then Inr (Dec (dneg d \<and> 0 < n) n (-4)) else Inl ExNumericRange)"

definition numeric94_opt :: "decimal option \<Rightarrow> exn + decimal option" where
  "numeric94_opt v = (case v of None \<Rightarrow> Inr None | Some d \<Rightarrow> r_bind (numeric94 d) (\<lambda>x. Inr (Some x)))"

record symbol_row =
  sy_symbol :: string
  sy_display_name :: string
  sy_market :: string
  sy_instrument_type :: string
  sy_tradable_status :: string

record core_row =
  c_id :: uuid
  c_owner_user_id :: uuid
  c_symbol :: string
  c_strategy :: strategy
  c_execution_mode :: string
  c_quantity_lots :: int
  c_trigger_reference_price_type :: reference_price_type
  c_trading_date :: date
  c_time_in_force :: string
  c_status :: intent_status
  c_cancelled_at :: "datetime option"
  c_triggered_at :: "datetime option"
  c_transaction_mode :: transaction_mode
  c_notification_mode :: string
  c_filled_quantity_lots :: int
  c_last_fill_at :: "datetime option"
  c_dedup_key :: string
  c_created_at :: datetime
  c_updated_at :: datetime

record price_params =
  pp_trade_intent_id :: uuid
  pp_target_price_original :: decimal
  pp_target_price_effective :: decimal

record trailing_params =
  tr_trade_intent_id :: uuid
  tr_trail_mode :: trail_mode
  tr_trail_value :: decimal
  tr_baseline :: "decimal option"
  tr_dynamic_trigger_price :: "decimal option"
  tr_baseline_updated_at :: "datetime option"

record twap_params =
  tw_trade_intent_id :: uuid
  tw_position_side :: position_side
  tw_twap_interval_seconds :: int
  tw_twap_end_time :: tod
  tw_twap_start_at :: datetime
  tw_twap_end_at :: datetime
  tw_twap_available_slice_count :: int
  tw_twap_materialized_slice_count :: int

text \<open>The JSON stored with a trigger: the symbol, the three prices as text, and the two instants.\<close>

record quote_json =
  j_symbol :: string
  j_bid_price :: "string option"
  j_ask_price :: "string option"
  j_last_price :: "string option"
  j_quote_time :: datetime
  j_received_at :: datetime

definition quote_snapshot_to_jsonb :: "quote_snapshot \<Rightarrow> quote_json" where
  "quote_snapshot_to_jsonb q = \<lparr>j_symbol = q_symbol q,
     j_bid_price = map_option dec_str (q_bid_price q), j_ask_price = map_option dec_str (q_ask_price q),
     j_last_price = map_option dec_str (q_last_price q), j_quote_time = q_quote_time q,
     j_received_at = q_received_at q\<rparr>"

record trigger_row =
  tg_id :: uuid
  tg_trade_intent_id :: uuid
  tg_owner_user_id :: uuid
  tg_symbol :: string
  tg_quote_snapshot :: quote_json
  tg_target_price_effective :: decimal
  tg_trigger_price :: decimal
  tg_trigger_reference_price_type :: reference_price_type
  tg_fallback_used :: bool
  tg_filled_quantity_lots :: int
  tg_baseline_at_trigger :: "decimal option"
  tg_dynamic_trigger_price_at_trigger :: "decimal option"
  tg_triggered_at :: datetime
  tg_created_at :: datetime

record notification_row =
  n_id :: uuid
  n_owner_user_id :: uuid
  n_trade_intent_id :: "uuid option"
  n_trade_intent_core_id :: "uuid option"
  n_type :: notification_type
  n_rendered_title :: line
  n_rendered_body :: "line list"
  n_read_at :: "datetime option"
  n_created_at :: datetime
  n_updated_at :: datetime

record core_db =
  db_users :: "uuid list"
  db_symbols :: "symbol_row list"
  db_core :: "core_row list"
  db_price :: "price_params list"
  db_trailing :: "trailing_params list"
  db_twap :: "twap_params list"
  db_triggers :: "trigger_row list"
  db_notifications :: "notification_row list"

section \<open>Symbols\<close>

definition find_by_symbol :: "string \<Rightarrow> core_db \<Rightarrow> symbol_row option" where
  "find_by_symbol symbol db = find_row (\<lambda>r. sy_symbol r = symbol) (db_symbols db)"

definition get_by_symbol :: "string \<Rightarrow> core_db \<Rightarrow> exn + symbol_row" where
  "get_by_symbol symbol db = (case find_by_symbol symbol db of
      None \<Rightarrow> Inl (ExSymbol (UnknownSymbolError symbol)) | Some r \<Rightarrow> Inr r)"

definition get_tradable_symbol :: "string \<Rightarrow> core_db \<Rightarrow> exn + symbol_row" where
  "get_tradable_symbol symbol db = r_bind (get_by_symbol symbol db) (\<lambda>r.
     if sy_tradable_status r \<noteq> ''tradable''
     then Inl (ExSymbol (SymbolNotTradableError symbol (sy_tradable_status r)))
     else Inr r)"

text \<open>\<open>SecurityType(instrument_type)\<close>: any other string is a \<open>ValueError\<close>.\<close>

definition security_type_of :: "string \<Rightarrow> security_type option" where
  "security_type_of s = (if s = ''stock'' then Some STOCK else if s = ''etf'' then Some ETF else None)"

section \<open>Domain objects from rows\<close>

definition dedup_price :: "decimal option \<Rightarrow> string" where
  "dedup_price v = (case v of Some d \<Rightarrow> format_price_str d | None \<Rightarrow> [])"

text \<open>How the f-string \<open>f"{trail_mode}:{value}"\<close> writes the mode.\<close>

definition trail_mode_str :: "trail_mode option \<Rightarrow> string" where
  "trail_mode_str m = (case m of None \<Rightarrow> ''None'' | Some percentage \<Rightarrow> ''percentage''
     | Some fixed_amount \<Rightarrow> ''fixed_amount'' | Some (other_mode s) \<Rightarrow> s)"

definition build_dedup_key ::
  "strategy \<Rightarrow> decimal option \<Rightarrow> trail_mode option \<Rightarrow> decimal option \<Rightarrow> position_side option \<Rightarrow> string" where
  "build_dedup_key strategy target_price_effective mode trail_value side =
     (if strategy = trailing_stop_alert then trail_mode_str mode @ '':'' @ dedup_price trail_value
      else if strategy = twap_order
      then (case side of Some long_position \<Rightarrow> ''long'' | Some short_position \<Rightarrow> ''short'' | None \<Rightarrow> [])
      else dedup_price target_price_effective)"

definition price_of :: "core_db \<Rightarrow> uuid \<Rightarrow> price_params option" where
  "price_of db i = find_row (\<lambda>r. pp_trade_intent_id r = i) (db_price db)"

definition trailing_of :: "core_db \<Rightarrow> uuid \<Rightarrow> trailing_params option" where
  "trailing_of db i = find_row (\<lambda>r. tr_trade_intent_id r = i) (db_trailing db)"

definition twap_of :: "core_db \<Rightarrow> uuid \<Rightarrow> twap_params option" where
  "twap_of db i = find_row (\<lambda>r. tw_trade_intent_id r = i) (db_twap db)"

definition to_domain :: "core_db \<Rightarrow> core_row \<Rightarrow> security_type \<Rightarrow> trade_intent_data" where
  "to_domain db core st =
     (let price = price_of db (c_id core); trailing = trailing_of db (c_id core); twap = twap_of db (c_id core)
      in \<lparr>ti_id = c_id core, ti_owner_user_id = c_owner_user_id core, ti_symbol = c_symbol core,
        ti_strategy = c_strategy core, ti_execution_mode = c_execution_mode core,
        ti_quantity_lots = c_quantity_lots core,
        ti_target_price_original = map_option pp_target_price_original price,
        ti_target_price_effective = map_option pp_target_price_effective price,
        ti_trigger_reference_price_type = c_trigger_reference_price_type core,
        ti_trading_date = c_trading_date core, ti_time_in_force = c_time_in_force core,
        ti_status = c_status core, ti_created_at = c_created_at core, ti_updated_at = c_updated_at core,
        ti_cancelled_at = c_cancelled_at core, ti_triggered_at = c_triggered_at core,
        ti_transaction_mode = c_transaction_mode core, ti_notification_mode = c_notification_mode core,
        ti_filled_quantity_lots = c_filled_quantity_lots core, ti_last_fill_at = c_last_fill_at core,
        ti_trail_mode = map_option tr_trail_mode trailing, ti_trail_value = map_option tr_trail_value trailing,
        ti_baseline = Option.bind trailing tr_baseline,
        ti_dynamic_trigger_price = Option.bind trailing tr_dynamic_trigger_price,
        ti_baseline_updated_at = Option.bind trailing tr_baseline_updated_at,
        ti_security_type = st, ti_position_side = map_option tw_position_side twap,
        ti_twap_interval_seconds = map_option tw_twap_interval_seconds twap,
        ti_twap_end_time = map_option tw_twap_end_time twap,
        ti_twap_start_at = map_option tw_twap_start_at twap,
        ti_twap_end_at = map_option tw_twap_end_at twap,
        ti_twap_available_slice_count = map_option tw_twap_available_slice_count twap,
        ti_twap_materialized_slice_count = map_option tw_twap_materialized_slice_count twap\<rparr>)"

text \<open>\<open>_core_with_symbol_type().where(...)\<close>: the inner join with the symbol's instrument type.\<close>

definition core_with_symbol_type :: "(core_row \<Rightarrow> bool) \<Rightarrow> core_db \<Rightarrow> (core_row \<times> string) list" where
  "core_with_symbol_type p db =
     concat (map (\<lambda>c. map (\<lambda>s. (c, sy_instrument_type s))
                        (filter (\<lambda>s. sy_symbol s = c_symbol c) (db_symbols db)))
       (filter p (db_core db)))"

definition domain_of :: "core_db \<Rightarrow> core_row \<times> string \<Rightarrow> exn + trade_intent_data" where
  "domain_of db row = (case security_type_of (snd row) of
      None \<Rightarrow> Inl ExValue | Some st \<Rightarrow> Inr (to_domain db (fst row) st))"

fun map_r :: "('a \<Rightarrow> 'e + 'b) \<Rightarrow> 'a list \<Rightarrow> 'e + 'b list" where
  "map_r f [] = Inr []"
| "map_r f (x # xs) = r_bind (f x) (\<lambda>y. r_bind (map_r f xs) (\<lambda>ys. Inr (y # ys)))"

section \<open>Constraints\<close>

definition known_strategy :: "strategy \<Rightarrow> bool" where
  "known_strategy s = (case s of other_strategy _ \<Rightarrow> False | _ \<Rightarrow> True)"

definition pg_integer :: "int \<Rightarrow> bool" where
  "pg_integer n \<longleftrightarrow> - (2 ^ 31) \<le> n \<and> n < 2 ^ 31"

definition live_status :: "intent_status \<Rightarrow> bool" where
  "live_status s \<longleftrightarrow> s \<in> CANCELLABLE_STATUSES"

text \<open>The key and the predicate of \<open>uq_trade_intent_core_active_duplicate\<close>.\<close>

definition dup_key :: "core_row \<Rightarrow> uuid \<times> string \<times> strategy \<times> string \<times> int \<times> date" where
  "dup_key r = (c_owner_user_id r, c_symbol r, c_strategy r, c_dedup_key r, c_quantity_lots r, c_trading_date r)"

definition dup_scope :: "core_row \<Rightarrow> bool" where
  "dup_scope r \<longleftrightarrow> c_strategy r \<noteq> twap_order \<and> live_status (c_status r)"

definition core_checks :: "core_row \<Rightarrow> db_constraint option" where
  "core_checks r =
     (if \<not> known_strategy (c_strategy r) then Some (check_violation ''strategy'')
      else if c_execution_mode r \<noteq> ''notify_only'' then Some (check_violation ''execution_mode'')
      else if c_time_in_force r \<noteq> ''day'' then Some (check_violation ''time_in_force'')
      else if c_quantity_lots r \<le> 0 then Some (check_violation ''quantity_lots'')
      else if c_notification_mode r \<noteq> ''single'' then Some (check_violation ''notification_mode'')
      else if c_filled_quantity_lots r < 0 then Some (check_violation ''filled_quantity_lots'')
      else None)"

definition insert_core :: "core_row \<Rightarrow> core_db \<Rightarrow> exn + core_db" where
  "insert_core r db =
     (if \<not> pg_integer (c_quantity_lots r) then Inl ExNumericRange
      else case core_checks r of
        Some k \<Rightarrow> Inl (ExIntegrity k)
      | None \<Rightarrow>
          if c_id r \<in> c_id ` set (db_core db) then Inl (ExIntegrity pk_violation)
          else if dup_scope r \<and> (\<exists>x \<in> set (db_core db). dup_scope x \<and> dup_key x = dup_key r)
          then Inl (ExIntegrity uq_active_duplicate)
          else if c_owner_user_id r \<notin> set (db_users db) \<or> c_symbol r \<notin> sy_symbol ` set (db_symbols db)
          then Inl (ExIntegrity fk_violation)
          else Inr (db\<lparr>db_core := db_core db @ [r]\<rparr>))"

definition insert_price_params :: "uuid \<Rightarrow> decimal option \<Rightarrow> decimal \<Rightarrow> core_db \<Rightarrow> exn + core_db" where
  "insert_price_params i original effective db =
     r_bind (numeric94_opt original) (\<lambda>o'. r_bind (numeric94 effective) (\<lambda>e.
       case o' of
         None \<Rightarrow> Inl (ExIntegrity not_null_violation)
       | Some orig \<Rightarrow>
           if dec_le orig dec_zero then Inl (ExIntegrity (check_violation ''target_price_original''))
           else if dec_le e dec_zero then Inl (ExIntegrity (check_violation ''target_price_effective''))
           else if i \<in> pp_trade_intent_id ` set (db_price db) then Inl (ExIntegrity pk_violation)
           else if i \<notin> c_id ` set (db_core db) then Inl (ExIntegrity fk_violation)
           else Inr (db\<lparr>db_price := db_price db @
             [\<lparr>pp_trade_intent_id = i, pp_target_price_original = orig, pp_target_price_effective = e\<rparr>]\<rparr>)))"

definition trailing_checks :: "trailing_params \<Rightarrow> db_constraint option" where
  "trailing_checks r =
     (if \<not> (case tr_trail_mode r of other_mode _ \<Rightarrow> False | _ \<Rightarrow> True) then Some (check_violation ''trail_mode'')
      else if \<not> (dec_less dec_zero (tr_trail_value r) \<and>
                 (tr_trail_mode r = percentage \<longrightarrow> dec_le (tr_trail_value r) (Dec False 10 0)))
      then Some (check_violation ''trail_value_range'')
      else if nonpositive (tr_baseline r) then Some (check_violation ''baseline_positive'')
      else if nonpositive (tr_dynamic_trigger_price r) then Some (check_violation ''dynamic_trigger_price'')
      else None)"

definition insert_trailing_params ::
  "uuid \<Rightarrow> trail_mode \<Rightarrow> decimal \<Rightarrow> decimal option \<Rightarrow> decimal option \<Rightarrow> datetime option \<Rightarrow> core_db \<Rightarrow> exn + core_db" where
  "insert_trailing_params i mode trail_value baseline dynamic_trigger_price baseline_updated_at db =
     r_bind (numeric94 trail_value) (\<lambda>v. r_bind (numeric94_opt baseline) (\<lambda>b.
     r_bind (numeric94_opt dynamic_trigger_price) (\<lambda>d.
       let r = \<lparr>tr_trade_intent_id = i, tr_trail_mode = mode, tr_trail_value = v, tr_baseline = b,
                tr_dynamic_trigger_price = d, tr_baseline_updated_at = baseline_updated_at\<rparr>
       in case trailing_checks r of
            Some k \<Rightarrow> Inl (ExIntegrity k)
          | None \<Rightarrow>
              if i \<in> tr_trade_intent_id ` set (db_trailing db) then Inl (ExIntegrity pk_violation)
              else if i \<notin> c_id ` set (db_core db) then Inl (ExIntegrity fk_violation)
              else Inr (db\<lparr>db_trailing := db_trailing db @ [r]\<rparr>))))"

section \<open>The repository\<close>

record create_args =
  ca_owner_user_id :: uuid
  ca_symbol :: string
  ca_strategy :: strategy
  ca_quantity_lots :: int
  ca_target_price_original :: "decimal option"
  ca_target_price_effective :: "decimal option"
  ca_trigger_reference_price_type :: reference_price_type
  ca_trading_date :: date
  ca_time_in_force :: string
  ca_execution_mode :: string
  ca_status :: intent_status
  ca_transaction_mode :: transaction_mode
  ca_notification_mode :: string
  ca_trail_mode :: "trail_mode option"
  ca_trail_value :: "decimal option"
  ca_baseline :: "decimal option"
  ca_dynamic_trigger_price :: "decimal option"
  ca_baseline_updated_at :: "datetime option"

text \<open>The guards of \<open>create\<close> before any query: strategy and parameters must agree.\<close>

definition create_guard :: "create_args \<Rightarrow> exn + unit" where
  "create_guard a =
     (let is_trailing = ca_strategy a = trailing_stop_alert;
          any_trailing = (ca_trail_mode a \<noteq> None \<or> ca_trail_value a \<noteq> None \<or> ca_baseline a \<noteq> None \<or>
            ca_dynamic_trigger_price a \<noteq> None \<or> ca_baseline_updated_at a \<noteq> None);
          requires_price = (\<not> is_trailing \<and> ca_strategy a \<notin> MARKET_ORDER_STRATEGIES)
      in if ca_strategy a = twap_order then Inl ExValue
         else if is_trailing \<and> (ca_trail_mode a = None \<or> ca_trail_value a = None) then Inl ExValue
         else if \<not> is_trailing \<and> any_trailing then Inl ExValue
         else if requires_price \<and> (ca_target_price_original a = None \<or> ca_target_price_effective a = None)
         then Inl ExValue
         else if \<not> requires_price \<and> (ca_target_price_original a \<noteq> None \<or> ca_target_price_effective a \<noteq> None)
         then Inl ExValue
         else Inr ())"

definition create_dedup_key :: "create_args \<Rightarrow> string" where
  "create_dedup_key a = build_dedup_key (ca_strategy a) (ca_target_price_effective a) (ca_trail_mode a)
     (ca_trail_value a) None"

definition new_core_row :: "datetime \<Rightarrow> uuid \<Rightarrow> create_args \<Rightarrow> core_row" where
  "new_core_row tx_now new_id a =
     \<lparr>c_id = new_id, c_owner_user_id = ca_owner_user_id a, c_symbol = ca_symbol a,
      c_strategy = ca_strategy a, c_execution_mode = ca_execution_mode a,
      c_quantity_lots = ca_quantity_lots a,
      c_trigger_reference_price_type = ca_trigger_reference_price_type a,
      c_trading_date = ca_trading_date a, c_time_in_force = ca_time_in_force a, c_status = ca_status a,
      c_cancelled_at = None, c_triggered_at = None, c_transaction_mode = ca_transaction_mode a,
      c_notification_mode = ca_notification_mode a, c_filled_quantity_lots = 0, c_last_fill_at = None,
      c_dedup_key = create_dedup_key a, c_created_at = tx_now, c_updated_at = tx_now\<rparr>"

text \<open>The flush of \<open>create\<close>: the core row, then its satellite.\<close>

definition create_flush :: "datetime \<Rightarrow> uuid \<Rightarrow> create_args \<Rightarrow> core_db \<Rightarrow> exn + core_db" where
  "create_flush tx_now new_id a db =
     r_bind (insert_core (new_core_row tx_now new_id a) db) (\<lambda>db1.
     r_bind (case ca_target_price_effective a of
               None \<Rightarrow> Inr db1
             | Some e \<Rightarrow> insert_price_params new_id (ca_target_price_original a) e db1) (\<lambda>db2.
     if ca_strategy a = trailing_stop_alert
     then (case (ca_trail_mode a, ca_trail_value a) of
             (Some m, Some v) \<Rightarrow> insert_trailing_params new_id m v (ca_baseline a) (ca_dynamic_trigger_price a)
                                  (ca_baseline_updated_at a) db2
           | _ \<Rightarrow> Inl (ExIntegrity not_null_violation))
     else Inr db2))"

definition create :: "datetime \<Rightarrow> uuid \<Rightarrow> create_args \<Rightarrow> core_db \<Rightarrow> exn + uuid \<times> core_db" where
  "create tx_now new_id a db =
     (let dup_err = ExIntent (DuplicateIntentError (ca_owner_user_id a) (ca_symbol a) (ca_strategy a))
      in r_bind (create_guard a) (\<lambda>_.
         r_bind (one_or_none (filter (\<lambda>r. c_owner_user_id r = ca_owner_user_id a \<and> c_symbol r = ca_symbol a \<and>
             c_strategy r = ca_strategy a \<and> c_dedup_key r = create_dedup_key a \<and>
             c_quantity_lots r = ca_quantity_lots a \<and> c_trading_date r = ca_trading_date a \<and>
             c_status r \<in> CANCELLABLE_STATUSES) (db_core db))) (\<lambda>duplicate.
         case duplicate of
           Some _ \<Rightarrow> Inl dup_err
         | None \<Rightarrow> (case create_flush tx_now new_id a db of
             Inl (ExIntegrity _) \<Rightarrow> Inl dup_err
           | Inl e \<Rightarrow> Inl e
           | Inr db' \<Rightarrow> Inr (new_id, db')))))"

definition select_core :: "uuid \<Rightarrow> uuid \<Rightarrow> core_db \<Rightarrow> exn + core_row \<times> string" where
  "select_core intent_id owner_user_id db =
     r_bind (one_or_none (core_with_symbol_type (\<lambda>r. c_id r = intent_id) db)) (\<lambda>result.
       case result of
         None \<Rightarrow> Inl (ExIntent (IntentNotFoundError intent_id))
       | Some (core, instrument_type) \<Rightarrow>
           if c_owner_user_id core \<noteq> owner_user_id then Inl (ExIntent (IntentNotFoundError intent_id))
           else Inr (core, instrument_type))"

definition find_by_id :: "uuid \<Rightarrow> uuid \<Rightarrow> core_db \<Rightarrow> exn + trade_intent_data" where
  "find_by_id intent_id owner_user_id db =
     r_bind (select_core intent_id owner_user_id db) (\<lambda>row. domain_of db row)"

definition set_cancelled :: "datetime \<Rightarrow> core_row \<Rightarrow> core_row" where
  "set_cancelled tx_now r = r\<lparr>c_status := cancelled, c_updated_at := tx_now, c_cancelled_at := Some tx_now\<rparr>"

definition cancel :: "datetime \<Rightarrow> uuid \<Rightarrow> uuid \<Rightarrow> core_db \<Rightarrow> exn + trade_intent_data \<times> core_db" where
  "cancel tx_now intent_id owner_user_id db =
     r_bind (select_core intent_id owner_user_id db) (\<lambda>(core, instrument_type).
       if c_status core = cancelled then r_bind (domain_of db (core, instrument_type)) (\<lambda>d. Inr (d, db))
       else if c_status core \<notin> CANCELLABLE_STATUSES
       then Inl (ExIntent (CancelNotAllowedError intent_id (c_status core)))
       else let db' = db\<lparr>db_core := upd_where (\<lambda>r. c_id r = intent_id) (set_cancelled tx_now) (db_core db)\<rparr>
            in r_bind (domain_of db' (set_cancelled tx_now core, instrument_type)) (\<lambda>d. Inr (d, db')))"

text \<open>The \<open>UPDATE\<close> of the trailing satellite, with its column range and \<open>CHECK\<close> constraints.\<close>

definition set_baseline ::
  "decimal option \<Rightarrow> decimal option \<Rightarrow> datetime option \<Rightarrow> trailing_params \<Rightarrow> trailing_params" where
  "set_baseline baseline dyn upd r =
     r\<lparr>tr_baseline := baseline, tr_dynamic_trigger_price := dyn,
       tr_baseline_updated_at := (case upd of None \<Rightarrow> tr_baseline_updated_at r | Some t \<Rightarrow> Some t)\<rparr>"

definition system_update_trailing_baseline ::
  "datetime \<Rightarrow> uuid \<Rightarrow> decimal option \<Rightarrow> decimal option \<Rightarrow> datetime option \<Rightarrow> core_db \<Rightarrow> exn + core_db" where
  "system_update_trailing_baseline tx_now intent_id baseline dynamic_trigger_price baseline_updated_at db =
     r_bind (numeric94_opt baseline) (\<lambda>b. r_bind (numeric94_opt dynamic_trigger_price) (\<lambda>d.
       let hit = (\<lambda>r. tr_trade_intent_id r = intent_id);
           new_rows = map (set_baseline b d baseline_updated_at) (filter hit (db_trailing db))
       in case List.map_filter trailing_checks new_rows of
            k # _ \<Rightarrow> Inl (ExIntegrity k)
          | [] \<Rightarrow>
              if count_where hit (db_trailing db) = 0 then Inl ExValue
              else Inr (db\<lparr>db_trailing := upd_where hit (set_baseline b d baseline_updated_at) (db_trailing db),
                          db_core := upd_where (\<lambda>r. c_id r = intent_id) (\<lambda>r. r\<lparr>c_updated_at := tx_now\<rparr>)
                            (db_core db)\<rparr>)))"

definition system_list_active_symbols :: "core_db \<Rightarrow> string list" where
  "system_list_active_symbols db = remdups (map c_symbol (filter (\<lambda>r. c_status r = active) (db_core db)))"

definition system_list_active_by_symbols :: "string list \<Rightarrow> core_db \<Rightarrow> exn + trade_intent_data list" where
  "system_list_active_by_symbols symbols db =
     (if symbols = [] then Inr []
      else map_r (domain_of db)
        (core_with_symbol_type (\<lambda>r. c_status r = active \<and> c_symbol r \<in> set symbols) db))"

definition active_or_scheduled_symbols :: "core_db \<Rightarrow> string set" where
  "active_or_scheduled_symbols db = c_symbol ` set (filter (\<lambda>r. c_status r \<in> CANCELLABLE_STATUSES) (db_core db))"

definition count_active_or_scheduled_for_user :: "uuid \<Rightarrow> core_db \<Rightarrow> nat" where
  "count_active_or_scheduled_for_user owner db =
     count_where (\<lambda>r. c_owner_user_id r = owner \<and> c_status r \<in> CANCELLABLE_STATUSES) (db_core db)"

definition count_active_or_scheduled_for_user_symbol :: "uuid \<Rightarrow> string \<Rightarrow> core_db \<Rightarrow> nat" where
  "count_active_or_scheduled_for_user_symbol owner symbol db =
     count_where (\<lambda>r. c_owner_user_id r = owner \<and> c_symbol r = symbol \<and> c_status r \<in> CANCELLABLE_STATUSES)
       (db_core db)"

definition count_active_or_scheduled_for_symbol :: "string \<Rightarrow> core_db \<Rightarrow> nat" where
  "count_active_or_scheduled_for_symbol symbol db =
     count_where (\<lambda>r. c_symbol r = symbol \<and> c_status r \<in> CANCELLABLE_STATUSES) (db_core db)"

definition set_status_at :: "intent_status \<Rightarrow> datetime \<Rightarrow> core_row \<Rightarrow> core_row" where
  "set_status_at s now r = r\<lparr>c_status := s, c_updated_at := now\<rparr>"

definition system_activate_scheduled_day_intents :: "date \<Rightarrow> datetime \<Rightarrow> core_db \<Rightarrow> nat \<times> core_db" where
  "system_activate_scheduled_day_intents trading_date now db =
     (let hit = (\<lambda>r. c_status r = scheduled \<and> c_trading_date r = trading_date)
      in (count_where hit (db_core db),
          db\<lparr>db_core := upd_where hit (set_status_at active now) (db_core db)\<rparr>))"

definition system_expire_day_intents_through :: "date \<Rightarrow> datetime \<Rightarrow> core_db \<Rightarrow> nat \<times> core_db" where
  "system_expire_day_intents_through cutoff_date now db =
     (let hit = (\<lambda>r. c_status r \<in> CANCELLABLE_STATUSES \<and> c_trading_date r \<le> cutoff_date)
      in (count_where hit (db_core db),
          db\<lparr>db_core := upd_where hit (set_status_at expired now) (db_core db)\<rparr>))"

definition set_cancelled_as :: "intent_status \<Rightarrow> datetime \<Rightarrow> core_row \<Rightarrow> core_row" where
  "set_cancelled_as s now r = r\<lparr>c_status := s, c_cancelled_at := Some now, c_updated_at := now\<rparr>"

definition cancel_active_for_owner :: "uuid \<Rightarrow> intent_status \<Rightarrow> datetime \<Rightarrow> core_db \<Rightarrow> nat \<times> core_db" where
  "cancel_active_for_owner owner status now db =
     (let hit = (\<lambda>r. c_owner_user_id r = owner \<and> c_status r \<in> CANCELLABLE_STATUSES)
      in (count_where hit (db_core db),
          db\<lparr>db_core := upd_where hit (set_cancelled_as status now) (db_core db)\<rparr>))"

end
