(* ===== verification/Core_Invariant.thy ===== *)
theory Core_Invariant
  imports Core_Store
begin

text \<open>
  The consistency of the new track's tables, as one invariant, and the evolution of its rows; every
  repository operation preserves the first and follows the second. The constraints the models declare
  are the easy half; the agreement of strategy and satellite, and of status and trigger row, is what
  the code has to maintain by itself.
\<close>

section \<open>The invariant\<close>

definition symbols_ok :: "core_db \<Rightarrow> bool" where
  "symbols_ok db \<longleftrightarrow> distinct (map sy_symbol (db_symbols db)) \<and>
     (\<forall>s \<in> set (db_symbols db). security_type_of (sy_instrument_type s) \<noteq> None)"

definition price_strategy :: "strategy \<Rightarrow> bool" where
  "price_strategy s \<longleftrightarrow> s \<in> {buy_price_alert, sell_price_alert, limit_buy_order, limit_sell_order}"

text \<open>The values a \<open>numeric(9,4)\<close> column holds.\<close>

definition is_numeric94 :: "decimal \<Rightarrow> bool" where
  "is_numeric94 d \<longleftrightarrow> dexp d = - 4 \<and> dcoeff d < 10 ^ 9"

definition price_ok :: "price_params \<Rightarrow> bool" where
  "price_ok p \<longleftrightarrow> 0 < dval (pp_target_price_original p) \<and> 0 < dval (pp_target_price_effective p) \<and>
     is_numeric94 (pp_target_price_original p) \<and> is_numeric94 (pp_target_price_effective p)"

definition trailing_ok :: "trailing_params \<Rightarrow> bool" where
  "trailing_ok t \<longleftrightarrow> trailing_checks t = None \<and> is_numeric94 (tr_trail_value t) \<and>
     pred_option is_numeric94 (tr_baseline t) \<and> pred_option is_numeric94 (tr_dynamic_trigger_price t)"

lemma numeric94_Inr: "numeric94 d = Inr x \<Longrightarrow> is_numeric94 x"
  by (auto simp: numeric94_def is_numeric94_def Let_def split: if_splits)

lemma numeric94_opt_Inr: "numeric94_opt v = Inr x \<Longrightarrow> pred_option is_numeric94 x"
  by (auto simp: numeric94_opt_def r_bind_Inr_iff numeric94_Inr split: option.splits)

lemma numeric94_id: "is_numeric94 d \<Longrightarrow> 0 < dval d \<Longrightarrow> numeric94 d = Inr d"
  by (cases d) (auto simp: numeric94_def is_numeric94_def Let_def dval_pos_iff dint_pos_iff)

text \<open>A value between one ten-thousandth and 99999 is accepted and stays positive.\<close>

lemma numeric94_range:
  assumes "1 / 10 ^ 4 \<le> dval d" and "dval d \<le> 99999"
  shows "\<exists>x. numeric94 d = Inr x \<and> 0 < dval x"
proof -
  have pos: "0 < dval d" using assms(1) by (rule less_le_trans [rotated]) simp
  then have sgn: "\<not> dneg d" "0 < dcoeff d" by (simp_all add: dval_pos_iff dint_pos_iff)
  let ?n = "if -4 \<le> dexp d then dcoeff d * 10 ^ nat (dexp d + 4)
    else (2 * dcoeff d + 10 ^ nat (- 4 - dexp d)) div (2 * 10 ^ nat (- 4 - dexp d))"
  have val: "dval d = of_nat (dcoeff d) * 10 powi dexp d" using sgn by (simp add: dval_def dint_def)
  have n: "0 < ?n \<and> ?n < 10 ^ 9"
  proof (cases "-4 \<le> dexp d")
    case True
    have "(10 powi dexp d :: rat) * 10 ^ 4 = 10 ^ nat (dexp d + 4)"
      using True powi_10_shift [of "-4" "dexp d"] by (simp add: power_int_minus field_simps)
    then have "of_nat (dcoeff d * 10 ^ nat (dexp d + 4)) = dval d * 10 ^ 4" by (simp add: val mult.assoc)
    also have "\<dots> < of_nat (10 ^ 9)" using assms(2) by simp
    finally have "dcoeff d * 10 ^ nat (dexp d + 4) < 10 ^ 9" by (simp only: of_nat_less_iff)
    with True sgn show ?thesis by simp
  next
    case False
    let ?k = "nat (- 4 - dexp d)"
    have "(10 powi (- 4) :: rat) = 10 ^ ?k * 10 powi dexp d"
      using False powi_10_shift [of "dexp d" "-4"] by simp
    then have v: "of_nat (dcoeff d) = dval d * 10 ^ 4 * 10 ^ ?k"
      by (simp add: val power_int_minus field_simps)
    have "(1 :: rat) * 10 ^ ?k \<le> dval d * 10 ^ 4 * 10 ^ ?k"
      using assms(1) by (intro mult_right_mono) (simp_all add: field_simps)
    then have "of_nat (10 ^ ?k) \<le> (of_nat (dcoeff d) :: rat)" by (simp add: v)
    then have lo: "10 ^ ?k \<le> dcoeff d" by (simp only: of_nat_le_iff)
    have "dval d * 10 ^ 4 * 10 ^ ?k \<le> 999990000 * 10 ^ ?k"
      using assms(2) by (intro mult_right_mono) simp_all
    then have "of_nat (dcoeff d) \<le> (of_nat (999990000 * 10 ^ ?k) :: rat)" by (simp add: v)
    then have hi: "dcoeff d \<le> 999990000 * 10 ^ ?k" by (simp only: of_nat_le_iff)
    have "2 * 10 ^ ?k \<le> 2 * dcoeff d + 10 ^ ?k" using lo by simp
    then have "0 < (2 * dcoeff d + 10 ^ ?k) div (2 * 10 ^ ?k)" by (simp add: div_greater_zero_iff)
    moreover have "(2 * dcoeff d + 10 ^ ?k) div (2 * 10 ^ ?k) < 10 ^ 9"
    proof (rule less_mult_imp_div_less)
      have "(1::nat) \<le> 10 ^ ?k" by simp
      moreover have "10 ^ 9 * (2 * 10 ^ ?k) = 2000000000 * (10 ^ ?k :: nat)" by simp
      ultimately show "2 * dcoeff d + 10 ^ ?k < 10 ^ 9 * (2 * 10 ^ ?k)" using hi by linarith
    qed
    ultimately show ?thesis using False by simp
  qed
  then have "numeric94 d = Inr (Dec False ?n (-4))" using sgn by (simp add: numeric94_def Let_def)
  moreover have "0 < dval (Dec False ?n (-4))" using n by (simp add: dval_pos_iff dint_pos_iff)
  ultimately show ?thesis by blast
qed

definition core_row_ok :: "core_db \<Rightarrow> core_row \<Rightarrow> bool" where
  "core_row_ok db r \<longleftrightarrow> core_checks r = None \<and> c_symbol r \<in> sy_symbol ` set (db_symbols db) \<and>
     c_owner_user_id r \<in> set (db_users db) \<and> c_strategy r \<noteq> twap_order \<and>
     (c_id r \<in> pp_trade_intent_id ` set (db_price db) \<longleftrightarrow> price_strategy (c_strategy r)) \<and>
     (c_id r \<in> tr_trade_intent_id ` set (db_trailing db) \<longleftrightarrow> c_strategy r = trailing_stop_alert)"

definition triggered_ids :: "core_row list \<Rightarrow> uuid set" where
  "triggered_ids rows = c_id ` {r \<in> set rows. c_status r = triggered}"

definition core_inv :: "core_db \<Rightarrow> bool" where
  "core_inv db \<longleftrightarrow> symbols_ok db \<and>
     distinct (map c_id (db_core db)) \<and> distinct (map pp_trade_intent_id (db_price db)) \<and>
     distinct (map tr_trade_intent_id (db_trailing db)) \<and> distinct (map tg_trade_intent_id (db_triggers db)) \<and>
     unique_on dup_scope dup_key (db_core db) \<and>
     (\<forall>r \<in> set (db_core db). core_row_ok db r) \<and>
     pp_trade_intent_id ` set (db_price db) \<subseteq> c_id ` set (db_core db) \<and>
     tr_trade_intent_id ` set (db_trailing db) \<subseteq> c_id ` set (db_core db) \<and>
     (\<forall>p \<in> set (db_price db). price_ok p) \<and> (\<forall>t \<in> set (db_trailing db). trailing_ok t) \<and>
     tg_trade_intent_id ` set (db_triggers db) = triggered_ids (db_core db)"

definition empty_db :: "uuid list \<Rightarrow> symbol_row list \<Rightarrow> core_db" where
  "empty_db users symbols = \<lparr>db_users = users, db_symbols = symbols, db_core = [], db_price = [],
     db_trailing = [], db_twap = [], db_triggers = [], db_notifications = []\<rparr>"

lemma core_inv_empty: "symbols_ok (empty_db us ss) \<Longrightarrow> core_inv (empty_db us ss)"
  by (simp add: core_inv_def empty_db_def triggered_ids_def)

section \<open>Reading rows\<close>

definition instrument :: "core_db \<Rightarrow> core_row \<Rightarrow> string" where
  "instrument db c = sy_instrument_type (the (find_by_symbol (c_symbol c) db))"

definition sec_type :: "core_db \<Rightarrow> core_row \<Rightarrow> security_type" where
  "sec_type db c = the (security_type_of (instrument db c))"

definition view :: "core_db \<Rightarrow> core_row \<Rightarrow> trade_intent_data" where
  "view db c = to_domain db c (sec_type db c)"

lemma join_symbol:
  assumes "symbols_ok db" and "c_symbol c \<in> sy_symbol ` set (db_symbols db)"
  shows "map sy_instrument_type (filter (\<lambda>s. sy_symbol s = c_symbol c) (db_symbols db)) = [instrument db c]"
    "security_type_of (instrument db c) = Some (sec_type db c)"
proof -
  obtain s where s: "s \<in> set (db_symbols db)" "c_symbol c = sy_symbol s" using assms(2) by force
  have d: "distinct (map sy_symbol (db_symbols db))" using assms(1) by (simp add: symbols_ok_def)
  have f: "find_by_symbol (c_symbol c) db = Some s"
    unfolding find_by_symbol_def s(2) by (rule find_row_key [OF d s(1)])
  then show "map sy_instrument_type (filter (\<lambda>x. sy_symbol x = c_symbol c) (db_symbols db)) = [instrument db c]"
    by (simp add: s(2) filter_key [OF d s(1)] instrument_def)
  show "security_type_of (instrument db c) = Some (sec_type db c)"
    using assms(1) s(1) f by (auto simp: symbols_ok_def sec_type_def instrument_def)
qed

lemma core_invD:
  assumes "core_inv db"
  shows "symbols_ok db" "distinct (map c_id (db_core db))" "unique_on dup_scope dup_key (db_core db)"
    "distinct (map pp_trade_intent_id (db_price db))" "distinct (map tr_trade_intent_id (db_trailing db))"
    "r \<in> set (db_core db) \<Longrightarrow> core_row_ok db r"
    "r \<in> set (db_core db) \<Longrightarrow> c_symbol r \<in> sy_symbol ` set (db_symbols db)"
  using assms by (auto simp: core_inv_def core_row_ok_def)

lemma core_with_symbol_type_eq:
  assumes "core_inv db"
  shows "core_with_symbol_type p db = map (\<lambda>c. (c, instrument db c)) (filter p (db_core db))"
proof -
  have "map (\<lambda>s. (c, sy_instrument_type s)) (filter (\<lambda>s. sy_symbol s = c_symbol c) (db_symbols db)) =
      [(c, instrument db c)]" if "c \<in> set (db_core db)" for c
  proof -
    from join_symbol(1) [OF core_invD(1) [OF assms] core_invD(7) [OF assms that]]
    have "map (Pair c) (map sy_instrument_type (filter (\<lambda>s. sy_symbol s = c_symbol c) (db_symbols db))) =
        [(c, instrument db c)]" by simp
    then show ?thesis by (simp add: comp_def)
  qed
  then have "map (\<lambda>c. map (\<lambda>s. (c, sy_instrument_type s))
        (filter (\<lambda>s. sy_symbol s = c_symbol c) (db_symbols db))) (filter p (db_core db)) =
      map (\<lambda>c. [(c, instrument db c)]) (filter p (db_core db))"
    by (intro map_cong) auto
  from arg_cong [OF this, of concat] show ?thesis
    by (simp only: core_with_symbol_type_def concat_map_singleton)
qed

lemma domain_of_eq:
  "core_inv db \<Longrightarrow> c \<in> set (db_core db) \<Longrightarrow> domain_of db (c, instrument db c) = Inr (view db c)"
  using join_symbol(2) [OF core_invD(1,7)] by (simp add: domain_of_def view_def)

lemma map_r_Inr: "(\<And>x. x \<in> set xs \<Longrightarrow> f x = Inr (g x)) \<Longrightarrow> map_r f xs = Inr (map g xs)"
  by (induction xs) auto

lemma map_r_mem: "map_r f xs = Inr ys \<Longrightarrow> y \<in> set ys \<Longrightarrow> \<exists>x \<in> set xs. f x = Inr y"
  by (induction xs arbitrary: ys) (auto simp: r_bind_Inr_iff)

lemma list_active_eq:
  assumes "core_inv db"
  shows "system_list_active_by_symbols [symbol] db =
    Inr (map (view db) (filter (\<lambda>r. c_status r = active \<and> c_symbol r = symbol) (db_core db)))"
proof -
  have "map_r (domain_of db) (map (\<lambda>c. (c, instrument db c)) rows) = Inr (map (view db) rows)"
    if "set rows \<subseteq> set (db_core db)" for rows
    using that domain_of_eq [OF assms] by (induction rows) auto
  from this [of "filter (\<lambda>r. c_status r = active \<and> c_symbol r = symbol) (db_core db)"] show ?thesis
    by (simp add: system_list_active_by_symbols_def core_with_symbol_type_eq [OF assms])
qed

definition get_core :: "core_db \<Rightarrow> uuid \<Rightarrow> core_row option" where
  "get_core db i = find_row (\<lambda>r. c_id r = i) (db_core db)"

lemma get_core_Some: "get_core db i = Some r \<Longrightarrow> r \<in> set (db_core db) \<and> c_id r = i"
  unfolding get_core_def by (drule find_row_SomeD)

lemma get_core_mem:
  "core_inv db \<Longrightarrow> r \<in> set (db_core db) \<Longrightarrow> get_core db (c_id r) = Some r"
  unfolding get_core_def by (rule find_row_key [OF core_invD(2)])

lemma select_core_eq:
  assumes "core_inv db"
  shows "select_core i owner db = (case get_core db i of
      Some r \<Rightarrow> if c_owner_user_id r = owner then Inr (r, instrument db r)
                else Inl (ExIntent (IntentNotFoundError i))
    | None \<Rightarrow> Inl (ExIntent (IntentNotFoundError i)))"
proof (cases "get_core db i")
  case None
  then have "filter (\<lambda>r. c_id r = i) (db_core db) = []"
    by (simp add: get_core_def find_row_None_iff filter_empty_conv)
  with None show ?thesis
    by (simp add: select_core_def core_with_symbol_type_eq [OF assms] one_or_none_def)
next
  case (Some r)
  then have r: "r \<in> set (db_core db)" "i = c_id r" using get_core_Some by fastforce+
  with Some filter_key [OF core_invD(2) [OF assms] r(1)] show ?thesis
    by (simp add: select_core_def core_with_symbol_type_eq [OF assms] one_or_none_def)
qed

lemma find_by_id_eq:
  assumes "core_inv db"
  shows "find_by_id i owner db = (case get_core db i of
      Some r \<Rightarrow> if c_owner_user_id r = owner then Inr (view db r)
                else Inl (ExIntent (IntentNotFoundError i))
    | None \<Rightarrow> Inl (ExIntent (IntentNotFoundError i)))"
  using domain_of_eq [OF assms]
  by (auto simp: find_by_id_def select_core_eq [OF assms] dest: get_core_Some split: option.splits)

section \<open>Updates of rows\<close>

text \<open>The order itself: every column but the status and the bookkeeping around it.\<close>

definition order_of :: "core_row \<Rightarrow> _" where
  "order_of r = (c_id r, c_owner_user_id r, c_symbol r, c_strategy r, c_execution_mode r, c_quantity_lots r,
     c_trading_date r, c_time_in_force r, c_notification_mode r, c_dedup_key r, c_created_at r)"

definition row_evolves :: "core_row \<Rightarrow> core_row \<Rightarrow> bool" where
  "row_evolves r r' \<longleftrightarrow> order_of r' = order_of r \<and> intent_evolves (c_status r) (c_status r')"

definition core_evolves :: "core_db \<Rightarrow> core_db \<Rightarrow> bool" where
  "core_evolves db db' \<longleftrightarrow>
     (\<exists>xs ys. db_core db' = xs @ ys \<and> list_all2 row_evolves (db_core db) xs)"

lemma order_of_eqD:
  assumes "order_of r' = order_of r"
  shows "c_id r' = c_id r" "c_owner_user_id r' = c_owner_user_id r" "c_symbol r' = c_symbol r"
    "c_strategy r' = c_strategy r" "dup_key r' = dup_key r" "c_trading_date r' = c_trading_date r"
    "c_quantity_lots r' = c_quantity_lots r"
  using assms by (auto simp: order_of_def dup_key_def)

lemma row_evolves_refl [simp]: "row_evolves r r"
  by (simp add: row_evolves_def)

lemma row_evolves_trans: "row_evolves a b \<Longrightarrow> row_evolves b c \<Longrightarrow> row_evolves a c"
  by (auto simp: row_evolves_def)

lemma core_evolves_refl [simp]: "core_evolves db db"
  unfolding core_evolves_def by (rule exI [of _ "db_core db"], rule exI [of _ "[]"]) (simp add: list_all2_refl)

lemma core_evolves_trans:
  assumes "core_evolves a b" and "core_evolves b c"
  shows "core_evolves a c"
proof -
  from assms obtain xs ys us vs where b: "db_core b = xs @ ys" "list_all2 row_evolves (db_core a) xs"
    and c: "db_core c = us @ vs" "list_all2 row_evolves (db_core b) us" by (auto simp: core_evolves_def)
  from c(2) obtain us1 us2 where us: "us = us1 @ us2" "list_all2 row_evolves xs us1"
    unfolding b(1) by (auto simp: list_all2_append1)
  have "list_all2 row_evolves (db_core a) us1"
    by (rule list_all2_trans [OF _ b(2) us(2)]) (rule row_evolves_trans)
  with c(1) us(1) show ?thesis by (auto simp: core_evolves_def)
qed

lemma core_evolves_upd:
  assumes "\<And>r. r \<in> set (db_core db) \<Longrightarrow> p r \<Longrightarrow> row_evolves r (f r)"
    and "db_core db' = upd_where p f (db_core db)"
  shows "core_evolves db db'"
proof -
  have "list_all2 row_evolves (db_core db) (upd_where p f (db_core db))"
    using assms(1) by (auto simp: upd_where_def list_all2_conv_all_nth)
  with assms(2) show ?thesis unfolding core_evolves_def by (metis append_Nil2)
qed

lemma core_evolves_row:
  assumes "core_evolves db db'" and "r \<in> set (db_core db)"
  shows "\<exists>r' \<in> set (db_core db'). row_evolves r r'"
proof -
  from assms(1) obtain xs ys where "db_core db' = xs @ ys" "list_all2 row_evolves (db_core db) xs"
    by (auto simp: core_evolves_def)
  moreover from assms(2) obtain i where "i < length (db_core db)" "r = db_core db ! i"
    by (auto simp: in_set_conv_nth)
  ultimately have "row_evolves r (xs ! i)" "xs ! i \<in> set (db_core db')"
    by (auto simp: list_all2_conv_all_nth)
  then show ?thesis by blast
qed

lemma core_checks_cong:
  "order_of r' = order_of r \<Longrightarrow> c_filled_quantity_lots r' = c_filled_quantity_lots r \<or> 0 \<le> c_filled_quantity_lots r' \<Longrightarrow>
   core_checks r = None \<Longrightarrow> core_checks r' = None"
  by (auto simp: core_checks_def order_of_def split: if_splits)

text \<open>
  An update of core rows keeps the invariant when it keeps the order, never revives a row, and the
  set of triggered rows still matches the trigger table.
\<close>

lemma core_inv_update:
  assumes inv: "core_inv db"
    and ord: "\<And>r. r \<in> set (db_core db) \<Longrightarrow> p r \<Longrightarrow> order_of (f r) = order_of r"
    and fill: "\<And>r. r \<in> set (db_core db) \<Longrightarrow> p r \<Longrightarrow>
      c_filled_quantity_lots (f r) = c_filled_quantity_lots r \<or> 0 \<le> c_filled_quantity_lots (f r)"
    and live: "\<And>r. r \<in> set (db_core db) \<Longrightarrow> p r \<Longrightarrow> live_status (c_status (f r)) \<Longrightarrow> live_status (c_status r)"
    and db': "db_core db' = upd_where p f (db_core db)" "db_symbols db' = db_symbols db" "db_users db' = db_users db"
      "db_price db' = db_price db" "tr_trade_intent_id ` set (db_trailing db') = tr_trade_intent_id ` set (db_trailing db)"
      "distinct (map tr_trade_intent_id (db_trailing db'))" "\<forall>t \<in> set (db_trailing db'). trailing_ok t"
      "distinct (map tg_trade_intent_id (db_triggers db'))"
      "tg_trade_intent_id ` set (db_triggers db') = triggered_ids (db_core db')"
  shows "core_inv db'"
proof -
  have row: "core_row_ok db' r'" if "r' \<in> set (db_core db')" for r'
  proof -
    obtain r where r: "r \<in> set (db_core db)" "r' = (if p r then f r else r)"
      using \<open>r' \<in> set (db_core db')\<close> by (auto simp: db'(1) set_upd_where)
    have o: "order_of r' = order_of r" using r ord by auto
    have "core_checks r' = None"
      using core_checks_cong [OF o] core_invD(6) [OF inv r(1)] r fill [OF r(1)]
      by (auto simp: core_row_ok_def)
    then show ?thesis
      using core_invD(6) [OF inv r(1)] order_of_eqD [OF o] by (simp add: core_row_ok_def db')
  qed
  have ids: "map c_id (db_core db') = map c_id (db_core db)"
    unfolding db'(1) upd_where_def using order_of_eqD(1) [OF ord] by simp
  have "c_id ` set (db_core db') = c_id ` set (db_core db)" using ids by (metis list.set_map)
  moreover have "unique_on dup_scope dup_key (db_core db')"
    unfolding db'(1)
  proof (rule unique_on_upd_where [OF core_invD(3) [OF inv]])
    fix r assume r: "r \<in> set (db_core db)" "p r" "dup_scope (f r)"
    then show "dup_scope r \<and> dup_key (f r) = dup_key r"
      using order_of_eqD(4,5) [OF ord [OF r(1,2)]] live [OF r(1,2)] by (simp add: dup_scope_def)
  qed
  moreover have "symbols_ok db'" using inv by (simp add: core_inv_def symbols_ok_def db')
  ultimately show ?thesis using inv row ids unfolding core_inv_def by (simp add: db')
qed

lemma triggered_ids_simps [simp]:
  "triggered_ids [] = {}"
  "triggered_ids (r # rs) = (if c_status r = triggered then insert (c_id r) (triggered_ids rs) else triggered_ids rs)"
  "triggered_ids (xs @ ys) = triggered_ids xs \<union> triggered_ids ys"
  by (auto simp: triggered_ids_def)

lemma triggered_ids_upd:
  assumes "\<And>r. r \<in> set rows \<Longrightarrow> p r \<Longrightarrow> c_id (f r) = c_id r"
    and "\<And>r. r \<in> set rows \<Longrightarrow> p r \<Longrightarrow> c_status r \<noteq> triggered \<and> c_status (f r) \<noteq> triggered"
  shows "triggered_ids (upd_where p f rows) = triggered_ids rows"
proof -
  let ?g = "\<lambda>r. if p r then f r else r"
  have "{r' \<in> set (upd_where p f rows). c_status r' = triggered} = ?g ` {r \<in> set rows. c_status r = triggered}"
    using assms(2) by (auto simp: set_upd_where)
  also have "\<dots> = {r \<in> set rows. c_status r = triggered}"
    using assms(2) by (force intro: image_eqI [where f = ?g])
  finally show ?thesis by (simp add: triggered_ids_def)
qed

text \<open>The status-only updates of the repository, as instances.\<close>

lemma core_inv_status_update:
  assumes "core_inv db" and "\<And>r. order_of (f r) = order_of r"
    and "\<And>r. c_filled_quantity_lots (f r) = c_filled_quantity_lots r"
    and "\<And>r. p r \<Longrightarrow> live_status (c_status r) \<and> c_status (f r) \<noteq> triggered"
  shows "core_inv (db\<lparr>db_core := upd_where p f (db_core db)\<rparr>)"
proof (rule core_inv_update [OF assms(1), of p f])
  have id: "c_id (f r) = c_id r" for r using order_of_eqD(1) [OF assms(2)] .
  have "c_status r \<noteq> triggered" if "p r" for r
    using assms(4) [OF that] by (auto simp: live_status_def status_sets)
  then have "triggered_ids (upd_where p f (db_core db)) = triggered_ids (db_core db)"
    using id assms(4) by (intro triggered_ids_upd) auto
  with assms(1) show "tg_trade_intent_id ` set (db_triggers (db\<lparr>db_core := upd_where p f (db_core db)\<rparr>)) =
      triggered_ids (db_core (db\<lparr>db_core := upd_where p f (db_core db)\<rparr>))" by (simp add: core_inv_def)
qed (use assms in \<open>auto simp: core_inv_def\<close>)

named_theorems core_preserved \<open>repository operations keep the invariant\<close>
named_theorems core_monotone \<open>repository operations follow the permitted status changes\<close>

lemma order_of_updates [simp]:
  "order_of (set_cancelled t r) = order_of r" "order_of (set_status_at s t r) = order_of r"
  "order_of (set_cancelled_as s t r) = order_of r" "order_of (r\<lparr>c_updated_at := t\<rparr>) = order_of r"
  by (simp_all add: order_of_def set_cancelled_def set_status_at_def set_cancelled_as_def)

lemma status_of_updates [simp]:
  "c_status (set_cancelled t r) = cancelled" "c_status (set_status_at s t r) = s"
  "c_status (set_cancelled_as s t r) = s"
  "c_filled_quantity_lots (set_cancelled t r) = c_filled_quantity_lots r"
  "c_filled_quantity_lots (set_status_at s t r) = c_filled_quantity_lots r"
  "c_filled_quantity_lots (set_cancelled_as s t r) = c_filled_quantity_lots r"
  by (simp_all add: set_cancelled_def set_status_at_def set_cancelled_as_def)

lemma activate_preserves [core_preserved]:
  "core_inv db \<Longrightarrow> core_inv (snd (system_activate_scheduled_day_intents d now db))"
  unfolding system_activate_scheduled_day_intents_def Let_def snd_conv
  by (rule core_inv_status_update) (auto simp: live_status_def status_sets)

lemma expire_preserves [core_preserved]:
  "core_inv db \<Longrightarrow> core_inv (snd (system_expire_day_intents_through d now db))"
  unfolding system_expire_day_intents_through_def Let_def snd_conv
  by (rule core_inv_status_update) (auto simp: live_status_def)

lemma cancel_owner_preserves [core_preserved]:
  "core_inv db \<Longrightarrow> s \<noteq> triggered \<Longrightarrow> core_inv (snd (cancel_active_for_owner u s now db))"
  unfolding cancel_active_for_owner_def Let_def snd_conv
  by (rule core_inv_status_update) (auto simp: live_status_def)

lemma activate_evolves [core_monotone]:
  "core_evolves db (snd (system_activate_scheduled_day_intents d now db))"
  by (rule core_evolves_upd [where p = "\<lambda>r. c_status r = scheduled \<and> c_trading_date r = d" and f = "set_status_at active now"])
    (auto simp: system_activate_scheduled_day_intents_def Let_def row_evolves_def intro: intent_step.intros)

lemma expire_evolves [core_monotone]:
  "core_evolves db (snd (system_expire_day_intents_through d now db))"
  by (rule core_evolves_upd [where p = "\<lambda>r. c_status r \<in> CANCELLABLE_STATUSES \<and> c_trading_date r \<le> d"
        and f = "set_status_at expired now"])
    (auto simp: system_expire_day_intents_through_def Let_def row_evolves_def intro: intent_step.intros)

lemma cancel_owner_evolves [core_monotone]:
  "core_evolves db (snd (cancel_active_for_owner u cancelled_by_account_disabled now db))"
  by (rule core_evolves_upd [where p = "\<lambda>r. c_owner_user_id r = u \<and> c_status r \<in> CANCELLABLE_STATUSES"
        and f = "set_cancelled_as cancelled_by_account_disabled now"])
    (auto simp: cancel_active_for_owner_def Let_def row_evolves_def intro: intent_step.intros)

section \<open>Cancelling\<close>

definition cancelled_db :: "datetime \<Rightarrow> uuid \<Rightarrow> core_db \<Rightarrow> core_db" where
  "cancelled_db t i db = db\<lparr>db_core := upd_where (\<lambda>r. c_id r = i) (set_cancelled t) (db_core db)\<rparr>"

lemma instrument_cong:
  "db_symbols db' = db_symbols db \<Longrightarrow> c_symbol r' = c_symbol r \<Longrightarrow> instrument db' r' = instrument db r"
  by (simp add: instrument_def find_by_symbol_def)

lemma cancel_eq:
  assumes "core_inv db"
  shows "cancel t i owner db = (case get_core db i of
      None \<Rightarrow> Inl (ExIntent (IntentNotFoundError i))
    | Some r \<Rightarrow>
        if c_owner_user_id r \<noteq> owner then Inl (ExIntent (IntentNotFoundError i))
        else if c_status r = cancelled then Inr (view db r, db)
        else if \<not> live_status (c_status r) then Inl (ExIntent (CancelNotAllowedError i (c_status r)))
        else Inr (view (cancelled_db t i db) (set_cancelled t r), cancelled_db t i db))"
proof (cases "get_core db i")
  case None
  then show ?thesis by (simp add: cancel_def select_core_eq [OF assms])
next
  case (Some r)
  have r: "r \<in> set (db_core db)" using get_core_Some [OF Some] by simp
  obtain st where st: "security_type_of (instrument db r) = Some st"
    using join_symbol(2) [OF core_invD(1) [OF assms] core_invD(7) [OF assms r]] by blast
  have "instrument (cancelled_db t i db) (set_cancelled t r) = instrument db r"
    by (rule instrument_cong) (simp_all add: cancelled_db_def set_cancelled_def)
  then have "domain_of (cancelled_db t i db) (set_cancelled t r, instrument db r) =
      Inr (view (cancelled_db t i db) (set_cancelled t r))"
    by (simp add: domain_of_def view_def sec_type_def st)
  with Some domain_of_eq [OF assms r] show ?thesis
    by (simp add: cancel_def select_core_eq [OF assms] live_status_def cancelled_db_def Let_def)
qed

lemma cancelled_db_preserves:
  assumes "core_inv db" and "get_core db i = Some r" and "live_status (c_status r)"
  shows "core_inv (cancelled_db t i db)" "core_evolves db (cancelled_db t i db)"
proof -
  have only: "x = r" if "x \<in> set (db_core db)" "c_id x = i" for x
    using get_core_mem [OF assms(1) that(1)] assms(2) that(2) by simp
  have same: "upd_where (\<lambda>r. c_id r = i) (set_cancelled t) (db_core db) =
      upd_where (\<lambda>x. c_id x = i \<and> live_status (c_status x)) (set_cancelled t) (db_core db)"
    unfolding upd_where_def using only assms(3) by (intro map_cong) auto
  show "core_inv (cancelled_db t i db)"
    unfolding cancelled_db_def same by (rule core_inv_status_update [OF assms(1)]) auto
  show "core_evolves db (cancelled_db t i db)"
    by (rule core_evolves_upd [where p = "\<lambda>r. c_id r = i" and f = "set_cancelled t"])
      (use only assms(3) in \<open>auto simp: cancelled_db_def row_evolves_def live_status_def intro: intent_step.intros\<close>)
qed

lemma cancel_preserves [core_preserved]:
  "core_inv db \<Longrightarrow> cancel t i owner db = Inr (d, db') \<Longrightarrow> core_inv db'"
  using cancelled_db_preserves(1) [of db i _ t]
  by (auto simp: cancel_eq split: option.splits if_splits)

lemma cancel_evolves [core_monotone]:
  "core_inv db \<Longrightarrow> cancel t i owner db = Inr (d, db') \<Longrightarrow> core_evolves db db'"
  using cancelled_db_preserves(2) [of db i _ t]
  by (auto simp: cancel_eq split: option.splits if_splits)

section \<open>Moving the trailing baseline\<close>

lemma update_baseline_Inr:
  assumes "system_update_trailing_baseline t i bl dy upd db = Inr db'"
  obtains b d where "numeric94_opt bl = Inr b" "numeric94_opt dy = Inr d"
    "\<And>r. r \<in> set (db_trailing db) \<Longrightarrow> tr_trade_intent_id r = i \<Longrightarrow> trailing_checks (set_baseline b d upd r) = None"
    "i \<in> tr_trade_intent_id ` set (db_trailing db)"
    "db' = db\<lparr>db_trailing := upd_where (\<lambda>r. tr_trade_intent_id r = i) (set_baseline b d upd) (db_trailing db),
       db_core := upd_where (\<lambda>r. c_id r = i) (\<lambda>r. r\<lparr>c_updated_at := t\<rparr>) (db_core db)\<rparr>"
proof -
  from assms obtain b d where bd: "numeric94_opt bl = Inr b" "numeric94_opt dy = Inr d"
    by (auto simp: system_update_trailing_baseline_def r_bind_Inr_iff)
  let ?rows = "map (set_baseline b d upd) (filter (\<lambda>r. tr_trade_intent_id r = i) (db_trailing db))"
  from assms bd have nil: "List.map_filter trailing_checks ?rows = []"
    and ne: "count_where (\<lambda>r. tr_trade_intent_id r = i) (db_trailing db) \<noteq> 0"
    and db': "db' = db\<lparr>db_trailing := upd_where (\<lambda>r. tr_trade_intent_id r = i) (set_baseline b d upd) (db_trailing db),
       db_core := upd_where (\<lambda>r. c_id r = i) (\<lambda>r. r\<lparr>c_updated_at := t\<rparr>) (db_core db)\<rparr>"
    by (auto simp: system_update_trailing_baseline_def Let_def split: list.splits if_splits)
  have "trailing_checks (set_baseline b d upd r) = None"
    if "r \<in> set (db_trailing db)" "tr_trade_intent_id r = i" for r
    using nil that by (auto simp: List.map_filter_def filter_empty_conv)
  moreover have "i \<in> tr_trade_intent_id ` set (db_trailing db)"
    using ne by (auto simp: count_where_0_iff)
  ultimately show thesis using that bd db' by blast
qed

lemma update_baseline_preserves [core_preserved]:
  assumes "core_inv db" and "system_update_trailing_baseline t i bl dy upd db = Inr db'"
  shows "core_inv db'"
proof -
  from update_baseline_Inr [OF assms(2)] obtain b d where
    num: "numeric94_opt bl = Inr b" "numeric94_opt dy = Inr d" and chk: "\<And>r. r \<in> set (db_trailing db) \<Longrightarrow> tr_trade_intent_id r = i \<Longrightarrow> trailing_checks (set_baseline b d upd r) = None"
    and db': "db' = db\<lparr>db_trailing := upd_where (\<lambda>r. tr_trade_intent_id r = i) (set_baseline b d upd) (db_trailing db),
       db_core := upd_where (\<lambda>r. c_id r = i) (\<lambda>r. r\<lparr>c_updated_at := t\<rparr>) (db_core db)\<rparr>" by metis
  have ids: "map tr_trade_intent_id (db_trailing db') = map tr_trade_intent_id (db_trailing db)"
    unfolding db' by (simp add: set_baseline_def map_upd_where_frame)
  have "triggered_ids (upd_where (\<lambda>r. c_id r = i) (\<lambda>r. r\<lparr>c_updated_at := t\<rparr>) rows) = triggered_ids rows" for rows
    by (induction rows) auto
  moreover have "tr_trade_intent_id ` set (db_trailing db') = tr_trade_intent_id ` set (db_trailing db)"
    using ids by (metis list.set_map)
  moreover have "\<forall>t \<in> set (db_trailing db'). trailing_ok t"
    using assms(1) chk numeric94_opt_Inr [OF num(1)] numeric94_opt_Inr [OF num(2)]
    by (auto simp: db' upd_where_mem_iff core_inv_def trailing_ok_def set_baseline_def)
  ultimately show ?thesis
    using assms(1) ids
    by (intro core_inv_update [OF assms(1), where p = "\<lambda>r. c_id r = i" and f = "\<lambda>r. r\<lparr>c_updated_at := t\<rparr>"])
      (auto simp: db' core_inv_def)
qed

lemma update_baseline_evolves [core_monotone]:
  assumes "system_update_trailing_baseline t i bl dy upd db = Inr db'"
  shows "core_evolves db db'"
  using assms by (elim update_baseline_Inr)
    (rule core_evolves_upd [where p = "\<lambda>r. c_id r = i" and f = "\<lambda>r. r\<lparr>c_updated_at := t\<rparr>"],
      auto simp: row_evolves_def)

section \<open>Creating\<close>

lemma create_guardD:
  assumes "create_guard a = Inr ()"
  shows "ca_strategy a \<noteq> twap_order"
    "ca_strategy a = trailing_stop_alert \<Longrightarrow> \<exists>m v. ca_trail_mode a = Some m \<and> ca_trail_value a = Some v"
    "known_strategy (ca_strategy a) \<Longrightarrow> price_strategy (ca_strategy a) \<longleftrightarrow> ca_target_price_effective a \<noteq> None"
  using assms
  by (cases "ca_strategy a"; auto simp: create_guard_def Let_def strategy_sets price_strategy_def known_strategy_def
      split: if_splits)+

lemma insert_core_Inr:
  assumes "insert_core r db = Inr db'"
  shows "core_checks r = None" "c_id r \<notin> c_id ` set (db_core db)"
    "dup_scope r \<Longrightarrow> x \<in> set (db_core db) \<Longrightarrow> dup_scope x \<Longrightarrow> dup_key x \<noteq> dup_key r"
    "c_symbol r \<in> sy_symbol ` set (db_symbols db)" "db' = db\<lparr>db_core := db_core db @ [r]\<rparr>"
    "c_owner_user_id r \<in> set (db_users db)"
  using assms unfolding insert_core_def by (auto split: if_splits option.splits)

lemma insert_price_Inr:
  assumes "insert_price_params i ori eff db = Inr db'"
  shows "\<exists>p. price_ok p \<and> pp_trade_intent_id p = i \<and> numeric94 eff = Inr (pp_target_price_effective p) \<and>
    i \<notin> pp_trade_intent_id ` set (db_price db) \<and> db' = db\<lparr>db_price := db_price db @ [p]\<rparr>"
proof -
  from assms obtain o' e where oe: "numeric94_opt ori = Inr o'" "numeric94 eff = Inr e"
    by (auto simp: insert_price_params_def r_bind_Inr_iff)
  with assms obtain x where x: "o' = Some x" by (cases o') (auto simp: insert_price_params_def)
  have "\<not> dec_le x dec_zero \<and> \<not> dec_le e dec_zero \<and> i \<notin> pp_trade_intent_id ` set (db_price db) \<and>
    db' = db\<lparr>db_price := db_price db @
      [\<lparr>pp_trade_intent_id = i, pp_target_price_original = x, pp_target_price_effective = e\<rparr>]\<rparr>"
    using assms oe x by (auto simp: insert_price_params_def split: if_split_asm)
  moreover have "is_numeric94 x" "is_numeric94 e"
    using numeric94_opt_Inr [OF oe(1)] numeric94_Inr [OF oe(2)] x by simp_all
  ultimately show ?thesis using oe(2)
    by (intro exI [of _ "\<lparr>pp_trade_intent_id = i, pp_target_price_original = x, pp_target_price_effective = e\<rparr>"])
      (simp add: price_ok_def dec_cmp_iff not_le)
qed

lemma insert_trailing_Inr:
  assumes "insert_trailing_params i m v b d u db = Inr db'"
  shows "\<exists>t. trailing_ok t \<and> tr_trade_intent_id t = i \<and> tr_trail_mode t = m \<and>
    numeric94_opt b = Inr (tr_baseline t) \<and> numeric94_opt d = Inr (tr_dynamic_trigger_price t) \<and>
    numeric94 v = Inr (tr_trail_value t) \<and>
    i \<notin> tr_trade_intent_id ` set (db_trailing db) \<and> db' = db\<lparr>db_trailing := db_trailing db @ [t]\<rparr>"
  using assms unfolding insert_trailing_params_def Let_def
  by (auto simp: r_bind_Inr_iff trailing_ok_def numeric94_Inr numeric94_opt_Inr split: option.splits if_splits)

lemma create_Inr:
  assumes "create t i a db = Inr (j, db')"
  shows "j = i" "create_guard a = Inr ()" "create_flush t i a db = Inr db'"
  using assms unfolding create_def Let_def
  by (auto simp: r_bind_Inr_iff split: option.splits sum.splits exn.splits)

text \<open>The three shapes of a successful flush: with a price row, with a trailing row, with neither.\<close>

lemma create_flush_shape:
  assumes "create_guard a = Inr ()" and "create_flush t i a db = Inr db'"
  shows "\<exists>ps ts. db' = db\<lparr>db_core := db_core db @ [new_core_row t i a], db_price := db_price db @ ps,
        db_trailing := db_trailing db @ ts\<rparr> \<and>
      insert_core (new_core_row t i a) db = Inr (db\<lparr>db_core := db_core db @ [new_core_row t i a]\<rparr>) \<and>
      (if price_strategy (ca_strategy a) then \<exists>p. ps = [p] \<and> price_ok p \<and> pp_trade_intent_id p = i else ps = []) \<and>
      (if ca_strategy a = trailing_stop_alert
       then \<exists>x. ts = [x] \<and> trailing_ok x \<and> tr_trade_intent_id x = i \<and>
         numeric94_opt (ca_baseline a) = Inr (tr_baseline x) \<and>
         numeric94_opt (ca_dynamic_trigger_price a) = Inr (tr_dynamic_trigger_price x) else ts = [])"
proof -
  from assms(2) obtain db1 where ins: "insert_core (new_core_row t i a) db = Inr db1"
    by (auto simp: create_flush_def r_bind_Inr_iff)
  note I = insert_core_Inr [OF ins]
  have known: "known_strategy (ca_strategy a)"
    using I(1) by (auto simp: core_checks_def new_core_row_def split: if_splits)
  note g = create_guardD [OF assms(1)] and ps = create_guardD(3) [OF assms(1) known]
  show ?thesis
  proof (cases "ca_target_price_effective a")
    case None
    with ps have np: "\<not> price_strategy (ca_strategy a)" by simp
    show ?thesis
    proof (cases "ca_strategy a = trailing_stop_alert")
      case True
      from g(2) [OF this] obtain m v where mv: "ca_trail_mode a = Some m" "ca_trail_value a = Some v" by blast
      with assms(2) ins None True have "insert_trailing_params i m v (ca_baseline a) (ca_dynamic_trigger_price a)
          (ca_baseline_updated_at a) db1 = Inr db'"
        by (simp add: create_flush_def)
      from insert_trailing_Inr [OF this] np True I(5) ins show ?thesis
        by - (rule exI [of _ "[]"], auto)
    next
      case False
      with assms(2) ins None have "db' = db1" by (simp add: create_flush_def)
      with np False I(5) ins show ?thesis by (intro exI [of _ "[]"]) auto
    qed
  next
    case (Some e)
    with ps have p: "price_strategy (ca_strategy a)" by simp
    then have nt: "ca_strategy a \<noteq> trailing_stop_alert" by (auto simp: price_strategy_def)
    with assms(2) ins Some have "insert_price_params i (ca_target_price_original a) e db1 = Inr db'"
      by (auto simp: create_flush_def r_bind_Inr_iff)
    from insert_price_Inr [OF this] p nt I(5) ins show ?thesis by auto
  qed
qed

lemma create_flush_preserves:
  assumes inv: "core_inv db" and "create_guard a = Inr ()" and "create_flush t i a db = Inr db'"
    and st: "live_status (ca_status a)"
  shows "core_inv db'" "core_evolves db db'"
    "db_core db' = db_core db @ [new_core_row t i a]" "db_triggers db' = db_triggers db"
    "db_notifications db' = db_notifications db" "db_symbols db' = db_symbols db"
    "i \<notin> c_id ` set (db_core db)"
proof -
  let ?n = "new_core_row t i a"
  from create_flush_shape [OF assms(2,3)] obtain ps ts where
    db': "db' = db\<lparr>db_core := db_core db @ [?n], db_price := db_price db @ ps, db_trailing := db_trailing db @ ts\<rparr>"
    and ins: "insert_core ?n db = Inr (db\<lparr>db_core := db_core db @ [?n]\<rparr>)"
    and ps: "if price_strategy (ca_strategy a) then \<exists>p. ps = [p] \<and> price_ok p \<and> pp_trade_intent_id p = i else ps = []"
    and ts: "if ca_strategy a = trailing_stop_alert
       then \<exists>x. ts = [x] \<and> trailing_ok x \<and> tr_trade_intent_id x = i \<and>
         numeric94_opt (ca_baseline a) = Inr (tr_baseline x) \<and>
         numeric94_opt (ca_dynamic_trigger_price a) = Inr (tr_dynamic_trigger_price x) else ts = []"
    by blast
  note I = insert_core_Inr [OF ins]
  have n: "c_id ?n = i" "c_strategy ?n = ca_strategy a" "c_status ?n = ca_status a" by (simp_all add: new_core_row_def)
  show new: "i \<notin> c_id ` set (db_core db)" using I(2) n by simp
  then have np: "i \<notin> pp_trade_intent_id ` set (db_price db)" and nt: "i \<notin> tr_trade_intent_id ` set (db_trailing db)"
    using inv by (auto simp: core_inv_def)
  then have ne: "\<And>p. p \<in> set (db_price db) \<Longrightarrow> pp_trade_intent_id p \<noteq> i"
    "\<And>x. x \<in> set (db_trailing db) \<Longrightarrow> tr_trade_intent_id x \<noteq> i" by auto
  have pid: "pp_trade_intent_id ` set ps = (if price_strategy (ca_strategy a) then {i} else {})"
    using ps by (auto split: if_splits)
  have tid: "tr_trade_intent_id ` set ts = (if ca_strategy a = trailing_stop_alert then {i} else {})"
    using ts by (auto split: if_splits)
  have row: "core_row_ok db' r" if "r \<in> set (db_core db')" for r
  proof (cases "r = ?n")
    case True
    show ?thesis unfolding True core_row_ok_def
      using I(1,4,6) n np nt pid tid create_guardD(1) [OF assms(2)] by (auto simp: db' image_Un)
  next
    case False
    with that have r: "r \<in> set (db_core db)" by (auto simp: db')
    then have "c_id r \<noteq> i" using new by auto
    then show ?thesis using core_invD(6) [OF inv r] pid tid by (auto simp: core_row_ok_def db' image_Un)
  qed
  have "unique_on dup_scope dup_key (db_core db')"
    using core_invD(3) [OF inv] I(3) by (auto simp: db' unique_on_snoc)
  moreover have "distinct (map pp_trade_intent_id (db_price db'))" "\<forall>p \<in> set (db_price db'). price_ok p"
    using inv ne ps by (auto simp: db' core_inv_def split: if_splits)
  moreover have "distinct (map tr_trade_intent_id (db_trailing db'))" "\<forall>t \<in> set (db_trailing db'). trailing_ok t"
    using inv ne ts by (auto simp: db' core_inv_def split: if_splits)
  moreover have "triggered_ids (db_core db') = triggered_ids (db_core db)"
    using st n by (auto simp: db' live_status_def status_sets)
  moreover have "symbols_ok db'" using core_invD(1) [OF inv] by (simp add: db' symbols_ok_def)
  moreover have "distinct (map c_id (db_core db'))" using core_invD(2) [OF inv] new n by (simp add: db')
  moreover have "pp_trade_intent_id ` set (db_price db') \<subseteq> c_id ` set (db_core db')"
    "tr_trade_intent_id ` set (db_trailing db') \<subseteq> c_id ` set (db_core db')"
    using inv n by (auto simp: db' image_Un pid tid core_inv_def)
  moreover have "distinct (map tg_trade_intent_id (db_triggers db'))"
    "tg_trade_intent_id ` set (db_triggers db') = triggered_ids (db_core db)"
    using inv by (simp_all add: db' core_inv_def)
  ultimately show "core_inv db'" unfolding core_inv_def using row by simp
  show "core_evolves db db'"
    unfolding core_evolves_def db'
    by (rule exI [of _ "db_core db"], rule exI [of _ "[?n]"]) (simp add: list_all2_refl)
qed (use create_flush_shape [OF assms(2,3)] in auto)

lemma create_preserves [core_preserved]:
  "core_inv db \<Longrightarrow> create t i a db = Inr (j, db') \<Longrightarrow> live_status (ca_status a) \<Longrightarrow> core_inv db'"
  by (frule create_Inr(2)) (blast dest: create_Inr(3) create_flush_preserves(1))

lemma create_evolves [core_monotone]:
  "core_inv db \<Longrightarrow> create t i a db = Inr (j, db') \<Longrightarrow> live_status (ca_status a) \<Longrightarrow> core_evolves db db'"
  by (frule create_Inr(2)) (blast dest: create_Inr(3) create_flush_preserves(2))

section \<open>A small database\<close>

definition sample_symbol :: symbol_row where
  "sample_symbol = \<lparr>sy_symbol = ''2330'', sy_display_name = ''TSMC'', sy_market = ''twse'',
     sy_instrument_type = ''stock'', sy_tradable_status = ''tradable''\<rparr>"

definition sample_row :: core_row where
  "sample_row = \<lparr>c_id = 1, c_owner_user_id = 7, c_symbol = ''2330'', c_strategy = buy_price_alert,
     c_execution_mode = ''notify_only'', c_quantity_lots = 1, c_trigger_reference_price_type = ref_ask,
     c_trading_date = 20000, c_time_in_force = ''day'', c_status = active, c_cancelled_at = None,
     c_triggered_at = None, c_transaction_mode = single_notification, c_notification_mode = ''single'',
     c_filled_quantity_lots = 0, c_last_fill_at = None, c_dedup_key = ''600'', c_created_at = 0, c_updated_at = 0\<rparr>"

definition sample_db :: core_db where
  "sample_db = \<lparr>db_users = [7], db_symbols = [sample_symbol], db_core = [sample_row],
     db_price = [\<lparr>pp_trade_intent_id = 1, pp_target_price_original = Dec False 6000000 (-4),
       pp_target_price_effective = Dec False 6000000 (-4)\<rparr>],
     db_trailing = [], db_twap = [], db_triggers = [], db_notifications = []\<rparr>"

lemma sample_db_inv: "core_inv sample_db"
  by (simp add: core_inv_def sample_db_def symbols_ok_def sample_symbol_def security_type_of_def unique_on_def
      core_row_ok_def sample_row_def core_checks_def known_strategy_def price_strategy_def price_ok_def
      is_numeric94_def dval_pos_iff dint_pos_iff)

end
