(* ===== verification/Quote_Evaluation.thy ===== *)
theory Quote_Evaluation
  imports Exceptions
begin

text \<open>
  \<open>domain/quote_evaluation.py\<close>: the pure decision whether a quote triggers an intent, with the
  trailing stop's ratchet. An abstract reading of the rules is stated beside it and the evaluator is
  proved to implement it.
\<close>

section \<open>The source\<close>

definition QUOTE_FRESHNESS_THRESHOLD :: int where
  "QUOTE_FRESHNESS_THRESHOLD = seconds 10"

datatype skip_reason = OUTSIDE_SESSION | QUOTE_STALE | QUOTE_BID_GT_ASK | QUOTE_NONPOSITIVE_PRICE
  | QUOTE_MISSING_ALL_PRICES | CONDITION_NOT_MET | UNSUPPORTED_STRATEGY

record evaluation_result =
  er_should_trigger :: bool
  er_trigger_price :: "decimal option"
  er_trigger_reference_price_type :: "reference_price_type option"
  er_fallback_used :: bool
  er_skip_reason :: "skip_reason option"
  er_baseline :: "decimal option"
  er_dynamic_trigger_price :: "decimal option"
  er_baseline_updated_at :: "datetime option"

text \<open>The keyword arguments of \<open>EvaluationResult(...)\<close> the source uses, with their defaults.\<close>

definition result_skip :: "skip_reason \<Rightarrow> evaluation_result" where
  "result_skip r = \<lparr>er_should_trigger = False, er_trigger_price = None,
     er_trigger_reference_price_type = None, er_fallback_used = False, er_skip_reason = Some r,
     er_baseline = None, er_dynamic_trigger_price = None, er_baseline_updated_at = None\<rparr>"

definition result_trigger :: "decimal \<Rightarrow> reference_price_type \<Rightarrow> bool \<Rightarrow> evaluation_result" where
  "result_trigger p t fallback = \<lparr>er_should_trigger = True, er_trigger_price = Some p,
     er_trigger_reference_price_type = Some t, er_fallback_used = fallback, er_skip_reason = None,
     er_baseline = None, er_dynamic_trigger_price = None, er_baseline_updated_at = None\<rparr>"

definition with_trailing ::
  "decimal option \<Rightarrow> decimal option \<Rightarrow> datetime option \<Rightarrow> evaluation_result \<Rightarrow> evaluation_result" where
  "with_trailing b d u r = r\<lparr>er_baseline := b, er_dynamic_trigger_price := d, er_baseline_updated_at := u\<rparr>"

definition validate_quote :: "quote_snapshot \<Rightarrow> skip_reason option" where
  "validate_quote q =
     (if \<exists>p \<in> set [q_bid_price q, q_ask_price q, q_last_price q]. nonpositive p
      then Some QUOTE_NONPOSITIVE_PRICE
      else if crossed q then Some QUOTE_BID_GT_ASK
      else if q_bid_price q = None \<and> q_ask_price q = None \<and> q_last_price q = None
      then Some QUOTE_MISSING_ALL_PRICES
      else None)"

definition evaluate_buy :: "quote_snapshot \<Rightarrow> decimal option \<Rightarrow> evaluation_result" where
  "evaluate_buy q target = (case target of
      None \<Rightarrow> result_skip UNSUPPORTED_STRATEGY
    | Some t \<Rightarrow> (case q_ask_price q of
          Some ask \<Rightarrow> if dec_le ask t then result_trigger ask ref_ask False
                      else result_skip CONDITION_NOT_MET
        | None \<Rightarrow> (case q_last_price q of
              Some lst \<Rightarrow> if dec_le lst t then result_trigger lst ref_last_fallback True
                           else result_skip CONDITION_NOT_MET
            | None \<Rightarrow> result_skip CONDITION_NOT_MET)))"

definition evaluate_sell :: "quote_snapshot \<Rightarrow> decimal option \<Rightarrow> evaluation_result" where
  "evaluate_sell q target = (case target of
      None \<Rightarrow> result_skip UNSUPPORTED_STRATEGY
    | Some t \<Rightarrow> (case q_bid_price q of
          Some bid \<Rightarrow> if dec_le t bid then result_trigger bid ref_bid False
                      else result_skip CONDITION_NOT_MET
        | None \<Rightarrow> (case q_last_price q of
              Some lst \<Rightarrow> if dec_le t lst then result_trigger lst ref_last_fallback True
                           else result_skip CONDITION_NOT_MET
            | None \<Rightarrow> result_skip CONDITION_NOT_MET)))"

definition evaluate_market_buy :: "quote_snapshot \<Rightarrow> evaluation_result" where
  "evaluate_market_buy q = (case q_ask_price q of
      Some ask \<Rightarrow> result_trigger ask ref_ask False
    | None \<Rightarrow> (case q_last_price q of
          Some lst \<Rightarrow> result_trigger lst ref_last_fallback True
        | None \<Rightarrow> result_skip CONDITION_NOT_MET))"

definition evaluate_market_sell :: "quote_snapshot \<Rightarrow> evaluation_result" where
  "evaluate_market_sell q = (case q_bid_price q of
      Some bid \<Rightarrow> result_trigger bid ref_bid False
    | None \<Rightarrow> (case q_last_price q of
          Some lst \<Rightarrow> result_trigger lst ref_last_fallback True
        | None \<Rightarrow> result_skip CONDITION_NOT_MET))"

definition trailing_reference_price :: "quote_snapshot \<Rightarrow> exn + decimal option" where
  "trailing_reference_price q = (case q_last_price q of
      Some lst \<Rightarrow> Inr (Some lst)
    | None \<Rightarrow> (case (q_bid_price q, q_ask_price q) of
          (Some bid, Some ask) \<Rightarrow>
            r_bind (lift_ex ExDecimal (dec_div (dec_add bid ask) (Dec False 2 0))) (\<lambda>m. Inr (Some m))
        | _ \<Rightarrow> Inr None))"

definition calculate_dynamic_trigger_price :: "trade_intent_data \<Rightarrow> decimal \<Rightarrow> exn + decimal" where
  "calculate_dynamic_trigger_price intent baseline =
     (case (ti_trail_mode intent, ti_trail_value intent) of
        (Some mode, Some v) \<Rightarrow>
          r_bind (case mode of
              percentage \<Rightarrow>
                r_bind (lift_ex ExDecimal (dec_div v (Dec False 100 0))) (\<lambda>f.
                  Inr (dec_mul baseline (dec_sub (Dec False 1 0) f)))
            | fixed_amount \<Rightarrow> Inr (dec_sub baseline v)
            | other_mode _ \<Rightarrow> Inl ExValue)
          (\<lambda>raw. lift_ex ExDecimal (round_down_to_tick (ti_security_type intent) raw))
      | _ \<Rightarrow> Inl ExValue)"

text \<open>The first half of \<open>_evaluate_trailing_stop\<close>: the baseline, its trigger price and whether it moved.\<close>

definition trailing_ratchet ::
  "quote_snapshot \<Rightarrow> trade_intent_data \<Rightarrow> datetime \<Rightarrow>
   exn + decimal option \<times> decimal option \<times> datetime option" where
  "trailing_ratchet q intent now =
     r_bind (trailing_reference_price q) (\<lambda>reference_price.
       case reference_price of
         None \<Rightarrow> Inr (ti_baseline intent, ti_dynamic_trigger_price intent, None)
       | Some r \<Rightarrow>
           if (case ti_baseline intent of None \<Rightarrow> True | Some b \<Rightarrow> dec_less b r)
           then r_bind (calculate_dynamic_trigger_price intent r) (\<lambda>d. Inr (Some r, Some d, Some now))
           else Inr (ti_baseline intent, ti_dynamic_trigger_price intent, None))"

definition evaluate_trailing_stop ::
  "quote_snapshot \<Rightarrow> trade_intent_data \<Rightarrow> datetime \<Rightarrow> exn + evaluation_result" where
  "evaluate_trailing_stop q intent now =
     (if ti_trail_mode intent = None \<or> ti_trail_value intent = None
      then Inr (result_skip UNSUPPORTED_STRATEGY)
      else r_bind (trailing_ratchet q intent now) (\<lambda>(baseline, dyn, upd).
        Inr (with_trailing baseline dyn upd
          (case dyn of
             None \<Rightarrow> result_skip CONDITION_NOT_MET
           | Some d \<Rightarrow> (case q_bid_price q of
                 Some bid \<Rightarrow> if dec_le bid d then result_trigger bid ref_bid False
                             else result_skip CONDITION_NOT_MET
               | None \<Rightarrow> (case q_last_price q of
                     Some lst \<Rightarrow> if dec_le lst d then result_trigger lst ref_last_fallback True
                                  else result_skip CONDITION_NOT_MET
                   | None \<Rightarrow> result_skip CONDITION_NOT_MET))))))"

definition evaluate :: "quote_snapshot \<Rightarrow> trade_intent_data \<Rightarrow> datetime \<Rightarrow> exn + evaluation_result" where
  "evaluate q intent now =
     (case verify_trading_hours (Aware now) (Aware (q_quote_time q)) of
        Inl NaiveDatetimeError \<Rightarrow> Inl (ExSession NaiveDatetimeError)
      | Inl _ \<Rightarrow> Inr (result_skip OUTSIDE_SESSION)
      | Inr _ \<Rightarrow>
          if QUOTE_FRESHNESS_THRESHOLD < now - q_quote_time q then Inr (result_skip QUOTE_STALE)
          else case validate_quote q of
            Some failure \<Rightarrow> Inr (result_skip failure)
          | None \<Rightarrow>
              if ti_strategy intent \<in> {buy_price_alert, limit_buy_order}
              then Inr (evaluate_buy q (ti_target_price_effective intent))
              else if ti_strategy intent \<in> {sell_price_alert, limit_sell_order}
              then Inr (evaluate_sell q (ti_target_price_effective intent))
              else if ti_strategy intent \<in> {market_order, market_buy_order}
              then Inr (evaluate_market_buy q)
              else if ti_strategy intent = market_sell_order
              then Inr (evaluate_market_sell q)
              else if ti_strategy intent = trailing_stop_alert
              then evaluate_trailing_stop q intent now
              else Inr (result_skip UNSUPPORTED_STRATEGY))"

section \<open>The gate before the strategies\<close>

text \<open>Times and shape of a quote under which the evaluator looks at the strategy at all.\<close>

definition quote_usable :: "quote_snapshot \<Rightarrow> datetime \<Rightarrow> bool" where
  "quote_usable q now \<longleftrightarrow>
     is_within_regular_session now \<and> is_within_regular_session (q_quote_time q) \<and>
     now - q_quote_time q \<le> seconds 10 \<and> well_formed_quote q"

lemma result_skip_inject [simp]: "result_skip r = result_skip s \<longleftrightarrow> r = s"
  by (simp add: result_skip_def)

lemma validate_quote_None_iff: "validate_quote q = None \<longleftrightarrow> well_formed_quote q"
  unfolding validate_quote_def well_formed_quote_def crossed_iff [symmetric]
  by (auto simp: nonpositive_iff)

lemma verify_trading_hours_aware:
  "verify_trading_hours (Aware n) (Aware q) =
     (if \<not> is_within_regular_session n then Inl (NowOutsideSession n)
      else if \<not> is_within_regular_session q then Inl (QuoteOutsideSession q)
      else Inr ())"
  by (simp add: verify_trading_hours_def require_aware_def)

definition evaluate_strategy :: "quote_snapshot \<Rightarrow> trade_intent_data \<Rightarrow> datetime \<Rightarrow> exn + evaluation_result" where
  "evaluate_strategy q intent now = (case ti_strategy intent of
      buy_price_alert \<Rightarrow> Inr (evaluate_buy q (ti_target_price_effective intent))
    | limit_buy_order \<Rightarrow> Inr (evaluate_buy q (ti_target_price_effective intent))
    | sell_price_alert \<Rightarrow> Inr (evaluate_sell q (ti_target_price_effective intent))
    | limit_sell_order \<Rightarrow> Inr (evaluate_sell q (ti_target_price_effective intent))
    | market_order \<Rightarrow> Inr (evaluate_market_buy q)
    | market_buy_order \<Rightarrow> Inr (evaluate_market_buy q)
    | market_sell_order \<Rightarrow> Inr (evaluate_market_sell q)
    | trailing_stop_alert \<Rightarrow> evaluate_trailing_stop q intent now
    | _ \<Rightarrow> Inr (result_skip UNSUPPORTED_STRATEGY))"

lemma evaluate_usable: "quote_usable q now \<Longrightarrow> evaluate q intent now = evaluate_strategy q intent now"
  unfolding evaluate_def verify_trading_hours_aware quote_usable_def QUOTE_FRESHNESS_THRESHOLD_def
  by (cases "ti_strategy intent")
    (simp_all add: validate_quote_None_iff [THEN iffD2] evaluate_strategy_def not_less)

lemma evaluate_not_usable:
  assumes "\<not> quote_usable q now"
  shows "\<exists>r. evaluate q intent now = Inr (result_skip r)"
proof -
  have "validate_quote q \<noteq> None" if "\<not> well_formed_quote q" using that by (simp add: validate_quote_None_iff)
  with assms show ?thesis
    unfolding evaluate_def verify_trading_hours_aware quote_usable_def QUOTE_FRESHNESS_THRESHOLD_def
    by (auto simp: not_le)
qed

lemma result_simps [simp]:
  "\<not> er_should_trigger (result_skip r)" "er_trigger_price (result_skip r) = None"
  "er_trigger_reference_price_type (result_skip r) = None" "\<not> er_fallback_used (result_skip r)"
  "er_skip_reason (result_skip r) = Some r" "er_baseline_updated_at (result_skip r) = None"
  "er_baseline (result_skip r) = None" "er_dynamic_trigger_price (result_skip r) = None"
  "er_should_trigger (result_trigger p t f)" "er_trigger_price (result_trigger p t f) = Some p"
  "er_trigger_reference_price_type (result_trigger p t f) = Some t"
  "er_fallback_used (result_trigger p t f) = f" "er_skip_reason (result_trigger p t f) = None"
  "er_baseline_updated_at (result_trigger p t f) = None" "er_baseline (result_trigger p t f) = None"
  "er_dynamic_trigger_price (result_trigger p t f) = None"
  by (simp_all add: result_skip_def result_trigger_def)

lemma with_trailing_simps [simp]:
  "er_should_trigger (with_trailing b d u r) = er_should_trigger r"
  "er_trigger_price (with_trailing b d u r) = er_trigger_price r"
  "er_trigger_reference_price_type (with_trailing b d u r) = er_trigger_reference_price_type r"
  "er_fallback_used (with_trailing b d u r) = er_fallback_used r"
  "er_skip_reason (with_trailing b d u r) = er_skip_reason r"
  "er_baseline (with_trailing b d u r) = b" "er_dynamic_trigger_price (with_trailing b d u r) = d"
  "er_baseline_updated_at (with_trailing b d u r) = u"
  by (simp_all add: with_trailing_def)

section \<open>What a trigger guarantees\<close>

text \<open>The price the rules look at for a side of the market, with the reference type it is recorded under.\<close>

definition side_price :: "order_side \<Rightarrow> quote_snapshot \<Rightarrow> (decimal \<times> reference_price_type) option" where
  "side_price side q =
     (case (case side of buy \<Rightarrow> q_ask_price q | sell \<Rightarrow> q_bid_price q) of
        Some p \<Rightarrow> Some (p, case side of buy \<Rightarrow> ref_ask | sell \<Rightarrow> ref_bid)
      | None \<Rightarrow> map_option (\<lambda>p. (p, ref_last_fallback)) (q_last_price q))"

text \<open>The condition of the strategies other than the trailing stop.\<close>

definition target_met :: "trade_intent_data \<Rightarrow> decimal \<Rightarrow> bool" where
  "target_met intent p = (case ti_strategy intent of
      buy_price_alert \<Rightarrow> (\<exists>t. ti_target_price_effective intent = Some t \<and> dval p \<le> dval t)
    | limit_buy_order \<Rightarrow> (\<exists>t. ti_target_price_effective intent = Some t \<and> dval p \<le> dval t)
    | sell_price_alert \<Rightarrow> (\<exists>t. ti_target_price_effective intent = Some t \<and> dval t \<le> dval p)
    | limit_sell_order \<Rightarrow> (\<exists>t. ti_target_price_effective intent = Some t \<and> dval t \<le> dval p)
    | market_order \<Rightarrow> True
    | market_buy_order \<Rightarrow> True
    | market_sell_order \<Rightarrow> True
    | _ \<Rightarrow> False)"

lemmas evaluate_defs = evaluate_buy_def evaluate_sell_def evaluate_market_buy_def evaluate_market_sell_def

lemma evaluate_target:
  "er_should_trigger (evaluate_buy q target) \<longleftrightarrow>
     (\<exists>p t x. side_price buy q = Some (p, t) \<and> target = Some x \<and> dval p \<le> dval x)"
  "er_should_trigger (evaluate_sell q target) \<longleftrightarrow>
     (\<exists>p t x. side_price sell q = Some (p, t) \<and> target = Some x \<and> dval x \<le> dval p)"
  "er_should_trigger (evaluate_market_buy q) \<longleftrightarrow> side_price buy q \<noteq> None"
  "er_should_trigger (evaluate_market_sell q) \<longleftrightarrow> side_price sell q \<noteq> None"
  by (auto simp: evaluate_defs side_price_def dec_cmp_iff split: option.splits)

lemma evaluate_target_result:
  "side_price buy q = Some (p, t) \<Longrightarrow> dval p \<le> dval x \<Longrightarrow>
     evaluate_buy q (Some x) = result_trigger p t (t = ref_last_fallback)"
  "side_price sell q = Some (p, t) \<Longrightarrow> dval x \<le> dval p \<Longrightarrow>
     evaluate_sell q (Some x) = result_trigger p t (t = ref_last_fallback)"
  "side_price buy q = Some (p, t) \<Longrightarrow> evaluate_market_buy q = result_trigger p t (t = ref_last_fallback)"
  "side_price sell q = Some (p, t) \<Longrightarrow> evaluate_market_sell q = result_trigger p t (t = ref_last_fallback)"
  by (auto simp: evaluate_defs side_price_def dec_cmp_iff split: option.splits)

lemma side_price_positive:
  "well_formed_quote q \<Longrightarrow> side_price side q = Some (p, t) \<Longrightarrow> 0 < dval p"
  by (auto simp: side_price_def well_formed_quote_def positive_price_def split: option.splits order_side.splits)

lemma side_price_type:
  "side_price side q = Some (p, t) \<Longrightarrow> t = ref_last_fallback \<longleftrightarrow>
     (case side of buy \<Rightarrow> q_ask_price q | sell \<Rightarrow> q_bid_price q) = None"
  by (auto simp: side_price_def split: option.splits order_side.splits)

lemma evaluate_price_strategies:
  assumes "ti_strategy intent \<noteq> trailing_stop_alert"
  shows "\<exists>r. evaluate q intent now = Inr r \<and>
    (er_should_trigger r \<longleftrightarrow> quote_usable q now \<and>
       (\<exists>side p t. derive_order_side (ti_strategy intent) = Some side \<and>
          side_price side q = Some (p, t) \<and> target_met intent p)) \<and>
    (er_should_trigger r \<longrightarrow>
       (\<exists>side p t. derive_order_side (ti_strategy intent) = Some side \<and> side_price side q = Some (p, t) \<and>
          r = result_trigger p t (t = ref_last_fallback)))"
proof (cases "quote_usable q now")
  case False
  with evaluate_not_usable [OF False, of intent] show ?thesis by auto
next
  case True
  show ?thesis
    unfolding evaluate_usable [OF True] evaluate_strategy_def target_met_def derive_order_side_def
    using True assms
    by (cases "ti_strategy intent")
      (auto simp: strategy_sets evaluate_target dest: evaluate_target_result)
qed

text \<open>
  (C32) For every strategy but the trailing stop the evaluator always returns a result, and that
  result triggers exactly when the quote is usable (both times inside the session, at most ten
  seconds old, prices positive and uncrossed) and the price of the strategy's side, the ask for a
  buy and the bid for a sell with the last trade as fallback, meets the target; the trigger then
  records precisely that price and its reference type.
\<close>

theorem evaluate_triggers_iff:
  assumes "ti_strategy intent \<noteq> trailing_stop_alert"
  shows "\<exists>r. evaluate q intent now = Inr r \<and>
    (er_should_trigger r \<longleftrightarrow> quote_usable q now \<and>
       (\<exists>side p t. derive_order_side (ti_strategy intent) = Some side \<and>
          side_price side q = Some (p, t) \<and> target_met intent p)) \<and>
    (er_should_trigger r \<longrightarrow>
       (\<exists>side p t. derive_order_side (ti_strategy intent) = Some side \<and> side_price side q = Some (p, t) \<and>
          r = result_trigger p t (t = ref_last_fallback)))"
  using assms by (rule evaluate_price_strategies)

text \<open>A Friday morning quote and a buy alert, for the concrete instances below.\<close>

definition sample_now :: datetime where
  "sample_now = combine 20000 (10 * 3600 * usec_per_sec)"

definition sample_quote :: quote_snapshot where
  "sample_quote = \<lparr>q_symbol = ''2330'', q_bid_price = Some (Dec False 599 0), q_ask_price = Some (Dec False 600 0),
     q_last_price = Some (Dec False 600 0), q_quote_time = sample_now, q_received_at = sample_now\<rparr>"

lemma sample_usable: "quote_usable sample_quote sample_now"
  by (simp add: quote_usable_def sample_quote_def sample_now_def is_within_regular_session_def
      session_consts is_trading_day_def weekday_def well_formed_quote_def positive_price_def dval_def dint_def)

lemma sample_ask: "side_price buy sample_quote = Some (Dec False 600 0, ref_ask)"
  by (simp add: side_price_def sample_quote_def)

definition sample_buy :: trade_intent_data where
  "sample_buy = sample_intent\<lparr>ti_target_price_effective := Some (Dec False 600 0)\<rparr>"

lemma sample_buy_simps:
  "ti_strategy sample_buy = buy_price_alert" "ti_target_price_effective sample_buy = Some (Dec False 600 0)"
  "derive_order_side buy_price_alert = Some buy"
  by (simp_all add: sample_buy_def sample_intent_def derive_order_side_def strategy_sets)

theorem evaluate_triggers_iff_witness:
  "\<exists>r. evaluate sample_quote sample_buy sample_now = Inr r \<and>
     er_should_trigger r \<and> er_trigger_price r = Some (Dec False 600 0)"
  using evaluate_triggers_iff [of sample_buy sample_quote sample_now]
  by (auto simp: sample_usable sample_ask sample_buy_simps target_met_def)

section \<open>The trailing stop\<close>

definition trail_raw :: "trail_mode \<Rightarrow> rat \<Rightarrow> rat \<Rightarrow> rat" where
  "trail_raw mode v b = (case mode of percentage \<Rightarrow> b * (1 - v / 100) | _ \<Rightarrow> b - v)"

definition trail_price :: "security_type \<Rightarrow> trail_mode \<Rightarrow> rat \<Rightarrow> rat \<Rightarrow> rat" where
  "trail_price st mode v b =
     max (lower_tick st (trail_raw mode v b)) (tick_val st (trail_raw mode v b))"

text \<open>
  What the database guarantees of a stored trailing intent: a supported mode and a positive value of
  at most four decimals, at most ten for a percentage.
\<close>

definition trail_params_ok :: "trail_mode \<Rightarrow> decimal \<Rightarrow> bool" where
  "trail_params_ok mode v \<longleftrightarrow> fits 4 (10 ^ 5) v \<and> 0 < dval v \<and>
     (case mode of percentage \<Rightarrow> dval v \<le> 10 | fixed_amount \<Rightarrow> True | other_mode _ \<Rightarrow> False)"

abbreviation market_price :: "decimal \<Rightarrow> bool" where
  "market_price d \<equiv> fits 4 (10 ^ 8) d"

abbreviation reference_sized :: "decimal \<Rightarrow> bool" where
  "reference_sized d \<equiv> fits 5 (10 ^ 8) d"

lemma round_down_val:
  assumes "\<bar>dval p\<bar> < price_bound"
  shows "\<exists>d. round_down_to_tick st p = Inr d \<and> dval d = max (lower_tick st (dval p)) (tick_val st (dval p))"
proof (cases "0 < dval p")
  case True
  with assms nearest_lower_val [of p st] show ?thesis by (auto simp: round_down_to_tick_def)
next
  case False
  let ?t = "lookup_tick_size st p"
  have quot: "\<bar>dval p / dval ?t\<bar> < 10 ^ 26"
    using small_quotient [OF assms, of st] by (simp only: dval_lookup_tick_size)
  have "- (dval p / dval ?t) \<le> \<bar>dval p / dval ?t\<bar>" by (rule abs_ge_minus_self)
  also have "\<dots> < 10 ^ 26" by (rule quot)
  also have "\<dots> < 10 ^ prec" by (simp add: prec_def)
  finally have small: "- (dval p / dval ?t) < 10 ^ prec" .
  have "dval p \<le> 0" using False by simp
  from dec_floordiv_nonpos [OF this lookup_tick_size_pos(1) small] obtain q
    where q: "dec_floordiv p ?t = Inr q" "dval q \<le> 0" by blast
  have "dval (dec_mul q ?t) \<le> 0" using q(2) lookup_tick_size_pos(1) [of st p] by (rule dval_dec_mul_nonpos)
  moreover have "lower_tick st (dval p) \<le> 0" using lower_tick_le [of st "dval p"] \<open>dval p \<le> 0\<close> by linarith
  moreover have "0 < tick_val st (dval p)" by simp
  ultimately have "max (dval (dec_mul q ?t)) (tick_val st (dval p)) = tick_val st (dval p)"
    "max (lower_tick st (dval p)) (tick_val st (dval p)) = tick_val st (dval p)" by linarith+
  then show ?thesis
    by (simp add: round_down_to_tick_def nearest_lower_def Let_def q(1) dval_lookup_tick_size)
qed

lemma calculate_dynamic_trigger_price_val:
  assumes "ti_trail_mode intent = Some mode" and "ti_trail_value intent = Some v"
    and "trail_params_ok mode v" and "reference_sized b"
  shows "\<exists>d. calculate_dynamic_trigger_price intent b = Inr d \<and>
    dval d = trail_price (ti_security_type intent) mode (dval v) (dval b)"
proof -
  have v: "fits 4 (10 ^ 5) v" using assms(3) by (simp add: trail_params_ok_def)
  have one: "fits 6 1 (Dec False 1 0)" by (simp add: fits_def dval_def dint_def)
  have final: "\<exists>d. lift_ex ExDecimal (round_down_to_tick st raw) = Inr d \<and>
      dval d = max (lower_tick st (dval raw)) (tick_val st (dval raw))" if "fits k (10 ^ 12) raw" for st raw k
  proof -
    have "\<bar>dval raw\<bar> \<le> 10 ^ 12" using that by (simp add: fits_def)
    also have "(10 ^ 12 :: rat) < price_bound" by simp
    finally show ?thesis using round_down_val [of raw st] by auto
  qed
  show ?thesis
  proof (cases mode)
    case percentage
    obtain f where f: "dec_div v (Dec False 100 0) = Inr f" "dval f = dval v / 100" "fits 6 (10 ^ 3) f"
      using fits_div [OF v, of 100 1 2] by (auto simp: prec_def)
    have s: "dval (dec_sub (Dec False 1 0) f) = 1 - dval v / 100" "fits 6 1001 (dec_sub (Dec False 1 0) f)"
      using fits_sub [OF one f(3)] f(2) by (auto simp: prec_def dval_def [of "Dec _ _ _"] dint_def)
    let ?raw = "dec_mul b (dec_sub (Dec False 1 0) f)"
    have r: "dval ?raw = dval b * (1 - dval v / 100)" "fits (5 + 6) (10 ^ 8 * 1001) ?raw"
      using fits_mul [OF assms(4) s(2)] s(1) by (auto simp: prec_def)
    then have "fits (5 + 6) (10 ^ 12) ?raw" by (simp add: fits_def)
    from final [OF this, of "ti_security_type intent"] show ?thesis
      using assms(1,2) percentage f(1)
      by (simp add: calculate_dynamic_trigger_price_def trail_price_def trail_raw_def r(1) [unfolded One_nat_def])
  next
    case fixed_amount
    have "fits 5 (10 ^ 5) v" using v by (simp add: fits_def)
    from fits_sub [OF assms(4) this] have r: "dval (dec_sub b v) = dval b - dval v"
      "fits 5 (10 ^ 8 + 10 ^ 5) (dec_sub b v)" by (auto simp: prec_def)
    then have "fits 5 (10 ^ 12) (dec_sub b v)" by (simp add: fits_def)
    from final [OF this, of "ti_security_type intent"] show ?thesis
      using assms(1,2) fixed_amount
      by (simp add: calculate_dynamic_trigger_price_def trail_price_def trail_raw_def r(1))
  next
    case (other_mode x)
    with assms(3) show ?thesis by (simp add: trail_params_ok_def)
  qed
qed

text \<open>The value of the reference price, and the greater of two optional values.\<close>

definition reference_value :: "quote_snapshot \<Rightarrow> rat option" where
  "reference_value q = (case q_last_price q of
      Some l \<Rightarrow> Some (dval l)
    | None \<Rightarrow> (case (q_bid_price q, q_ask_price q) of
          (Some b, Some a) \<Rightarrow> Some ((dval b + dval a) / 2)
        | _ \<Rightarrow> None))"

fun opt_max :: "rat option \<Rightarrow> rat option \<Rightarrow> rat option" where
  "opt_max None y = y"
| "opt_max x None = x"
| "opt_max (Some x) (Some y) = Some (max x y)"

definition market_quote :: "quote_snapshot \<Rightarrow> bool" where
  "market_quote q \<longleftrightarrow> pred_option market_price (q_bid_price q) \<and> pred_option market_price (q_ask_price q) \<and>
     pred_option market_price (q_last_price q)"

lemma trailing_reference_price_val:
  assumes "market_quote q"
  shows "\<exists>r. trailing_reference_price q = Inr r \<and> map_option dval r = reference_value q \<and>
    pred_option reference_sized r"
proof (cases "q_last_price q")
  case (Some l)
  with assms show ?thesis
    by (auto simp: trailing_reference_price_def reference_value_def market_quote_def fits_def)
next
  case None
  show ?thesis
  proof (cases "\<exists>b a. q_bid_price q = Some b \<and> q_ask_price q = Some a")
    case True
    then obtain b a where ba: "q_bid_price q = Some b" "q_ask_price q = Some a" by blast
    with assms have f: "market_price b" "market_price a" by (simp_all add: market_quote_def)
    from fits_add [OF f] have s: "dval (dec_add b a) = dval b + dval a" "fits 4 (2 * 10 ^ 8) (dec_add b a)"
      by (auto simp: prec_def)
    obtain m where "dec_div (dec_add b a) (Dec False 2 0) = Inr m" "dval m = (dval b + dval a) / 2"
      "fits (4 + 1) (10 ^ 8) m"
      using fits_div [OF s(2), of 2 5 1] s(1) by (auto simp: prec_def)
    with None ba show ?thesis
      by (auto simp: trailing_reference_price_def reference_value_def)
  next
    case False
    with None show ?thesis
      by (auto simp: trailing_reference_price_def reference_value_def split: option.splits)
  qed
qed

text \<open>The stored pair of a trailing intent: no baseline yet, or the trigger price of the baseline.\<close>

definition trail_consistent :: "trade_intent_data \<Rightarrow> bool" where
  "trail_consistent intent \<longleftrightarrow>
     (\<exists>mode v. ti_trail_mode intent = Some mode \<and> ti_trail_value intent = Some v \<and> trail_params_ok mode v \<and>
        map_option dval (ti_dynamic_trigger_price intent) =
          map_option (\<lambda>b. trail_price (ti_security_type intent) mode (dval v) (dval b)) (ti_baseline intent))"

lemma trailing_ratchet_val:
  assumes "market_quote q" and "trail_consistent intent"
    and "ti_trail_mode intent = Some mode" and "ti_trail_value intent = Some v"
  shows "\<exists>b d u. trailing_ratchet q intent now = Inr (b, d, u) \<and>
    map_option dval b = opt_max (map_option dval (ti_baseline intent)) (reference_value q) \<and>
    map_option dval d = map_option (\<lambda>b. trail_price (ti_security_type intent) mode (dval v) (dval b)) b \<and>
    (u = None \<longrightarrow> b = ti_baseline intent \<and> d = ti_dynamic_trigger_price intent) \<and>
    (u \<noteq> None \<longrightarrow> u = Some now \<and> b \<noteq> None \<and> pred_option reference_sized b)"
proof -
  from trailing_reference_price_val [OF assms(1)] obtain r
    where r: "trailing_reference_price q = Inr r" "map_option dval r = reference_value q"
      "pred_option reference_sized r" by blast
  have ok: "trail_params_ok mode v" and cons: "map_option dval (ti_dynamic_trigger_price intent) =
      map_option (\<lambda>b. trail_price (ti_security_type intent) mode (dval v) (dval b)) (ti_baseline intent)"
    using assms(2-4) by (auto simp: trail_consistent_def)
  show ?thesis
  proof (cases "\<exists>x. r = Some x \<and> (case ti_baseline intent of None \<Rightarrow> True | Some b \<Rightarrow> dec_less b x)")
    case True
    then obtain x where x: "r = Some x" "case ti_baseline intent of None \<Rightarrow> True | Some b \<Rightarrow> dec_less b x"
      by blast
    from calculate_dynamic_trigger_price_val [OF assms(3,4) ok, of x] r(3) x(1) obtain d
      where "calculate_dynamic_trigger_price intent x = Inr d"
        "dval d = trail_price (ti_security_type intent) mode (dval v) (dval x)" by auto
    with x r(1,3) show ?thesis unfolding r(2) [symmetric]
      by (cases "ti_baseline intent") (auto simp: trailing_ratchet_def dec_cmp_iff max_def)
  next
    case False
    then have "trailing_ratchet q intent now = Inr (ti_baseline intent, ti_dynamic_trigger_price intent, None)"
      using r(1) by (auto simp: trailing_ratchet_def split: option.splits)
    moreover have "opt_max (map_option dval (ti_baseline intent)) (reference_value q) =
        map_option dval (ti_baseline intent)"
      using False r(2) [symmetric] by (cases r; cases "ti_baseline intent") (auto simp: dec_cmp_iff)
    ultimately show ?thesis using cons by auto
  qed
qed

lemma evaluate_trailing_result:
  assumes "ti_trail_mode intent = Some mode" and "ti_trail_value intent = Some v"
    and "trailing_ratchet q intent now = Inr (b, d, u)"
  shows "\<exists>r. evaluate_trailing_stop q intent now = Inr r \<and> er_baseline r = b \<and> er_dynamic_trigger_price r = d \<and>
    er_baseline_updated_at r = u \<and>
    (er_should_trigger r \<longleftrightarrow> (\<exists>p t x. side_price sell q = Some (p, t) \<and> d = Some x \<and> dval p \<le> dval x)) \<and>
    (er_should_trigger r \<longrightarrow> (\<exists>p t. side_price sell q = Some (p, t) \<and>
       er_trigger_price r = Some p \<and> er_trigger_reference_price_type r = Some t \<and>
       er_fallback_used r = (t = ref_last_fallback)))"
  using assms by (auto simp: evaluate_trailing_stop_def side_price_def dec_cmp_iff split: option.splits)


definition sample_trailing :: trade_intent_data where
  "sample_trailing = sample_intent\<lparr>ti_strategy := trailing_stop_alert, ti_trail_mode := Some percentage,
     ti_trail_value := Some (Dec False 50000 (-4))\<rparr>"

lemma sample_trailing_simps:
  "ti_strategy sample_trailing = trailing_stop_alert" "ti_trail_mode sample_trailing = Some percentage"
  "ti_trail_value sample_trailing = Some (Dec False 50000 (-4))" "ti_baseline sample_trailing = None"
  "trail_consistent sample_trailing"
  by (simp_all add: sample_trailing_def sample_intent_def trail_consistent_def trail_params_ok_def fits_def
      dval_def dint_def power_int_def power_one_over)

lemma sample_market_quote: "market_quote sample_quote"
  by (simp add: market_quote_def sample_quote_def fits_def dval_def dint_def)


subsection \<open>The trigger price never moves down\<close>

lemma tick_val_mono: "v \<le> w \<Longrightarrow> tick_val st v \<le> tick_val st w"
  by (auto simp: tick_val_def split: security_type.splits)

lemma round_down_mono:
  assumes "v \<le> w"
  shows "max (lower_tick st v) (tick_val st v) \<le> max (lower_tick st w) (tick_val st w)"
proof (cases "0 < v")
  case True
  with assms lower_tick_mono [of v w st] tick_val_mono [OF assms, of st] show ?thesis by linarith
next
  case False
  with lower_tick_le [of st v] tick_val_pos(1) [of st v] tick_val_mono [OF assms, of st]
  show ?thesis by linarith
qed

lemma trail_raw_mono:
  assumes "b \<le> c" and "mode = percentage \<Longrightarrow> v \<le> 10"
  shows "trail_raw mode v b \<le> trail_raw mode v c"
proof (cases "mode = percentage")
  case True
  with assms have "0 \<le> 1 - v / 100" by simp
  with assms(1) True show ?thesis by (simp add: trail_raw_def mult_right_mono)
next
  case False
  with assms(1) show ?thesis by (cases mode) (simp_all add: trail_raw_def)
qed

lemma trail_raw_less:
  assumes "0 < v" and "0 < b"
  shows "trail_raw mode v b < b"
  using assms by (cases mode) (simp_all add: trail_raw_def)

text \<open>
  The stop price of a trailing intent is a positive legal tick, does not exceed a baseline that
  is itself a price on the market's finest grid (one cent), and never moves down when the baseline
  moves up.
\<close>

theorem trail_price_ratchets:
  assumes "trail_params_ok mode v" and "1 / 100 \<le> b" and "b \<le> c"
  shows "0 < trail_price st mode (dval v) b \<and> on_tick st (trail_price st mode (dval v) b) \<and>
    trail_price st mode (dval v) b \<le> b \<and>
    trail_price st mode (dval v) b \<le> trail_price st mode (dval v) c"
proof -
  let ?r = "trail_raw mode (dval v) b"
  have v: "0 < dval v" "mode = percentage \<Longrightarrow> dval v \<le> 10"
    using assms(1) by (auto simp: trail_params_ok_def)
  have less: "?r < b" using v(1) assms(2) by (intro trail_raw_less) linarith+
  have mono: "trail_price st mode (dval v) b \<le> trail_price st mode (dval v) c"
    unfolding trail_price_def by (intro round_down_mono trail_raw_mono assms(3) v(2))
  have "on_tick st (trail_price st mode (dval v) b) \<and> trail_price st mode (dval v) b \<le> b"
  proof (cases "tick_val st ?r \<le> ?r")
    case True
    then have pos: "0 < ?r" using tick_val_pos(1) [of st ?r] by linarith
    have "tick_val st ?r \<le> lower_tick st ?r" using lower_tick_ge_multiple [of 1 st ?r] True by simp
    then have "trail_price st mode (dval v) b = lower_tick st ?r" by (simp add: trail_price_def)
    then show ?thesis using on_tick_lower_tick [OF pos, of st] lower_tick_le [of st ?r] less by simp
  next
    case False
    then have small: "?r < 5" using tick_val_bounds(2) [of st ?r] by linarith
    then have t: "tick_val st ?r = 1 / 100" by (cases st) (simp_all add: tick_val_def)
    with False lower_tick_le [of st ?r] have eq: "trail_price st mode (dval v) b = 1 / 100"
      by (simp add: trail_price_def)
    have "on_tick st (1 / 100)" by (cases st) (auto simp: on_tick_def tick_val_def intro: exI [of _ 1])
    then show ?thesis unfolding eq using assms(2) by simp
  qed
  moreover have "0 < trail_price st mode (dval v) b"
    using tick_val_pos(1) [of st ?r] by (simp add: trail_price_def less_max_iff_disj)
  ultimately show ?thesis using mono by blast
qed

theorem trail_price_ratchets_witness:
  "trail_price STOCK fixed_amount (dval (Dec False 5 0)) 600 \<le> trail_price STOCK fixed_amount (dval (Dec False 5 0)) 610"
  using trail_price_ratchets [of fixed_amount "Dec False 5 0" 600 610 STOCK]
  by (simp add: trail_params_ok_def fits_def dval_def dint_def)

section \<open>Consequences for the callers\<close>

lemma evaluate_trigger_fields:
  assumes "evaluate q intent now = Inr r" and "er_should_trigger r"
  shows "quote_usable q now \<and> (\<exists>side p t. side_price side q = Some (p, t) \<and> er_trigger_price r = Some p \<and>
    er_trigger_reference_price_type r = Some t \<and> er_fallback_used r = (t = ref_last_fallback) \<and> 0 < dval p)"
proof -
  have use: "quote_usable q now"
  proof (rule ccontr)
    assume "\<not> quote_usable q now"
    from evaluate_not_usable [OF this, of intent] assms show False by auto
  qed
  then have wf: "well_formed_quote q" by (simp add: quote_usable_def)
  have "\<exists>side p t. side_price side q = Some (p, t) \<and> er_trigger_price r = Some p \<and>
    er_trigger_reference_price_type r = Some t \<and> er_fallback_used r = (t = ref_last_fallback)"
  proof (cases "ti_strategy intent = trailing_stop_alert")
    case True
    then have e: "evaluate_trailing_stop q intent now = Inr r"
      using assms(1) by (simp add: evaluate_usable [OF use] evaluate_strategy_def)
    then obtain mode v where mv: "ti_trail_mode intent = Some mode" "ti_trail_value intent = Some v"
      using assms(2) by (auto simp: evaluate_trailing_stop_def split: if_splits)
    with e obtain b d u where "trailing_ratchet q intent now = Inr (b, d, u)"
      by (auto simp: evaluate_trailing_stop_def r_bind_Inr_iff)
    from evaluate_trailing_result [OF mv this] e assms(2) show ?thesis by fastforce
  next
    case False
    from evaluate_price_strategies [OF False, of q now] assms show ?thesis by fastforce
  qed
  then show ?thesis using use side_price_positive [OF wf] by blast
qed

lemma evaluate_baseline_moved:
  assumes "evaluate q intent now = Inr r" and "er_baseline_updated_at r \<noteq> None"
  shows "ti_strategy intent = trailing_stop_alert \<and> quote_usable q now"
proof -
  have use: "quote_usable q now"
  proof (rule ccontr)
    assume "\<not> quote_usable q now"
    from evaluate_not_usable [OF this, of intent] assms show False by auto
  qed
  moreover have "ti_strategy intent = trailing_stop_alert"
    using assms unfolding evaluate_usable [OF use] evaluate_strategy_def
    by (cases "ti_strategy intent") (auto simp: evaluate_defs split: option.splits if_splits)
  ultimately show ?thesis by blast
qed

end
