(* ===== verification/Trigger_Core.thy ===== *)
theory Trigger_Core
  imports Core_Invariant Quote_Evaluation
begin

text \<open>
  \<open>commands/trigger_intent_core.py\<close>: writing a trigger, its notification and the status change in one
  transaction, and moving the trailing baseline. \<open>persist_core_trigger\<close> sends the notification to
  Telegram as its last action, so on an exception nothing has been sent; its result carries the
  notification the caller's transaction has sent. The application's sessions do not autoflush
  (\<open>db/session.py\<close>), so the guarded \<open>UPDATE\<close> runs first and both inserts at the \<open>flush\<close> after it.
\<close>

section \<open>The source\<close>

record trigger_core_input =
  tci_trigger_price :: decimal
  tci_trigger_reference_price_type :: reference_price_type
  tci_fallback_used :: bool
  tci_quote_snapshot :: quote_json
  tci_quote_time :: datetime

text \<open>What is recorded: type, target, baseline and dynamic price, and the rendered text.\<close>

definition trigger_content ::
  "trade_intent_data \<Rightarrow> trigger_core_input \<Rightarrow>
   exn + notification_type \<times> decimal \<times> decimal option \<times> decimal option \<times> rendered" where
  "trigger_content intent inp =
     (if ti_strategy intent \<in> MARKET_ORDER_STRATEGIES
      then r_bind (render_market_order_triggered (ti_symbol intent) (ti_strategy intent) (tci_trigger_price inp)
             (ti_quantity_lots intent) (ti_quantity_lots intent) (tci_quote_time inp)) (\<lambda>m.
           Inr (market_order_triggered, tci_trigger_price inp, None, None, m))
      else if ti_strategy intent \<in> {limit_buy_order, limit_sell_order}
      then (case ti_target_price_effective intent of
              None \<Rightarrow> Inl ExRuntime
            | Some target \<Rightarrow>
                r_bind (render_limit_order_triggered (ti_symbol intent) (ti_strategy intent) target
                  (tci_trigger_price inp) (ti_quantity_lots intent) (ti_quantity_lots intent)
                  (tci_quote_time inp)) (\<lambda>m. Inr (limit_order_triggered, target, None, None, m)))
      else if ti_strategy intent = trailing_stop_alert
      then (case (ti_baseline intent, ti_dynamic_trigger_price intent) of
              (Some b, Some d) \<Rightarrow>
                (case (ti_trail_mode intent, ti_trail_value intent) of
                   (Some mode, Some v) \<Rightarrow>
                     r_bind (render_trailing_stop_triggered (ti_symbol intent) mode v b d (tci_trigger_price inp)
                       (tci_trigger_reference_price_type inp) (tci_quote_time inp)) (\<lambda>m.
                       Inr (trailing_stop_triggered, d, Some b, Some d, m))
                 | _ \<Rightarrow> Inl ExValue)
            | _ \<Rightarrow> Inl ExRuntime)
      else (case ti_target_price_effective intent of
              None \<Rightarrow> Inl ExRuntime
            | Some target \<Rightarrow>
                r_bind (render_price_triggered (ti_symbol intent) (ti_strategy intent) target
                  (tci_trigger_price inp) (tci_quote_time inp)) (\<lambda>m.
                  Inr (price_triggered, target, None, None, m))))"

definition trigger_checks :: "trigger_row \<Rightarrow> db_constraint option" where
  "trigger_checks g =
     (if tg_fallback_used g \<noteq> (tg_trigger_reference_price_type g = ref_last_fallback)
      then Some (check_violation ''fallback_consistency'')
      else if dec_le (tg_target_price_effective g) dec_zero then Some (check_violation ''target_price_effective'')
      else if dec_le (tg_trigger_price g) dec_zero then Some (check_violation ''trigger_price'')
      else if tg_filled_quantity_lots g < 0 then Some (check_violation ''filled_quantity_lots'')
      else if nonpositive (tg_baseline_at_trigger g) then Some (check_violation ''baseline_at_trigger'')
      else if nonpositive (tg_dynamic_trigger_price_at_trigger g)
      then Some (check_violation ''dynamic_trigger_price_at_trigger'')
      else None)"

definition insert_trigger :: "trigger_row \<Rightarrow> core_db \<Rightarrow> exn + trigger_row \<times> core_db" where
  "insert_trigger g db =
     r_bind (numeric94 (tg_target_price_effective g)) (\<lambda>te. r_bind (numeric94 (tg_trigger_price g)) (\<lambda>tp.
     r_bind (numeric94_opt (tg_baseline_at_trigger g)) (\<lambda>b.
     r_bind (numeric94_opt (tg_dynamic_trigger_price_at_trigger g)) (\<lambda>d.
       let g' = g\<lparr>tg_target_price_effective := te, tg_trigger_price := tp, tg_baseline_at_trigger := b,
                  tg_dynamic_trigger_price_at_trigger := d\<rparr>
       in case trigger_checks g' of
            Some k \<Rightarrow> Inl (ExIntegrity k)
          | None \<Rightarrow>
              if tg_id g \<in> tg_id ` set (db_triggers db) then Inl (ExIntegrity pk_violation)
              else if tg_trade_intent_id g \<in> tg_trade_intent_id ` set (db_triggers db)
              then Inl (ExIntegrity uq_trigger_intent)
              else if tg_trade_intent_id g \<notin> c_id ` set (db_core db) \<or> tg_owner_user_id g \<notin> set (db_users db) \<or>
                      tg_symbol g \<notin> sy_symbol ` set (db_symbols db)
              then Inl (ExIntegrity fk_violation)
              else Inr (g', db\<lparr>db_triggers := db_triggers db @ [g']\<rparr>)))))"

definition insert_notification :: "notification_row \<Rightarrow> core_db \<Rightarrow> exn + core_db" where
  "insert_notification n db =
     (if (n_trade_intent_id n = None) = (n_trade_intent_core_id n = None)
      then Inl (ExIntegrity (check_violation ''triggered_notification_intent''))
      else if n_id n \<in> n_id ` set (db_notifications db) then Inl (ExIntegrity pk_violation)
      else if n_owner_user_id n \<notin> set (db_users db) \<or>
              (case n_trade_intent_core_id n of None \<Rightarrow> False | Some i \<Rightarrow> i \<notin> c_id ` set (db_core db))
      then Inl (ExIntegrity fk_violation)
      else Inr (db\<lparr>db_notifications := db_notifications db @ [n]\<rparr>))"

definition set_triggered :: "datetime \<Rightarrow> int \<Rightarrow> core_row \<Rightarrow> core_row" where
  "set_triggered tx_now filled r = r\<lparr>c_status := triggered, c_triggered_at := Some tx_now, c_updated_at := tx_now,
     c_filled_quantity_lots := filled, c_last_fill_at := Some tx_now\<rparr>"

text \<open>\<open>except IntegrityError\<close>: only the unique trigger of an intent becomes the named error.\<close>

definition translate_integrity :: "uuid \<Rightarrow> exn \<Rightarrow> exn" where
  "translate_integrity i e =
     (if e = ExIntegrity uq_trigger_intent then ExTrigger (DuplicateTriggerError i) else e)"

definition catch :: "exn + 'a \<Rightarrow> (exn \<Rightarrow> exn) \<Rightarrow> exn + 'a" where
  "catch r h = (case r of Inl e \<Rightarrow> Inl (h e) | Inr x \<Rightarrow> Inr x)"

definition persist_core_trigger ::
  "datetime \<Rightarrow> uuid \<Rightarrow> uuid \<Rightarrow> trade_intent_data \<Rightarrow> trigger_core_input \<Rightarrow> core_db \<Rightarrow>
   exn + trigger_row \<times> notification_row \<times> core_db" where
  "persist_core_trigger tx_now trigger_id notification_id intent inp db =
     r_bind (trigger_content intent inp) (\<lambda>(ntype, target, b, d, title, body).
       let g = \<lparr>tg_id = trigger_id, tg_trade_intent_id = ti_id intent, tg_owner_user_id = ti_owner_user_id intent,
             tg_symbol = ti_symbol intent, tg_quote_snapshot = tci_quote_snapshot inp,
             tg_target_price_effective = target, tg_trigger_price = tci_trigger_price inp,
             tg_trigger_reference_price_type = tci_trigger_reference_price_type inp,
             tg_fallback_used = tci_fallback_used inp, tg_filled_quantity_lots = ti_quantity_lots intent,
             tg_baseline_at_trigger = b, tg_dynamic_trigger_price_at_trigger = d, tg_triggered_at = tx_now,
             tg_created_at = tx_now\<rparr>;
           n = \<lparr>n_id = notification_id, n_owner_user_id = ti_owner_user_id intent, n_trade_intent_id = None,
             n_trade_intent_core_id = Some (ti_id intent), n_type = ntype, n_rendered_title = title,
             n_rendered_body = body, n_read_at = None, n_created_at = tx_now, n_updated_at = tx_now\<rparr>;
           hit = (\<lambda>r. c_id r = ti_id intent \<and> c_status r = active)
       in catch
         (if count_where hit (db_core db) = 0 then Inl (ExTrigger (CoreIntentNotActiveError (ti_id intent)))
          else r_bind (insert_trigger g
                 (db\<lparr>db_core := upd_where hit (set_triggered tx_now (ti_quantity_lots intent)) (db_core db)\<rparr>)) (\<lambda>(g', db1).
               r_bind (insert_notification n db1) (\<lambda>db2. Inr (g', n, db2))))
         (translate_integrity (ti_id intent)))"

definition apply_trailing_baseline_update ::
  "datetime \<Rightarrow> trade_intent_data \<Rightarrow> evaluation_result \<Rightarrow> core_db \<Rightarrow> exn + trade_intent_data \<times> core_db" where
  "apply_trailing_baseline_update tx_now intent result db =
     r_bind (system_update_trailing_baseline tx_now (ti_id intent) (er_baseline result)
       (er_dynamic_trigger_price result) (er_baseline_updated_at result) db) (\<lambda>db'.
       Inr (intent\<lparr>ti_baseline := er_baseline result, ti_dynamic_trigger_price := er_dynamic_trigger_price result,
                   ti_baseline_updated_at := er_baseline_updated_at result\<rparr>, db'))"

section \<open>The effect of a trigger\<close>

lemma catch_Inr_iff [simp]: "catch r h = Inr x \<longleftrightarrow> r = Inr x"
  by (cases r) (simp_all add: catch_def)

lemma insert_trigger_Inr:
  assumes "insert_trigger g db = Inr (g', db')"
  shows "tg_trade_intent_id g' = tg_trade_intent_id g" "trigger_checks g' = None"
    "tg_trade_intent_id g \<notin> tg_trade_intent_id ` set (db_triggers db)"
    "db' = db\<lparr>db_triggers := db_triggers db @ [g']\<rparr>" "numeric94 (tg_trigger_price g) = Inr (tg_trigger_price g')"
    "tg_owner_user_id g' = tg_owner_user_id g" "tg_symbol g' = tg_symbol g"
    "tg_filled_quantity_lots g' = tg_filled_quantity_lots g"
    "tg_trigger_reference_price_type g' = tg_trigger_reference_price_type g"
  using assms unfolding insert_trigger_def Let_def
  by (auto simp: r_bind_Inr_iff split: option.splits if_splits)

lemma persist_Inr:
  assumes "persist_core_trigger t gi ni intent inp db = Inr (g, n, db')"
  shows "db' = db\<lparr>db_triggers := db_triggers db @ [g],
      db_core := upd_where (\<lambda>r. c_id r = ti_id intent \<and> c_status r = active)
        (set_triggered t (ti_quantity_lots intent)) (db_core db),
      db_notifications := db_notifications db @ [n]\<rparr>"
    and "tg_trade_intent_id g = ti_id intent" and "trigger_checks g = None"
    and "ti_id intent \<notin> tg_trade_intent_id ` set (db_triggers db)"
    and "\<exists>r \<in> set (db_core db). c_id r = ti_id intent \<and> c_status r = active"
    and "numeric94 (tci_trigger_price inp) = Inr (tg_trigger_price g)"
    and "n_trade_intent_core_id n = Some (ti_id intent)" and "n_owner_user_id n = ti_owner_user_id intent"
    and "tg_filled_quantity_lots g = ti_quantity_lots intent"
    and "n_trade_intent_id n = None" and "n_id n \<notin> n_id ` set (db_notifications db)"
proof -
  from assms obtain ntype target b d title body where
    "trigger_content intent inp = Inr (ntype, target, b, d, title, body)"
    by (auto simp: persist_core_trigger_def r_bind_Inr_iff)
  note * = assms [unfolded persist_core_trigger_def this r_bind_simps prod.case Let_def catch_Inr_iff]
  then obtain g0 db1 where ins: "insert_trigger g0 (db\<lparr>db_core := upd_where (\<lambda>r. c_id r = ti_id intent \<and> c_status r = active)
        (set_triggered t (ti_quantity_lots intent)) (db_core db)\<rparr>) = Inr (g, db1)"
    and g0: "tg_trade_intent_id g0 = ti_id intent" "tg_trigger_price g0 = tci_trigger_price inp"
      "tg_filled_quantity_lots g0 = ti_quantity_lots intent"
    and ne: "count_where (\<lambda>r. c_id r = ti_id intent \<and> c_status r = active) (db_core db) \<noteq> 0"
    and notif: "insert_notification n db1 = Inr db'"
    and n: "n_trade_intent_core_id n = Some (ti_id intent)" "n_owner_user_id n = ti_owner_user_id intent"
      "n_trade_intent_id n = None"
    by (auto simp: r_bind_Inr_iff split: if_split_asm)
  note I = insert_trigger_Inr [OF ins]
  show "db' = db\<lparr>db_triggers := db_triggers db @ [g],
      db_core := upd_where (\<lambda>r. c_id r = ti_id intent \<and> c_status r = active)
        (set_triggered t (ti_quantity_lots intent)) (db_core db),
      db_notifications := db_notifications db @ [n]\<rparr>"
    "n_id n \<notin> n_id ` set (db_notifications db)"
    using notif I(4) by (auto simp: insert_notification_def split: if_split_asm)
  show "\<exists>r \<in> set (db_core db). c_id r = ti_id intent \<and> c_status r = active"
    using ne by (auto simp: count_where_0_iff)
  show "tg_trade_intent_id g = ti_id intent" "trigger_checks g = None"
    "ti_id intent \<notin> tg_trade_intent_id ` set (db_triggers db)"
    "numeric94 (tci_trigger_price inp) = Inr (tg_trigger_price g)"
    "n_trade_intent_core_id n = Some (ti_id intent)" "n_owner_user_id n = ti_owner_user_id intent"
    "tg_filled_quantity_lots g = ti_quantity_lots intent" "n_trade_intent_id n = None"
    using I g0 n by simp_all
qed

lemma set_triggered_simps [simp]:
  "order_of (set_triggered t q r) = order_of r" "c_status (set_triggered t q r) = triggered"
  "c_filled_quantity_lots (set_triggered t q r) = q" "c_id (set_triggered t q r) = c_id r"
  by (simp_all add: set_triggered_def order_of_def)

lemma triggered_ids_set_triggered:
  "(\<exists>r \<in> set rows. c_id r = i \<and> c_status r = active) \<Longrightarrow>
   triggered_ids (upd_where (\<lambda>r. c_id r = i \<and> c_status r = active) (set_triggered t q) rows) =
     insert i (triggered_ids rows)"
proof (induction rows)
  case (Cons r rs)
  have "upd_where (\<lambda>r. c_id r = i \<and> c_status r = active) (set_triggered t q) rs = rs"
    if "\<not> (\<exists>r \<in> set rs. c_id r = i \<and> c_status r = active)"
    using that by (intro upd_where_id_if_none) auto
  with Cons show ?case by (cases "\<exists>r \<in> set rs. c_id r = i \<and> c_status r = active") auto
qed simp

lemma persist_preserves [core_preserved]:
  assumes "core_inv db" and "persist_core_trigger t gi ni intent inp db = Inr (g, n, db')"
  shows "core_inv db'"
proof (rule core_inv_update [OF assms(1), where p = "\<lambda>r. c_id r = ti_id intent \<and> c_status r = active"
      and f = "set_triggered t (ti_quantity_lots intent)"])
  note P = persist_Inr [OF assms(2)]
  show "tg_trade_intent_id ` set (db_triggers db') = triggered_ids (db_core db')"
    using triggered_ids_set_triggered [OF P(5)] assms(1) P(2) by (simp add: P(1) core_inv_def)
  show "distinct (map tg_trade_intent_id (db_triggers db'))"
    using assms(1) P(2,4) by (simp add: P(1) core_inv_def)
  show "c_filled_quantity_lots (set_triggered t (ti_quantity_lots intent) r) = c_filled_quantity_lots r \<or>
      0 \<le> c_filled_quantity_lots (set_triggered t (ti_quantity_lots intent) r)" for r
    using P(3,9) by (auto simp: trigger_checks_def split: if_splits)
qed (use persist_Inr(1) [OF assms(2)] assms(1) in \<open>auto simp: core_inv_def live_status_def status_sets\<close>)

lemma persist_evolves [core_monotone]:
  assumes "persist_core_trigger t gi ni intent inp db = Inr (g, n, db')"
  shows "core_evolves db db'"
  by (rule core_evolves_upd [where p = "\<lambda>r. c_id r = ti_id intent \<and> c_status r = active"
      and f = "set_triggered t (ti_quantity_lots intent)"])
    (use persist_Inr(1) [OF assms] in \<open>auto simp: row_evolves_def intro: intent_step.intros\<close>)

end
