(* ===== verification/Lifecycle.thy ===== *)
theory Lifecycle
  imports Trigger_Core
begin

text \<open>
  \<open>commands/intent_lifecycle.py\<close>: day intents are expired through the cutoff and, during the session,
  activated. The command relies on three repository methods only (the protocol
  \<open>DayIntentLifecycleStore\<close>); the protocol is a locale, the command's behaviour is proved inside it,
  and the repository of the new track, seen through a database session, is an instance.
\<close>

section \<open>Sessions\<close>

text \<open>A database session: what is committed, and the working state of the open transaction.\<close>

record 'd session =
  ss_committed :: 'd
  ss_working :: 'd

definition ss_open :: "'d \<Rightarrow> 'd session" where
  "ss_open d = \<lparr>ss_committed = d, ss_working = d\<rparr>"

definition ss_commit :: "'d session \<Rightarrow> 'd session" where
  "ss_commit s = s\<lparr>ss_committed := ss_working s\<rparr>"

definition ss_rollback :: "'d session \<Rightarrow> 'd session" where
  "ss_rollback s = s\<lparr>ss_working := ss_committed s\<rparr>"

lemma session_simps [simp]:
  "ss_working (ss_open d) = d" "ss_committed (ss_open d) = d"
  "ss_working (ss_commit s) = ss_working s" "ss_committed (ss_commit s) = ss_working s"
  "ss_working (ss_rollback s) = ss_committed s" "ss_committed (ss_rollback s) = ss_committed s"
  by (simp_all add: ss_open_def ss_commit_def ss_rollback_def)

section \<open>The command\<close>

record lifecycle_output =
  lo_activated_count :: nat
  lo_expired_count :: nat

definition lifecycle_run ::
  "(date \<Rightarrow> datetime \<Rightarrow> 's \<Rightarrow> nat \<times> 's) \<Rightarrow> (date \<Rightarrow> datetime \<Rightarrow> 's \<Rightarrow> nat \<times> 's) \<Rightarrow> ('s \<Rightarrow> 's) \<Rightarrow>
   datetime \<Rightarrow> 's \<Rightarrow> lifecycle_output \<times> 's" where
  "lifecycle_run expire activate commit now s =
     (let cutoff = get_expirable_day_intent_cutoff now;
          (expired_count, s1) = expire cutoff now s;
          (activated_count, s2) = (if get_trading_day_phase now = REGULAR_SESSION
             then activate (taipei_date now) now s1 else (0, s1));
          s3 = (if expired_count \<noteq> 0 \<or> activated_count \<noteq> 0 then commit s2 else s2)
      in (\<lparr>lo_activated_count = activated_count, lo_expired_count = expired_count\<rparr>, s3))"

section \<open>The protocol\<close>

text \<open>What the protocol says of the rows: identity, status and trading date.\<close>

type_synonym day_row = "uuid \<times> intent_status \<times> date"

definition expire_day_row :: "date \<Rightarrow> day_row \<Rightarrow> day_row" where
  "expire_day_row cutoff r = (case r of (i, st, d) \<Rightarrow>
     if st \<in> CANCELLABLE_STATUSES \<and> d \<le> cutoff then (i, expired, d) else r)"

definition activate_day_row :: "date \<Rightarrow> day_row \<Rightarrow> day_row" where
  "activate_day_row today r = (case r of (i, st, d) \<Rightarrow>
     if st = scheduled \<and> d = today then (i, active, d) else r)"

definition lifecycle_day_row :: "datetime \<Rightarrow> day_row \<Rightarrow> day_row" where
  "lifecycle_day_row now r = (case r of (i, st, d) \<Rightarrow>
     if st \<in> CANCELLABLE_STATUSES \<and> d \<le> get_expirable_day_intent_cutoff now then (i, expired, d)
     else if st = scheduled \<and> d = taipei_date now \<and> is_within_regular_session now then (i, active, d)
     else r)"

locale day_intent_lifecycle_store =
  fixes expire :: "date \<Rightarrow> datetime \<Rightarrow> 's \<Rightarrow> nat \<times> 's"
    and activate :: "date \<Rightarrow> datetime \<Rightarrow> 's \<Rightarrow> nat \<times> 's"
    and commit :: "'s \<Rightarrow> 's"
    and rows :: "'s \<Rightarrow> day_row list"
    and saved :: "'s \<Rightarrow> day_row list"
  assumes expire_rows: "rows (snd (expire d now s)) = map (expire_day_row d) (rows s)"
    and expire_count: "fst (expire d now s) = 0 \<Longrightarrow> snd (expire d now s) = s"
    and activate_rows: "rows (snd (activate d now s)) = map (activate_day_row d) (rows s)"
    and activate_count: "fst (activate d now s) = 0 \<Longrightarrow> snd (activate d now s) = s"
    and commit_rows: "rows (commit s) = rows s"
    and commit_saves: "saved (commit s) = rows s"
begin

lemma run_snd:
  "snd (lifecycle_run expire activate commit now s) =
     (let e = expire (get_expirable_day_intent_cutoff now) now s;
          a = (if get_trading_day_phase now = REGULAR_SESSION
               then activate (taipei_date now) now (snd e) else (0, snd e))
      in if fst e \<noteq> 0 \<or> fst a \<noteq> 0 then commit (snd a) else snd a)"
  by (simp add: lifecycle_run_def Let_def case_prod_unfold)

lemma day_row_compose:
  "(let r1 = expire_day_row (get_expirable_day_intent_cutoff now) r
    in if get_trading_day_phase now = REGULAR_SESSION then activate_day_row (taipei_date now) r1 else r1) =
   lifecycle_day_row now r"
  by (cases r) (auto simp: Let_def expire_day_row_def activate_day_row_def lifecycle_day_row_def
        within_session_phase status_sets)

lemma run_rows:
  "rows (snd (lifecycle_run expire activate commit now s)) = map (lifecycle_day_row now) (rows s)"
proof -
  have "rows (snd (lifecycle_run expire activate commit now s)) =
      map (\<lambda>r. let r1 = expire_day_row (get_expirable_day_intent_cutoff now) r
        in if get_trading_day_phase now = REGULAR_SESSION then activate_day_row (taipei_date now) r1 else r1) (rows s)"
    unfolding run_snd Let_def by (simp add: commit_rows activate_rows expire_rows)
  then show ?thesis unfolding day_row_compose .
qed

lemma run_saved:
  assumes "saved s = rows s"
  shows "saved (snd (lifecycle_run expire activate commit now s)) =
    rows (snd (lifecycle_run expire activate commit now s))"
  unfolding run_snd Let_def using assms
  by (auto simp: commit_saves commit_rows expire_count activate_count)

end

section \<open>The new track as a lifecycle store\<close>

definition core_expire :: "date \<Rightarrow> datetime \<Rightarrow> core_db session \<Rightarrow> nat \<times> core_db session" where
  "core_expire d now s = (case system_expire_day_intents_through d now (ss_working s) of
     (n, db) \<Rightarrow> (n, s\<lparr>ss_working := db\<rparr>))"

definition core_activate :: "date \<Rightarrow> datetime \<Rightarrow> core_db session \<Rightarrow> nat \<times> core_db session" where
  "core_activate d now s = (case system_activate_scheduled_day_intents d now (ss_working s) of
     (n, db) \<Rightarrow> (n, s\<lparr>ss_working := db\<rparr>))"

definition day_row :: "core_row \<Rightarrow> day_row" where
  "day_row r = (c_id r, c_status r, c_trading_date r)"

definition core_lifecycle :: "datetime \<Rightarrow> core_db session \<Rightarrow> lifecycle_output \<times> core_db session" where
  "core_lifecycle = lifecycle_run core_expire core_activate ss_commit"

lemma day_row_updates [simp]:
  "day_row (set_status_at st t r) = (c_id r, st, c_trading_date r)"
  by (simp add: day_row_def set_status_at_def)

interpretation core_day: day_intent_lifecycle_store core_expire core_activate ss_commit
  "\<lambda>s. map day_row (db_core (ss_working s))" "\<lambda>s. map day_row (db_core (ss_committed s))"
proof unfold_locales
  have day: "(case day_row r of (i, st, d) \<Rightarrow> f i st d) = f (c_id r) (c_status r) (c_trading_date r)" for f r
    by (simp add: day_row_def)
  fix d now and s :: "core_db session"
  show "map day_row (db_core (ss_working (snd (core_expire d now s)))) =
      map (expire_day_row d) (map day_row (db_core (ss_working s)))"
    by (auto simp: core_expire_def system_expire_day_intents_through_def Let_def upd_where_def
        expire_day_row_def day)
  show "map day_row (db_core (ss_working (snd (core_activate d now s)))) =
      map (activate_day_row d) (map day_row (db_core (ss_working s)))"
    by (auto simp: core_activate_def system_activate_scheduled_day_intents_def Let_def upd_where_def
        activate_day_row_def day)
  show "snd (core_expire d now s) = s" if "fst (core_expire d now s) = 0"
    using that by (simp add: core_expire_def system_expire_day_intents_through_def Let_def count_where_0_iff
        upd_where_id_if_none)
  show "snd (core_activate d now s) = s" if "fst (core_activate d now s) = 0"
    using that by (simp add: core_activate_def system_activate_scheduled_day_intents_def Let_def
        count_where_0_iff upd_where_id_if_none)
qed simp_all


lemma core_lifecycle_session:
  "\<exists>db'. ss_working (snd (core_lifecycle now (ss_open db))) = db' \<and>
     ss_committed (snd (core_lifecycle now (ss_open db))) = db' \<and>
     (core_inv db \<longrightarrow> core_inv db') \<and> core_evolves db db' \<and>
     map day_row (db_core db') = map (lifecycle_day_row now) (map day_row (db_core db)) \<and>
     db_triggers db' = db_triggers db \<and> db_notifications db' = db_notifications db \<and>
     db_trailing db' = db_trailing db \<and> db_price db' = db_price db \<and> db_symbols db' = db_symbols db"
proof -
  define e where "e = system_expire_day_intents_through (get_expirable_day_intent_cutoff now) now db"
  define a where "a = (if get_trading_day_phase now = REGULAR_SESSION
    then system_activate_scheduled_day_intents (taipei_date now) now (snd e) else (0, snd e))"
  have same: "snd e = db" if "fst e = 0"
    using that by (simp add: e_def system_expire_day_intents_through_def Let_def count_where_0_iff upd_where_id_if_none)
  have same': "snd a = snd e" if "fst a = 0"
    using that by (auto simp: a_def system_activate_scheduled_day_intents_def Let_def count_where_0_iff
        upd_where_id_if_none split: if_splits)
  have run: "snd (core_lifecycle now (ss_open db)) = ss_open (snd a)"
    using same same'
    by (cases "fst e = 0"; cases "fst a = 0")
      (auto simp: core_lifecycle_def lifecycle_run_def core_expire_def core_activate_def Let_def a_def e_def
        ss_open_def ss_commit_def split: prod.splits if_splits)
  have "core_inv (snd a)" if "core_inv db"
    using that by (auto simp: a_def e_def intro: core_preserved)
  moreover have "core_evolves db (snd a)"
    using core_evolves_trans [OF expire_evolves activate_evolves] expire_evolves by (auto simp: a_def e_def)
  moreover have "map day_row (db_core (snd a)) = map (lifecycle_day_row now) (map day_row (db_core db))"
    using core_day.run_rows [of now "ss_open db"] run by (simp add: core_lifecycle_def)
  moreover have "db_triggers (snd a) = db_triggers db" "db_notifications (snd a) = db_notifications db"
    "db_trailing (snd a) = db_trailing db" "db_price (snd a) = db_price db" "db_symbols (snd a) = db_symbols db"
    by (simp_all add: a_def e_def system_activate_scheduled_day_intents_def system_expire_day_intents_through_def
        Let_def)
  ultimately show ?thesis using run by simp
qed

end
