(* ===== verification/Dispatcher.thy ===== *)
theory Dispatcher
  imports Lifecycle
begin

text \<open>
  \<open>services/quote_dispatcher_core.py\<close>: a quote drives the evaluation of the new track's active
  intents. The state is the database and the list of notifications sent to Telegram; sending is not
  undone when the transaction rolls back. The generated identifiers of an intent's trigger and
  notification row are given by \<open>ids\<close>.
\<close>

section \<open>The source\<close>

definition dispatch_one ::
  "datetime \<Rightarrow> (uuid \<Rightarrow> uuid \<times> uuid) \<Rightarrow> quote_snapshot \<Rightarrow> datetime \<Rightarrow> trade_intent_data \<Rightarrow> core_db \<Rightarrow>
   exn + core_db \<times> bool \<times> notification_row list" where
  "dispatch_one tx_now ids snapshot now intent0 db0 =
     r_bind (evaluate snapshot intent0 now) (\<lambda>result.
     r_bind (if er_baseline_updated_at result \<noteq> None
             then r_bind (apply_trailing_baseline_update tx_now intent0 result db0) (\<lambda>(i, d). Inr (i, d, True))
             else Inr (intent0, db0, False)) (\<lambda>(intent, db, pending).
     if \<not> er_should_trigger result then Inr (db, pending, [])
     else case (er_trigger_price result, er_trigger_reference_price_type result) of
       (Some p, Some t) \<Rightarrow>
         (case persist_core_trigger tx_now (fst (ids (ti_id intent))) (snd (ids (ti_id intent))) intent
            \<lparr>tci_trigger_price = p, tci_trigger_reference_price_type = t,
             tci_fallback_used = er_fallback_used result,
             tci_quote_snapshot = quote_snapshot_to_jsonb snapshot, tci_quote_time = q_quote_time snapshot\<rparr> db of
            Inr (g, n, db') \<Rightarrow> Inr (db', True, [n])
          | Inl (ExTrigger _) \<Rightarrow> Inr (db, pending, [])
          | Inl e \<Rightarrow> Inl e)
     | _ \<Rightarrow> Inl ExRuntime))"

fun dispatch_loop ::
  "datetime \<Rightarrow> (uuid \<Rightarrow> uuid \<times> uuid) \<Rightarrow> quote_snapshot \<Rightarrow> datetime \<Rightarrow> trade_intent_data list \<Rightarrow> core_db \<Rightarrow> bool \<Rightarrow>
   notification_row list \<Rightarrow> (exn + core_db \<times> bool) \<times> notification_row list" where
  "dispatch_loop tx_now ids snapshot now [] db pending sent = (Inr (db, pending), sent)"
| "dispatch_loop tx_now ids snapshot now (intent # rest) db pending sent =
     (case dispatch_one tx_now ids snapshot now intent db of
        Inl e \<Rightarrow> (Inl e, sent)
      | Inr (db', p, ns) \<Rightarrow> dispatch_loop tx_now ids snapshot now rest db' (pending \<or> p) (sent @ ns))"

text \<open>\<open>_dispatch_inner\<close>: the outcome, the committed database and what was sent.\<close>

definition dispatch_inner ::
  "bool \<Rightarrow> datetime \<Rightarrow> (uuid \<Rightarrow> uuid \<times> uuid) \<Rightarrow> quote_snapshot \<Rightarrow> datetime \<Rightarrow> core_db \<Rightarrow>
   (exn + unit) \<times> core_db \<times> notification_row list" where
  "dispatch_inner halted tx_now ids snapshot now db =
     (if halted then (Inr (), db, [])
      else
        let s = snd (core_lifecycle now (ss_open db))
        in case system_list_active_by_symbols [q_symbol snapshot] (ss_working s) of
             Inl e \<Rightarrow> (Inl e, ss_committed s, [])
           | Inr intents \<Rightarrow>
               if intents = [] then (Inr (), ss_committed s, [])
               else (case dispatch_loop tx_now ids snapshot now intents (ss_working s) False [] of
                       (Inl e, sent) \<Rightarrow> (Inl e, ss_committed s, sent)
                     | (Inr (db', pending), sent) \<Rightarrow>
                         (Inr (), if pending then db' else ss_committed s, sent)))"

text \<open>\<open>dispatch\<close> logs and swallows every exception.\<close>

definition dispatch ::
  "bool \<Rightarrow> datetime \<Rightarrow> (uuid \<Rightarrow> uuid \<times> uuid) \<Rightarrow> quote_snapshot \<Rightarrow> datetime \<Rightarrow> core_db \<Rightarrow>
   core_db \<times> notification_row list" where
  "dispatch halted tx_now ids snapshot now db = snd (dispatch_inner halted tx_now ids snapshot now db)"

section \<open>Safety of any dispatch\<close>

lemma apply_trailing_Inr:
  "apply_trailing_baseline_update t intent r db = Inr (intent', db') \<Longrightarrow>
   ti_id intent' = ti_id intent \<and> ti_owner_user_id intent' = ti_owner_user_id intent \<and>
   system_update_trailing_baseline t (ti_id intent) (er_baseline r) (er_dynamic_trigger_price r)
     (er_baseline_updated_at r) db = Inr db'"
  by (auto simp: apply_trailing_baseline_update_def r_bind_Inr_iff)

lemma update_baseline_frame:
  "system_update_trailing_baseline t i b d u db = Inr db' \<Longrightarrow>
   db_triggers db' = db_triggers db \<and> db_notifications db' = db_notifications db \<and>
   map c_status (db_core db') = map c_status (db_core db) \<and> map c_id (db_core db') = map c_id (db_core db)"
  by (elim update_baseline_Inr) (simp add: map_upd_where_frame)

text \<open>Every notification sent belongs to a trigger written in the same transaction, one each.\<close>

definition sent_match :: "core_db \<Rightarrow> core_db \<Rightarrow> notification_row list \<Rightarrow> bool" where
  "sent_match db db' ns \<longleftrightarrow>
     (\<exists>gs. db_triggers db' = db_triggers db @ gs \<and> db_notifications db' = db_notifications db @ ns \<and>
        list_all2 (\<lambda>g n. n_trade_intent_core_id n = Some (tg_trade_intent_id g)) gs ns)"

lemma sent_match_refl: "sent_match db db []"
  by (simp add: sent_match_def)

lemma sent_match_trans: "sent_match a b xs \<Longrightarrow> sent_match b c ys \<Longrightarrow> sent_match a c (xs @ ys)"
  unfolding sent_match_def by (metis append.assoc list_all2_appendI)

lemma dispatch_one_Inr:
  assumes "core_inv db" and "dispatch_one t ids q now intent db = Inr (db', p, ns)"
  shows "core_inv db' \<and> core_evolves db db' \<and> sent_match db db' ns"
proof -
  from assms(2) obtain r where ev: "evaluate q intent now = Inr r"
    by (auto simp: dispatch_one_def r_bind_Inr_iff)
  from assms(2) ev obtain i1 db1 p1 where
    upd: "(if er_baseline_updated_at r \<noteq> None
       then r_bind (apply_trailing_baseline_update t intent r db) (\<lambda>(i, d). Inr (i, d, True))
       else Inr (intent, db, False)) = Inr (i1, db1, p1)"
    by (auto simp: dispatch_one_def r_bind_Inr_iff split: if_splits)
  have d1: "core_inv db1 \<and> core_evolves db db1 \<and> db_triggers db1 = db_triggers db \<and>
      db_notifications db1 = db_notifications db"
    using upd assms(1)
    by (auto simp: r_bind_Inr_iff split: if_splits dest!: apply_trailing_Inr
        intro: core_preserved core_monotone dest: update_baseline_frame)
  show ?thesis
  proof (cases "db' = db1 \<and> ns = []")
    case True
    with d1 show ?thesis by (simp add: sent_match_def)
  next
    case False
    with assms(2) ev upd obtain inp g n where
      per: "persist_core_trigger t (fst (ids (ti_id i1))) (snd (ids (ti_id i1))) i1 inp db1 = Inr (g, n, db')"
      and ns: "ns = [n]"
      by (auto simp: dispatch_one_def split: if_splits option.splits sum.splits exn.splits)
    note P = persist_Inr [OF per]
    have "core_inv db'" "core_evolves db1 db'"
      using d1 per by (auto intro: core_preserved core_monotone)
    moreover have "sent_match db db' ns"
      unfolding sent_match_def using d1 P(1,2,7) ns by (intro exI [of _ "[g]"]) simp
    ultimately show ?thesis using d1 core_evolves_trans by blast
  qed
qed

lemma dispatch_loop_Inr:
  assumes "core_inv db" and "dispatch_loop t ids q now intents db p sent = (Inr (db', p'), sent')"
  shows "core_inv db' \<and> core_evolves db db' \<and> (\<exists>ns. sent' = sent @ ns \<and> sent_match db db' ns)"
  using assms
proof (induction intents arbitrary: db p sent)
  case Nil
  then show ?case by (auto intro: sent_match_refl)
next
  case (Cons x xs)
  from Cons.prems(2) obtain d1 p1 ns where one: "dispatch_one t ids q now x db = Inr (d1, p1, ns)"
    and rest: "dispatch_loop t ids q now xs d1 (p \<or> p1) (sent @ ns) = (Inr (db', p'), sent')"
    by (auto split: sum.splits prod.splits)
  from dispatch_one_Inr [OF Cons.prems(1) one] Cons.IH [OF _ rest] show ?case
    using core_evolves_trans sent_match_trans by (metis append.assoc)
qed

lemma dispatch_inner_safe:
  assumes "core_inv db" and "dispatch_inner halted t ids q now db = (res, db', sent)"
  shows "core_inv db' \<and> core_evolves db db'"
proof -
  obtain d1 where d1: "ss_working (snd (core_lifecycle now (ss_open db))) = d1"
    "ss_committed (snd (core_lifecycle now (ss_open db))) = d1" "core_inv d1" "core_evolves db d1"
    using core_lifecycle_session [of now db] assms(1) by blast
  show ?thesis
  proof (cases halted)
    case False
    from list_active_eq [OF d1(3)] obtain intents where
      li: "system_list_active_by_symbols [q_symbol q] d1 = Inr intents" by blast
    obtain out sent1 where lo: "dispatch_loop t ids q now intents d1 False [] = (out, sent1)" by fastforce
    show ?thesis
    proof (cases out)
      case (Inl e)
      with assms(2) False d1 li lo show ?thesis by (auto simp: dispatch_inner_def Let_def split: if_splits)
    next
      case (Inr x)
      obtain d2 p where x: "x = (d2, p)" by fastforce
      with dispatch_loop_Inr [OF d1(3)] lo Inr have "core_inv d2" "core_evolves d1 d2" by blast+
      with core_evolves_trans [OF d1(4)] assms(2) False d1 li lo Inr x show ?thesis
        by (auto simp: dispatch_inner_def Let_def split: if_splits)
    qed
  qed (use assms in \<open>simp add: dispatch_inner_def\<close>)
qed

section \<open>A dispatch that cannot fail\<close>

text \<open>
  Under the conditions of normal operation no exception arises and the outcome is determined: the
  quote's prices have at most four decimals and fit the columns, the stored trailing pairs are
  complete, and the generated identifiers are new.
\<close>

definition numeric_ok :: "decimal \<Rightarrow> bool" where
  "numeric_ok d \<longleftrightarrow> (\<exists>x. numeric94 d = Inr x \<and> 0 < dval x)"

definition quote_sized :: "quote_snapshot \<Rightarrow> bool" where
  "quote_sized q \<longleftrightarrow> pred_option (fits 4 99999) (q_bid_price q) \<and> pred_option (fits 4 99999) (q_ask_price q) \<and>
     pred_option (fits 4 99999) (q_last_price q)"

definition trail_pairs :: "core_db \<Rightarrow> bool" where
  "trail_pairs db \<longleftrightarrow> (\<forall>t \<in> set (db_trailing db). tr_baseline t = None \<longleftrightarrow> tr_dynamic_trigger_price t = None)"

definition fires :: "quote_snapshot \<Rightarrow> datetime \<Rightarrow> trade_intent_data \<Rightarrow> bool" where
  "fires q now intent = (case evaluate q intent now of Inr r \<Rightarrow> er_should_trigger r | Inl _ \<Rightarrow> False)"

lemma fits_pos_lower:
  assumes "fits k B d" and "0 < dval d"
  shows "1 / 10 ^ k \<le> dval d"
proof -
  have c: "\<not> dneg d" "1 \<le> dcoeff d" using assms(2) by (simp_all add: dval_pos_iff dint_pos_iff)
  have "1 / 10 ^ k = (10 powi (- int k) :: rat)" by (simp add: power_int_minus divide_inverse)
  also have "\<dots> \<le> 10 powi dexp d" using assms(1) by (intro power_int_increasing) (auto simp: fits_def)
  also have "\<dots> \<le> of_nat (dcoeff d) * 10 powi dexp d" using c(2) by simp
  finally show ?thesis using c(1) by (simp add: dval_def dint_def)
qed

lemma quote_sized_market: "quote_sized q \<Longrightarrow> market_quote q"
  by (auto simp: quote_sized_def market_quote_def fits_def pred_option_def)

lemma numeric_ok_range: "1 / 10 ^ 4 \<le> dval d \<Longrightarrow> dval d \<le> 99999 \<Longrightarrow> numeric_ok d"
  unfolding numeric_ok_def by (rule numeric94_range)

lemma numeric_ok_stored: "is_numeric94 d \<Longrightarrow> 0 < dval d \<Longrightarrow> numeric_ok d"
  by (simp add: numeric_ok_def numeric94_id)

lemma quote_price_range:
  assumes "quote_sized q" and "well_formed_quote q"
    and "q_bid_price q = Some p \<or> q_ask_price q = Some p \<or> q_last_price q = Some p"
  shows "1 / 10 ^ 4 \<le> dval p" "dval p \<le> 99999"
proof -
  have f: "fits 4 99999 p" using assms(1,3) by (auto simp: quote_sized_def)
  have "0 < dval p" using assms(2,3) by (auto simp: well_formed_quote_def positive_price_def split: option.splits)
  from fits_pos_lower [OF f this] show "1 / 10 ^ 4 \<le> dval p" .
  show "dval p \<le> 99999" using f unfolding fits_def by linarith
qed

lemma reference_value_range:
  assumes "quote_sized q" and "well_formed_quote q" and "reference_value q = Some v"
  shows "1 / 10 ^ 4 \<le> v" "v \<le> 99999"
proof -
  note range = quote_price_range [OF assms(1,2)]
  have "1 / 10 ^ 4 \<le> v \<and> v \<le> 99999"
  proof (cases "q_last_price q")
    case (Some l)
    with assms(3) range [of l] show ?thesis by (simp add: reference_value_def)
  next
    case None
    with assms(3) obtain b a where "q_bid_price q = Some b" "q_ask_price q = Some a" "v = (dval b + dval a) / 2"
      by (auto simp: reference_value_def split: option.splits)
    with range [of b] range [of a] show ?thesis by simp
  qed
  then show "1 / 10 ^ 4 \<le> v" "v \<le> 99999" by simp_all
qed

lemma trail_price_range:
  assumes "0 < v" and "0 < b" and "b \<le> 99999"
  shows "1 / 10 ^ 4 \<le> trail_price st mode v b" "trail_price st mode v b \<le> 99999"
proof -
  let ?r = "trail_raw mode v b"
  have "?r < b" using assms(1,2) by (rule trail_raw_less)
  with lower_tick_le [of st ?r] tick_val_bounds [of st ?r] assms(3)
  show "1 / 10 ^ 4 \<le> trail_price st mode v b" "trail_price st mode v b \<le> 99999"
    by (auto simp: trail_price_def le_max_iff_disj)
qed

lemma trailing_ratchet_total:
  assumes "quote_sized q" and "well_formed_quote q" and "ti_trail_mode intent = Some mode"
    and "ti_trail_value intent = Some v" and "trail_params_ok mode v"
  shows "\<exists>b d u. trailing_ratchet q intent now = Inr (b, d, u) \<and>
    (u = None \<and> b = ti_baseline intent \<and> d = ti_dynamic_trigger_price intent \<or>
     (\<exists>x y. u = Some now \<and> b = Some x \<and> d = Some y \<and> numeric_ok x \<and> numeric_ok y))"
proof -
  from trailing_reference_price_val [OF quote_sized_market [OF assms(1)]] obtain r
    where r: "trailing_reference_price q = Inr r" "map_option dval r = reference_value q"
      "pred_option reference_sized r" by blast
  show ?thesis
  proof (cases "\<exists>x. r = Some x \<and> (case ti_baseline intent of None \<Rightarrow> True | Some b \<Rightarrow> dec_less b x)")
    case True
    then obtain x where x: "r = Some x" "case ti_baseline intent of None \<Rightarrow> True | Some b \<Rightarrow> dec_less b x"
      by blast
    with r have xr: "1 / 10 ^ 4 \<le> dval x" "dval x \<le> 99999"
      using reference_value_range [OF assms(1,2), of "dval x"] by auto
    have pos: "0 < dval x" using xr(1) by (rule less_le_trans [rotated]) simp
    from calculate_dynamic_trigger_price_val [OF assms(3-5), of x] r(3) x(1) obtain y
      where y: "calculate_dynamic_trigger_price intent x = Inr y"
        "dval y = trail_price (ti_security_type intent) mode (dval v) (dval x)" by auto
    have "0 < dval v" using assms(5) by (simp add: trail_params_ok_def)
    from trail_price_range [OF this pos xr(2), of "ti_security_type intent" mode] y(2)
    have "numeric_ok y" by (intro numeric_ok_range) simp_all
    moreover have "numeric_ok x" using xr by (rule numeric_ok_range)
    ultimately show ?thesis using x r(1) y(1) by (auto simp: trailing_ratchet_def split: option.splits)
  next
    case False
    then have "trailing_ratchet q intent now = Inr (ti_baseline intent, ti_dynamic_trigger_price intent, None)"
      using r(1) by (auto simp: trailing_ratchet_def split: option.splits)
    then show ?thesis by blast
  qed
qed

subsection \<open>What a stored row looks like to the evaluator\<close>

lemma view_simps [simp]:
  "ti_id (view db r) = c_id r" "ti_owner_user_id (view db r) = c_owner_user_id r"
  "ti_symbol (view db r) = c_symbol r" "ti_strategy (view db r) = c_strategy r"
  "ti_quantity_lots (view db r) = c_quantity_lots r" "ti_status (view db r) = c_status r"
  "ti_target_price_effective (view db r) = map_option pp_target_price_effective (price_of db (c_id r))"
  "ti_trail_mode (view db r) = map_option tr_trail_mode (trailing_of db (c_id r))"
  "ti_trail_value (view db r) = map_option tr_trail_value (trailing_of db (c_id r))"
  "ti_baseline (view db r) = Option.bind (trailing_of db (c_id r)) tr_baseline"
  "ti_dynamic_trigger_price (view db r) = Option.bind (trailing_of db (c_id r)) tr_dynamic_trigger_price"
  by (simp_all add: view_def to_domain_def Let_def)

lemma stored_price:
  assumes "core_inv db" and "r \<in> set (db_core db)" and "price_strategy (c_strategy r)"
  shows "\<exists>p. price_of db (c_id r) = Some p \<and> numeric_ok (pp_target_price_effective p)"
proof -
  from assms(2,3) core_invD(6) [OF assms(1,2)] obtain p where p: "p \<in> set (db_price db)"
    "pp_trade_intent_id p = c_id r" by (auto simp: core_row_ok_def image_iff)
  have "price_of db (c_id r) = Some p"
    unfolding price_of_def p(2) [symmetric] by (rule find_row_key [OF core_invD(4) [OF assms(1)] p(1)])
  moreover have "price_ok p" using assms(1) p(1) by (simp add: core_inv_def)
  ultimately show ?thesis by (auto simp: price_ok_def numeric_ok_stored)
qed

lemma trailing_checks_None:
  assumes "trailing_checks t = None"
  shows "tr_trail_mode t \<in> {percentage, fixed_amount}" "0 < dval (tr_trail_value t)"
    "tr_trail_mode t = percentage \<Longrightarrow> dval (tr_trail_value t) \<le> 10"
    "positive_price (tr_baseline t)" "positive_price (tr_dynamic_trigger_price t)"
proof -
  have ten: "dval (Dec False 10 0) = 10" by (simp add: dval_def dint_def)
  have mode: "tr_trail_mode t \<in> {percentage, fixed_amount}"
    using assms by (cases "tr_trail_mode t") (auto simp: trailing_checks_def)
  then have m: "(case tr_trail_mode t of other_mode _ \<Rightarrow> False | _ \<Rightarrow> True)" by auto
  show "tr_trail_mode t \<in> {percentage, fixed_amount}" by (rule mode)
  show "0 < dval (tr_trail_value t)" "tr_trail_mode t = percentage \<Longrightarrow> dval (tr_trail_value t) \<le> 10"
    "positive_price (tr_baseline t)" "positive_price (tr_dynamic_trigger_price t)"
    using assms m unfolding trailing_checks_def
    by (auto simp only: dec_cmp_iff ten nonpositive_iff dval_dec_zero not_True_eq_False if_False split: if_split_asm)
qed

lemma stored_trailing:
  assumes "core_inv db" and "r \<in> set (db_core db)" and "c_strategy r = trailing_stop_alert"
  shows "\<exists>t. trailing_of db (c_id r) = Some t \<and> t \<in> set (db_trailing db) \<and> trailing_ok t \<and>
    tr_trail_mode t \<in> {percentage, fixed_amount} \<and> trail_params_ok (tr_trail_mode t) (tr_trail_value t)"
proof -
  from assms(2,3) core_invD(6) [OF assms(1,2)] obtain t where t: "t \<in> set (db_trailing db)"
    "tr_trade_intent_id t = c_id r" by (auto simp: core_row_ok_def image_iff)
  have ok: "trailing_ok t" using assms(1) t(1) by (simp add: core_inv_def)
  let ?v = "tr_trail_value t"
  have "trailing_checks t = None" using ok by (simp add: trailing_ok_def)
  note chk = trailing_checks_None(1-3) [OF this]
  have "fits 4 (10 ^ 5) ?v"
  proof -
    have e: "dexp ?v = - 4" and c: "dcoeff ?v < 10 ^ 9" using ok by (simp_all add: trailing_ok_def is_numeric94_def)
    have "\<not> dneg ?v" using chk(2) by (simp add: dval_pos_iff dint_pos_iff)
    then have "?v = Dec False (dcoeff ?v) (- int 4)" using e by (cases ?v) simp
    then have "dval ?v = of_nat (dcoeff ?v) / 10 ^ 4"
      using dval_Dec_neg_exp [of False "dcoeff ?v" 4] by (simp add: dint_def)
    moreover have "(of_nat (dcoeff ?v) :: rat) \<le> 10 ^ 9"
    proof -
      have "(of_nat (dcoeff ?v) :: rat) \<le> of_nat (10 ^ 9)" using c unfolding of_nat_le_iff by linarith
      then show ?thesis by simp
    qed
    ultimately show ?thesis using e chk(2) by (simp add: fits_def)
  qed
  then have "trail_params_ok (tr_trail_mode t) ?v"
    using chk by (auto simp: trail_params_ok_def split: trail_mode.splits)
  moreover have "trailing_of db (c_id r) = Some t"
    unfolding trailing_of_def t(2) [symmetric] by (rule find_row_key [OF core_invD(5) [OF assms(1)] t(1)])
  ultimately show ?thesis using t(1) ok chk(1) by blast
qed


lemma evaluate_stored:
  assumes "core_inv db" and "trail_pairs db" and r: "r \<in> set (db_core db)" and "quote_sized q"
  shows "\<exists>res. evaluate q (view db r) now = Inr res \<and>
    (er_baseline_updated_at res \<noteq> None \<longrightarrow> c_strategy r = trailing_stop_alert \<and>
       (\<exists>x y. er_baseline res = Some x \<and> er_dynamic_trigger_price res = Some y \<and> numeric_ok x \<and> numeric_ok y)) \<and>
    (er_baseline_updated_at res = None \<longrightarrow> er_should_trigger res \<longrightarrow> c_strategy r = trailing_stop_alert \<longrightarrow>
       (\<exists>x y. ti_baseline (view db r) = Some x \<and> ti_dynamic_trigger_price (view db r) = Some y \<and>
          numeric_ok x \<and> numeric_ok y))"
proof (cases "c_strategy r = trailing_stop_alert \<and> quote_usable q now")
  case False
  then have "\<exists>res. evaluate q (view db r) now = Inr res \<and> (c_strategy r = trailing_stop_alert \<longrightarrow> \<not> er_should_trigger res)"
    using evaluate_price_strategies [of "view db r" q now] evaluate_not_usable [of q now "view db r"]
    by (cases "c_strategy r = trailing_stop_alert") auto
  then show ?thesis using evaluate_baseline_moved [of q "view db r" now] False by auto
next
  case True
  then have use: "quote_usable q now" and wf: "well_formed_quote q" by (auto simp: quote_usable_def)
  from stored_trailing [OF assms(1) r] True obtain t where t: "trailing_of db (c_id r) = Some t"
    "t \<in> set (db_trailing db)" "trailing_ok t" "trail_params_ok (tr_trail_mode t) (tr_trail_value t)" by blast
  have tv: "ti_trail_mode (view db r) = Some (tr_trail_mode t)" "ti_trail_value (view db r) = Some (tr_trail_value t)"
    using t(1) by simp_all
  from trailing_ratchet_total [OF assms(4) wf tv t(4), of now] obtain b d u where
    rt: "trailing_ratchet q (view db r) now = Inr (b, d, u)"
    and bd: "u = None \<and> b = ti_baseline (view db r) \<and> d = ti_dynamic_trigger_price (view db r) \<or>
     (\<exists>x y. u = Some now \<and> b = Some x \<and> d = Some y \<and> numeric_ok x \<and> numeric_ok y)" by blast
  from evaluate_trailing_result [OF tv rt] obtain res where
    res: "evaluate_trailing_stop q (view db r) now = Inr res" "er_baseline res = b"
      "er_dynamic_trigger_price res = d" "er_baseline_updated_at res = u"
      "er_should_trigger res \<longrightarrow> (\<exists>x. d = Some x)" by blast
  have ev: "evaluate q (view db r) now = Inr res"
    using res(1) True by (simp add: evaluate_usable [OF use] evaluate_strategy_def)
  have "trailing_checks t = None" using t(3) by (simp add: trailing_ok_def)
  note chk = trailing_checks_None(4,5) [OF this]
  have num: "numeric_ok x" "numeric_ok y" if "tr_baseline t = Some x" "tr_dynamic_trigger_price t = Some y" for x y
    using that t(3) chk by (auto simp: trailing_ok_def positive_price_def intro: numeric_ok_stored)
  have "\<exists>x y. tr_baseline t = Some x \<and> tr_dynamic_trigger_price t = Some y \<and> numeric_ok x \<and> numeric_ok y"
    if "tr_dynamic_trigger_price t \<noteq> None"
    using that assms(2) t(2) num by (auto simp: trail_pairs_def)
  then show ?thesis using ev bd res(2-5) True t(1) by fastforce
qed

lemma numeric_opt_ok:
  "pred_option numeric_ok v \<Longrightarrow> \<exists>x. numeric94_opt v = Inr x \<and> \<not> nonpositive x"
  by (cases v) (auto simp: numeric94_opt_def numeric_ok_def nonpositive_def dec_cmp_iff)

lemma update_baseline_total:
  assumes "core_inv db" and "r \<in> set (db_core db)" and "c_strategy r = trailing_stop_alert"
    and "numeric_ok x" and "numeric_ok y"
  shows "\<exists>db'. system_update_trailing_baseline t (c_id r) (Some x) (Some y) u db = Inr db'"
proof -
  obtain b d where bd: "numeric94_opt (Some x) = Inr b" "numeric94_opt (Some y) = Inr d"
    "\<not> nonpositive b" "\<not> nonpositive d"
    using numeric_opt_ok [of "Some x"] numeric_opt_ok [of "Some y"] assms(4,5) by auto
  from stored_trailing [OF assms(1-3)] obtain s where s: "trailing_of db (c_id r) = Some s" by blast
  then have mem: "s \<in> set (db_trailing db)" "tr_trade_intent_id s = c_id r"
    unfolding trailing_of_def by (auto dest: find_row_SomeD)
  have "trailing_checks (set_baseline b d u z) = None" if "z \<in> set (db_trailing db)" for z
  proof -
    have "trailing_checks z = None" using assms(1) that by (simp add: core_inv_def trailing_ok_def)
    then show ?thesis using bd(3,4) by (auto simp: trailing_checks_def set_baseline_def split: if_split_asm)
  qed
  then have "List.map_filter trailing_checks
      (map (set_baseline b d u) (filter (\<lambda>z. tr_trade_intent_id z = c_id r) (db_trailing db))) = []"
    by (auto simp: List.map_filter_def filter_empty_conv)
  moreover have "count_where (\<lambda>z. tr_trade_intent_id z = c_id r) (db_trailing db) \<noteq> 0"
    using mem by (auto simp: count_where_0_iff)
  ultimately show ?thesis using bd(1,2) by (simp add: system_update_trailing_baseline_def Let_def)
qed

lemma persist_total:
  assumes inv: "core_inv db" and r: "r \<in> set (db_core db)" "c_status r = active"
    and i: "ti_id intent = c_id r" "ti_owner_user_id intent = c_owner_user_id r" "ti_symbol intent = c_symbol r"
      "ti_quantity_lots intent = c_quantity_lots r"
    and content: "trigger_content intent inp = Inr (nt, target, b, d, title, body)"
    and num: "numeric_ok target" "numeric_ok (tci_trigger_price inp)" "pred_option numeric_ok b" "pred_option numeric_ok d"
    and fb: "tci_fallback_used inp = (tci_trigger_reference_price_type inp = ref_last_fallback)"
    and fresh: "gi \<notin> tg_id ` set (db_triggers db)" "ni \<notin> n_id ` set (db_notifications db)"
  shows "\<exists>g n db'. persist_core_trigger t gi ni intent inp db = Inr (g, n, db') \<and> tg_id g = gi \<and> n_id n = ni"
proof -
  obtain te tp where n1: "numeric94 target = Inr te" "0 < dval te"
    "numeric94 (tci_trigger_price inp) = Inr tp" "0 < dval tp" using num(1,2) by (auto simp: numeric_ok_def)
  obtain b' d' where n2: "numeric94_opt b = Inr b'" "\<not> nonpositive b'" "numeric94_opt d = Inr d'" "\<not> nonpositive d'"
    using numeric_opt_ok [OF num(3)] numeric_opt_ok [OF num(4)] by blast
  have ok: "core_row_ok db r" using core_invD(6) [OF inv r(1)] .
  then have q: "0 < c_quantity_lots r" by (auto simp: core_row_ok_def core_checks_def split: if_splits)
  have "c_id r \<notin> triggered_ids (db_core db)"
    using distinct_key_eq [OF core_invD(2) [OF inv] _ r(1)] r(2) by (auto simp: triggered_ids_def)
  then have nt: "c_id r \<notin> tg_trade_intent_id ` set (db_triggers db)" using inv by (simp add: core_inv_def)
  have ids: "c_id ` set (upd_where p (set_triggered t k) rows) = c_id ` set rows" for p k rows
    by (metis list.set_map map_upd_where_frame set_triggered_simps(4))
  have cnt: "count_where (\<lambda>x. c_id x = c_id r \<and> c_status x = active) (db_core db) \<noteq> 0"
    using r by (auto simp: count_where_0_iff)
  show ?thesis
    unfolding persist_core_trigger_def content r_bind_simps prod.case Let_def i
    using n1 n2 ok q nt cnt fresh imageI [OF r(1), of c_id] fb
    by (simp add: Let_def insert_trigger_def trigger_checks_def dec_cmp_iff insert_notification_def core_row_ok_def catch_def
        ids)
qed


lemma trigger_content_total:
  assumes "core_inv db" and r: "r \<in> set (db_core db)"
    and same: "ti_strategy intent = c_strategy r"
      "ti_target_price_effective intent = ti_target_price_effective (view db r)"
      "ti_trail_mode intent = ti_trail_mode (view db r)" "ti_trail_value intent = ti_trail_value (view db r)"
    and trail: "c_strategy r = trailing_stop_alert \<Longrightarrow> \<exists>x y. ti_baseline intent = Some x \<and>
      ti_dynamic_trigger_price intent = Some y \<and> numeric_ok x \<and> numeric_ok y"
    and price: "numeric_ok (tci_trigger_price inp)"
  shows "\<exists>nt target b d title body. trigger_content intent inp = Inr (nt, target, b, d, title, body) \<and>
    numeric_ok target \<and> pred_option numeric_ok b \<and> pred_option numeric_ok d"
proof -
  have ok: "known_strategy (c_strategy r)" "c_strategy r \<noteq> twap_order"
    using core_invD(6) [OF assms(1) r] by (auto simp: core_row_ok_def core_checks_def split: if_splits)
  consider "c_strategy r \<in> MARKET_ORDER_STRATEGIES" | "c_strategy r \<in> {limit_buy_order, limit_sell_order}"
    | "c_strategy r = trailing_stop_alert" | "c_strategy r \<in> {buy_price_alert, sell_price_alert}"
    using ok by (cases "c_strategy r") (auto simp: strategy_sets known_strategy_def)
  then show ?thesis
  proof cases
    case 1
    then obtain m where "render_market_order_triggered (ti_symbol intent) (c_strategy r) (tci_trigger_price inp)
        (ti_quantity_lots intent) (ti_quantity_lots intent) (tci_quote_time inp) = Inr m"
      using render_market_ok_iff by blast
    with 1 price same show ?thesis by (cases m) (auto simp: trigger_content_def)
  next
    case 2
    then obtain p where p: "price_of db (c_id r) = Some p" "numeric_ok (pp_target_price_effective p)"
      using stored_price [OF assms(1) r] by (auto simp: price_strategy_def)
    obtain m where "render_limit_order_triggered (ti_symbol intent) (c_strategy r) (pp_target_price_effective p)
        (tci_trigger_price inp) (ti_quantity_lots intent) (ti_quantity_lots intent) (tci_quote_time inp) = Inr m"
      using 2 render_limit_ok_iff by blast
    with 2 p same show ?thesis by (cases m) (auto simp: trigger_content_def strategy_sets)
  next
    case 3
    from stored_trailing [OF assms(1) r 3] obtain t where t: "trailing_of db (c_id r) = Some t"
      "tr_trail_mode t \<in> {percentage, fixed_amount}" by blast
    from trail [OF 3] obtain x y where xy: "ti_baseline intent = Some x" "ti_dynamic_trigger_price intent = Some y"
      "numeric_ok x" "numeric_ok y" by blast
    obtain m where "render_trailing_stop_triggered (ti_symbol intent) (tr_trail_mode t) (tr_trail_value t) x y
        (tci_trigger_price inp) (tci_trigger_reference_price_type inp) (tci_quote_time inp) = Inr m"
      using t(2) render_trailing_ok_iff by blast
    with 3 t(1) xy same show ?thesis by (cases m) (auto simp: trigger_content_def strategy_sets)
  next
    case 4
    then obtain p where p: "price_of db (c_id r) = Some p" "numeric_ok (pp_target_price_effective p)"
      using stored_price [OF assms(1) r] by (auto simp: price_strategy_def)
    obtain m where "render_price_triggered (ti_symbol intent) (c_strategy r) (pp_target_price_effective p)
        (tci_trigger_price inp) (tci_quote_time inp) = Inr m"
      using 4 render_price_ok_iff by blast
    with 4 p same show ?thesis by (cases m) (auto simp: trigger_content_def strategy_sets)
  qed
qed

subsection \<open>One intent\<close>

definition statuses :: "core_db \<Rightarrow> (uuid \<times> intent_status) list" where
  "statuses db = map (\<lambda>r. (c_id r, c_status r)) (db_core db)"

definition mark :: "uuid \<Rightarrow> bool \<Rightarrow> uuid \<times> intent_status \<Rightarrow> uuid \<times> intent_status" where
  "mark i f x = (if fst x = i \<and> f then (fst x, triggered) else x)"

text \<open>An operation on one intent leaves every other row, and its view, alone.\<close>

definition others_kept :: "uuid \<Rightarrow> core_db \<Rightarrow> core_db \<Rightarrow> bool" where
  "others_kept i db db' \<longleftrightarrow> (\<forall>x \<in> set (db_core db). c_id x \<noteq> i \<longrightarrow> x \<in> set (db_core db') \<and> view db' x = view db x)"

lemma view_cong:
  "price_of db' i = price_of db i \<Longrightarrow> trailing_of db' i = trailing_of db i \<Longrightarrow> twap_of db' i = twap_of db i \<Longrightarrow>
   db_symbols db' = db_symbols db \<Longrightarrow> c_id x = i \<Longrightarrow> view db' x = view db x"
  by (simp add: view_def to_domain_def sec_type_def instrument_def find_by_symbol_def Let_def)

lemma update_baseline_effect:
  assumes "core_inv db" and "system_update_trailing_baseline t i (Some x) (Some y) u db = Inr db'"
  shows "statuses db' = statuses db" "others_kept i db db'" "trail_pairs db \<Longrightarrow> trail_pairs db'"
    "r \<in> set (db_core db) \<Longrightarrow> c_id r = i \<Longrightarrow> r\<lparr>c_updated_at := t\<rparr> \<in> set (db_core db')"
    "db_price db' = db_price db"
proof -
  from update_baseline_Inr [OF assms(2)] obtain b d where
    bd: "numeric94_opt (Some x) = Inr b" "numeric94_opt (Some y) = Inr d" and
    db': "db' = db\<lparr>db_trailing := upd_where (\<lambda>r. tr_trade_intent_id r = i) (set_baseline b d u) (db_trailing db),
       db_core := upd_where (\<lambda>r. c_id r = i) (\<lambda>r. r\<lparr>c_updated_at := t\<rparr>) (db_core db)\<rparr>" by metis
  show "statuses db' = statuses db" by (simp add: db' statuses_def map_upd_where_frame)
  have "trailing_of db' j = trailing_of db j" if "j \<noteq> i" for j
  proof -
    have "trailing_of db' j = map_option (\<lambda>r. if tr_trade_intent_id r = i then set_baseline b d u r else r) (trailing_of db j)"
      unfolding trailing_of_def db' by (simp add: find_row_upd_where set_baseline_def)
    also have "\<dots> = trailing_of db j"
      using that unfolding trailing_of_def by (cases "find_row (\<lambda>r. tr_trade_intent_id r = j) (db_trailing db)")
        (auto dest: find_row_SomeD)
    finally show ?thesis .
  qed
  then have "view db' z = view db z" if "c_id z \<noteq> i" for z
    using that by (intro view_cong [of db' "c_id z" db]) (simp_all add: price_of_def twap_of_def db')
  then show "others_kept i db db'" by (auto simp: others_kept_def db' upd_where_mem_iff)
  have "b \<noteq> None" "d \<noteq> None" using bd by (auto simp: numeric94_opt_def r_bind_Inr_iff)
  then show "trail_pairs db'" if "trail_pairs db"
    using that by (auto simp: trail_pairs_def db' upd_where_mem_iff set_baseline_def)
  show "r\<lparr>c_updated_at := t\<rparr> \<in> set (db_core db')" if "r \<in> set (db_core db)" "c_id r = i"
    using that by (auto simp: db' upd_where_mem_iff)
  show "db_price db' = db_price db" by (simp add: db')
qed

lemma persist_effect:
  assumes "core_inv db" and "persist_core_trigger t gi ni intent inp db = Inr (g, n, db')"
  shows "statuses db' = map (mark (ti_id intent) True) (statuses db)" "others_kept (ti_id intent) db db'"
    "trail_pairs db' = trail_pairs db"
proof -
  note P = persist_Inr [OF assms(2)]
  obtain r where r: "r \<in> set (db_core db)" "c_id r = ti_id intent" "c_status r = active" using P(5) by blast
  have act: "c_status z = active" if "z \<in> set (db_core db)" "c_id z = ti_id intent" for z
    using distinct_key_eq [OF core_invD(2) [OF assms(1)] that(1) r(1)] that r by auto
  show "statuses db' = map (mark (ti_id intent) True) (statuses db)"
    using act by (auto simp: P(1) statuses_def mark_def upd_where_def)
  have "view db' z = view db z" for z
    by (rule view_cong [of _ "c_id z"]) (simp_all add: P(1) price_of_def trailing_of_def twap_of_def)
  then show "others_kept (ti_id intent) db db'" by (auto simp: others_kept_def P(1) upd_where_mem_iff)
  show "trail_pairs db' = trail_pairs db" by (simp add: trail_pairs_def P(1))
qed

lemma others_kept_trans:
  "others_kept i a b \<Longrightarrow> others_kept i b c \<Longrightarrow> others_kept i a c"
  unfolding others_kept_def by metis

end
