(* ===== verification/Dispatch_Complete.thy ===== *)
theory Dispatch_Complete
  imports Dispatcher
begin

text \<open>
  The outcome of a dispatch, intent by intent: which intents a quote triggers, and that each triggered
  intent gets exactly one trigger row and one notification, which is sent.
\<close>

section \<open>One intent\<close>

definition new_id_pair :: "(uuid \<Rightarrow> uuid \<times> uuid) \<Rightarrow> uuid \<Rightarrow> core_db \<Rightarrow> bool" where
  "new_id_pair ids i db \<longleftrightarrow>
     fst (ids i) \<notin> tg_id ` set (db_triggers db) \<and> snd (ids i) \<notin> n_id ` set (db_notifications db)"

text \<open>The rows a dispatch adds for the intents \<open>is\<close>, in that order.\<close>

definition adds_for :: "(uuid \<Rightarrow> uuid \<times> uuid) \<Rightarrow> uuid list \<Rightarrow> core_db \<Rightarrow> core_db \<Rightarrow> notification_row list \<Rightarrow> bool" where
  "adds_for ids is db db' ns \<longleftrightarrow>
     (\<exists>gs. db_triggers db' = db_triggers db @ gs \<and> db_notifications db' = db_notifications db @ ns \<and>
        map (\<lambda>g. (tg_id g, tg_trade_intent_id g)) gs = map (\<lambda>i. (fst (ids i), i)) is \<and>
        map (\<lambda>n. (n_id n, n_trade_intent_core_id n)) ns = map (\<lambda>i. (snd (ids i), Some i)) is)"

lemma adds_for_Nil [simp]: "adds_for ids [] db db []"
  by (simp add: adds_for_def)

lemma adds_for_trans:
  assumes "adds_for ids is a b xs" and "adds_for ids js b c ys"
  shows "adds_for ids (is @ js) a c (xs @ ys)"
proof -
  from assms obtain gs hs where
    "db_triggers b = db_triggers a @ gs" "db_notifications b = db_notifications a @ xs"
    "map (\<lambda>g. (tg_id g, tg_trade_intent_id g)) gs = map (\<lambda>i. (fst (ids i), i)) is"
    "map (\<lambda>n. (n_id n, n_trade_intent_core_id n)) xs = map (\<lambda>i. (snd (ids i), Some i)) is"
    "db_triggers c = db_triggers b @ hs" "db_notifications c = db_notifications b @ ys"
    "map (\<lambda>g. (tg_id g, tg_trade_intent_id g)) hs = map (\<lambda>i. (fst (ids i), i)) js"
    "map (\<lambda>n. (n_id n, n_trade_intent_core_id n)) ys = map (\<lambda>i. (snd (ids i), Some i)) js"
    by (auto simp: adds_for_def)
  then show ?thesis unfolding adds_for_def by (intro exI [of _ "gs @ hs"]) simp
qed

lemma adds_for_new_ids:
  assumes "adds_for ids is db db' ns" and "inj (fst \<circ> ids)" and "inj (snd \<circ> ids)"
    and "new_id_pair ids j db" and "j \<notin> set is"
  shows "new_id_pair ids j db'"
proof -
  from assms(1) obtain gs where
    g: "db_triggers db' = db_triggers db @ gs" "db_notifications db' = db_notifications db @ ns"
      "map (\<lambda>g. (tg_id g, tg_trade_intent_id g)) gs = map (\<lambda>i. (fst (ids i), i)) is"
      "map (\<lambda>n. (n_id n, n_trade_intent_core_id n)) ns = map (\<lambda>i. (snd (ids i), Some i)) is"
    by (auto simp: adds_for_def)
  have "map tg_id gs = map (fst \<circ> ids) is" "map n_id ns = map (snd \<circ> ids) is"
    using arg_cong [OF g(3), of "map fst"] arg_cong [OF g(4), of "map fst"] by (simp_all add: comp_def)
  then have "tg_id ` set gs = (fst \<circ> ids) ` set is" "n_id ` set ns = (snd \<circ> ids) ` set is"
    by (metis list.set_map)+
  moreover have "fst (ids j) \<notin> (fst \<circ> ids) ` set is" "snd (ids j) \<notin> (snd \<circ> ids) ` set is"
    using assms(2,3,5) inj_image_mem_iff [OF assms(2), of j "set is"] inj_image_mem_iff [OF assms(3), of j "set is"]
    by simp_all
  ultimately show ?thesis using assms(4) g(1,2) by (simp add: new_id_pair_def image_Un)
qed

text \<open>The first half of the loop body: the baseline of a trailing stop is moved before anything else.\<close>

lemma baseline_step_total:
  assumes inv: "core_inv db" "trail_pairs db" and r: "r \<in> set (db_core db)" "c_status r = active"
    and res: "er_baseline_updated_at res \<noteq> None \<longrightarrow> c_strategy r = trailing_stop_alert \<and>
      (\<exists>x y. er_baseline res = Some x \<and> er_dynamic_trigger_price res = Some y \<and> numeric_ok x \<and> numeric_ok y)"
  shows "\<exists>i1 db1 p1 r1.
    (if er_baseline_updated_at res \<noteq> None
     then r_bind (apply_trailing_baseline_update t (view db r) res db) (\<lambda>(i, d). Inr (i, d, True))
     else Inr (view db r, db, False)) = Inr (i1, db1, p1) \<and>
    i1 = (if er_baseline_updated_at res = None then view db r
          else (view db r)\<lparr>ti_baseline := er_baseline res, ti_dynamic_trigger_price := er_dynamic_trigger_price res,
                 ti_baseline_updated_at := er_baseline_updated_at res\<rparr>) \<and>
    core_inv db1 \<and> trail_pairs db1 \<and> statuses db1 = statuses db \<and> others_kept (c_id r) db db1 \<and>
    db_triggers db1 = db_triggers db \<and> db_notifications db1 = db_notifications db \<and> (\<not> p1 \<longrightarrow> db1 = db) \<and>
    r1 \<in> set (db_core db1) \<and> order_of r1 = order_of r \<and> c_status r1 = active"
proof (cases "er_baseline_updated_at res")
  case None
  with inv r show ?thesis
    by (intro exI [of _ "view db r"] exI [of _ db] exI [of _ False] exI [of _ r]) (simp add: others_kept_def)
next
  case (Some u)
  with res obtain x y where xy: "c_strategy r = trailing_stop_alert" "er_baseline res = Some x"
    "er_dynamic_trigger_price res = Some y" "numeric_ok x" "numeric_ok y" by blast
  from update_baseline_total [OF inv(1) r(1) xy(1,4,5)] obtain db1 where
    up: "system_update_trailing_baseline t (c_id r) (Some x) (Some y) (Some u) db = Inr db1" by blast
  note E = update_baseline_effect [OF inv(1) up]
  let ?i = "(view db r)\<lparr>ti_baseline := Some x, ti_dynamic_trigger_price := Some y, ti_baseline_updated_at := Some u\<rparr>"
  show ?thesis
    using Some xy up E(1,2) E(3) [OF inv(2)] E(4) [OF r(1) refl] update_baseline_preserves [OF inv(1) up]
      update_baseline_frame [OF up] r(2)
    by (intro exI [of _ ?i] exI [of _ db1] exI [of _ True] exI [of _ "r\<lparr>c_updated_at := t\<rparr>"])
      (simp add: apply_trailing_baseline_update_def)
qed

lemma mark_False [simp]: "mark i False x = x" "map (mark i False) xs = xs"
  by (simp_all add: mark_def map_idI)

lemma dispatch_one_total:
  assumes inv: "core_inv db" "trail_pairs db" and r: "r \<in> set (db_core db)" "c_status r = active"
    and q: "quote_sized q" and fresh: "new_id_pair ids (c_id r) db"
  shows "\<exists>db' p ns. dispatch_one t ids q now (view db r) db = Inr (db', p, ns) \<and>
    statuses db' = map (mark (c_id r) (fires q now (view db r))) (statuses db) \<and> others_kept (c_id r) db db' \<and>
    core_inv db' \<and> trail_pairs db' \<and> (\<not> p \<longrightarrow> db' = db) \<and>
    adds_for ids (if fires q now (view db r) then [c_id r] else []) db db' ns"
proof -
  from evaluate_stored [OF inv r(1) q, of now] obtain res where ev: "evaluate q (view db r) now = Inr res"
    and moved: "er_baseline_updated_at res \<noteq> None \<longrightarrow> c_strategy r = trailing_stop_alert \<and>
      (\<exists>x y. er_baseline res = Some x \<and> er_dynamic_trigger_price res = Some y \<and> numeric_ok x \<and> numeric_ok y)"
    and kept: "er_baseline_updated_at res = None \<longrightarrow> er_should_trigger res \<longrightarrow> c_strategy r = trailing_stop_alert \<longrightarrow>
      (\<exists>x y. ti_baseline (view db r) = Some x \<and> ti_dynamic_trigger_price (view db r) = Some y \<and>
         numeric_ok x \<and> numeric_ok y)" by (elim exE conjE)
  from baseline_step_total [OF inv r moved, of t] obtain i1 db1 p1 r1 where
    step: "(if er_baseline_updated_at res \<noteq> None
      then r_bind (apply_trailing_baseline_update t (view db r) res db) (\<lambda>(i, d). Inr (i, d, True))
      else Inr (view db r, db, False)) = Inr (i1, db1, p1)"
    and i1: "i1 = (if er_baseline_updated_at res = None then view db r
      else (view db r)\<lparr>ti_baseline := er_baseline res, ti_dynamic_trigger_price := er_dynamic_trigger_price res,
             ti_baseline_updated_at := er_baseline_updated_at res\<rparr>)"
    and d1: "core_inv db1" "trail_pairs db1" "statuses db1 = statuses db" "others_kept (c_id r) db db1"
      "db_triggers db1 = db_triggers db" "db_notifications db1 = db_notifications db" "\<not> p1 \<longrightarrow> db1 = db"
    and r1: "r1 \<in> set (db_core db1)" "order_of r1 = order_of r" "c_status r1 = active" by blast
  have f: "fires q now (view db r) = er_should_trigger res" by (simp add: fires_def ev)
  have add0: "adds_for ids [] db db1 []" using d1(5,6) by (simp add: adds_for_def)
  have ids1: "ti_id i1 = c_id r" by (simp add: i1)
  show ?thesis
  proof (cases "er_should_trigger res")
    case False
    then have "dispatch_one t ids q now (view db r) db = Inr (db1, p1, [])"
      unfolding dispatch_one_def ev r_bind_simps step prod.case by simp
    then show ?thesis using d1 False add0 by (simp add: f)
  next
    case True
    from evaluate_trigger_fields [OF ev True] obtain side p ty where
      p: "quote_usable q now" "side_price side q = Some (p, ty)" "er_trigger_price res = Some p"
        "er_trigger_reference_price_type res = Some ty" "er_fallback_used res = (ty = ref_last_fallback)" by blast
    have pq: "q_bid_price q = Some p \<or> q_ask_price q = Some p \<or> q_last_price q = Some p"
      using p(2) by (cases side) (auto simp: side_price_def split: option.splits)
    have wf: "well_formed_quote q" using p(1) by (simp add: quote_usable_def)
    have num: "numeric_ok p" using quote_price_range [OF q wf pq] by (intro numeric_ok_range)
    let ?inp = "\<lparr>tci_trigger_price = p, tci_trigger_reference_price_type = ty, tci_fallback_used = er_fallback_used res,
      tci_quote_snapshot = quote_snapshot_to_jsonb q, tci_quote_time = q_quote_time q\<rparr>"
    have "\<exists>nt target b d title body. trigger_content i1 ?inp = Inr (nt, target, b, d, title, body) \<and>
      numeric_ok target \<and> pred_option numeric_ok b \<and> pred_option numeric_ok d"
      by (rule trigger_content_total [OF inv(1) r(1)]) (use i1 moved kept True num in \<open>auto split: if_splits\<close>)
    then obtain nt target b d title body where
      content: "trigger_content i1 ?inp = Inr (nt, target, b, d, title, body)"
        "numeric_ok target" "pred_option numeric_ok b" "pred_option numeric_ok d" by blast
    have new: "fst (ids (c_id r)) \<notin> tg_id ` set (db_triggers db1)" "snd (ids (c_id r)) \<notin> n_id ` set (db_notifications db1)"
      using fresh d1(5,6) by (simp_all add: new_id_pair_def)
    have "\<exists>g n db'. persist_core_trigger t (fst (ids (c_id r))) (snd (ids (c_id r))) i1 ?inp db1 = Inr (g, n, db') \<and>
      tg_id g = fst (ids (c_id r)) \<and> n_id n = snd (ids (c_id r))"
      by (rule persist_total [OF d1(1) r1(1,3) _ _ _ _ content(1,2) _ content(3,4) _ new])
        (use order_of_eqD [OF r1(2)] p(5) num i1 in simp_all)
    then obtain g n db' where
      per: "persist_core_trigger t (fst (ids (c_id r))) (snd (ids (c_id r))) i1 ?inp db1 = Inr (g, n, db')"
        "tg_id g = fst (ids (c_id r))" "n_id n = snd (ids (c_id r))" by blast
    have "dispatch_one t ids q now (view db r) db = Inr (db', True, [n])"
      unfolding dispatch_one_def ev r_bind_simps step prod.case using True p(3,4) per(1) by (simp add: ids1)
    moreover note P = persist_Inr [OF per(1)] and E = persist_effect [OF d1(1) per(1)]
    have "adds_for ids [c_id r] db db' [n]"
      unfolding adds_for_def by (rule exI [of _ "[g]"]) (simp add: P(1) P(2,7) d1(5,6) per(2,3) ids1)
    moreover have "core_inv db'" using persist_preserves [OF d1(1) per(1)] .
    ultimately show ?thesis
      using E d1(2,3) others_kept_trans [OF d1(4)] True
      by (intro exI [of _ db'] exI [of _ True] exI [of _ "[n]"]) (simp add: f ids1)
  qed
qed

section \<open>All intents of a symbol\<close>

definition marks :: "(uuid \<Rightarrow> bool) \<Rightarrow> uuid \<times> intent_status \<Rightarrow> uuid \<times> intent_status" where
  "marks f x = (if f (fst x) then (fst x, triggered) else x)"

lemma marks_mark: "marks f (mark i b x) = marks (\<lambda>j. f j \<or> (j = i \<and> b)) x"
  by (auto simp: marks_def mark_def)

lemma marks_cong: "(\<And>i. f i = g i) \<Longrightarrow> map (marks f) xs = map (marks g) xs"
  by (simp add: marks_def)

lemma dispatch_loop_total:
  assumes "core_inv db" and "trail_pairs db" and "set rs \<subseteq> set (db_core db)" and "list_all (\<lambda>r. c_status r = active) rs"
    and "distinct (map c_id rs)" and "quote_sized q" and "inj (fst \<circ> ids)" and "inj (snd \<circ> ids)"
    and "list_all (\<lambda>r. new_id_pair ids (c_id r) db) rs"
  shows "\<exists>db' p' ns. dispatch_loop t ids q now (map (view db) rs) db p sent = (Inr (db', p'), sent @ ns) \<and>
    statuses db' = map (marks (\<lambda>i. \<exists>r \<in> set rs. c_id r = i \<and> fires q now (view db r))) (statuses db) \<and>
    core_inv db' \<and> (\<not> p' \<longrightarrow> \<not> p \<and> db' = db) \<and>
    adds_for ids (map c_id (filter (\<lambda>r. fires q now (view db r)) rs)) db db' ns"
  using assms(1-5,9)
proof (induction rs arbitrary: db p sent)
  case Nil
  then show ?case by (simp add: marks_def map_idI)
next
  case (Cons r rs)
  let ?f = "fires q now (view db r)"
  from Cons.prems have r: "r \<in> set (db_core db)" "c_status r = active" "new_id_pair ids (c_id r) db" by auto
  from dispatch_one_total [OF Cons.prems(1,2) r(1,2) assms(6) r(3), of t now] obtain d1 p1 n1 where
    one: "dispatch_one t ids q now (view db r) db = Inr (d1, p1, n1)"
    and d1: "statuses d1 = map (mark (c_id r) ?f) (statuses db)" "others_kept (c_id r) db d1" "core_inv d1"
      "trail_pairs d1" "\<not> p1 \<longrightarrow> d1 = db" "adds_for ids (if ?f then [c_id r] else []) db d1 n1" by blast
  have other: "x \<in> set (db_core d1) \<and> view d1 x = view db x" if "x \<in> set rs" for x
  proof -
    have "c_id x \<noteq> c_id r" "x \<in> set (db_core db)" using that Cons.prems(3,5) by (auto simp: image_iff)
    then show ?thesis using d1(2) by (simp add: others_kept_def)
  qed
  have new: "new_id_pair ids (c_id x) d1" if "x \<in> set rs" for x
    using adds_for_new_ids [OF d1(6) assms(7,8), of "c_id x"] Cons.prems(5,6) that
    by (auto simp: list_all_iff image_iff split: if_splits)
  have vs: "map (view d1) rs = map (view db) rs"
    and fs: "filter (\<lambda>r. fires q now (view d1 r)) rs = filter (\<lambda>r. fires q now (view db r)) rs"
    using other by (auto intro: filter_cong)
  from Cons.IH [OF d1(3,4), of "p \<or> p1" "sent @ n1"] other new Cons.prems(4,5) obtain d2 p2 n2 where
    rest: "dispatch_loop t ids q now (map (view db) rs) d1 (p \<or> p1) (sent @ n1) = (Inr (d2, p2), (sent @ n1) @ n2)"
    and d2: "statuses d2 = map (marks (\<lambda>i. \<exists>r \<in> set rs. c_id r = i \<and> fires q now (view d1 r))) (statuses d1)"
      "core_inv d2" "\<not> p2 \<longrightarrow> \<not> (p \<or> p1) \<and> d2 = d1"
      "adds_for ids (map c_id (filter (\<lambda>r. fires q now (view db r)) rs)) d1 d2 n2"
    unfolding vs fs by (auto simp: list_all_iff)
  have "statuses d2 = map (marks (\<lambda>i. \<exists>x \<in> set (r # rs). c_id x = i \<and> fires q now (view db x))) (statuses db)"
    unfolding d2(1) d1(1) map_map comp_def marks_mark using other by (intro marks_cong) auto
  moreover have "adds_for ids (map c_id (filter (\<lambda>r. fires q now (view db r)) (r # rs))) db d2 (n1 @ n2)"
    using adds_for_trans [OF d1(6) d2(4)] by (cases ?f) simp_all
  ultimately show ?case using one rest d1(5) d2(2,3) by auto
qed

section \<open>The whole dispatch\<close>

definition triggered_by :: "quote_snapshot \<Rightarrow> datetime \<Rightarrow> core_db \<Rightarrow> core_row \<Rightarrow> bool" where
  "triggered_by q now db r \<longleftrightarrow> c_status r = active \<and> c_symbol r = q_symbol q \<and> fires q now (view db r)"

definition after_lifecycle :: "datetime \<Rightarrow> core_db \<Rightarrow> core_db" where
  "after_lifecycle now db = ss_working (snd (core_lifecycle now (ss_open db)))"

text \<open>Identifiers drawn for one dispatch: pairwise different and not in the tables.\<close>

definition fresh_ids :: "(uuid \<Rightarrow> uuid \<times> uuid) \<Rightarrow> core_db \<Rightarrow> bool" where
  "fresh_ids ids db \<longleftrightarrow> inj (fst \<circ> ids) \<and> inj (snd \<circ> ids) \<and> (\<forall>i. new_id_pair ids i db)"

lemma after_lifecycle_facts:
  assumes "core_inv db"
  shows "core_inv (after_lifecycle now db)" "core_evolves db (after_lifecycle now db)"
    "ss_committed (snd (core_lifecycle now (ss_open db))) = after_lifecycle now db"
    "db_triggers (after_lifecycle now db) = db_triggers db"
    "db_notifications (after_lifecycle now db) = db_notifications db"
    "db_trailing (after_lifecycle now db) = db_trailing db"
  using core_lifecycle_session [of now db] assms by (auto simp: after_lifecycle_def)

lemma dispatch_inner_total:
  assumes "core_inv db" and "trail_pairs db" and "quote_sized q" and "fresh_ids ids db"
  shows "\<exists>db' sent. dispatch_inner False t ids q now db = (Inr (), db', sent) \<and>
    statuses db' = map (\<lambda>r. (c_id r, if triggered_by q now (after_lifecycle now db) r then triggered else c_status r))
      (db_core (after_lifecycle now db)) \<and>
    core_inv db' \<and>
    adds_for ids (map c_id (filter (triggered_by q now (after_lifecycle now db)) (db_core (after_lifecycle now db))))
      db db' sent"
proof -
  let ?d = "after_lifecycle now db"
  let ?rs = "filter (\<lambda>r. c_status r = active \<and> c_symbol r = q_symbol q) (db_core ?d)"
  note L = after_lifecycle_facts [OF assms(1), of now]
  have dist: "distinct (map c_id ?rs)" using core_invD(2) [OF L(1)] by (rule distinct_map_filter)
  have pairs: "trail_pairs ?d" using assms(2) by (simp add: trail_pairs_def L(6))
  have new: "list_all (\<lambda>r. new_id_pair ids (c_id r) ?d) ?rs"
    using assms(4) by (simp add: fresh_ids_def new_id_pair_def L(4,5) list_all_iff)
  have sub: "set ?rs \<subseteq> set (db_core ?d)" and act: "list_all (\<lambda>r. c_status r = active) ?rs" by (auto simp: list_all_iff)
  have inj: "inj (fst \<circ> ids)" "inj (snd \<circ> ids)" using assms(4) by (simp_all add: fresh_ids_def)
  from dispatch_loop_total [OF L(1) pairs sub act dist assms(3) inj new, of t now False "[]"]
  obtain db' p' ns where
    loop: "dispatch_loop t ids q now (map (view ?d) ?rs) ?d False [] = (Inr (db', p'), ns)"
    and S: "statuses db' = map (marks (\<lambda>i. \<exists>r \<in> set ?rs. c_id r = i \<and> fires q now (view ?d r))) (statuses ?d)"
      "core_inv db'" "\<not> p' \<longrightarrow> db' = ?d"
      "adds_for ids (map c_id (filter (\<lambda>r. fires q now (view ?d r)) ?rs)) ?d db' ns"
    by auto
  have key: "(\<exists>x \<in> set ?rs. c_id x = c_id r \<and> fires q now (view ?d x)) \<longleftrightarrow> triggered_by q now ?d r"
    if "r \<in> set (db_core ?d)" for r
    using distinct_key_eq [OF core_invD(2) [OF L(1)] _ that] that by (auto simp: triggered_by_def)
  have st: "statuses db' = map (\<lambda>r. (c_id r, if triggered_by q now ?d r then triggered else c_status r)) (db_core ?d)"
    unfolding S(1) statuses_def [of ?d] map_map by (rule map_cong [OF refl]) (simp only: marks_def comp_def fst_conv key, simp)
  have fil: "filter (\<lambda>r. fires q now (view ?d r)) ?rs = filter (triggered_by q now ?d) (db_core ?d)"
    by (auto simp: triggered_by_def intro!: filter_cong)
  have "adds_for ids (map c_id (filter (triggered_by q now ?d) (db_core ?d))) db db' ns"
    using S(4) unfolding fil adds_for_def L(4,5) .
  moreover have "dispatch_inner False t ids q now db = (Inr (), db', ns)"
  proof (cases "?rs = []")
    case True
    with loop have "db' = ?d" "ns = []" by simp_all
    with True show ?thesis
      unfolding dispatch_inner_def Let_def after_lifecycle_def [symmetric]
      using list_active_eq [OF L(1), of "q_symbol q"] L(3) by simp
  next
    case False
    then show ?thesis
      unfolding dispatch_inner_def Let_def after_lifecycle_def [symmetric]
      using list_active_eq [OF L(1), of "q_symbol q"] L(3) loop S(3) by simp
  qed
  ultimately show ?thesis using st S(2) by blast
qed

text \<open>
  (C4) A dispatch in normal operation raises nothing and does exactly this: after the lifecycle run,
  the active intents on the quote's symbol for which the evaluator decides to trigger become triggered,
  every other intent keeps its status, each triggered intent gets one trigger row and one
  notification, and these notifications, in that order, are what is sent.
\<close>

theorem dispatch_complete:
  assumes "core_inv db" and "trail_pairs db" and "quote_sized q" and "fresh_ids ids db"
  shows "\<exists>db' sent. dispatch_inner False t ids q now db = (Inr (), db', sent) \<and>
    dispatch False t ids q now db = (db', sent) \<and>
    map (\<lambda>r. (c_id r, c_status r)) (db_core db') =
      map (\<lambda>r. (c_id r, if triggered_by q now (after_lifecycle now db) r then triggered else c_status r))
        (db_core (after_lifecycle now db)) \<and>
    db_notifications db' = db_notifications db @ sent \<and>
    map n_trade_intent_core_id sent =
      map (Some \<circ> c_id) (filter (triggered_by q now (after_lifecycle now db)) (db_core (after_lifecycle now db))) \<and>
    map tg_trade_intent_id (db_triggers db') = map tg_trade_intent_id (db_triggers db) @
      map c_id (filter (triggered_by q now (after_lifecycle now db)) (db_core (after_lifecycle now db)))"
proof -
  from dispatch_inner_total [OF assms, of t now] obtain db' sent gs where
    d: "dispatch_inner False t ids q now db = (Inr (), db', sent)"
      "statuses db' = map (\<lambda>r. (c_id r, if triggered_by q now (after_lifecycle now db) r then triggered else c_status r))
        (db_core (after_lifecycle now db))"
      "db_triggers db' = db_triggers db @ gs" "db_notifications db' = db_notifications db @ sent"
    and g: "map (\<lambda>g. (tg_id g, tg_trade_intent_id g)) gs = map (\<lambda>i. (fst (ids i), i))
        (map c_id (filter (triggered_by q now (after_lifecycle now db)) (db_core (after_lifecycle now db))))"
      "map (\<lambda>n. (n_id n, n_trade_intent_core_id n)) sent = map (\<lambda>i. (snd (ids i), Some i))
        (map c_id (filter (triggered_by q now (after_lifecycle now db)) (db_core (after_lifecycle now db))))"
    unfolding adds_for_def by blast
  show ?thesis
    using d arg_cong [OF g(1), of "map snd"] arg_cong [OF g(2), of "map snd"]
    by (intro exI [of _ db'] exI [of _ sent]) (simp add: dispatch_def statuses_def comp_def)
qed

lemma sample_fresh: "fresh_ids (\<lambda>i. (i, i)) sample_db"
  by (simp add: fresh_ids_def new_id_pair_def sample_db_def comp_def)

lemma sample_after_lifecycle: "after_lifecycle sample_now sample_db = sample_db"
proof -
  have "get_expirable_day_intent_cutoff sample_now < 20000"
    by (simp add: get_expirable_day_intent_cutoff_def sample_now_def get_trading_day_phase_def Let_def session_consts
        is_trading_day_def weekday_def)
  then have "system_expire_day_intents_through (get_expirable_day_intent_cutoff sample_now) sample_now sample_db =
      (0, sample_db)"
    by (simp add: system_expire_day_intents_through_def sample_db_def sample_row_def count_where_def)
  moreover have "system_activate_scheduled_day_intents d sample_now sample_db = (0, sample_db)" for d
    by (simp add: system_activate_scheduled_day_intents_def sample_db_def sample_row_def count_where_def)
  ultimately show ?thesis
    by (simp add: after_lifecycle_def core_lifecycle_def lifecycle_run_def core_expire_def core_activate_def ss_open_def)
qed

lemma sample_db_simps: "db_core sample_db = [sample_row]" "db_triggers sample_db = []" "c_id sample_row = 1"
  by (simp_all add: sample_db_def sample_row_def)

lemma sample_triggered: "triggered_by sample_quote sample_now sample_db sample_row"
proof -
  have st: "c_strategy sample_row = buy_price_alert" by (simp add: sample_row_def)
  then have "ti_strategy (view sample_db sample_row) \<noteq> trailing_stop_alert" by simp
  from evaluate_price_strategies [OF this, of sample_quote sample_now] obtain res where
    ev: "evaluate sample_quote (view sample_db sample_row) sample_now = Inr res"
    and iff: "er_should_trigger res \<longleftrightarrow> quote_usable sample_quote sample_now \<and>
       (\<exists>side p t. derive_order_side (ti_strategy (view sample_db sample_row)) = Some side \<and>
          side_price side sample_quote = Some (p, t) \<and> target_met (view sample_db sample_row) p)" by blast
  have "derive_order_side buy_price_alert = Some buy" by (simp add: derive_order_side_def strategy_sets)
  moreover have "target_met (view sample_db sample_row) (Dec False 600 0)"
    by (simp add: target_met_def st price_of_def sample_db_def sample_db_simps dval_Dec_neg_exp [of False 6000000 4, simplified]
        dval_def dint_def)
  ultimately have "er_should_trigger res" using iff sample_usable sample_ask st by auto
  then show ?thesis using ev by (simp add: triggered_by_def fires_def sample_row_def sample_quote_def)
qed

theorem dispatch_complete_witness:
  "core_inv sample_db \<and> trail_pairs sample_db \<and> quote_sized sample_quote \<and> fresh_ids (\<lambda>i. (i, i)) sample_db \<and>
   (\<exists>db' sent. dispatch_inner False 5 (\<lambda>i. (i, i)) sample_quote sample_now sample_db = (Inr (), db', sent) \<and>
      map n_trade_intent_core_id sent = [Some 1] \<and> map tg_trade_intent_id (db_triggers db') = [1])"
proof -
  have hyps: "trail_pairs sample_db" "quote_sized sample_quote"
    by (simp_all add: trail_pairs_def sample_db_def quote_sized_def sample_quote_def fits_def dval_def dint_def)
  from dispatch_complete [OF sample_db_inv hyps sample_fresh, of 5 sample_now] hyps sample_db_inv sample_fresh
  show ?thesis by (auto simp: sample_after_lifecycle sample_db_simps sample_triggered)
qed

end
