(* ===== verification/Core_Commands.thy ===== *)
theory Core_Commands
  imports Dispatch_Complete
begin

text \<open>
  \<open>commands/trade_intent_core.py\<close>: creating and cancelling an intent on the new track, with the
  caps, the quote subscription and the trigger at creation. The quote provider is any value of
  \<open>quote_ops\<close>; a command returns its outcome, the committed database, the provider and what was sent
  to Telegram. An exception rolls the database back; it does not undo a subscription.
\<close>

section \<open>The source\<close>

record 'p quote_ops =
  qo_get_quotes :: "string list \<Rightarrow> 'p \<Rightarrow> quote_error + quote_snapshot list"
  qo_current_price :: "(string \<Rightarrow> 'p \<Rightarrow> quote_error + quote_snapshot) option"
  qo_subscribe :: "string \<Rightarrow> 'p \<Rightarrow> quote_error + 'p"
  qo_unsubscribe :: "string \<Rightarrow> 'p \<Rightarrow> 'p"
  qo_active_subscriptions :: "'p \<Rightarrow> string set"

record intent_limits =
  il_per_user :: int
  il_per_symbol :: int

record create_trade_intent_input =
  ci_symbol :: string
  ci_strategy :: strategy
  ci_quantity_lots :: int
  ci_owner_user_id :: uuid
  ci_target_price :: "string option"
  ci_transaction_mode :: transaction_mode
  ci_notification_mode :: string
  ci_trail_mode :: "trail_mode option"
  ci_trail_value :: "decimal option"

record cancel_trade_intent_input =
  xi_intent_id :: uuid
  xi_owner_user_id :: uuid

text \<open>Steps 1 and 2: the effective target price and the trail value.\<close>

definition create_prices ::
  "create_trade_intent_input \<Rightarrow> core_db \<Rightarrow> exn + decimal option \<times> decimal option" where
  "create_prices inp db =
     r_bind (get_tradable_symbol (ci_symbol inp) db) (\<lambda>symbol_obj.
     case security_type_of (sy_instrument_type symbol_obj) of
       None \<Rightarrow> Inl (ExPrice (InvalidTypeError (sy_instrument_type symbol_obj) ''must be stock or etf''))
     | Some st \<Rightarrow>
         if ci_strategy inp = trailing_stop_alert
         then (case (ci_trail_mode inp, ci_trail_value inp) of
                 (Some mode, Some v) \<Rightarrow>
                   if mode = fixed_amount
                   then r_bind (lift_ex ExPrice (validate_fixed_amount_tick st v)) (\<lambda>_. Inr (None, Some v))
                   else Inr (None, Some v)
               | _ \<Rightarrow> Inl ExValue)
         else if ci_strategy inp \<in> MARKET_ORDER_STRATEGIES then Inr (None, None)
         else (case ci_target_price inp of
                 None \<Rightarrow> Inl ExValue
               | Some t \<Rightarrow>
                   r_bind (lift_ex ExPrice
                     (validate \<lparr>pr_type = st, pr_price = t, pr_amount = ci_quantity_lots inp\<rparr>)) (\<lambda>p.
                     Inr (Some p, None))))"

definition initial_status :: "datetime \<Rightarrow> intent_status" where
  "initial_status now = (case get_initial_day_intent_status now of day_active \<Rightarrow> active | day_scheduled \<Rightarrow> scheduled)"

text \<open>Step 4: the user cap, then the symbol cap.\<close>

definition check_limits :: "intent_limits option \<Rightarrow> create_trade_intent_input \<Rightarrow> core_db \<Rightarrow> exn + unit" where
  "check_limits limits inp db = (case limits of
      None \<Rightarrow> Inr ()
    | Some l \<Rightarrow>
        let user_count = int (count_active_or_scheduled_for_user (ci_owner_user_id inp) db);
            symbol_count = int (count_active_or_scheduled_for_user_symbol (ci_owner_user_id inp) (ci_symbol inp) db)
        in if il_per_user l \<le> user_count
           then Inl (ExIntent (UserIntentLimitExceededError (il_per_user l) user_count))
           else if il_per_symbol l \<le> symbol_count
           then Inl (ExIntent (SymbolIntentLimitExceededError (ci_symbol inp) (il_per_symbol l) symbol_count))
           else Inr ())"

definition create_request ::
  "datetime \<Rightarrow> create_trade_intent_input \<Rightarrow> order_side \<Rightarrow> decimal option \<Rightarrow> decimal option \<Rightarrow> create_args" where
  "create_request now inp side effective_price trail_value =
     \<lparr>ca_owner_user_id = ci_owner_user_id inp, ca_symbol = ci_symbol inp, ca_strategy = ci_strategy inp,
      ca_quantity_lots = ci_quantity_lots inp, ca_target_price_original = effective_price,
      ca_target_price_effective = effective_price,
      ca_trigger_reference_price_type = (if side = buy then ref_ask else ref_bid),
      ca_trading_date = get_day_intent_trading_date now, ca_time_in_force = ''day'',
      ca_execution_mode = ''notify_only'', ca_status = initial_status now,
      ca_transaction_mode = ci_transaction_mode inp, ca_notification_mode = ci_notification_mode inp,
      ca_trail_mode = ci_trail_mode inp, ca_trail_value = trail_value, ca_baseline = None,
      ca_dynamic_trigger_price = None, ca_baseline_updated_at = None\<rparr>"

text \<open>Steps 1 to 5: everything up to the flush of the new rows.\<close>

definition create_insert ::
  "datetime \<Rightarrow> uuid \<Rightarrow> intent_limits option \<Rightarrow> datetime \<Rightarrow> create_trade_intent_input \<Rightarrow> core_db \<Rightarrow>
   exn + uuid \<times> core_db" where
  "create_insert tx_now new_id limits now inp db =
     r_bind (create_prices inp db) (\<lambda>(effective_price, trail_value).
     case derive_order_side (ci_strategy inp) of
       None \<Rightarrow> Inl ExValue
     | Some side \<Rightarrow>
         r_bind (check_limits limits inp db) (\<lambda>_.
         create tx_now new_id (create_request now inp side effective_price trail_value) db))"

definition fetch_quote_for_create ::
  "'p quote_ops \<Rightarrow> string \<Rightarrow> strategy \<Rightarrow> 'p \<Rightarrow> quote_snapshot option" where
  "fetch_quote_for_create ops symbol strategy p =
     (let cached = (case qo_get_quotes ops [symbol] p of Inl _ \<Rightarrow> None | Inr [] \<Rightarrow> None | Inr (q # _) \<Rightarrow> Some q)
      in if strategy \<in> MARKET_ORDER_STRATEGIES
         then (case qo_current_price ops of
                 None \<Rightarrow> cached
               | Some get \<Rightarrow> (case get symbol p of Inr q \<Rightarrow> Some q | Inl _ \<Rightarrow> cached))
         else cached)"

definition trigger_at_creation ::
  "datetime \<Rightarrow> uuid \<Rightarrow> uuid \<Rightarrow> quote_snapshot \<Rightarrow> datetime \<Rightarrow> trade_intent_data \<Rightarrow> core_db \<Rightarrow>
   exn + core_db \<times> notification_row list" where
  "trigger_at_creation tx_now trigger_id notification_id q now intent0 db0 =
     r_bind (evaluate q intent0 now) (\<lambda>result.
     r_bind (if er_baseline_updated_at result \<noteq> None
             then apply_trailing_baseline_update tx_now intent0 result db0
             else Inr (intent0, db0)) (\<lambda>(intent, db).
     if \<not> er_should_trigger result then Inr (db, [])
     else case (er_trigger_price result, er_trigger_reference_price_type result) of
       (Some p, Some t) \<Rightarrow>
         r_bind (persist_core_trigger tx_now trigger_id notification_id intent
            \<lparr>tci_trigger_price = p, tci_trigger_reference_price_type = t,
             tci_fallback_used = er_fallback_used result,
             tci_quote_snapshot = quote_snapshot_to_jsonb q, tci_quote_time = q_quote_time q\<rparr> db)
           (\<lambda>(g, n, db'). Inr (db', [n]))
     | _ \<Rightarrow> Inl ExRuntime))"

definition apply_inline_trigger_if_quote_met ::
  "'p quote_ops \<Rightarrow> datetime \<Rightarrow> uuid \<Rightarrow> uuid \<Rightarrow> uuid \<Rightarrow> create_trade_intent_input \<Rightarrow> datetime \<Rightarrow> 'p \<Rightarrow> core_db \<Rightarrow>
   exn + core_db \<times> notification_row list" where
  "apply_inline_trigger_if_quote_met ops tx_now trigger_id notification_id intent_id inp now p db =
     (case fetch_quote_for_create ops (ci_symbol inp) (ci_strategy inp) p of
        None \<Rightarrow> Inr (db, [])
      | Some q \<Rightarrow>
          r_bind (find_by_id intent_id (ci_owner_user_id inp) db) (\<lambda>intent.
            trigger_at_creation tx_now trigger_id notification_id q now intent db))"

type_synonym 'p command_outcome = "(exn + trade_intent_data) \<times> core_db \<times> 'p \<times> notification_row list"

text \<open>
  The transaction of a create: it commits with the identifier, the database and what was sent, or it is
  rolled back with the exception. A subscription stays in either case.
\<close>

definition create_tx ::
  "'p quote_ops \<Rightarrow> bool \<Rightarrow> intent_limits option \<Rightarrow> datetime \<Rightarrow> uuid \<Rightarrow> uuid \<Rightarrow> uuid \<Rightarrow> datetime \<Rightarrow>
   create_trade_intent_input \<Rightarrow> 'p \<Rightarrow> core_db \<Rightarrow> (exn + uuid \<times> core_db \<times> notification_row list) \<times> 'p" where
  "create_tx ops halted limits tx_now new_id trigger_id notification_id now inp p db =
     (case create_insert tx_now new_id limits now inp db of
        Inl e \<Rightarrow> (Inl e, p)
      | Inr (intent_id, db1) \<Rightarrow>
          (case reconcile_on_create (qo_active_subscriptions ops) (qo_subscribe ops) (ci_symbol inp) p of
             Inl e \<Rightarrow> (Inl (ExQuote e), p)
           | Inr p1 \<Rightarrow>
               (case (if initial_status now = active \<and> \<not> halted
                      then apply_inline_trigger_if_quote_met ops tx_now trigger_id notification_id intent_id inp now p1 db1
                      else Inr (db1, [])) of
                  Inl e \<Rightarrow> (Inl e, p1)
                | Inr (db2, sent) \<Rightarrow> (Inr (intent_id, db2, sent), p1))))"

definition create_execute ::
  "'p quote_ops \<Rightarrow> bool \<Rightarrow> intent_limits option \<Rightarrow> datetime \<Rightarrow> uuid \<Rightarrow> uuid \<Rightarrow> uuid \<Rightarrow> datetime \<Rightarrow>
   create_trade_intent_input \<Rightarrow> 'p \<Rightarrow> core_db \<Rightarrow> 'p command_outcome" where
  "create_execute ops halted limits tx_now new_id trigger_id notification_id now inp p db =
     (case create_tx ops halted limits tx_now new_id trigger_id notification_id now inp p db of
        (Inl e, p') \<Rightarrow> (Inl e, db, p', [])
      | (Inr (intent_id, db2, sent), p') \<Rightarrow> (find_by_id intent_id (ci_owner_user_id inp) db2, db2, p', sent))"

lemmas create_execute_unfold = create_execute_def create_tx_def

text \<open>Phase A commits; phase B, the release of the subscription, never fails the command.\<close>

definition cancel_execute ::
  "'p quote_ops \<Rightarrow> datetime \<Rightarrow> cancel_trade_intent_input \<Rightarrow> 'p \<Rightarrow> core_db \<Rightarrow> 'p command_outcome" where
  "cancel_execute ops tx_now inp p db =
     (case cancel tx_now (xi_intent_id inp) (xi_owner_user_id inp) db of
        Inl e \<Rightarrow> (Inl e, db, p, [])
      | Inr (intent, db') \<Rightarrow>
          (Inr intent, db',
           reconcile_after_terminal_transition (qo_unsubscribe ops)
             (\<lambda>s. count_active_or_scheduled_for_symbol s db') (ti_symbol intent) p, []))"

section \<open>The trigger at creation and the dispatcher\<close>

text \<open>
  The trigger at creation is the dispatcher's loop body, except that the dispatcher swallows the two
  trigger errors.
\<close>

lemma trigger_at_creation_dispatch:
  assumes "trigger_at_creation t g n q now i db = Inr (db', ns)"
  shows "\<exists>pend. dispatch_one t (\<lambda>_. (g, n)) q now i db = Inr (db', pend, ns)"
proof -
  from assms obtain r where ev: "evaluate q i now = Inr r" by (auto simp: trigger_at_creation_def r_bind_Inr_iff)
  from assms ev obtain i1 db1 where up:
    "(if er_baseline_updated_at r \<noteq> None then apply_trailing_baseline_update t i r db else Inr (i, db)) = Inr (i1, db1)"
    by (auto simp: trigger_at_creation_def r_bind_Inr_iff)
  then obtain pend where pend: "(if er_baseline_updated_at r \<noteq> None
      then r_bind (apply_trailing_baseline_update t i r db) (\<lambda>(i, d). Inr (i, d, True)) else Inr (i, db, False)) =
    Inr (i1, db1, pend)" by (auto split: if_split_asm)
  show ?thesis
    using assms unfolding trigger_at_creation_def dispatch_one_def ev up pend r_bind_simps prod.case
    by (auto simp: r_bind_Inr_iff split: if_split_asm option.splits)
qed

lemma dispatch_trigger_at_creation:
  assumes "dispatch_one t (\<lambda>_. (g, n)) q now i db = Inr (db', pend, ns)" and "fires q now i \<Longrightarrow> ns \<noteq> []"
  shows "trigger_at_creation t g n q now i db = Inr (db', ns)"
proof -
  from assms obtain r where ev: "evaluate q i now = Inr r" by (auto simp: dispatch_one_def r_bind_Inr_iff)
  from assms(1) ev obtain i1 db1 pend1 where pend: "(if er_baseline_updated_at r \<noteq> None
      then r_bind (apply_trailing_baseline_update t i r db) (\<lambda>(i, d). Inr (i, d, True)) else Inr (i, db, False)) =
    Inr (i1, db1, pend1)" by (auto simp: dispatch_one_def r_bind_Inr_iff split: if_splits)
  then have up:
    "(if er_baseline_updated_at r \<noteq> None then apply_trailing_baseline_update t i r db else Inr (i, db)) = Inr (i1, db1)"
    by (auto simp: r_bind_Inr_iff split: if_split_asm)
  have "er_should_trigger r \<Longrightarrow> ns \<noteq> []" using assms(2) by (simp add: fires_def ev)
  then show ?thesis
    using assms(1) unfolding trigger_at_creation_def dispatch_one_def ev up pend r_bind_simps prod.case
    by (auto split: if_split_asm option.splits sum.splits exn.splits)
qed

lemma trigger_at_creation_safe:
  assumes "core_inv db" and "trigger_at_creation t g n q now i db = Inr (db', ns)"
  shows "core_inv db' \<and> core_evolves db db' \<and> sent_match db db' ns"
  using trigger_at_creation_dispatch [OF assms(2)] dispatch_one_Inr [OF assms(1)] by blast

section \<open>Creating\<close>

lemma initial_status_live [simp]: "live_status (initial_status now)"
  by (simp add: initial_status_def live_status_def status_sets split: day_status.split)

definition created_row :: "datetime \<Rightarrow> uuid \<Rightarrow> datetime \<Rightarrow> create_trade_intent_input \<Rightarrow> core_row \<Rightarrow> bool" where
  "created_row tx_now new_id now inp r \<longleftrightarrow>
     (\<exists>side effective_price trail_value.
        order_of r = order_of (new_core_row tx_now new_id (create_request now inp side effective_price trail_value)))"

lemma created_row_simps:
  assumes "created_row t i now inp r"
  shows "c_id r = i" "c_owner_user_id r = ci_owner_user_id inp" "c_symbol r = ci_symbol inp"
    "c_strategy r = ci_strategy inp" "c_quantity_lots r = ci_quantity_lots inp"
    "c_trading_date r = get_day_intent_trading_date now"
  using assms by (auto simp: created_row_def order_of_def new_core_row_def create_request_def)

lemma create_insert_Inr:
  assumes inv: "core_inv db" and "create_insert t i limits now inp db = Inr (j, db1)"
  shows "\<exists>r. j = i \<and> db_core db1 = db_core db @ [r] \<and> created_row t i now inp r \<and> c_status r = initial_status now \<and>
    core_inv db1 \<and> core_evolves db db1 \<and> db_triggers db1 = db_triggers db \<and>
    db_notifications db1 = db_notifications db \<and> i \<notin> c_id ` set (db_core db) \<and> check_limits limits inp db = Inr ()"
proof -
  from assms(2) obtain e v where ev: "create_prices inp db = Inr (e, v)"
    by (auto simp: create_insert_def r_bind_Inr_iff)
  with assms(2) obtain side where side: "derive_order_side (ci_strategy inp) = Some side"
    by (auto simp: create_insert_def split: option.splits)
  let ?a = "create_request now inp side e v"
  from assms(2) ev side have lim: "check_limits limits inp db = Inr ()" and cr: "create t i ?a db = Inr (j, db1)"
    by (auto simp: create_insert_def r_bind_Inr_iff)
  note C = create_Inr [OF cr]
  have "live_status (ca_status ?a)" by (simp add: create_request_def)
  note F = create_flush_preserves [OF inv C(2,3) this]
  have "created_row t i now inp (new_core_row t i ?a)" by (auto simp: created_row_def)
  moreover have "c_status (new_core_row t i ?a) = initial_status now" by (simp add: new_core_row_def create_request_def)
  ultimately show ?thesis using C(1) F lim by blast
qed

lemma inline_trigger_safe:
  assumes "core_inv db"
    and "apply_inline_trigger_if_quote_met ops t g n i inp now p db = Inr (db', ns)"
  shows "core_inv db' \<and> core_evolves db db' \<and> sent_match db db' ns"
  using assms trigger_at_creation_safe [OF assms(1)]
  by (auto simp: apply_inline_trigger_if_quote_met_def r_bind_Inr_iff sent_match_refl split: option.splits)

text \<open>A create either fails and changes nothing, or adds one row, which may be triggered at once.\<close>

lemma create_execute_cases:
  assumes inv: "core_inv db"
    and ex: "create_execute ops halted limits t i g n now inp p db = (res, db', p', sent)"
  obtains (failed) e where "res = Inl e" "db' = db" "sent = []"
    "p' = p \<or> reconcile_on_create (qo_active_subscriptions ops) (qo_subscribe ops) (ci_symbol inp) p = Inr p'"
  | (created) db1 r0 r where "res = Inr (view db' r)" "create_insert t i limits now inp db = Inr (i, db1)"
    "db_core db1 = db_core db @ [r0]" "c_status r0 = initial_status now"
    "created_row t i now inp r0" "created_row t i now inp r" "row_evolves r0 r" "r \<in> set (db_core db')" "core_inv db1" "core_inv db'"
    "core_evolves db db1" "core_evolves db1 db'" "sent_match db db' sent" "check_limits limits inp db = Inr ()"
    "i \<notin> c_id ` set (db_core db)" "db_triggers db1 = db_triggers db"
    "reconcile_on_create (qo_active_subscriptions ops) (qo_subscribe ops) (ci_symbol inp) p = Inr p'"
    "(if initial_status now = active \<and> \<not> halted
      then apply_inline_trigger_if_quote_met ops t g n i inp now p' db1 else Inr (db1, [])) = Inr (db', sent)"
proof (cases "create_insert t i limits now inp db")
  case (Inl e)
  with ex show thesis by (intro failed) (auto simp: create_execute_unfold)
next
  case (Inr x)
  obtain j db1 where x: "x = (j, db1)" by fastforce
  from create_insert_Inr [OF inv Inr [unfolded x]] obtain r0 where
    c: "j = i" "db_core db1 = db_core db @ [r0]" "created_row t i now inp r0" "c_status r0 = initial_status now"
      "core_inv db1" "core_evolves db db1" "db_triggers db1 = db_triggers db"
      "db_notifications db1 = db_notifications db" "i \<notin> c_id ` set (db_core db)" "check_limits limits inp db = Inr ()" by blast
  show thesis
  proof (cases "reconcile_on_create (qo_active_subscriptions ops) (qo_subscribe ops) (ci_symbol inp) p")
    case (Inl e)
    with ex Inr x show thesis by (intro failed) (auto simp: create_execute_unfold)
  next
    case p1: (Inr p1)
    let ?tr = "if initial_status now = active \<and> \<not> halted
      then apply_inline_trigger_if_quote_met ops t g n i inp now p1 db1 else Inr (db1, [])"
    show thesis
    proof (cases ?tr)
      case (Inl e)
      with ex Inr x c(1) p1 show thesis
        by (intro failed) (auto simp: create_execute_unfold)
    next
      case y: (Inr y)
      obtain db2 s where s: "y = (db2, s)" by fastforce
      have d2: "core_inv db2 \<and> core_evolves db1 db2 \<and> sent_match db1 db2 s"
        using y s c(5) inline_trigger_safe by (fastforce simp: sent_match_refl split: if_splits)
      from ex Inr x c(1) p1 y s have out: "res = find_by_id i (ci_owner_user_id inp) db2" "db' = db2" "p' = p1" "sent = s"
        by (auto simp: create_execute_unfold)
      from core_evolves_row [of db1 db2 r0] d2 c(2) obtain r where r: "r \<in> set (db_core db2)" "row_evolves r0 r" by auto
      have cr: "created_row t i now inp r" using c(3) r(2) by (auto simp: created_row_def row_evolves_def)
      have "get_core db2 i = Some r" using get_core_mem [OF _ r(1)] d2 created_row_simps(1) [OF cr] by blast
      then have "res = Inr (view db' r)"
        using out find_by_id_eq [of db2 i "ci_owner_user_id inp"] d2 created_row_simps(2) [OF cr] by simp
      moreover have "sent_match db db' sent" using d2 c(7,8) out by (simp add: sent_match_def)
      ultimately show thesis using created [of r db1 r0] c r cr d2 out Inr x p1 y s by blast
    qed
  qed
qed

subsection \<open>Live rows after a command\<close>

lemma dispatch_one_ids:
  assumes "dispatch_one t ids q now intent db = Inr (db', pend, ns)"
  shows "map c_id (db_core db') = map c_id (db_core db)"
proof -
  from assms obtain r where ev: "evaluate q intent now = Inr r" by (auto simp: dispatch_one_def r_bind_Inr_iff)
  from assms ev obtain i1 db1 p1 where
    upd: "(if er_baseline_updated_at r \<noteq> None
       then r_bind (apply_trailing_baseline_update t intent r db) (\<lambda>(i, d). Inr (i, d, True))
       else Inr (intent, db, False)) = Inr (i1, db1, p1)"
    by (auto simp: dispatch_one_def r_bind_Inr_iff split: if_splits)
  have d1: "map c_id (db_core db1) = map c_id (db_core db)"
    using upd by (auto simp: r_bind_Inr_iff split: if_splits dest!: apply_trailing_Inr update_baseline_frame)
  show ?thesis
  proof (cases "db' = db1")
    case False
    with assms ev upd obtain inp g n where
      per: "persist_core_trigger t (fst (ids (ti_id i1))) (snd (ids (ti_id i1))) i1 inp db1 = Inr (g, n, db')"
      by (auto simp: dispatch_one_def split: if_splits option.splits sum.splits exn.splits)
    show ?thesis using d1 by (simp add: persist_Inr(1) [OF per] map_upd_where_frame)
  qed (use d1 in simp)
qed

lemma inline_trigger_ids:
  assumes "apply_inline_trigger_if_quote_met ops t g n i inp now p db = Inr (db', ns)"
  shows "map c_id (db_core db') = map c_id (db_core db)"
proof -
  have "map c_id (db_core db') = map c_id (db_core db)"
    if "trigger_at_creation t g n q now d db = Inr (db', ns)" for q d
    using dispatch_one_ids trigger_at_creation_dispatch [OF that] by blast
  with assms show ?thesis
    by (auto simp: apply_inline_trigger_if_quote_met_def r_bind_Inr_iff split: option.splits)
qed

lemma evolves_same_rows:
  assumes "core_evolves a b" and "map c_id (db_core b) = map c_id (db_core a)"
  shows "list_all2 row_evolves (db_core a) (db_core b)"
proof -
  from assms(1) obtain xs ys where b: "db_core b = xs @ ys" "list_all2 row_evolves (db_core a) xs"
    by (auto simp: core_evolves_def)
  have "length (db_core b) = length (db_core a)" using arg_cong [OF assms(2), of length] by simp
  with b have "ys = []" by (auto dest: list_all2_lengthD)
  with b show ?thesis by simp
qed

lemma evolves_live: "row_evolves r r' \<Longrightarrow> live_status (c_status r') \<Longrightarrow> live_status (c_status r)"
  by (auto simp: row_evolves_def live_status_def status_sets dest: evolves_cases)

lemma evolves_count:
  assumes "list_all2 row_evolves xs ys" and "\<And>r r'. order_of r' = order_of r \<Longrightarrow> pred r' = pred r"
  shows "count_where (\<lambda>r. pred r \<and> live_status (c_status r)) ys \<le> count_where (\<lambda>r. pred r \<and> live_status (c_status r)) xs"
  using assms(1)
proof (induction rule: list_all2_induct)
  case (Cons x xs y ys)
  have "pred y = pred x" using Cons(1) by (intro assms(2)) (simp add: row_evolves_def)
  then show ?case using Cons.IH evolves_live [OF Cons(1)] by (auto simp: count_where_def)
qed (simp add: count_where_def)

lemma evolves_live_symbols:
  assumes "list_all2 row_evolves (db_core a) (db_core b)"
  shows "active_or_scheduled_symbols b \<subseteq> active_or_scheduled_symbols a"
proof
  fix s assume "s \<in> active_or_scheduled_symbols b"
  then obtain r' where r': "r' \<in> set (db_core b)" "live_status (c_status r')" "c_symbol r' = s"
    by (auto simp: active_or_scheduled_symbols_def live_status_def)
  then obtain r where r: "r \<in> set (db_core a)" "row_evolves r r'"
    using assms unfolding list_all2_conv_all_nth in_set_conv_nth by metis
  have "c_symbol r = s" using r(2) r'(3) order_of_eqD(3) [of r' r] by (simp add: row_evolves_def)
  then show "s \<in> active_or_scheduled_symbols a"
    using r(1) evolves_live [OF r(2) r'(2)] by (auto simp: active_or_scheduled_symbols_def live_status_def)
qed

lemma create_execute_rows:
  assumes "core_inv db" and "create_execute ops halted limits t i g n now inp p db = (Inr d, db', p', sent)"
  shows "\<exists>r0. c_status r0 = initial_status now \<and> created_row t i now inp r0 \<and>
    list_all2 row_evolves (db_core db @ [r0]) (db_core db')"
  using assms
proof (cases rule: create_execute_cases)
  case (created db1 r0 r)
  have "map c_id (db_core db') = map c_id (db_core db1)"
    using created(18) by (auto split: if_split_asm dest: inline_trigger_ids)
  from evolves_same_rows [OF created(12) this] created(3-5) show ?thesis by auto
qed simp


subsection \<open>Duplicates\<close>

definition same_amount :: "decimal option \<Rightarrow> decimal option \<Rightarrow> bool" where
  "same_amount x y = (case (x, y) of
      (None, None) \<Rightarrow> True | (Some a, Some b) \<Rightarrow> 0 < dval a \<and> dval a = dval b | _ \<Rightarrow> False)"

text \<open>The same order, however its amounts are written.\<close>

definition same_request :: "create_args \<Rightarrow> create_args \<Rightarrow> bool" where
  "same_request a b \<longleftrightarrow> ca_owner_user_id a = ca_owner_user_id b \<and> ca_symbol a = ca_symbol b \<and>
     ca_strategy a = ca_strategy b \<and> ca_quantity_lots a = ca_quantity_lots b \<and> ca_trading_date a = ca_trading_date b \<and>
     ca_trail_mode a = ca_trail_mode b \<and> same_amount (ca_trail_value a) (ca_trail_value b) \<and>
     same_amount (ca_target_price_effective a) (ca_target_price_effective b)"

lemma dedup_price_cong:
  assumes "same_amount x y"
  shows "dedup_price x = dedup_price y"
proof (cases x; cases y)
  fix a b assume xy: "x = Some a" "y = Some b"
  with assms have "0 < dval a" "dval a = dval b" by (auto simp: same_amount_def)
  then have "0 < dval a" "0 < dval b" by simp_all
  then have "\<not> dneg a" "\<not> dneg b" unfolding dval_pos_iff dint_pos_iff by simp_all
  from format_price_str_cong [OF this] xy \<open>dval a = dval b\<close> show ?thesis by (simp add: dedup_price_def)
qed (use assms in \<open>auto simp: same_amount_def\<close>)

lemma dedup_key_cong: "same_request a b \<Longrightarrow> create_dedup_key a = create_dedup_key b"
  using dedup_price_cong by (simp add: same_request_def create_dedup_key_def build_dedup_key_def)

lemma create_refuses_duplicate:
  assumes inv: "core_inv db" and g: "create_guard b = Inr ()"
    and r: "r \<in> set (db_core db)" "dup_scope r" "dup_key r = dup_key (new_core_row t i b)"
  shows "create t i b db = Inl (ExIntent (DuplicateIntentError (ca_owner_user_id b) (ca_symbol b) (ca_strategy b)))"
proof -
  let ?q = "\<lambda>x. c_owner_user_id x = ca_owner_user_id b \<and> c_symbol x = ca_symbol b \<and> c_strategy x = ca_strategy b \<and>
    c_dedup_key x = create_dedup_key b \<and> c_quantity_lots x = ca_quantity_lots b \<and>
    c_trading_date x = ca_trading_date b \<and> c_status x \<in> CANCELLABLE_STATUSES"
  have q: "?q x \<longleftrightarrow> dup_key x = dup_key r \<and> live_status (c_status x)" for x
    unfolding r(3) by (auto simp: dup_key_def new_core_row_def live_status_def)
  have only: "x = r" if "x \<in> set (db_core db)" "?q x" for x
  proof (rule unique_onD [OF core_invD(3) [OF inv] that(1) r(1)])
    have "c_strategy x = c_strategy r" using that(2) [unfolded q] by (simp add: dup_key_def)
    then show "dup_scope x" using that(2) [unfolded q] r(2) by (simp add: dup_scope_def)
  qed (use that(2) [unfolded q] r(2) in simp_all)
  have "?q r" unfolding q using r(2) by (simp add: dup_scope_def)
  then have "filter ?q (db_core db) = filter (\<lambda>x. c_id x = c_id r) (db_core db)"
    using only distinct_key_eq [OF core_invD(2) [OF inv] _ r(1)] by (intro filter_cong) blast+
  then have "filter ?q (db_core db) = [r]" using filter_key [OF core_invD(2) [OF inv] r(1)] by simp
  with g show ?thesis by (simp add: create_def one_or_none_def)
qed

text \<open>
  (C29) No order twice: after a create, the same order, with its price or trail value written in any
  other way ("600" or "600.00"), is refused with \<open>DuplicateIntentError\<close> and leaves the database alone.
\<close>

theorem create_twice_refused:
  assumes "core_inv db" and "create t i a db = Inr (j, db1)" and "live_status (ca_status a)"
    and "same_request a b" and "create_guard b = Inr ()"
  shows "create t' i' b db1 = Inl (ExIntent (DuplicateIntentError (ca_owner_user_id b) (ca_symbol b) (ca_strategy b)))"
proof (rule create_refuses_duplicate [OF create_preserves [OF assms(1-3)] assms(5)])
  note C = create_Inr [OF assms(2)]
  let ?r = "new_core_row t i a"
  show "?r \<in> set (db_core db1)" using create_flush_preserves(3) [OF assms(1) C(2,3) assms(3)] by simp
  show "dup_scope ?r" using assms(3) create_guardD(1) [OF C(2)] by (simp add: dup_scope_def new_core_row_def)
  show "dup_key ?r = dup_key (new_core_row t' i' b)"
    using assms(4) dedup_key_cong [OF assms(4)] by (simp add: dup_key_def new_core_row_def same_request_def)
qed

subsection \<open>Concrete runs\<close>

definition sample_args :: create_args where
  "sample_args = \<lparr>ca_owner_user_id = 7, ca_symbol = ''2330'', ca_strategy = limit_buy_order, ca_quantity_lots = 2,
     ca_target_price_original = Some (Dec False 600 0), ca_target_price_effective = Some (Dec False 600 0),
     ca_trigger_reference_price_type = ref_ask, ca_trading_date = 20000, ca_time_in_force = ''day'',
     ca_execution_mode = ''notify_only'', ca_status = scheduled, ca_transaction_mode = single_notification,
     ca_notification_mode = ''single'', ca_trail_mode = None, ca_trail_value = None, ca_baseline = None,
     ca_dynamic_trigger_price = None, ca_baseline_updated_at = None\<rparr>"

abbreviation fresh_db :: core_db where
  "fresh_db \<equiv> empty_db [7] [sample_symbol]"

lemma fresh_db_inv: "core_inv fresh_db"
  by (rule core_inv_empty) (simp add: symbols_ok_def empty_db_def sample_symbol_def security_type_of_def)

lemma sample_create: "\<exists>db1. create 0 1 sample_args fresh_db = Inr (1, db1)"
  by (simp add: create_def Let_def create_guard_def sample_args_def strategy_sets one_or_none_def empty_db_def
      create_flush_def insert_core_def pg_integer_def core_checks_def known_strategy_def new_core_row_def
      insert_price_params_def numeric94_opt_def numeric94_def sample_symbol_def dec_cmp_iff dval_pos_iff dint_pos_iff not_le)

theorem create_twice_refused_witness:
  "\<exists>db1. create 0 1 sample_args fresh_db = Inr (1, db1) \<and>
     create 5 2 (sample_args\<lparr>ca_target_price_effective := Some (Dec False 60000 (-2))\<rparr>) db1 =
       Inl (ExIntent (DuplicateIntentError 7 ''2330'' limit_buy_order))"
proof -
  obtain db1 where c: "create 0 1 sample_args fresh_db = Inr (1, db1)" using sample_create by blast
  have "dval (Dec False 600 0) = 600" "dval (Dec False 60000 (-2)) = 600"
    using dval_Dec_neg_exp [of False 60000 2] by (simp_all add: dval_def dint_def)
  then have "same_request sample_args (sample_args\<lparr>ca_target_price_effective := Some (Dec False 60000 (-2))\<rparr>)"
    by (simp add: same_request_def sample_args_def same_amount_def)
  from create_twice_refused [OF fresh_db_inv c _ this] c show ?thesis
    by (simp add: sample_args_def live_status_def status_sets create_guard_def Let_def strategy_sets)
qed

abbreviation im_ops :: "in_memory_provider quote_ops" where
  "im_ops \<equiv> \<lparr>qo_get_quotes = im_get_quotes, qo_current_price = None, qo_subscribe = im_subscribe,
     qo_unsubscribe = im_unsubscribe, qo_active_subscriptions = im_active_subscriptions\<rparr>"

definition sample_input :: create_trade_intent_input where
  "sample_input = \<lparr>ci_symbol = ''2330'', ci_strategy = market_buy_order, ci_quantity_lots = 2, ci_owner_user_id = 7,
     ci_target_price = None, ci_transaction_mode = single_notification, ci_notification_mode = ''single'',
     ci_trail_mode = None, ci_trail_value = None\<rparr>"

lemma sample_create_insert:
  "\<exists>db1. create_insert 0 1 (Some \<lparr>il_per_user = 200, il_per_symbol = 20\<rparr>) now sample_input fresh_db = Inr (1, db1)"
  by (simp add: create_insert_def create_prices_def get_tradable_symbol_def get_by_symbol_def find_by_symbol_def
      empty_db_def sample_symbol_def security_type_of_def sample_input_def strategy_sets derive_order_side_def
      check_limits_def count_active_or_scheduled_for_user_def count_active_or_scheduled_for_user_symbol_def
      create_def Let_def create_guard_def create_request_def one_or_none_def create_flush_def insert_core_def
      pg_integer_def core_checks_def known_strategy_def new_core_row_def)

lemma sample_create_execute:
  "\<exists>d db' p' sent. create_execute im_ops True (Some \<lparr>il_per_user = 200, il_per_symbol = 20\<rparr>) 0 1 2 3 sample_now sample_input
     im_init fresh_db = (Inr d, db', p', sent)"
proof -
  let ?l = "Some \<lparr>il_per_user = 200, il_per_symbol = 20\<rparr>"
  obtain res db' p' sent where
    ex: "create_execute im_ops True ?l 0 1 2 3 sample_now sample_input im_init fresh_db = (res, db', p', sent)"
    by (metis prod_cases4)
  obtain db1 where c: "create_insert 0 1 ?l sample_now sample_input fresh_db = Inr (1, db1)"
    using sample_create_insert by blast
  then have out: "res = find_by_id 1 7 db1" "db' = db1"
    using ex by (auto simp: create_execute_unfold reconcile_on_create_def im_subscribe_def im_active_subscriptions_def
        im_init_def sample_input_def)
  from create_insert_Inr [OF fresh_db_inv c] obtain r where r: "core_inv db1" "r \<in> set (db_core db1)"
    "created_row 0 1 sample_now sample_input r" by (metis in_set_conv_decomp)
  from get_core_mem [OF r(1,2)] created_row_simps(1,2) [OF r(3)] have "res = Inr (view db1 r)"
    using find_by_id_eq [OF r(1)] out by (simp add: sample_input_def)
  with ex show ?thesis by blast
qed

lemma sample_active: "initial_status sample_now = active"
  using sample_usable
  by (simp add: initial_status_def get_initial_day_intent_status_def quote_usable_def)


section \<open>The trigger at creation\<close>

text \<open>
  With the kill switch on, a create triggers nothing: the new intent keeps the status its session
  gives it, no trigger row is written and nothing is sent.
\<close>

theorem create_halted_no_trigger:
  assumes "core_inv db" and "create_execute ops True limits t i g n now inp p db = (Inr d, db', p', sent)"
  shows "ti_status d = initial_status now \<and> db_triggers db' = db_triggers db \<and> sent = []"
  using assms
proof (cases rule: create_execute_cases)
  case (created db1 r0 r)
  then have eq: "db' = db1" "sent = []" by simp_all
  have "r = r0"
    using distinct_key_eq [OF core_invD(2) [OF created(9)], of r r0] created eq
      created_row_simps(1) [OF created(5)] created_row_simps(1) [OF created(6)] by auto
  then show ?thesis using created eq by simp
qed simp

lemma create_insert_trail_pairs:
  assumes "trail_pairs db" and "create_insert t i limits now inp db = Inr (j, db1)"
  shows "trail_pairs db1"
proof -
  from assms(2) obtain e v side where "create t i (create_request now inp side e v) db = Inr (j, db1)"
    by (auto simp: create_insert_def r_bind_Inr_iff split: option.splits)
  note C = create_Inr [OF this]
  have none: "ca_baseline (create_request now inp side e v) = None"
    "ca_dynamic_trigger_price (create_request now inp side e v) = None" by (simp_all add: create_request_def)
  from create_flush_shape [OF C(2,3)] none assms(1) show ?thesis
    by (auto simp: trail_pairs_def numeric94_opt_def split: if_split_asm)
qed


theorem create_halted_no_trigger_witness:
  "\<exists>d db' p' sent. create_execute im_ops True (Some \<lparr>il_per_user = 200, il_per_symbol = 20\<rparr>) 0 1 2 3 sample_now sample_input
     im_init fresh_db = (Inr d, db', p', sent) \<and> ti_status d = active \<and> sent = []"
proof -
  obtain d db' p' sent where ex: "create_execute im_ops True (Some \<lparr>il_per_user = 200, il_per_symbol = 20\<rparr>) 0 1 2 3
      sample_now sample_input im_init fresh_db = (Inr d, db', p', sent)" using sample_create_execute by blast
  from create_halted_no_trigger [OF fresh_db_inv ex] ex sample_active show ?thesis by simp
qed

definition sample_provider :: in_memory_provider where
  "sample_provider = im_init\<lparr>im_subscribed := {''2330''}, im_snapshots := [''2330'' \<mapsto> sample_quote]\<rparr>"

lemma sample_fires:
  assumes "ti_strategy d = market_buy_order"
  shows "fires sample_quote sample_now d"
proof -
  have "ti_strategy d \<noteq> trailing_stop_alert" using assms by simp
  from evaluate_price_strategies [OF this, of sample_quote sample_now] obtain res where
    ev: "evaluate sample_quote d sample_now = Inr res"
    and iff: "er_should_trigger res \<longleftrightarrow> quote_usable sample_quote sample_now \<and>
       (\<exists>side p t. derive_order_side (ti_strategy d) = Some side \<and>
          side_price side sample_quote = Some (p, t) \<and> target_met d p)" by blast
  have "derive_order_side market_buy_order = Some buy" by (simp add: derive_order_side_def strategy_sets)
  then show ?thesis
    using iff sample_usable sample_ask assms by (auto simp: fires_def ev target_met_def)
qed


section \<open>Cancelling\<close>

lemma cancelled_db_get:
  assumes "core_inv db" and "get_core db i = Some r"
  shows "get_core (cancelled_db t i db) i = Some (set_cancelled t r)"
proof -
  have "c_id r = i" using get_core_Some [OF assms(2)] by simp
  then show ?thesis
    using assms(2) unfolding get_core_def cancelled_db_def by (simp add: find_row_upd_where set_cancelled_def)
qed

text \<open>
  The cancel command on every branch: an unknown intent and another owner's intent give the same
  not-found error, an intent already triggered, expired or cancelled by the administrator is refused,
  a live intent becomes cancelled with every other row as it was; errors change nothing.
\<close>

theorem cancel_outcome:
  assumes "core_inv db"
  shows "case get_core db i of
      None \<Rightarrow> cancel_execute ops t \<lparr>xi_intent_id = i, xi_owner_user_id = u\<rparr> p db =
        (Inl (ExIntent (IntentNotFoundError i)), db, p, [])
    | Some r \<Rightarrow>
        if c_owner_user_id r \<noteq> u
        then cancel_execute ops t \<lparr>xi_intent_id = i, xi_owner_user_id = u\<rparr> p db =
          (Inl (ExIntent (IntentNotFoundError i)), db, p, [])
        else if c_status r \<in> {triggered, expired, cancelled_by_account_disabled}
        then cancel_execute ops t \<lparr>xi_intent_id = i, xi_owner_user_id = u\<rparr> p db =
          (Inl (ExIntent (CancelNotAllowedError i (c_status r))), db, p, [])
        else \<exists>d db' p'. cancel_execute ops t \<lparr>xi_intent_id = i, xi_owner_user_id = u\<rparr> p db = (Inr d, db', p', []) \<and>
          ti_id d = i \<and> ti_status d = cancelled \<and>
          map (\<lambda>x. (c_id x, c_status x)) (db_core db') =
            map (\<lambda>x. (c_id x, if c_id x = i then cancelled else c_status x)) (db_core db)"
proof (cases "get_core db i")
  case None
  then show ?thesis by (simp add: cancel_execute_def cancel_eq [OF assms])
next
  case (Some r)
  note r = get_core_Some [OF Some]
  have only: "x = r" if "x \<in> set (db_core db)" "c_id x = i" for x
    using get_core_mem [OF assms that(1)] Some that(2) by simp
  have same: "map (\<lambda>x. (c_id x, c_status x)) (db_core db) =
      map (\<lambda>x. (c_id x, if c_id x = i then cancelled else c_status x)) (db_core db)" if "c_status r = cancelled"
    using only that by auto
  have "map (\<lambda>x. (c_id x, c_status x)) (db_core (cancelled_db t i db)) =
      map (\<lambda>x. (c_id x, if c_id x = i then cancelled else c_status x)) (db_core db)"
    by (auto simp: cancelled_db_def upd_where_def set_cancelled_def)
  with same Some r show ?thesis
    by (cases "c_status r")
      (simp_all add: cancel_execute_def cancel_eq [OF assms] live_status_def status_sets set_cancelled_def)
qed

theorem cancel_outcome_witness:
  "\<exists>d db' p'. cancel_execute im_ops 5 \<lparr>xi_intent_id = 1, xi_owner_user_id = 7\<rparr> sample_provider sample_db = (Inr d, db', p', []) \<and>
     ti_status d = cancelled \<and> map c_status (db_core db') = [cancelled]"
proof -
  have g: "get_core sample_db 1 = Some sample_row"
    using get_core_mem [OF sample_db_inv, of sample_row] by (simp add: sample_db_simps)
  from cancel_outcome [OF sample_db_inv, where i = 1 and ops = im_ops and t = 5 and u = 7 and p = sample_provider] g obtain d db' p' where
    x: "cancel_execute im_ops 5 \<lparr>xi_intent_id = 1, xi_owner_user_id = 7\<rparr> sample_provider sample_db = (Inr d, db', p', [])"
    "ti_status d = cancelled" "map (\<lambda>x. (c_id x, c_status x)) (db_core db') = [(1, cancelled)]"
    by (auto simp: sample_row_def sample_db_def)
  from arg_cong [OF x(3), of "map snd"] have "map c_status (db_core db') = [cancelled]" by (simp add: comp_def)
  with x(1,2) show ?thesis by (intro exI conjI)
qed

text \<open>
  Cancelling twice is cancelling once: a second cancel of the same intent by its owner succeeds,
  returns the same intent and leaves the database as the first one left it.
\<close>

theorem cancel_idempotent:
  assumes "core_inv db" and "cancel_execute ops t inp p db = (Inr d, db', p', sent)"
  shows "\<exists>p''. cancel_execute ops t' inp p' db' = (Inr d, db', p'', [])"
proof -
  let ?i = "xi_intent_id inp" and ?u = "xi_owner_user_id inp"
  from assms(2) have c: "cancel t ?i ?u db = Inr (d, db')" by (auto simp: cancel_execute_def split: sum.splits)
  from c obtain r where r: "get_core db ?i = Some r" "c_owner_user_id r = ?u"
    by (auto simp: cancel_eq [OF assms(1)] split: option.splits if_split_asm)
  have "cancel t' ?i ?u db' = Inr (d, db')"
  proof (cases "c_status r = cancelled")
    case True
    with c r have "db' = db" "d = view db r" by (auto simp: cancel_eq [OF assms(1)])
    with r True show ?thesis by (simp add: cancel_eq [OF assms(1)])
  next
    case False
    with c r have "live_status (c_status r)" "db' = cancelled_db t ?i db" "d = view db' (set_cancelled t r)"
      by (auto simp: cancel_eq [OF assms(1)] split: if_split_asm)
    with cancel_eq [OF cancel_preserves [OF assms(1) c]] cancelled_db_get [OF assms(1) r(1)] r(2) show ?thesis
      by (simp add: set_cancelled_def)
  qed
  then show ?thesis by (auto simp: cancel_execute_def)
qed

theorem cancel_idempotent_witness:
  "\<exists>d db' p' p''. cancel_execute im_ops 5 \<lparr>xi_intent_id = 1, xi_owner_user_id = 7\<rparr> sample_provider sample_db = (Inr d, db', p', []) \<and>
     cancel_execute im_ops 6 \<lparr>xi_intent_id = 1, xi_owner_user_id = 7\<rparr> p' db' = (Inr d, db', p'', [])"
proof -
  have g: "get_core sample_db 1 = Some sample_row"
    using get_core_mem [OF sample_db_inv, of sample_row] by (simp add: sample_db_simps)
  then obtain d db' p' where
    x: "cancel_execute im_ops 5 \<lparr>xi_intent_id = 1, xi_owner_user_id = 7\<rparr> sample_provider sample_db = (Inr d, db', p', [])"
    by (auto simp: cancel_execute_def cancel_eq [OF sample_db_inv] sample_row_def live_status_def status_sets)
  from cancel_idempotent [OF sample_db_inv x, of 6] x show ?thesis by blast
qed

end
