(* ===== verification/Py_Text.thy ===== *)
theory Py_Text
  imports Decimal_Text
begin

text \<open>
  Text handling of the standard library that several components use: \<open>str.split\<close> on a separator and
  \<open>str.replace\<close> with nothing, and the text form of a UUID as Python's \<open>uuid\<close> module writes and reads it.
\<close>

section \<open>Splitting and deleting\<close>

fun split_on :: "char \<Rightarrow> string \<Rightarrow> string list" where
  "split_on c [] = [[]]"
| "split_on c (x # xs) = (if x = c then [] # split_on c xs
     else case split_on c xs of [] \<Rightarrow> [[x]] | y # ys \<Rightarrow> (x # y) # ys)"

lemma split_on_absent: "c \<notin> set s \<Longrightarrow> split_on c s = [s]"
  by (induction s) auto

lemma split_on_append: "c \<notin> set s \<Longrightarrow> split_on c (s @ c # t) = s # split_on c t"
  by (induction s) auto

fun join_on :: "char \<Rightarrow> string list \<Rightarrow> string" where
  "join_on c [] = []"
| "join_on c [x] = x"
| "join_on c (x # y # ys) = x @ c # join_on c (y # ys)"

lemma split_on_nonempty [simp]: "split_on c s \<noteq> []"
  by (induction s) (auto split: list.splits)

lemma join_on_Cons: "ys \<noteq> [] \<Longrightarrow> join_on c (x # ys) = x @ c # join_on c ys"
  by (cases ys) auto

lemma join_on_push: "join_on c ((x # y) # ys) = x # join_on c (y # ys)"
  by (cases ys) auto

lemma split_on_join: "join_on c (split_on c s) = s"
proof (induction s)
  case (Cons x s)
  obtain y ys where "split_on c s = y # ys" by (cases "split_on c s") simp_all
  with Cons show ?case by (auto simp: join_on_Cons join_on_push simp del: join_on.simps)
qed simp

text \<open>\<open>s.replace(p, "")\<close>, from the left.\<close>

fun str_delete :: "string \<Rightarrow> string \<Rightarrow> string" where
  "str_delete p [] = []"
| "str_delete p (c # cs) =
     (if p \<noteq> [] \<and> take (length p) (c # cs) = p then str_delete p (drop (length p - 1) cs) else c # str_delete p cs)"

section \<open>Text of a UUID\<close>

definition hex_char :: "nat \<Rightarrow> char" where
  "hex_char v = (if v < 10 then char_of (48 + v) else char_of (87 + v))"

definition hex_val :: "char \<Rightarrow> nat option" where
  "hex_val c = (let n = (of_char c :: nat)
     in if 48 \<le> n \<and> n \<le> 57 then Some (n - 48)
        else if 97 \<le> n \<and> n \<le> 102 then Some (n - 87)
        else if 65 \<le> n \<and> n \<le> 70 then Some (n - 55)
        else None)"

text \<open>\<open>'%032x' % n\<close>, the last \<open>k\<close> digits.\<close>

fun fixed_hex :: "nat \<Rightarrow> nat \<Rightarrow> string" where
  "fixed_hex 0 n = []"
| "fixed_hex (Suc k) n = fixed_hex k (n div 16) @ [hex_char (n mod 16)]"

definition uuid_str :: "uuid \<Rightarrow> string" where
  "uuid_str n = (let hex = fixed_hex 32 n
     in take 8 hex @ ''-'' @ take 4 (drop 8 hex) @ ''-'' @ take 4 (drop 12 hex) @ ''-'' @ take 4 (drop 16 hex) @
        ''-'' @ drop 20 hex)"

text \<open>\<open>int(s, 16)\<close>: surrounding space, a sign, the prefix \<open>0x\<close> and single underscores between digits are
  accepted.\<close>

fun hex_run :: "bool \<Rightarrow> nat \<Rightarrow> string \<Rightarrow> nat option" where
  "hex_run after_digit acc [] = (if after_digit then Some acc else None)"
| "hex_run after_digit acc (c # cs) =
     (if c = CHR ''_'' then (if after_digit then hex_run False acc cs else None)
      else case hex_val c of None \<Rightarrow> None | Some v \<Rightarrow> hex_run True (16 * acc + v) cs)"

definition int_base16 :: "string \<Rightarrow> int option" where
  "int_base16 s =
     (let (neg, body) = split_sign (strip s);
          prefixed = (lower (take 2 body) = ''0x'');
          rest = (if prefixed then drop 2 body else body);
          ds = (if prefixed \<and> take 1 rest = ''_'' then drop 1 rest else rest)
      in map_option (\<lambda>n. if neg then - int n else int n) (hex_run False 0 ds))"

text \<open>\<open>UUID(s)\<close> for a text without colons: braces at the ends and hyphens are dropped; \<open>None\<close> is the
  \<open>ValueError\<close>.\<close>

definition strip_braces :: "string \<Rightarrow> string" where
  "strip_braces s = rstrip_where (\<lambda>c. c = CHR ''{'' \<or> c = CHR ''}'') (dropWhile (\<lambda>c. c = CHR ''{'' \<or> c = CHR ''}'') s)"

definition uuid_of_string :: "string \<Rightarrow> uuid option" where
  "uuid_of_string s =
     (let hex = filter (\<lambda>c. c \<noteq> CHR ''-'') (strip_braces s)
      in if length hex \<noteq> 32 then None
         else case int_base16 hex of None \<Rightarrow> None | Some i \<Rightarrow> if 0 \<le> i \<and> i < 2 ^ 128 then Some (nat i) else None)"

section \<open>A written UUID is read back\<close>

lemma of_char_hex: "v < 16 \<Longrightarrow> (of_char (hex_char v) :: nat) = (if v < 10 then 48 + v else 87 + v)"
  by (simp add: hex_char_def)

lemma hex_val_char [simp]: "v < 16 \<Longrightarrow> hex_val (hex_char v) = Some v"
  by (simp add: hex_val_def of_char_hex Let_def)

definition is_hex :: "char \<Rightarrow> bool" where
  "is_hex c \<longleftrightarrow> (\<exists>v < 16. c = hex_char v)"

lemma is_hex_plain:
  assumes "is_hex c"
  shows "c \<noteq> CHR '':''" "c \<noteq> CHR ''-''" "c \<noteq> CHR ''_''" "c \<noteq> CHR ''{''" "c \<noteq> CHR ''}''" "c \<noteq> CHR ''+''"
    "c \<noteq> CHR ''x''" "c \<noteq> CHR ''X''" "\<not> is_space c"
proof -
  from assms obtain v where v: "v < 16" "c = hex_char v" by (auto simp: is_hex_def)
  have n: "(of_char c :: nat) = (if v < 10 then 48 + v else 87 + v)" using v by (simp add: of_char_hex)
  have ne: "c \<noteq> d" if "(of_char d :: nat) < 48 \<or> 102 < (of_char d :: nat) \<or> 57 < (of_char d :: nat) \<and> (of_char d :: nat) < 97" for d
    using that n v(1) by (auto split: if_splits)
  show "c \<noteq> CHR '':''" "c \<noteq> CHR ''-''" "c \<noteq> CHR ''_''" "c \<noteq> CHR ''{''" "c \<noteq> CHR ''}''" "c \<noteq> CHR ''+''"
    "c \<noteq> CHR ''x''" "c \<noteq> CHR ''X''"
    by (rule ne; simp)+
  show "\<not> is_space c" using n v(1) by (auto simp: is_space_def split: if_splits)
qed

lemma is_hex_lower: "is_hex c \<Longrightarrow> lower_char c = c"
  by (auto simp: is_hex_def lower_char_def of_char_hex Let_def split: if_splits)

lemma is_hex_char: "v < 16 \<Longrightarrow> is_hex (hex_char v)"
  by (auto simp: is_hex_def)

lemma fixed_hex_props: "length (fixed_hex k n) = k" "list_all is_hex (fixed_hex k n)"
  by (induction k arbitrary: n) (auto simp: is_hex_char)

lemma hex_run_append:
  assumes "list_all is_hex s" and "s \<noteq> []"
  shows "hex_run b acc (s @ t) = hex_run True (fold (\<lambda>c a. 16 * a + the (hex_val c)) s acc) t"
  using assms
proof (induction s arbitrary: b acc)
  case (Cons c s)
  from Cons.prems(1) obtain v where v: "hex_val c = Some v" "c \<noteq> CHR ''_''"
    using is_hex_plain(3) [of c] by (auto simp: is_hex_def)
  with Cons show ?case by (cases "s = []") auto
qed simp

lemma hex_fold: "fold (\<lambda>c a. 16 * a + the (hex_val c)) (fixed_hex k n) 0 = n mod 16 ^ k"
proof (induction k arbitrary: n)
  case (Suc k)
  have "n mod 16 ^ Suc k = 16 * (n div 16 mod 16 ^ k) + n mod 16" by (simp add: mod_mult2_eq)
  with Suc show ?case by simp
qed simp

lemma hex_run_fixed: "0 < k \<Longrightarrow> hex_run False 0 (fixed_hex k n) = Some (n mod 16 ^ k)"
  using hex_run_append [of "fixed_hex k n" False 0 "[]"] fixed_hex_props [of k n]
  by (cases "fixed_hex k n = []") (auto simp: hex_fold)

lemma int_base16_fixed: "int_base16 (fixed_hex 32 n) = Some (int (n mod 16 ^ 32))"
proof -
  have hexs: "list_all is_hex (fixed_hex 32 n)" by (rule fixed_hex_props)
  have sp: "strip (fixed_hex 32 n) = fixed_hex 32 n"
    by (rule strip_no_space) (use hexs is_hex_plain(9) in \<open>auto simp: list_all_iff\<close>)
  have "length (fixed_hex 32 n) = 32" by (rule fixed_hex_props)
  then obtain a b s where s: "fixed_hex 32 n = a # b # s" by (cases "fixed_hex 32 n" rule: remdups_adj.cases) auto
  with hexs have ab: "is_hex a" "is_hex b" by simp_all
  have sign: "split_sign (a # b # s) = (False, a # b # s)"
    using is_hex_plain(2,6) [OF ab(1)] by (simp add: split_sign_def)
  have low: "lower [a, b] \<noteq> ''0x''"
    using is_hex_plain(7) [OF ab(2)] by (simp add: lower_def is_hex_lower ab)
  show ?thesis
    using hex_run_fixed [of 32 n] low unfolding int_base16_def sp unfolding s sign by (simp add: Let_def)
qed

lemma strip_absent:
  assumes "list_all (\<lambda>c. \<not> P c) s"
  shows "dropWhile P s = s" "rstrip_where P s = s"
proof -
  have *: "dropWhile P t = t" if "\<forall>c \<in> set t. \<not> P c" for t using that by (cases t) auto
  show "dropWhile P s = s" "rstrip_where P s = s"
    using assms * [of s] * [of "rev s"] by (auto simp: rstrip_where_def list_all_iff)
qed

lemma uuid_str_chars: "list_all (\<lambda>c. is_hex c \<or> c = CHR ''-'') (uuid_str n)"
  using fixed_hex_props(2) [of 32 n]
  by (auto simp: uuid_str_def Let_def list_all_iff dest!: in_set_takeD in_set_dropD)

lemma filter_hex: "list_all is_hex s \<Longrightarrow> filter (\<lambda>c. c \<noteq> CHR ''-'') s = s"
  using is_hex_plain(2) by (intro filter_True) (auto simp: list_all_iff)

lemma uuid_str_hex: "filter (\<lambda>c. c \<noteq> CHR ''-'') (uuid_str n) = fixed_hex 32 n"
proof -
  define h where "h = fixed_hex 32 n"
  have h: "list_all is_hex h" unfolding h_def by (rule fixed_hex_props)
  have part: "list_all is_hex (take k (drop j h))" "list_all is_hex (drop j h)" "list_all is_hex (take k h)" for k j
    using h by (auto simp: list_all_iff dest: in_set_takeD in_set_dropD)
  have join: "take 4 (drop j h) @ drop (j + 4) h = drop j h" for j
    using append_take_drop_id [of 4 "drop j h"] by (simp add: add.commute)
  have "filter (\<lambda>c. c \<noteq> CHR ''-'') (uuid_str n) =
      take 8 h @ take 4 (drop 8 h) @ take 4 (drop 12 h) @ take 4 (drop 16 h) @ drop 20 h"
    unfolding uuid_str_def Let_def h_def [symmetric] filter_append
      filter_hex [OF part(1)] filter_hex [OF part(2)] filter_hex [OF part(3)] by simp
  also have "\<dots> = h" using join [of 8] join [of 12] join [of 16] append_take_drop_id [of 8 h] by simp
  finally show ?thesis by (simp only: h_def)
qed

lemma uuid_of_uuid_str: "n < 2 ^ 128 \<Longrightarrow> uuid_of_string (uuid_str n) = Some n"
proof -
  assume n: "n < 2 ^ 128"
  have "\<not> (c = CHR ''{'' \<or> c = CHR ''}'')" if "is_hex c \<or> c = CHR ''-''" for c
    using that is_hex_plain(4,5) [of c] by auto
  then have "list_all (\<lambda>c. \<not> (c = CHR ''{'' \<or> c = CHR ''}'')) (uuid_str n)"
    by (rule list.pred_mono_strong [OF uuid_str_chars])
  note nobrace = strip_absent [OF this]
  have "n mod 16 ^ 32 = n" using n by simp
  then have "int_base16 (fixed_hex 32 n) = Some (int n)" by (simp only: int_base16_fixed)
  with n show ?thesis
    unfolding uuid_of_string_def strip_braces_def nobrace uuid_str_hex by (simp add: fixed_hex_props)
qed

end
