(* ===== verification/Shioaji_Provider.thy ===== *)
theory Shioaji_Provider
  imports Quote Py_Text
begin

text \<open>
  \<open>services/quote/shioaji_demo\<close>: the broker-backed quote provider, with its allowlist, its
  subscription quota and the merge of partial updates into snapshots. The \<open>shioaji\<close> package is not part
  of the repository: what a call into it does is an argument, \<open>sdk\<close>, which says whether the login and
  a subscription succeed, which contracts exist, and what a snapshot request returns.
\<close>

section \<open>Allowlist and quota\<close>

definition DEFAULT_DEMO_ALLOWED_SYMBOLS :: "string set" where
  "DEFAULT_DEMO_ALLOWED_SYMBOLS = {''2330'', ''2317'', ''0050'', ''00878''}"

definition DEFAULT_MAX_SUBSCRIPTIONS :: int where
  "DEFAULT_MAX_SUBSCRIPTIONS = 5"

definition parse_allowlist_override :: "string option \<Rightarrow> string set" where
  "parse_allowlist_override raw = (case raw of
      None \<Rightarrow> DEFAULT_DEMO_ALLOWED_SYMBOLS
    | Some r \<Rightarrow>
        if r = [] then DEFAULT_DEMO_ALLOWED_SYMBOLS
        else let tokens = set (map strip (filter (\<lambda>t. strip t \<noteq> []) (split_on (CHR '','') r)))
             in if tokens \<noteq> {} then tokens else DEFAULT_DEMO_ALLOWED_SYMBOLS)"

section \<open>Payloads\<close>

record tick_payload =
  tp_symbol :: string
  tp_last_price :: decimal
  tp_quote_time :: datetime

record bidask_payload =
  bp_symbol :: string
  bp_bid_price :: "decimal option"
  bp_ask_price :: "decimal option"
  bp_quote_time :: datetime

text \<open>A field an update does not carry (\<open>_UNSET\<close>) is \<open>None\<close>; a field it clears is \<open>Some None\<close>.\<close>

definition merge_field :: "decimal option option \<Rightarrow> decimal option \<Rightarrow> decimal option" where
  "merge_field value previous = (case value of None \<Rightarrow> previous | Some v \<Rightarrow> v)"

definition build_snapshot ::
  "datetime \<Rightarrow> string \<Rightarrow> quote_snapshot option \<Rightarrow> decimal option option \<Rightarrow> decimal option option \<Rightarrow>
   decimal option option \<Rightarrow> datetime \<Rightarrow> quote_snapshot" where
  "build_snapshot now_utc symbol previous bid_price ask_price last_price quote_time =
     \<lparr>q_symbol = symbol,
      q_bid_price = merge_field bid_price (Option.bind previous q_bid_price),
      q_ask_price = merge_field ask_price (Option.bind previous q_ask_price),
      q_last_price = merge_field last_price (Option.bind previous q_last_price),
      q_quote_time = quote_time, q_received_at = now_utc\<rparr>"

section \<open>The client\<close>

record sdk =
  sdk_login_ok :: bool
  sdk_contract :: "string \<Rightarrow> bool"
  sdk_subscribe_ok :: "string \<Rightarrow> bool"
  sdk_snapshots :: "string \<Rightarrow> quote_snapshot list option"

record shioaji_client =
  cl_logged_in :: bool

definition not_logged_in :: quote_error where
  "not_logged_in = QuoteProviderUnavailableError ''shioaji'' (Some ''client not logged in'')"

definition client_login :: "sdk \<Rightarrow> shioaji_client \<Rightarrow> quote_error + shioaji_client" where
  "client_login api c =
     (if cl_logged_in c then Inr c
      else if sdk_login_ok api then Inr (c\<lparr>cl_logged_in := True\<rparr>)
      else Inl (QuoteProviderUnavailableError ''shioaji'' (Some ''login failed'')))"

definition client_logout :: "shioaji_client \<Rightarrow> shioaji_client" where
  "client_logout c = c\<lparr>cl_logged_in := False\<rparr>"

definition resolve_contract :: "sdk \<Rightarrow> string \<Rightarrow> shioaji_client \<Rightarrow> quote_error + unit" where
  "resolve_contract api symbol c =
     (if \<not> cl_logged_in c then Inl not_logged_in
      else if sdk_contract api symbol then Inr ()
      else Inl (QuoteProviderUnavailableError ''shioaji'' (Some (''contract not found for '' @ symbol))))"

definition client_subscribe :: "sdk \<Rightarrow> string \<Rightarrow> shioaji_client \<Rightarrow> quote_error + unit" where
  "client_subscribe api symbol c =
     r_bind (resolve_contract api symbol c) (\<lambda>_.
     if sdk_subscribe_ok api symbol then Inr ()
     else Inl (QuoteProviderUnavailableError ''shioaji'' (Some (''subscribe failed for '' @ symbol))))"

text \<open>What the package raises while unsubscribing is swallowed; a missing login or contract is not.\<close>

definition client_unsubscribe :: "sdk \<Rightarrow> string \<Rightarrow> shioaji_client \<Rightarrow> quote_error + unit" where
  "client_unsubscribe api symbol c = resolve_contract api symbol c"

definition get_stock_snapshot :: "sdk \<Rightarrow> string \<Rightarrow> shioaji_client \<Rightarrow> quote_error + quote_snapshot" where
  "get_stock_snapshot api symbol c =
     r_bind (resolve_contract api symbol c) (\<lambda>_.
     case sdk_snapshots api symbol of
       None \<Rightarrow> Inl (QuoteProviderUnavailableError ''shioaji'' (Some (''snapshot failed for '' @ symbol)))
     | Some [] \<Rightarrow> Inl (QuoteUnavailableError symbol)
     | Some (q # _) \<Rightarrow> Inr q)"

section \<open>The provider\<close>

record shioaji_provider =
  sj_client :: shioaji_client
  sj_allowed :: "string set"
  sj_max :: int
  sj_snapshots :: "string \<rightharpoonup> quote_snapshot"
  sj_subscribed :: "string set"
  sj_listeners :: "nat list"
  sj_started :: bool

definition sj_init :: "shioaji_client \<Rightarrow> string set \<Rightarrow> int \<Rightarrow> shioaji_provider" where
  "sj_init client allowed max_subscriptions =
     \<lparr>sj_client = client, sj_allowed = allowed, sj_max = max_subscriptions, sj_snapshots = Map.empty,
      sj_subscribed = {}, sj_listeners = [], sj_started = False\<rparr>"

definition sj_startup :: "sdk \<Rightarrow> shioaji_provider \<Rightarrow> quote_error + shioaji_provider" where
  "sj_startup api p =
     (if sj_started p then Inr p
      else r_bind (client_login api (sj_client p)) (\<lambda>c. Inr (p\<lparr>sj_client := c, sj_started := True\<rparr>)))"

text \<open>\<open>shutdown\<close> stops at the first symbol whose unsubscription raises, with nothing cleared.\<close>

definition sj_shutdown :: "sdk \<Rightarrow> string list \<Rightarrow> shioaji_provider \<Rightarrow> quote_error + shioaji_provider" where
  "sj_shutdown api order p =
     (if \<not> sj_started p then Inr p
      else (case List.map_filter (\<lambda>s. case client_unsubscribe api s (sj_client p) of Inl e \<Rightarrow> Some e | Inr _ \<Rightarrow> None) order of
              e # _ \<Rightarrow> Inl e
            | [] \<Rightarrow> Inr (p\<lparr>sj_client := client_logout (sj_client p), sj_subscribed := {}, sj_snapshots := Map.empty,
                         sj_started := False\<rparr>)))"

definition sj_get_quotes :: "string list \<Rightarrow> shioaji_provider \<Rightarrow> quote_error + quote_snapshot list" where
  "sj_get_quotes symbols p = cached_quotes (sj_snapshots p) symbols"

definition not_started :: quote_error where
  "not_started = QuoteProviderUnavailableError ''shioaji'' (Some ''provider not started; call startup() first'')"

definition sj_get_current_price :: "sdk \<Rightarrow> string \<Rightarrow> shioaji_provider \<Rightarrow> quote_error + quote_snapshot" where
  "sj_get_current_price api symbol p =
     (if symbol \<notin> sj_allowed p then Inl (SymbolNotAvailableInDemo symbol (sj_allowed p))
      else if \<not> sj_started p then Inl not_started
      else get_stock_snapshot api symbol (sj_client p))"

text \<open>
  After a failed subscription the client is asked to unsubscribe; if that raises too, its error is
  the one that leaves.
\<close>

definition sj_subscribe :: "sdk \<Rightarrow> string \<Rightarrow> shioaji_provider \<Rightarrow> quote_error + shioaji_provider" where
  "sj_subscribe api symbol p =
     (if symbol \<notin> sj_allowed p then Inl (SymbolNotAvailableInDemo symbol (sj_allowed p))
      else if symbol \<in> sj_subscribed p then Inr p
      else if \<not> sj_started p then Inl not_started
      else if sj_max p \<le> int (card (sj_subscribed p))
      then Inl (QuoteSubscriptionLimitExceeded symbol (card (sj_subscribed p)) (nat (sj_max p)))
      else (case client_subscribe api symbol (sj_client p) of
              Inl e \<Rightarrow> (case client_unsubscribe api symbol (sj_client p) of Inl e' \<Rightarrow> Inl e' | Inr _ \<Rightarrow> Inl e)
            | Inr _ \<Rightarrow> Inr (p\<lparr>sj_subscribed := insert symbol (sj_subscribed p)\<rparr>)))"

definition sj_unsubscribe :: "string \<Rightarrow> shioaji_provider \<Rightarrow> shioaji_provider" where
  "sj_unsubscribe symbol p =
     (if symbol \<notin> sj_subscribed p then p
      else p\<lparr>sj_subscribed := sj_subscribed p - {symbol}, sj_snapshots := (sj_snapshots p)(symbol := None)\<rparr>)"

definition sj_active_subscriptions :: "shioaji_provider \<Rightarrow> string set" where
  "sj_active_subscriptions p = sj_subscribed p"

definition sj_add_quote_listener :: "nat \<Rightarrow> shioaji_provider \<Rightarrow> shioaji_provider" where
  "sj_add_quote_listener l p = p\<lparr>sj_listeners := sj_listeners p @ [l]\<rparr>"

definition sj_remove_quote_listener :: "nat \<Rightarrow> shioaji_provider \<Rightarrow> shioaji_provider" where
  "sj_remove_quote_listener l p = p\<lparr>sj_listeners := remove1 l (sj_listeners p)\<rparr>"

text \<open>The callbacks store the merged snapshot under the lock and run the listeners after it.\<close>

definition sj_on_tick ::
  "(nat \<Rightarrow> quote_snapshot \<Rightarrow> 'w \<Rightarrow> 'w \<times> 'e option) \<Rightarrow> datetime \<Rightarrow> tick_payload \<Rightarrow> shioaji_provider \<Rightarrow> 'w \<Rightarrow>
   shioaji_provider \<times> 'w" where
  "sj_on_tick run now_utc payload p w =
     (let snapshot = build_snapshot now_utc (tp_symbol payload) (sj_snapshots p (tp_symbol payload)) None None
            (Some (Some (tp_last_price payload))) (tp_quote_time payload)
      in (p\<lparr>sj_snapshots := (sj_snapshots p)(tp_symbol payload \<mapsto> snapshot)\<rparr>,
          fire_listeners run snapshot (sj_listeners p) w))"

definition sj_on_bidask ::
  "(nat \<Rightarrow> quote_snapshot \<Rightarrow> 'w \<Rightarrow> 'w \<times> 'e option) \<Rightarrow> datetime \<Rightarrow> bidask_payload \<Rightarrow> shioaji_provider \<Rightarrow> 'w \<Rightarrow>
   shioaji_provider \<times> 'w" where
  "sj_on_bidask run now_utc payload p w =
     (let snapshot = build_snapshot now_utc (bp_symbol payload) (sj_snapshots p (bp_symbol payload))
            (Some (bp_bid_price payload)) (Some (bp_ask_price payload)) None (bp_quote_time payload)
      in (p\<lparr>sj_snapshots := (sj_snapshots p)(bp_symbol payload \<mapsto> snapshot)\<rparr>,
          fire_listeners run snapshot (sj_listeners p) w))"

section \<open>The provider keeps the protocol\<close>

lemma sj_subscribe_Inr:
  assumes "sj_subscribe api s p = Inr p'"
  shows "p' = p\<lparr>sj_subscribed := insert s (sj_subscribed p)\<rparr>" "s \<in> sj_allowed p"
    "s \<in> sj_subscribed p \<or> int (card (sj_subscribed p)) < sj_max p"
  using assms by (auto simp: sj_subscribe_def insert_absorb split: if_split_asm sum.splits)

interpretation sj: quote_provider sj_get_quotes "sj_subscribe api" sj_unsubscribe sj_active_subscriptions
proof unfold_locales
  show "sj_active_subscriptions p' = insert s (sj_active_subscriptions p)"
    if "sj_subscribe api s p = Inr p'" for s p p'
    using sj_subscribe_Inr(1) [OF that] by (simp add: sj_active_subscriptions_def)
  show "sj_active_subscriptions (sj_unsubscribe s p) = sj_active_subscriptions p - {s}" for s p
    by (auto simp: sj_unsubscribe_def sj_active_subscriptions_def)
  show "length qs = length ss" if "sj_get_quotes ss p = Inr qs" for ss p qs
    using that by (simp add: sj_get_quotes_def cached_quotes_Inr_iff)
  show "\<exists>e. sj_get_quotes ss (sj_unsubscribe s p) = Inl e" if "s \<in> sj_active_subscriptions p" "s \<in> set ss" for s p ss
    using that by (simp add: sj_get_quotes_def sj_unsubscribe_def sj_active_subscriptions_def cached_quotes_missing)
qed

text \<open>The demo tier's rules: only allowed symbols, never more than the quota; snapshots filed under their symbol.\<close>

definition sj_wf :: "shioaji_provider \<Rightarrow> bool" where
  "sj_wf p \<longleftrightarrow> finite (sj_subscribed p) \<and> sj_subscribed p \<subseteq> sj_allowed p \<and>
     (sj_subscribed p = {} \<or> int (card (sj_subscribed p)) \<le> sj_max p) \<and>
     (\<forall>s q. sj_snapshots p s = Some q \<longrightarrow> q_symbol q = s)"



lemma sj_init_wf: "sj_wf (sj_init c allowed m)"
  by (simp add: sj_wf_def sj_init_def)

lemma sj_subscribe_wf: "sj_wf p \<Longrightarrow> sj_subscribe api s p = Inr p' \<Longrightarrow> sj_wf p'"
  using sj_subscribe_Inr [of api s p p'] by (auto simp: sj_wf_def insert_absorb card_insert_if)

lemma sj_unsubscribe_wf: "sj_wf p \<Longrightarrow> sj_wf (sj_unsubscribe s p)"
  using card_mono [of "sj_subscribed p" "sj_subscribed p - {s}"]
  by (auto simp: sj_wf_def sj_unsubscribe_def)

lemma sj_startup_wf: "sj_wf p \<Longrightarrow> sj_startup api p = Inr p' \<Longrightarrow> sj_wf p'"
  by (auto simp: sj_wf_def sj_startup_def r_bind_Inr_iff split: if_split_asm)

lemma sj_shutdown_wf: "sj_wf p \<Longrightarrow> sj_shutdown api order p = Inr p' \<Longrightarrow> sj_wf p'"
  by (auto simp: sj_wf_def sj_shutdown_def split: if_split_asm list.splits)

lemma sj_callbacks_wf:
  "sj_wf p \<Longrightarrow> sj_wf (fst (sj_on_tick run t tick p w))"
  "sj_wf p \<Longrightarrow> sj_wf (fst (sj_on_bidask run t ba p w))"
  by (auto simp: sj_wf_def sj_on_tick_def sj_on_bidask_def Let_def build_snapshot_def)

lemma sj_listeners_wf:
  "sj_wf p \<Longrightarrow> sj_wf (sj_add_quote_listener l p)"
  "sj_wf p \<Longrightarrow> sj_wf (sj_remove_quote_listener l p)"
  by (simp_all add: sj_wf_def sj_add_quote_listener_def sj_remove_quote_listener_def)

section \<open>The life of the provider\<close>

text \<open>What the listeners do happens outside the provider; here they are run on the trivial world.\<close>

abbreviation no_effect :: "nat \<Rightarrow> quote_snapshot \<Rightarrow> unit \<Rightarrow> unit \<times> unit option" where
  "no_effect \<equiv> \<lambda>_ _ w. (w, None)"

inductive sj_step :: "shioaji_provider \<Rightarrow> shioaji_provider \<Rightarrow> bool" where
  startup: "sj_startup api p = Inr p' \<Longrightarrow> sj_step p p'"
| shutdown: "sj_shutdown api order p = Inr p' \<Longrightarrow> sj_step p p'"
| subscribe: "sj_subscribe api s p = Inr p' \<Longrightarrow> sj_step p p'"
| unsubscribe: "sj_step p (sj_unsubscribe s p)"
| tick: "sj_step p (fst (sj_on_tick no_effect t payload p ()))"
| bidask: "sj_step p (fst (sj_on_bidask no_effect t payload p ()))"
| add_listener: "sj_step p (sj_add_quote_listener l p)"
| remove_listener: "sj_step p (sj_remove_quote_listener l p)"

lemma sj_config_kept [simp]:
  "sj_allowed (sj_unsubscribe s p) = sj_allowed p" "sj_max (sj_unsubscribe s p) = sj_max p"
  "sj_allowed (fst (sj_on_tick run t tp p w)) = sj_allowed p" "sj_max (fst (sj_on_tick run t tp p w)) = sj_max p"
  "sj_allowed (fst (sj_on_bidask run t bp p w)) = sj_allowed p" "sj_max (fst (sj_on_bidask run t bp p w)) = sj_max p"
  "sj_allowed (sj_add_quote_listener l p) = sj_allowed p" "sj_max (sj_add_quote_listener l p) = sj_max p"
  "sj_allowed (sj_remove_quote_listener l p) = sj_allowed p" "sj_max (sj_remove_quote_listener l p) = sj_max p"
  by (simp_all add: sj_unsubscribe_def sj_on_tick_def sj_on_bidask_def Let_def sj_add_quote_listener_def
      sj_remove_quote_listener_def)

lemma sj_startup_config: "sj_startup api p = Inr p' \<Longrightarrow> sj_allowed p' = sj_allowed p \<and> sj_max p' = sj_max p"
  by (auto simp: sj_startup_def r_bind_Inr_iff split: if_split_asm)

lemma sj_shutdown_config: "sj_shutdown api order p = Inr p' \<Longrightarrow> sj_allowed p' = sj_allowed p \<and> sj_max p' = sj_max p"
  by (auto simp: sj_shutdown_def split: if_split_asm list.splits)

lemma sj_step_wf: "sj_step p p' \<Longrightarrow> sj_wf p \<Longrightarrow> sj_wf p' \<and> sj_allowed p' = sj_allowed p \<and> sj_max p' = sj_max p"
proof (induction rule: sj_step.induct)
  case (startup api p p')
  then show ?case using sj_startup_wf sj_startup_config by simp
next
  case (shutdown api order p p')
  then show ?case using sj_shutdown_wf sj_shutdown_config by simp
next
  case (subscribe api s p p')
  then show ?case using sj_subscribe_wf [of p api s p'] sj_subscribe_Inr(1) [of api s p p'] by simp
qed (simp_all add: sj_unsubscribe_wf sj_callbacks_wf sj_listeners_wf)

text \<open>
  (C34) Whatever happens to the provider after its construction (logins and logouts, subscriptions and
  their release, broker callbacks, listeners), it is only ever subscribed to allowed symbols and never
  to more than the quota, and every cached snapshot is filed under its own symbol.
\<close>

theorem sj_rules_always:
  assumes "sj_step\<^sup>*\<^sup>* (sj_init c allowed m) p" and "0 \<le> m"
  shows "sj_subscribed p \<subseteq> allowed \<and> finite (sj_subscribed p) \<and> int (card (sj_subscribed p)) \<le> m \<and>
    (\<forall>s q. sj_snapshots p s = Some q \<longrightarrow> q_symbol q = s)"
proof -
  from assms(1) have "sj_wf p \<and> sj_allowed p = allowed \<and> sj_max p = m"
  proof (induction rule: rtranclp_induct)
    case base
    show ?case using sj_init_wf by (simp add: sj_init_def)
  qed (use sj_step_wf in fastforce)
  with assms(2) show ?thesis by (auto simp: sj_wf_def)
qed

definition sample_sdk :: sdk where
  "sample_sdk = \<lparr>sdk_login_ok = True, sdk_contract = (\<lambda>_. True), sdk_subscribe_ok = (\<lambda>_. True), sdk_snapshots = (\<lambda>_. None)\<rparr>"

theorem sj_rules_always_witness:
  "\<exists>p. sj_step\<^sup>*\<^sup>* (sj_init \<lparr>cl_logged_in = False\<rparr> DEFAULT_DEMO_ALLOWED_SYMBOLS 5) p \<and> sj_subscribed p = {''2330''} \<and>
     int (card (sj_subscribed p)) \<le> 5"
proof -
  let ?p0 = "sj_init \<lparr>cl_logged_in = False\<rparr> DEFAULT_DEMO_ALLOWED_SYMBOLS 5"
  let ?p1 = "?p0\<lparr>sj_client := \<lparr>cl_logged_in = True\<rparr>, sj_started := True\<rparr>"
  let ?p2 = "?p1\<lparr>sj_subscribed := {''2330''}\<rparr>"
  have "sj_startup sample_sdk ?p0 = Inr ?p1"
    by (simp add: sj_startup_def sj_init_def client_login_def sample_sdk_def)
  moreover have "sj_subscribe sample_sdk ''2330'' ?p1 = Inr ?p2"
    by (simp add: sj_subscribe_def sj_init_def client_subscribe_def resolve_contract_def sample_sdk_def
        DEFAULT_DEMO_ALLOWED_SYMBOLS_def)
  ultimately have "sj_step\<^sup>*\<^sup>* ?p0 ?p2" by (meson converse_rtranclp_into_rtranclp r_into_rtranclp sj_step.startup sj_step.subscribe)
  with sj_rules_always [OF this] show ?thesis by (intro exI [of _ ?p2]) simp
qed

text \<open>
  When a subscription is granted, exactly: the symbol is allowed, and either it is subscribed
  already or the provider is started and logged in, the quota has room, the contract exists and the
  broker accepts; the outcome then adds that symbol and changes nothing else.
\<close>

theorem sj_subscribe_iff:
  "sj_subscribe api s p = Inr p' \<longleftrightarrow>
     s \<in> sj_allowed p \<and> p' = p\<lparr>sj_subscribed := insert s (sj_subscribed p)\<rparr> \<and>
     (s \<in> sj_subscribed p \<or>
      sj_started p \<and> int (card (sj_subscribed p)) < sj_max p \<and> cl_logged_in (sj_client p) \<and>
      sdk_contract api s \<and> sdk_subscribe_ok api s)"
  by (auto simp: sj_subscribe_def client_subscribe_def resolve_contract_def insert_absorb r_bind_Inr_iff
      split: if_split_asm sum.splits)

end
