(* ===== verification/Core_System.thy ===== *)
theory Core_System
  imports Core_Commands Shioaji_Provider
begin

text \<open>
  The new track as one system: a database and a quote provider, started by the application's lifespan
  (\<open>main.py\<close>) and changed by any interleaving of creates, cancels, quotes, lifecycle runs and disabled
  accounts. The contract between the commands and the provider is the locale of the provider protocol.
\<close>

section \<open>Startup\<close>

fun subscribe_all :: "(string \<Rightarrow> 'p \<Rightarrow> 'e + 'p) \<Rightarrow> string list \<Rightarrow> 'p \<Rightarrow> 'e + 'p" where
  "subscribe_all subscribe [] p = Inr p"
| "subscribe_all subscribe (s # ss) p = r_bind (subscribe s p) (subscribe_all subscribe ss)"

text \<open>
  The reconcile of \<open>lifespan\<close>: the lifecycle is run, then every live symbol of both tracks is
  subscribed; the first refusal stops the application. The old track's symbols are an argument.
\<close>

definition lifespan_reconcile ::
  "'p quote_ops \<Rightarrow> ('p \<Rightarrow> quote_error + 'p) \<Rightarrow> datetime \<Rightarrow> string list \<Rightarrow> 'p \<Rightarrow> core_db \<Rightarrow> (quote_error + 'p) \<times> core_db" where
  "lifespan_reconcile ops startup now legacy_symbols p db =
     (case startup p of
        Inl e \<Rightarrow> (Inl e, db)
      | Inr p1 \<Rightarrow>
          (case subscribe_all (qo_subscribe ops) legacy_symbols p1 of
             Inl e \<Rightarrow> (Inl e, db)
           | Inr p2 \<Rightarrow>
               let s = snd (core_lifecycle now (ss_open db));
                   symbols = remdups (map c_symbol (filter (\<lambda>r. c_status r \<in> CANCELLABLE_STATUSES) (db_core (ss_working s))))
               in (subscribe_all (qo_subscribe ops) symbols p2, ss_committed s)))"

section \<open>Steps\<close>

inductive core_step :: "'p quote_ops \<Rightarrow> core_db \<times> 'p \<Rightarrow> core_db \<times> 'p \<Rightarrow> bool" for ops where
  create: "create_execute ops halted limits t i g n now inp p db = (res, db', p', sent) \<Longrightarrow>
    core_step ops (db, p) (db', p')"
| cancel: "cancel_execute ops t xinp p db = (res, db', p', sent) \<Longrightarrow> core_step ops (db, p) (db', p')"
| quote: "dispatch halted t ids q now db = (db', sent) \<Longrightarrow> core_step ops (db, p) (db', p)"
| lifecycle: "core_step ops (db, p) (after_lifecycle now db, p)"
| disable: "core_step ops (db, p) (snd (cancel_active_for_owner u cancelled_by_account_disabled now db), p)"

section \<open>Rows under the steps that create none\<close>

lemma same_rowsI:
  assumes "core_evolves a b" and "map c_id (db_core b) = map c_id (db_core a)"
  shows "active_or_scheduled_symbols b \<subseteq> active_or_scheduled_symbols a"
  by (rule evolves_live_symbols [OF evolves_same_rows [OF assms]])

lemma dispatch_loop_ids:
  assumes "dispatch_loop t ids q now intents db pend sent = (Inr (db', pend'), sent')"
  shows "map c_id (db_core db') = map c_id (db_core db)"
  using assms
proof (induction intents arbitrary: db pend sent)
  case (Cons x xs)
  from Cons.prems obtain d1 p1 ns where one: "dispatch_one t ids q now x db = Inr (d1, p1, ns)"
    and rest: "dispatch_loop t ids q now xs d1 (pend \<or> p1) (sent @ ns) = (Inr (db', pend'), sent')"
    by (auto split: sum.splits prod.splits)
  from dispatch_one_ids [OF one] Cons.IH [OF rest] show ?case by simp
qed simp

lemma after_lifecycle_ids: "map c_id (db_core (after_lifecycle now db)) = map c_id (db_core db)"
proof -
  have "map day_row (db_core (after_lifecycle now db)) = map (lifecycle_day_row now) (map day_row (db_core db))"
    using core_lifecycle_session [of now db] by (auto simp: after_lifecycle_def)
  from arg_cong [OF this, of "map fst"] show ?thesis
    by (simp add: comp_def day_row_def lifecycle_day_row_def)
qed

lemma dispatch_ids:
  assumes "core_inv db"
  shows "map c_id (db_core (fst (dispatch halted t ids q now db))) = map c_id (db_core db)"
proof -
  note L = after_lifecycle_facts [OF assms, of now]
  have *: "map c_id (db_core (fst (snd (dispatch_inner halted t ids q now db)))) \<in>
      {map c_id (db_core db), map c_id (db_core (after_lifecycle now db))}"
    unfolding dispatch_inner_def Let_def after_lifecycle_def [symmetric] L(3)
    by (auto split: sum.splits prod.splits dest: dispatch_loop_ids)
  then show ?thesis by (auto simp: dispatch_def after_lifecycle_ids)
qed

lemma dispatch_safe:
  assumes "core_inv db" and "dispatch halted t ids q now db = (db', sent)"
  shows "core_inv db'" "core_evolves db db'" "map c_id (db_core db') = map c_id (db_core db)"
  using dispatch_inner_safe [OF assms(1)] dispatch_ids [OF assms(1), of halted t ids q now] assms(2)
  by (cases "dispatch_inner halted t ids q now db"; fastforce simp: dispatch_def)+

lemma cancel_owner_ids: "map c_id (db_core (snd (cancel_active_for_owner u s now db))) = map c_id (db_core db)"
  by (simp add: cancel_active_for_owner_def Let_def map_upd_where_frame set_cancelled_as_def)

lemma cancel_ids:
  assumes "cancel t i owner db = Inr (d, db')"
  shows "map c_id (db_core db') = map c_id (db_core db)"
  using assms by (auto simp: cancel_def r_bind_Inr_iff Let_def map_upd_where_frame set_cancelled_def split: if_split_asm)

lemma cancel_symbol_count:
  "count_active_or_scheduled_for_symbol s db = 0 \<longleftrightarrow> s \<notin> active_or_scheduled_symbols db"
  by (auto simp: count_active_or_scheduled_for_symbol_def active_or_scheduled_symbols_def count_where_0_iff)

lemma core_step_safe:
  assumes "core_step ops (db, p) (db', p')" and "core_inv db"
  shows "core_inv db' \<and> core_evolves db db'"
  using assms
proof (induction "(db, p)" "(db', p')" rule: core_step.induct)
  case (create halted limits t i g n now inp res sent)
  from create(2) create(1) show ?case
    by (cases rule: create_execute_cases) (use create(2) in \<open>auto intro: core_evolves_trans\<close>)
next
  case (cancel t xinp res sent)
  then show ?case by (auto simp: cancel_execute_def split: sum.splits intro: cancel_preserves cancel_evolves)
next
  case (quote halted t ids q now sent)
  then show ?case using dispatch_safe by blast
next
  case (lifecycle now)
  then show ?case using after_lifecycle_facts by blast
next
  case (disable u now)
  then show ?case by (auto intro: core_preserved core_monotone)
qed

section \<open>Coverage, once for every provider\<close>

context quote_provider
begin

abbreviation ops :: "(string \<Rightarrow> 'p \<Rightarrow> quote_error + quote_snapshot) option \<Rightarrow> 'p quote_ops" where
  "ops cp \<equiv> \<lparr>qo_get_quotes = get_quotes, qo_current_price = cp, qo_subscribe = subscribe,
     qo_unsubscribe = unsubscribe, qo_active_subscriptions = active_subscriptions\<rparr>"

lemma create_covers:
  assumes "core_inv db" and "active_or_scheduled_symbols db \<subseteq> active_subscriptions p"
    and "create_execute (ops cp) halted limits t i g n now inp p db = (res, db', p', sent)"
  shows "active_or_scheduled_symbols db' \<subseteq> active_subscriptions p'"
  using assms(1,3)
proof (cases rule: create_execute_cases)
  case (failed e)
  then show ?thesis using assms(2) reconcile_create_covers [OF assms(2)] by auto
next
  case (created db1 r0 r)
  have "map c_id (db_core db') = map c_id (db_core db1)"
    using created(18) by (auto split: if_split_asm dest: inline_trigger_ids)
  from same_rowsI [OF created(12) this] have "active_or_scheduled_symbols db' \<subseteq> active_or_scheduled_symbols db1" .
  also have "\<dots> \<subseteq> insert (ci_symbol inp) (active_or_scheduled_symbols db)"
    using created(3) created_row_simps(3) [OF created(5)] by (auto simp: active_or_scheduled_symbols_def)
  also have "\<dots> \<subseteq> active_subscriptions p'"
    using reconcile_create_covers [OF assms(2)] created(17) by simp
  finally show ?thesis .
qed

lemma cancel_covers:
  assumes "core_inv db" and "active_or_scheduled_symbols db \<subseteq> active_subscriptions p"
    and "cancel_execute (ops cp) t xinp p db = (res, db', p', sent)"
  shows "active_or_scheduled_symbols db' \<subseteq> active_subscriptions p'"
proof (cases "cancel t (xi_intent_id xinp) (xi_owner_user_id xinp) db")
  case (Inl e)
  with assms(2,3) show ?thesis by (auto simp: cancel_execute_def)
next
  case (Inr x)
  obtain d d1 where x: "x = (d, d1)" by fastforce
  from Inr x assms(3) have eq: "db' = d1"
    "p' = reconcile_on_terminal unsubscribe (ti_symbol d) (count_active_or_scheduled_for_symbol (ti_symbol d) d1) p"
    by (auto simp: cancel_execute_def reconcile_after_terminal_transition_def)
  have "active_or_scheduled_symbols d1 \<subseteq> active_or_scheduled_symbols db"
    using same_rowsI [OF cancel_evolves [OF assms(1)] cancel_ids] Inr x by blast
  with assms(2) show ?thesis
    unfolding eq by (intro reconcile_terminal_covers) (auto simp: cancel_symbol_count)
qed

lemma step_covers:
  assumes "core_step (ops cp) (db, p) (db', p')" and "core_inv db"
    and "active_or_scheduled_symbols db \<subseteq> active_subscriptions p"
  shows "active_or_scheduled_symbols db' \<subseteq> active_subscriptions p'"
  using assms
proof (induction "(db, p)" "(db', p')" rule: core_step.induct)
  case (create halted limits t i g n now inp res sent)
  then show ?case using create_covers by blast
next
  case (cancel t xinp res sent)
  then show ?case using cancel_covers by blast
next
  case (quote halted t ids q now sent)
  then show ?case using same_rowsI [OF dispatch_safe(2,3)] by blast
next
  case (lifecycle now)
  then show ?case using same_rowsI [OF after_lifecycle_facts(2) after_lifecycle_ids] by blast
next
  case (disable u now)
  then show ?case using same_rowsI [OF cancel_owner_evolves cancel_owner_ids] by blast
qed

lemma reachable_covers:
  assumes "(core_step (ops cp))\<^sup>*\<^sup>* (db, p) (db', p')" and "core_inv db"
    and "active_or_scheduled_symbols db \<subseteq> active_subscriptions p"
  shows "core_inv db' \<and> active_or_scheduled_symbols db' \<subseteq> active_subscriptions p'"
  using assms(1)
proof (induction rule: rtranclp_induct2)
  case (step a b c d)
  then show ?case using core_step_safe [OF step.hyps(2)] step_covers [OF step.hyps(2)] by blast
qed (use assms(2,3) in blast)

lemma subscribe_all_covers:
  "subscribe_all subscribe ss p = Inr p' \<Longrightarrow> active_subscriptions p' = set ss \<union> active_subscriptions p"
  by (induction ss arbitrary: p) (auto simp: r_bind_Inr_iff dest: subscribe_active)

lemma lifespan_covers:
  assumes "core_inv db" and "lifespan_reconcile (ops cp) startup now legacy p db = (Inr p', db')"
  shows "core_inv db' \<and> active_or_scheduled_symbols db' \<subseteq> active_subscriptions p'"
proof -
  note L = after_lifecycle_facts [OF assms(1), of now]
  from assms(2) obtain p2 where p2: "db' = after_lifecycle now db"
    "subscribe_all subscribe (remdups (map c_symbol
       (filter (\<lambda>r. c_status r \<in> CANCELLABLE_STATUSES) (db_core (after_lifecycle now db))))) p2 = Inr p'"
    unfolding lifespan_reconcile_def Let_def after_lifecycle_def [symmetric] L(3) by (auto split: sum.splits)
  from subscribe_all_covers [OF p2(2)] L(1) show ?thesis
    by (auto simp: active_or_scheduled_symbols_def p2(1))
qed

end

section \<open>Every trigger is announced once\<close>

definition notified :: "core_db \<Rightarrow> uuid list" where
  "notified db = List.map_filter n_trade_intent_core_id (db_notifications db)"

lemma sent_match_notified:
  assumes "sent_match db db' ns"
  shows "\<exists>is. map tg_trade_intent_id (db_triggers db') = map tg_trade_intent_id (db_triggers db) @ is \<and>
    notified db' = notified db @ is"
proof -
  from assms obtain gs where g: "db_triggers db' = db_triggers db @ gs" "db_notifications db' = db_notifications db @ ns"
    "list_all2 (\<lambda>g n. n_trade_intent_core_id n = Some (tg_trade_intent_id g)) gs ns" by (auto simp: sent_match_def)
  from g(3) have "List.map_filter n_trade_intent_core_id ns = map tg_trade_intent_id gs"
    by (induction rule: list_all2_induct) (simp_all add: List.map_filter_def)
  then show ?thesis using g(1,2) by (simp add: notified_def List.map_filter_def)
qed

lemma dispatch_match:
  assumes "core_inv db" and "dispatch halted t ids q now db = (db', sent)"
  shows "\<exists>ns. sent_match db db' ns"
proof -
  note L = after_lifecycle_facts [OF assms(1), of now]
  have base: "sent_match db (after_lifecycle now db) []" using L(4,5) by (simp add: sent_match_def)
  have loop: "sent_match db d ns" if "sent_match (after_lifecycle now db) d ns" for d ns
    using sent_match_trans [OF base that] by simp
  have "db' = db \<or> db' = after_lifecycle now db \<or> (\<exists>intents pend ns.
      dispatch_loop t ids q now intents (after_lifecycle now db) False [] = (Inr (db', pend), ns))"
    using assms(2) unfolding dispatch_def dispatch_inner_def Let_def after_lifecycle_def [symmetric] L(3)
    by (auto split: if_split_asm sum.splits prod.splits)
  then show ?thesis
    using base loop dispatch_loop_Inr [OF L(1)] sent_match_refl by blast
qed

lemma core_step_match:
  assumes "core_step ops (db, p) (db', p')" and "core_inv db"
  shows "\<exists>ns. sent_match db db' ns"
  using assms
proof (induction "(db, p)" "(db', p')" rule: core_step.induct)
  case (create halted limits t i g n now inp res sent)
  from create(2) create(1) show ?case
    by (cases rule: create_execute_cases) (auto intro: sent_match_refl)
next
  case (cancel t xinp res sent)
  then have "db_triggers db' = db_triggers db \<and> db_notifications db' = db_notifications db"
    by (auto simp: cancel_execute_def cancel_def r_bind_Inr_iff Let_def r_bind_Inl_iff split: sum.splits if_split_asm)
  then have "sent_match db db' []" by (simp add: sent_match_def)
  then show ?case by blast
next
  case (quote halted t ids q now sent)
  then show ?case using dispatch_match by blast
next
  case (lifecycle now)
  then have "sent_match db (after_lifecycle now db) []"
    using after_lifecycle_facts(4,5) [of db now] by (auto simp: sent_match_def)
  then show ?case using lifecycle by blast
next
  case (disable u now)
  have "sent_match db (snd (cancel_active_for_owner u cancelled_by_account_disabled now db)) []"
    by (simp add: sent_match_def cancel_active_for_owner_def Let_def)
  then show ?case using disable by blast
qed

section \<open>The system with the broker\<close>

definition sj_ops :: "sdk \<Rightarrow> shioaji_provider quote_ops" where
  "sj_ops api = \<lparr>qo_get_quotes = sj_get_quotes, qo_current_price = Some (sj_get_current_price api),
     qo_subscribe = sj_subscribe api, qo_unsubscribe = sj_unsubscribe,
     qo_active_subscriptions = sj_active_subscriptions\<rparr>"

text \<open>A run: any number of steps, the broker answering each time as it likes.\<close>

abbreviation core_run :: "core_db \<times> shioaji_provider \<Rightarrow> core_db \<times> shioaji_provider \<Rightarrow> bool" where
  "core_run \<equiv> (\<lambda>x y. \<exists>api. core_step (sj_ops api) x y)\<^sup>*\<^sup>*"

lemma core_run_safe:
  assumes "core_run (db, p) (db', p')" and "core_inv db"
  shows "core_inv db' \<and> core_evolves db db' \<and>
    (\<exists>is. map tg_trade_intent_id (db_triggers db') = map tg_trade_intent_id (db_triggers db) @ is \<and>
      notified db' = notified db @ is)"
  using assms(1)
proof (induction rule: rtranclp_induct2)
  case refl
  show ?case using assms(2) by simp
next
  case (step a b c d)
  then obtain api where st: "core_step (sj_ops api) (a, b) (c, d)" by blast
  from step.IH have inv: "core_inv a" by blast
  obtain ns where "sent_match a c ns" using core_step_match [OF st inv] by blast
  from sent_match_notified [OF this] step.IH core_step_safe [OF st inv] show ?case
    using core_evolves_trans [of db a c] by auto
qed

lemma core_run_covers:
  assumes "core_run (db, p) (db', p')" and "core_inv db" and "active_or_scheduled_symbols db \<subseteq> sj_subscribed p"
  shows "active_or_scheduled_symbols db' \<subseteq> sj_subscribed p'"
  using assms(1)
proof (induction rule: rtranclp_induct2)
  case refl
  show ?case by (rule assms(3))
next
  case (step a b c d)
  then obtain api where st: "core_step (sj_ops api) (a, b) (c, d)" by blast
  have "core_inv a" using core_run_safe [OF step.hyps(1) assms(2)] by blast
  with sj.step_covers [OF st [unfolded sj_ops_def]] step.IH show ?case
    by (simp add: sj_active_subscriptions_def)
qed


lemma sample_lifespan:
  "\<exists>p1. lifespan_reconcile (sj_ops sample_sdk) (sj_startup sample_sdk) sample_now []
     (sj_init \<lparr>cl_logged_in = False\<rparr> DEFAULT_DEMO_ALLOWED_SYMBOLS 5) sample_db = (Inr p1, sample_db)"
  unfolding lifespan_reconcile_def Let_def after_lifecycle_def [symmetric]
    after_lifecycle_facts(3) [OF sample_db_inv] sample_after_lifecycle
  by (simp add: sj_ops_def sj_startup_def sj_init_def client_login_def sample_sdk_def sample_db_def sample_row_def
      CANCELLABLE_STATUSES_def sj_subscribe_def client_subscribe_def resolve_contract_def DEFAULT_DEMO_ALLOWED_SYMBOLS_def)



lemma sample_run:
  "\<exists>db' sent. dispatch False 5 (\<lambda>i. (i, i)) sample_quote sample_now sample_db = (db', sent) \<and>
     core_run (sample_db, p) (db', p) \<and> statuses db' = [(1, triggered)]"
proof -
  have hyps: "trail_pairs sample_db" "quote_sized sample_quote"
    by (simp_all add: trail_pairs_def sample_db_def quote_sized_def sample_quote_def fits_def dval_def dint_def)
  from dispatch_inner_total [OF sample_db_inv hyps sample_fresh, of 5 sample_now] obtain db' sent where
    d: "dispatch_inner False 5 (\<lambda>i. (i, i)) sample_quote sample_now sample_db = (Inr (), db', sent)"
    and st: "statuses db' = [(1, triggered)]"
    by (auto simp: sample_after_lifecycle sample_db_simps sample_triggered)
  then have d': "dispatch False 5 (\<lambda>i. (i, i)) sample_quote sample_now sample_db = (db', sent)" by (simp add: dispatch_def)
  then have "core_run (sample_db, p) (db', p)" by (intro r_into_rtranclp exI core_step.quote)
  with d' st show ?thesis by blast
qed




end
