(* ===== verification/Audit_Trail.thy ===== *)
theory Audit_Trail
  imports Exceptions
begin

text \<open>
  \<open>services/audit.py\<close> and the \<open>audit_events\<close> table: every state change of the operators' side writes a
  row into the transaction that makes the change.
\<close>

text \<open>The values of the \<open>metadata\<close> document: texts, counts and identifiers rendered by \<open>str\<close>.\<close>

datatype meta_value = MStr string | MInt int | MUuid uuid

datatype actor_type = actor_user | actor_system | actor_admin

record audit_row =
  au_id :: uuid
  au_event_type :: string
  au_actor_type :: actor_type
  au_actor_id :: "uuid option"
  au_occurred_at :: datetime
  au_metadata :: "(string \<times> meta_value) list"
  au_request_id :: "string option"

text \<open>\<open>write\<close> adds the row and flushes; the identifier is drawn by the caller of the model.\<close>

definition audit_write ::
  "uuid \<Rightarrow> string \<Rightarrow> actor_type \<Rightarrow> uuid option \<Rightarrow> (string \<times> meta_value) list \<Rightarrow> string option \<Rightarrow> datetime \<Rightarrow>
   audit_row list \<Rightarrow> exn + audit_row list" where
  "audit_write new_id event_type actor actor_id metadata request_id now rows =
     (if new_id \<in> au_id ` set rows then Inl (ExIntegrity pk_violation)
      else Inr (rows @ [\<lparr>au_id = new_id, au_event_type = event_type, au_actor_type = actor, au_actor_id = actor_id,
             au_occurred_at = now, au_metadata = metadata, au_request_id = request_id\<rparr>]))"

lemma audit_write_Inr_iff:
  "audit_write i ev act aid md rid now rows = Inr rows' \<longleftrightarrow>
     i \<notin> au_id ` set rows \<and> rows' = rows @ [\<lparr>au_id = i, au_event_type = ev, au_actor_type = act, au_actor_id = aid,
       au_occurred_at = now, au_metadata = md, au_request_id = rid\<rparr>]"
  by (auto simp: audit_write_def)

end
