(* ===== verification/Kill_Switch.thy ===== *)
theory Kill_Switch
  imports Core_Commands Audit_Trail
begin

text \<open>
  \<open>services/kill_switch.py\<close>, \<open>repositories/system_flag_repository.py\<close>, \<open>commands/kill_switch.py\<close>: the
  global trigger halt. The flag is a row of the database; the provider caches it under a lock for
  \<open>ttl\<close> microseconds of the monotonic clock; the toggle command commits, then drops the cache.
\<close>

section \<open>The source\<close>

record flag_row =
  fl_flag_key :: string
  fl_enabled :: bool
  fl_updated_by :: "uuid option"
  fl_updated_at :: datetime
  fl_reason :: "string option"

record kill_switch_state =
  ks_enabled :: bool
  ks_reason :: "string option"
  ks_updated_at :: "datetime option"
  ks_updated_by :: "uuid option"

record ops_db =
  od_users :: "uuid list"
  od_flags :: "flag_row list"
  od_audit :: "audit_row list"

definition GLOBAL_TRIGGER_HALT :: string where
  "GLOBAL_TRIGGER_HALT = ''global_trigger_halt''"

definition is_enabled :: "string \<Rightarrow> ops_db \<Rightarrow> exn + bool" where
  "is_enabled flag_key db =
     r_bind (one_or_none (map fl_enabled (filter (\<lambda>r. fl_flag_key r = flag_key) (od_flags db)))) (\<lambda>v.
       Inr (case v of None \<Rightarrow> False | Some b \<Rightarrow> b))"

definition get_state :: "string \<Rightarrow> ops_db \<Rightarrow> exn + kill_switch_state" where
  "get_state flag_key db =
     r_bind (one_or_none (filter (\<lambda>r. fl_flag_key r = flag_key) (od_flags db))) (\<lambda>row.
       Inr (case row of
              None \<Rightarrow> \<lparr>ks_enabled = False, ks_reason = None, ks_updated_at = None, ks_updated_by = None\<rparr>
            | Some r \<Rightarrow> \<lparr>ks_enabled = fl_enabled r, ks_reason = fl_reason r,
                         ks_updated_at = Some (fl_updated_at r), ks_updated_by = fl_updated_by r\<rparr>))"

text \<open>\<open>INSERT ... ON CONFLICT (flag_key) DO UPDATE\<close>; the admin must exist.\<close>

definition upsert :: "string \<Rightarrow> bool \<Rightarrow> uuid \<Rightarrow> string \<Rightarrow> datetime \<Rightarrow> ops_db \<Rightarrow> exn + ops_db" where
  "upsert flag_key enabled updated_by reason now db =
     (let row = \<lparr>fl_flag_key = flag_key, fl_enabled = enabled, fl_updated_by = Some updated_by,
                 fl_updated_at = now, fl_reason = Some reason\<rparr>
      in if updated_by \<notin> set (od_users db) then Inl (ExIntegrity fk_violation)
         else if flag_key \<in> fl_flag_key ` set (od_flags db)
         then Inr (db\<lparr>od_flags := upd_where (\<lambda>r. fl_flag_key r = flag_key)
                (\<lambda>r. r\<lparr>fl_enabled := enabled, fl_updated_by := Some updated_by, fl_updated_at := now,
                        fl_reason := Some reason\<rparr>) (od_flags db)\<rparr>)
         else Inr (db\<lparr>od_flags := od_flags db @ [row]\<rparr>))"

text \<open>The provider's cache: the value and the instant it is good until.\<close>

record kill_switch_provider =
  kp_ttl :: int
  kp_cached :: "(bool \<times> int) option"

definition kp_init :: "int \<Rightarrow> kill_switch_provider" where
  "kp_init ttl = \<lparr>kp_ttl = ttl, kp_cached = None\<rparr>"

text \<open>\<open>is_halted\<close> in its two parts: the lookup in the cache, and the store of what the database said.\<close>

definition cache_lookup :: "int \<Rightarrow> kill_switch_provider \<Rightarrow> bool option" where
  "cache_lookup now p = (case kp_cached p of
      Some (v, until) \<Rightarrow> if now < until then Some v else None
    | None \<Rightarrow> None)"

definition cache_store :: "int \<Rightarrow> bool \<Rightarrow> kill_switch_provider \<Rightarrow> kill_switch_provider" where
  "cache_store now v p = p\<lparr>kp_cached := Some (v, now + kp_ttl p)\<rparr>"

definition is_halted :: "int \<Rightarrow> ops_db \<Rightarrow> kill_switch_provider \<Rightarrow> exn + bool \<times> kill_switch_provider" where
  "is_halted now db p = (case cache_lookup now p of
      Some v \<Rightarrow> Inr (v, p)
    | None \<Rightarrow> r_bind (is_enabled GLOBAL_TRIGGER_HALT db) (\<lambda>v. Inr (v, cache_store now v p)))"

definition invalidate :: "kill_switch_provider \<Rightarrow> kill_switch_provider" where
  "invalidate p = p\<lparr>kp_cached := None\<rparr>"

record set_kill_switch_input =
  sk_enabled :: bool
  sk_reason :: string
  sk_actor_admin_id :: uuid
  sk_now :: datetime
  sk_request_id :: "string option"

text \<open>The command: both writes commit or neither does; the cache is dropped after the commit.\<close>

definition set_kill_switch ::
  "uuid \<Rightarrow> set_kill_switch_input \<Rightarrow> ops_db \<Rightarrow> kill_switch_provider option \<Rightarrow>
   (exn + unit) \<times> ops_db \<times> kill_switch_provider option" where
  "set_kill_switch audit_id inp db p =
     (case r_bind (upsert GLOBAL_TRIGGER_HALT (sk_enabled inp) (sk_actor_admin_id inp) (sk_reason inp) (sk_now inp) db) (\<lambda>db1.
           r_bind (audit_write audit_id (if sk_enabled inp then ''kill_switch_enabled'' else ''kill_switch_disabled'')
             actor_admin (Some (sk_actor_admin_id inp)) [(''reason'', MStr (sk_reason inp))] (sk_request_id inp) (sk_now inp)
             (od_audit db1)) (\<lambda>rows. Inr (db1\<lparr>od_audit := rows\<rparr>))) of
        Inl e \<Rightarrow> (Inl e, db, p)
      | Inr db2 \<Rightarrow> (Inr (), db2, map_option invalidate p))"

section \<open>The flag\<close>

definition flags_ok :: "ops_db \<Rightarrow> bool" where
  "flags_ok db \<longleftrightarrow> distinct (map fl_flag_key (od_flags db))"

definition flag_value :: "string \<Rightarrow> ops_db \<Rightarrow> bool" where
  "flag_value k db = (case find_row (\<lambda>r. fl_flag_key r = k) (od_flags db) of None \<Rightarrow> False | Some r \<Rightarrow> fl_enabled r)"

lemma is_enabled_eq:
  assumes "flags_ok db"
  shows "is_enabled k db = Inr (flag_value k db)"
proof (cases "find_row (\<lambda>r. fl_flag_key r = k) (od_flags db)")
  case None
  then have "filter (\<lambda>r. fl_flag_key r = k) (od_flags db) = []" by (simp add: find_row_None_iff filter_empty_conv)
  with None show ?thesis by (simp add: is_enabled_def one_or_none_def flag_value_def)
next
  case (Some r)
  from find_row_SomeD [OF Some] filter_key [OF assms [unfolded flags_ok_def], of r] Some show ?thesis
    by (auto simp: is_enabled_def one_or_none_def flag_value_def)
qed

lemma upsert_Inr:
  assumes "flags_ok db" and "upsert k b u reason now db = Inr db'"
  shows "flags_ok db'" "flag_value k db' = b" "j \<noteq> k \<Longrightarrow> flag_value j db' = flag_value j db"
    "od_audit db' = od_audit db"
proof -
  let ?row = "\<lparr>fl_flag_key = k, fl_enabled = b, fl_updated_by = Some u, fl_updated_at = now, fl_reason = Some reason\<rparr>"
  have "flags_ok db' \<and> flag_value k db' = b \<and> (j \<noteq> k \<longrightarrow> flag_value j db' = flag_value j db) \<and> od_audit db' = od_audit db"
  proof (cases "k \<in> fl_flag_key ` set (od_flags db)")
    case True
    let ?f = "\<lambda>r. r\<lparr>fl_enabled := b, fl_updated_by := Some u, fl_updated_at := now, fl_reason := Some reason\<rparr>"
    from True assms(2) have db': "db' = db\<lparr>od_flags := upd_where (\<lambda>r. fl_flag_key r = k) ?f (od_flags db)\<rparr>"
      by (auto simp: upsert_def Let_def split: if_split_asm)
    have "map fl_flag_key (od_flags db') = map fl_flag_key (od_flags db)"
      by (simp add: db' map_upd_where_frame)
    moreover have "flag_value i db' = (if i = k then b else flag_value i db)" for i
    proof -
      have "find_row (\<lambda>r. fl_flag_key r = i) (od_flags db') =
          map_option (\<lambda>r. if fl_flag_key r = k then ?f r else r) (find_row (\<lambda>r. fl_flag_key r = i) (od_flags db))"
        by (simp add: db' find_row_upd_where)
      moreover have "find_row (\<lambda>r. fl_flag_key r = k) (od_flags db) \<noteq> None" using True by (auto simp: find_row_None_iff)
      ultimately show ?thesis
        by (cases "find_row (\<lambda>r. fl_flag_key r = i) (od_flags db)") (auto simp: flag_value_def dest: find_row_SomeD)
    qed
    ultimately show ?thesis using assms(1) by (simp add: flags_ok_def db')
  next
    case False
    with assms(2) have db': "db' = db\<lparr>od_flags := od_flags db @ [?row]\<rparr>"
      by (auto simp: upsert_def Let_def split: if_split_asm)
    have none: "find_row (\<lambda>r. fl_flag_key r = k) (od_flags db) = None" using False by (auto simp: find_row_None_iff)
    have "find_row (\<lambda>r. fl_flag_key r = i) (od_flags db @ [?row]) =
        (if i = k then Some ?row else find_row (\<lambda>r. fl_flag_key r = i) (od_flags db))" for i
      using none by (auto simp: find_row_append split: option.splits)
    then show ?thesis using assms(1) False by (auto simp: flags_ok_def flag_value_def db')
  qed
  then show "flags_ok db'" "flag_value k db' = b" "j \<noteq> k \<Longrightarrow> flag_value j db' = flag_value j db"
    "od_audit db' = od_audit db" by blast+
qed

text \<open>
  The toggle command: it either fails and changes neither the flag, nor the audit trail, nor the
  cache, or it sets the flag, leaves every other flag, adds exactly one audit row of the right type, and
  the next question, at whatever time, is answered by the new value; when that is a halt, a quote then
  changes nothing on the new track and sends nothing.
\<close>

theorem set_kill_switch_effect:
  assumes "flags_ok db"
  shows "(\<exists>e. set_kill_switch aid inp db (Some p) = (Inl e, db, Some p)) \<or>
    (\<exists>db' p' p'' row. set_kill_switch aid inp db (Some p) = (Inr (), db', Some p') \<and> flags_ok db' \<and>
       flag_value GLOBAL_TRIGGER_HALT db' = sk_enabled inp \<and>
       (k = GLOBAL_TRIGGER_HALT \<or> flag_value k db' = flag_value k db) \<and>
       od_audit db' = od_audit db @ [row] \<and>
       au_event_type row = (if sk_enabled inp then ''kill_switch_enabled'' else ''kill_switch_disabled'') \<and>
       au_actor_id row = Some (sk_actor_admin_id inp) \<and>
       is_halted t db' p' = Inr (sk_enabled inp, p'') \<and>
       (\<not> sk_enabled inp \<or> dispatch (sk_enabled inp) tx ids q now core = (core, [])))"
proof -
  let ?x = "r_bind (upsert GLOBAL_TRIGGER_HALT (sk_enabled inp) (sk_actor_admin_id inp) (sk_reason inp) (sk_now inp) db) (\<lambda>db1.
     r_bind (audit_write aid (if sk_enabled inp then ''kill_switch_enabled'' else ''kill_switch_disabled'')
       actor_admin (Some (sk_actor_admin_id inp)) [(''reason'', MStr (sk_reason inp))] (sk_request_id inp) (sk_now inp)
       (od_audit db1)) (\<lambda>rows. Inr (db1\<lparr>od_audit := rows\<rparr>)))"
  show ?thesis
  proof (cases ?x)
    case (Inl e)
    then show ?thesis by (simp add: set_kill_switch_def)
  next
    case (Inr db2)
    then obtain db1 rows where up: "upsert GLOBAL_TRIGGER_HALT (sk_enabled inp) (sk_actor_admin_id inp) (sk_reason inp) (sk_now inp) db = Inr db1"
      and wr: "audit_write aid (if sk_enabled inp then ''kill_switch_enabled'' else ''kill_switch_disabled'')
        actor_admin (Some (sk_actor_admin_id inp)) [(''reason'', MStr (sk_reason inp))] (sk_request_id inp) (sk_now inp)
        (od_audit db1) = Inr rows" and db2: "db2 = db1\<lparr>od_audit := rows\<rparr>"
      by (auto simp: r_bind_Inr_iff)
    define row where "row = \<lparr>au_id = aid,
      au_event_type = (if sk_enabled inp then ''kill_switch_enabled'' else ''kill_switch_disabled''),
      au_actor_type = actor_admin, au_actor_id = Some (sk_actor_admin_id inp), au_occurred_at = sk_now inp,
      au_metadata = [(''reason'', MStr (sk_reason inp))], au_request_id = sk_request_id inp\<rparr>"
    have row: "db2 = db1\<lparr>od_audit := od_audit db1 @ [row]\<rparr>" "au_actor_id row = Some (sk_actor_admin_id inp)"
      "au_event_type row = (if sk_enabled inp then ''kill_switch_enabled'' else ''kill_switch_disabled'')"
      using wr db2 by (simp_all add: audit_write_Inr_iff row_def)
    note U = upsert_Inr [OF assms up]
    have f: "flags_ok db2" "flag_value j db2 = flag_value j db1" for j
      using U(1) row(1) by (simp_all add: flags_ok_def flag_value_def)
    have "is_halted t db2 (invalidate p) = Inr (sk_enabled inp, cache_store t (sk_enabled inp) (invalidate p))"
      using is_enabled_eq [OF f(1)] U(2) f(2) by (simp add: is_halted_def cache_lookup_def invalidate_def)
    moreover have "set_kill_switch aid inp db (Some p) = (Inr (), db2, Some (invalidate p))"
      using Inr by (simp add: set_kill_switch_def)
    moreover have "dispatch True tx ids q now core = (core, [])" by (simp add: dispatch_def dispatch_inner_def)
    ultimately show ?thesis using U f row by (cases "sk_enabled inp") auto
  qed
qed

theorem set_kill_switch_effect_witness:
  "\<exists>db' p' p''. set_kill_switch 9 \<lparr>sk_enabled = True, sk_reason = ''stop'', sk_actor_admin_id = 7, sk_now = 0, sk_request_id = None\<rparr>
     \<lparr>od_users = [7], od_flags = [], od_audit = []\<rparr> (Some (kp_init 30)) = (Inr (), db', Some p') \<and>
     is_halted 5 db' p' = Inr (True, p'')"
proof -
  let ?inp = "\<lparr>sk_enabled = True, sk_reason = ''stop'', sk_actor_admin_id = 7, sk_now = 0, sk_request_id = None\<rparr>"
  let ?db = "\<lparr>od_users = [7], od_flags = [], od_audit = []\<rparr>"
  have "flags_ok ?db" by (simp add: flags_ok_def)
  moreover have "fst (set_kill_switch 9 ?inp ?db (Some (kp_init 30))) = Inr ()"
    by (simp add: set_kill_switch_def upsert_def audit_write_def)
  ultimately show ?thesis
    using set_kill_switch_effect [of ?db 9 ?inp "kp_init 30" GLOBAL_TRIGGER_HALT 5 0 "\<lambda>i. (i, i)" sample_quote 0 sample_db]
    by auto
qed

section \<open>Concurrent readers\<close>

text \<open>
  \<open>is_halted\<close> holds the lock from the lookup to the store, but the database read in between sees
  whatever is committed then, and the toggle commits without the lock. A world holds the committed
  database, the provider, and what the thread that holds the lock has read.
\<close>

record halt_world =
  hw_db :: ops_db
  hw_provider :: kill_switch_provider
  hw_reading :: "(int \<times> bool) option"

text \<open>One step of a reader, or the cache being dropped; the label is the answer given, if any.\<close>

inductive reader_step :: "halt_world \<Rightarrow> bool option \<Rightarrow> halt_world \<Rightarrow> bool" where
  hit: "hw_reading w = None \<Longrightarrow> cache_lookup now (hw_provider w) = Some v \<Longrightarrow> reader_step w (Some v) w"
| read: "hw_reading w = None \<Longrightarrow> cache_lookup now (hw_provider w) = None \<Longrightarrow>
    is_enabled GLOBAL_TRIGGER_HALT (hw_db w) = Inr v \<Longrightarrow> reader_step w None (w\<lparr>hw_reading := Some (now, v)\<rparr>)"
| store: "hw_reading w = Some (now, v) \<Longrightarrow>
    reader_step w (Some v) (w\<lparr>hw_provider := cache_store now v (hw_provider w), hw_reading := None\<rparr>)"
| drop: "hw_reading w = None \<Longrightarrow> reader_step w None (w\<lparr>hw_provider := invalidate (hw_provider w)\<rparr>)"

inductive reader_run :: "halt_world \<Rightarrow> bool list \<Rightarrow> halt_world \<Rightarrow> bool" where
  none: "reader_run w [] w"
| silent: "reader_step w None w' \<Longrightarrow> reader_run w' as w'' \<Longrightarrow> reader_run w as w''"
| answer: "reader_step w (Some v) w' \<Longrightarrow> reader_run w' as w'' \<Longrightarrow> reader_run w (v # as) w''"

text \<open>Everything the readers hold agrees with the committed flag.\<close>

definition fresh_world :: "bool \<Rightarrow> halt_world \<Rightarrow> bool" where
  "fresh_world b w \<longleftrightarrow> flags_ok (hw_db w) \<and> flag_value GLOBAL_TRIGGER_HALT (hw_db w) = b \<and>
     (\<forall>v t. kp_cached (hw_provider w) = Some (v, t) \<longrightarrow> v = b) \<and> (\<forall>t v. hw_reading w = Some (t, v) \<longrightarrow> v = b)"

lemma reader_step_db: "reader_step w a w' \<Longrightarrow> hw_db w' = hw_db w"
  by (induction rule: reader_step.induct) simp_all

lemma reader_run_db: "reader_run w as w' \<Longrightarrow> hw_db w' = hw_db w"
  by (induction rule: reader_run.induct) (metis reader_step_db)+

lemma reader_step_fresh:
  "reader_step w a w' \<Longrightarrow> fresh_world b w \<Longrightarrow> fresh_world b w' \<and> (a = None \<or> a = Some b)"
proof (induction rule: reader_step.induct)
  case (hit w now v)
  then obtain t where "kp_cached (hw_provider w) = Some (v, t)"
    by (auto simp: cache_lookup_def split: option.split_asm if_split_asm)
  then show ?case using hit(3) by (simp add: fresh_world_def)
next
  case (read w now v)
  then show ?case by (auto simp: fresh_world_def is_enabled_eq)
qed (auto simp: fresh_world_def cache_store_def invalidate_def)

lemma reader_run_fresh: "reader_run w as w' \<Longrightarrow> fresh_world b w \<Longrightarrow> list_all (\<lambda>a. a = b) as"
proof (induction rule: reader_run.induct)
  case (silent w w' as w'')
  then show ?case using reader_step_fresh [OF silent(1)] by simp
next
  case (answer w v w' as w'')
  then show ?case using reader_step_fresh [OF answer(1)] by simp
qed simp



end
