(* ===== verification/Keyset.thy ===== *)
theory Keyset
  imports Exceptions "HOL-Library.Product_Lexorder"
begin

text \<open>
  Keyset pagination, shared by the intent list and the inbox: a page is the first rows, in key order,
  after the cursor's row. The interface is a locale: the SQL condition "after the anchor" agrees with
  the \<open>ORDER BY\<close> key, and the key ends in the identifier. Inside it, following the cursors from the
  first page enumerates every matching row exactly once, in order.
\<close>

section \<open>Pages\<close>

text \<open>\<open>LIMIT page_size + 1\<close>: one row more tells whether there is a next page.\<close>

definition keyset_page ::
  "('r \<Rightarrow> 'k :: linorder) \<Rightarrow> ('r \<Rightarrow> uuid) \<Rightarrow> ('r \<Rightarrow> 'r \<Rightarrow> bool) \<Rightarrow> 'r option \<Rightarrow> nat \<Rightarrow> 'r list \<Rightarrow> 'r list \<times> uuid option" where
  "keyset_page key rid after anchor page_size rows =
     (let stmt = sort_key key (case anchor of None \<Rightarrow> rows | Some a \<Rightarrow> filter (after a) rows);
          fetched = take (page_size + 1) stmt;
          has_more = page_size < length fetched;
          page = take page_size fetched
      in (page, if has_more \<and> page \<noteq> [] then Some (rid (last page)) else None))"

text \<open>The client's loop: ask for pages until no cursor comes back.\<close>

fun walk_pages :: "nat \<Rightarrow> (uuid option \<Rightarrow> exn + 'a list \<times> uuid option) \<Rightarrow> uuid option \<Rightarrow> exn + 'a list" where
  "walk_pages 0 fetch cursor = Inr []"
| "walk_pages (Suc n) fetch cursor =
     r_bind (fetch cursor) (\<lambda>(page, next). case next of
       None \<Rightarrow> Inr page
     | Some c \<Rightarrow> r_bind (walk_pages n fetch (Some c)) (\<lambda>rest. Inr (page @ rest)))"

lemma map_sort_key: "map f (sort_key (\<lambda>x. k (f x)) xs) = sort_key k (map f xs)"
proof -
  have ins: "map f (insort_key (\<lambda>x. k (f x)) x ys) = insort_key k (f x) (map f ys)" for x ys
    by (induction ys) auto
  show ?thesis by (induction xs) (simp_all add: ins)
qed

lemma page_subset: "set (fst (keyset_page key rid after anchor n rows)) \<subseteq> set rows"
proof -
  have "set (sort_key key (case anchor of None \<Rightarrow> rows | Some a \<Rightarrow> filter (after a) rows)) \<subseteq> set rows"
    by (auto split: option.splits)
  then show ?thesis unfolding keyset_page_def Let_def fst_conv by (meson in_set_takeD subset_iff)
qed

section \<open>The contract\<close>

locale keyset_listing =
  fixes key :: "'r \<Rightarrow> 'k :: linorder"
    and rid :: "'r \<Rightarrow> uuid"
    and after :: "'r \<Rightarrow> 'r \<Rightarrow> bool"
  assumes after_iff: "after a r \<longleftrightarrow> key a < key r"
    and key_rid: "key a = key b \<Longrightarrow> rid a = rid b"
begin

lemma sort_filter: "sort_key key (filter p rows) = filter p (sort_key key rows)"
  by (simp add: filter_sort)

lemma sorted_after:
  assumes "distinct (map rid rows)" and "xs = sort_key key rows" and "i < length xs"
  shows "filter (after (xs ! i)) xs = drop (Suc i) xs"
proof -
  have srt: "sorted (map key xs)" by (simp add: assms(2))
  have inj: "inj_on rid (set xs)" using assms(1) by (simp add: assms(2) distinct_map)
  have d: "distinct xs" using assms(1) by (auto simp: assms(2) distinct_map)
  have lt: "key (xs ! i) < key (xs ! j)" if "i < j" "j < length xs" for j
  proof -
    have "key (xs ! i) \<le> key (xs ! j)" using sorted_nth_mono [OF srt, of i j] that by simp
    moreover have "key (xs ! i) \<noteq> key (xs ! j)"
    proof
      assume "key (xs ! i) = key (xs ! j)"
      from inj_onD [OF inj key_rid [OF this]] that have "xs ! i = xs ! j" by simp
      with d that show False by (simp add: nth_eq_iff_index_eq)
    qed
    ultimately show ?thesis by simp
  qed
  have ge: "\<not> key (xs ! i) < key (xs ! j)" if "j \<le> i" for j
    using sorted_nth_mono [OF srt that] assms(3) that by (simp add: not_less)
  have "xs = take (Suc i) xs @ drop (Suc i) xs" by simp
  then have "filter (after (xs ! i)) xs = filter (after (xs ! i)) (take (Suc i) xs) @ filter (after (xs ! i)) (drop (Suc i) xs)"
    by (metis filter_append)
  moreover have "filter (after (xs ! i)) (take (Suc i) xs) = []"
    using ge by (auto simp: filter_empty_conv after_iff in_set_conv_nth)
  moreover have "filter (after (xs ! i)) (drop (Suc i) xs) = drop (Suc i) xs"
    using lt by (auto simp: filter_id_conv after_iff in_set_conv_nth)
  ultimately show ?thesis by simp
qed

text \<open>The page after the first \<open>k\<close> rows, and where its cursor points.\<close>

lemma page_at:
  assumes "distinct (map rid rows)" and "xs = sort_key key rows" and "k \<le> length xs"
    and "anchor = (if k = 0 then None else Some (xs ! (k - 1)))"
  shows "keyset_page key rid after anchor n rows =
    (take n (drop k xs), if 0 < n \<and> k + n < length xs then Some (rid (xs ! (k + n - 1))) else None)"
proof -
  have st: "sort_key key (case anchor of None \<Rightarrow> rows | Some a \<Rightarrow> filter (after a) rows) = drop k xs"
  proof (cases "k = 0")
    case False
    with assms(3) have "k - 1 < length xs" by simp
    from sorted_after [OF assms(1,2) this] False show ?thesis
      using assms(4) by (simp add: sort_filter assms(2) [symmetric])
  qed (simp add: assms(2,4))
  have "last (take n (drop k xs)) = xs ! (k + n - 1)" if "0 < n" "k + n < length xs"
  proof -
    have "take n (drop k xs) \<noteq> []" using that by simp
    from last_conv_nth [OF this] that show ?thesis by (simp add: min_def)
  qed
  then show ?thesis
    unfolding keyset_page_def st Let_def by (auto simp: min_def)
qed

text \<open>A fetch that serves these pages is walked to the end of the sorted list, however it renders rows.\<close>

lemma walk_complete:
  assumes "distinct (map rid rows)" and "xs = sort_key key rows" and "0 < n"
    and fetch: "\<And>anchor c. (anchor = None \<and> c = None) \<or> (\<exists>a \<in> set rows. anchor = Some a \<and> c = Some (rid a)) \<Longrightarrow>
      fetch c = Inr (map render (fst (keyset_page key rid after anchor n rows)),
                     snd (keyset_page key rid after anchor n rows))"
    and k: "k \<le> length xs" "length xs - k < fuel"
    and c: "c = (if k = 0 then None else Some (rid (xs ! (k - 1))))"
  shows "walk_pages fuel fetch c = Inr (map render (drop k xs))"
  using k c
proof (induction fuel arbitrary: k c)
  case (Suc fuel)
  define anchor where "anchor = (if k = 0 then None else Some (xs ! (k - 1)))"
  have mem: "x \<in> set xs \<Longrightarrow> x \<in> set rows" for x by (simp add: assms(2))
  have an: "(anchor = None \<and> c = None) \<or> (\<exists>a \<in> set rows. anchor = Some a \<and> c = Some (rid a))"
    using Suc.prems(1,3) mem [of "xs ! (k - 1)"] by (auto simp: anchor_def)
  note page = page_at [OF assms(1,2) Suc.prems(1) anchor_def, of n]
  have f: "fetch c = Inr (map render (take n (drop k xs)),
      if k + n < length xs then Some (rid (xs ! (k + n - 1))) else None)"
    using fetch [OF an] assms(3) by (simp add: page)
  show ?case
  proof (cases "k + n < length xs")
    case True
    have "walk_pages fuel fetch (Some (rid (xs ! (k + n - 1)))) = Inr (map render (drop (k + n) xs))"
      using True Suc.prems(2) assms(3) by (intro Suc.IH) auto
    moreover have "take n (drop k xs) @ drop (k + n) xs = drop k xs"
      by (metis add.commute append_take_drop_id drop_drop)
    ultimately show ?thesis using f True by (simp flip: map_append)
  next
    case False
    then show ?thesis using f by simp
  qed
qed simp

end

end
