(* ===== verification/Listing.thy ===== *)
theory Listing
  imports Core_Invariant Keyset
begin

text \<open>
  The owner's lists: \<open>TradeIntentCoreRepository.list_by_owner\<close> with its two orders,
  \<open>repositories/notification_repository.py\<close> and \<open>commands/notification.py\<close>. A cursor is the identifier
  of the last row of the previous page, already checked to be a UUID by the route.
\<close>

section \<open>Intents\<close>

definition terminal_only :: "intent_status list option \<Rightarrow> bool" where
  "terminal_only statuses = (case statuses of
      None \<Rightarrow> False | Some ss \<Rightarrow> ss \<noteq> [] \<and> set ss \<subseteq> TERMINAL_STATUSES)"

definition list_match :: "uuid \<Rightarrow> intent_status list option \<Rightarrow> date option \<Rightarrow> core_row \<Rightarrow> bool" where
  "list_match owner statuses trading_date r \<longleftrightarrow> c_owner_user_id r = owner \<and>
     (case statuses of None \<Rightarrow> True | Some ss \<Rightarrow> ss = [] \<or> c_status r \<in> set ss) \<and>
     (case trading_date of None \<Rightarrow> True | Some d \<Rightarrow> c_trading_date r = d)"

text \<open>The two \<open>ORDER BY\<close> clauses; the first component is constant for the terminal order.\<close>

definition list_order :: "bool \<Rightarrow> core_row \<Rightarrow> int \<times> int \<times> uuid" where
  "list_order terminal r =
     (if terminal then (0, - c_updated_at r, c_id r) else (c_trading_date r, - c_created_at r, c_id r))"

text \<open>The two keyset conditions, as written.\<close>

definition list_after :: "bool \<Rightarrow> core_row \<Rightarrow> core_row \<Rightarrow> bool" where
  "list_after terminal anchor r =
     (if terminal
      then c_updated_at r < c_updated_at anchor \<or> (c_updated_at r = c_updated_at anchor \<and> c_id anchor < c_id r)
      else c_trading_date anchor < c_trading_date r \<or>
           (c_trading_date r = c_trading_date anchor \<and> c_created_at r < c_created_at anchor) \<or>
           (c_trading_date r = c_trading_date anchor \<and> c_created_at r = c_created_at anchor \<and> c_id anchor < c_id r))"

definition list_by_owner ::
  "uuid \<Rightarrow> intent_status list option \<Rightarrow> date option \<Rightarrow> nat \<Rightarrow> core_db \<Rightarrow> uuid option \<Rightarrow>
   exn + trade_intent_data list \<times> uuid option" where
  "list_by_owner owner statuses trading_date page_size db cursor =
     (let terminal = terminal_only statuses;
          rows = core_with_symbol_type (list_match owner statuses trading_date) db;
          finish = (\<lambda>anchor.
            case keyset_page (\<lambda>x. list_order terminal (fst x)) (\<lambda>x. c_id (fst x))
                   (\<lambda>a x. list_after terminal (fst a) (fst x)) anchor page_size rows of
              (page, next) \<Rightarrow> r_bind (map_r (domain_of db) page) (\<lambda>ds. Inr (ds, next)))
      in case cursor of
           None \<Rightarrow> finish None
         | Some cursor_id \<Rightarrow>
             r_bind (one_or_none (filter (\<lambda>r. c_id r = cursor_id \<and> c_owner_user_id r = owner) (db_core db))) (\<lambda>anchor.
             case anchor of
               None \<Rightarrow> Inl (ExIntent (InvalidCursorError cursor_id))
             | Some a \<Rightarrow> finish (Some (a, []))))"

interpretation intents: keyset_listing "\<lambda>x. list_order t (fst (x :: core_row \<times> string))" "\<lambda>x. c_id (fst x)"
  "\<lambda>a x. list_after t (fst a) (fst x)"
proof unfold_locales
  show "list_after t (fst a) (fst r) = (list_order t (fst a) < list_order t (fst r))" for a r :: "core_row \<times> string"
    by (auto simp: list_after_def list_order_def less_prod_def less_le)
  show "c_id (fst a) = c_id (fst b)" if "list_order t (fst a) = list_order t (fst b)" for a b :: "core_row \<times> string"
    using that by (simp add: list_order_def split: if_split_asm)
qed

lemma keyset_page_anchor_cong:
  "keyset_page (\<lambda>x. list_order t (fst x)) (\<lambda>x. c_id (fst x)) (\<lambda>a x. list_after t (fst a) (fst x)) (Some (a, s)) n rows =
   keyset_page (\<lambda>x. list_order t (fst x)) (\<lambda>x. c_id (fst x)) (\<lambda>a x. list_after t (fst a) (fst x)) (Some (a, s')) n rows"
  by (simp add: keyset_page_def)

lemma list_by_owner_page:
  assumes inv: "core_inv db"
    and rows: "rows = core_with_symbol_type (list_match owner sts d) db"
    and an: "(anchor = None \<and> c = None) \<or> (\<exists>a \<in> set rows. anchor = Some a \<and> c = Some (c_id (fst a)))"
  shows "list_by_owner owner sts d n db c =
    (let p = keyset_page (\<lambda>x. list_order (terminal_only sts) (fst x)) (\<lambda>x. c_id (fst x))
       (\<lambda>a x. list_after (terminal_only sts) (fst a) (fst x)) anchor n rows
     in Inr (map (\<lambda>x. view db (fst x)) (fst p), snd p))"
proof -
  have eq: "rows = map (\<lambda>c. (c, instrument db c)) (filter (list_match owner sts d) (db_core db))"
    using core_with_symbol_type_eq [OF inv] rows by simp
  have dom: "map_r (domain_of db) xs = Inr (map (\<lambda>x. view db (fst x)) xs)" if "set xs \<subseteq> set rows" for xs
    using that domain_of_eq [OF inv] by (intro map_r_Inr) (auto simp: eq)
  note dom' = dom [OF page_subset]
  from an show ?thesis
  proof
    assume "anchor = None \<and> c = None"
    then show ?thesis
      by (simp add: list_by_owner_def rows [symmetric] Let_def case_prod_unfold dom')
  next
    assume "\<exists>a \<in> set rows. anchor = Some a \<and> c = Some (c_id (fst a))"
    then obtain r where r: "r \<in> set (db_core db)" "list_match owner sts d r" "anchor = Some (r, instrument db r)"
      "c = Some (c_id r)" by (auto simp: eq)
    have "filter (\<lambda>x. c_id x = c_id r \<and> c_owner_user_id x = owner) (db_core db) = [r]"
    proof -
      have "filter (\<lambda>x. c_id x = c_id r \<and> c_owner_user_id x = owner) (db_core db) =
          filter (\<lambda>x. c_owner_user_id x = owner) (filter (\<lambda>x. c_id x = c_id r) (db_core db))" by (simp add: conj_commute)
      also have "\<dots> = [r]" using filter_key [OF core_invD(2) [OF inv] r(1)] r(2) by (simp add: list_match_def)
      finally show ?thesis .
    qed
    then show ?thesis
      using keyset_page_anchor_cong [of "terminal_only sts" r "[]" n rows "instrument db r"]
      by (simp add: list_by_owner_def rows [symmetric] Let_def case_prod_unfold r(3,4) one_or_none_def dom')
  qed
qed

text \<open>
  Paging through the list shows every matching intent exactly once: a client that follows the
  cursors from the first page, with any page size of at least one, receives exactly the owner's
  intents that match the filters, in the documented order, and gets no error.
\<close>

theorem intent_pages_complete:
  assumes "core_inv db" and "0 < page_size"
  shows "walk_pages (Suc (length (db_core db))) (list_by_owner owner statuses trading_date page_size db) None =
    Inr (map (view db) (sort_key (list_order (terminal_only statuses))
      (filter (list_match owner statuses trading_date) (db_core db))))"
proof -
  let ?rows = "core_with_symbol_type (list_match owner statuses trading_date) db"
  let ?t = "terminal_only statuses"
  have eq: "?rows = map (\<lambda>c. (c, instrument db c)) (filter (list_match owner statuses trading_date) (db_core db))"
    by (rule core_with_symbol_type_eq [OF assms(1)])
  have d: "distinct (map (\<lambda>x. c_id (fst x)) ?rows)"
    using core_invD(2) [OF assms(1)] by (simp add: eq comp_def distinct_map_filter)
  have len: "length ?rows \<le> length (db_core db)" by (simp add: eq)
  have "walk_pages (Suc (length (db_core db))) (list_by_owner owner statuses trading_date page_size db) None =
      Inr (map (\<lambda>x. view db (fst x)) (drop 0 (sort_key (\<lambda>x. list_order ?t (fst x)) ?rows)))"
    by (rule intents.walk_complete [OF d refl assms(2)])
      (use len list_by_owner_page [OF assms(1) refl] in \<open>auto simp: Let_def\<close>)
  moreover have "map fst (sort_key (\<lambda>x. list_order ?t (fst x)) ?rows) =
      sort_key (list_order ?t) (filter (list_match owner statuses trading_date) (db_core db))"
    unfolding map_sort_key by (simp add: eq comp_def)
  ultimately show ?thesis by (metis (no_types, lifting) comp_apply drop0 map_eq_conv map_map)
qed

theorem intent_pages_complete_witness:
  "core_inv sample_db \<and>
   walk_pages 2 (list_by_owner 7 None None 1 sample_db) None = Inr [view sample_db sample_row]"
  using intent_pages_complete [OF sample_db_inv, of 1 7 None None] sample_db_inv
  by (simp add: sample_db_def sample_row_def list_match_def numeral_2_eq_2)

section \<open>The inbox\<close>

record notification_data =
  nd_id :: uuid
  nd_owner_user_id :: uuid
  nd_trade_intent_id :: "uuid option"
  nd_type :: notification_type
  nd_rendered_title :: line
  nd_rendered_body :: "line list"
  nd_read_at :: "datetime option"
  nd_created_at :: datetime
  nd_updated_at :: datetime

text \<open>\<open>row.trade_intent_id or row.trade_intent_core_id\<close>: a UUID is never falsy.\<close>

definition notification_to_domain :: "notification_row \<Rightarrow> notification_data" where
  "notification_to_domain r = \<lparr>nd_id = n_id r, nd_owner_user_id = n_owner_user_id r,
     nd_trade_intent_id = (case n_trade_intent_id r of Some i \<Rightarrow> Some i | None \<Rightarrow> n_trade_intent_core_id r),
     nd_type = n_type r, nd_rendered_title = n_rendered_title r, nd_rendered_body = n_rendered_body r,
     nd_read_at = n_read_at r, nd_created_at = n_created_at r, nd_updated_at = n_updated_at r\<rparr>"

definition inbox_match :: "uuid \<Rightarrow> bool \<Rightarrow> notification_row \<Rightarrow> bool" where
  "inbox_match owner unread_only r \<longleftrightarrow> n_owner_user_id r = owner \<and> (unread_only \<longrightarrow> n_read_at r = None)"

definition inbox_order :: "notification_row \<Rightarrow> int \<times> uuid" where
  "inbox_order r = (- n_created_at r, n_id r)"

definition inbox_after :: "notification_row \<Rightarrow> notification_row \<Rightarrow> bool" where
  "inbox_after anchor r \<longleftrightarrow> n_created_at r < n_created_at anchor \<or>
     (n_created_at r = n_created_at anchor \<and> n_id anchor < n_id r)"

definition list_notifications ::
  "uuid \<Rightarrow> bool \<Rightarrow> nat \<Rightarrow> notification_row list \<Rightarrow> uuid option \<Rightarrow> exn + notification_data list \<times> uuid option" where
  "list_notifications owner unread_only page_size table cursor =
     (let rows = filter (inbox_match owner unread_only) table;
          finish = (\<lambda>anchor. case keyset_page inbox_order n_id inbox_after anchor page_size rows of
            (page, next) \<Rightarrow> Inr (map notification_to_domain page, next))
      in case cursor of
           None \<Rightarrow> finish None
         | Some cursor_id \<Rightarrow>
             r_bind (one_or_none (filter (\<lambda>r. n_id r = cursor_id \<and> n_owner_user_id r = owner) table)) (\<lambda>anchor.
             case anchor of
               None \<Rightarrow> Inl (ExIntent (InvalidCursorError cursor_id))
             | Some a \<Rightarrow> finish (Some a)))"

definition set_read :: "datetime \<Rightarrow> notification_row \<Rightarrow> notification_row" where
  "set_read tx_now r = r\<lparr>n_read_at := Some tx_now, n_updated_at := tx_now\<rparr>"

definition mark_read ::
  "datetime \<Rightarrow> uuid \<Rightarrow> uuid \<Rightarrow> notification_row list \<Rightarrow> exn + notification_data \<times> notification_row list" where
  "mark_read tx_now notification_id owner table =
     r_bind (one_or_none (filter (\<lambda>r. n_id r = notification_id) table)) (\<lambda>row.
     case row of
       None \<Rightarrow> Inl (ExNotification (NotificationNotFoundError notification_id))
     | Some r \<Rightarrow>
         if n_owner_user_id r \<noteq> owner then Inl (ExNotification (NotificationNotFoundError notification_id))
         else if n_read_at r = None
         then let hit = (\<lambda>x. n_id x = notification_id \<and> n_owner_user_id x = owner \<and> n_read_at x = None)
              in Inr (notification_to_domain (set_read tx_now r), upd_where hit (set_read tx_now) table)
         else Inr (notification_to_domain r, table))"

text \<open>The command commits, or rolls back and lets the error pass.\<close>

definition mark_notification_read ::
  "datetime \<Rightarrow> uuid \<Rightarrow> uuid \<Rightarrow> notification_row list \<Rightarrow> (exn + notification_data) \<times> notification_row list" where
  "mark_notification_read tx_now notification_id owner table =
     (case mark_read tx_now notification_id owner table of
        Inl e \<Rightarrow> (Inl e, table)
      | Inr (d, table') \<Rightarrow> (Inr d, table'))"

interpretation inbox: keyset_listing inbox_order n_id inbox_after
proof unfold_locales
  show "inbox_after a r = (inbox_order a < inbox_order r)" for a r
    by (auto simp: inbox_after_def inbox_order_def less_prod_def less_le)
  show "n_id a = n_id b" if "inbox_order a = inbox_order b" for a b
    using that by (simp add: inbox_order_def)
qed

lemma filter_owned:
  assumes "distinct (map n_id table)" and "r \<in> set table" and "n_owner_user_id r = owner"
  shows "filter (\<lambda>x. n_id x = n_id r \<and> n_owner_user_id x = owner) table = [r]"
proof -
  have "filter (\<lambda>x. n_id x = n_id r \<and> n_owner_user_id x = owner) table =
      filter (\<lambda>x. n_owner_user_id x = owner) (filter (\<lambda>x. n_id x = n_id r) table)" by (simp add: conj_commute)
  also have "\<dots> = [r]" using filter_key [OF assms(1,2)] assms(3) by simp
  finally show ?thesis .
qed

lemma list_notifications_page:
  assumes "distinct (map n_id table)"
    and an: "(anchor = None \<and> c = None) \<or>
      (\<exists>a \<in> set (filter (inbox_match owner unread) table). anchor = Some a \<and> c = Some (n_id a))"
  shows "list_notifications owner unread n table c =
    Inr (map notification_to_domain
          (fst (keyset_page inbox_order n_id inbox_after anchor n (filter (inbox_match owner unread) table))),
         snd (keyset_page inbox_order n_id inbox_after anchor n (filter (inbox_match owner unread) table)))"
  using an filter_owned [OF assms(1)]
  by (auto simp: list_notifications_def Let_def case_prod_unfold one_or_none_def inbox_match_def)


text \<open>
  Reading a notification is idempotent and private: the first call stamps the owner's row and no
  other, a later call returns the same data and changes nothing, and another owner is told that the
  notification does not exist.
\<close>

theorem mark_read_idempotent:
  assumes "distinct (map n_id table)" and "r \<in> set table"
  shows "mark_notification_read t (n_id r) other table = (Inl (ExNotification (NotificationNotFoundError (n_id r))), table) \<or>
    other = n_owner_user_id r \<and>
    (\<exists>d table'. mark_notification_read t (n_id r) other table = (Inr d, table') \<and> nd_read_at d \<noteq> None \<and>
       table' = upd_where (\<lambda>x. n_id x = n_id r \<and> n_read_at x = None) (set_read t) table \<and>
       mark_notification_read t2 (n_id r) other table' = (Inr d, table'))"
proof (cases "n_owner_user_id r = other")
  case False
  then show ?thesis
    using filter_key [OF assms] by (simp add: mark_notification_read_def mark_read_def one_or_none_def)
next
  case own: True
  have only: "x = r" if "x \<in> set table" "n_id x = n_id r" for x using distinct_key_eq [OF assms(1) that(1) assms(2) that(2)] .
  show ?thesis
  proof (cases "n_read_at r")
    case (Some x)
    have "upd_where (\<lambda>x. n_id x = n_id r \<and> n_read_at x = None) (set_read t) table = table"
      using only Some by (intro upd_where_id_if_none) auto
    then show ?thesis
      using filter_key [OF assms] own Some
      by (simp add: mark_notification_read_def mark_read_def one_or_none_def notification_to_domain_def)
  next
    case None
    let ?hit = "\<lambda>x. n_id x = n_id r \<and> n_read_at x = None"
    let ?tab = "upd_where ?hit (set_read t) table"
    have same: "upd_where (\<lambda>x. n_id x = n_id r \<and> n_owner_user_id x = other \<and> n_read_at x = None) (set_read t) table = ?tab"
      unfolding upd_where_def using only own by (intro map_cong) auto
    have d: "distinct (map n_id ?tab)" using assms(1) by (simp add: map_upd_where_frame set_read_def)
    have mem: "set_read t r \<in> set ?tab" using assms(2) None by (auto simp: upd_where_mem_iff)
    have id: "n_id (set_read t r) = n_id r" by (simp add: set_read_def)
    have "mark_notification_read t (n_id r) other table = (Inr (notification_to_domain (set_read t r)), ?tab)"
      using filter_key [OF assms] own None same
      by (simp add: mark_notification_read_def mark_read_def one_or_none_def Let_def)
    moreover have "mark_notification_read t2 (n_id r) other ?tab = (Inr (notification_to_domain (set_read t r)), ?tab)"
      using filter_key [OF d mem] own id
      by (simp add: mark_notification_read_def mark_read_def one_or_none_def set_read_def)
    ultimately show ?thesis using own by (simp add: notification_to_domain_def set_read_def)
  qed
qed

definition sample_notification :: notification_row where
  "sample_notification = \<lparr>n_id = 3, n_owner_user_id = 7, n_trade_intent_id = None, n_trade_intent_core_id = Some 1,
     n_type = price_triggered, n_rendered_title = [], n_rendered_body = [], n_read_at = None, n_created_at = 0,
     n_updated_at = 0\<rparr>"


theorem mark_read_idempotent_witness:
  "\<exists>d table'. mark_notification_read 5 3 7 [sample_notification] = (Inr d, table') \<and>
     mark_notification_read 6 3 7 table' = (Inr d, table')"
proof -
  have "fst (mark_notification_read 5 3 7 [sample_notification]) \<noteq> Inl (ExNotification (NotificationNotFoundError 3))"
    by (simp add: mark_notification_read_def mark_read_def one_or_none_def sample_notification_def)
  then show ?thesis
    using mark_read_idempotent [of "[sample_notification]" sample_notification 5 7 6]
    by (auto simp: sample_notification_def)
qed

end
