(* ===== verification/Rate_Limiter.thy ===== *)
theory Rate_Limiter
  imports Exceptions
begin

text \<open>
  \<open>core/rate_limiter.py\<close>: the token bucket kept in a database row. Tokens, rates and costs, floats and
  numerics in the source, are exact rationals here; instants are microseconds. The row lock makes a
  call atomic, so a history of one bucket is a sequence of calls.
\<close>

section \<open>The source\<close>

record rate_limit_decision =
  rl_allowed :: bool
  rl_remaining :: rat
  rl_retry_after :: "rat option"

record bucket_row =
  bk_bucket_key :: string
  bk_tokens :: rat
  bk_updated_at :: datetime

definition total_seconds :: "int \<Rightarrow> rat" where
  "total_seconds d = of_int d / of_int usec_per_sec"

definition refill :: "rat \<Rightarrow> rat \<Rightarrow> rat \<Rightarrow> rat \<Rightarrow> rat" where
  "refill tokens elapsed_seconds capacity refill_per_second =
     min capacity (tokens + max 0 elapsed_seconds * refill_per_second)"

text \<open>\<open>INSERT ... ON CONFLICT DO NOTHING\<close>.\<close>

definition ensure_bucket :: "string \<Rightarrow> rat \<Rightarrow> datetime \<Rightarrow> bucket_row list \<Rightarrow> bucket_row list" where
  "ensure_bucket key capacity now rows =
     (if key \<in> bk_bucket_key ` set rows then rows
      else rows @ [\<lparr>bk_bucket_key = key, bk_tokens = capacity, bk_updated_at = now\<rparr>])"

text \<open>A \<open>retry_after\<close> of \<open>float("inf")\<close> is \<open>None\<close>; \<open>.one()\<close> raises when the row is not unique.\<close>

definition consume ::
  "string \<Rightarrow> rat \<Rightarrow> rat \<Rightarrow> rat \<Rightarrow> datetime \<Rightarrow> bucket_row list \<Rightarrow> exn + rate_limit_decision \<times> bucket_row list" where
  "consume key capacity refill_per_second cost now rows =
     (let rows1 = ensure_bucket key capacity now rows
      in case filter (\<lambda>r. bk_bucket_key r = key) rows1 of
           [row] \<Rightarrow>
             let elapsed = total_seconds (now - bk_updated_at row);
                 refilled = refill (bk_tokens row) elapsed capacity refill_per_second;
                 allowed = (cost \<le> refilled);
                 tokens = (if allowed then refilled - cost else refilled)
             in Inr (\<lparr>rl_allowed = allowed, rl_remaining = tokens,
                      rl_retry_after = (if allowed then Some 0
                        else if 0 < refill_per_second then Some ((cost - tokens) / refill_per_second) else None)\<rparr>,
                     upd_where (\<lambda>r. bk_bucket_key r = key) (\<lambda>r. r\<lparr>bk_tokens := tokens, bk_updated_at := now\<rparr>) rows1)
         | _ \<Rightarrow> Inl ExMultipleResults)"

definition reset :: "string \<Rightarrow> bucket_row list \<Rightarrow> bucket_row list" where
  "reset key rows = filter (\<lambda>r. bk_bucket_key r \<noteq> key) rows"

section \<open>One bucket\<close>

definition buckets_ok :: "bucket_row list \<Rightarrow> bool" where
  "buckets_ok rows \<longleftrightarrow> distinct (map bk_bucket_key rows)"

definition bucket_of :: "string \<Rightarrow> bucket_row list \<Rightarrow> (rat \<times> datetime) option" where
  "bucket_of key rows = map_option (\<lambda>r. (bk_tokens r, bk_updated_at r)) (find_row (\<lambda>r. bk_bucket_key r = key) rows)"

text \<open>The bucket a call starts from: a bucket never touched is full.\<close>

definition start_bucket :: "string \<Rightarrow> rat \<Rightarrow> datetime \<Rightarrow> bucket_row list \<Rightarrow> rat \<times> datetime" where
  "start_bucket key capacity now rows = (case bucket_of key rows of None \<Rightarrow> (capacity, now) | Some b \<Rightarrow> b)"

lemma ensure_bucket_facts:
  assumes "buckets_ok rows"
  shows "\<exists>row. filter (\<lambda>r. bk_bucket_key r = key) (ensure_bucket key capacity now rows) = [row] \<and>
    (bk_tokens row, bk_updated_at row) = start_bucket key capacity now rows \<and> bk_bucket_key row = key"
    and "buckets_ok (ensure_bucket key capacity now rows)"
proof -
  have d: "distinct (map bk_bucket_key rows)" using assms by (simp add: buckets_ok_def)
  show "buckets_ok (ensure_bucket key capacity now rows)" using d by (auto simp: buckets_ok_def ensure_bucket_def)
  show "\<exists>row. filter (\<lambda>r. bk_bucket_key r = key) (ensure_bucket key capacity now rows) = [row] \<and>
    (bk_tokens row, bk_updated_at row) = start_bucket key capacity now rows \<and> bk_bucket_key row = key"
  proof (cases "key \<in> bk_bucket_key ` set rows")
    case True
    then obtain r where r: "r \<in> set rows" "bk_bucket_key r = key" by auto
    from filter_key [OF d r(1)] find_row_key [OF d r(1)] r(2) True show ?thesis
      by (simp add: ensure_bucket_def start_bucket_def bucket_of_def)
  next
    case False
    then have "find_row (\<lambda>r. bk_bucket_key r = key) rows = None" by (auto simp: find_row_None_iff)
    with False show ?thesis
      using filter_key_None [OF False] by (simp add: ensure_bucket_def start_bucket_def bucket_of_def)
  qed
qed

lemma consume_eq:
  assumes "buckets_ok rows" and "start_bucket key capacity now rows = (tok, upd)"
    and "refilled = refill tok (total_seconds (now - upd)) capacity rate"
  shows "\<exists>d rows'. consume key capacity rate cost now rows = Inr (d, rows') \<and> buckets_ok rows' \<and>
    rl_allowed d = (cost \<le> refilled) \<and> rl_remaining d = (if cost \<le> refilled then refilled - cost else refilled) \<and>
    bucket_of key rows' = Some (rl_remaining d, now) \<and>
    rl_retry_after d = (if cost \<le> refilled then Some 0 else if 0 < rate then Some ((cost - refilled) / rate) else None)"
proof -
  let ?rows = "ensure_bucket key capacity now rows"
  from ensure_bucket_facts(1) [OF assms(1), of key capacity now] assms(2) obtain row where
    row: "filter (\<lambda>r. bk_bucket_key r = key) ?rows = [row]" "bk_tokens row = tok" "bk_updated_at row = upd"
      "bk_bucket_key row = key" by auto
  let ?upd = "\<lambda>t. upd_where (\<lambda>r. bk_bucket_key r = key) (\<lambda>r. r\<lparr>bk_tokens := t, bk_updated_at := now\<rparr>) ?rows"
  have ok: "buckets_ok (?upd t)" for t
    using ensure_bucket_facts(2) [OF assms(1)] by (simp add: buckets_ok_def map_upd_where_frame)
  have get: "bucket_of key (?upd t) = Some (t, now)" for t
  proof -
    have "row \<in> set (filter (\<lambda>r. bk_bucket_key r = key) ?rows)" unfolding row(1) by simp
    then have "row \<in> set ?rows" by simp
    from find_row_key [OF ensure_bucket_facts(2) [OF assms(1), unfolded buckets_ok_def] this] row(4)
    have "find_row (\<lambda>r. bk_bucket_key r = key) ?rows = Some row" by simp
    then show ?thesis using row(4) by (simp add: bucket_of_def find_row_upd_where)
  qed
  show ?thesis using row(1-3) ok get unfolding assms(3) by (simp add: consume_def Let_def)
qed

section \<open>Any history of a bucket\<close>

text \<open>A history: the calls on one bucket, in the order the row lock serialised them, with what each was granted.\<close>

fun history :: "string \<Rightarrow> rat \<Rightarrow> rat \<Rightarrow> (datetime \<times> rat) list \<Rightarrow> bucket_row list \<Rightarrow> (datetime \<times> rat \<times> bool) list" where
  "history key capacity rate [] rows = []"
| "history key capacity rate ((now, cost) # calls) rows =
     (case consume key capacity rate cost now rows of
        Inl e \<Rightarrow> []
      | Inr (d, rows') \<Rightarrow> (now, cost, rl_allowed d) # history key capacity rate calls rows')"

definition granted :: "(datetime \<times> rat \<times> bool) list \<Rightarrow> rat" where
  "granted h = (\<Sum>(now, cost, ok)\<leftarrow>h. if ok then cost else 0)"

lemma total_seconds_diff: "total_seconds (b - a) + total_seconds (c - b) = total_seconds (c - a)"
  by (simp add: total_seconds_def add_divide_distrib [symmetric])

lemma total_seconds_mono: "a \<le> b \<Longrightarrow> 0 \<le> total_seconds (b - a)"
  by (simp add: total_seconds_def)

lemma granted_simps [simp]:
  "granted [] = 0" "granted ((now, cost, ok) # h) = (if ok then cost else 0) + granted h"
  by (simp_all add: granted_def)

lemma refill_bounds:
  assumes "0 \<le> tok" and "0 \<le> capacity" and "0 \<le> rate"
  shows "0 \<le> refill tok s capacity rate" "refill tok s capacity rate \<le> capacity"
    "refill tok s capacity rate \<le> tok + rate * max 0 s"
  using assms by (simp_all add: refill_def mult.commute)

lemma history_potential:
  assumes "buckets_ok rows" and "bucket_of key rows = Some (tok, upd)" and "0 \<le> tok" and "0 \<le> capacity"
    and "0 \<le> rate" and "sorted (upd # map fst calls)"
  shows "granted (history key capacity rate calls rows) \<le>
    tok + rate * total_seconds (last (upd # map fst calls) - upd)"
  using assms(1-3,6)
proof (induction calls arbitrary: rows tok upd)
  case Nil
  then show ?case by (simp add: total_seconds_def)
next
  case (Cons c calls)
  obtain now cost where c: "c = (now, cost)" by fastforce
  let ?e = "total_seconds (now - upd)"
  define r where "r = refill tok ?e capacity rate"
  have "start_bucket key capacity now rows = (tok, upd)" using Cons.prems(2) by (simp add: start_bucket_def)
  from consume_eq [OF Cons.prems(1) this r_def, of cost] obtain d rows' where
    d: "consume key capacity rate cost now rows = Inr (d, rows')" "buckets_ok rows'" "rl_allowed d = (cost \<le> r)"
      "bucket_of key rows' = Some (rl_remaining d, now)" "rl_remaining d = (if cost \<le> r then r - cost else r)" by blast
  have e: "0 \<le> ?e" using Cons.prems(4) c by (intro total_seconds_mono) simp
  have r: "0 \<le> r" "r \<le> tok + rate * ?e"
    using refill_bounds [OF Cons.prems(3) assms(4,5), of ?e] e by (simp_all add: r_def)
  define rest where "rest = total_seconds (last (now # map fst calls) - now)"
  have IH: "granted (history key capacity rate calls rows') \<le> rl_remaining d + rate * rest"
    unfolding rest_def by (rule Cons.IH [OF d(2,4)]) (use d(5) r Cons.prems(4) c in auto)
  have tot: "total_seconds (last (upd # map fst (c # calls)) - upd) = ?e + rest"
    unfolding rest_def total_seconds_diff by (simp add: c)
  have "granted (history key capacity rate (c # calls) rows) =
      (if cost \<le> r then cost else 0) + granted (history key capacity rate calls rows')" by (simp add: c d(1,3))
  also have "\<dots> \<le> r + rate * rest" using IH d(5) by (simp split: if_split_asm)
  also have "\<dots> \<le> tok + rate * (?e + rest)" using r(2) by (simp add: distrib_left)
  finally show ?case unfolding tot .
qed

lemma history_total: "buckets_ok rows \<Longrightarrow> length (history key capacity rate calls rows) = length calls"
proof (induction calls arbitrary: rows)
  case (Cons c calls)
  obtain now cost where c: "c = (now, cost)" by fastforce
  obtain tok upd where "start_bucket key capacity now rows = (tok, upd)" by fastforce
  from consume_eq [OF Cons.prems this refl, of rate cost] Cons.IH show ?case by (auto simp: c)
qed simp

text \<open>
  (C38) The limit holds: in any history of a bucket whose instants do not go backwards, what is granted
  from the first call to the last is at most the capacity plus the refill of the time between them,
  whatever was asked for, and every call gets an answer.
\<close>

theorem rate_limit_bound:
  assumes "buckets_ok rows" and "0 \<le> fst (start_bucket key capacity t0 rows)" and "0 \<le> capacity" and "0 \<le> rate"
    and "sorted (t0 # map fst calls)"
  shows "granted (history key capacity rate ((t0, c0) # calls) rows) \<le>
      capacity + rate * total_seconds (last (t0 # map fst calls) - t0) \<and>
    length (history key capacity rate ((t0, c0) # calls) rows) = Suc (length calls)"
proof -
  obtain tok upd where st: "start_bucket key capacity t0 rows = (tok, upd)" by fastforce
  define r where "r = refill tok (total_seconds (t0 - upd)) capacity rate"
  from consume_eq [OF assms(1) st r_def, of c0] obtain d rows' where
    d: "consume key capacity rate c0 t0 rows = Inr (d, rows')" "buckets_ok rows'" "rl_allowed d = (c0 \<le> r)"
      "bucket_of key rows' = Some (rl_remaining d, t0)" "rl_remaining d = (if c0 \<le> r then r - c0 else r)" by blast
  have "0 \<le> tok" using assms(2) st by simp
  note r = refill_bounds [OF this assms(3,4), of "total_seconds (t0 - upd)", folded r_def]
  have "granted (history key capacity rate calls rows') \<le>
      rl_remaining d + rate * total_seconds (last (t0 # map fst calls) - t0)"
    by (rule history_potential [OF d(2,4) _ assms(3-5)]) (use d(5) r in auto)
  then show ?thesis using d(1,3,5) r(2) history_total [OF assms(1), of key capacity rate "(t0, c0) # calls"]
    by (auto split: if_split_asm)
qed

theorem rate_limit_bound_witness:
  "granted (history ''login'' 5 1 [(0, 3), (1000000, 3), (2000000, 3)] []) \<le> 7 \<and>
   length (history ''login'' 5 1 [(0, 3), (1000000, 3), (2000000, 3)] []) = 3"
  using rate_limit_bound [of "[]" "''login''" 5 0 1 "[(1000000, 3), (2000000, 3)]" 3]
  by (simp add: buckets_ok_def start_bucket_def bucket_of_def total_seconds_def)

text \<open>
  A refusal says when to come back: the call is granted if it is repeated after exactly
  \<open>retry_after\<close> seconds, provided it does not ask for more than the bucket holds.
\<close>

theorem retry_after_sufficient:
  assumes "buckets_ok rows" and "0 \<le> fst (start_bucket key capacity now rows)" and "cost \<le> capacity"
    and "0 \<le> capacity" and "0 < rate" and "consume key capacity rate cost now rows = Inr (d, rows')"
    and "\<not> rl_allowed d" and "rl_retry_after d = Some w" and "total_seconds (later - now) = w"
  shows "\<exists>d' rows''. consume key capacity rate cost later rows' = Inr (d', rows'') \<and> rl_allowed d'"
proof -
  obtain tok upd where st: "start_bucket key capacity now rows = (tok, upd)" by fastforce
  define r where "r = refill tok (total_seconds (now - upd)) capacity rate"
  from consume_eq [OF assms(1) st r_def, of cost] assms(6-8) have d: "buckets_ok rows'" "\<not> cost \<le> r"
    "bucket_of key rows' = Some (r, now)" "w = (cost - r) / rate"
    using assms(5) by (auto split: if_split_asm)
  have "start_bucket key capacity later rows' = (r, now)" by (simp add: start_bucket_def d(3))
  from consume_eq [OF d(1) this refl, of rate cost] obtain d' rows'' where
    d': "consume key capacity rate cost later rows' = Inr (d', rows'')"
      "rl_allowed d' = (cost \<le> refill r (total_seconds (later - now)) capacity rate)" by blast
  have "0 \<le> w" using d(2,4) assms(5) by simp
  then have "refill r (total_seconds (later - now)) capacity rate = min capacity cost"
    using d(4) assms(5,9) by (simp add: refill_def)
  then show ?thesis using d' assms(3) by auto
qed

theorem retry_after_sufficient_witness:
  "\<exists>d rows'. consume ''k'' 2 1 2 0 [\<lparr>bk_bucket_key = ''k'', bk_tokens = 1, bk_updated_at = 0\<rparr>] = Inr (d, rows') \<and>
     \<not> rl_allowed d \<and> rl_retry_after d = Some 1 \<and>
     (\<exists>d' rows''. consume ''k'' 2 1 2 1000000 rows' = Inr (d', rows'') \<and> rl_allowed d')"
proof -
  let ?rows = "[\<lparr>bk_bucket_key = ''k'', bk_tokens = 1, bk_updated_at = 0\<rparr>]"
  obtain d rows' where d: "consume ''k'' 2 1 2 0 ?rows = Inr (d, rows')" "\<not> rl_allowed d" "rl_retry_after d = Some 1"
    by (simp add: consume_def ensure_bucket_def Let_def refill_def total_seconds_def)
  from retry_after_sufficient [OF _ _ _ _ _ d, of 1000000] d show ?thesis
    by (simp add: buckets_ok_def start_bucket_def bucket_of_def total_seconds_def)
qed

text \<open>
  The bound needs instants that do not go backwards, and the code does not ensure it: each request
  reads the clock before it waits for the row lock, a late one moves \<open>updated_at\<close> back, and the same
  seconds are refilled again. Here 20 tokens are granted at one instant from a bucket of 10.
\<close>

theorem rate_limit_clock_regression:
  "history ''k'' 10 1 [(10000000, 10), (0, 10), (10000000, 10)] [] =
     [(10000000, 10, True), (0, 10, False), (10000000, 10, True)]"
  by (simp add: consume_def ensure_bucket_def Let_def refill_def total_seconds_def)

end
