(* ===== verification/Identity_Store.thy ===== *)
theory Identity_Store
  imports Audit_Trail Rate_Limiter Py_Text
begin

text \<open>
  \<open>db/models/auth.py\<close> and the repositories over it: users, invitations, password resets and refresh
  tokens. \<open>flush\<close> checks the constraints in the order primary key, unique index, foreign key. The
  identifiers drawn by \<open>uuid4()\<close> and the server's \<open>now()\<close> are arguments. The \<open>email\<close> column is
  \<open>citext\<close>: two emails are equal when their lower-case forms are.
\<close>

section \<open>Rows\<close>

record user_row =
  us_id :: uuid
  us_email :: string
  us_password_hash :: "string option"
  us_role :: user_role
  us_status :: user_status
  us_mfa_enabled :: bool
  us_mfa_secret_encrypted :: "string option"
  us_disabled_at :: "datetime option"
  us_created_at :: datetime
  us_updated_at :: datetime

record invitation_row =
  iv_id :: uuid
  iv_user_id :: uuid
  iv_token_hash :: string
  iv_expires_at :: datetime
  iv_consumed_at :: "datetime option"
  iv_revoked_at :: "datetime option"
  iv_created_by_admin_id :: uuid
  iv_created_at :: datetime

record password_reset_row =
  pr_id :: uuid
  pr_user_id :: uuid
  pr_token_hash :: string
  pr_expires_at :: datetime
  pr_consumed_at :: "datetime option"
  pr_requested_ip :: "string option"
  pr_created_at :: datetime

record refresh_token_row =
  rt_id :: uuid
  rt_user_id :: uuid
  rt_token_hash :: string
  rt_parent_token_id :: "uuid option"
  rt_issued_at :: datetime
  rt_expires_at :: datetime
  rt_revoked_at :: "datetime option"
  rt_revoked_reason :: "revoked_reason option"
  rt_user_agent :: "string option"
  rt_ip :: "string option"
  rt_mfa_verified :: bool

record ident_db =
  id_users :: "user_row list"
  id_invitations :: "invitation_row list"
  id_resets :: "password_reset_row list"
  id_tokens :: "refresh_token_row list"
  id_buckets :: "bucket_row list"
  id_audit :: "audit_row list"

definition live_invitation :: "invitation_row \<Rightarrow> bool" where
  "live_invitation r \<longleftrightarrow> iv_consumed_at r = None \<and> iv_revoked_at r = None"

section \<open>Users\<close>

definition user_by_id :: "uuid \<Rightarrow> ident_db \<Rightarrow> exn + user_row option" where
  "user_by_id user_id db = one_or_none (filter (\<lambda>r. us_id r = user_id) (id_users db))"

definition user_by_email :: "string \<Rightarrow> ident_db \<Rightarrow> exn + user_row option" where
  "user_by_email email db =
     one_or_none (filter (\<lambda>r. lower (us_email r) = lower (normalize_email email)) (id_users db))"

definition upd_user :: "uuid \<Rightarrow> (user_row \<Rightarrow> user_row) \<Rightarrow> ident_db \<Rightarrow> ident_db" where
  "upd_user user_id f db = db\<lparr>id_users := upd_where (\<lambda>r. us_id r = user_id) f (id_users db)\<rparr>"

definition disable :: "uuid \<Rightarrow> datetime \<Rightarrow> ident_db \<Rightarrow> ident_db" where
  "disable user_id now =
     upd_user user_id (\<lambda>r. r\<lparr>us_status := st_disabled, us_disabled_at := Some now, us_updated_at := now\<rparr>)"

definition reactivate :: "uuid \<Rightarrow> datetime \<Rightarrow> ident_db \<Rightarrow> ident_db" where
  "reactivate user_id now =
     upd_user user_id (\<lambda>r. r\<lparr>us_status := st_active, us_disabled_at := None, us_updated_at := now\<rparr>)"

definition get_mfa_secret_encrypted :: "uuid \<Rightarrow> ident_db \<Rightarrow> exn + string option" where
  "get_mfa_secret_encrypted user_id db =
     r_bind (one_or_none (map us_mfa_secret_encrypted (filter (\<lambda>r. us_id r = user_id) (id_users db)))) (\<lambda>v.
       Inr (case v of None \<Rightarrow> None | Some s \<Rightarrow> s))"

definition set_mfa_secret :: "uuid \<Rightarrow> string \<Rightarrow> datetime \<Rightarrow> ident_db \<Rightarrow> ident_db" where
  "set_mfa_secret user_id encrypted now =
     upd_user user_id (\<lambda>r. r\<lparr>us_mfa_secret_encrypted := Some encrypted, us_updated_at := now\<rparr>)"

definition enable_mfa :: "uuid \<Rightarrow> datetime \<Rightarrow> ident_db \<Rightarrow> ident_db" where
  "enable_mfa user_id now = upd_user user_id (\<lambda>r. r\<lparr>us_mfa_enabled := True, us_updated_at := now\<rparr>)"

definition set_password :: "uuid \<Rightarrow> string \<Rightarrow> datetime \<Rightarrow> ident_db \<Rightarrow> ident_db" where
  "set_password user_id hash now =
     upd_user user_id (\<lambda>r. r\<lparr>us_password_hash := Some hash, us_updated_at := now\<rparr>)"

definition activate :: "uuid \<Rightarrow> string \<Rightarrow> datetime \<Rightarrow> ident_db \<Rightarrow> ident_db" where
  "activate user_id hash now =
     upd_user user_id (\<lambda>r. r\<lparr>us_password_hash := Some hash, us_status := st_active, us_updated_at := now\<rparr>)"

definition insert_user :: "user_row \<Rightarrow> ident_db \<Rightarrow> exn + ident_db" where
  "insert_user row db =
     (if us_id row \<in> us_id ` set (id_users db) then Inl (ExIntegrity pk_violation)
      else if lower (us_email row) \<in> (\<lambda>r. lower (us_email r)) ` set (id_users db)
      then Inl (ExIntegrity (uq_other ''uq_users_email''))
      else Inr (db\<lparr>id_users := id_users db @ [row]\<rparr>))"

definition create_invited :: "uuid \<Rightarrow> datetime \<Rightarrow> string \<Rightarrow> user_role \<Rightarrow> ident_db \<Rightarrow> exn + ident_db" where
  "create_invited new_id db_now email role =
     insert_user \<lparr>us_id = new_id, us_email = normalize_email email, us_password_hash = None, us_role = role,
       us_status = st_invited, us_mfa_enabled = False, us_mfa_secret_encrypted = None, us_disabled_at = None,
       us_created_at = db_now, us_updated_at = db_now\<rparr>"

definition create_active :: "uuid \<Rightarrow> datetime \<Rightarrow> string \<Rightarrow> user_role \<Rightarrow> string \<Rightarrow> ident_db \<Rightarrow> exn + ident_db" where
  "create_active new_id db_now email role hash =
     insert_user \<lparr>us_id = new_id, us_email = normalize_email email, us_password_hash = Some hash, us_role = role,
       us_status = st_active, us_mfa_enabled = False, us_mfa_secret_encrypted = None, us_disabled_at = None,
       us_created_at = db_now, us_updated_at = db_now\<rparr>"

section \<open>Invitations\<close>

definition create_invitation ::
  "uuid \<Rightarrow> datetime \<Rightarrow> uuid \<Rightarrow> string \<Rightarrow> datetime \<Rightarrow> uuid \<Rightarrow> ident_db \<Rightarrow> exn + ident_db" where
  "create_invitation new_id db_now user_id token_hash expires_at admin_id db =
     (let rows = id_invitations db
      in if new_id \<in> iv_id ` set rows then Inl (ExIntegrity pk_violation)
         else if token_hash \<in> iv_token_hash ` set rows then Inl (ExIntegrity (uq_other ''uq_invitations_token_hash''))
         else if user_id \<in> iv_user_id ` set (filter live_invitation rows)
         then Inl (ExIntegrity (uq_other ''uq_invitations_active_per_user''))
         else if user_id \<notin> us_id ` set (id_users db) \<or> admin_id \<notin> us_id ` set (id_users db)
         then Inl (ExIntegrity fk_violation)
         else Inr (db\<lparr>id_invitations := rows @ [\<lparr>iv_id = new_id, iv_user_id = user_id, iv_token_hash = token_hash,
                iv_expires_at = expires_at, iv_consumed_at = None, iv_revoked_at = None,
                iv_created_by_admin_id = admin_id, iv_created_at = db_now\<rparr>]\<rparr>))"

definition invitation_by_hash :: "string \<Rightarrow> ident_db \<Rightarrow> exn + invitation_row option" where
  "invitation_by_hash token_hash db = one_or_none (filter (\<lambda>r. iv_token_hash r = token_hash) (id_invitations db))"

definition consume_invitation :: "uuid \<Rightarrow> datetime \<Rightarrow> ident_db \<Rightarrow> ident_db" where
  "consume_invitation invitation_id now db =
     db\<lparr>id_invitations := upd_where (\<lambda>r. iv_id r = invitation_id \<and> iv_consumed_at r = None)
       (\<lambda>r. r\<lparr>iv_consumed_at := Some now\<rparr>) (id_invitations db)\<rparr>"

definition revoke_active_invitations :: "uuid \<Rightarrow> datetime \<Rightarrow> ident_db \<Rightarrow> ident_db" where
  "revoke_active_invitations user_id now db =
     db\<lparr>id_invitations := upd_where (\<lambda>r. iv_user_id r = user_id \<and> iv_consumed_at r = None \<and> iv_revoked_at r = None)
       (\<lambda>r. r\<lparr>iv_revoked_at := Some now\<rparr>) (id_invitations db)\<rparr>"

section \<open>Password resets\<close>

definition create_reset ::
  "uuid \<Rightarrow> datetime \<Rightarrow> uuid \<Rightarrow> string \<Rightarrow> datetime \<Rightarrow> string option \<Rightarrow> ident_db \<Rightarrow> exn + ident_db" where
  "create_reset new_id db_now user_id token_hash expires_at ip db =
     (if new_id \<in> pr_id ` set (id_resets db) then Inl (ExIntegrity pk_violation)
      else if token_hash \<in> pr_token_hash ` set (id_resets db)
      then Inl (ExIntegrity (uq_other ''uq_password_resets_token_hash''))
      else if user_id \<notin> us_id ` set (id_users db) then Inl (ExIntegrity fk_violation)
      else Inr (db\<lparr>id_resets := id_resets db @ [\<lparr>pr_id = new_id, pr_user_id = user_id, pr_token_hash = token_hash,
             pr_expires_at = expires_at, pr_consumed_at = None, pr_requested_ip = ip, pr_created_at = db_now\<rparr>]\<rparr>))"

definition reset_by_hash :: "string \<Rightarrow> ident_db \<Rightarrow> exn + password_reset_row option" where
  "reset_by_hash token_hash db = one_or_none (filter (\<lambda>r. pr_token_hash r = token_hash) (id_resets db))"

definition consume_reset :: "uuid \<Rightarrow> datetime \<Rightarrow> ident_db \<Rightarrow> ident_db" where
  "consume_reset reset_id now db =
     db\<lparr>id_resets := upd_where (\<lambda>r. pr_id r = reset_id \<and> pr_consumed_at r = None)
       (\<lambda>r. r\<lparr>pr_consumed_at := Some now\<rparr>) (id_resets db)\<rparr>"

section \<open>Refresh tokens\<close>

definition create_token ::
  "uuid \<Rightarrow> datetime \<Rightarrow> uuid \<Rightarrow> string \<Rightarrow> datetime \<Rightarrow> uuid option \<Rightarrow> string option \<Rightarrow> string option \<Rightarrow> bool \<Rightarrow>
   ident_db \<Rightarrow> exn + ident_db" where
  "create_token new_id db_now user_id token_hash expires_at parent user_agent ip mfa_verified db =
     (let rows = id_tokens db
      in if new_id \<in> rt_id ` set rows then Inl (ExIntegrity pk_violation)
         else if token_hash \<in> rt_token_hash ` set rows then Inl (ExIntegrity (uq_other ''uq_refresh_tokens_token_hash''))
         else if user_id \<notin> us_id ` set (id_users db)
              \<or> (case parent of None \<Rightarrow> False | Some p \<Rightarrow> p \<notin> rt_id ` set rows)
         then Inl (ExIntegrity fk_violation)
         else Inr (db\<lparr>id_tokens := rows @ [\<lparr>rt_id = new_id, rt_user_id = user_id, rt_token_hash = token_hash,
                rt_parent_token_id = parent, rt_issued_at = db_now, rt_expires_at = expires_at, rt_revoked_at = None,
                rt_revoked_reason = None, rt_user_agent = user_agent, rt_ip = ip, rt_mfa_verified = mfa_verified\<rparr>]\<rparr>))"

definition mark_mfa_verified :: "uuid \<Rightarrow> ident_db \<Rightarrow> ident_db" where
  "mark_mfa_verified token_id db =
     db\<lparr>id_tokens := upd_where (\<lambda>r. rt_id r = token_id) (\<lambda>r. r\<lparr>rt_mfa_verified := True\<rparr>) (id_tokens db)\<rparr>"

definition token_by_hash :: "string \<Rightarrow> ident_db \<Rightarrow> exn + refresh_token_row option" where
  "token_by_hash token_hash db = one_or_none (filter (\<lambda>r. rt_token_hash r = token_hash) (id_tokens db))"

definition token_by_id :: "uuid \<Rightarrow> ident_db \<Rightarrow> exn + refresh_token_row option" where
  "token_by_id token_id db = one_or_none (filter (\<lambda>r. rt_id r = token_id) (id_tokens db))"

definition revoke :: "uuid \<Rightarrow> revoked_reason \<Rightarrow> datetime \<Rightarrow> ident_db \<Rightarrow> ident_db" where
  "revoke token_id reason now db =
     db\<lparr>id_tokens := upd_where (\<lambda>r. rt_id r = token_id \<and> rt_revoked_at r = None)
       (\<lambda>r. r\<lparr>rt_revoked_at := Some now, rt_revoked_reason := Some reason\<rparr>) (id_tokens db)\<rparr>"

definition revoke_all_active_for_user :: "uuid \<Rightarrow> revoked_reason \<Rightarrow> datetime \<Rightarrow> ident_db \<Rightarrow> nat \<times> ident_db" where
  "revoke_all_active_for_user user_id reason now db =
     (let p = (\<lambda>r. rt_user_id r = user_id \<and> rt_revoked_at r = None)
      in (count_where p (id_tokens db),
          db\<lparr>id_tokens := upd_where p (\<lambda>r. r\<lparr>rt_revoked_at := Some now, rt_revoked_reason := Some reason\<rparr>) (id_tokens db)\<rparr>))"

section \<open>Transactions\<close>

text \<open>
  A command runs in one transaction. An exception of the model's result type before a commit leaves the
  database as it was; \<open>Inr (r, db)\<close> is a commit of \<open>db\<close> with the outcome \<open>r\<close>, which may be an exception
  raised after the commit (the commit-then-raise paths).
\<close>

definition transact :: "ident_db \<Rightarrow> exn + ((exn + 'a) \<times> ident_db) \<Rightarrow> (exn + 'a) \<times> ident_db" where
  "transact db r = (case r of Inl e \<Rightarrow> (Inl e, db) | Inr x \<Rightarrow> x)"

text \<open>The rate limiter and the audit writer on this database.\<close>

definition db_consume ::
  "string \<Rightarrow> rat \<Rightarrow> rat \<Rightarrow> datetime \<Rightarrow> ident_db \<Rightarrow> exn + rate_limit_decision \<times> ident_db" where
  "db_consume key capacity rate now db =
     r_bind (consume key capacity rate 1 now (id_buckets db)) (\<lambda>(d, rows). Inr (d, db\<lparr>id_buckets := rows\<rparr>))"

definition db_reset :: "string \<Rightarrow> ident_db \<Rightarrow> ident_db" where
  "db_reset key db = db\<lparr>id_buckets := reset key (id_buckets db)\<rparr>"

definition db_audit ::
  "uuid \<Rightarrow> string \<Rightarrow> actor_type \<Rightarrow> uuid option \<Rightarrow> (string \<times> meta_value) list \<Rightarrow> string option \<Rightarrow> datetime \<Rightarrow>
   ident_db \<Rightarrow> exn + ident_db" where
  "db_audit new_id event_type actor actor_id metadata request_id now db =
     r_bind (audit_write new_id event_type actor actor_id metadata request_id now (id_audit db)) (\<lambda>rows.
       Inr (db\<lparr>id_audit := rows\<rparr>))"

definition role_actor :: "user_role \<Rightarrow> actor_type" where
  "role_actor r = (case r of role_user \<Rightarrow> actor_user | role_admin \<Rightarrow> actor_admin)"

end
