(* ===== verification/Credentials.thy ===== *)
theory Credentials
  imports Exceptions
begin

text \<open>
  \<open>core/tokens.py\<close>, \<open>core/passwords.py\<close>, \<open>core/totp.py\<close>, \<open>core/mfa_crypto.py\<close>. What the libraries compute
  (argon2, SHA-256, PyJWT, pyotp, Fernet) is the record \<open>crypto\<close>, an argument of everything that uses
  it; the random draws are arguments too.
\<close>

section \<open>The libraries\<close>

datatype verify_result = VerifyOk | VerifyMismatchError | InvalidHashError | OtherVerificationError

record jwt_payload =
  jp_sub :: uuid
  jp_role :: user_role
  jp_session_id :: uuid
  jp_mfa_verified :: bool
  jp_iat :: int
  jp_exp :: int

text \<open>
  \<open>jwt.decode\<close> raises a \<open>PyJWTError\<close>, or yields a document that lacks a claim or holds one that does not
  parse, or yields the claims. Its clock is given when it checks \<open>exp\<close> itself.
\<close>

datatype jwt_result = PyJWTError | MalformedClaims | Claims jwt_payload

record crypto =
  sha256_hexdigest :: "string \<Rightarrow> string"
  argon2_hash :: "string \<Rightarrow> string \<Rightarrow> string"
  argon2_verify :: "string \<Rightarrow> string \<Rightarrow> verify_result"
  dummy_hash :: string
  jwt_encode :: "string \<Rightarrow> jwt_payload \<Rightarrow> string"
  jwt_decode :: "string \<Rightarrow> string \<Rightarrow> datetime option \<Rightarrow> jwt_result"
  totp_verify :: "string \<Rightarrow> string \<Rightarrow> datetime \<Rightarrow> bool"
  totp_uri :: "string \<Rightarrow> string \<Rightarrow> string \<Rightarrow> string"
  fernet_encrypt :: "string \<Rightarrow> string \<Rightarrow> string"
  fernet_decrypt :: "string \<Rightarrow> string \<Rightarrow> string option"

section \<open>Access tokens\<close>

record access_token_claims =
  ac_sub :: uuid
  ac_role :: user_role
  ac_session_id :: uuid
  ac_mfa_verified :: bool
  ac_issued_at :: datetime
  ac_expires_at :: datetime

text \<open>\<open>int(d.timestamp())\<close> cuts the fraction of a second off, towards zero.\<close>

definition int_timestamp :: "datetime \<Rightarrow> int" where
  "int_timestamp d = (if 0 \<le> d then d div usec_per_sec else - ((- d) div usec_per_sec))"

definition encode_access_token ::
  "crypto \<Rightarrow> string \<Rightarrow> uuid \<Rightarrow> user_role \<Rightarrow> uuid \<Rightarrow> int \<Rightarrow> datetime \<Rightarrow> bool \<Rightarrow> string" where
  "encode_access_token cr secret sub role session_id ttl_seconds now mfa_verified =
     jwt_encode cr secret \<lparr>jp_sub = sub, jp_role = role, jp_session_id = session_id, jp_mfa_verified = mfa_verified,
       jp_iat = int_timestamp now, jp_exp = int_timestamp (now + seconds ttl_seconds)\<rparr>"

text \<open>With \<open>now\<close> the expiry is checked here; without, by \<open>jwt.decode\<close> against its own clock.\<close>

definition decode_access_token ::
  "crypto \<Rightarrow> string \<Rightarrow> string \<Rightarrow> datetime \<Rightarrow> datetime option \<Rightarrow> exn + access_token_claims" where
  "decode_access_token cr secret token clock now =
     (case jwt_decode cr secret token (if now = None then Some clock else None) of
        PyJWTError \<Rightarrow> Inl ExInvalidAccessToken
      | MalformedClaims \<Rightarrow> Inl ExInvalidAccessToken
      | Claims p \<Rightarrow>
          let claims = \<lparr>ac_sub = jp_sub p, ac_role = jp_role p, ac_session_id = jp_session_id p,
                        ac_mfa_verified = jp_mfa_verified p, ac_issued_at = seconds (jp_iat p),
                        ac_expires_at = seconds (jp_exp p)\<rparr>
          in case now of
               Some n \<Rightarrow> if ac_expires_at claims \<le> n then Inl ExInvalidAccessToken else Inr claims
             | None \<Rightarrow> Inr claims)"

section \<open>Opaque tokens\<close>

definition hash_refresh_token :: "crypto \<Rightarrow> string \<Rightarrow> string" where
  "hash_refresh_token cr token = sha256_hexdigest cr token"

definition hash_url_token :: "crypto \<Rightarrow> string \<Rightarrow> string" where
  "hash_url_token cr token = sha256_hexdigest cr token"

definition is_ascii :: "string \<Rightarrow> bool" where
  "is_ascii s = list_all (\<lambda>c. (of_char c :: nat) < 128) s"

text \<open>\<open>compare_digest\<close> on strings raises \<open>TypeError\<close> for a character outside ASCII.\<close>

definition csrf_tokens_match :: "string option \<Rightarrow> string option \<Rightarrow> exn + bool" where
  "csrf_tokens_match cookie_value header_value =
     (case (cookie_value, header_value) of
        (Some c, Some h) \<Rightarrow>
          if c = '''' \<or> h = '''' then Inr False
          else if is_ascii c \<and> is_ascii h then Inr (c = h) else Inl ExType
      | _ \<Rightarrow> Inr False)"

section \<open>Passwords\<close>

definition MIN_PASSWORD_LENGTH :: nat where
  "MIN_PASSWORD_LENGTH = 8"

definition hash_password :: "crypto \<Rightarrow> string \<Rightarrow> string \<Rightarrow> string" where
  "hash_password cr salt password = argon2_hash cr salt password"

definition verify_password :: "crypto \<Rightarrow> string \<Rightarrow> string \<Rightarrow> exn + bool" where
  "verify_password cr password_hash password = (case argon2_verify cr password_hash password of
      VerifyOk \<Rightarrow> Inr True
    | VerifyMismatchError \<Rightarrow> Inr False
    | InvalidHashError \<Rightarrow> Inr False
    | OtherVerificationError \<Rightarrow> Inl ExPasswordVerification)"

definition is_password_strong_enough :: "string \<Rightarrow> bool" where
  "is_password_strong_enough password \<longleftrightarrow> MIN_PASSWORD_LENGTH \<le> length password"

section \<open>Second factor\<close>

definition verify_totp :: "crypto \<Rightarrow> string \<Rightarrow> string \<Rightarrow> datetime \<Rightarrow> bool" where
  "verify_totp cr secret code clock = totp_verify cr secret code clock"

definition encrypt_secret :: "crypto \<Rightarrow> string \<Rightarrow> string \<Rightarrow> string" where
  "encrypt_secret cr key plaintext = fernet_encrypt cr key plaintext"

definition decrypt_secret :: "crypto \<Rightarrow> string \<Rightarrow> string \<Rightarrow> exn + string" where
  "decrypt_secret cr key ciphertext =
     (case fernet_decrypt cr key ciphertext of None \<Rightarrow> Inl ExDecryption | Some s \<Rightarrow> Inr s)"

section \<open>Round trips under what the libraries document\<close>

text \<open>
  PyJWT: what \<open>encode\<close> signed, \<open>decode\<close> with the same secret yields, until it expires; the compact form
  has no blanks around it.
\<close>

definition jwt_ok :: "crypto \<Rightarrow> bool" where
  "jwt_ok cr \<longleftrightarrow> (\<forall>secret p clock. strip (jwt_encode cr secret p) = jwt_encode cr secret p \<and>
     jwt_decode cr secret (jwt_encode cr secret p) clock =
     (case clock of None \<Rightarrow> Claims p | Some t \<Rightarrow> if seconds (jp_exp p) \<le> t then PyJWTError else Claims p))"

definition fernet_ok :: "crypto \<Rightarrow> bool" where
  "fernet_ok cr \<longleftrightarrow> (\<forall>key s. fernet_decrypt cr key (fernet_encrypt cr key s) = Some s)"

lemma decode_encode_access_token:
  assumes "jwt_ok cr"
  shows "decode_access_token cr secret (encode_access_token cr secret sub role sid ttl now mfa) clock None =
    (if seconds (int_timestamp (now + seconds ttl)) \<le> clock then Inl ExInvalidAccessToken
     else Inr \<lparr>ac_sub = sub, ac_role = role, ac_session_id = sid, ac_mfa_verified = mfa,
       ac_issued_at = seconds (int_timestamp now), ac_expires_at = seconds (int_timestamp (now + seconds ttl))\<rparr>)"
  using assms by (simp add: jwt_ok_def decode_access_token_def encode_access_token_def Let_def)

lemma decrypt_encrypt_secret: "fernet_ok cr \<Longrightarrow> decrypt_secret cr key (encrypt_secret cr key s) = Inr s"
  by (simp add: fernet_ok_def decrypt_secret_def encrypt_secret_def)

lemma csrf_tokens_match_True_iff:
  "csrf_tokens_match c h = Inr True \<longleftrightarrow> (\<exists>s. c = Some s \<and> h = Some s \<and> s \<noteq> '''' \<and> is_ascii s)"
  by (auto simp: csrf_tokens_match_def split: option.splits)

end
