(* ===== verification/Auth_Commands.thy ===== *)
theory Auth_Commands
  imports Identity_Store Credentials
begin

text \<open>
  \<open>commands/auth.py\<close>: login with its two throttles, refresh-token rotation with reuse detection, logout.
  The failure paths that must persist something commit before they raise.
\<close>

section \<open>The source\<close>

record settings =
  se_access_ttl_user :: int
  se_access_ttl_admin :: int
  se_refresh_ttl_user :: int
  se_refresh_ttl_admin :: int
  se_jwt_access_secret :: string
  se_mfa_encryption_key :: string
  se_app_base_url :: string

text \<open>The random draws of one command and the server's clock.\<close>

record draws =
  dr_token_id :: uuid
  dr_raw_refresh :: string
  dr_csrf_token :: string
  dr_audit_id :: uuid
  dr_db_now :: datetime

record issued_session =
  is_access_token :: string
  is_refresh_token :: string
  is_csrf_token :: string
  is_role :: user_role
  is_session_id :: uuid
  is_access_expires_at :: datetime
  is_refresh_expires_at :: datetime

record login_input =
  li_email :: string
  li_password :: string
  li_now :: datetime
  li_user_agent :: "string option"
  li_ip :: "string option"
  li_request_id :: "string option"

record refresh_input =
  ri_raw_refresh_token :: "string option"
  ri_csrf_cookie :: "string option"
  ri_csrf_header :: "string option"
  ri_now :: datetime
  ri_user_agent :: "string option"
  ri_ip :: "string option"
  ri_request_id :: "string option"

record logout_input =
  lo_raw_refresh_token :: "string option"
  lo_csrf_cookie :: "string option"
  lo_csrf_header :: "string option"
  lo_now :: datetime
  lo_request_id :: "string option"

definition LOGIN_BUCKET_CAPACITY :: rat where "LOGIN_BUCKET_CAPACITY = 5"
definition LOGIN_BUCKET_REFILL_PER_SECOND :: rat where "LOGIN_BUCKET_REFILL_PER_SECOND = 1 / 900"
definition LOGIN_IP_BUCKET_CAPACITY :: rat where "LOGIN_IP_BUCKET_CAPACITY = 20"
definition LOGIN_IP_BUCKET_REFILL_PER_SECOND :: rat where "LOGIN_IP_BUCKET_REFILL_PER_SECOND = 20 / 900"

definition access_ttl_seconds :: "settings \<Rightarrow> user_role \<Rightarrow> int" where
  "access_ttl_seconds st role = (if role = role_admin then se_access_ttl_admin st else se_access_ttl_user st)"

definition refresh_ttl_seconds :: "settings \<Rightarrow> user_role \<Rightarrow> int" where
  "refresh_ttl_seconds st role = (if role = role_admin then se_refresh_ttl_admin st else se_refresh_ttl_user st)"

definition issue_session ::
  "crypto \<Rightarrow> settings \<Rightarrow> draws \<Rightarrow> user_row \<Rightarrow> datetime \<Rightarrow> uuid option \<Rightarrow> string option \<Rightarrow> string option \<Rightarrow> bool \<Rightarrow>
   ident_db \<Rightarrow> exn + issued_session \<times> ident_db" where
  "issue_session cr st dr user now parent user_agent ip mfa_verified db =
     (let refresh_expires_at = now + seconds (refresh_ttl_seconds st (us_role user));
          raw_refresh = dr_raw_refresh dr;
          access_ttl = access_ttl_seconds st (us_role user)
      in r_bind (create_token (dr_token_id dr) (dr_db_now dr) (us_id user) (hash_refresh_token cr raw_refresh)
                   refresh_expires_at parent user_agent ip mfa_verified db) (\<lambda>db1.
           Inr (\<lparr>is_access_token = encode_access_token cr (se_jwt_access_secret st) (us_id user) (us_role user)
                   (dr_token_id dr) access_ttl now mfa_verified,
                 is_refresh_token = raw_refresh, is_csrf_token = dr_csrf_token dr, is_role = us_role user,
                 is_session_id = dr_token_id dr, is_access_expires_at = now + seconds access_ttl,
                 is_refresh_expires_at = refresh_expires_at\<rparr>, db1)))"

definition email_bucket :: "string \<Rightarrow> string" where
  "email_bucket email = ''login:'' @ normalize_email email"

definition ip_bucket :: "string \<Rightarrow> string" where
  "ip_bucket ip = ''login:ip:'' @ ip"

text \<open>A refused login: the audit row and the consumed tokens are committed, then the error is raised.\<close>

definition login_refuse ::
  "draws \<Rightarrow> login_input \<Rightarrow> string \<Rightarrow> uuid option \<Rightarrow> auth_error \<Rightarrow> ident_db \<Rightarrow> exn + (exn + issued_session) \<times> ident_db" where
  "login_refuse dr inp reason actor_id err db =
     r_bind (db_audit (dr_audit_id dr) ''login_failed'' actor_user actor_id [(''reason'', MStr reason)]
               (li_request_id inp) (li_now inp) db) (\<lambda>db1. Inr (Inl (ExAuth err), db1))"

definition login_ip_gate :: "login_input \<Rightarrow> ident_db \<Rightarrow> exn + rate_limit_decision option \<times> ident_db" where
  "login_ip_gate inp db = (case li_ip inp of
      None \<Rightarrow> Inr (None, db)
    | Some ip \<Rightarrow> r_bind (db_consume (ip_bucket ip) LOGIN_IP_BUCKET_CAPACITY LOGIN_IP_BUCKET_REFILL_PER_SECOND
                          (li_now inp) db) (\<lambda>(d, db1). Inr (Some d, db1)))"

text \<open>The credential check after both gates.\<close>

definition login_authenticate ::
  "crypto \<Rightarrow> settings \<Rightarrow> draws \<Rightarrow> login_input \<Rightarrow> ident_db \<Rightarrow> exn + (exn + issued_session) \<times> ident_db" where
  "login_authenticate cr st dr inp db =
     r_bind (user_by_email (li_email inp) db) (\<lambda>user.
       let stored_hash = (case user of
             Some u \<Rightarrow> (case us_password_hash u of Some h \<Rightarrow> h | None \<Rightarrow> dummy_hash cr)
           | None \<Rightarrow> dummy_hash cr)
       in r_bind (verify_password cr stored_hash (li_password inp)) (\<lambda>password_ok.
            case user of
              None \<Rightarrow> login_refuse dr inp ''bad_credentials'' None LoginFailedError db
            | Some u \<Rightarrow>
                if us_status u = st_active \<and> us_password_hash u \<noteq> None \<and> password_ok
                then let db1 = db_reset (email_bucket (li_email inp)) db
                     in r_bind (issue_session cr st dr u (li_now inp) None (li_user_agent inp) (li_ip inp) False db1)
                          (\<lambda>(issued, db2).
                             r_bind (db_audit (dr_audit_id dr) ''login_success'' (role_actor (us_role u)) (Some (us_id u))
                                       [(''session_id'', MUuid (is_session_id issued))] (li_request_id inp) (li_now inp) db2)
                               (\<lambda>db3. Inr (Inr issued, db3)))
                else login_refuse dr inp ''bad_credentials'' (Some (us_id u)) LoginFailedError db))"

definition login_email_gate ::
  "crypto \<Rightarrow> settings \<Rightarrow> draws \<Rightarrow> login_input \<Rightarrow> ident_db \<Rightarrow> exn + (exn + issued_session) \<times> ident_db" where
  "login_email_gate cr st dr inp db =
     r_bind (db_consume (email_bucket (li_email inp)) LOGIN_BUCKET_CAPACITY LOGIN_BUCKET_REFILL_PER_SECOND (li_now inp) db)
       (\<lambda>(decision, db1).
          if \<not> rl_allowed decision
          then login_refuse dr inp ''locked'' None (LoginLockedError (rl_retry_after decision)) db1
          else login_authenticate cr st dr inp db1)"

definition login ::
  "crypto \<Rightarrow> settings \<Rightarrow> draws \<Rightarrow> login_input \<Rightarrow> ident_db \<Rightarrow> (exn + issued_session) \<times> ident_db" where
  "login cr st dr inp db = transact db
     (r_bind (login_ip_gate inp db) (\<lambda>(ip_decision, db1).
        case ip_decision of
          Some d \<Rightarrow> if \<not> rl_allowed d
            then login_refuse dr inp ''ip_rate_limited'' None (LoginLockedError (rl_retry_after d)) db1
            else login_email_gate cr st dr inp db1
        | None \<Rightarrow> login_email_gate cr st dr inp db1))"

text \<open>
  \<open>RefreshCommand\<close> in its two parts: what it decides from the rows it reads, and what it writes. The row
  is read without a lock, so the two parts of concurrent requests can interleave.
\<close>

datatype refresh_plan = PlanReuse refresh_token_row | PlanRotate refresh_token_row user_row

definition refresh_read :: "crypto \<Rightarrow> refresh_input \<Rightarrow> ident_db \<Rightarrow> exn + refresh_plan" where
  "refresh_read cr inp db =
     r_bind (csrf_tokens_match (ri_csrf_cookie inp) (ri_csrf_header inp)) (\<lambda>ok.
       if \<not> ok then Inl (ExAuth CsrfFailedError)
       else case ri_raw_refresh_token inp of
              None \<Rightarrow> Inl (ExAuth RefreshInvalidError)
            | Some raw \<Rightarrow>
                r_bind (token_by_hash (hash_refresh_token cr raw) db) (\<lambda>found.
                  case found of
                    None \<Rightarrow> Inl (ExAuth RefreshInvalidError)
                  | Some token \<Rightarrow>
                      if rt_revoked_at token \<noteq> None
                      then if rt_revoked_reason token = Some rev_rotated then Inr (PlanReuse token)
                           else Inl (ExAuth RefreshInvalidError)
                      else if rt_expires_at token \<le> ri_now inp then Inl (ExAuth RefreshInvalidError)
                      else r_bind (user_by_id (rt_user_id token) db) (\<lambda>user.
                             case user of
                               None \<Rightarrow> Inl (ExAuth RefreshInvalidError)
                             | Some u \<Rightarrow> if us_status u \<noteq> st_active then Inl (ExAuth RefreshInvalidError)
                                         else Inr (PlanRotate token u))))"

definition refresh_write ::
  "crypto \<Rightarrow> settings \<Rightarrow> draws \<Rightarrow> refresh_input \<Rightarrow> refresh_plan \<Rightarrow> ident_db \<Rightarrow> exn + (exn + issued_session) \<times> ident_db" where
  "refresh_write cr st dr inp plan db = (case plan of
      PlanReuse token \<Rightarrow>
        (case revoke_all_active_for_user (rt_user_id token) rev_reuse_detected (ri_now inp) db of (revoked, db1) \<Rightarrow>
           r_bind (db_audit (dr_audit_id dr) ''refresh_reuse_detected'' actor_user (Some (rt_user_id token))
                     [(''revoked_token_count'', MInt (int revoked))] (ri_request_id inp) (ri_now inp) db1) (\<lambda>db2.
             Inr (Inl (ExAuth RefreshReuseDetectedError), db2)))
    | PlanRotate token user \<Rightarrow>
        (let db1 = revoke (rt_id token) rev_rotated (ri_now inp) db
         in r_bind (issue_session cr st dr user (ri_now inp) (Some (rt_id token)) (ri_user_agent inp) (ri_ip inp)
                      (rt_mfa_verified token) db1) (\<lambda>(issued, db2).
              r_bind (db_audit (dr_audit_id dr) ''session_refreshed'' (role_actor (us_role user)) (Some (us_id user))
                        [(''session_id'', MUuid (is_session_id issued))] (ri_request_id inp) (ri_now inp) db2) (\<lambda>db3.
                Inr (Inr issued, db3)))))"

definition refresh_session ::
  "crypto \<Rightarrow> settings \<Rightarrow> draws \<Rightarrow> refresh_input \<Rightarrow> ident_db \<Rightarrow> (exn + issued_session) \<times> ident_db" where
  "refresh_session cr st dr inp db =
     transact db (r_bind (refresh_read cr inp db) (\<lambda>plan. refresh_write cr st dr inp plan db))"

definition logout :: "crypto \<Rightarrow> draws \<Rightarrow> logout_input \<Rightarrow> ident_db \<Rightarrow> (exn + unit) \<times> ident_db" where
  "logout cr dr inp db = transact db (case lo_raw_refresh_token inp of
      None \<Rightarrow> Inr (Inr (), db)
    | Some raw \<Rightarrow>
        r_bind (csrf_tokens_match (lo_csrf_cookie inp) (lo_csrf_header inp)) (\<lambda>ok.
          if \<not> ok then Inl (ExAuth CsrfFailedError)
          else r_bind (token_by_hash (hash_refresh_token cr raw) db) (\<lambda>found.
                 case found of
                   None \<Rightarrow> Inr (Inr (), db)
                 | Some token \<Rightarrow>
                     if rt_revoked_at token = None
                     then r_bind (db_audit (dr_audit_id dr) ''logout'' actor_user (Some (rt_user_id token))
                                    [(''session_id'', MUuid (rt_id token))] (lo_request_id inp) (lo_now inp)
                                    (revoke (rt_id token) rev_logout (lo_now inp) db)) (\<lambda>db1. Inr (Inr (), db1))
                     else Inr (Inr (), db))))"

end
