(* ===== verification/Account_Commands.thy ===== *)
theory Account_Commands
  imports Auth_Commands
begin

text \<open>
  \<open>commands/account.py\<close> (less the cascade of a disable, which reaches the order tables),
  \<open>commands/password_reset.py\<close> and \<open>commands/two_factor.py\<close>. The mailer is a function that says whether
  \<open>send\<close> returns; a command also yields the mails it handed over. The Chinese subjects and bodies are
  symbolic, with the link they carry.
\<close>

section \<open>Mail\<close>

datatype mail_text = InvitationMail string | PasswordResetMail string

record mail_message =
  ml_to :: string
  ml_text :: mail_text

type_synonym mailer = "mail_message \<Rightarrow> bool"

section \<open>Invitations and accounts\<close>

definition INVITATION_TTL :: int where "INVITATION_TTL = usec_per_day"
definition RESEND_CAPACITY :: rat where "RESEND_CAPACITY = 3"
definition RESEND_REFILL_PER_SECOND :: rat where "RESEND_REFILL_PER_SECOND = 3 / 3600"

record account_draws =
  ad_user_id :: uuid
  ad_invitation_id :: uuid
  ad_raw_token :: string
  ad_salt :: string
  ad_audit_id :: uuid
  ad_db_now :: datetime

record create_user_input =
  cu_email :: string
  cu_role :: user_role
  cu_created_by_admin_id :: uuid
  cu_now :: datetime
  cu_request_id :: "string option"

record provision_user_input =
  pu_email :: string
  pu_password :: string
  pu_role :: user_role
  pu_created_by_admin_id :: uuid
  pu_now :: datetime
  pu_request_id :: "string option"

record accept_invitation_input =
  ai_raw_token :: string
  ai_password :: string
  ai_now :: datetime
  ai_user_agent :: "string option"
  ai_ip :: "string option"
  ai_request_id :: "string option"

record admin_target_input =
  at_target_user_id :: uuid
  at_actor_admin_id :: uuid
  at_now :: datetime
  at_request_id :: "string option"

definition is_email_unique_violation :: "exn \<Rightarrow> bool" where
  "is_email_unique_violation e \<longleftrightarrow> e = ExIntegrity (uq_other ''uq_users_email'')"

text \<open>The loser of a race on the email gets the same error as the pre-check gives.\<close>

definition translate_email_race :: "(exn + 'a) \<times> 'b \<Rightarrow> (exn + 'a) \<times> 'b" where
  "translate_email_race r = (case r of
      (Inl e, db) \<Rightarrow> (Inl (if is_email_unique_violation e then ExAccount EmailAlreadyExistsError else e), db)
    | (Inr x, db) \<Rightarrow> (Inr x, db))"

definition invitation_mail :: "string \<Rightarrow> string \<Rightarrow> string \<Rightarrow> mail_message" where
  "invitation_mail email raw_token base_url =
     \<lparr>ml_to = email, ml_text = InvitationMail (base_url @ ''/accept-invitation?token='' @ raw_token)\<rparr>"

definition send_mail :: "mailer \<Rightarrow> mail_message \<Rightarrow> exn + unit" where
  "send_mail mailer m = (if mailer m then Inr () else Inl ExMailer)"

text \<open>
  \<open>_send_invitation_mail\<close> does not catch the mailer's failure, so that the account and the invitation
  are rolled back with it.
\<close>

definition create_user ::
  "crypto \<Rightarrow> mailer \<Rightarrow> string \<Rightarrow> account_draws \<Rightarrow> create_user_input \<Rightarrow> ident_db \<Rightarrow> (exn + uuid) \<times> ident_db" where
  "create_user cr mailer base_url dr inp db = translate_email_race (transact db
     (let email = normalize_email (cu_email inp)
      in r_bind (user_by_email email db) (\<lambda>existing.
           if existing \<noteq> None then Inl (ExAccount EmailAlreadyExistsError)
           else r_bind (create_invited (ad_user_id dr) (ad_db_now dr) email (cu_role inp) db) (\<lambda>db1.
             r_bind (create_invitation (ad_invitation_id dr) (ad_db_now dr) (ad_user_id dr)
                       (hash_url_token cr (ad_raw_token dr)) (cu_now inp + INVITATION_TTL)
                       (cu_created_by_admin_id inp) db1) (\<lambda>db2.
               r_bind (send_mail mailer (invitation_mail email (ad_raw_token dr) base_url)) (\<lambda>_.
                 r_bind (db_audit (ad_audit_id dr) ''account_invited'' actor_admin (Some (cu_created_by_admin_id inp))
                           [(''invited_user_id'', MUuid (ad_user_id dr)),
                            (''role'', MStr (if cu_role inp = role_admin then ''admin'' else ''user''))]
                           (cu_request_id inp) (cu_now inp) db2) (\<lambda>db3.
                   Inr (Inr (ad_user_id dr), db3))))))))"

definition provision_user ::
  "crypto \<Rightarrow> account_draws \<Rightarrow> provision_user_input \<Rightarrow> ident_db \<Rightarrow> (exn + uuid) \<times> ident_db" where
  "provision_user cr dr inp db = translate_email_race (transact db
     (r_bind (user_by_email (pu_email inp) db) (\<lambda>existing.
        if existing \<noteq> None then Inl (ExAccount EmailAlreadyExistsError)
        else if \<not> is_password_strong_enough (pu_password inp) then Inl (ExAccount WeakPasswordError)
        else r_bind (create_active (ad_user_id dr) (ad_db_now dr) (pu_email inp) (pu_role inp)
                       (hash_password cr (ad_salt dr) (pu_password inp)) db) (\<lambda>db1.
          r_bind (db_audit (ad_audit_id dr) ''account_provisioned_by_admin'' actor_admin
                    (Some (pu_created_by_admin_id inp))
                    [(''provisioned_user_id'', MUuid (ad_user_id dr)),
                     (''role'', MStr (if pu_role inp = role_admin then ''admin'' else ''user''))]
                    (pu_request_id inp) (pu_now inp) db1) (\<lambda>db2.
            Inr (Inr (ad_user_id dr), db2))))))"

definition accept_invitation ::
  "crypto \<Rightarrow> settings \<Rightarrow> draws \<Rightarrow> string \<Rightarrow> accept_invitation_input \<Rightarrow> ident_db \<Rightarrow> (exn + issued_session) \<times> ident_db" where
  "accept_invitation cr st dr salt inp db = transact db
     (r_bind (invitation_by_hash (hash_url_token cr (ai_raw_token inp)) db) (\<lambda>found.
        case found of
          None \<Rightarrow> Inl (ExAccount InvitationInvalidError)
        | Some invitation \<Rightarrow>
            if iv_revoked_at invitation \<noteq> None then Inl (ExAccount InvitationInvalidError)
            else if iv_consumed_at invitation \<noteq> None then Inl (ExAccount InvitationConsumedError)
            else if iv_expires_at invitation \<le> ai_now inp then Inl (ExAccount InvitationExpiredError)
            else if \<not> is_password_strong_enough (ai_password inp) then Inl (ExAccount WeakPasswordError)
            else r_bind (user_by_id (iv_user_id invitation) db) (\<lambda>user.
              case user of
                None \<Rightarrow> Inl (ExAccount InvitationInvalidError)
              | Some u \<Rightarrow>
                  if us_status u \<noteq> st_invited then Inl (ExAccount InvitationInvalidError)
                  else let db1 = activate (us_id u) (hash_password cr salt (ai_password inp)) (ai_now inp) db;
                           db2 = consume_invitation (iv_id invitation) (ai_now inp) db1
                       in r_bind (issue_session cr st dr u (ai_now inp) None (ai_user_agent inp) (ai_ip inp) False db2)
                            (\<lambda>(issued, db3).
                               r_bind (db_audit (dr_audit_id dr) ''account_activated'' (role_actor (us_role u))
                                         (Some (us_id u)) [(''session_id'', MUuid (is_session_id issued))]
                                         (ai_request_id inp) (ai_now inp) db3) (\<lambda>db4.
                                 Inr (Inr issued, db4))))))"

definition reactivate_user ::
  "account_draws \<Rightarrow> admin_target_input \<Rightarrow> ident_db \<Rightarrow> (exn + unit) \<times> ident_db" where
  "reactivate_user dr inp db = transact db
     (r_bind (user_by_id (at_target_user_id inp) db) (\<lambda>user.
        case user of
          None \<Rightarrow> Inl (ExAccount UserNotFoundError)
        | Some u \<Rightarrow>
            if us_status u \<noteq> st_disabled then Inl (ExAccount AccountNotDisabledError)
            else r_bind (db_audit (ad_audit_id dr) ''account_reactivated'' actor_admin (Some (at_actor_admin_id inp))
                           [(''target_user_id'', MUuid (us_id u))] (at_request_id inp) (at_now inp)
                           (reactivate (us_id u) (at_now inp) db)) (\<lambda>db1. Inr (Inr (), db1))))"

definition resend_invitation ::
  "crypto \<Rightarrow> mailer \<Rightarrow> string \<Rightarrow> account_draws \<Rightarrow> admin_target_input \<Rightarrow> ident_db \<Rightarrow>
   (exn + unit) \<times> ident_db" where
  "resend_invitation cr mailer base_url dr inp db = transact db
     (r_bind (user_by_id (at_target_user_id inp) db) (\<lambda>user.
        case user of
          None \<Rightarrow> Inl (ExAccount UserNotFoundError)
        | Some u \<Rightarrow>
            if us_status u \<noteq> st_invited then Inl (ExAccount InvitationInvalidError)
            else r_bind (db_consume (''invitation_resend:'' @ uuid_str (us_id u)) RESEND_CAPACITY
                           RESEND_REFILL_PER_SECOND (at_now inp) db) (\<lambda>(decision, db1).
              if \<not> rl_allowed decision then Inr (Inl (ExAuth (RateLimitedError (rl_retry_after decision))), db1)
              else let db2 = revoke_active_invitations (us_id u) (at_now inp) db1
                   in r_bind (create_invitation (ad_invitation_id dr) (ad_db_now dr) (us_id u)
                                (hash_url_token cr (ad_raw_token dr)) (at_now inp + INVITATION_TTL)
                                (at_actor_admin_id inp) db2) (\<lambda>db3.
                        r_bind (send_mail mailer (invitation_mail (us_email u) (ad_raw_token dr) base_url)) (\<lambda>_.
                          r_bind (db_audit (ad_audit_id dr) ''invitation_resent'' actor_admin
                                    (Some (at_actor_admin_id inp)) [(''target_user_id'', MUuid (us_id u))]
                                    (at_request_id inp) (at_now inp) db3) (\<lambda>db4.
                            Inr (Inr (), db4)))))))"

section \<open>Password reset\<close>

definition RESET_TTL :: int where "RESET_TTL = seconds (30 * 60)"
definition EMAIL_CAPACITY :: rat where "EMAIL_CAPACITY = 3"
definition EMAIL_REFILL_PER_SECOND :: rat where "EMAIL_REFILL_PER_SECOND = 3 / 3600"
definition IP_CAPACITY :: rat where "IP_CAPACITY = 10"
definition IP_REFILL_PER_SECOND :: rat where "IP_REFILL_PER_SECOND = 10 / 3600"

record password_reset_request_input =
  rq_email :: string
  rq_now :: datetime
  rq_ip :: "string option"
  rq_request_id :: "string option"

record password_reset_confirm_input =
  rc_raw_token :: string
  rc_new_password :: string
  rc_now :: datetime
  rc_request_id :: "string option"

text \<open>What the request writes: the two throttles, then, for an active account within them, a token and a mail.\<close>

definition reset_request_body ::
  "crypto \<Rightarrow> string \<Rightarrow> account_draws \<Rightarrow> password_reset_request_input \<Rightarrow> ident_db \<Rightarrow>
   exn + mail_message option \<times> ident_db" where
  "reset_request_body cr base_url dr inp db =
     (let email = normalize_email (rq_email inp)
      in r_bind (db_consume (''pwreset:email:'' @ email) EMAIL_CAPACITY EMAIL_REFILL_PER_SECOND (rq_now inp) db)
        (\<lambda>(email_d, db1).
          r_bind (case rq_ip inp of
                    None \<Rightarrow> Inr (True, db1)
                  | Some ip \<Rightarrow> r_bind (db_consume (''pwreset:ip:'' @ ip) IP_CAPACITY IP_REFILL_PER_SECOND (rq_now inp) db1)
                                 (\<lambda>(ip_d, db2). Inr (rl_allowed ip_d, db2))) (\<lambda>(ip_ok, db2).
            if rl_allowed email_d \<and> ip_ok
            then r_bind (user_by_email (rq_email inp) db2) (\<lambda>user.
                   case user of
                     None \<Rightarrow> Inr (None, db2)
                   | Some u \<Rightarrow>
                       if us_status u = st_active
                       then r_bind (create_reset (ad_invitation_id dr) (ad_db_now dr) (us_id u)
                                      (hash_url_token cr (ad_raw_token dr)) (rq_now inp + RESET_TTL) (rq_ip inp) db2)
                              (\<lambda>db3.
                                 r_bind (db_audit (ad_audit_id dr) ''password_reset_requested'' actor_user (Some (us_id u))
                                           [] (rq_request_id inp) (rq_now inp) db3) (\<lambda>db4.
                                   Inr (Some \<lparr>ml_to = us_email u,
                                          ml_text = PasswordResetMail (base_url @ ''/reset-password?token='' @ ad_raw_token dr)\<rparr>,
                                        db4)))
                       else Inr (None, db2))
            else Inr (None, db2))))"

text \<open>The mail goes out after the commit, and a failure of the mailer is swallowed.\<close>

definition password_reset_request ::
  "crypto \<Rightarrow> mailer \<Rightarrow> string \<Rightarrow> account_draws \<Rightarrow> password_reset_request_input \<Rightarrow> ident_db \<Rightarrow>
   (exn + unit) \<times> ident_db \<times> mail_message list" where
  "password_reset_request cr mailer base_url dr inp db =
     (case reset_request_body cr base_url dr inp db of
        Inl e \<Rightarrow> (Inl e, db, [])
      | Inr (None, db1) \<Rightarrow> (Inr (), db1, [])
      | Inr (Some m, db1) \<Rightarrow> (Inr (), db1, if mailer m then [m] else []))"

definition password_reset_confirm ::
  "crypto \<Rightarrow> account_draws \<Rightarrow> password_reset_confirm_input \<Rightarrow> ident_db \<Rightarrow> (exn + unit) \<times> ident_db" where
  "password_reset_confirm cr dr inp db = transact db
     (r_bind (reset_by_hash (hash_url_token cr (rc_raw_token inp)) db) (\<lambda>found.
        case found of
          None \<Rightarrow> Inl (ExAccount PasswordResetInvalidError)
        | Some rst \<Rightarrow>
            if pr_consumed_at rst \<noteq> None \<or> pr_expires_at rst \<le> rc_now inp
            then Inl (ExAccount PasswordResetInvalidError)
            else if \<not> is_password_strong_enough (rc_new_password inp) then Inl (ExAccount WeakPasswordError)
            else r_bind (user_by_id (pr_user_id rst) db) (\<lambda>user.
              case user of
                None \<Rightarrow> Inl (ExAccount PasswordResetInvalidError)
              | Some u \<Rightarrow>
                  if us_status u \<noteq> st_active then Inl (ExAccount PasswordResetInvalidError)
                  else let db1 = set_password (us_id u) (hash_password cr (ad_salt dr) (rc_new_password inp)) (rc_now inp) db;
                           db2 = consume_reset (pr_id rst) (rc_now inp) db1
                       in case revoke_all_active_for_user (us_id u) rev_password_reset (rc_now inp) db2 of (revoked, db3) \<Rightarrow>
                            r_bind (db_audit (ad_audit_id dr) ''password_reset_completed'' actor_user (Some (us_id u))
                                      [(''revoked_token_count'', MInt (int revoked))] (rc_request_id inp) (rc_now inp) db3)
                              (\<lambda>db4. Inr (Inr (), db4)))))"

section \<open>Second factor of an administrator\<close>

definition VERIFY_2FA_CAPACITY :: rat where "VERIFY_2FA_CAPACITY = 5"
definition VERIFY_2FA_REFILL_PER_SECOND :: rat where "VERIFY_2FA_REFILL_PER_SECOND = 1 / 900"

record setup_two_factor_input =
  sf_admin_user_id :: uuid
  sf_now :: datetime
  sf_request_id :: "string option"

record setup_two_factor_result =
  sr_provisioning_uri :: string
  sr_secret :: string

record verify_two_factor_input =
  vf_admin_user_id :: uuid
  vf_session_id :: uuid
  vf_code :: string
  vf_now :: datetime
  vf_request_id :: "string option"

record verify_two_factor_result =
  vr_access_token :: string
  vr_expires_in :: int
  vr_role :: user_role

definition setup_two_factor ::
  "crypto \<Rightarrow> settings \<Rightarrow> string \<Rightarrow> setup_two_factor_input \<Rightarrow> ident_db \<Rightarrow> (exn + setup_two_factor_result) \<times> ident_db" where
  "setup_two_factor cr st secret inp db = transact db
     (r_bind (user_by_id (sf_admin_user_id inp) db) (\<lambda>user.
        case user of
          None \<Rightarrow> Inl (ExAuth ForbiddenError)
        | Some u \<Rightarrow>
            if us_role u \<noteq> role_admin then Inl (ExAuth ForbiddenError)
            else if us_mfa_enabled u then Inl (ExAccount MfaAlreadyEnabledError)
            else Inr (Inr \<lparr>sr_provisioning_uri = totp_uri cr secret (us_email u) ''ai-stock'', sr_secret = secret\<rparr>,
                   set_mfa_secret (us_id u) (encrypt_secret cr (se_mfa_encryption_key st) secret) (sf_now inp) db)))"

definition verify_bucket :: "uuid \<Rightarrow> string" where
  "verify_bucket user_id = ''2fa_verify:'' @ uuid_str user_id"

text \<open>What a right code does: refund the lockout, enrol on the first success, raise the session.\<close>

definition verify_success ::
  "crypto \<Rightarrow> settings \<Rightarrow> uuid \<Rightarrow> uuid \<Rightarrow> user_row \<Rightarrow> verify_two_factor_input \<Rightarrow> ident_db \<Rightarrow>
   exn + (exn + verify_two_factor_result) \<times> ident_db" where
  "verify_success cr st audit_id1 audit_id2 u inp db =
     (let db1 = db_reset (verify_bucket (vf_admin_user_id inp)) db
      in r_bind (if us_mfa_enabled u then Inr db1
                 else db_audit audit_id1 ''admin_2fa_enabled'' actor_admin (Some (us_id u)) [] (vf_request_id inp)
                        (vf_now inp) (enable_mfa (us_id u) (vf_now inp) db1)) (\<lambda>db2.
           r_bind (db_audit audit_id2 ''admin_2fa_verified'' actor_admin (Some (us_id u)) [] (vf_request_id inp)
                     (vf_now inp) (mark_mfa_verified (vf_session_id inp) db2)) (\<lambda>db3.
             Inr (Inr \<lparr>vr_access_token = encode_access_token cr (se_jwt_access_secret st) (us_id u) (us_role u)
                         (vf_session_id inp) (se_access_ttl_admin st) (vf_now inp) True,
                       vr_expires_in = se_access_ttl_admin st, vr_role = us_role u\<rparr>, db3))))"

definition verify_two_factor ::
  "crypto \<Rightarrow> settings \<Rightarrow> uuid \<Rightarrow> uuid \<Rightarrow> datetime \<Rightarrow> verify_two_factor_input \<Rightarrow> ident_db \<Rightarrow>
   (exn + verify_two_factor_result) \<times> ident_db" where
  "verify_two_factor cr st audit_id1 audit_id2 clock inp db = transact db
     (r_bind (user_by_id (vf_admin_user_id inp) db) (\<lambda>user.
        case user of
          None \<Rightarrow> Inl (ExAuth ForbiddenError)
        | Some u \<Rightarrow>
            if us_role u \<noteq> role_admin then Inl (ExAuth ForbiddenError)
            else r_bind (db_consume (verify_bucket (vf_admin_user_id inp)) VERIFY_2FA_CAPACITY
                           VERIFY_2FA_REFILL_PER_SECOND (vf_now inp) db) (\<lambda>(decision, db1).
              if \<not> rl_allowed decision
              then r_bind (db_audit audit_id1 ''admin_2fa_verify_locked'' actor_admin (Some (us_id u)) []
                             (vf_request_id inp) (vf_now inp) db1) (\<lambda>db2.
                     Inr (Inl (ExAuth (RateLimitedError (rl_retry_after decision))), db2))
              else r_bind (get_mfa_secret_encrypted (us_id u) db1) (\<lambda>encrypted.
                     case encrypted of
                       None \<Rightarrow> Inl (ExAccount MfaNotSetupError)
                     | Some ciphertext \<Rightarrow>
                         r_bind (decrypt_secret cr (se_mfa_encryption_key st) ciphertext) (\<lambda>secret.
                           if \<not> verify_totp cr secret (vf_code inp) clock
                           then Inr (Inl (ExAuth MfaInvalidCodeError), db1)
                           else verify_success cr st audit_id1 audit_id2 u inp db1)))))"

end
