(* ===== verification/Identity_Invariant.thy ===== *)
theory Identity_Invariant
  imports Account_Commands
begin

text \<open>
  What every command of the identity side keeps. Each command is a sequence of a few guarded primitive
  steps on the tables (\<open>ident_prim\<close>); the invariant \<open>ident_ok\<close> and the facts on single tokens are proved once
  per primitive step.
\<close>

section \<open>What a result establishes\<close>

definition holds :: "('a \<Rightarrow> bool) \<Rightarrow> 'e + 'a \<Rightarrow> bool" where
  "holds P r \<longleftrightarrow> (case r of Inl e \<Rightarrow> True | Inr x \<Rightarrow> P x)"

named_theorems holds_intros \<open>rules for what a result establishes\<close>

lemma holds_simps [simp]: "holds P (Inl e)" "holds P (Inr x) = P x"
  by (simp_all add: holds_def)

lemma holds_bind: "holds Q r \<Longrightarrow> (\<And>x. Q x \<Longrightarrow> holds P (f x)) \<Longrightarrow> holds P (r_bind r f)"
  by (cases r) simp_all

lemma holds_bind_eq: "(\<And>x. r = Inr x \<Longrightarrow> holds P (f x)) \<Longrightarrow> holds P (r_bind r f)"
  by (cases r) simp_all

lemma holdsD: "holds P r \<Longrightarrow> r = Inr x \<Longrightarrow> P x"
  by simp

lemma transact_holds:
  "P db \<Longrightarrow> holds (\<lambda>(x, db'). P db') r \<Longrightarrow> P (snd (transact db r))"
  by (cases r) (auto simp: transact_def)

section \<open>The invariant\<close>

definition users_ok :: "user_row list \<Rightarrow> bool" where
  "users_ok us \<longleftrightarrow> distinct (map us_id us) \<and> distinct (map (\<lambda>u. lower (us_email u)) us)"

text \<open>A live token has no successor; a successor's parent was rotated, belongs to the same user and has no other.\<close>

definition parent_ok :: "refresh_token_row list \<Rightarrow> refresh_token_row \<Rightarrow> bool" where
  "parent_ok ts t = (case rt_parent_token_id t of
      None \<Rightarrow> True
    | Some p \<Rightarrow> list_ex (\<lambda>q. rt_id q = p \<and> rt_revoked_at q \<noteq> None \<and> rt_revoked_reason q = Some rev_rotated
                            \<and> rt_user_id q = rt_user_id t) ts)"

definition tokens_ok :: "uuid set \<Rightarrow> refresh_token_row list \<Rightarrow> bool" where
  "tokens_ok us ts \<longleftrightarrow> distinct (map rt_id ts) \<and> distinct (map rt_token_hash ts) \<and>
     (\<forall>t \<in> set ts. rt_user_id t \<in> us \<and> (rt_revoked_at t = None \<longleftrightarrow> rt_revoked_reason t = None) \<and> parent_ok ts t) \<and>
     unique_on (\<lambda>t. rt_parent_token_id t \<noteq> None) rt_parent_token_id ts"

definition invitations_ok :: "invitation_row list \<Rightarrow> bool" where
  "invitations_ok is \<longleftrightarrow> distinct (map iv_id is) \<and> distinct (map iv_token_hash is) \<and> unique_on live_invitation iv_user_id is"

definition resets_ok :: "password_reset_row list \<Rightarrow> bool" where
  "resets_ok rs \<longleftrightarrow> distinct (map pr_id rs) \<and> distinct (map pr_token_hash rs)"

definition ident_ok :: "ident_db \<Rightarrow> bool" where
  "ident_ok db \<longleftrightarrow> users_ok (id_users db) \<and> tokens_ok (us_id ` set (id_users db)) (id_tokens db) \<and>
     invitations_ok (id_invitations db) \<and> resets_ok (id_resets db) \<and> buckets_ok (id_buckets db)"

section \<open>Primitive steps\<close>

text \<open>The tables beside users and tokens may change freely within their own invariants.\<close>

definition side_ok :: "ident_db \<Rightarrow> bool" where
  "side_ok db \<longleftrightarrow> invitations_ok (id_invitations db) \<and> resets_ok (id_resets db) \<and> buckets_ok (id_buckets db)"

inductive ident_prim :: "ident_db \<Rightarrow> ident_db \<Rightarrow> bool" where
  prim_user: "(\<And>r. us_id (f r) = us_id r \<and> us_email (f r) = us_email r \<and> us_role (f r) = us_role r \<and>
                  (us_mfa_enabled r \<longrightarrow> us_mfa_enabled (f r))) \<Longrightarrow> ident_prim db (upd_user u f db)"
| prim_insert_user: "insert_user row db = Inr db' \<Longrightarrow> ident_prim db db'"
| prim_session: "create_token i n u h e None ua ip False db = Inr db' \<Longrightarrow> ident_prim db db'"
| prim_rotate: "t \<in> set (id_tokens db) \<Longrightarrow> rt_revoked_at t = None \<Longrightarrow>
    create_token i n (rt_user_id t) h e (Some (rt_id t)) ua ip (rt_mfa_verified t) (revoke (rt_id t) rev_rotated now db) = Inr db'
    \<Longrightarrow> ident_prim db db'"
| prim_revoke: "reason \<noteq> rev_rotated \<Longrightarrow> ident_prim db (revoke i reason now db)"
| prim_revoke_all: "reason \<noteq> rev_rotated \<Longrightarrow> ident_prim db (snd (revoke_all_active_for_user u reason now db))"
| prim_mfa: "(\<And>t. t \<in> set (id_tokens db) \<Longrightarrow> rt_id t = sid \<Longrightarrow>
       \<exists>u \<in> set (id_users db). us_id u = rt_user_id t \<and> us_role u = role_admin \<and> us_mfa_enabled u) \<Longrightarrow>
    ident_prim db (mark_mfa_verified sid db)"
| prim_side: "id_users db' = id_users db \<Longrightarrow> id_tokens db' = id_tokens db \<Longrightarrow> (side_ok db \<Longrightarrow> side_ok db') \<Longrightarrow>
    ident_prim db db'"

abbreviation ident_steps :: "ident_db \<Rightarrow> ident_db \<Rightarrow> bool" where
  "ident_steps \<equiv> ident_prim\<^sup>*\<^sup>*"

section \<open>Primitive steps keep the invariant\<close>

lemma set_upd_user_ids [simp]:
  "(\<And>r. us_id (f r) = us_id r) \<Longrightarrow> us_id ` set (id_users (upd_user u f db)) = us_id ` set (id_users db)"
  using map_upd_where_frame [of us_id f "\<lambda>r. us_id r = u" "id_users db"] by (simp add: upd_user_def flip: set_map)

lemma users_ok_upd:
  assumes "\<And>r. us_id (f r) = us_id r" and "\<And>r. us_email (f r) = us_email r"
  shows "users_ok (id_users (upd_user u f db)) = users_ok (id_users db)"
  using map_upd_where_frame [of us_id f "\<lambda>r. us_id r = u" "id_users db"]
    map_upd_where_frame [of "\<lambda>r. lower (us_email r)" f "\<lambda>r. us_id r = u" "id_users db"] assms
  by (simp add: users_ok_def upd_user_def)

lemma upd_user_frame [simp]:
  "id_tokens (upd_user u f db) = id_tokens db" "id_invitations (upd_user u f db) = id_invitations db"
  "id_resets (upd_user u f db) = id_resets db" "id_buckets (upd_user u f db) = id_buckets db"
  "id_audit (upd_user u f db) = id_audit db"
  by (simp_all add: upd_user_def)

lemma insert_user_Inr_iff:
  "insert_user row db = Inr db' \<longleftrightarrow> us_id row \<notin> us_id ` set (id_users db) \<and>
     lower (us_email row) \<notin> (\<lambda>r. lower (us_email r)) ` set (id_users db) \<and> db' = db\<lparr>id_users := id_users db @ [row]\<rparr>"
  by (auto simp: insert_user_def)

lemma create_token_Inr_iff:
  "create_token i n u h e p ua ip m db = Inr db' \<longleftrightarrow> i \<notin> rt_id ` set (id_tokens db) \<and>
     h \<notin> rt_token_hash ` set (id_tokens db) \<and> u \<in> us_id ` set (id_users db) \<and>
     (case p of None \<Rightarrow> True | Some q \<Rightarrow> q \<in> rt_id ` set (id_tokens db)) \<and>
     db' = db\<lparr>id_tokens := id_tokens db @ [\<lparr>rt_id = i, rt_user_id = u, rt_token_hash = h, rt_parent_token_id = p,
       rt_issued_at = n, rt_expires_at = e, rt_revoked_at = None, rt_revoked_reason = None, rt_user_agent = ua,
       rt_ip = ip, rt_mfa_verified = m\<rparr>]\<rparr>"
  by (auto simp: create_token_def Let_def split: option.splits)

text \<open>An update of tokens that leaves keys and parents alone, and the revocation of a row already revoked.\<close>

lemma tokens_ok_upd:
  assumes "tokens_ok us ts"
    and f: "\<And>t. rt_id (f t) = rt_id t \<and> rt_token_hash (f t) = rt_token_hash t \<and> rt_user_id (f t) = rt_user_id t \<and>
      rt_parent_token_id (f t) = rt_parent_token_id t"
    and null: "\<And>t. (rt_revoked_at t = None) = (rt_revoked_reason t = None) \<Longrightarrow>
      (rt_revoked_at (f t) = None) = (rt_revoked_reason (f t) = None)"
    and keep: "\<And>t. p t \<Longrightarrow> rt_revoked_at t \<noteq> None \<Longrightarrow>
      rt_revoked_at (f t) \<noteq> None \<and> rt_revoked_reason (f t) = rt_revoked_reason t"
  shows "tokens_ok us (upd_where p f ts)"
proof -
  have f1 [simp]: "rt_id (f t) = rt_id t" "rt_token_hash (f t) = rt_token_hash t" "rt_user_id (f t) = rt_user_id t"
    "rt_parent_token_id (f t) = rt_parent_token_id t" for t using f [of t] by simp_all
  have par: "parent_ok (upd_where p f ts) t" if "parent_ok ts t" for t
  proof (cases "rt_parent_token_id t")
    case (Some q)
    with that obtain r where r: "r \<in> set ts" "rt_id r = q" "rt_revoked_at r \<noteq> None"
      "rt_revoked_reason r = Some rev_rotated" "rt_user_id r = rt_user_id t" by (auto simp: parent_ok_def list_ex_iff)
    define r' where "r' = (if p r then f r else r)"
    have "r' \<in> set (upd_where p f ts)" using r(1) by (simp add: r'_def set_upd_where)
    moreover have "rt_id r' = q" "rt_revoked_at r' \<noteq> None" "rt_revoked_reason r' = Some rev_rotated" "rt_user_id r' = rt_user_id t"
      using r(2-5) keep [of r] by (simp_all add: r'_def)
    ultimately show ?thesis using Some unfolding parent_ok_def list_ex_iff by (simp del: not_None_eq) blast
  qed (simp add: parent_ok_def)
  have par_f: "parent_ok xs (f t) = parent_ok xs t" for xs t by (simp add: parent_ok_def split: option.split)
  have row: "rt_user_id t \<in> us \<and> (rt_revoked_at t = None \<longleftrightarrow> rt_revoked_reason t = None) \<and> parent_ok ts t" if "t \<in> set ts" for t
    using assms(1) that by (simp add: tokens_ok_def)
  have "rt_user_id t \<in> us \<and> (rt_revoked_at t = None \<longleftrightarrow> rt_revoked_reason t = None) \<and> parent_ok (upd_where p f ts) t"
    if "t \<in> set (upd_where p f ts)" for t
  proof -
    from that obtain r where r: "r \<in> set ts" "t = f r \<or> t = r" by (auto simp: upd_where_mem_iff)
    from r(2) row [OF r(1)] par [of r] null [of r] show ?thesis by (elim disjE) (simp_all add: par_f)
  qed
  moreover have "unique_on (\<lambda>t. rt_parent_token_id t \<noteq> None) rt_parent_token_id (upd_where p f ts)"
    by (rule unique_on_upd_where) (use assms(1) in \<open>simp_all add: tokens_ok_def\<close>)
  moreover have "map rt_id (upd_where p f ts) = map rt_id ts" "map rt_token_hash (upd_where p f ts) = map rt_token_hash ts"
    by (simp_all add: map_upd_where_frame)
  ultimately show ?thesis using assms(1) by (simp add: tokens_ok_def)
qed

lemma tokens_ok_no_child:
  assumes "tokens_ok us ts" and "t \<in> set ts" and "rt_revoked_at t = None" and "c \<in> set ts"
  shows "rt_parent_token_id c \<noteq> Some (rt_id t)"
proof
  assume c: "rt_parent_token_id c = Some (rt_id t)"
  have "parent_ok ts c" using assms(1,4) by (simp add: tokens_ok_def)
  with c obtain q where q: "q \<in> set ts" "rt_id q = rt_id t" "rt_revoked_at q \<noteq> None"
    by (auto simp: parent_ok_def list_ex_iff)
  have "distinct (map rt_id ts)" using assms(1) by (simp add: tokens_ok_def)
  from distinct_key_eq [OF this q(1) assms(2) q(2)] q(3) assms(3) show False by simp
qed

lemma ident_ok_iff:
  "ident_ok db \<longleftrightarrow> users_ok (id_users db) \<and> tokens_ok (us_id ` set (id_users db)) (id_tokens db) \<and> side_ok db"
  by (auto simp: ident_ok_def side_ok_def)

lemma tokens_ok_mono: "tokens_ok us ts \<Longrightarrow> us \<subseteq> us' \<Longrightarrow> tokens_ok us' ts"
  by (auto simp: tokens_ok_def)

lemma revoke_frame [simp]:
  "id_users (revoke i r n db) = id_users db" "id_invitations (revoke i r n db) = id_invitations db"
  "id_resets (revoke i r n db) = id_resets db" "id_buckets (revoke i r n db) = id_buckets db"
  "id_audit (revoke i r n db) = id_audit db" "side_ok (revoke i r n db) = side_ok db"
  by (simp_all add: revoke_def side_ok_def)

lemma mark_frame [simp]:
  "id_users (mark_mfa_verified i db) = id_users db" "side_ok (mark_mfa_verified i db) = side_ok db"
  by (simp_all add: mark_mfa_verified_def side_ok_def)

lemma revoke_all_frame [simp]:
  "id_users (snd (revoke_all_active_for_user u r n db)) = id_users db"
  "side_ok (snd (revoke_all_active_for_user u r n db)) = side_ok db"
  by (simp_all add: revoke_all_active_for_user_def side_ok_def Let_def)

lemma tokens_ok_revoke: "tokens_ok us (id_tokens db) \<Longrightarrow> tokens_ok us (id_tokens (revoke i r n db))"
  unfolding revoke_def by (simp, rule tokens_ok_upd) auto

lemma tokens_ok_revoke_all:
  "tokens_ok us (id_tokens db) \<Longrightarrow> tokens_ok us (id_tokens (snd (revoke_all_active_for_user u r n db)))"
  unfolding revoke_all_active_for_user_def Let_def by (simp, rule tokens_ok_upd) auto

lemma tokens_ok_mark: "tokens_ok us (id_tokens db) \<Longrightarrow> tokens_ok us (id_tokens (mark_mfa_verified i db))"
  unfolding mark_mfa_verified_def by (simp, rule tokens_ok_upd) auto

lemma parent_ok_append: "parent_ok ts t \<Longrightarrow> parent_ok (ts @ us) t"
  by (auto simp: parent_ok_def split: option.splits)

lemma tokens_ok_snoc:
  assumes "tokens_ok us ts" and "rt_id t \<notin> rt_id ` set ts" and "rt_token_hash t \<notin> rt_token_hash ` set ts"
    and "rt_user_id t \<in> us" and "rt_revoked_at t = None" and "rt_revoked_reason t = None" and "parent_ok ts t"
    and "\<And>c. c \<in> set ts \<Longrightarrow> rt_parent_token_id t \<noteq> None \<Longrightarrow> rt_parent_token_id c \<noteq> rt_parent_token_id t"
  shows "tokens_ok us (ts @ [t])"
proof -
  have "unique_on (\<lambda>t. rt_parent_token_id t \<noteq> None) rt_parent_token_id (ts @ [t])"
    unfolding unique_on_snoc using assms(1,8) by (auto simp: tokens_ok_def)
  moreover have "rt_user_id x \<in> us \<and> (rt_revoked_at x = None \<longleftrightarrow> rt_revoked_reason x = None) \<and> parent_ok (ts @ [t]) x"
    if "x \<in> set (ts @ [t])" for x
    using that assms(1,4-7) parent_ok_append [of ts x "[t]"] by (cases "x = t") (simp_all add: tokens_ok_def)
  moreover have "distinct (map rt_id (ts @ [t]))" "distinct (map rt_token_hash (ts @ [t]))"
    using assms(1-3) by (simp_all add: tokens_ok_def)
  ultimately show ?thesis by (simp add: tokens_ok_def)
qed

lemma users_ok_snoc:
  "users_ok us \<Longrightarrow> us_id u \<notin> us_id ` set us \<Longrightarrow> lower (us_email u) \<notin> (\<lambda>r. lower (us_email r)) ` set us \<Longrightarrow> users_ok (us @ [u])"
  by (simp add: users_ok_def)

lemma prim_rotate_ok:
  assumes "ident_ok db" and t: "t \<in> set (id_tokens db)" "rt_revoked_at t = None"
    and "create_token i n (rt_user_id t) h e (Some (rt_id t)) ua ip m (revoke (rt_id t) rev_rotated now db) = Inr db'"
  shows "ident_ok db'"
proof -
  let ?db = "revoke (rt_id t) rev_rotated now db"
  let ?us = "us_id ` set (id_users db)"
  have ok: "tokens_ok ?us (id_tokens db)" using assms(1) by (simp add: ident_ok_iff)
  have "t\<lparr>rt_revoked_at := Some now, rt_revoked_reason := Some rev_rotated\<rparr> \<in> set (id_tokens ?db)"
    using t by (force simp: revoke_def upd_where_mem_iff)
  then have par: "list_ex (\<lambda>q. rt_id q = rt_id t \<and> rt_revoked_at q \<noteq> None \<and> rt_revoked_reason q = Some rev_rotated
      \<and> rt_user_id q = rt_user_id t) (id_tokens ?db)"
    unfolding list_ex_iff by (rule bexI [rotated]) simp
  have nochild: "rt_parent_token_id c \<noteq> Some (rt_id t)" if "c \<in> set (id_tokens ?db)" for c
  proof -
    from that obtain c' where "c' \<in> set (id_tokens db)" "rt_parent_token_id c = rt_parent_token_id c'"
      by (auto simp: revoke_def upd_where_mem_iff)
    with tokens_ok_no_child [OF ok t] show ?thesis by metis
  qed
  from assms(4) [unfolded create_token_Inr_iff] have
    db': "i \<notin> rt_id ` set (id_tokens ?db)" "h \<notin> rt_token_hash ` set (id_tokens ?db)" "rt_user_id t \<in> ?us"
      "id_users db' = id_users db" "side_ok db' = side_ok db"
      "id_tokens db' = id_tokens ?db @ [\<lparr>rt_id = i, rt_user_id = rt_user_id t, rt_token_hash = h,
         rt_parent_token_id = Some (rt_id t), rt_issued_at = n, rt_expires_at = e, rt_revoked_at = None,
         rt_revoked_reason = None, rt_user_agent = ua, rt_ip = ip, rt_mfa_verified = m\<rparr>]"
    by (simp_all add: side_ok_def)
  have "tokens_ok ?us (id_tokens db')"
    unfolding db'(6) by (rule tokens_ok_snoc [OF tokens_ok_revoke [OF ok]]) (use db'(1-3) par nochild in \<open>auto simp: parent_ok_def\<close>)
  then show ?thesis using assms(1) db'(4,5) by (simp add: ident_ok_iff)
qed

lemma ident_prim_ok: "ident_prim db db' \<Longrightarrow> ident_ok db \<Longrightarrow> ident_ok db'"
proof (induction rule: ident_prim.induct)
  case (prim_user f db u)
  then show ?case using users_ok_upd [of f u db] by (simp add: ident_ok_def)
next
  case (prim_insert_user row db db')
  then show ?case unfolding insert_user_Inr_iff
    by (auto simp: ident_ok_iff side_ok_def intro!: users_ok_snoc elim!: tokens_ok_mono)
next
  case (prim_session i n u h e ua ip db db')
  then have db': "i \<notin> rt_id ` set (id_tokens db)" "h \<notin> rt_token_hash ` set (id_tokens db)" "u \<in> us_id ` set (id_users db)"
    "id_users db' = id_users db" "side_ok db' = side_ok db"
    "id_tokens db' = id_tokens db @ [\<lparr>rt_id = i, rt_user_id = u, rt_token_hash = h, rt_parent_token_id = None,
       rt_issued_at = n, rt_expires_at = e, rt_revoked_at = None, rt_revoked_reason = None, rt_user_agent = ua,
       rt_ip = ip, rt_mfa_verified = False\<rparr>]" unfolding create_token_Inr_iff by (simp_all add: side_ok_def)
  have "tokens_ok (us_id ` set (id_users db)) (id_tokens db')"
    unfolding db'(6) by (rule tokens_ok_snoc) (use db'(1-3) prim_session(2) in \<open>simp_all add: parent_ok_def ident_ok_iff\<close>)
  then show ?case using prim_session(2) db'(4,5) by (simp add: ident_ok_iff)
next
  case (prim_rotate t db i n h e ua ip now db')
  then show ?case using prim_rotate_ok by blast
next
  case (prim_side db' db)
  then show ?case by (simp add: ident_ok_iff)
qed (simp_all add: ident_ok_iff tokens_ok_revoke tokens_ok_revoke_all tokens_ok_mark)

lemma ident_steps_ok: "ident_steps db db' \<Longrightarrow> ident_ok db \<Longrightarrow> ident_ok db'"
  by (induction rule: rtranclp_induct) (auto intro: ident_prim_ok)

section \<open>Commands are sequences of primitive steps\<close>

lemma holds_if [holds_intros]: "(b \<Longrightarrow> holds P x) \<Longrightarrow> (\<not> b \<Longrightarrow> holds P y) \<Longrightarrow> holds P (if b then x else y)"
  by simp

lemma holds_option [holds_intros]:
  "(x = None \<Longrightarrow> holds P a) \<Longrightarrow> (\<And>y. x = Some y \<Longrightarrow> holds P (f y)) \<Longrightarrow> holds P (case x of None \<Rightarrow> a | Some y \<Rightarrow> f y)"
  by (cases x) simp_all

lemma holds_prod [holds_intros]: "(\<And>a b. x = (a, b) \<Longrightarrow> holds P (f a b)) \<Longrightarrow> holds P (case x of (a, b) \<Rightarrow> f a b)"
  by (cases x) simp

lemma holds_Inl [holds_intros]: "holds P (Inl e)"
  by simp

lemma holds_Inr_pair [holds_intros]: "P db \<Longrightarrow> holds (\<lambda>(x, db'). P db') (Inr (r, db))"
  by simp

lemma consume_buckets_ok: "consume k c r cost now rows = Inr (d, rows') \<Longrightarrow> buckets_ok rows \<Longrightarrow> buckets_ok rows'"
proof -
  assume c: "consume k c r cost now rows = Inr (d, rows')" and ok: "buckets_ok rows"
  obtain tok upd where "start_bucket k c now rows = (tok, upd)" by fastforce
  from consume_eq [OF ok this refl, of r cost] c show "buckets_ok rows'" by auto
qed

lemma steps_side:
  assumes "ident_steps db0 db" and "id_users db' = id_users db" and "id_tokens db' = id_tokens db" and "side_ok db \<Longrightarrow> side_ok db'"
  shows "ident_steps db0 db'"
  using assms(1) prim_side [OF assms(2-4)] by (rule rtranclp.rtrancl_into_rtrancl)

lemma steps_audit_Inr:
  assumes "ident_steps db0 db" and "db_audit i ev ac aid md rid now db = Inr db'"
  shows "ident_steps db0 db'"
proof -
  from assms(2) obtain rows where "db' = db\<lparr>id_audit := rows\<rparr>" by (auto simp: db_audit_def bind_simps)
  then show ?thesis by (intro steps_side [OF assms(1)]) (simp_all add: side_ok_def)
qed

lemma steps_consume_Inr:
  assumes "ident_steps db0 db" and "db_consume k c r now db = Inr (d, db')"
  shows "ident_steps db0 db'"
proof -
  from assms(2) obtain rows where x: "db' = db\<lparr>id_buckets := rows\<rparr>" "consume k c r 1 now (id_buckets db) = Inr (d, rows)"
    by (auto simp: db_consume_def bind_simps)
  show ?thesis unfolding x(1)
    by (rule steps_side [OF assms(1)]) (simp_all add: side_ok_def consume_buckets_ok [OF x(2)])
qed

lemma steps_audit:
  assumes "ident_steps db0 db" and "\<And>db'. ident_steps db0 db' \<Longrightarrow> holds P (f db')"
  shows "holds P (r_bind (db_audit i ev ac aid md rid now db) f)"
  by (rule holds_bind_eq) (rule assms(2) [OF steps_audit_Inr [OF assms(1)]])

lemma steps_consume:
  assumes "ident_steps db0 db" and "\<And>d db'. ident_steps db0 db' \<Longrightarrow> holds P (f (d, db'))"
  shows "holds P (r_bind (db_consume k c r now db) f)"
  by (rule holds_bind_eq) (use assms(2) steps_consume_Inr [OF assms(1)] in force)

lemma steps_reset: "ident_steps db0 db \<Longrightarrow> ident_steps db0 (db_reset k db)"
  by (erule steps_side) (auto simp: db_reset_def side_ok_def buckets_ok_def reset_def distinct_map_filter)

lemma steps_user:
  "ident_steps db0 db \<Longrightarrow> (\<And>r. us_id (f r) = us_id r \<and> us_email (f r) = us_email r \<and> us_role (f r) = us_role r \<and>
     (us_mfa_enabled r \<longrightarrow> us_mfa_enabled (f r))) \<Longrightarrow> ident_steps db0 (upd_user u f db)"
  by (erule rtranclp.rtrancl_into_rtrancl) (rule prim_user)

lemma steps_revoke: "ident_steps db0 db \<Longrightarrow> reason \<noteq> rev_rotated \<Longrightarrow> ident_steps db0 (revoke i reason now db)"
  by (erule rtranclp.rtrancl_into_rtrancl) (rule prim_revoke)

lemma steps_revoke_all:
  "ident_steps db0 db \<Longrightarrow> revoke_all_active_for_user u reason now db = (k, db') \<Longrightarrow> reason \<noteq> rev_rotated \<Longrightarrow> ident_steps db0 db'"
  by (erule rtranclp.rtrancl_into_rtrancl) (metis prim_revoke_all snd_conv)

lemma steps_session:
  "ident_steps db0 db \<Longrightarrow> (\<And>s db'. ident_steps db0 db' \<Longrightarrow> holds P (f (s, db'))) \<Longrightarrow>
   holds P (r_bind (issue_session cr st dr u now None ua ip False db) f)"
  by (rule holds_bind_eq)
    (auto simp: issue_session_def bind_simps Let_def intro: rtranclp.rtrancl_into_rtrancl prim_session)

lemma steps_rotate:
  "ident_steps db0 db \<Longrightarrow> t \<in> set (id_tokens db) \<Longrightarrow> rt_revoked_at t = None \<Longrightarrow> us_id u = rt_user_id t \<Longrightarrow>
   (\<And>s db'. ident_steps db0 db' \<Longrightarrow> holds P (f (s, db'))) \<Longrightarrow>
   holds P (r_bind (issue_session cr st dr u now (Some (rt_id t)) ua ip (rt_mfa_verified t) (revoke (rt_id t) rev_rotated now' db)) f)"
  by (rule holds_bind_eq)
    (auto simp: issue_session_def bind_simps Let_def intro: rtranclp.rtrancl_into_rtrancl prim_rotate)

lemma steps_insert_user:
  "ident_steps db0 db \<Longrightarrow> (\<And>db'. ident_steps db0 db' \<Longrightarrow> holds P (f db')) \<Longrightarrow> holds P (r_bind (insert_user row db) f)"
  by (rule holds_bind_eq) (auto intro: rtranclp.rtrancl_into_rtrancl prim_insert_user)

lemma unique_on_live_snoc:
  "unique_on live_invitation iv_user_id is \<Longrightarrow> iv_user_id r \<notin> iv_user_id ` set (filter live_invitation is) \<Longrightarrow>
   unique_on live_invitation iv_user_id (is @ [r])"
  unfolding unique_on_snoc by (simp add: image_iff) metis

lemma steps_create_invitation:
  assumes "ident_steps db0 db" and "\<And>db'. ident_steps db0 db' \<Longrightarrow> holds P (f db')"
  shows "holds P (r_bind (create_invitation i n u h e a db) f)"
proof (rule holds_bind_eq)
  fix db' assume c: "create_invitation i n u h e a db = Inr db'"
  then have new: "i \<notin> iv_id ` set (id_invitations db)" "h \<notin> iv_token_hash ` set (id_invitations db)"
    "u \<notin> iv_user_id ` set (filter live_invitation (id_invitations db))"
    and db': "db' = db\<lparr>id_invitations := id_invitations db @ [\<lparr>iv_id = i, iv_user_id = u, iv_token_hash = h,
                iv_expires_at = e, iv_consumed_at = None, iv_revoked_at = None, iv_created_by_admin_id = a, iv_created_at = n\<rparr>]\<rparr>"
    unfolding create_invitation_def Let_def by (simp_all split: if_split_asm)
  have "ident_steps db0 db'"
    using assms(1) by (rule steps_side) (use new in \<open>simp_all add: db' side_ok_def invitations_ok_def unique_on_live_snoc\<close>)
  then show "holds P (f db')" by (rule assms(2))
qed

lemma steps_create_reset:
  assumes "ident_steps db0 db" and "\<And>db'. ident_steps db0 db' \<Longrightarrow> holds P (f db')"
  shows "holds P (r_bind (create_reset i n u h e ip db) f)"
proof (rule holds_bind_eq, rule assms(2))
  fix db' assume "create_reset i n u h e ip db = Inr db'"
  then have "i \<notin> pr_id ` set (id_resets db)" "h \<notin> pr_token_hash ` set (id_resets db)"
    and "db' = db\<lparr>id_resets := id_resets db @ [\<lparr>pr_id = i, pr_user_id = u, pr_token_hash = h, pr_expires_at = e,
           pr_consumed_at = None, pr_requested_ip = ip, pr_created_at = n\<rparr>]\<rparr>"
    unfolding create_reset_def by (simp_all split: if_split_asm)
  then show "ident_steps db0 db'" by (intro steps_side [OF assms(1)]) (simp_all add: side_ok_def resets_ok_def)
qed

lemma steps_consume_reset: "ident_steps db0 db \<Longrightarrow> ident_steps db0 (consume_reset i now db)"
  by (erule steps_side) (auto simp: consume_reset_def side_ok_def resets_ok_def map_upd_where_frame)

lemma steps_upd_invitations:
  assumes "ident_steps db0 db" and "\<And>r. iv_id (f r) = iv_id r" "\<And>r. iv_token_hash (f r) = iv_token_hash r"
    and "\<And>r. \<not> live_invitation (f r)"
  shows "ident_steps db0 (db\<lparr>id_invitations := upd_where p f (id_invitations db)\<rparr>)"
  using assms(1)
proof (rule steps_side)
  assume "side_ok db"
  then have "unique_on live_invitation iv_user_id (upd_where p f (id_invitations db))"
    by (intro unique_on_upd_where) (simp_all add: side_ok_def invitations_ok_def assms(4))
  with \<open>side_ok db\<close> show "side_ok (db\<lparr>id_invitations := upd_where p f (id_invitations db)\<rparr>)"
    by (simp add: side_ok_def invitations_ok_def map_upd_where_frame assms(2,3))
qed simp_all

lemma steps_consume_invitation: "ident_steps db0 db \<Longrightarrow> ident_steps db0 (consume_invitation i now db)"
  unfolding consume_invitation_def by (rule steps_upd_invitations) (simp_all add: live_invitation_def)

lemma steps_revoke_invitations: "ident_steps db0 db \<Longrightarrow> ident_steps db0 (revoke_active_invitations u now db)"
  unfolding revoke_active_invitations_def by (rule steps_upd_invitations) (simp_all add: live_invitation_def)

lemma steps_query:
  assumes "\<And>x. (\<And>r. x = Some r \<Longrightarrow> r \<in> set rows) \<Longrightarrow> holds P (f x)"
  shows "holds P (r_bind (one_or_none rows) f)"
  by (rule holds_bind_eq, rule assms) (auto dest: one_or_none_SomeD)

lemmas steps_rules = holds_intros steps_audit steps_consume steps_session steps_create_invitation steps_create_reset steps_insert_user
lemmas steps_state = steps_reset steps_user steps_revoke steps_consume_reset steps_consume_invitation steps_revoke_invitations

end
