(* ===== verification/Identity_Steps.thy ===== *)
theory Identity_Steps
  imports Identity_Invariant
begin

text \<open>Every command of the identity side is a sequence of primitive steps.\<close>

lemma transact_steps: "holds (\<lambda>(x, db'). ident_steps db db') r \<Longrightarrow> ident_steps db (snd (transact db r))"
  by (rule transact_holds) simp_all

lemma holds_bind_pair:
  "holds (\<lambda>(x, db'). ident_steps db0 db') r \<Longrightarrow> (\<And>x db'. ident_steps db0 db' \<Longrightarrow> holds P (f (x, db'))) \<Longrightarrow> holds P (r_bind r f)"
  by (erule holds_bind) auto

lemma steps_case_revoke_all:
  assumes "ident_steps db0 db" and "reason \<noteq> rev_rotated" and "\<And>k db'. ident_steps db0 db' \<Longrightarrow> holds P (f k db')"
  shows "holds P (case revoke_all_active_for_user u reason now db of (k, db') \<Rightarrow> f k db')"
proof (rule holds_prod)
  fix k db' assume "revoke_all_active_for_user u reason now db = (k, db')"
  from steps_revoke_all [OF assms(1) this assms(2)] show "holds P (f k db')" by (rule assms(3))
qed

lemma login_authenticate_steps:
  "ident_steps db0 db \<Longrightarrow> holds (\<lambda>(x, db'). ident_steps db0 db') (login_authenticate cr st dr inp db)"
  unfolding login_authenticate_def login_refuse_def user_by_email_def Let_def
  by (intro steps_query holds_bind_eq [where r = "verify_password _ _ _"] steps_rules steps_state) simp_all

lemma login_ip_gate_steps: "ident_steps db0 db \<Longrightarrow> holds (\<lambda>(x, db'). ident_steps db0 db') (login_ip_gate inp db)"
  unfolding login_ip_gate_def by (intro steps_rules) simp_all

lemma login_steps: "ident_steps db (snd (login cr st dr inp db))"
  unfolding login_def login_email_gate_def login_refuse_def
  by (intro transact_steps holds_bind_pair [OF login_ip_gate_steps] steps_rules steps_state login_authenticate_steps) simp_all

definition plan_ok :: "refresh_input \<Rightarrow> ident_db \<Rightarrow> refresh_plan \<Rightarrow> bool" where
  "plan_ok inp db plan = (case plan of
      PlanReuse t \<Rightarrow> t \<in> set (id_tokens db) \<and> rt_revoked_at t \<noteq> None \<and> rt_revoked_reason t = Some rev_rotated
    | PlanRotate t u \<Rightarrow> t \<in> set (id_tokens db) \<and> rt_revoked_at t = None \<and> ri_now inp < rt_expires_at t \<and>
        u \<in> set (id_users db) \<and> us_id u = rt_user_id t \<and> us_status u = st_active)"

lemma refresh_read_holds: "holds (plan_ok inp db) (refresh_read cr inp db)"
  unfolding refresh_read_def token_by_hash_def user_by_id_def
  by (intro steps_query holds_bind_eq [where r = "csrf_tokens_match _ _"] holds_intros) (auto simp: plan_ok_def)

lemmas refresh_read_ok = holdsD [OF refresh_read_holds]

lemma refresh_steps: "ident_steps db (snd (refresh_session cr st dr inp db))"
  unfolding refresh_session_def
proof (intro transact_steps holds_bind_eq)
  fix plan assume r: "refresh_read cr inp db = Inr plan"
  show "holds (\<lambda>(x, db'). ident_steps db db') (refresh_write cr st dr inp plan db)"
  proof (cases plan)
    case (PlanReuse t)
    show ?thesis unfolding PlanReuse refresh_write_def refresh_plan.case
      by (intro steps_case_revoke_all steps_rules) simp_all
  next
    case (PlanRotate t u)
    have t: "t \<in> set (id_tokens db)" "rt_revoked_at t = None" "us_id u = rt_user_id t"
      using refresh_read_ok [OF r] by (simp_all add: PlanRotate plan_ok_def)
    show ?thesis unfolding PlanRotate refresh_write_def Let_def refresh_plan.case
      by (intro steps_rotate steps_rules) (use t in simp_all)
  qed
qed

lemma logout_steps: "ident_steps db (snd (logout cr dr inp db))"
  unfolding logout_def token_by_hash_def
  by (intro transact_steps steps_query holds_bind_eq [where r = "csrf_tokens_match _ _"] steps_rules steps_state) simp_all

lemma translate_email_race_snd [simp]: "snd (translate_email_race r) = snd r"
  by (auto simp: translate_email_race_def split: prod.split sum.split)

lemma create_user_steps: "ident_steps db (snd (create_user cr mailer url dr inp db))"
  unfolding create_user_def translate_email_race_snd Let_def create_invited_def user_by_email_def
  by (intro transact_steps steps_query holds_bind_eq [where r = "send_mail _ _"] steps_rules steps_state) simp_all

lemma provision_user_steps: "ident_steps db (snd (provision_user cr dr inp db))"
  unfolding provision_user_def translate_email_race_snd create_active_def user_by_email_def
  by (intro transact_steps steps_query steps_rules steps_state) simp_all

lemma accept_invitation_steps: "ident_steps db (snd (accept_invitation cr st dr salt inp db))"
  unfolding accept_invitation_def Let_def invitation_by_hash_def user_by_id_def activate_def
  by (intro transact_steps steps_query steps_rules steps_state) simp_all

lemma reactivate_user_steps: "ident_steps db (snd (reactivate_user dr inp db))"
  unfolding reactivate_user_def user_by_id_def reactivate_def
  by (intro transact_steps steps_query steps_rules steps_state) simp_all

lemma resend_invitation_steps: "ident_steps db (snd (resend_invitation cr mailer url dr inp db))"
  unfolding resend_invitation_def Let_def user_by_id_def
  by (intro transact_steps steps_query holds_bind_eq [where r = "send_mail _ _"] steps_rules steps_state) simp_all

lemma password_reset_confirm_steps: "ident_steps db (snd (password_reset_confirm cr dr inp db))"
  unfolding password_reset_confirm_def Let_def reset_by_hash_def user_by_id_def set_password_def
  by (intro transact_steps steps_query steps_case_revoke_all steps_rules steps_state) simp_all

lemma setup_two_factor_steps: "ident_steps db (snd (setup_two_factor cr st secret inp db))"
  unfolding setup_two_factor_def user_by_id_def set_mfa_secret_def
  by (intro transact_steps steps_query steps_rules steps_state) simp_all

lemma reset_request_body_steps:
  "holds (\<lambda>(m, db'). ident_steps db db') (reset_request_body cr url dr inp db)"
proof -
  have ip: "holds (\<lambda>(x, db'). ident_steps db db') (case rq_ip inp of
      None \<Rightarrow> Inr (True, db1)
    | Some ip \<Rightarrow> r_bind (db_consume (''pwreset:ip:'' @ ip) IP_CAPACITY IP_REFILL_PER_SECOND (rq_now inp) db1)
                   (\<lambda>(ip_d, db2). Inr (rl_allowed ip_d, db2)))" if "ident_steps db db1" for db1
    using that by (intro steps_rules) simp_all
  show ?thesis unfolding reset_request_body_def Let_def user_by_email_def
    by (intro steps_consume holds_prod holds_bind_pair [OF ip] steps_query steps_rules) simp_all
qed

lemma password_reset_request_steps: "ident_steps db (fst (snd (password_reset_request cr mailer url dr inp db)))"
  using reset_request_body_steps [of db cr url dr inp]
  by (auto simp: password_reset_request_def split: sum.split option.split)

lemma db_audit_keeps: "db_audit i ev ac aid md rid now db = Inr db' \<Longrightarrow> id_users db' = id_users db \<and> id_tokens db' = id_tokens db"
  by (auto simp: db_audit_def bind_simps)

lemma db_consume_keeps: "db_consume k c r now db = Inr (d, db') \<Longrightarrow> id_users db' = id_users db \<and> id_tokens db' = id_tokens db"
  by (auto simp: db_consume_def bind_simps)

lemma db_reset_keeps [simp]: "id_users (db_reset k db) = id_users db" "id_tokens (db_reset k db) = id_tokens db"
  by (simp_all add: db_reset_def)

lemma verify_success_steps:
  assumes "ident_steps db0 db" and "u \<in> set (id_users db)" and "us_role u = role_admin"
    and own: "\<And>t. t \<in> set (id_tokens db) \<Longrightarrow> rt_id t = vf_session_id inp \<Longrightarrow> rt_user_id t = us_id u"
  shows "holds (\<lambda>(x, db'). ident_steps db0 db') (verify_success cr st a1 a2 u inp db)"
proof -
  let ?db1 = "db_reset (verify_bucket (vf_admin_user_id inp)) db"
  let ?Q = "\<lambda>db2. ident_steps db0 db2 \<and> id_tokens db2 = id_tokens db \<and>
      (\<exists>v \<in> set (id_users db2). us_id v = us_id u \<and> us_role v = role_admin \<and> us_mfa_enabled v)"
  have "holds ?Q (if us_mfa_enabled u then Inr ?db1
      else db_audit a1 ''admin_2fa_enabled'' actor_admin (Some (us_id u)) [] (vf_request_id inp) (vf_now inp)
        (enable_mfa (us_id u) (vf_now inp) ?db1))"
  proof (rule holds_if)
    assume "us_mfa_enabled u"
    with assms steps_reset [OF assms(1)] show "holds ?Q (Inr ?db1)" by auto
  next
    let ?db2 = "enable_mfa (us_id u) (vf_now inp) ?db1"
    let ?v = "u\<lparr>us_mfa_enabled := True, us_updated_at := vf_now inp\<rparr>"
    have "ident_steps db0 ?db2" unfolding enable_mfa_def by (intro steps_state assms(1)) simp_all
    then have "holds (ident_steps db0) (db_audit a1 ''admin_2fa_enabled'' actor_admin (Some (us_id u)) [] (vf_request_id inp)
        (vf_now inp) ?db2)"
      by (simp add: holds_def steps_audit_Inr split: sum.split)
    moreover have "?v \<in> set (id_users ?db2)"
      using assms(2) by (force simp: enable_mfa_def upd_user_def upd_where_mem_iff)
    moreover have "id_tokens ?db2 = id_tokens db" by (simp add: enable_mfa_def)
    ultimately show "holds ?Q (db_audit a1 ''admin_2fa_enabled'' actor_admin (Some (us_id u)) [] (vf_request_id inp)
        (vf_now inp) ?db2)"
      using assms(3) by (auto simp: holds_def split: sum.splits dest!: db_audit_keeps intro!: bexI [of _ ?v])
  qed
  then show ?thesis unfolding verify_success_def Let_def
  proof (rule holds_bind)
    fix db2 assume Q: "?Q db2"
    then have "ident_prim db2 (mark_mfa_verified (vf_session_id inp) db2)"
      using own by (intro prim_mfa) metis
    with Q have "ident_steps db0 (mark_mfa_verified (vf_session_id inp) db2)" by (meson rtranclp.rtrancl_into_rtrancl)
    then show "holds (\<lambda>(x, db'). ident_steps db0 db')
      (r_bind (db_audit a2 ''admin_2fa_verified'' actor_admin (Some (us_id u)) [] (vf_request_id inp) (vf_now inp)
         (mark_mfa_verified (vf_session_id inp) db2)) (\<lambda>db3.
         Inr (Inr \<lparr>vr_access_token = encode_access_token cr (se_jwt_access_secret st) (us_id u) (us_role u)
                     (vf_session_id inp) (se_access_ttl_admin st) (vf_now inp) True,
                   vr_expires_in = se_access_ttl_admin st, vr_role = us_role u\<rparr>, db3)))"
      by (intro steps_rules)
  qed
qed

lemma verify_two_factor_steps:
  assumes own: "\<And>t. t \<in> set (id_tokens db) \<Longrightarrow> rt_id t = vf_session_id inp \<Longrightarrow> rt_user_id t = vf_admin_user_id inp"
  shows "ident_steps db (snd (verify_two_factor cr st a1 a2 clock inp db))"
  unfolding verify_two_factor_def user_by_id_def
proof (intro transact_steps steps_query)
  fix user assume user: "\<And>r. user = Some r \<Longrightarrow> r \<in> set (filter (\<lambda>r. us_id r = vf_admin_user_id inp) (id_users db))"
  show "holds (\<lambda>(x, db'). ident_steps db db') (case user of
          None \<Rightarrow> Inl (ExAuth ForbiddenError)
        | Some u \<Rightarrow>
            if us_role u \<noteq> role_admin then Inl (ExAuth ForbiddenError)
            else r_bind (db_consume (verify_bucket (vf_admin_user_id inp)) VERIFY_2FA_CAPACITY
                           VERIFY_2FA_REFILL_PER_SECOND (vf_now inp) db) (\<lambda>(decision, db1).
              if \<not> rl_allowed decision
              then r_bind (db_audit a1 ''admin_2fa_verify_locked'' actor_admin (Some (us_id u)) []
                             (vf_request_id inp) (vf_now inp) db1) (\<lambda>db2.
                     Inr (Inl (ExAuth (RateLimitedError (rl_retry_after decision))), db2))
              else r_bind (get_mfa_secret_encrypted (us_id u) db1) (\<lambda>encrypted.
                     case encrypted of
                       None \<Rightarrow> Inl (ExAccount MfaNotSetupError)
                     | Some ciphertext \<Rightarrow>
                         r_bind (decrypt_secret cr (se_mfa_encryption_key st) ciphertext) (\<lambda>secret.
                           if \<not> verify_totp cr secret (vf_code inp) clock
                           then Inr (Inl (ExAuth MfaInvalidCodeError), db1)
                           else verify_success cr st a1 a2 u inp db1))))"
  proof (intro holds_option holds_if holds_Inl holds_bind_eq [where r = "db_consume _ _ _ _ _"] holds_prod)
    fix u x d db1
    assume u: "user = Some u" "\<not> us_role u \<noteq> role_admin" and x: "x = (d, db1)"
      and c: "db_consume (verify_bucket (vf_admin_user_id inp)) VERIFY_2FA_CAPACITY VERIFY_2FA_REFILL_PER_SECOND (vf_now inp) db = Inr x"
    from c x have keep: "id_users db1 = id_users db" "id_tokens db1 = id_tokens db" by (auto dest: db_consume_keeps)
    have st1: "ident_steps db db1" using c unfolding x by (rule steps_consume_Inr [rotated]) simp
    show "holds (\<lambda>(x, db'). ident_steps db db') (r_bind (db_audit a1 ''admin_2fa_verify_locked'' actor_admin (Some (us_id u)) []
                             (vf_request_id inp) (vf_now inp) db1) (\<lambda>db2.
                     Inr (Inl (ExAuth (RateLimitedError (rl_retry_after d))), db2)))"
      using st1 by (intro steps_rules)
    show "holds (\<lambda>(x, db'). ident_steps db db') (r_bind (get_mfa_secret_encrypted (us_id u) db1) (\<lambda>encrypted.
                     case encrypted of
                       None \<Rightarrow> Inl (ExAccount MfaNotSetupError)
                     | Some ciphertext \<Rightarrow>
                         r_bind (decrypt_secret cr (se_mfa_encryption_key st) ciphertext) (\<lambda>secret.
                           if \<not> verify_totp cr secret (vf_code inp) clock
                           then Inr (Inl (ExAuth MfaInvalidCodeError), db1)
                           else verify_success cr st a1 a2 u inp db1)))"
      by (intro holds_bind_eq holds_option holds_if holds_Inl holds_Inr_pair verify_success_steps st1)
        (use user [OF u(1)] u own keep in auto)
  qed
qed

end
