(* ===== verification/Legacy_Store.thy ===== *)
theory Legacy_Store
  imports Lifecycle
begin

text \<open>
  \<open>repositories/intent_repository.py\<close> and the tables \<open>trade_intents\<close> and \<open>twap_slices\<close> of
  \<open>db/models/core.py\<close>: the old order track, which today carries the TWAP orders only. The tables it
  shares with the new track (users, symbols, notifications) are those of \<open>core_db\<close>. The operations that
  create, list and trigger the other strategies are in \<open>Legacy_Trigger\<close> and \<open>Legacy_Orders\<close>.
\<close>

section \<open>Rows\<close>

datatype slice_status = slice_pending | slice_notified | slice_cancelled

record legacy_row =
  lg_id :: uuid
  lg_owner_user_id :: uuid
  lg_symbol :: string
  lg_strategy :: strategy
  lg_execution_mode :: string
  lg_quantity_lots :: int
  lg_target_price_original :: "decimal option"
  lg_target_price_effective :: "decimal option"
  lg_trigger_reference_price_type :: reference_price_type
  lg_trading_date :: date
  lg_time_in_force :: string
  lg_status :: intent_status
  lg_cancelled_at :: "datetime option"
  lg_triggered_at :: "datetime option"
  lg_transaction_mode :: transaction_mode
  lg_notification_mode :: string
  lg_filled_quantity_lots :: int
  lg_last_fill_at :: "datetime option"
  lg_trail_mode :: "trail_mode option"
  lg_trail_value :: "decimal option"
  lg_baseline :: "decimal option"
  lg_dynamic_trigger_price :: "decimal option"
  lg_baseline_updated_at :: "datetime option"
  lg_position_side :: "position_side option"
  lg_twap_interval_seconds :: "int option"
  lg_twap_end_time :: "tod option"
  lg_twap_start_at :: "datetime option"
  lg_twap_end_at :: "datetime option"
  lg_twap_available_slice_count :: "int option"
  lg_twap_materialized_slice_count :: "int option"
  lg_created_at :: datetime
  lg_updated_at :: datetime

record slice_row =
  ts_id :: uuid
  ts_trade_intent_id :: uuid
  ts_owner_user_id :: uuid
  ts_symbol :: string
  ts_sequence_no :: int
  ts_scheduled_at :: datetime
  ts_planned_quantity_lots :: int
  ts_status :: slice_status
  ts_primary_notification_id :: "uuid option"
  ts_notified_at :: "datetime option"
  ts_primary_price_available :: "bool option"
  ts_primary_reference_price :: "decimal option"
  ts_primary_reference_price_type :: "reference_price_type option"
  ts_primary_quote_time :: "datetime option"
  ts_price_followup_required :: bool
  ts_price_followup_attempts :: int
  ts_next_price_followup_at :: "datetime option"
  ts_price_followup_notification_id :: "uuid option"
  ts_price_followup_sent_at :: "datetime option"
  ts_created_at :: datetime
  ts_updated_at :: datetime

record app_db =
  ap_core :: core_db
  ap_intents :: "legacy_row list"
  ap_slices :: "slice_row list"

section \<open>Domain objects\<close>

definition legacy_to_domain :: "legacy_row \<Rightarrow> security_type \<Rightarrow> trade_intent_data" where
  "legacy_to_domain row st =
     \<lparr>ti_id = lg_id row, ti_owner_user_id = lg_owner_user_id row, ti_symbol = lg_symbol row,
      ti_strategy = lg_strategy row, ti_execution_mode = lg_execution_mode row,
      ti_quantity_lots = lg_quantity_lots row, ti_target_price_original = lg_target_price_original row,
      ti_target_price_effective = lg_target_price_effective row,
      ti_trigger_reference_price_type = lg_trigger_reference_price_type row,
      ti_trading_date = lg_trading_date row, ti_time_in_force = lg_time_in_force row, ti_status = lg_status row,
      ti_created_at = lg_created_at row, ti_updated_at = lg_updated_at row,
      ti_cancelled_at = lg_cancelled_at row, ti_triggered_at = lg_triggered_at row,
      ti_transaction_mode = lg_transaction_mode row, ti_notification_mode = lg_notification_mode row,
      ti_filled_quantity_lots = lg_filled_quantity_lots row, ti_last_fill_at = lg_last_fill_at row,
      ti_trail_mode = lg_trail_mode row, ti_trail_value = lg_trail_value row, ti_baseline = lg_baseline row,
      ti_dynamic_trigger_price = lg_dynamic_trigger_price row,
      ti_baseline_updated_at = lg_baseline_updated_at row, ti_security_type = st,
      ti_position_side = lg_position_side row, ti_twap_interval_seconds = lg_twap_interval_seconds row,
      ti_twap_end_time = lg_twap_end_time row, ti_twap_start_at = lg_twap_start_at row,
      ti_twap_end_at = lg_twap_end_at row, ti_twap_available_slice_count = lg_twap_available_slice_count row,
      ti_twap_materialized_slice_count = lg_twap_materialized_slice_count row\<rparr>"

definition legacy_with_symbol_type :: "(legacy_row \<Rightarrow> bool) \<Rightarrow> app_db \<Rightarrow> (legacy_row \<times> string) list" where
  "legacy_with_symbol_type p db =
     concat (map (\<lambda>r. map (\<lambda>s. (r, sy_instrument_type s))
                        (filter (\<lambda>s. sy_symbol s = lg_symbol r) (db_symbols (ap_core db))))
       (filter p (ap_intents db)))"

definition legacy_domain_of :: "legacy_row \<times> string \<Rightarrow> exn + trade_intent_data" where
  "legacy_domain_of row = (case security_type_of (snd row) of
      None \<Rightarrow> Inl ExValue | Some st \<Rightarrow> Inr (legacy_to_domain (fst row) st))"

definition select_legacy :: "uuid \<Rightarrow> uuid \<Rightarrow> app_db \<Rightarrow> exn + legacy_row \<times> string" where
  "select_legacy intent_id owner_user_id db =
     r_bind (one_or_none (legacy_with_symbol_type (\<lambda>r. lg_id r = intent_id) db)) (\<lambda>result.
       case result of
         None \<Rightarrow> Inl (ExIntent (IntentNotFoundError intent_id))
       | Some (row, instrument_type) \<Rightarrow>
           if lg_owner_user_id row \<noteq> owner_user_id then Inl (ExIntent (IntentNotFoundError intent_id))
           else Inr (row, instrument_type))"

definition legacy_find_by_id :: "uuid \<Rightarrow> uuid \<Rightarrow> app_db \<Rightarrow> exn + trade_intent_data" where
  "legacy_find_by_id intent_id owner_user_id db = r_bind (select_legacy intent_id owner_user_id db) legacy_domain_of"

definition list_twap_slices :: "uuid \<Rightarrow> uuid \<Rightarrow> app_db \<Rightarrow> exn + slice_row list" where
  "list_twap_slices intent_id owner_user_id db =
     r_bind (one_or_none (filter (\<lambda>r. lg_id r = intent_id) (ap_intents db))) (\<lambda>intent.
       case intent of
         None \<Rightarrow> Inl (ExIntent (IntentNotFoundError intent_id))
       | Some r \<Rightarrow>
           if lg_owner_user_id r \<noteq> owner_user_id then Inl (ExIntent (IntentNotFoundError intent_id))
           else Inr (sort_key ts_sequence_no
                  (filter (\<lambda>s. ts_trade_intent_id s = intent_id \<and> ts_owner_user_id s = owner_user_id) (ap_slices db))))"

section \<open>Creating a TWAP order\<close>

definition twap_checks :: "legacy_row \<Rightarrow> db_constraint option" where
  "twap_checks r =
     (if lg_execution_mode r \<noteq> ''notify_only'' then Some (check_violation ''execution_mode'')
      else if lg_time_in_force r \<noteq> ''day'' then Some (check_violation ''time_in_force'')
      else if lg_quantity_lots r \<le> 0 then Some (check_violation ''quantity_lots'')
      else if (case lg_twap_interval_seconds r of None \<Rightarrow> False | Some n \<Rightarrow> n < 1 \<or> 3600 < n)
      then Some (check_violation ''twap_interval_seconds'')
      else if (case lg_twap_available_slice_count r of None \<Rightarrow> False | Some n \<Rightarrow> n < 2)
      then Some (check_violation ''twap_available_slice_count'')
      else if (case lg_twap_materialized_slice_count r of None \<Rightarrow> False | Some n \<Rightarrow> n < 2 \<or> 200 < n)
      then Some (check_violation ''twap_materialized_slice_count'')
      else None)"

definition twap_scope :: "legacy_row \<Rightarrow> bool" where
  "twap_scope r \<longleftrightarrow> lg_strategy r = twap_order \<and> lg_status r \<in> CANCELLABLE_STATUSES"

text \<open>The keys of the two partial unique indexes; the first ignores the side of a TWAP order.\<close>

definition twap_key :: "legacy_row \<Rightarrow> uuid \<times> string \<times> position_side option \<times> date" where
  "twap_key r = (lg_owner_user_id r, lg_symbol r, lg_position_side r, lg_trading_date r)"

definition legacy_dup_key ::
  "legacy_row \<Rightarrow> uuid \<times> string \<times> strategy \<times> decimal option \<times> trail_mode option \<times> decimal option \<times> int \<times> date" where
  "legacy_dup_key r = (lg_owner_user_id r, lg_symbol r, lg_strategy r, lg_target_price_effective r, lg_trail_mode r,
     lg_trail_value r, lg_quantity_lots r, lg_trading_date r)"

definition insert_legacy :: "legacy_row \<Rightarrow> app_db \<Rightarrow> exn + app_db" where
  "insert_legacy r db =
     (if \<not> pg_integer (lg_quantity_lots r) then Inl ExNumericRange
      else case twap_checks r of
        Some k \<Rightarrow> Inl (ExIntegrity k)
      | None \<Rightarrow>
          if lg_id r \<in> lg_id ` set (ap_intents db) then Inl (ExIntegrity pk_violation)
          else if lg_status r \<in> CANCELLABLE_STATUSES \<and>
             (\<exists>x \<in> set (ap_intents db). lg_status x \<in> CANCELLABLE_STATUSES \<and> legacy_dup_key x = legacy_dup_key r)
          then Inl (ExIntegrity uq_active_duplicate)
          else if twap_scope r \<and> (\<exists>x \<in> set (ap_intents db). twap_scope x \<and> twap_key x = twap_key r)
          then Inl (ExIntegrity uq_active_twap_duplicate)
          else if lg_owner_user_id r \<notin> set (db_users (ap_core db)) \<or>
                  lg_symbol r \<notin> sy_symbol ` set (db_symbols (ap_core db))
          then Inl (ExIntegrity fk_violation)
          else Inr (db\<lparr>ap_intents := ap_intents db @ [r]\<rparr>))"

definition insert_slice :: "slice_row \<Rightarrow> app_db \<Rightarrow> exn + app_db" where
  "insert_slice s db =
     (if \<not> pg_integer (ts_planned_quantity_lots s) \<or> \<not> pg_integer (ts_sequence_no s) then Inl ExNumericRange
      else if ts_planned_quantity_lots s \<le> 0 then Inl (ExIntegrity (check_violation ''planned_quantity_lots''))
      else if ts_id s \<in> ts_id ` set (ap_slices db) then Inl (ExIntegrity pk_violation)
      else if (ts_trade_intent_id s, ts_sequence_no s) \<in> (\<lambda>x. (ts_trade_intent_id x, ts_sequence_no x)) ` set (ap_slices db)
      then Inl (ExIntegrity uq_slice_sequence)
      else if ts_trade_intent_id s \<notin> lg_id ` set (ap_intents db) then Inl (ExIntegrity fk_violation)
      else Inr (db\<lparr>ap_slices := ap_slices db @ [s]\<rparr>))"

definition new_twap_row ::
  "datetime \<Rightarrow> uuid \<Rightarrow> uuid \<Rightarrow> string \<Rightarrow> twap_plan \<Rightarrow> string \<Rightarrow> string \<Rightarrow> intent_status \<Rightarrow> reference_price_type \<Rightarrow> legacy_row" where
  "new_twap_row tx_now new_id owner symbol plan execution_mode time_in_force status ref_type =
     \<lparr>lg_id = new_id, lg_owner_user_id = owner, lg_symbol = symbol, lg_strategy = twap_order,
      lg_execution_mode = execution_mode, lg_quantity_lots = tp_target_quantity_lots plan,
      lg_target_price_original = None, lg_target_price_effective = None,
      lg_trigger_reference_price_type = ref_type, lg_trading_date = tp_trading_date plan,
      lg_time_in_force = time_in_force, lg_status = status, lg_cancelled_at = None, lg_triggered_at = None,
      lg_transaction_mode = single_notification, lg_notification_mode = ''single'', lg_filled_quantity_lots = 0,
      lg_last_fill_at = None, lg_trail_mode = None, lg_trail_value = None, lg_baseline = None,
      lg_dynamic_trigger_price = None, lg_baseline_updated_at = None,
      lg_position_side = Some (tp_position_side plan), lg_twap_interval_seconds = Some (tp_interval_seconds plan),
      lg_twap_end_time = Some (tp_requested_end_time plan), lg_twap_start_at = Some (tp_start_at plan),
      lg_twap_end_at = Some (tp_end_at plan), lg_twap_available_slice_count = Some (tp_available_slice_count plan),
      lg_twap_materialized_slice_count = Some (tp_materialized_slice_count plan),
      lg_created_at = tx_now, lg_updated_at = tx_now\<rparr>"

definition new_slice_row :: "datetime \<Rightarrow> uuid \<Rightarrow> uuid \<Rightarrow> uuid \<Rightarrow> string \<Rightarrow> twap_slice_plan \<Rightarrow> slice_row" where
  "new_slice_row tx_now new_id intent_id owner symbol sp =
     \<lparr>ts_id = new_id, ts_trade_intent_id = intent_id, ts_owner_user_id = owner, ts_symbol = symbol,
      ts_sequence_no = sp_sequence_no sp, ts_scheduled_at = sp_scheduled_at sp,
      ts_planned_quantity_lots = sp_planned_quantity_lots sp, ts_status = slice_pending,
      ts_primary_notification_id = None, ts_notified_at = None, ts_primary_price_available = None,
      ts_primary_reference_price = None, ts_primary_reference_price_type = None, ts_primary_quote_time = None,
      ts_price_followup_required = False, ts_price_followup_attempts = 0, ts_next_price_followup_at = None,
      ts_price_followup_notification_id = None, ts_price_followup_sent_at = None,
      ts_created_at = tx_now, ts_updated_at = tx_now\<rparr>"

text \<open>The slices in the order of the plan; the identifiers are drawn by position.\<close>

fun insert_slices ::
  "datetime \<Rightarrow> (nat \<Rightarrow> uuid) \<Rightarrow> nat \<Rightarrow> uuid \<Rightarrow> uuid \<Rightarrow> string \<Rightarrow> twap_slice_plan list \<Rightarrow> app_db \<Rightarrow> exn + app_db" where
  "insert_slices tx_now slice_id n intent_id owner symbol [] db = Inr db"
| "insert_slices tx_now slice_id n intent_id owner symbol (sp # sps) db =
     r_bind (insert_slice (new_slice_row tx_now (slice_id n) intent_id owner symbol sp) db) (\<lambda>db1.
       insert_slices tx_now slice_id (Suc n) intent_id owner symbol sps db1)"

definition create_twap ::
  "datetime \<Rightarrow> uuid \<Rightarrow> (nat \<Rightarrow> uuid) \<Rightarrow> uuid \<Rightarrow> string \<Rightarrow> twap_plan \<Rightarrow> string \<Rightarrow> string \<Rightarrow> intent_status \<Rightarrow>
   reference_price_type \<Rightarrow> app_db \<Rightarrow> exn + uuid \<times> app_db" where
  "create_twap tx_now new_id slice_id owner symbol plan execution_mode time_in_force status ref_type db =
     (let dup_err = ExTwap (TwapDuplicateActivePlanError owner symbol (tp_position_side plan))
      in r_bind (one_or_none (filter (\<lambda>r. lg_owner_user_id r = owner \<and> lg_symbol r = symbol \<and>
             lg_strategy r = twap_order \<and> lg_position_side r = Some (tp_position_side plan) \<and>
             lg_trading_date r = tp_trading_date plan \<and> lg_status r \<in> CANCELLABLE_STATUSES) (ap_intents db))) (\<lambda>duplicate.
         case duplicate of
           Some _ \<Rightarrow> Inl dup_err
         | None \<Rightarrow>
             (case r_bind (insert_legacy (new_twap_row tx_now new_id owner symbol plan execution_mode time_in_force
                             status ref_type) db) (\<lambda>db1.
                     insert_slices tx_now slice_id 0 new_id owner symbol (tp_slices plan) db1) of
                Inl (ExIntegrity _) \<Rightarrow> Inl dup_err
              | Inl e \<Rightarrow> Inl e
              | Inr db' \<Rightarrow> Inr (new_id, db'))))"

section \<open>Life cycle, cancelling and counting\<close>

definition legacy_activate :: "date \<Rightarrow> datetime \<Rightarrow> app_db \<Rightarrow> nat \<times> app_db" where
  "legacy_activate trading_date now db =
     (let hit = (\<lambda>r. lg_status r = scheduled \<and> lg_trading_date r = trading_date)
      in (count_where hit (ap_intents db),
          db\<lparr>ap_intents := upd_where hit (\<lambda>r. r\<lparr>lg_status := active, lg_updated_at := now\<rparr>) (ap_intents db)\<rparr>))"

definition cancel_slice :: "datetime \<Rightarrow> slice_row \<Rightarrow> slice_row" where
  "cancel_slice now s = s\<lparr>ts_status := slice_cancelled, ts_price_followup_required := False,
     ts_next_price_followup_at := None, ts_updated_at := now\<rparr>"

definition legacy_expire :: "date \<Rightarrow> datetime \<Rightarrow> app_db \<Rightarrow> nat \<times> app_db" where
  "legacy_expire cutoff_date now db =
     (let hit = (\<lambda>r. lg_status r \<in> CANCELLABLE_STATUSES \<and> lg_trading_date r \<le> cutoff_date);
          expired_ids = map lg_id (filter hit (ap_intents db));
          db1 = db\<lparr>ap_intents := upd_where hit (\<lambda>r. r\<lparr>lg_status := expired, lg_updated_at := now\<rparr>) (ap_intents db)\<rparr>
      in (length expired_ids,
          if expired_ids = [] then db1
          else db1\<lparr>ap_slices := upd_where (\<lambda>s. ts_trade_intent_id s \<in> set expired_ids \<and> ts_status s = slice_pending)
                 (cancel_slice now) (ap_slices db1)\<rparr>))"

definition drop_followup :: "datetime \<Rightarrow> slice_row \<Rightarrow> slice_row" where
  "drop_followup now s = s\<lparr>ts_price_followup_required := False, ts_next_price_followup_at := None, ts_updated_at := now\<rparr>"

definition legacy_cancel :: "datetime \<Rightarrow> uuid \<Rightarrow> uuid \<Rightarrow> app_db \<Rightarrow> exn + trade_intent_data \<times> app_db" where
  "legacy_cancel tx_now intent_id owner_user_id db =
     r_bind (select_legacy intent_id owner_user_id db) (\<lambda>(row, instrument_type).
       if lg_status row = cancelled then r_bind (legacy_domain_of (row, instrument_type)) (\<lambda>d. Inr (d, db))
       else if lg_status row \<notin> CANCELLABLE_STATUSES
       then Inl (ExIntent (CancelNotAllowedError intent_id (lg_status row)))
       else let f = (\<lambda>r. r\<lparr>lg_status := cancelled, lg_updated_at := tx_now, lg_cancelled_at := Some tx_now\<rparr>);
                db1 = db\<lparr>ap_intents := upd_where (\<lambda>r. lg_id r = intent_id) f (ap_intents db)\<rparr>;
                db2 = (if lg_strategy row = twap_order
                       then db1\<lparr>ap_slices :=
                              upd_where (\<lambda>s. ts_trade_intent_id s = intent_id \<and> ts_price_followup_required s \<and>
                                             ts_price_followup_notification_id s = None) (drop_followup tx_now)
                                (upd_where (\<lambda>s. ts_trade_intent_id s = intent_id \<and> ts_status s = slice_pending)
                                   (cancel_slice tx_now) (ap_slices db1))\<rparr>
                       else db1)
            in r_bind (legacy_domain_of (f row, instrument_type)) (\<lambda>d. Inr (d, db2)))"

definition legacy_symbols :: "app_db \<Rightarrow> string set" where
  "legacy_symbols db = lg_symbol ` set (filter (\<lambda>r. lg_status r \<in> CANCELLABLE_STATUSES) (ap_intents db))"

definition legacy_count_symbol :: "string \<Rightarrow> app_db \<Rightarrow> nat" where
  "legacy_count_symbol symbol db =
     count_where (\<lambda>r. lg_symbol r = symbol \<and> lg_status r \<in> CANCELLABLE_STATUSES) (ap_intents db)"

definition legacy_count_user :: "uuid \<Rightarrow> app_db \<Rightarrow> nat" where
  "legacy_count_user owner db =
     count_where (\<lambda>r. lg_owner_user_id r = owner \<and> lg_status r \<in> CANCELLABLE_STATUSES) (ap_intents db)"

definition legacy_count_user_symbol :: "uuid \<Rightarrow> string \<Rightarrow> app_db \<Rightarrow> nat" where
  "legacy_count_user_symbol owner symbol db =
     count_where (\<lambda>r. lg_owner_user_id r = owner \<and> lg_symbol r = symbol \<and> lg_status r \<in> CANCELLABLE_STATUSES)
       (ap_intents db)"

definition legacy_cancel_active_for_owner :: "uuid \<Rightarrow> intent_status \<Rightarrow> datetime \<Rightarrow> app_db \<Rightarrow> nat \<times> app_db" where
  "legacy_cancel_active_for_owner owner status now db =
     (let hit = (\<lambda>r. lg_owner_user_id r = owner \<and> lg_status r \<in> CANCELLABLE_STATUSES)
      in (count_where hit (ap_intents db),
          db\<lparr>ap_intents := upd_where hit (\<lambda>r. r\<lparr>lg_status := status, lg_cancelled_at := Some now, lg_updated_at := now\<rparr>)
                (ap_intents db)\<rparr>))"

section \<open>The old track as a lifecycle store\<close>

definition old_expire :: "date \<Rightarrow> datetime \<Rightarrow> app_db session \<Rightarrow> nat \<times> app_db session" where
  "old_expire d now s = (case legacy_expire d now (ss_working s) of (n, db) \<Rightarrow> (n, s\<lparr>ss_working := db\<rparr>))"

definition old_activate :: "date \<Rightarrow> datetime \<Rightarrow> app_db session \<Rightarrow> nat \<times> app_db session" where
  "old_activate d now s = (case legacy_activate d now (ss_working s) of (n, db) \<Rightarrow> (n, s\<lparr>ss_working := db\<rparr>))"

definition legacy_day_row :: "legacy_row \<Rightarrow> day_row" where
  "legacy_day_row r = (lg_id r, lg_status r, lg_trading_date r)"

definition legacy_lifecycle :: "datetime \<Rightarrow> app_db session \<Rightarrow> lifecycle_output \<times> app_db session" where
  "legacy_lifecycle = lifecycle_run old_expire old_activate ss_commit"

interpretation legacy_day: day_intent_lifecycle_store old_expire old_activate ss_commit
  "\<lambda>s. map legacy_day_row (ap_intents (ss_working s))" "\<lambda>s. map legacy_day_row (ap_intents (ss_committed s))"
proof unfold_locales
  fix d now and s :: "app_db session"
  show "map legacy_day_row (ap_intents (ss_working (snd (old_expire d now s)))) =
      map (expire_day_row d) (map legacy_day_row (ap_intents (ss_working s)))"
    by (auto simp: old_expire_def legacy_expire_def Let_def upd_where_def expire_day_row_def legacy_day_row_def)
  show "map legacy_day_row (ap_intents (ss_working (snd (old_activate d now s)))) =
      map (activate_day_row d) (map legacy_day_row (ap_intents (ss_working s)))"
    by (auto simp: old_activate_def legacy_activate_def Let_def upd_where_def activate_day_row_def legacy_day_row_def)
  show "snd (old_expire d now s) = s" if "fst (old_expire d now s) = 0"
    using that by (simp add: old_expire_def legacy_expire_def Let_def filter_empty_conv upd_where_id_if_none)
  show "snd (old_activate d now s) = s" if "fst (old_activate d now s) = 0"
    using that by (simp add: old_activate_def legacy_activate_def Let_def count_where_0_iff upd_where_id_if_none)
qed simp_all

end
