(* ===== verification/Twap_Commands.thy ===== *)
theory Twap_Commands
  imports Legacy_Store Core_Commands "HOL-Library.Product_Lexorder"
begin

text \<open>
  \<open>commands/twap.py\<close> and \<open>services/twap_scheduler.py\<close>: preview and confirmation of a TWAP order, the worker that
  announces the due slices and follows up on missing prices, and the scheduler's pass. A row locked by
  another worker is skipped by the database, so one pass is modelled as if alone. A command returns its
  outcome, the committed tables and what went to Telegram, which an exception does not take back.
\<close>

section \<open>Planning and confirming\<close>

record twap_plan_input =
  tq_symbol :: string
  tq_position_side :: position_side
  tq_quantity_lots :: int
  tq_interval_seconds :: int
  tq_start_time :: "tod option"
  tq_end_time :: tod
  tq_owner_user_id :: uuid

definition validate_symbol :: "string \<Rightarrow> core_db \<Rightarrow> exn + unit" where
  "validate_symbol symbol db =
     r_bind (get_tradable_symbol symbol db) (\<lambda>symbol_obj.
       case security_type_of (sy_instrument_type symbol_obj) of
         None \<Rightarrow> Inl (ExPrice (InvalidTypeError (sy_instrument_type symbol_obj) ''must be stock or etf''))
       | Some _ \<Rightarrow> Inr ())"

definition build_plan :: "datetime \<Rightarrow> twap_plan_input \<Rightarrow> exn + twap_plan" where
  "build_plan now inp = lift_ex ExTwap (build_twap_plan (tq_position_side inp) (tq_quantity_lots inp)
     (tq_interval_seconds inp) (tq_start_time inp) (tq_end_time inp) now)"

definition twap_preview :: "datetime \<Rightarrow> twap_plan_input \<Rightarrow> app_db \<Rightarrow> exn + twap_plan" where
  "twap_preview now inp db = r_bind (validate_symbol (tq_symbol inp) (ap_core db)) (\<lambda>_. build_plan now inp)"

definition enforce_creation_caps :: "intent_limits option \<Rightarrow> twap_plan_input \<Rightarrow> app_db \<Rightarrow> exn + unit" where
  "enforce_creation_caps limits inp db = (case limits of
      None \<Rightarrow> Inr ()
    | Some l \<Rightarrow>
        let user_count = int (legacy_count_user (tq_owner_user_id inp) db);
            symbol_count = int (legacy_count_user_symbol (tq_owner_user_id inp) (tq_symbol inp) db)
        in if il_per_user l \<le> user_count
           then Inl (ExIntent (UserIntentLimitExceededError (il_per_user l) user_count))
           else if il_per_symbol l \<le> symbol_count
           then Inl (ExIntent (SymbolIntentLimitExceededError (tq_symbol inp) (il_per_symbol l) symbol_count))
           else Inr ())"

definition confirm_insert ::
  "datetime \<Rightarrow> uuid \<Rightarrow> (nat \<Rightarrow> uuid) \<Rightarrow> intent_limits option \<Rightarrow> datetime \<Rightarrow> twap_plan_input \<Rightarrow> app_db \<Rightarrow> exn + uuid \<times> app_db" where
  "confirm_insert tx_now new_id slice_id limits now inp db =
     r_bind (validate_symbol (tq_symbol inp) (ap_core db)) (\<lambda>_.
     r_bind (enforce_creation_caps limits inp db) (\<lambda>_.
     r_bind (build_plan now inp) (\<lambda>plan.
       create_twap tx_now new_id slice_id (tq_owner_user_id inp) (tq_symbol inp) plan ''notify_only'' ''day''
         (if tp_trading_phase plan = REGULAR_SESSION then active else scheduled) ref_last_fallback db)))"

definition confirm_tx ::
  "'p quote_ops \<Rightarrow> datetime \<Rightarrow> uuid \<Rightarrow> (nat \<Rightarrow> uuid) \<Rightarrow> intent_limits option \<Rightarrow> datetime \<Rightarrow> twap_plan_input \<Rightarrow>
   'p \<Rightarrow> app_db \<Rightarrow> (exn + uuid \<times> app_db) \<times> 'p" where
  "confirm_tx ops tx_now new_id slice_id limits now inp p db =
     (case confirm_insert tx_now new_id slice_id limits now inp db of
        Inl e \<Rightarrow> (Inl e, p)
      | Inr (intent_id, db1) \<Rightarrow>
          (case reconcile_on_create (qo_active_subscriptions ops) (qo_subscribe ops) (tq_symbol inp) p of
             Inl e \<Rightarrow> (Inl (ExQuote e), p)
           | Inr p1 \<Rightarrow> (Inr (intent_id, db1), p1)))"

definition twap_confirm ::
  "'p quote_ops \<Rightarrow> datetime \<Rightarrow> uuid \<Rightarrow> (nat \<Rightarrow> uuid) \<Rightarrow> intent_limits option \<Rightarrow> datetime \<Rightarrow> twap_plan_input \<Rightarrow>
   'p \<Rightarrow> app_db \<Rightarrow> (exn + trade_intent_data) \<times> app_db \<times> 'p" where
  "twap_confirm ops tx_now new_id slice_id limits now inp p db =
     (case confirm_tx ops tx_now new_id slice_id limits now inp p db of
        (Inl e, p') \<Rightarrow> (Inl e, db, p')
      | (Inr (intent_id, db1), p') \<Rightarrow> (legacy_find_by_id intent_id (tq_owner_user_id inp) db1, db1, p'))"

section \<open>The worker\<close>

definition select_reference_price ::
  "quote_snapshot \<Rightarrow> position_side option \<Rightarrow> (decimal \<times> reference_price_type \<times> datetime) option" where
  "select_reference_price q side =
     (case (if side = Some long_position then map_option (\<lambda>v. (v, ref_ask)) (q_ask_price q)
            else if side = Some short_position then map_option (\<lambda>v. (v, ref_bid)) (q_bid_price q)
            else None) of
        Some (v, t) \<Rightarrow> Some (v, t, q_quote_time q)
      | None \<Rightarrow> (case q_last_price q of Some v \<Rightarrow> Some (v, ref_last_fallback, q_quote_time q) | None \<Rightarrow> None))"

definition get_reference_price ::
  "'p quote_ops \<Rightarrow> 'p \<Rightarrow> string \<Rightarrow> position_side option \<Rightarrow> (decimal \<times> reference_price_type \<times> datetime) option" where
  "get_reference_price ops p symbol side = (case qo_get_quotes ops [symbol] p of
      Inl _ \<Rightarrow> None
    | Inr [] \<Rightarrow> None
    | Inr (q # _) \<Rightarrow> select_reference_price q side)"

text \<open>A notification of the old track: its intent is one of \<open>trade_intents\<close>.\<close>

definition legacy_notify :: "notification_row \<Rightarrow> app_db \<Rightarrow> exn + app_db" where
  "legacy_notify n db =
     (if (case n_trade_intent_id n of None \<Rightarrow> False | Some i \<Rightarrow> i \<notin> lg_id ` set (ap_intents db))
      then Inl (ExIntegrity fk_violation)
      else r_bind (insert_notification n (ap_core db)) (\<lambda>c. Inr (db\<lparr>ap_core := c\<rparr>)))"

definition slice_notification :: "datetime \<Rightarrow> uuid \<Rightarrow> slice_row \<Rightarrow> notification_type \<Rightarrow> rendered \<Rightarrow> notification_row" where
  "slice_notification tx_now nid s ntype text =
     \<lparr>n_id = nid, n_owner_user_id = ts_owner_user_id s, n_trade_intent_id = Some (ts_trade_intent_id s),
      n_trade_intent_core_id = None, n_type = ntype, n_rendered_title = fst text, n_rendered_body = snd text,
      n_read_at = None, n_created_at = tx_now, n_updated_at = tx_now\<rparr>"

definition upd_slice :: "uuid \<Rightarrow> (slice_row \<Rightarrow> slice_row) \<Rightarrow> app_db \<Rightarrow> app_db" where
  "upd_slice i f db = db\<lparr>ap_slices := upd_where (\<lambda>s. ts_id s = i) f (ap_slices db)\<rparr>"

definition upd_intent :: "uuid \<Rightarrow> (legacy_row \<Rightarrow> legacy_row) \<Rightarrow> app_db \<Rightarrow> app_db" where
  "upd_intent i f db = db\<lparr>ap_intents := upd_where (\<lambda>r. lg_id r = i) f (ap_intents db)\<rparr>"

definition complete_intent_if_all_slices_done :: "uuid \<Rightarrow> datetime \<Rightarrow> app_db \<Rightarrow> app_db" where
  "complete_intent_if_all_slices_done intent_id now db =
     (if count_where (\<lambda>s. ts_trade_intent_id s = intent_id \<and> ts_status s = slice_pending) (ap_slices db) = 0
      then upd_intent intent_id (\<lambda>r. if lg_status r \<in> {scheduled, active}
             then r\<lparr>lg_status := triggered, lg_triggered_at := Some now, lg_updated_at := now\<rparr> else r) db
      else db)"

text \<open>What the slice row becomes: the price is stored as \<open>numeric(9,4)\<close> and must be positive.\<close>

definition mark_notified ::
  "datetime \<Rightarrow> uuid \<Rightarrow> decimal option \<Rightarrow> (decimal \<times> reference_price_type \<times> datetime) option \<Rightarrow> slice_row \<Rightarrow> slice_row" where
  "mark_notified now nid stored price s =
     s\<lparr>ts_status := slice_notified, ts_primary_notification_id := Some nid, ts_notified_at := Some now,
       ts_primary_price_available := Some (price \<noteq> None), ts_primary_reference_price := stored,
       ts_primary_reference_price_type := map_option (\<lambda>(v, t, q). t) price,
       ts_primary_quote_time := map_option (\<lambda>(v, t, q). q) price, ts_price_followup_required := (price = None),
       ts_next_price_followup_at := (if price = None then Some (now + seconds TWAP_PRICE_FOLLOWUP_DELAY_SECONDS) else None),
       ts_updated_at := now\<rparr>"

definition process_due_slice ::
  "'p quote_ops \<Rightarrow> (uuid \<Rightarrow> uuid) \<Rightarrow> datetime \<Rightarrow> datetime \<Rightarrow> 'p \<Rightarrow> slice_row \<times> uuid \<Rightarrow> app_db \<Rightarrow>
   (exn + app_db) \<times> notification_row list" where
  "process_due_slice ops note_id tx_now now p row db = (case row of (s, intent_id) \<Rightarrow>
     (case find_row (\<lambda>r. lg_id r = intent_id) (ap_intents db) of
        None \<Rightarrow> (Inl ExRuntime, [])
      | Some intent \<Rightarrow>
          let price = get_reference_price ops p (lg_symbol intent) (lg_position_side intent)
          in case (lg_position_side intent, lg_twap_materialized_slice_count intent) of
               (Some side, Some total_slices) \<Rightarrow>
                 (case r_bind (render_twap_slice (lg_symbol intent) side (ts_sequence_no s) total_slices
                         (ts_planned_quantity_lots s) (map_option fst price) (map_option (\<lambda>(v, t, q). t) price)
                         (map_option (\<lambda>(v, t, q). q) price)) (\<lambda>text.
                       let n = slice_notification tx_now (note_id (ts_id s)) s twap_slice text
                       in r_bind (legacy_notify n db) (\<lambda>db1. Inr (n, db1))) of
                    Inl e \<Rightarrow> (Inl e, [])
                  | Inr (n, db1) \<Rightarrow>
                      (case numeric94_opt (map_option fst price) of
                         Inl e \<Rightarrow> (Inl e, [n])
                       | Inr stored \<Rightarrow>
                           if nonpositive stored
                           then (Inl (ExIntegrity (check_violation ''primary_reference_price'')), [n])
                           else (Inr (complete_intent_if_all_slices_done intent_id now
                                  (upd_intent intent_id (\<lambda>r. if lg_status r = scheduled
                                       then r\<lparr>lg_status := active, lg_updated_at := now\<rparr> else r)
                                     (upd_slice (ts_id s) (mark_notified now (n_id n) stored price) db1))), [n])))
             | _ \<Rightarrow> (Inl ExRuntime, [])))"

definition process_followup ::
  "'p quote_ops \<Rightarrow> (uuid \<Rightarrow> uuid) \<Rightarrow> datetime \<Rightarrow> datetime \<Rightarrow> 'p \<Rightarrow> slice_row \<times> uuid \<Rightarrow> app_db \<Rightarrow>
   (exn + app_db) \<times> notification_row list" where
  "process_followup ops note_id tx_now now p row db = (case row of (s, intent_id) \<Rightarrow>
     (case find_row (\<lambda>r. lg_id r = intent_id) (ap_intents db) of
        None \<Rightarrow> (Inl ExRuntime, [])
      | Some intent \<Rightarrow>
          let attempts = ts_price_followup_attempts s + 1;
              counted = upd_slice (ts_id s) (\<lambda>x. x\<lparr>ts_price_followup_attempts := attempts, ts_updated_at := now\<rparr>) db
          in case get_reference_price ops p (lg_symbol intent) (lg_position_side intent) of
               None \<Rightarrow>
                 (Inr (if TWAP_PRICE_FOLLOWUP_MAX_ATTEMPTS \<le> attempts
                       then upd_slice (ts_id s)
                              (\<lambda>x. x\<lparr>ts_price_followup_required := False, ts_next_price_followup_at := None\<rparr>) counted
                       else upd_slice (ts_id s) (\<lambda>x. x\<lparr>ts_next_price_followup_at :=
                              Some (now + seconds TWAP_PRICE_FOLLOWUP_DELAY_SECONDS)\<rparr>) counted), [])
             | Some (v, t, _) \<Rightarrow>
                 (case lg_twap_materialized_slice_count intent of
                    None \<Rightarrow> (Inl ExRuntime, [])
                  | Some total_slices \<Rightarrow>
                      let n = slice_notification tx_now (note_id (ts_id s)) s twap_price_followup
                                (render_twap_price_followup (lg_symbol intent) (ts_sequence_no s) total_slices v t now)
                      in case legacy_notify n counted of
                           Inl e \<Rightarrow> (Inl e, [])
                         | Inr db1 \<Rightarrow>
                             (Inr (upd_slice (ts_id s) (\<lambda>x. x\<lparr>ts_price_followup_required := False,
                                    ts_next_price_followup_at := None, ts_price_followup_notification_id := Some (n_id n),
                                    ts_price_followup_sent_at := Some now\<rparr>) db1), [n]))))"

definition join_slices :: "(slice_row \<Rightarrow> legacy_row \<Rightarrow> bool) \<Rightarrow> app_db \<Rightarrow> (slice_row \<times> uuid) list" where
  "join_slices p db =
     concat (map (\<lambda>s. map (\<lambda>r. (s, lg_id r)) (filter (\<lambda>r. lg_id r = ts_trade_intent_id s \<and> p s r) (ap_intents db)))
       (ap_slices db))"

definition load_due_slices :: "datetime \<Rightarrow> nat \<Rightarrow> app_db \<Rightarrow> (slice_row \<times> uuid) list" where
  "load_due_slices now limit db =
     take limit (sort_key (\<lambda>(s, i). (ts_scheduled_at s, ts_sequence_no s))
       (join_slices (\<lambda>s r. ts_status s = slice_pending \<and> ts_scheduled_at s \<le> now \<and> lg_strategy r = twap_order \<and>
          lg_status r \<in> {scheduled, active}) db))"

definition load_followup_slices :: "datetime \<Rightarrow> nat \<Rightarrow> app_db \<Rightarrow> (slice_row \<times> uuid) list" where
  "load_followup_slices now limit db =
     take limit (sort_key (\<lambda>(s, i). (case ts_next_price_followup_at s of Some t \<Rightarrow> t | None \<Rightarrow> 0, ts_sequence_no s))
       (join_slices (\<lambda>s r. ts_price_followup_required s \<and> ts_price_followup_notification_id s = None \<and>
          ts_price_followup_attempts s < TWAP_PRICE_FOLLOWUP_MAX_ATTEMPTS \<and>
          (case ts_next_price_followup_at s of None \<Rightarrow> False | Some t \<Rightarrow> t \<le> now) \<and>
          lg_strategy r = twap_order \<and> lg_status r \<noteq> cancelled) db))"

text \<open>The loop over the loaded rows; what was sent before an exception stays sent.\<close>

fun process_rows ::
  "(slice_row \<times> uuid \<Rightarrow> app_db \<Rightarrow> (exn + app_db) \<times> notification_row list) \<Rightarrow> (slice_row \<times> uuid) list \<Rightarrow> app_db \<Rightarrow>
   (exn + app_db) \<times> notification_row list" where
  "process_rows f [] db = (Inr db, [])"
| "process_rows f (row # rows) db = (case f row db of
      (Inl e, sent) \<Rightarrow> (Inl e, sent)
    | (Inr db1, sent) \<Rightarrow> (case process_rows f rows db1 of (r, rest) \<Rightarrow> (r, sent @ rest)))"

text \<open>
  Both passes: the lifecycle (which commits for itself), the session and the kill switch, then the rows in
  one transaction.
\<close>

definition worker_pass ::
  "bool \<Rightarrow> datetime \<Rightarrow> (app_db \<Rightarrow> (slice_row \<times> uuid) list) \<Rightarrow>
   (slice_row \<times> uuid \<Rightarrow> app_db \<Rightarrow> (exn + app_db) \<times> notification_row list) \<Rightarrow> app_db \<Rightarrow>
   (exn + nat) \<times> app_db \<times> notification_row list" where
  "worker_pass halted now load process db =
     (let s = snd (legacy_lifecycle now (ss_open db))
      in if get_trading_day_phase now \<noteq> REGULAR_SESSION then (Inr 0, ss_committed s, [])
         else if halted then (Inr 0, ss_committed s, [])
         else let rows = load (ss_working s)
              in case process_rows process rows (ss_working s) of
                   (Inl e, sent) \<Rightarrow> (Inl e, ss_committed s, sent)
                 | (Inr db1, sent) \<Rightarrow> (Inr (length rows), db1, sent))"

definition process_due_slices ::
  "'p quote_ops \<Rightarrow> bool \<Rightarrow> (uuid \<Rightarrow> uuid) \<Rightarrow> datetime \<Rightarrow> datetime \<Rightarrow> nat \<Rightarrow> 'p \<Rightarrow> app_db \<Rightarrow>
   (exn + nat) \<times> app_db \<times> notification_row list" where
  "process_due_slices ops halted note_id tx_now now limit p =
     worker_pass halted now (load_due_slices now limit) (process_due_slice ops note_id tx_now now p)"

definition process_price_followups ::
  "'p quote_ops \<Rightarrow> bool \<Rightarrow> (uuid \<Rightarrow> uuid) \<Rightarrow> datetime \<Rightarrow> datetime \<Rightarrow> nat \<Rightarrow> 'p \<Rightarrow> app_db \<Rightarrow>
   (exn + nat) \<times> app_db \<times> notification_row list" where
  "process_price_followups ops halted note_id tx_now now limit p =
     worker_pass halted now (load_followup_slices now limit) (process_followup ops note_id tx_now now p)"

text \<open>One pass of the scheduler: both phases, each in its own session, exceptions logged and dropped.\<close>

definition scheduler_run_once ::
  "'p quote_ops \<Rightarrow> bool \<Rightarrow> (uuid \<Rightarrow> uuid) \<Rightarrow> (uuid \<Rightarrow> uuid) \<Rightarrow> datetime \<Rightarrow> datetime \<Rightarrow> 'p \<Rightarrow> app_db \<Rightarrow>
   app_db \<times> notification_row list" where
  "scheduler_run_once ops halted note_id note_id' tx_now now p db =
     (case process_due_slices ops halted note_id tx_now now 100 p db of (_, db1, sent1) \<Rightarrow>
        (case process_price_followups ops halted note_id' tx_now now 100 p db1 of (_, db2, sent2) \<Rightarrow>
           (db2, sent1 @ sent2)))"

end
