(* ===== verification/Account_Disable.thy ===== *)
theory Account_Disable
  imports Account_Commands Twap_Commands
begin

text \<open>
  \<open>DisableUserCommand\<close> of \<open>commands/account.py\<close>: the account is disabled, its open orders on both tracks are
  cancelled and its sessions revoked, in one transaction over the identity tables and the order tables.
\<close>

definition ACCOUNT_DISABLED_INTENT_STATUS :: intent_status where
  "ACCOUNT_DISABLED_INTENT_STATUS = cancelled_by_account_disabled"

definition disable_body :: "account_draws \<Rightarrow> admin_target_input \<Rightarrow> ident_db \<Rightarrow> app_db \<Rightarrow> exn + ident_db \<times> app_db" where
  "disable_body dr inp db app =
     r_bind (user_by_id (at_target_user_id inp) db) (\<lambda>user.
        case user of
          None \<Rightarrow> Inl (ExAccount UserNotFoundError)
        | Some u \<Rightarrow>
            let db1 = disable (us_id u) (at_now inp) db;
                (old_count, app1) = legacy_cancel_active_for_owner (us_id u) ACCOUNT_DISABLED_INTENT_STATUS (at_now inp) app;
                (new_count, core1) = cancel_active_for_owner (us_id u) ACCOUNT_DISABLED_INTENT_STATUS (at_now inp) (ap_core app1);
                app2 = app1\<lparr>ap_core := core1\<rparr>;
                (revoked, db2) = revoke_all_active_for_user (us_id u) rev_account_disabled (at_now inp) db1
            in r_bind (db_audit (ad_audit_id dr) ''account_disabled'' actor_admin (Some (at_actor_admin_id inp))
                         [(''target_user_id'', MUuid (us_id u)), (''cancelled_intent_count'', MInt (int (old_count + new_count))),
                          (''revoked_token_count'', MInt (int revoked))] (at_request_id inp) (at_now inp) db2) (\<lambda>db3.
                 Inr (db3, app2)))"

text \<open>\<open>session.begin()\<close>: the transaction commits as a whole or not at all.\<close>

definition disable_user ::
  "account_draws \<Rightarrow> admin_target_input \<Rightarrow> ident_db \<Rightarrow> app_db \<Rightarrow> (exn + unit) \<times> ident_db \<times> app_db" where
  "disable_user dr inp db app =
     (case disable_body dr inp db app of
        Inl e \<Rightarrow> (Inl e, db, app)
      | Inr (db', app') \<Rightarrow> (Inr (), db', app'))"

end
