(* ===== verification/Session_Gate.thy ===== *)
theory Session_Gate
  imports Account_Commands
begin

text \<open>
  \<open>api/deps.py\<close>, \<open>core/security.py\<close>: who a request is. The bearer token is decoded, the session behind it is
  looked up again on every request, and the administrators' endpoints ask for the role and the second
  factor. The throttle and the idempotency key of the mutating endpoints are here too.
\<close>

record request_user =
  ru_user_id :: uuid
  ru_role :: user_role
  ru_session_id :: uuid
  ru_mfa_verified :: bool

definition starts_with :: "string \<Rightarrow> string \<Rightarrow> bool" where
  "starts_with p s \<longleftrightarrow> take (length p) s = p"

definition get_current_user :: "crypto \<Rightarrow> settings \<Rightarrow> datetime \<Rightarrow> string option \<Rightarrow> exn + request_user" where
  "get_current_user cr st clock header = (case header of
      None \<Rightarrow> Inl (ExApi UNAUTHENTICATED 401)
    | Some h \<Rightarrow>
        if \<not> starts_with ''Bearer '' h then Inl (ExApi UNAUTHENTICATED 401)
        else (case decode_access_token cr (se_jwt_access_secret st) (strip (drop (length ''Bearer '') h)) clock None of
                Inl e \<Rightarrow> Inl (if e = ExInvalidAccessToken then ExApi UNAUTHENTICATED 401 else e)
              | Inr claims \<Rightarrow> Inr \<lparr>ru_user_id = ac_sub claims, ru_role = ac_role claims,
                    ru_session_id = ac_session_id claims, ru_mfa_verified = ac_mfa_verified claims\<rparr>))"

definition get_active_user :: "ident_db \<Rightarrow> request_user \<Rightarrow> exn + request_user" where
  "get_active_user db user =
     r_bind (token_by_id (ru_session_id user) db) (\<lambda>token.
       case token of
         None \<Rightarrow> Inl (ExApi SESSION_REVOKED 401)
       | Some t \<Rightarrow>
           if rt_revoked_at t \<noteq> None \<and> rt_revoked_reason t \<noteq> Some rev_rotated
           then if rt_revoked_reason t = Some rev_account_disabled then Inl (ExApi ACCOUNT_DISABLED 403)
                else Inl (ExApi SESSION_REVOKED 401)
           else Inr user)"

definition require_role :: "user_role \<Rightarrow> request_user \<Rightarrow> exn + request_user" where
  "require_role required user = (if ru_role user \<noteq> required then Inl (ExApi FORBIDDEN 403) else Inr user)"

definition get_admin_user :: "request_user \<Rightarrow> exn + request_user" where
  "get_admin_user user =
     (if ru_role user \<noteq> role_admin then Inl (ExApi FORBIDDEN 403)
      else if \<not> ru_mfa_verified user then Inl (ExApi MFA_REQUIRED 403)
      else Inr user)"

text \<open>The dependency chains of the routes: \<open>ActiveUserDep\<close>, \<open>AdminRoleDep\<close>, \<open>AdminUserDep\<close>.\<close>

definition active_user :: "crypto \<Rightarrow> settings \<Rightarrow> datetime \<Rightarrow> string option \<Rightarrow> ident_db \<Rightarrow> exn + request_user" where
  "active_user cr st clock header db = r_bind (get_current_user cr st clock header) (get_active_user db)"

definition admin_role_user :: "crypto \<Rightarrow> settings \<Rightarrow> datetime \<Rightarrow> string option \<Rightarrow> ident_db \<Rightarrow> exn + request_user" where
  "admin_role_user cr st clock header db = r_bind (active_user cr st clock header db) (require_role role_admin)"

definition admin_user :: "crypto \<Rightarrow> settings \<Rightarrow> datetime \<Rightarrow> string option \<Rightarrow> ident_db \<Rightarrow> exn + request_user" where
  "admin_user cr st clock header db = r_bind (active_user cr st clock header db) get_admin_user"

text \<open>The token is consumed and committed whether or not the request goes through.\<close>

definition enforce_mutation_rate_limit ::
  "rat \<Rightarrow> rat \<Rightarrow> datetime \<Rightarrow> request_user \<Rightarrow> ident_db \<Rightarrow> (exn + unit) \<times> ident_db" where
  "enforce_mutation_rate_limit capacity refill_per_second clock user db = transact db
     (r_bind (db_consume (''mutation:'' @ uuid_str (ru_user_id user)) capacity refill_per_second clock db) (\<lambda>(d, db1).
        if \<not> rl_allowed d then Inr (Inl (ExAuth (RateLimitedError (rl_retry_after d))), db1) else Inr (Inr (), db1)))"

definition get_idempotency_key :: "string option \<Rightarrow> exn + string" where
  "get_idempotency_key header =
     (let key = strip (case header of None \<Rightarrow> '''' | Some h \<Rightarrow> h)
      in if key = '''' then Inl (ExApi IDEMPOTENCY_KEY_REQUIRED 400) else Inr key)"

section \<open>The gates on a database\<close>

lemma get_active_user_Inr_iff:
  assumes "distinct (map rt_id (id_tokens db))"
  shows "get_active_user db user = Inr v \<longleftrightarrow> v = user \<and> (\<exists>t \<in> set (id_tokens db). rt_id t = ru_session_id user \<and>
    (rt_revoked_at t = None \<or> rt_revoked_reason t = Some rev_rotated))"
proof (cases "\<exists>t \<in> set (id_tokens db). rt_id t = ru_session_id user")
  case True
  then obtain t where t: "t \<in> set (id_tokens db)" "rt_id t = ru_session_id user" by auto
  have "filter (\<lambda>r. rt_id r = ru_session_id user) (id_tokens db) = [t]" using filter_key [OF assms t(1)] t(2) by simp
  then have eq: "get_active_user db user = Inr v \<longleftrightarrow> v = user \<and> (rt_revoked_at t = None \<or> rt_revoked_reason t = Some rev_rotated)"
    by (auto simp: get_active_user_def token_by_id_def one_or_none_def)
  have "s = t" if "s \<in> set (id_tokens db)" "rt_id s = ru_session_id user" for s
    using distinct_key_eq [OF assms that(1) t(1)] that(2) t(2) by simp
  with t show ?thesis unfolding eq by metis
next
  case False
  then have "filter (\<lambda>r. rt_id r = ru_session_id user) (id_tokens db) = []" by (auto simp: filter_empty_conv)
  then have "get_active_user db user = Inl (ExApi SESSION_REVOKED 401)"
    by (simp add: get_active_user_def token_by_id_def one_or_none_def)
  with False show ?thesis by auto
qed

lemma get_active_user_revoked:
  assumes "distinct (map rt_id (id_tokens db))" and "t \<in> set (id_tokens db)" and "rt_id t = ru_session_id user"
    and "rt_revoked_at t \<noteq> None" and "rt_revoked_reason t = Some r" and "r \<noteq> rev_rotated"
  shows "get_active_user db user =
    Inl (if r = rev_account_disabled then ExApi ACCOUNT_DISABLED 403 else ExApi SESSION_REVOKED 401)"
  using filter_key [OF assms(1,2)] assms(3-) by (simp add: get_active_user_def token_by_id_def one_or_none_def)

end
