(* ===== verification/Identity_System.thy ===== *)
theory Identity_System
  imports Identity_Steps Account_Disable Session_Gate
begin

text \<open>
  The identity side as a whole: any sequence of requests to the routes of \<open>api/routes/auth.py\<close> and
  \<open>api/routes/admin.py\<close>. A bearer presents an access token the server has handed out; that nobody can forge
  one is what the signature is for. The gates of \<open>api/deps.py\<close> stand before the commands they guard.
\<close>

section \<open>What no step undoes\<close>

text \<open>A token keeps its identity, a verified factor stays verified, and a revocation is final, reason included.\<close>

definition token_le :: "refresh_token_row \<Rightarrow> refresh_token_row \<Rightarrow> bool" where
  "token_le t t' \<longleftrightarrow> rt_id t' = rt_id t \<and> rt_user_id t' = rt_user_id t \<and> rt_token_hash t' = rt_token_hash t \<and>
     rt_parent_token_id t' = rt_parent_token_id t \<and> (rt_mfa_verified t \<longrightarrow> rt_mfa_verified t') \<and>
     (rt_revoked_at t \<noteq> None \<longrightarrow> rt_revoked_at t' = rt_revoked_at t \<and> rt_revoked_reason t' = rt_revoked_reason t)"

definition user_le :: "user_row \<Rightarrow> user_row \<Rightarrow> bool" where
  "user_le u u' \<longleftrightarrow> us_id u' = us_id u \<and> us_email u' = us_email u \<and> us_role u' = us_role u \<and>
     (us_mfa_enabled u \<longrightarrow> us_mfa_enabled u')"

definition ident_le :: "ident_db \<Rightarrow> ident_db \<Rightarrow> bool" where
  "ident_le db db' \<longleftrightarrow> (\<forall>t \<in> set (id_tokens db). \<exists>t' \<in> set (id_tokens db'). token_le t t') \<and>
     (\<forall>u \<in> set (id_users db). \<exists>u' \<in> set (id_users db'). user_le u u')"

lemma token_le_refl [simp]: "token_le t t" and user_le_refl [simp]: "user_le u u"
  by (simp_all add: token_le_def user_le_def)

lemma token_le_trans: "token_le a b \<Longrightarrow> token_le b c \<Longrightarrow> token_le a c"
  and user_le_trans: "user_le x y \<Longrightarrow> user_le y z \<Longrightarrow> user_le x z"
  by (auto simp: token_le_def user_le_def)

lemma ident_le_subset:
  "set (id_tokens db) \<subseteq> set (id_tokens db') \<Longrightarrow> set (id_users db) \<subseteq> set (id_users db') \<Longrightarrow> ident_le db db'"
  unfolding ident_le_def by (meson subsetD token_le_refl user_le_refl)

lemma ident_le_refl [simp]: "ident_le db db"
  by (simp add: ident_le_subset)

lemma ident_le_trans: "ident_le a b \<Longrightarrow> ident_le b c \<Longrightarrow> ident_le a c"
  unfolding ident_le_def by (meson token_le_trans user_le_trans)

lemma upd_where_le:
  assumes "\<And>r. p r \<Longrightarrow> le r (f r)" and "\<And>r. le r r" and "r \<in> set rows"
  shows "\<exists>r' \<in> set (upd_where p f rows). le r r'"
proof -
  have "(if p r then f r else r) \<in> set (upd_where p f rows)" using assms(3) by (simp add: set_upd_where)
  then show ?thesis using assms(1,2) [of r] by (intro bexI) auto
qed

lemma ident_le_tokens:
  "id_users db' = id_users db \<Longrightarrow> (\<And>t. t \<in> set (id_tokens db) \<Longrightarrow> \<exists>t' \<in> set (id_tokens db'). token_le t t') \<Longrightarrow> ident_le db db'"
  unfolding ident_le_def by (metis user_le_refl)

lemma revoke_le: "ident_le db (revoke i r n db)"
  by (rule ident_le_tokens) (simp, simp add: revoke_def, rule upd_where_le, simp_all add: token_le_def)

lemma create_token_le: "create_token i n u h e p ua ip m db = Inr db' \<Longrightarrow> ident_le db db'"
  unfolding create_token_Inr_iff by (rule ident_le_subset) auto

lemma ident_prim_le: "ident_prim db db' \<Longrightarrow> ident_le db db'"
proof (induction rule: ident_prim.induct)
  case (prim_user f db u)
  have "\<exists>u' \<in> set (id_users (upd_user u f db)). user_le v u'" if "v \<in> set (id_users db)" for v
    unfolding upd_user_def using that prim_user by (simp, intro upd_where_le) (auto simp: user_le_def)
  then show ?case unfolding ident_le_def upd_user_frame by (metis token_le_refl)
next
  case (prim_insert_user row db db')
  then show ?case unfolding insert_user_Inr_iff by (auto intro: ident_le_subset)
next
  case (prim_rotate t db i n h e ua ip now db')
  then show ?case using ident_le_trans [OF revoke_le create_token_le] by blast
next
  case (prim_revoke_all reason db u now)
  show ?case by (rule ident_le_tokens)
      (simp, simp add: revoke_all_active_for_user_def Let_def, rule upd_where_le, simp_all add: token_le_def)
next
  case (prim_mfa db sid)
  show ?case by (rule ident_le_tokens) (simp, simp add: mark_mfa_verified_def, rule upd_where_le, simp_all add: token_le_def)
next
  case (prim_side db' db)
  then show ?case by (simp add: ident_le_subset)
qed (auto intro: revoke_le create_token_le)

lemma ident_steps_le: "ident_steps db db' \<Longrightarrow> ident_le db db'"
  by (induction rule: rtranclp_induct) (auto intro: ident_le_trans ident_prim_le)

section \<open>Second factors\<close>

text \<open>A verified session belongs to an administrator who is enrolled.\<close>

definition mfa_ok :: "ident_db \<Rightarrow> bool" where
  "mfa_ok db \<longleftrightarrow> (\<forall>t \<in> set (id_tokens db). rt_mfa_verified t \<longrightarrow>
     (\<exists>u \<in> set (id_users db). us_id u = rt_user_id t \<and> us_role u = role_admin \<and> us_mfa_enabled u))"

lemma mfa_ok_step:
  assumes "mfa_ok db" and le: "ident_le db db'"
    and new: "\<And>t. t \<in> set (id_tokens db') \<Longrightarrow> rt_mfa_verified t \<Longrightarrow>
      (\<exists>s \<in> set (id_tokens db). rt_mfa_verified s \<and> rt_user_id s = rt_user_id t) \<or>
      (\<exists>u \<in> set (id_users db). us_id u = rt_user_id t \<and> us_role u = role_admin \<and> us_mfa_enabled u)"
  shows "mfa_ok db'"
  unfolding mfa_ok_def
proof (intro ballI impI)
  fix t assume "t \<in> set (id_tokens db')" "rt_mfa_verified t"
  from new [OF this] assms(1) obtain u where u: "u \<in> set (id_users db)" "us_id u = rt_user_id t" "us_role u = role_admin"
    "us_mfa_enabled u" by (auto simp: mfa_ok_def)
  from le u(1) obtain u' where "u' \<in> set (id_users db')" "user_le u u'" by (auto simp: ident_le_def)
  with u show "\<exists>u \<in> set (id_users db'). us_id u = rt_user_id t \<and> us_role u = role_admin \<and> us_mfa_enabled u"
    by (auto simp: user_le_def)
qed

lemma mfa_ok_inherit:
  assumes "mfa_ok db" and "ident_le db db'"
    and "\<And>t. t \<in> set (id_tokens db') \<Longrightarrow> \<exists>s \<in> set (id_tokens db). rt_mfa_verified s = rt_mfa_verified t \<and> rt_user_id s = rt_user_id t"
  shows "mfa_ok db'"
  by (rule mfa_ok_step [OF assms(1,2)]) (metis assms(3))

lemma upd_where_mfa:
  assumes "t \<in> set (upd_where p f ts)" and "\<And>r. rt_mfa_verified (f r) = rt_mfa_verified r" and "\<And>r. rt_user_id (f r) = rt_user_id r"
  shows "\<exists>s \<in> set ts. rt_mfa_verified s = rt_mfa_verified t \<and> rt_user_id s = rt_user_id t"
  using assms(1) unfolding upd_where_mem_iff by (elim bexE disjE conjE) (metis assms(2,3))+

lemma ident_prim_mfa: "ident_prim db db' \<Longrightarrow> mfa_ok db \<Longrightarrow> mfa_ok db'"
proof (induction rule: ident_prim.induct)
  case (prim_rotate t db i n h e ua ip now db')
  show ?case
  proof (rule mfa_ok_step [OF prim_rotate(4) ident_prim_le [OF ident_prim.prim_rotate [OF prim_rotate(1-3)]]])
    fix s assume s: "s \<in> set (id_tokens db')" "rt_mfa_verified s"
    from prim_rotate(3) s(1) have "s \<in> set (id_tokens (revoke (rt_id t) rev_rotated now db)) \<or>
        rt_user_id s = rt_user_id t \<and> rt_mfa_verified s = rt_mfa_verified t"
      unfolding create_token_Inr_iff by auto
    with s(2) prim_rotate(1) show "(\<exists>x \<in> set (id_tokens db). rt_mfa_verified x \<and> rt_user_id x = rt_user_id s) \<or>
        (\<exists>u \<in> set (id_users db). us_id u = rt_user_id s \<and> us_role u = role_admin \<and> us_mfa_enabled u)"
      by (auto simp: revoke_def dest!: upd_where_mfa)
  qed
next
  case (prim_session i n u h e ua ip db db')
  then show ?case
    by (intro mfa_ok_step [OF prim_session(2) create_token_le [OF prim_session(1)]])
      (auto simp: create_token_Inr_iff)
next
  case (prim_mfa db sid)
  have "ident_prim db (mark_mfa_verified sid db)" by (rule ident_prim.prim_mfa) (rule prim_mfa(1))
  show ?case
  proof (rule mfa_ok_step [OF prim_mfa(2) ident_prim_le [OF \<open>ident_prim db (mark_mfa_verified sid db)\<close>]])
    fix t assume "t \<in> set (id_tokens (mark_mfa_verified sid db))" "rt_mfa_verified t"
    then obtain r where r: "r \<in> set (id_tokens db)" "rt_user_id r = rt_user_id t" "rt_id r = sid \<or> rt_mfa_verified r"
      by (auto simp: mark_mfa_verified_def upd_where_mem_iff)
    from r(3) show "(\<exists>s \<in> set (id_tokens db). rt_mfa_verified s \<and> rt_user_id s = rt_user_id t) \<or>
        (\<exists>u \<in> set (id_users db). us_id u = rt_user_id t \<and> us_role u = role_admin \<and> us_mfa_enabled u)"
      using prim_mfa(1) [OF r(1)] r(1,2) by auto
  qed
next
  case (prim_revoke reason db i now)
  have "ident_prim db (revoke i reason now db)" using prim_revoke(1) by (rule ident_prim.prim_revoke)
  from prim_revoke(2) ident_prim_le [OF this] show ?case
    by (rule mfa_ok_inherit) (auto simp: revoke_def dest!: upd_where_mfa)
next
  case (prim_revoke_all reason db u now)
  have "ident_prim db (snd (revoke_all_active_for_user u reason now db))"
    using prim_revoke_all(1) by (rule ident_prim.prim_revoke_all)
  from prim_revoke_all(2) ident_prim_le [OF this] show ?case
    by (rule mfa_ok_inherit) (auto simp: revoke_all_active_for_user_def Let_def dest!: upd_where_mfa)
next
  case (prim_user f db u)
  have "ident_prim db (upd_user u f db)" by (rule ident_prim.prim_user) (rule prim_user(1))
  from prim_user(2) ident_prim_le [OF this] show ?case by (rule mfa_ok_inherit) auto
next
  case (prim_insert_user row db db')
  from prim_insert_user(2) ident_prim_le [OF ident_prim.prim_insert_user [OF prim_insert_user(1)]] show ?case
    by (rule mfa_ok_inherit) (use prim_insert_user(1) in \<open>auto simp: insert_user_Inr_iff\<close>)
next
  case (prim_side db' db)
  then show ?case by (simp add: mfa_ok_def)
qed

lemma ident_steps_mfa: "ident_steps db db' \<Longrightarrow> mfa_ok db \<Longrightarrow> mfa_ok db'"
  by (induction rule: rtranclp_induct) (auto intro: ident_prim_mfa)

section \<open>Access tokens\<close>

text \<open>An access token speaks of a session that exists, of its owner and the owner's role; a claimed factor is verified.\<close>

definition claims_ok :: "ident_db \<Rightarrow> jwt_payload \<Rightarrow> bool" where
  "claims_ok db p \<longleftrightarrow>
     (\<exists>t \<in> set (id_tokens db). rt_id t = jp_session_id p \<and> rt_user_id t = jp_sub p \<and> (jp_mfa_verified p \<longrightarrow> rt_mfa_verified t)) \<and>
     (\<exists>u \<in> set (id_users db). us_id u = jp_sub p \<and> us_role u = jp_role p)"

definition access_ok :: "crypto \<Rightarrow> settings \<Rightarrow> ident_db \<Rightarrow> string \<Rightarrow> bool" where
  "access_ok cr st db tk \<longleftrightarrow> (\<exists>p. tk = jwt_encode cr (se_jwt_access_secret st) p \<and> claims_ok db p)"

lemma claims_ok_le: "claims_ok db p \<Longrightarrow> ident_le db db' \<Longrightarrow> claims_ok db' p"
  unfolding claims_ok_def ident_le_def token_le_def user_le_def by (metis (no_types, lifting))

lemma access_ok_le: "access_ok cr st db tk \<Longrightarrow> ident_le db db' \<Longrightarrow> access_ok cr st db' tk"
  unfolding access_ok_def by (elim exE conjE, rule exI, rule conjI, assumption) (rule claims_ok_le)

abbreviation issued_ok :: "crypto \<Rightarrow> settings \<Rightarrow> (exn + issued_session) \<times> ident_db \<Rightarrow> bool" where
  "issued_ok cr st \<equiv> \<lambda>(r, db'). case r of Inl _ \<Rightarrow> True | Inr s \<Rightarrow> access_ok cr st db' (is_access_token s)"

lemma issue_session_access:
  assumes "issue_session cr st dr u now par ua ip m db = Inr (s, db')"
    and "v \<in> set (id_users db)" "us_id v = us_id u" "us_role v = us_role u"
  shows "access_ok cr st db' (is_access_token s)"
proof -
  from assms(1) obtain db1 where c: "create_token (dr_token_id dr) (dr_db_now dr) (us_id u) (hash_refresh_token cr (dr_raw_refresh dr))
      (now + seconds (refresh_ttl_seconds st (us_role u))) par ua ip m db = Inr db'"
    and s: "is_access_token s = encode_access_token cr (se_jwt_access_secret st) (us_id u) (us_role u) (dr_token_id dr)
      (access_ttl_seconds st (us_role u)) now m"
    by (auto simp: issue_session_def Let_def bind_simps)
  let ?p = "\<lparr>jp_sub = us_id u, jp_role = us_role u, jp_session_id = dr_token_id dr, jp_mfa_verified = m,
    jp_iat = int_timestamp now, jp_exp = int_timestamp (now + seconds (access_ttl_seconds st (us_role u)))\<rparr>"
  have "claims_ok db' ?p" using c assms(2-4) by (auto simp: create_token_Inr_iff claims_ok_def)
  then show ?thesis unfolding access_ok_def s encode_access_token_def by blast
qed

lemma audit_issued:
  assumes "access_ok cr st db (is_access_token s)"
  shows "holds (issued_ok cr st) (r_bind (db_audit i ev ac aid md rid now db) (\<lambda>db'. Inr (Inr s, db')))"
proof (rule holds_bind_eq)
  fix db' assume "db_audit i ev ac aid md rid now db = Inr db'"
  then have "ident_le db db'" using db_audit_keeps [of i ev ac aid md rid now db db'] by (simp add: ident_le_subset)
  with assms show "holds (issued_ok cr st) (Inr (Inr s, db'))" by (simp add: access_ok_le)
qed

lemma refuse_issued: "holds (issued_ok cr st) (r_bind r (\<lambda>db'. Inr (Inl e, db')))"
  by (rule holds_bind_eq) simp

lemma session_issued:
  assumes "v \<in> set (id_users db)" "us_id v = us_id u" "us_role v = us_role u"
  shows "holds (issued_ok cr st) (r_bind (issue_session cr st dr u now par ua ip m db) (\<lambda>(s, db1).
    r_bind (db_audit i ev ac aid (md s) rid now' db1) (\<lambda>db2. Inr (Inr s, db2))))"
  by (rule holds_bind_eq) (auto intro!: audit_issued issue_session_access [OF _ assms])

lemma session_issued_ex:
  "\<exists>v \<in> set (id_users db). us_id v = us_id u \<and> us_role v = us_role u \<Longrightarrow>
   holds (issued_ok cr st) (r_bind (issue_session cr st dr u now par ua ip m db) (\<lambda>(s, db1).
    r_bind (db_audit i ev ac aid (md s) rid now' db1) (\<lambda>db2. Inr (Inr s, db2))))"
  by (elim bexE conjE) (rule session_issued)

lemma transact_case: "holds Q r \<Longrightarrow> (\<And>e. Q (Inl e, db)) \<Longrightarrow> Q (transact db r)"
  by (cases r) (auto simp: transact_def)

lemma transact_issued: "holds (issued_ok cr st) r \<Longrightarrow> issued_ok cr st (transact db r)"
  by (erule transact_case) simp

lemma login_issued: "issued_ok cr st (login cr st dr inp db)"
proof -
  have auth: "holds (issued_ok cr st) (login_authenticate cr st dr inp db)" for db
    unfolding login_authenticate_def login_refuse_def user_by_email_def Let_def
    by (intro steps_query holds_bind_eq [where r = "verify_password _ _ _"] holds_option holds_if refuse_issued session_issued) simp_all
  show ?thesis
    unfolding login_def login_email_gate_def login_refuse_def
    by (intro transact_issued holds_bind_eq [where r = "login_ip_gate _ _"] holds_bind_eq [where r = "db_consume _ _ _ _ _"]
        holds_prod holds_option holds_if refuse_issued auth)
qed

lemma refresh_issued: "issued_ok cr st (refresh_session cr st dr inp db)"
  unfolding refresh_session_def
proof (intro transact_issued holds_bind_eq)
  fix plan assume "refresh_read cr inp db = Inr plan"
  from refresh_read_ok [OF this] show "holds (issued_ok cr st) (refresh_write cr st dr inp plan db)"
    unfolding refresh_write_def Let_def
    by (cases plan) (auto simp: plan_ok_def intro!: refuse_issued session_issued holds_prod)
qed

lemma accept_issued: "issued_ok cr st (accept_invitation cr st dr salt inp db)"
proof -
  have act: "\<exists>v \<in> set (id_users (consume_invitation i n (activate (us_id u) h n' db))). us_id v = us_id u \<and> us_role v = us_role u"
    if "u \<in> set (id_users db)" for u i n h n'
  proof -
    have "ident_le db (activate (us_id u) h n' db)"
      unfolding activate_def by (rule ident_prim_le, rule prim_user) simp
    with that show ?thesis by (auto simp: ident_le_def user_le_def consume_invitation_def)
  qed
  show ?thesis
    unfolding accept_invitation_def Let_def invitation_by_hash_def user_by_id_def
    by (intro transact_issued steps_query holds_option holds_if holds_Inl session_issued_ex act) simp_all
qed

end
