(* ===== verification/Identity_Runs.thy ===== *)
theory Identity_Runs
  imports Identity_System
begin

text \<open>Runs of the identity routes, and what holds along every run.\<close>

section \<open>Requests\<close>

record api_world =
  aw_ident :: ident_db
  aw_app :: app_db
  aw_access :: "string list"

definition bearer :: "string \<Rightarrow> string option" where
  "bearer tk = Some (''Bearer '' @ tk)"

definition hand_out :: "(exn + issued_session) \<Rightarrow> string list \<Rightarrow> string list" where
  "hand_out r tks = (case r of Inl _ \<Rightarrow> tks | Inr s \<Rightarrow> is_access_token s # tks)"

inductive api_step :: "crypto \<Rightarrow> settings \<Rightarrow> api_world \<Rightarrow> api_world \<Rightarrow> bool" for cr st where
  req_login: "login cr st dr inp (aw_ident w) = (r, db') \<Longrightarrow>
    api_step cr st w (w\<lparr>aw_ident := db', aw_access := hand_out r (aw_access w)\<rparr>)"
| req_refresh: "refresh_session cr st dr inp (aw_ident w) = (r, db') \<Longrightarrow>
    api_step cr st w (w\<lparr>aw_ident := db', aw_access := hand_out r (aw_access w)\<rparr>)"
| req_accept: "accept_invitation cr st dr salt inp (aw_ident w) = (r, db') \<Longrightarrow>
    api_step cr st w (w\<lparr>aw_ident := db', aw_access := hand_out r (aw_access w)\<rparr>)"
| req_logout: "logout cr dr inp (aw_ident w) = (r, db') \<Longrightarrow> api_step cr st w (w\<lparr>aw_ident := db'\<rparr>)"
| req_reset_request: "password_reset_request cr mailer url adr inp (aw_ident w) = (r, db', mails) \<Longrightarrow>
    api_step cr st w (w\<lparr>aw_ident := db'\<rparr>)"
| req_reset_confirm: "password_reset_confirm cr adr inp (aw_ident w) = (r, db') \<Longrightarrow> api_step cr st w (w\<lparr>aw_ident := db'\<rparr>)"
| req_create_user: "tk \<in> set (aw_access w) \<Longrightarrow> admin_user cr st clock (bearer tk) (aw_ident w) = Inr a \<Longrightarrow>
    cu_created_by_admin_id inp = ru_user_id a \<Longrightarrow> create_user cr mailer url adr inp (aw_ident w) = (r, db') \<Longrightarrow>
    api_step cr st w (w\<lparr>aw_ident := db'\<rparr>)"
| req_provision: "tk \<in> set (aw_access w) \<Longrightarrow> admin_user cr st clock (bearer tk) (aw_ident w) = Inr a \<Longrightarrow>
    pu_created_by_admin_id inp = ru_user_id a \<Longrightarrow> provision_user cr adr inp (aw_ident w) = (r, db') \<Longrightarrow>
    api_step cr st w (w\<lparr>aw_ident := db'\<rparr>)"
| req_reactivate: "tk \<in> set (aw_access w) \<Longrightarrow> admin_user cr st clock (bearer tk) (aw_ident w) = Inr a \<Longrightarrow>
    at_actor_admin_id inp = ru_user_id a \<Longrightarrow> reactivate_user adr inp (aw_ident w) = (r, db') \<Longrightarrow>
    api_step cr st w (w\<lparr>aw_ident := db'\<rparr>)"
| req_resend: "tk \<in> set (aw_access w) \<Longrightarrow> admin_user cr st clock (bearer tk) (aw_ident w) = Inr a \<Longrightarrow>
    at_actor_admin_id inp = ru_user_id a \<Longrightarrow> resend_invitation cr mailer url adr inp (aw_ident w) = (r, db') \<Longrightarrow>
    api_step cr st w (w\<lparr>aw_ident := db'\<rparr>)"
| req_disable: "tk \<in> set (aw_access w) \<Longrightarrow> admin_user cr st clock (bearer tk) (aw_ident w) = Inr a \<Longrightarrow>
    at_actor_admin_id inp = ru_user_id a \<Longrightarrow> disable_user adr inp (aw_ident w) (aw_app w) = (r, db', app') \<Longrightarrow>
    api_step cr st w (w\<lparr>aw_ident := db', aw_app := app'\<rparr>)"
| req_setup: "tk \<in> set (aw_access w) \<Longrightarrow> admin_role_user cr st clock (bearer tk) (aw_ident w) = Inr a \<Longrightarrow>
    sf_admin_user_id inp = ru_user_id a \<Longrightarrow> setup_two_factor cr st secret inp (aw_ident w) = (r, db') \<Longrightarrow>
    api_step cr st w (w\<lparr>aw_ident := db'\<rparr>)"
| req_verify: "tk \<in> set (aw_access w) \<Longrightarrow> admin_role_user cr st clock (bearer tk) (aw_ident w) = Inr a \<Longrightarrow>
    vf_admin_user_id inp = ru_user_id a \<Longrightarrow> vf_session_id inp = ru_session_id a \<Longrightarrow>
    verify_two_factor cr st i1 i2 totp_clock inp (aw_ident w) = (r, db') \<Longrightarrow>
    api_step cr st w (w\<lparr>aw_ident := db',
      aw_access := (case r of Inl _ \<Rightarrow> aw_access w | Inr v \<Rightarrow> vr_access_token v # aw_access w)\<rparr>)"
| req_kill_switch: "tk \<in> set (aw_access w) \<Longrightarrow> admin_user cr st clock (bearer tk) (aw_ident w) = Inr a \<Longrightarrow>
    db_audit i event actor_admin (Some (ru_user_id a)) metadata rid now (aw_ident w) = Inr db' \<Longrightarrow>
    api_step cr st w (w\<lparr>aw_ident := db'\<rparr>)"
| req_throttled: "enforce_mutation_rate_limit cap rate clock user (aw_ident w) = (r, db') \<Longrightarrow>
    api_step cr st w (w\<lparr>aw_ident := db'\<rparr>)"

abbreviation api_run :: "crypto \<Rightarrow> settings \<Rightarrow> api_world \<Rightarrow> api_world \<Rightarrow> bool" where
  "api_run cr st \<equiv> (api_step cr st)\<^sup>*\<^sup>*"

definition api_ok :: "crypto \<Rightarrow> settings \<Rightarrow> api_world \<Rightarrow> bool" where
  "api_ok cr st w \<longleftrightarrow> ident_ok (aw_ident w) \<and> mfa_ok (aw_ident w) \<and> list_all (access_ok cr st (aw_ident w)) (aw_access w)"

text \<open>A deployment starts with the accounts of the seed script and no session.\<close>

definition genesis :: "ident_db \<Rightarrow> app_db \<Rightarrow> api_world" where
  "genesis db app = \<lparr>aw_ident = db, aw_app = app, aw_access = []\<rparr>"

lemma genesis_ok: "ident_ok db \<Longrightarrow> id_tokens db = [] \<Longrightarrow> api_ok cr st (genesis db app)"
  by (simp add: api_ok_def genesis_def mfa_ok_def)

section \<open>The gate on a token the server handed out\<close>

lemma get_current_bearer:
  assumes "jwt_ok cr" and "tk = jwt_encode cr (se_jwt_access_secret st) p"
  shows "get_current_user cr st clock (bearer tk) =
    (if seconds (jp_exp p) \<le> clock then Inl (ExApi UNAUTHENTICATED 401)
     else Inr \<lparr>ru_user_id = jp_sub p, ru_role = jp_role p, ru_session_id = jp_session_id p, ru_mfa_verified = jp_mfa_verified p\<rparr>)"
proof -
  have "starts_with ''Bearer '' (''Bearer '' @ tk)" unfolding starts_with_def by simp
  moreover have "strip (drop (length ''Bearer '') (''Bearer '' @ tk)) = tk"
    using assms by (simp add: jwt_ok_def)
  moreover have "jwt_decode cr (se_jwt_access_secret st) tk (Some clock) = (if seconds (jp_exp p) \<le> clock then PyJWTError else Claims p)"
    using assms by (simp add: jwt_ok_def)
  ultimately show ?thesis
    unfolding get_current_user_def bearer_def option.case by (simp only: if_True not_False_eq_True simp_thms) (simp add: decode_access_token_def Let_def)
qed

lemma active_user_bearer:
  assumes "jwt_ok cr" and "access_ok cr st db tk" and "active_user cr st clock (bearer tk) db = Inr a" and "ident_ok db"
  shows "\<exists>p. tk = jwt_encode cr (se_jwt_access_secret st) p \<and> clock < seconds (jp_exp p) \<and>
    a = \<lparr>ru_user_id = jp_sub p, ru_role = jp_role p, ru_session_id = jp_session_id p, ru_mfa_verified = jp_mfa_verified p\<rparr> \<and>
    claims_ok db p"
proof -
  from assms(2) obtain p where p: "tk = jwt_encode cr (se_jwt_access_secret st) p" "claims_ok db p" by (auto simp: access_ok_def)
  have d: "distinct (map rt_id (id_tokens db))" using assms(4) by (simp add: ident_ok_def tokens_ok_def)
  from assms(3) get_current_bearer [OF assms(1) p(1), of clock] have
    "clock < seconds (jp_exp p) \<and>
     a = \<lparr>ru_user_id = jp_sub p, ru_role = jp_role p, ru_session_id = jp_session_id p, ru_mfa_verified = jp_mfa_verified p\<rparr>"
    by (auto simp: active_user_def get_active_user_Inr_iff [OF d] split: if_split_asm)
  with p show ?thesis by blast
qed

section \<open>Every request keeps the invariant\<close>

lemma disable_body_steps: "holds (\<lambda>(db', app'). ident_steps db db') (disable_body dr inp db app)"
  unfolding disable_body_def Let_def user_by_id_def disable_def
  by (intro steps_query holds_option holds_Inl steps_case_revoke_all steps_audit steps_user holds_prod) simp_all

lemma disable_user_steps: "ident_steps db (fst (snd (disable_user dr inp db app)))"
  using disable_body_steps [of db dr inp app] unfolding disable_user_def by (cases "disable_body dr inp db app") auto

lemma verify_success_access:
  assumes "u \<in> set (id_users db)" and "t \<in> set (id_tokens db)" "rt_id t = vf_session_id inp" "rt_user_id t = us_id u"
    and "verify_success cr st a1 a2 u inp db = Inr (Inr v, db')"
  shows "access_ok cr st db' (vr_access_token v)"
proof -
  let ?db1 = "db_reset (verify_bucket (vf_admin_user_id inp)) db"
  from assms(5) obtain db2 where
    db2: "(if us_mfa_enabled u then Inr ?db1
       else db_audit a1 ''admin_2fa_enabled'' actor_admin (Some (us_id u)) [] (vf_request_id inp) (vf_now inp)
         (enable_mfa (us_id u) (vf_now inp) ?db1)) = Inr db2"
    and db': "db_audit a2 ''admin_2fa_verified'' actor_admin (Some (us_id u)) [] (vf_request_id inp) (vf_now inp)
       (mark_mfa_verified (vf_session_id inp) db2) = Inr db'"
    and v: "vr_access_token v = encode_access_token cr (se_jwt_access_secret st) (us_id u) (us_role u) (vf_session_id inp)
       (se_access_ttl_admin st) (vf_now inp) True"
    by (auto simp: verify_success_def Let_def bind_simps)
  have "ident_le db (enable_mfa (us_id u) (vf_now inp) db)" unfolding enable_mfa_def by (rule ident_prim_le, rule prim_user) simp
  then obtain u' where u': "u' \<in> set (id_users (enable_mfa (us_id u) (vf_now inp) db))" "user_le u u'"
    using assms(1) by (auto simp: ident_le_def)
  have "\<exists>x \<in> set (id_users db2). us_id x = us_id u \<and> us_role x = us_role u"
    and tok: "id_tokens db2 = id_tokens db"
    using db2 u' assms(1) by (auto simp: user_le_def enable_mfa_def upd_user_def split: if_split_asm dest!: db_audit_keeps)
  moreover have "t\<lparr>rt_mfa_verified := True\<rparr> \<in> set (id_tokens (mark_mfa_verified (vf_session_id inp) db2))"
    using assms(2,3) tok by (force simp: mark_mfa_verified_def upd_where_mem_iff)
  moreover have "id_users db' = id_users db2" "id_tokens db' = id_tokens (mark_mfa_verified (vf_session_id inp) db2)"
    using db_audit_keeps [OF db'] by simp_all
  ultimately have "claims_ok db' \<lparr>jp_sub = us_id u, jp_role = us_role u, jp_session_id = vf_session_id inp,
      jp_mfa_verified = True, jp_iat = int_timestamp (vf_now inp),
      jp_exp = int_timestamp (vf_now inp + seconds (se_access_ttl_admin st))\<rparr>"
    using assms(3,4) unfolding claims_ok_def by (simp, intro conjI bexI) simp_all
  then show ?thesis unfolding access_ok_def v encode_access_token_def by blast
qed

lemma verify_access:
  assumes "t \<in> set (id_tokens db)" "rt_id t = vf_session_id inp" "rt_user_id t = vf_admin_user_id inp"
    and "verify_two_factor cr st a1 a2 clock inp db = (Inr v, db')"
  shows "access_ok cr st db' (vr_access_token v)"
proof -
  let ?ok = "\<lambda>(r, db'). case r of Inl _ \<Rightarrow> True | Inr v \<Rightarrow> access_ok cr st db' (vr_access_token v)"
  have good: "holds ?ok (verify_success cr st a1 a2 u inp db1)"
    if "user_by_id (vf_admin_user_id inp) db = Inr (Some u)"
      "db_consume (verify_bucket (vf_admin_user_id inp)) VERIFY_2FA_CAPACITY VERIFY_2FA_REFILL_PER_SECOND (vf_now inp) db = Inr (d, db1)"
    for u d db1
  proof -
    from that(1) have "u \<in> set (id_users db)" "us_id u = vf_admin_user_id inp"
      unfolding user_by_id_def by (auto dest!: one_or_none_SomeD)
    with assms(1-3) db_consume_keeps [OF that(2)] verify_success_access [of u db1 t inp cr st a1 a2] show ?thesis
      by (auto simp: holds_def split: sum.split)
  qed
  have refuse: "holds ?ok (r_bind r (\<lambda>db2. Inr (Inl e, db2)))" for r e by (rule holds_bind_eq) simp
  have "?ok (verify_two_factor cr st a1 a2 clock inp db)"
    unfolding verify_two_factor_def
    apply (rule transact_case)
     apply (intro holds_bind_eq [where r = "user_by_id _ _"] holds_bind_eq [where r = "db_consume _ _ _ _ _"]
        holds_bind_eq [where r = "get_mfa_secret_encrypted _ _"] holds_bind_eq [where r = "decrypt_secret _ _ _"]
        holds_prod holds_option holds_if refuse)
    apply (simp_all add: good)
    done
  then show ?thesis using assms(4) by simp
qed

lemma admin_role_session:
  assumes "jwt_ok cr" and "api_ok cr st w" and "tk \<in> set (aw_access w)"
    and "admin_role_user cr st clock (bearer tk) (aw_ident w) = Inr a"
  shows "\<exists>t \<in> set (id_tokens (aw_ident w)). rt_id t = ru_session_id a \<and> rt_user_id t = ru_user_id a"
proof -
  have ok: "access_ok cr st (aw_ident w) tk" "ident_ok (aw_ident w)" using assms(2,3) by (auto simp: api_ok_def list_all_iff)
  from assms(4) have "active_user cr st clock (bearer tk) (aw_ident w) = Inr a"
    by (auto simp: admin_role_user_def require_role_def bind_simps split: if_split_asm)
  from active_user_bearer [OF assms(1) ok(1) this ok(2)] show ?thesis by (auto simp: claims_ok_def)
qed

lemma throttle_steps: "ident_steps db (snd (enforce_mutation_rate_limit cap rate clock user db))"
  unfolding enforce_mutation_rate_limit_def transact_def
  by (auto simp: bind_simps split: sum.splits if_splits intro: steps_consume_Inr [rotated])

lemma api_step_steps:
  assumes "api_step cr st w w'" and "jwt_ok cr" and "api_ok cr st w"
  shows "ident_steps (aw_ident w) (aw_ident w')"
  using assms(1)
proof cases
  case (req_login dr inp r db')
  then show ?thesis using login_steps [of "aw_ident w" cr st dr inp] by simp
next
  case (req_refresh dr inp r db')
  then show ?thesis using refresh_steps [of "aw_ident w" cr st dr inp] by simp
next
  case (req_accept dr salt inp r db')
  then show ?thesis using accept_invitation_steps [of "aw_ident w" cr st dr salt inp] by simp
next
  case (req_logout dr inp r db')
  then show ?thesis using logout_steps [of "aw_ident w" cr dr inp] by simp
next
  case (req_reset_request mailer url adr inp r db' mails)
  then show ?thesis using password_reset_request_steps [of "aw_ident w" cr mailer url adr inp] by simp
next
  case (req_reset_confirm adr inp r db')
  then show ?thesis using password_reset_confirm_steps [of "aw_ident w" cr adr inp] by simp
next
  case (req_create_user tk clock a inp mailer url adr r db')
  then show ?thesis using create_user_steps [of "aw_ident w" cr mailer url adr inp] by simp
next
  case (req_provision tk clock a inp adr r db')
  then show ?thesis using provision_user_steps [of "aw_ident w" cr adr inp] by simp
next
  case (req_reactivate tk clock a inp adr r db')
  then show ?thesis using reactivate_user_steps [of "aw_ident w" adr inp] by simp
next
  case (req_resend tk clock a inp mailer url adr r db')
  then show ?thesis using resend_invitation_steps [of "aw_ident w" cr mailer url adr inp] by simp
next
  case (req_disable tk clock a inp adr r db' app')
  then show ?thesis using disable_user_steps [of "aw_ident w" adr inp "aw_app w"] by simp
next
  case (req_setup tk clock a inp secret r db')
  then show ?thesis using setup_two_factor_steps [of "aw_ident w" cr st secret inp] by simp
next
  case (req_verify tk clock a inp i1 i2 totp_clock r db')
  from admin_role_session [OF assms(2,3) req_verify(2,3)] obtain t where
    t: "t \<in> set (id_tokens (aw_ident w))" "rt_id t = vf_session_id inp" "rt_user_id t = vf_admin_user_id inp"
    using req_verify(4,5) by auto
  have d: "distinct (map rt_id (id_tokens (aw_ident w)))" using assms(3) by (simp add: api_ok_def ident_ok_def tokens_ok_def)
  have "ident_steps (aw_ident w) (snd (verify_two_factor cr st i1 i2 totp_clock inp (aw_ident w)))"
    by (rule verify_two_factor_steps) (metis t distinct_key_eq [OF d])
  then show ?thesis using req_verify(1,6) by simp
next
  case (req_kill_switch tk clock a i event metadata rid now db')
  then show ?thesis using steps_audit_Inr [of "aw_ident w" "aw_ident w"] by simp
next
  case (req_throttled cap rate clock user r db')
  then show ?thesis using throttle_steps [of "aw_ident w" cap rate clock user] by simp
qed

lemma api_step_ok:
  assumes "api_step cr st w w'" and "jwt_ok cr" and "api_ok cr st w"
  shows "api_ok cr st w'"
proof -
  let ?db = "aw_ident w" and ?db' = "aw_ident w'"
  have st: "ident_steps ?db ?db'" by (rule api_step_steps [OF assms])
  have old: "access_ok cr st ?db' tk" if "tk \<in> set (aw_access w)" for tk
    using that assms(3) access_ok_le [OF _ ident_steps_le [OF st]] by (auto simp: api_ok_def list_all_iff)
  have "access_ok cr st ?db' tk" if new: "tk \<in> set (aw_access w')" "tk \<notin> set (aw_access w)" for tk
    using assms(1)
  proof cases
    case (req_login dr inp r db')
    then show ?thesis using login_issued [of cr st dr inp ?db] new by (auto simp: hand_out_def split: sum.split_asm)
  next
    case (req_refresh dr inp r db')
    then show ?thesis using refresh_issued [of cr st dr inp ?db] new by (auto simp: hand_out_def split: sum.split_asm)
  next
    case (req_accept dr salt inp r db')
    then show ?thesis using accept_issued [of cr st dr salt inp ?db] new by (auto simp: hand_out_def split: sum.split_asm)
  next
    case (req_verify tk' clock a inp i1 i2 totp_clock r db')
    from admin_role_session [OF assms(2,3) req_verify(2,3)] obtain t where
      t: "t \<in> set (id_tokens ?db)" "rt_id t = vf_session_id inp" "rt_user_id t = vf_admin_user_id inp"
      using req_verify(4,5) by auto
    from new req_verify(1) obtain v where v: "r = Inr v" "tk = vr_access_token v" by (auto split: sum.split_asm)
    from verify_access [OF t req_verify(6) [unfolded v(1)]] v(2) req_verify(1) show ?thesis by simp
  qed (use new in simp_all)
  with old have "list_all (access_ok cr st ?db') (aw_access w')" unfolding list_all_iff by blast
  moreover have "ident_ok ?db'" "mfa_ok ?db'"
    using assms(3) ident_steps_ok [OF st] ident_steps_mfa [OF st] by (simp_all add: api_ok_def)
  ultimately show ?thesis by (simp add: api_ok_def)
qed

lemma api_run_ok: "api_run cr st w w' \<Longrightarrow> jwt_ok cr \<Longrightarrow> api_ok cr st w \<Longrightarrow> api_ok cr st w'"
  by (induction rule: rtranclp_induct) (auto intro: api_step_ok)

lemma api_run_le:
  assumes "api_run cr st w w'" and "jwt_ok cr" and "api_ok cr st w"
  shows "ident_le (aw_ident w) (aw_ident w')"
  using assms
proof (induction rule: rtranclp_induct)
  case (step x y)
  have "api_ok cr st x" using step api_run_ok by blast
  from ident_le_trans [OF step.IH ident_steps_le [OF api_step_steps [OF step.hyps(2) step.prems(1) this]]] step.prems
  show ?case by simp
qed simp

end
