(* ===== verification/Identity_Samples.thy ===== *)
theory Identity_Samples
  imports Identity_Runs
begin

text \<open>
  A small deployment for the witnesses: stand-ins for the cryptographic libraries that meet what those
  document, an administrator, a user, and requests that log in, enrol the second factor and rotate.
\<close>

section \<open>Stand-ins for the libraries\<close>

definition int_code :: "int \<Rightarrow> nat" where
  "int_code i = (if 0 \<le> i then 2 * nat i else 2 * nat (- i) + 1)"

definition int_decode :: "nat \<Rightarrow> int" where
  "int_decode n = (if even n then int (n div 2) else - int (n div 2))"

lemma int_decode_code [simp]: "int_decode (int_code i) = i"
  by (simp add: int_code_def int_decode_def)

definition field :: "nat \<Rightarrow> string" where
  "field n = replicate n (CHR ''a'') @ ''.''"

fun fields :: "nat \<Rightarrow> string \<Rightarrow> nat list" where
  "fields k [] = []"
| "fields k (c # s) = (if c = CHR ''a'' then fields (Suc k) s else k # fields 0 s)"

lemma fields_replicate: "fields k (replicate n (CHR ''a'') @ s) = fields (n + k) s"
  by (induction n arbitrary: k) simp_all

lemma fields_field [simp]: "fields 0 (field n @ s) = n # fields 0 s"
  by (simp add: field_def fields_replicate)

definition demo_encode :: "jwt_payload \<Rightarrow> string" where
  "demo_encode p = field (jp_sub p) @ field (if jp_role p = role_admin then 1 else 0) @ field (jp_session_id p) @
     field (if jp_mfa_verified p then 1 else 0) @ field (int_code (jp_iat p)) @ field (int_code (jp_exp p))"

definition demo_decode :: "string \<Rightarrow> jwt_payload option" where
  "demo_decode s = (case fields 0 s of
      [su, ro, sid, mf, ia, ex] \<Rightarrow> Some \<lparr>jp_sub = su, jp_role = (if ro = 1 then role_admin else role_user),
        jp_session_id = sid, jp_mfa_verified = (mf = 1), jp_iat = int_decode ia, jp_exp = int_decode ex\<rparr>
    | _ \<Rightarrow> None)"

lemma demo_decode_encode: "demo_decode (demo_encode p) = Some p"
proof -
  have "fields 0 (field n) = [n]" for n using fields_field [of n "[]"] by simp
  then show ?thesis
    by (cases p; cases "jp_role p") (simp_all add: demo_encode_def demo_decode_def)
qed

lemma field_no_space: "list_all (\<lambda>c. \<not> is_space c) (field n)"
  by (simp add: field_def list_all_iff is_space_def)

definition demo_crypto :: crypto where
  "demo_crypto = \<lparr>sha256_hexdigest = (\<lambda>s. ''h'' @ s), argon2_hash = (\<lambda>salt p. ''$'' @ p),
     argon2_verify = (\<lambda>h p. if h = ''$'' @ p then VerifyOk else VerifyMismatchError), dummy_hash = ''dummy'',
     jwt_encode = (\<lambda>secret. demo_encode),
     jwt_decode = (\<lambda>secret tk clock. case demo_decode tk of
         None \<Rightarrow> PyJWTError
       | Some p \<Rightarrow> (case clock of None \<Rightarrow> Claims p | Some t \<Rightarrow> if seconds (jp_exp p) \<le> t then PyJWTError else Claims p)),
     totp_verify = (\<lambda>s c t. c = s), totp_uri = (\<lambda>s e i. i @ e @ s),
     fernet_encrypt = (\<lambda>k s. s), fernet_decrypt = (\<lambda>k s. Some s)\<rparr>"

lemma demo_jwt_ok: "jwt_ok demo_crypto"
proof -
  have "strip (demo_encode p) = demo_encode p" for p
    by (rule strip_no_space) (simp add: demo_encode_def field_no_space)
  then show ?thesis by (simp add: jwt_ok_def demo_crypto_def demo_decode_encode split: option.split)
qed

section \<open>A deployment\<close>

definition demo_settings :: settings where
  "demo_settings = \<lparr>se_access_ttl_user = 9, se_access_ttl_admin = 9, se_refresh_ttl_user = 50, se_refresh_ttl_admin = 50,
     se_jwt_access_secret = ''s'', se_mfa_encryption_key = ''k'', se_app_base_url = ''u''\<rparr>"

definition demo_user :: "uuid \<Rightarrow> string \<Rightarrow> user_role \<Rightarrow> user_row" where
  "demo_user i email role = \<lparr>us_id = i, us_email = email, us_password_hash = Some ''$pw'', us_role = role,
     us_status = st_active, us_mfa_enabled = False, us_mfa_secret_encrypted = None, us_disabled_at = None,
     us_created_at = 0, us_updated_at = 0\<rparr>"

definition demo_ident :: ident_db where
  "demo_ident = \<lparr>id_users = [demo_user 1 ''a'' role_admin, demo_user 2 ''b'' role_user], id_invitations = [],
     id_resets = [], id_tokens = [], id_buckets = [], id_audit = []\<rparr>"

definition demo_draws :: "nat \<Rightarrow> draws" where
  "demo_draws n = \<lparr>dr_token_id = n, dr_raw_refresh = replicate n (CHR ''r''), dr_csrf_token = ''c'', dr_audit_id = n, dr_db_now = 0\<rparr>"

definition demo_login_input :: "string \<Rightarrow> string \<Rightarrow> login_input" where
  "demo_login_input email pw = \<lparr>li_email = email, li_password = pw, li_now = 0, li_user_agent = None, li_ip = None,
     li_request_id = None\<rparr>"

definition demo_login :: "nat \<Rightarrow> string \<Rightarrow> api_world \<Rightarrow> api_world" where
  "demo_login n email w = (case login demo_crypto demo_settings (demo_draws n) (demo_login_input email ''pw'') (aw_ident w) of
      (r, db) \<Rightarrow> w\<lparr>aw_ident := db, aw_access := hand_out r (aw_access w)\<rparr>)"

lemma demo_login_step: "api_step demo_crypto demo_settings w (demo_login n email w)"
  unfolding demo_login_def by (auto split: prod.split intro: req_login)

definition demo_refresh_input :: "nat \<Rightarrow> refresh_input" where
  "demo_refresh_input n = \<lparr>ri_raw_refresh_token = Some (replicate n (CHR ''r'')), ri_csrf_cookie = Some ''c'',
     ri_csrf_header = Some ''c'', ri_now = 1, ri_user_agent = None, ri_ip = None, ri_request_id = None\<rparr>"

definition demo_refresh :: "nat \<Rightarrow> nat \<Rightarrow> api_world \<Rightarrow> api_world" where
  "demo_refresh n old w = (case refresh_session demo_crypto demo_settings (demo_draws n) (demo_refresh_input old) (aw_ident w) of
      (r, db) \<Rightarrow> w\<lparr>aw_ident := db, aw_access := hand_out r (aw_access w)\<rparr>)"

lemma demo_refresh_step: "api_step demo_crypto demo_settings w (demo_refresh n old w)"
  unfolding demo_refresh_def by (auto split: prod.split intro: req_refresh)

definition demo_token :: "uuid \<Rightarrow> user_role \<Rightarrow> uuid \<Rightarrow> bool \<Rightarrow> string" where
  "demo_token sub role sid mfa = encode_access_token demo_crypto ''s'' sub role sid 9 0 mfa"

definition demo_setup_input :: setup_two_factor_input where
  "demo_setup_input = \<lparr>sf_admin_user_id = 1, sf_now = 0, sf_request_id = None\<rparr>"

definition demo_verify_input :: verify_two_factor_input where
  "demo_verify_input = \<lparr>vf_admin_user_id = 1, vf_session_id = 3, vf_code = ''t'', vf_now = 0, vf_request_id = None\<rparr>"

text \<open>The administrator logs in, enrols and verifies; then the user logs in.\<close>

definition demo_app :: app_db where
  "demo_app = \<lparr>ap_core = empty_db [2] [], ap_intents = [], ap_slices = []\<rparr>"

definition demo0 :: api_world where
  "demo0 = genesis demo_ident demo_app"

definition demo1 :: api_world where
  "demo1 = demo_login 3 ''a'' demo0"

definition demo2 :: api_world where
  "demo2 = demo1\<lparr>aw_ident := snd (setup_two_factor demo_crypto demo_settings ''t'' demo_setup_input (aw_ident demo1))\<rparr>"

definition demo3 :: api_world where
  "demo3 = (case verify_two_factor demo_crypto demo_settings 4 5 0 demo_verify_input (aw_ident demo2) of
      (r, db) \<Rightarrow> demo2\<lparr>aw_ident := db,
        aw_access := (case r of Inl _ \<Rightarrow> aw_access demo2 | Inr v \<Rightarrow> vr_access_token v # aw_access demo2)\<rparr>)"

text \<open>Evaluated once; later evaluations start from here.\<close>

definition demo_audit :: "uuid \<Rightarrow> string \<Rightarrow> actor_type \<Rightarrow> uuid \<Rightarrow> datetime \<Rightarrow> (string \<times> meta_value) list \<Rightarrow> audit_row" where
  "demo_audit i ev ac u now md = \<lparr>au_id = i, au_event_type = ev, au_actor_type = ac, au_actor_id = Some u, au_occurred_at = now,
     au_metadata = md, au_request_id = None\<rparr>"

lemma demo3_eval [code]:
  "demo3 = \<lparr>aw_ident =
      \<lparr>id_users = [(demo_user 1 ''a'' role_admin)\<lparr>us_mfa_enabled := True, us_mfa_secret_encrypted := Some ''t''\<rparr>, demo_user 2 ''b'' role_user],
       id_invitations = [], id_resets = [],
       id_tokens = [\<lparr>rt_id = 3, rt_user_id = 1, rt_token_hash = ''hrrr'', rt_parent_token_id = None, rt_issued_at = 0,
         rt_expires_at = 50000000, rt_revoked_at = None, rt_revoked_reason = None, rt_user_agent = None, rt_ip = None,
         rt_mfa_verified = True\<rparr>],
       id_buckets = [],
       id_audit = [demo_audit 3 ''login_success'' actor_admin 1 0 [(''session_id'', MUuid 3)],
         demo_audit 4 ''admin_2fa_enabled'' actor_admin 1 0 [],
         demo_audit 5 ''admin_2fa_verified'' actor_admin 1 0 []]\<rparr>,
     aw_app = demo_app,
     aw_access = [demo_token 1 role_admin 3 True, demo_token 1 role_admin 3 False]\<rparr>"
  by code_simp

definition demo4 :: api_world where
  "demo4 = demo_login 6 ''b'' demo3"

lemma demo1_gate: "demo_token 1 role_admin 3 False \<in> set (aw_access demo1) \<and>
  admin_role_user demo_crypto demo_settings 0 (bearer (demo_token 1 role_admin 3 False)) (aw_ident demo1) =
    Inr \<lparr>ru_user_id = 1, ru_role = role_admin, ru_session_id = 3, ru_mfa_verified = False\<rparr>"
  by code_simp

lemma demo2_gate: "demo_token 1 role_admin 3 False \<in> set (aw_access demo2) \<and>
  admin_role_user demo_crypto demo_settings 0 (bearer (demo_token 1 role_admin 3 False)) (aw_ident demo2) =
    Inr \<lparr>ru_user_id = 1, ru_role = role_admin, ru_session_id = 3, ru_mfa_verified = False\<rparr>"
  by code_simp

lemma demo_step2: "api_step demo_crypto demo_settings demo1 demo2"
proof -
  obtain r db' where "setup_two_factor demo_crypto demo_settings ''t'' demo_setup_input (aw_ident demo1) = (r, db')" by fastforce
  then show ?thesis
    unfolding demo2_def using demo1_gate by (auto simp: demo_setup_input_def intro!: req_setup [where secret = "''t''" and inp = demo_setup_input])
qed

lemma demo_step3: "api_step demo_crypto demo_settings demo2 demo3"
proof -
  obtain r db' where r: "verify_two_factor demo_crypto demo_settings 4 5 0 demo_verify_input (aw_ident demo2) = (r, db')" by fastforce
  show ?thesis
    unfolding demo3_def r prod.case
    by (rule req_verify [OF conjunct1 [OF demo2_gate] conjunct2 [OF demo2_gate] _ _ r]) (simp_all add: demo_verify_input_def)
qed

lemma demo_run: "api_run demo_crypto demo_settings demo0 demo4"
  using demo_login_step [of demo0 3 "''a''"] demo_step2 demo_step3 demo_login_step [of demo3 6 "''b''"]
  unfolding demo1_def [symmetric] demo4_def [symmetric] by (meson converse_rtranclp_into_rtranclp rtranclp.rtrancl_refl)

lemma demo4_gate: "demo_token 1 role_admin 3 True \<in> set (aw_access demo4) \<and>
  demo_token 2 role_user 6 False \<in> set (aw_access demo4) \<and>
  admin_user demo_crypto demo_settings 0 (bearer (demo_token 1 role_admin 3 True)) (aw_ident demo4) =
    Inr \<lparr>ru_user_id = 1, ru_role = role_admin, ru_session_id = 3, ru_mfa_verified = True\<rparr>"
  by code_simp

lemma demo_ident_ok: "ident_ok demo_ident"
  by (simp add: ident_ok_def users_ok_def tokens_ok_def invitations_ok_def resets_ok_def buckets_ok_def demo_ident_def
      demo_user_def unique_on_def lower_def lower_char_def Let_def)

text \<open>The user rotates; the administrator disables the account.\<close>

definition demo5 :: api_world where
  "demo5 = demo_refresh 7 6 demo4"

lemma demo_run5: "api_run demo_crypto demo_settings demo0 demo5"
  unfolding demo5_def by (rule rtranclp.rtrancl_into_rtrancl [OF demo_run demo_refresh_step])

lemma demo5_eval [code]:
  "demo5 = \<lparr>aw_ident =
      \<lparr>id_users = [(demo_user 1 ''a'' role_admin)\<lparr>us_mfa_enabled := True, us_mfa_secret_encrypted := Some ''t''\<rparr>, demo_user 2 ''b'' role_user],
       id_invitations = [], id_resets = [],
       id_tokens = [\<lparr>rt_id = 3, rt_user_id = 1, rt_token_hash = ''hrrr'', rt_parent_token_id = None, rt_issued_at = 0,
         rt_expires_at = 50000000, rt_revoked_at = None, rt_revoked_reason = None, rt_user_agent = None, rt_ip = None,
         rt_mfa_verified = True\<rparr>,
        \<lparr>rt_id = 6, rt_user_id = 2, rt_token_hash = ''hrrrrrr'', rt_parent_token_id = None, rt_issued_at = 0,
         rt_expires_at = 50000000, rt_revoked_at = Some 1, rt_revoked_reason = Some rev_rotated, rt_user_agent = None, rt_ip = None,
         rt_mfa_verified = False\<rparr>,
        \<lparr>rt_id = 7, rt_user_id = 2, rt_token_hash = ''hrrrrrrr'', rt_parent_token_id = Some 6, rt_issued_at = 0,
         rt_expires_at = 50000001, rt_revoked_at = None, rt_revoked_reason = None, rt_user_agent = None, rt_ip = None,
         rt_mfa_verified = False\<rparr>],
       id_buckets = [],
       id_audit = [demo_audit 3 ''login_success'' actor_admin 1 0 [(''session_id'', MUuid 3)],
         demo_audit 4 ''admin_2fa_enabled'' actor_admin 1 0 [],
         demo_audit 5 ''admin_2fa_verified'' actor_admin 1 0 [],
         demo_audit 6 ''login_success'' actor_user 2 0 [(''session_id'', MUuid 6)],
         demo_audit 7 ''session_refreshed'' actor_user 2 1 [(''session_id'', MUuid 7)]]\<rparr>,
     aw_app = demo_app,
     aw_access = [demo_token 2 role_user 7 False, demo_token 2 role_user 6 False, demo_token 1 role_admin 3 True, demo_token 1 role_admin 3 False]\<rparr>"
  by code_simp

definition demo_adraws :: account_draws where
  "demo_adraws = \<lparr>ad_user_id = 9, ad_invitation_id = 9, ad_raw_token = ''x'', ad_salt = ''y'', ad_audit_id = 8, ad_db_now = 2\<rparr>"

definition demo_disable_input :: admin_target_input where
  "demo_disable_input = \<lparr>at_target_user_id = 2, at_actor_admin_id = 1, at_now = 2, at_request_id = None\<rparr>"

definition demo6 :: api_world where
  "demo6 = (case disable_user demo_adraws demo_disable_input (aw_ident demo5) (aw_app demo5) of
      (r, db, app) \<Rightarrow> demo5\<lparr>aw_ident := db, aw_app := app\<rparr>)"

end
