(* ===== verification/Identity_Properties.thy ===== *)
theory Identity_Properties
  imports Identity_Samples
begin

text \<open>What the identity side promises, along every run of its routes and of single commands.\<close>

section \<open>The administrators' gate\<close>

text \<open>An administrator who has enrolled a second factor, in a session that has verified it and was not
  revoked other than by rotation.\<close>

definition verified_admin :: "request_user \<Rightarrow> ident_db \<Rightarrow> bool" where
  "verified_admin a db \<longleftrightarrow> (\<exists>u \<in> set (id_users db). us_id u = ru_user_id a \<and> us_role u = role_admin \<and> us_mfa_enabled u \<and>
      (\<exists>t \<in> set (id_tokens db). rt_id t = ru_session_id a \<and> rt_user_id t = ru_user_id a \<and> rt_mfa_verified t \<and>
        (rt_revoked_at t = None \<or> rt_revoked_reason t = Some rev_rotated)))"

lemma admin_gate_ok:
  assumes "jwt_ok cr" and "api_ok cr st w" and "tk \<in> set (aw_access w)" and "admin_user cr st clock (bearer tk) (aw_ident w) = Inr a"
  shows "verified_admin a (aw_ident w)"
proof -
  let ?db = "aw_ident w"
  note ok = assms(2)
  then have d: "distinct (map rt_id (id_tokens ?db))" by (simp add: api_ok_def ident_ok_def tokens_ok_def)
  have act: "active_user cr st clock (bearer tk) ?db = Inr a" and adm: "ru_mfa_verified a"
    using assms(4) by (auto simp: admin_user_def get_admin_user_def bind_simps split: if_split_asm)
  from active_user_bearer [OF assms(1) _ act] ok assms(3) have "claims_ok ?db \<lparr>jp_sub = ru_user_id a, jp_role = ru_role a,
      jp_session_id = ru_session_id a, jp_mfa_verified = True, jp_iat = 0, jp_exp = 0\<rparr>"
    using adm by (auto simp: api_ok_def list_all_iff claims_ok_def)
  then obtain t where t: "t \<in> set (id_tokens ?db)" "rt_id t = ru_session_id a" "rt_user_id t = ru_user_id a" "rt_mfa_verified t"
    by (auto simp: claims_ok_def)
  with ok obtain u where u: "u \<in> set (id_users ?db)" "us_id u = ru_user_id a" "us_role u = role_admin" "us_mfa_enabled u"
    by (fastforce simp: api_ok_def mfa_ok_def)
  from act obtain s where "s \<in> set (id_tokens ?db)" "rt_id s = ru_session_id a" "rt_revoked_at s = None \<or> rt_revoked_reason s = Some rev_rotated"
    by (auto simp: active_user_def get_active_user_Inr_iff [OF d] bind_simps)
  with t u distinct_key_eq [OF d] show ?thesis unfolding verified_admin_def by metis
qed

text \<open>Along every run, a request that passes the administrators' gate with a token the server handed
  out belongs to an administrator who has enrolled a second factor, in a session of that administrator
  which has verified it and which has not been revoked other than by rotation.\<close>

theorem admin_gate_sound:
  assumes "jwt_ok cr" and "ident_ok db" and "id_tokens db = []" and "api_run cr st (genesis db app) w"
    and "tk \<in> set (aw_access w)" and "admin_user cr st clock (bearer tk) (aw_ident w) = Inr a"
  shows "\<exists>u \<in> set (id_users (aw_ident w)). us_id u = ru_user_id a \<and> us_role u = role_admin \<and> us_mfa_enabled u \<and>
      (\<exists>t \<in> set (id_tokens (aw_ident w)). rt_id t = ru_session_id a \<and> rt_user_id t = ru_user_id a \<and> rt_mfa_verified t \<and>
        (rt_revoked_at t = None \<or> rt_revoked_reason t = Some rev_rotated))"
  using admin_gate_ok [OF assms(1) _ assms(5,6)] api_run_ok [OF assms(4,1) genesis_ok [OF assms(2,3)]] by (simp add: verified_admin_def)

theorem admin_gate_sound_witness:
  "\<exists>u \<in> set (id_users (aw_ident demo4)). us_id u = 1 \<and> us_role u = role_admin \<and> us_mfa_enabled u"
  using admin_gate_sound [OF demo_jwt_ok demo_ident_ok _ demo_run [unfolded demo0_def] conjunct1 [OF demo4_gate]
      conjunct2 [OF conjunct2 [OF demo4_gate]]]
  by (auto simp: demo_ident_def)

section \<open>Rotation chains\<close>

text \<open>\<open>b\<close> succeeds \<open>a\<close> when it was issued for \<open>a\<close>'s refresh token.\<close>

definition successor :: "ident_db \<Rightarrow> refresh_token_row \<Rightarrow> refresh_token_row \<Rightarrow> bool" where
  "successor db a b \<longleftrightarrow> a \<in> set (id_tokens db) \<and> b \<in> set (id_tokens db) \<and> rt_parent_token_id b = Some (rt_id a)"

lemma successor_unique:
  assumes "ident_ok db" and "successor db a b" and "successor db a c"
  shows "b = c"
proof -
  have "unique_on (\<lambda>t. rt_parent_token_id t \<noteq> None) rt_parent_token_id (id_tokens db)"
    using assms(1) by (simp add: ident_ok_def tokens_ok_def)
  from unique_onD [OF this, of b c] assms(2,3) show ?thesis by (simp add: successor_def)
qed

lemma successor_live:
  "ident_ok db \<Longrightarrow> successor db a b \<Longrightarrow> rt_revoked_at a \<noteq> None"
  using tokens_ok_no_child unfolding ident_ok_def successor_def by blast

lemma chain_live_unique:
  assumes "ident_ok db" and "(successor db)\<^sup>*\<^sup>* a b" and "(successor db)\<^sup>*\<^sup>* a c"
    and "rt_revoked_at b = None" and "rt_revoked_at c = None"
  shows "b = c"
  using assms(2,3)
proof (induction rule: converse_rtranclp_induct)
  case base
  then show ?case using successor_live [OF assms(1)] assms(4) by (metis converse_rtranclpE)
next
  case (step x y)
  from step.prems show ?case
  proof (cases rule: converse_rtranclpE)
    case base
    then show ?thesis using successor_live [OF assms(1) step.hyps(1)] assms(5) by simp
  next
    case (step z)
    then show ?thesis using step.IH successor_unique [OF assms(1) \<open>successor db x y\<close>] by blast
  qed
qed


lemma demo5_chain:
  "successor (aw_ident demo5) (id_tokens (aw_ident demo5) ! 1) (id_tokens (aw_ident demo5) ! 2)"
  "rt_revoked_at (id_tokens (aw_ident demo5) ! 2) = None"
  by code_simp+


section \<open>Disabling an account\<close>

lemma disable_body_effect:
  "holds (\<lambda>(db', app'). \<exists>u. user_by_id (at_target_user_id inp) db = Inr (Some u) \<and>
     id_tokens db' = id_tokens (snd (revoke_all_active_for_user (us_id u) rev_account_disabled (at_now inp) db)) \<and>
     app' = (snd (legacy_cancel_active_for_owner (us_id u) cancelled_by_account_disabled (at_now inp) app))
       \<lparr>ap_core := snd (cancel_active_for_owner (us_id u) cancelled_by_account_disabled (at_now inp) (ap_core app))\<rparr>)
     (disable_body dr inp db app)"
  unfolding disable_body_def Let_def
proof (rule holds_bind_eq, rule holds_option)
  fix x u assume "user_by_id (at_target_user_id inp) db = Inr x" "x = Some u"
  then show "holds (\<lambda>(db', app'). \<exists>u. user_by_id (at_target_user_id inp) db = Inr (Some u) \<and>
     id_tokens db' = id_tokens (snd (revoke_all_active_for_user (us_id u) rev_account_disabled (at_now inp) db)) \<and>
     app' = (snd (legacy_cancel_active_for_owner (us_id u) cancelled_by_account_disabled (at_now inp) app))
       \<lparr>ap_core := snd (cancel_active_for_owner (us_id u) cancelled_by_account_disabled (at_now inp) (ap_core app))\<rparr>)
    (case legacy_cancel_active_for_owner (us_id u) ACCOUNT_DISABLED_INTENT_STATUS (at_now inp) app of (old_count, app1) \<Rightarrow>
       case cancel_active_for_owner (us_id u) ACCOUNT_DISABLED_INTENT_STATUS (at_now inp) (ap_core app1) of (new_count, core1) \<Rightarrow>
       case revoke_all_active_for_user (us_id u) rev_account_disabled (at_now inp) (disable (us_id u) (at_now inp) db) of (revoked, db2) \<Rightarrow>
       r_bind (db_audit (ad_audit_id dr) ''account_disabled'' actor_admin (Some (at_actor_admin_id inp))
                 [(''target_user_id'', MUuid (us_id u)), (''cancelled_intent_count'', MInt (int (old_count + new_count))),
                  (''revoked_token_count'', MInt (int revoked))] (at_request_id inp) (at_now inp) db2) (\<lambda>db3.
         Inr (db3, app1\<lparr>ap_core := core1\<rparr>)))"
    by (intro holds_prod holds_bind_eq)
      (auto simp: ACCOUNT_DISABLED_INTENT_STATUS_def revoke_all_active_for_user_def legacy_cancel_active_for_owner_def Let_def
        disable_def upd_user_def dest!: db_audit_keeps)
qed simp

text \<open>Once revoked for a reason other than rotation, a session is refused in every later state.\<close>

lemma revoked_refused:
  assumes "ident_ok db'" and "ident_le db db'" and "t \<in> set (id_tokens db)" and "rt_id t = ru_session_id user"
    and "rt_revoked_at t \<noteq> None" and "rt_revoked_reason t = Some r" and "r \<noteq> rev_rotated"
  shows "get_active_user db' user =
    Inl (if r = rev_account_disabled then ExApi ACCOUNT_DISABLED 403 else ExApi SESSION_REVOKED 401)"
proof -
  from assms(2,3) obtain t' where t': "t' \<in> set (id_tokens db')" "token_le t t'" by (auto simp: ident_le_def)
  show ?thesis
    by (rule get_active_user_revoked [OF _ t'(1)]) (use assms t'(2) in \<open>auto simp: ident_ok_def tokens_ok_def token_le_def\<close>)
qed

lemma disable_user_le: "ident_le db (fst (snd (disable_user dr inp db app)))"
  by (rule ident_steps_le [OF disable_user_steps])

text \<open>(C8) When an administrator disables an account, every session of it that was live answers
  ACCOUNT_DISABLED from then on, in every later state, a reactivation included; and of its orders, on the
  old and on the new track, none is left open.\<close>

theorem disable_cuts_access:
  assumes "jwt_ok cr" and "ident_ok db" and "id_tokens db = []" and "api_run cr st (genesis db app) w"
    and "disable_user dr inp (aw_ident w) (aw_app w) = (Inr (), db', app')"
    and "api_run cr st (w\<lparr>aw_ident := db', aw_app := app'\<rparr>) w'"
    and "get_current_user cr st clock header = Inr a"
    and "t \<in> set (id_tokens (aw_ident w))" and "rt_id t = ru_session_id a" and "rt_user_id t = at_target_user_id inp"
    and "rt_revoked_at t = None"
  shows "active_user cr st clock header (aw_ident w') = Inl (ExApi ACCOUNT_DISABLED 403) \<and>
    legacy_count_user (at_target_user_id inp) app' = 0 \<and>
    count_active_or_scheduled_for_user (at_target_user_id inp) (ap_core app') = 0"
proof -
  have ok: "api_ok cr st w" by (rule api_run_ok [OF assms(4,1) genesis_ok [OF assms(2,3)]])
  have steps: "ident_steps (aw_ident w) db'" using disable_user_steps [of "aw_ident w" dr inp "aw_app w"] assms(5) by simp
  have "list_all (access_ok cr st db') (aw_access w)"
    using ok access_ok_le [OF _ ident_steps_le [OF steps]] by (auto simp: api_ok_def list_all_iff)
  then have ok1: "api_ok cr st (w\<lparr>aw_ident := db', aw_app := app'\<rparr>)"
    using ok ident_steps_ok [OF steps] ident_steps_mfa [OF steps] by (simp add: api_ok_def)
  have body: "disable_body dr inp (aw_ident w) (aw_app w) = Inr (db', app')"
    using assms(5) by (auto simp: disable_user_def split: sum.split_asm)
  from holdsD [OF disable_body_effect body] obtain u where u: "user_by_id (at_target_user_id inp) (aw_ident w) = Inr (Some u)"
    and tok: "id_tokens db' = id_tokens (snd (revoke_all_active_for_user (us_id u) rev_account_disabled (at_now inp) (aw_ident w)))"
    and app': "app' = (snd (legacy_cancel_active_for_owner (us_id u) cancelled_by_account_disabled (at_now inp) (aw_app w)))
       \<lparr>ap_core := snd (cancel_active_for_owner (us_id u) cancelled_by_account_disabled (at_now inp) (ap_core (aw_app w)))\<rparr>"
    by auto
  have id: "us_id u = at_target_user_id inp" using u by (auto simp: user_by_id_def dest!: one_or_none_SomeD)
  have "t\<lparr>rt_revoked_at := Some (at_now inp), rt_revoked_reason := Some rev_account_disabled\<rparr> \<in> set (id_tokens db')"
    using assms(8,10,11) id by (force simp: tok revoke_all_active_for_user_def Let_def upd_where_mem_iff)
  from revoked_refused [OF _ _ this, of "aw_ident w'" a rev_account_disabled] api_run_ok [OF assms(6,1) ok1]
    api_run_le [OF assms(6,1) ok1] assms(7,9)
  have "active_user cr st clock header (aw_ident w') = Inl (ExApi ACCOUNT_DISABLED 403)"
    by (simp add: active_user_def api_ok_def)
  moreover have "legacy_count_user (at_target_user_id inp) app' = 0"
    by (auto simp: app' id legacy_count_user_def legacy_cancel_active_for_owner_def Let_def count_where_0_iff upd_where_mem_iff
        CANCELLABLE_STATUSES_def)
  moreover have "count_active_or_scheduled_for_user (at_target_user_id inp) (ap_core app') = 0"
    by (auto simp: app' id count_active_or_scheduled_for_user_def cancel_active_for_owner_def Let_def count_where_0_iff
        upd_where_mem_iff CANCELLABLE_STATUSES_def set_cancelled_as_def)
  ultimately show ?thesis by simp
qed

theorem disable_cuts_access_witness:
  "active_user demo_crypto demo_settings 0 (bearer (demo_token 2 role_user 7 False)) (aw_ident demo6) = Inl (ExApi ACCOUNT_DISABLED 403)"
proof -
  have d: "disable_user demo_adraws demo_disable_input (aw_ident demo5) (aw_app demo5) = (Inr (), aw_ident demo6, aw_app demo6)"
    by code_simp
  have g: "get_current_user demo_crypto demo_settings 0 (bearer (demo_token 2 role_user 7 False)) =
      Inr \<lparr>ru_user_id = 2, ru_role = role_user, ru_session_id = 7, ru_mfa_verified = False\<rparr>"
    by code_simp
  have t: "id_tokens (aw_ident demo5) ! 2 \<in> set (id_tokens (aw_ident demo5))" "rt_id (id_tokens (aw_ident demo5) ! 2) = 7"
    "rt_user_id (id_tokens (aw_ident demo5) ! 2) = 2"
    by code_simp+
  have s: "demo5\<lparr>aw_ident := aw_ident demo6, aw_app := aw_app demo6\<rparr> = demo6"
    by (subst (3) demo6_def) (simp only: d prod.case)
  show ?thesis
    using disable_cuts_access [OF demo_jwt_ok demo_ident_ok _ demo_run5 [unfolded demo0_def] d _ g t(1), of demo6] t demo5_chain(2)
    by (simp add: demo_ident_def demo_disable_input_def s)
qed

text \<open>A revocation for rotation is not one the gate refuses: an access token of a session that was rotated
  before the account was disabled is still accepted afterwards.\<close>

theorem rotated_session_survives_disable:
  "active_user demo_crypto demo_settings 0 (bearer (demo_token 2 role_user 6 False)) (aw_ident demo6) =
     Inr \<lparr>ru_user_id = 2, ru_role = role_user, ru_session_id = 6, ru_mfa_verified = False\<rparr>"
  by code_simp

section \<open>Refresh\<close>

lemma token_by_hash_mem:
  assumes "ident_ok db" and "t \<in> set (id_tokens db)"
  shows "token_by_hash (rt_token_hash t) db = Inr (Some t)"
  using filter_key [OF _ assms(2), of rt_token_hash] assms(1)
  by (simp add: token_by_hash_def one_or_none_def ident_ok_def tokens_ok_def)

text \<open>(C24) Presenting a refresh token that was already rotated is answered with REFRESH_REUSE_DETECTED and
  leaves its owner without a live session; the revocations are committed although the request fails.\<close>

theorem refresh_reuse_revokes_all:
  assumes "ident_ok db" and "t \<in> set (id_tokens db)" and "rt_token_hash t = hash_refresh_token cr raw"
    and "rt_revoked_at t \<noteq> None" and "rt_revoked_reason t = Some rev_rotated"
    and "ri_raw_refresh_token inp = Some raw" and "csrf_tokens_match (ri_csrf_cookie inp) (ri_csrf_header inp) = Inr True"
    and "dr_audit_id dr \<notin> au_id ` set (id_audit db)"
  shows "fst (refresh_session cr st dr inp db) = Inl (ExAuth RefreshReuseDetectedError) \<and>
    list_all (\<lambda>s. rt_user_id s \<noteq> rt_user_id t \<or> rt_revoked_at s \<noteq> None) (id_tokens (snd (refresh_session cr st dr inp db))) \<and>
    id_users (snd (refresh_session cr st dr inp db)) = id_users db"
proof -
  have read: "refresh_read cr inp db = Inr (PlanReuse t)"
    using token_by_hash_mem [OF assms(1,2)] assms(3-7) by (simp add: refresh_read_def)
  show ?thesis
    using assms(8)
    by (auto simp: refresh_session_def read refresh_write_def transact_def revoke_all_active_for_user_def Let_def db_audit_def
        audit_write_def list_all_iff upd_where_mem_iff)
qed

lemma demo0_ok: "api_ok demo_crypto demo_settings demo0"
  unfolding demo0_def by (rule genesis_ok [OF demo_ident_ok]) (simp add: demo_ident_def)

theorem refresh_reuse_revokes_all_witness:
  "fst (refresh_session demo_crypto demo_settings (demo_draws 8) (demo_refresh_input 6) (aw_ident demo5)) =
     Inl (ExAuth RefreshReuseDetectedError)"
proof -
  have "api_ok demo_crypto demo_settings demo5"
    unfolding demo0_def [symmetric] by (rule api_run_ok [OF demo_run5 demo_jwt_ok demo0_ok])
  then have ok: "ident_ok (aw_ident demo5)" by (simp add: api_ok_def)
  let ?t = "id_tokens (aw_ident demo5) ! 1"
  have t: "?t \<in> set (id_tokens (aw_ident demo5))" "rt_token_hash ?t = hash_refresh_token demo_crypto (replicate 6 (CHR ''r''))"
    "rt_revoked_at ?t \<noteq> None" "rt_revoked_reason ?t = Some rev_rotated"
    "ri_raw_refresh_token (demo_refresh_input 6) = Some (replicate 6 (CHR ''r''))"
    "csrf_tokens_match (ri_csrf_cookie (demo_refresh_input 6)) (ri_csrf_header (demo_refresh_input 6)) = Inr True"
    "dr_audit_id (demo_draws 8) \<notin> au_id ` set (id_audit (aw_ident demo5))"
    by code_simp+
  from refresh_reuse_revokes_all [OF ok t] show ?thesis by simp
qed

text \<open>The row is read without a lock and the count of \<open>revoke\<close> is ignored: two requests that both read
  before either writes both rotate the token, and the chain has two live ends, with no reuse noticed.\<close>

theorem concurrent_refresh_forks:
  "\<exists>plan s1 db1 s2 db2. refresh_read demo_crypto (demo_refresh_input 6) (aw_ident demo4) = Inr plan \<and>
     refresh_write demo_crypto demo_settings (demo_draws 7) (demo_refresh_input 6) plan (aw_ident demo4) = Inr (Inr s1, db1) \<and>
     refresh_write demo_crypto demo_settings (demo_draws 8) (demo_refresh_input 6) plan db1 = Inr (Inr s2, db2) \<and>
     map rt_id (filter (\<lambda>t. rt_parent_token_id t = Some 6 \<and> rt_revoked_at t = None) (id_tokens db2)) = [7, 8]"
proof -
  let ?r = "refresh_read demo_crypto (demo_refresh_input 6) (aw_ident demo4)"
  let ?w1 = "refresh_write demo_crypto demo_settings (demo_draws 7) (demo_refresh_input 6) (projr ?r) (aw_ident demo4)"
  let ?w2 = "refresh_write demo_crypto demo_settings (demo_draws 8) (demo_refresh_input 6) (projr ?r) (snd (projr ?w1))"
  have "isl ?r = False" "isl ?w1 = False" "isl (fst (projr ?w1)) = False" "isl ?w2 = False" "isl (fst (projr ?w2)) = False"
    and ids: "map rt_id (filter (\<lambda>t. rt_parent_token_id t = Some 6 \<and> rt_revoked_at t = None) (id_tokens (snd (projr ?w2)))) = [7, 8]"
    by code_simp+
  then have "?r = Inr (projr ?r)" "?w1 = Inr (Inr (projr (fst (projr ?w1))), snd (projr ?w1))"
    "?w2 = Inr (Inr (projr (fst (projr ?w2))), snd (projr ?w2))"
    by (simp_all add: prod_eq_iff sum.collapse)
  then show ?thesis using ids by (intro exI conjI)
qed

section \<open>What a refused login tells\<close>

text \<open>The answer and the buckets of a refused login, computed from the throttles alone.\<close>

definition email_refusal :: "login_input \<Rightarrow> bucket_row list \<Rightarrow> exn + exn \<times> bucket_row list" where
  "email_refusal inp bs =
     r_bind (consume (email_bucket (li_email inp)) LOGIN_BUCKET_CAPACITY LOGIN_BUCKET_REFILL_PER_SECOND 1 (li_now inp) bs) (\<lambda>(d, bs1).
       Inr (ExAuth (if rl_allowed d then LoginFailedError else LoginLockedError (rl_retry_after d)), bs1))"

definition login_refusal :: "login_input \<Rightarrow> bucket_row list \<Rightarrow> exn \<times> bucket_row list" where
  "login_refusal inp bs = (case (case li_ip inp of
        None \<Rightarrow> email_refusal inp bs
      | Some ip \<Rightarrow>
          r_bind (consume (ip_bucket ip) LOGIN_IP_BUCKET_CAPACITY LOGIN_IP_BUCKET_REFILL_PER_SECOND 1 (li_now inp) bs) (\<lambda>(d, bs1).
            if rl_allowed d then email_refusal inp bs1 else Inr (ExAuth (LoginLockedError (rl_retry_after d)), bs1))) of
      Inl e \<Rightarrow> (e, bs) | Inr x \<Rightarrow> x)"

text \<open>Argon2 answers yes or no on every stored hash: none is corrupt.\<close>

definition hashes_ok :: "crypto \<Rightarrow> string \<Rightarrow> ident_db \<Rightarrow> bool" where
  "hashes_ok cr pw db \<longleftrightarrow> argon2_verify cr (dummy_hash cr) pw \<noteq> OtherVerificationError \<and>
     (\<forall>u \<in> set (id_users db). \<forall>h. us_password_hash u = Some h \<longrightarrow> argon2_verify cr h pw \<noteq> OtherVerificationError)"

definition draws_fresh :: "crypto \<Rightarrow> draws \<Rightarrow> ident_db \<Rightarrow> bool" where
  "draws_fresh cr dr db \<longleftrightarrow> dr_token_id dr \<notin> rt_id ` set (id_tokens db) \<and>
     hash_refresh_token cr (dr_raw_refresh dr) \<notin> rt_token_hash ` set (id_tokens db) \<and> dr_audit_id dr \<notin> au_id ` set (id_audit db)"

definition refused_as :: "exn \<Rightarrow> bucket_row list \<Rightarrow> exn + (exn + issued_session) \<times> ident_db \<Rightarrow> bool" where
  "refused_as e bs r \<longleftrightarrow> (case r of Inl _ \<Rightarrow> False | Inr (Inl e', db) \<Rightarrow> e' = e \<and> id_buckets db = bs | Inr (Inr _, _) \<Rightarrow> True)"

lemma refuse_as:
  "dr_audit_id dr \<notin> au_id ` set (id_audit db) \<Longrightarrow> refused_as (ExAuth err) (id_buckets db) (login_refuse dr inp reason aid err db)"
  by (simp add: refused_as_def login_refuse_def db_audit_def audit_write_def)

lemma user_by_email_total:
  assumes "ident_ok db"
  shows "\<exists>user. user_by_email e db = Inr user \<and> (\<forall>u. user = Some u \<longrightarrow> u \<in> set (id_users db))"
proof (cases "\<exists>u \<in> set (id_users db). lower (us_email u) = normalize_email e")
  case True
  then obtain u where u: "u \<in> set (id_users db)" "lower (us_email u) = normalize_email e" by blast
  have "distinct (map (\<lambda>u. lower (us_email u)) (id_users db))" using assms by (simp add: ident_ok_def users_ok_def)
  from filter_key [OF this u(1)] u show ?thesis by (simp add: user_by_email_def one_or_none_def)
next
  case False
  then have "filter (\<lambda>r. lower (us_email r) = normalize_email e) (id_users db) = []" by (auto simp: filter_empty_conv)
  then show ?thesis by (simp add: user_by_email_def one_or_none_def)
qed

lemma authenticate_as:
  assumes "ident_ok db" and "hashes_ok cr (li_password inp) db" and "draws_fresh cr dr db"
  shows "refused_as (ExAuth LoginFailedError) (id_buckets db) (login_authenticate cr st dr inp db)"
proof -
  have au: "dr_audit_id dr \<notin> au_id ` set (id_audit db)" using assms(3) by (simp add: draws_fresh_def)
  obtain user where user: "user_by_email (li_email inp) db = Inr user" "\<And>u. user = Some u \<Longrightarrow> u \<in> set (id_users db)"
    using user_by_email_total [OF assms(1)] by blast
  define h where "h = (case user of Some u \<Rightarrow> (case us_password_hash u of Some h \<Rightarrow> h | None \<Rightarrow> dummy_hash cr) | None \<Rightarrow> dummy_hash cr)"
  have "argon2_verify cr h (li_password inp) \<noteq> OtherVerificationError"
    using assms(2) user(2) by (auto simp: h_def hashes_ok_def split: option.splits)
  then obtain ok where ok: "verify_password cr h (li_password inp) = Inr ok"
    by (cases "argon2_verify cr h (li_password inp)") (auto simp: verify_password_def)
  show ?thesis
  proof (cases user)
    case None
    then show ?thesis using user(1) ok refuse_as [OF au] by (simp add: login_authenticate_def h_def)
  next
    case (Some u)
    have "refused_as (ExAuth LoginFailedError) (id_buckets db)
      (r_bind (issue_session cr st dr u (li_now inp) None (li_user_agent inp) (li_ip inp) False (db_reset (email_bucket (li_email inp)) db))
         (\<lambda>(issued, db2). r_bind (db_audit (dr_audit_id dr) ''login_success'' (role_actor (us_role u)) (Some (us_id u))
            [(''session_id'', MUuid (is_session_id issued))] (li_request_id inp) (li_now inp) db2) (\<lambda>db3. Inr (Inr issued, db3))))"
      using assms(3) user(2) [OF Some]
      by (simp add: issue_session_def create_token_def db_reset_def db_audit_def audit_write_def refused_as_def draws_fresh_def Let_def)
    then show ?thesis using Some user(1) ok refuse_as [OF au] by (simp add: login_authenticate_def h_def Let_def)
  qed
qed

lemma email_gate_as:
  assumes "ident_ok db" and "hashes_ok cr (li_password inp) db" and "draws_fresh cr dr db"
    and "email_refusal inp (id_buckets db) = Inr (e, bs)"
  shows "refused_as e bs (login_email_gate cr st dr inp db)"
proof -
  from assms(4) obtain d where d: "consume (email_bucket (li_email inp)) LOGIN_BUCKET_CAPACITY LOGIN_BUCKET_REFILL_PER_SECOND 1
      (li_now inp) (id_buckets db) = Inr (d, bs)"
    and e: "e = ExAuth (if rl_allowed d then LoginFailedError else LoginLockedError (rl_retry_after d))"
    by (auto simp: email_refusal_def bind_simps)
  let ?db = "db\<lparr>id_buckets := bs\<rparr>"
  have "buckets_ok bs" using consume_buckets_ok [OF d] assms(1) by (simp add: ident_ok_def)
  then have "ident_ok ?db" "hashes_ok cr (li_password inp) ?db" "draws_fresh cr dr ?db"
    using assms(1-3) by (simp_all add: ident_ok_def hashes_ok_def draws_fresh_def)
  from authenticate_as [OF this] refuse_as [of dr ?db] this(3) show ?thesis
    by (simp add: login_email_gate_def db_consume_def d e draws_fresh_def)
qed

text \<open>(C26) A refused login tells nothing about the accounts: its answer, and what it leaves in the
  throttles, are those computed from the email, the address, the time and the throttles alone, whether
  the email is unknown, the password wrong, or the account invited or disabled.\<close>

theorem login_refusal_blind:
  assumes "ident_ok db" and "hashes_ok cr (li_password inp) db" and "draws_fresh cr dr db"
    and "login cr st dr inp db = (Inl e, db')"
  shows "(e, id_buckets db') = login_refusal inp (id_buckets db)"
proof -
  have email: "(e, id_buckets db') = (case email_refusal inp (id_buckets d) of Inl x \<Rightarrow> (x, id_buckets db) | Inr x \<Rightarrow> x)"
    if "transact db (login_email_gate cr st dr inp d) = (Inl e, db')" "ident_ok d" "hashes_ok cr (li_password inp) d" "draws_fresh cr dr d" for d
  proof (cases "email_refusal inp (id_buckets d)")
    case (Inl x)
    then show ?thesis using that(1)
      by (auto simp: email_refusal_def login_email_gate_def db_consume_def transact_def bind_simps split: sum.split_asm)
  next
    case (Inr x)
    then show ?thesis using that(1) email_gate_as [OF that(2-4), of "fst x" "snd x" st]
      by (auto simp: refused_as_def transact_def split: sum.split_asm)
  qed
  show ?thesis
  proof (cases "li_ip inp")
    case None
    then show ?thesis using email [of db] assms by (simp add: login_def login_ip_gate_def login_refusal_def)
  next
    case (Some ip)
    show ?thesis
    proof (cases "consume (ip_bucket ip) LOGIN_IP_BUCKET_CAPACITY LOGIN_IP_BUCKET_REFILL_PER_SECOND 1 (li_now inp) (id_buckets db)")
      case (Inl x)
      then show ?thesis using assms(4) Some
        by (simp add: login_def login_ip_gate_def login_refusal_def db_consume_def transact_def)
    next
      case (Inr x)
      obtain d bs where x: "x = (d, bs)" by fastforce
      let ?db = "db\<lparr>id_buckets := bs\<rparr>"
      have "buckets_ok bs" using consume_buckets_ok [OF Inr [unfolded x]] assms(1) by (simp add: ident_ok_def)
      then have ok: "ident_ok ?db" "hashes_ok cr (li_password inp) ?db" "draws_fresh cr dr ?db"
        using assms(1-3) by (simp_all add: ident_ok_def hashes_ok_def draws_fresh_def)
      show ?thesis
        using email [of ?db] refuse_as [of dr ?db "LoginLockedError (rl_retry_after d)" inp "''ip_rate_limited''" None]
          assms(4) Some Inr ok
        by (cases "rl_allowed d")
          (auto simp: x login_def login_ip_gate_def login_refusal_def db_consume_def refused_as_def transact_def draws_fresh_def
            split: sum.split_asm)
    qed
  qed
qed

theorem login_refusal_blind_witness:
  "fst (login_refusal (demo_login_input ''a'' ''no'') []) = ExAuth LoginFailedError"
proof -
  have l: "login demo_crypto demo_settings (demo_draws 3) (demo_login_input ''a'' ''no'') demo_ident =
      (Inl (ExAuth LoginFailedError), snd (login demo_crypto demo_settings (demo_draws 3) (demo_login_input ''a'' ''no'') demo_ident))"
    by code_simp
  have h: "hashes_ok demo_crypto (li_password (demo_login_input ''a'' ''no'')) demo_ident"
    "draws_fresh demo_crypto (demo_draws 3) demo_ident"
    by (auto simp: hashes_ok_def draws_fresh_def demo_crypto_def demo_ident_def)
  from arg_cong [OF login_refusal_blind [OF demo_ident_ok h l], of fst] show ?thesis by (simp add: demo_ident_def)
qed

section \<open>Password reset\<close>

lemma transact_InrD: "transact db r = (Inr x, db') \<Longrightarrow> r = Inr (Inr x, db')"
  by (simp add: transact_def split: sum.split_asm)

lemma reset_confirm_effect:
  assumes "password_reset_confirm cr dr inp db = (Inr (), db')"
  obtains r u where "r \<in> set (id_resets db)" "pr_token_hash r = hash_url_token cr (rc_raw_token inp)"
    "pr_consumed_at r = None" "rc_now inp < pr_expires_at r" "is_password_strong_enough (rc_new_password inp)"
    "u \<in> set (id_users db)" "us_id u = pr_user_id r" "us_status u = st_active"
    "id_users db' = id_users (set_password (us_id u) (hash_password cr (ad_salt dr) (rc_new_password inp)) (rc_now inp) db)"
    "id_resets db' = id_resets (consume_reset (pr_id r) (rc_now inp) db)"
    "id_tokens db' = id_tokens (snd (revoke_all_active_for_user (us_id u) rev_password_reset (rc_now inp) db))"
proof -
  let ?h = "hash_password cr (ad_salt dr) (rc_new_password inp)"
  define Q where "Q = (\<lambda>(x :: exn + unit, db' :: ident_db). \<exists>r u. r \<in> set (id_resets db) \<and> pr_token_hash r = hash_url_token cr (rc_raw_token inp) \<and>
      pr_consumed_at r = None \<and> rc_now inp < pr_expires_at r \<and> is_password_strong_enough (rc_new_password inp) \<and>
      u \<in> set (id_users db) \<and> us_id u = pr_user_id r \<and> us_status u = st_active \<and>
      id_users db' = id_users (set_password (us_id u) ?h (rc_now inp) db) \<and>
      id_resets db' = id_resets (consume_reset (pr_id r) (rc_now inp) db) \<and>
      id_tokens db' = id_tokens (snd (revoke_all_active_for_user (us_id u) rev_password_reset (rc_now inp) db)))"
  have body: "holds Q (case revoke_all_active_for_user (us_id u) rev_password_reset (rc_now inp)
        (consume_reset (pr_id r) (rc_now inp) (set_password (us_id u) ?h (rc_now inp) db)) of (revoked, db3) \<Rightarrow>
      r_bind (db_audit (ad_audit_id dr) ev ac aid (md revoked) (rc_request_id inp) (rc_now inp) db3) (\<lambda>db4. Inr (Inr (), db4)))"
    if "r \<in> set (id_resets db)" "pr_token_hash r = hash_url_token cr (rc_raw_token inp)"
      "\<not> (pr_consumed_at r \<noteq> None \<or> pr_expires_at r \<le> rc_now inp)" "is_password_strong_enough (rc_new_password inp)"
      "u \<in> set (id_users db)" "us_id u = pr_user_id r" "us_status u = st_active" for r u ev ac aid md
  proof (intro holds_prod holds_bind_eq)
    fix k db3 db4
    assume k: "revoke_all_active_for_user (us_id u) rev_password_reset (rc_now inp)
        (consume_reset (pr_id r) (rc_now inp) (set_password (us_id u) ?h (rc_now inp) db)) = (k, db3)"
      and a: "db_audit (ad_audit_id dr) ev ac aid (md k) (rc_request_id inp) (rc_now inp) db3 = Inr db4"
    from k have "id_users db3 = id_users (set_password (us_id u) ?h (rc_now inp) db)"
      "id_resets db3 = id_resets (consume_reset (pr_id r) (rc_now inp) db)"
      "id_tokens db3 = id_tokens (snd (revoke_all_active_for_user (us_id u) rev_password_reset (rc_now inp) db))"
      by (auto simp: revoke_all_active_for_user_def Let_def consume_reset_def set_password_def upd_user_def)
    moreover have "id_users db4 = id_users db3" "id_resets db4 = id_resets db3" "id_tokens db4 = id_tokens db3"
      using a by (auto simp: db_audit_def bind_simps)
    ultimately show "holds Q (Inr (Inr (), db4))" using that unfolding Q_def holds_simps prod.case by (intro exI conjI) auto
  qed
  have "Q (Inr (), db')"
    by (rule holdsD [OF _ transact_InrD [OF assms [unfolded password_reset_confirm_def]]])
      (unfold reset_by_hash_def user_by_id_def Let_def, intro steps_query holds_option holds_Inl holds_if body, auto)
  with that show ?thesis unfolding Q_def by blast
qed


definition demo_reset_input :: password_reset_confirm_input where
  "demo_reset_input = \<lparr>rc_raw_token = ''x'', rc_new_password = ''longenough'', rc_now = 3, rc_request_id = None\<rparr>"


end
