(* ===== verification/Twap_System.thy ===== *)
theory Twap_System
  imports Twap_Commands
begin

text \<open>
  The TWAP worker over time. Everything that touches \<open>trade_intents\<close> and \<open>twap_slices\<close> is a sequence of a
  few primitive changes, and these keep an invariant: a slice is announced exactly when it says so, once,
  and followed up at most three times; a completed order has no slice left.
\<close>

section \<open>The invariant\<close>

definition slice_ok :: "slice_row \<Rightarrow> bool" where
  "slice_ok s \<longleftrightarrow>
     (ts_status s = slice_notified \<longleftrightarrow> ts_primary_notification_id s \<noteq> None) \<and>
     0 \<le> ts_price_followup_attempts s \<and> ts_price_followup_attempts s \<le> TWAP_PRICE_FOLLOWUP_MAX_ATTEMPTS \<and>
     (ts_status s \<noteq> slice_notified \<longrightarrow> ts_price_followup_attempts s = 0 \<and> \<not> ts_price_followup_required s \<and>
        ts_price_followup_notification_id s = None) \<and>
     (ts_price_followup_required s \<longrightarrow> ts_next_price_followup_at s \<noteq> None \<and> ts_price_followup_notification_id s = None \<and>
        ts_price_followup_attempts s < TWAP_PRICE_FOLLOWUP_MAX_ATTEMPTS \<and> ts_primary_price_available s = Some False) \<and>
     (ts_price_followup_notification_id s \<noteq> None \<longrightarrow> ts_primary_price_available s = Some False)"

definition parent_fits :: "slice_row \<Rightarrow> legacy_row \<Rightarrow> bool" where
  "parent_fits s r \<longleftrightarrow> lg_id r = ts_trade_intent_id s \<and> lg_strategy r = twap_order \<and> lg_position_side r \<noteq> None \<and>
     lg_twap_materialized_slice_count r \<noteq> None \<and> lg_owner_user_id r = ts_owner_user_id s"

abbreviation slice_notes :: "app_db \<Rightarrow> notification_row list" where
  "slice_notes db \<equiv> filter (\<lambda>n. n_type n = twap_slice) (db_notifications (ap_core db))"

abbreviation announced :: "app_db \<Rightarrow> slice_row set" where
  "announced db \<equiv> {s \<in> set (ap_slices db). ts_primary_notification_id s \<noteq> None}"

definition announce_ok :: "app_db \<Rightarrow> bool" where
  "announce_ok db \<longleftrightarrow> inj_on ts_primary_notification_id (announced db) \<and>
     (\<lambda>n. Some (n_id n)) ` set (slice_notes db) = ts_primary_notification_id ` announced db \<and>
     distinct (map n_id (db_notifications (ap_core db)))"

definition completed_ok :: "app_db \<Rightarrow> bool" where
  "completed_ok db \<longleftrightarrow> (\<forall>r \<in> set (ap_intents db). \<forall>s \<in> set (ap_slices db).
     lg_id r = ts_trade_intent_id s \<and> lg_status r = triggered \<longrightarrow> ts_status s \<noteq> slice_pending)"

definition twap_ok :: "app_db \<Rightarrow> bool" where
  "twap_ok db \<longleftrightarrow> distinct (map lg_id (ap_intents db)) \<and> distinct (map ts_id (ap_slices db)) \<and>
     (\<forall>s \<in> set (ap_slices db). slice_ok s \<and> (\<exists>r \<in> set (ap_intents db). parent_fits s r)) \<and>
     (\<forall>r \<in> set (ap_intents db). lg_owner_user_id r \<in> set (db_users (ap_core db))) \<and>
     announce_ok db \<and> completed_ok db"

section \<open>Primitive changes\<close>

definition keeps_intent :: "legacy_row \<Rightarrow> legacy_row \<Rightarrow> bool" where
  "keeps_intent r r' \<longleftrightarrow> lg_id r' = lg_id r \<and> lg_strategy r' = lg_strategy r \<and> lg_position_side r' = lg_position_side r \<and>
     lg_twap_materialized_slice_count r' = lg_twap_materialized_slice_count r \<and> lg_owner_user_id r' = lg_owner_user_id r \<and>
     (lg_status r' = triggered \<longrightarrow> lg_status r = triggered)"

definition keeps_slice :: "slice_row \<Rightarrow> slice_row \<Rightarrow> bool" where
  "keeps_slice s s' \<longleftrightarrow> ts_id s' = ts_id s \<and> ts_trade_intent_id s' = ts_trade_intent_id s \<and>
     ts_owner_user_id s' = ts_owner_user_id s \<and> ts_primary_notification_id s' = ts_primary_notification_id s \<and>
     (ts_status s' = slice_pending \<longrightarrow> ts_status s = slice_pending) \<and> (slice_ok s \<longrightarrow> slice_ok s')"

abbreviation no_pending :: "uuid \<Rightarrow> app_db \<Rightarrow> bool" where
  "no_pending i db \<equiv> count_where (\<lambda>s. ts_trade_intent_id s = i \<and> ts_status s = slice_pending) (ap_slices db) = 0"

inductive twap_prim :: "app_db \<Rightarrow> app_db \<Rightarrow> bool" where
  tw_intents: "(\<And>r. p r \<Longrightarrow> keeps_intent r (f r)) \<Longrightarrow> twap_prim db (db\<lparr>ap_intents := upd_where p f (ap_intents db)\<rparr>)"
| tw_slices: "(\<And>s. s \<in> set (ap_slices db) \<Longrightarrow> p s \<Longrightarrow> keeps_slice s (g s)) \<Longrightarrow>
    twap_prim db (db\<lparr>ap_slices := upd_where p g (ap_slices db)\<rparr>)"
| tw_complete: "no_pending i db \<Longrightarrow> (\<And>r. keeps_intent r (f r) \<or> lg_status (f r) = triggered \<and> keeps_intent r ((f r)\<lparr>lg_status := active\<rparr>)) \<Longrightarrow>
    twap_prim db (upd_intent i f db)"
| tw_announce: "s \<in> set (ap_slices db) \<Longrightarrow> ts_status s = slice_pending \<Longrightarrow> n_type n = twap_slice \<Longrightarrow> legacy_notify n db = Inr db1 \<Longrightarrow>
    twap_prim db (upd_slice (ts_id s) (mark_notified now (n_id n) v price) db1)"
| tw_note: "n_type n \<noteq> twap_slice \<Longrightarrow> legacy_notify n db = Inr db1 \<Longrightarrow> twap_prim db db1"
| tw_insert: "insert_legacy r db = Inr db1 \<Longrightarrow> lg_strategy r = twap_order \<Longrightarrow> twap_prim db db1"
| tw_slice: "insert_slice s db = Inr db1 \<Longrightarrow> slice_ok s \<Longrightarrow> ts_primary_notification_id s = None \<Longrightarrow>
    r \<in> set (ap_intents db) \<Longrightarrow> parent_fits s r \<Longrightarrow> lg_status r \<noteq> triggered \<Longrightarrow> twap_prim db db1"
| tw_core: "set (db_users (ap_core db)) \<subseteq> set (db_users c) \<Longrightarrow>
    filter (\<lambda>n. n_type n = twap_slice) (db_notifications c) = slice_notes db \<Longrightarrow> distinct (map n_id (db_notifications c)) \<Longrightarrow>
    twap_prim db (db\<lparr>ap_core := c\<rparr>)"

abbreviation twap_steps :: "app_db \<Rightarrow> app_db \<Rightarrow> bool" where
  "twap_steps \<equiv> twap_prim\<^sup>*\<^sup>*"

section \<open>Primitive changes keep the invariant\<close>

lemma legacy_notify_Inr_iff:
  "legacy_notify n db = Inr db' \<longleftrightarrow>
     (case n_trade_intent_id n of None \<Rightarrow> True | Some i \<Rightarrow> i \<in> lg_id ` set (ap_intents db)) \<and>
     (\<exists>c. insert_notification n (ap_core db) = Inr c \<and> db' = db\<lparr>ap_core := c\<rparr>)"
  by (auto simp: legacy_notify_def bind_simps split: option.split if_split_asm)

lemma insert_notification_InrD:
  "insert_notification n c = Inr c' \<Longrightarrow> n_id n \<notin> n_id ` set (db_notifications c) \<and> n_owner_user_id n \<in> set (db_users c) \<and>
     c' = c\<lparr>db_notifications := db_notifications c @ [n]\<rparr>"
  by (auto simp: insert_notification_def split: if_split_asm)

lemma set_upd_where_ids: "(\<And>r. p r \<Longrightarrow> r \<in> set rows \<Longrightarrow> k (f r) = k r) \<Longrightarrow> map k (upd_where p f rows) = map k rows"
  by (simp add: upd_where_def)

lemma intents_prim_ok:
  assumes "twap_ok db" and f: "\<And>r. p r \<Longrightarrow> keeps_intent r (f r)"
  shows "twap_ok (db\<lparr>ap_intents := upd_where p f (ap_intents db)\<rparr>)"
proof -
  have ids: "map lg_id (upd_where p f (ap_intents db)) = map lg_id (ap_intents db)"
    by (rule set_upd_where_ids) (use f in \<open>auto simp: keeps_intent_def\<close>)
  have mem: "\<exists>r \<in> set (ap_intents db). keeps_intent r r'" if "r' \<in> set (upd_where p f (ap_intents db))" for r'
    using that f unfolding upd_where_mem_iff by (elim bexE disjE) (auto simp: keeps_intent_def)
  have fits: "\<exists>r' \<in> set (upd_where p f (ap_intents db)). parent_fits s r'" if "r \<in> set (ap_intents db)" "parent_fits s r" for s r
  proof -
    have "(if p r then f r else r) \<in> set (upd_where p f (ap_intents db))" using that(1) by (auto simp: set_upd_where)
    moreover have "parent_fits s (if p r then f r else r)" using that(2) f by (auto simp: parent_fits_def keeps_intent_def)
    ultimately show ?thesis by blast
  qed
  have own: "\<forall>r' \<in> set (upd_where p f (ap_intents db)). lg_owner_user_id r' \<in> set (db_users (ap_core db))"
    using assms(1) mem by (fastforce simp: twap_ok_def keeps_intent_def)
  have "completed_ok (db\<lparr>ap_intents := upd_where p f (ap_intents db)\<rparr>)"
    using assms(1) mem by (fastforce simp: twap_ok_def completed_ok_def keeps_intent_def)
  then show ?thesis using assms(1) fits own by (auto simp: twap_ok_def ids announce_ok_def) 
qed

lemma slices_prim_ok:
  assumes "twap_ok db" and g: "\<And>s. s \<in> set (ap_slices db) \<Longrightarrow> p s \<Longrightarrow> keeps_slice s (g s)"
  shows "twap_ok (db\<lparr>ap_slices := upd_where p g (ap_slices db)\<rparr>)" (is "twap_ok ?db")
proof -
  define h where "h s = (if p s then g s else s)" for s
  have ss: "set (ap_slices ?db) = h ` set (ap_slices db)" by (simp add: set_upd_where h_def [abs_def])
  have k: "keeps_slice s (h s)" if "s \<in> set (ap_slices db)" for s
    using g [OF that] by (auto simp: h_def keeps_slice_def)
  have pr: "ts_primary_notification_id (h s) = ts_primary_notification_id s" if "s \<in> set (ap_slices db)" for s
    using k [OF that] by (simp add: keeps_slice_def)
  have ann: "announced ?db = h ` announced db" unfolding ss using pr by auto
  have "inj_on ts_primary_notification_id (h ` announced db)"
  proof (rule inj_onI, elim imageE)
    fix x y a b assume "x = h a" "a \<in> announced db" "y = h b" "b \<in> announced db" "ts_primary_notification_id x = ts_primary_notification_id y"
    moreover from this have "a = b" using assms(1) pr by (simp add: twap_ok_def announce_ok_def inj_on_def)
    ultimately show "x = y" by simp
  qed
  moreover have "ts_primary_notification_id ` h ` announced db = ts_primary_notification_id ` announced db"
    unfolding image_image by (rule image_cong) (use pr in simp_all)
  ultimately have "announce_ok ?db" using assms(1) unfolding announce_ok_def ann by (simp add: twap_ok_def announce_ok_def)
  moreover have "completed_ok ?db"
    unfolding completed_ok_def ss
  proof (intro ballI impI, elim imageE)
    fix r s s' assume "r \<in> set (ap_intents ?db)" "lg_id r = ts_trade_intent_id s' \<and> lg_status r = triggered" "s' = h s" "s \<in> set (ap_slices db)"
    moreover from this have "ts_status s \<noteq> slice_pending"
      using assms(1) k [of s] by (simp add: twap_ok_def completed_ok_def keeps_slice_def)
    ultimately show "ts_status s' \<noteq> slice_pending" using k [of s] by (auto simp: keeps_slice_def)
  qed
  moreover have "slice_ok (h s) \<and> (\<exists>r \<in> set (ap_intents db). parent_fits (h s) r)" if "s \<in> set (ap_slices db)" for s
  proof -
    from assms(1) that obtain r where "slice_ok s" "r \<in> set (ap_intents db)" "parent_fits s r" by (auto simp: twap_ok_def)
    then show ?thesis using k [OF that] by (auto simp: keeps_slice_def parent_fits_def)
  qed
  moreover have "map ts_id (ap_slices ?db) = map ts_id (ap_slices db)"
    by simp (rule set_upd_where_ids, use g in \<open>auto simp: keeps_slice_def\<close>)
  ultimately show ?thesis using assms(1) unfolding twap_ok_def ss by simp
qed

lemma complete_prim_ok:
  assumes "twap_ok db" and "no_pending i db"
    and f: "\<And>r. keeps_intent r (f r) \<or> lg_status (f r) = triggered \<and> keeps_intent r ((f r)\<lparr>lg_status := active\<rparr>)"
  shows "twap_ok (upd_intent i f db)" (is "twap_ok ?db")
proof -
  have same: "lg_id (f r) = lg_id r" "lg_owner_user_id (f r) = lg_owner_user_id r" "parent_fits s (f r) = parent_fits s r" for r s
    using f [of r] by (elim disjE; simp add: keeps_intent_def parent_fits_def)+
  have ids: "map lg_id (ap_intents ?db) = map lg_id (ap_intents db)"
    unfolding upd_intent_def by simp (rule set_upd_where_ids, rule same(1))
  have rs: "set (ap_intents ?db) = (\<lambda>r. if lg_id r = i then f r else r) ` set (ap_intents db)"
    by (simp add: upd_intent_def set_upd_where)
  have ss: "ap_slices ?db = ap_slices db" "ap_core ?db = ap_core db" by (simp_all add: upd_intent_def)
  have "completed_ok ?db"
    unfolding completed_ok_def rs ss using assms(1,2) same(1) by (auto simp: twap_ok_def completed_ok_def count_where_0_iff)
  moreover have "\<exists>r' \<in> set (ap_intents ?db). parent_fits s r'" if "r \<in> set (ap_intents db)" "parent_fits s r" for s r
    unfolding rs using that same(3) by (intro bexI [OF _ imageI [OF that(1)]]) simp
  moreover have "\<forall>r \<in> set (ap_intents ?db). lg_owner_user_id r \<in> set (db_users (ap_core db))"
    unfolding rs using assms(1) same(2) by (auto simp: twap_ok_def)
  ultimately show ?thesis using assms(1) ids ss by (auto simp: twap_ok_def announce_ok_def)
qed

lemma announce_prim_ok:
  assumes "twap_ok db" and s: "s \<in> set (ap_slices db)" "ts_status s = slice_pending" and n: "n_type n = twap_slice"
    and db1: "legacy_notify n db = Inr db1"
  shows "twap_ok (upd_slice (ts_id s) (mark_notified now (n_id n) v price) db1)" (is "twap_ok ?db")
proof -
  let ?m = "mark_notified now (n_id n) v price s"
  from db1 obtain c where c: "insert_notification n (ap_core db) = Inr c" and db1': "db1 = db\<lparr>ap_core := c\<rparr>"
    by (auto simp: legacy_notify_Inr_iff)
  from insert_notification_InrD [OF c] have fresh: "n_id n \<notin> n_id ` set (db_notifications (ap_core db))"
    and c': "c = (ap_core db)\<lparr>db_notifications := db_notifications (ap_core db) @ [n]\<rparr>" by auto
  have d: "distinct (map ts_id (ap_slices db))" and ann: "announce_ok db" and sok: "slice_ok s"
    using assms(1) s(1) by (auto simp: twap_ok_def)
  have only: "ts_id x = ts_id s \<longleftrightarrow> x = s" if "x \<in> set (ap_slices db)" for x using distinct_key_eq [OF d that s(1)] by auto
  have ss: "set (ap_slices ?db) = insert ?m (set (ap_slices db) - {s})"
    using only s(1) by (auto simp: set_upd_where upd_slice_def db1')
  have none: "ts_primary_notification_id s = None" using sok s(2) by (simp add: slice_ok_def)
  have an: "announced ?db = insert ?m (announced db)" unfolding ss using none by (auto simp: mark_notified_def)
  have pm: "ts_primary_notification_id ?m = Some (n_id n)" by (simp add: mark_notified_def)
  have new: "Some (n_id n) \<notin> ts_primary_notification_id ` announced db"
  proof -
    have "Some (n_id n) \<notin> (\<lambda>n. Some (n_id n)) ` set (slice_notes db)" using fresh by auto
    then show ?thesis using ann by (simp add: announce_ok_def)
  qed
  have "inj_on ts_primary_notification_id (announced ?db)"
    unfolding an inj_on_insert pm using ann new by (auto simp: announce_ok_def)
  moreover have "(\<lambda>n. Some (n_id n)) ` set (slice_notes ?db) = ts_primary_notification_id ` announced ?db"
    unfolding an image_insert pm using ann n by (simp add: announce_ok_def c' db1' upd_slice_def)
  moreover have "distinct (map n_id (db_notifications (ap_core ?db)))"
    using ann fresh by (simp add: announce_ok_def c' db1' upd_slice_def)
  ultimately have "announce_ok ?db" unfolding announce_ok_def by blast
  moreover have "completed_ok ?db"
    unfolding completed_ok_def ss using assms(1) by (auto simp: twap_ok_def completed_ok_def db1' upd_slice_def mark_notified_def)
  moreover have "slice_ok ?m" using sok s(2) by (auto simp: slice_ok_def mark_notified_def TWAP_PRICE_FOLLOWUP_MAX_ATTEMPTS_def)
  moreover have "parent_fits ?m = parent_fits s" by (auto simp: parent_fits_def mark_notified_def)
  moreover have "map ts_id (ap_slices ?db) = map ts_id (ap_slices db)"
    unfolding upd_slice_def db1' by simp (rule set_upd_where_ids, simp add: mark_notified_def)
  ultimately show ?thesis
    using assms(1) s(1) unfolding twap_ok_def ss by (auto simp: db1' upd_slice_def c')
qed

lemma insert_prim_ok:
  assumes "twap_ok db" and "insert_legacy r db = Inr db1"
  shows "twap_ok db1"
proof -
  from assms(2) have new: "lg_id r \<notin> lg_id ` set (ap_intents db)" "lg_owner_user_id r \<in> set (db_users (ap_core db))"
    and db1: "db1 = db\<lparr>ap_intents := ap_intents db @ [r]\<rparr>"
    by (auto simp: insert_legacy_def split: if_split_asm option.split_asm)
  have "lg_id r \<noteq> ts_trade_intent_id s" if "s \<in> set (ap_slices db)" for s
    using assms(1) that new(1) by (auto simp: twap_ok_def parent_fits_def) (metis imageI)
  then have "completed_ok db1" using assms(1) by (auto simp: db1 twap_ok_def completed_ok_def)
  then show ?thesis using assms(1) new by (auto simp: twap_ok_def db1 announce_ok_def) 
qed

lemma slice_prim_ok:
  assumes "twap_ok db" and "insert_slice s db = Inr db1" and "slice_ok s" and "ts_primary_notification_id s = None"
    and "r \<in> set (ap_intents db)" and "parent_fits s r" and "lg_status r \<noteq> triggered"
  shows "twap_ok db1"
proof -
  from assms(2) have new: "ts_id s \<notin> ts_id ` set (ap_slices db)" and db1: "db1 = db\<lparr>ap_slices := ap_slices db @ [s]\<rparr>"
    by (auto simp: insert_slice_def split: if_split_asm)
  have "x = r" if "x \<in> set (ap_intents db)" "lg_id x = ts_trade_intent_id s" for x
    using distinct_key_eq [of lg_id "ap_intents db" x r] that assms(1,5,6) by (simp add: twap_ok_def parent_fits_def)
  then have "completed_ok db1" using assms(1,7) by (auto simp: db1 twap_ok_def completed_ok_def)
  moreover have "announced db1 = announced db" using assms(4) by (auto simp: db1)
  ultimately show ?thesis using assms new by (auto simp: twap_ok_def db1 announce_ok_def)
qed

lemma twap_prim_ok: "twap_prim db db' \<Longrightarrow> twap_ok db \<Longrightarrow> twap_ok db'"
proof (induction rule: twap_prim.induct)
  case (tw_note n db db1)
  then obtain c where c: "insert_notification n (ap_core db) = Inr c" and db1: "db1 = db\<lparr>ap_core := c\<rparr>"
    by (auto simp: legacy_notify_Inr_iff)
  have "slice_notes db1 = slice_notes db" using insert_notification_InrD [OF c] tw_note(1) by (simp add: db1)
  then show ?case using tw_note(3) insert_notification_InrD [OF c]
    by (simp add: twap_ok_def announce_ok_def completed_ok_def db1)
next
  case (tw_core db c)
  then show ?case by (simp add: twap_ok_def announce_ok_def completed_ok_def) blast
qed (auto intro: intents_prim_ok slices_prim_ok complete_prim_ok announce_prim_ok insert_prim_ok slice_prim_ok)

lemma twap_steps_ok: "twap_steps db db' \<Longrightarrow> twap_ok db \<Longrightarrow> twap_ok db'"
  by (induction rule: rtranclp_induct) (auto intro: twap_prim_ok)

section \<open>The operations are made of primitive changes\<close>

abbreviation twap_seq :: "app_db \<Rightarrow> exn + app_db \<Rightarrow> bool" where
  "twap_seq db r \<equiv> (case r of Inl _ \<Rightarrow> True | Inr db' \<Rightarrow> twap_steps db db')"

lemma twap_step_intents:
  "twap_steps db0 db \<Longrightarrow> (\<And>r. p r \<Longrightarrow> keeps_intent r (f r)) \<Longrightarrow> twap_steps db0 (db\<lparr>ap_intents := upd_where p f (ap_intents db)\<rparr>)"
  by (erule rtranclp.rtrancl_into_rtrancl) (rule tw_intents)

lemma twap_step_slices:
  "twap_steps db0 db \<Longrightarrow> (\<And>s. s \<in> set (ap_slices db) \<Longrightarrow> p s \<Longrightarrow> keeps_slice s (g s)) \<Longrightarrow>
   twap_steps db0 (db\<lparr>ap_slices := upd_where p g (ap_slices db)\<rparr>)"
  by (erule rtranclp.rtrancl_into_rtrancl) (rule tw_slices)

lemma keeps_slice_cancel: "ts_status s = slice_pending \<Longrightarrow> keeps_slice s (cancel_slice now s)"
  by (auto simp: keeps_slice_def cancel_slice_def slice_ok_def)

lemma keeps_slice_drop: "keeps_slice s (drop_followup now s)"
  by (auto simp: keeps_slice_def drop_followup_def slice_ok_def)

lemma legacy_expire_steps: "twap_steps db0 db \<Longrightarrow> twap_steps db0 (snd (legacy_expire d now db))"
proof -
  assume a: "twap_steps db0 db"
  let ?hit = "\<lambda>r. lg_status r \<in> CANCELLABLE_STATUSES \<and> lg_trading_date r \<le> d"
  have b: "twap_steps db0 (db\<lparr>ap_intents := upd_where ?hit (\<lambda>r. r\<lparr>lg_status := expired, lg_updated_at := now\<rparr>) (ap_intents db)\<rparr>)"
    using a by (rule twap_step_intents) (simp add: keeps_intent_def)
  show ?thesis
    unfolding legacy_expire_def Let_def snd_conv
    by (simp only: split: if_split) (intro conjI impI b twap_step_slices keeps_slice_cancel, simp_all)
qed

lemma legacy_activate_steps: "twap_steps db0 db \<Longrightarrow> twap_steps db0 (snd (legacy_activate d now db))"
  unfolding legacy_activate_def Let_def snd_conv by (erule twap_step_intents) (simp add: keeps_intent_def)

lemma legacy_owner_cancel_steps:
  "twap_steps db0 db \<Longrightarrow> status \<noteq> triggered \<Longrightarrow> twap_steps db0 (snd (legacy_cancel_active_for_owner u status now db))"
  unfolding legacy_cancel_active_for_owner_def Let_def snd_conv by (erule twap_step_intents) (simp add: keeps_intent_def)

text \<open>The lifecycle commits what it changes, so that both views agree after it.\<close>

definition legacy_after :: "datetime \<Rightarrow> app_db \<Rightarrow> app_db" where
  "legacy_after now db = ss_working (snd (legacy_lifecycle now (ss_open db)))"

lemma legacy_after_steps: "twap_steps db (legacy_after now db)"
proof -
  have e: "twap_steps db (ss_working (snd (old_expire d now (ss_open db))))" for d
    using legacy_expire_steps [of db db d now] by (simp add: old_expire_def ss_open_def case_prod_unfold)
  have a: "twap_steps db (ss_working (snd (old_activate d' now (snd (old_expire d now (ss_open db))))))" for d d'
    using legacy_activate_steps [OF e, of d' now d] by (simp add: old_activate_def case_prod_unfold)
  show ?thesis
    using a e by (simp add: legacy_after_def legacy_lifecycle_def lifecycle_run_def Let_def case_prod_unfold ss_commit_def)
qed

lemma legacy_committed: "ss_committed (snd (legacy_lifecycle now (ss_open db))) = legacy_after now db"
proof -
  have x: "fst (old_expire d now s) = 0 \<Longrightarrow> snd (old_expire d now s) = s"
    and y: "fst (old_activate d now s) = 0 \<Longrightarrow> snd (old_activate d now s) = s" for d s
    using legacy_day.expire_count legacy_day.activate_count by blast+
  show ?thesis
    using x y by (auto simp: legacy_after_def legacy_lifecycle_def lifecycle_run_def Let_def case_prod_unfold ss_commit_def ss_open_def)
qed

lemma legacy_cancel_steps:
  assumes "twap_steps db0 db" and "legacy_cancel now i u db = Inr (d, db')"
  shows "twap_steps db0 db'"
proof -
  let ?f = "\<lambda>r. r\<lparr>lg_status := cancelled, lg_updated_at := now, lg_cancelled_at := Some now\<rparr>"
  have b: "twap_steps db0 (db\<lparr>ap_intents := upd_where (\<lambda>r. lg_id r = i) ?f (ap_intents db)\<rparr>)"
    using assms(1) by (rule twap_step_intents) (simp add: keeps_intent_def)
  let ?db1 = "db\<lparr>ap_intents := upd_where (\<lambda>r. lg_id r = i) ?f (ap_intents db)\<rparr>"
  have c: "twap_steps db0 (?db1\<lparr>ap_slices := upd_where (\<lambda>s. ts_trade_intent_id s = i \<and> ts_status s = slice_pending)
      (cancel_slice now) (ap_slices ?db1)\<rparr>)"
    using b by (rule twap_step_slices) (simp add: keeps_slice_cancel)
  have "twap_steps db0 (?db1\<lparr>ap_slices := upd_where (\<lambda>s. ts_trade_intent_id s = i \<and> ts_price_followup_required s \<and>
       ts_price_followup_notification_id s = None) (drop_followup now)
     (upd_where (\<lambda>s. ts_trade_intent_id s = i \<and> ts_status s = slice_pending) (cancel_slice now) (ap_slices ?db1))\<rparr>)"
    using twap_step_slices [OF c, of "\<lambda>s. ts_trade_intent_id s = i \<and> ts_price_followup_required s \<and>
       ts_price_followup_notification_id s = None" "drop_followup now"] by (simp add: keeps_slice_drop)
  with b assms show ?thesis
    by (auto simp: legacy_cancel_def Let_def bind_simps split: if_split_asm)
qed

lemma slice_ok_new: "slice_ok (new_slice_row t i j u y sp)"
  by (simp add: slice_ok_def new_slice_row_def TWAP_PRICE_FOLLOWUP_MAX_ATTEMPTS_def)

lemma insert_slices_steps:
  assumes "twap_steps db0 db" and "insert_slices t ids k i u y sps db = Inr db'"
    and "r \<in> set (ap_intents db)" and "lg_id r = i" "lg_strategy r = twap_order" "lg_position_side r \<noteq> None"
      "lg_twap_materialized_slice_count r \<noteq> None" "lg_owner_user_id r = u" "lg_status r \<noteq> triggered"
  shows "twap_steps db0 db'"
  using assms(1-3)
proof (induction sps arbitrary: k db)
  case (Cons sp sps)
  from Cons.prems(2) obtain db1 where db1: "insert_slice (new_slice_row t (ids k) i u y sp) db = Inr db1"
    "insert_slices t ids (Suc k) i u y sps db1 = Inr db'"
    by (auto simp: bind_simps)
  have "twap_prim db db1"
    by (rule tw_slice [OF db1(1) slice_ok_new _ Cons.prems(3)]) (use assms(4-) in \<open>simp_all add: parent_fits_def new_slice_row_def\<close>)
  with Cons.prems(1) have "twap_steps db0 db1" by (rule rtranclp.rtrancl_into_rtrancl)
  moreover have "r \<in> set (ap_intents db1)" using db1(1) Cons.prems(3) by (auto simp: insert_slice_def split: if_split_asm)
  ultimately show ?case using Cons.IH [OF _ db1(2)] by blast
qed simp

lemma create_twap_steps:
  assumes "create_twap t i ids u y plan em tif st rt db = Inr (j, db')" and "st \<noteq> triggered"
  shows "twap_steps db db'"
proof -
  let ?r = "new_twap_row t i u y plan em tif st rt"
  from assms(1) obtain db1 where db1: "insert_legacy ?r db = Inr db1" "insert_slices t ids 0 i u y (tp_slices plan) db1 = Inr db'"
    by (auto simp: create_twap_def Let_def bind_simps split: sum.split_asm exn.split_asm option.split_asm)
  have "?r \<in> set (ap_intents db1)" using db1(1) by (auto simp: insert_legacy_def split: if_split_asm option.split_asm)
  moreover have "twap_prim db db1" by (rule tw_insert [OF db1(1)]) (simp add: new_twap_row_def)
  ultimately show ?thesis
    using insert_slices_steps [OF r_into_rtranclp [of twap_prim] db1(2)] assms(2) by (simp add: new_twap_row_def)
qed

lemma twap_confirm_steps: "twap_steps db (fst (snd (twap_confirm ops t i ids limits now inp p db)))"
proof -
  have "twap_steps db db'" if "confirm_insert t i ids limits now inp db = Inr (j, db')" for j db'
    using that create_twap_steps by (fastforce simp: confirm_insert_def bind_simps split: if_split_asm)
  then show ?thesis by (auto simp: twap_confirm_def confirm_tx_def split: sum.split)
qed

section \<open>The worker's loop\<close>

definition promote :: "datetime \<Rightarrow> legacy_row \<Rightarrow> legacy_row" where
  "promote now r = (if lg_status r = scheduled then r\<lparr>lg_status := active, lg_updated_at := now\<rparr> else r)"

definition announce :: "datetime \<Rightarrow> slice_row \<Rightarrow> uuid \<Rightarrow> decimal option \<Rightarrow> (decimal \<times> reference_price_type \<times> datetime) option \<Rightarrow> app_db \<Rightarrow> app_db" where
  "announce now s nid v price db = complete_intent_if_all_slices_done (ts_trade_intent_id s) now
     (upd_intent (ts_trade_intent_id s) (promote now) (upd_slice (ts_id s) (mark_notified now nid v price) db))"

lemma process_due_slice_InrD:
  assumes "process_due_slice ops note_id t now p (s, ts_trade_intent_id s) db = (Inr db', sent)"
  shows "\<exists>n db1 v price. n_type n = twap_slice \<and> n_id n = note_id (ts_id s) \<and> n_trade_intent_id n = Some (ts_trade_intent_id s) \<and>
    legacy_notify n db = Inr db1 \<and> sent = [n] \<and> db' = announce now s (n_id n) v price db1"
proof -
  define i where "i = ts_trade_intent_id s"
  from assms obtain intent where i: "find_row (\<lambda>r. lg_id r = i) (ap_intents db) = Some intent"
    by (auto simp: process_due_slice_def i_def split: option.split_asm)
  let ?price = "get_reference_price ops p (lg_symbol intent) (lg_position_side intent)"
  from assms i obtain side k where sk: "lg_position_side intent = Some side" "lg_twap_materialized_slice_count intent = Some k"
    by (auto simp: process_due_slice_def i_def Let_def split: option.split_asm)
  let ?r = "render_twap_slice (lg_symbol intent) side (ts_sequence_no s) k (ts_planned_quantity_lots s) (map_option fst ?price)
    (map_option (\<lambda>(v, t, q). t) ?price) (map_option (\<lambda>(v, t, q). q) ?price)"
  from assms i sk obtain msg where r: "?r = Inr msg" by (cases ?r) (simp_all add: process_due_slice_def i_def Let_def)
  let ?n = "slice_notification t (note_id (ts_id s)) s twap_slice msg"
  from assms i sk r obtain db1 where n: "legacy_notify ?n db = Inr db1"
    by (cases "legacy_notify ?n db") (simp_all add: process_due_slice_def i_def Let_def)
  from assms i sk r n obtain v where v: "numeric94_opt (map_option fst ?price) = Inr v"
    by (cases "numeric94_opt (map_option fst ?price)") (simp_all add: process_due_slice_def i_def Let_def)
  from assms i sk r n v have "db' = announce now s (n_id ?n) v ?price db1" "sent = [?n]"
    by (auto simp: process_due_slice_def i_def Let_def announce_def promote_def [abs_def] split: if_split_asm)
  with n show ?thesis by (intro exI [of _ ?n] exI [of _ db1] exI [of _ v] exI [of _ ?price]) (simp add: slice_notification_def)
qed

lemma twap_step_complete: "twap_steps db0 db \<Longrightarrow> twap_steps db0 (complete_intent_if_all_slices_done i now db)"
proof -
  assume a: "twap_steps db0 db"
  show ?thesis
  proof (cases "no_pending i db")
    case True
    have "twap_prim db (complete_intent_if_all_slices_done i now db)"
      unfolding complete_intent_if_all_slices_done_def if_P [OF True]
      by (rule tw_complete [OF True]) (simp add: keeps_intent_def)
    with a show ?thesis by (rule rtranclp.rtrancl_into_rtrancl)
  qed (simp add: complete_intent_if_all_slices_done_def a)
qed

lemma twap_step_promote: "twap_steps db0 db \<Longrightarrow> twap_steps db0 (upd_intent i (promote now) db)"
  unfolding upd_intent_def by (erule twap_step_intents) (simp add: keeps_intent_def promote_def)

lemma announce_steps:
  assumes "s \<in> set (ap_slices db)" "ts_status s = slice_pending" "n_type n = twap_slice" "legacy_notify n db = Inr db1"
  shows "twap_steps db (announce now s (n_id n) v price db1)"
  unfolding announce_def
  by (intro twap_step_complete twap_step_promote r_into_rtranclp tw_announce assms)

lemma complete_frame [simp]:
  "ap_slices (complete_intent_if_all_slices_done i now db) = ap_slices db"
  "ap_core (complete_intent_if_all_slices_done i now db) = ap_core db"
  by (simp_all add: complete_intent_if_all_slices_done_def upd_intent_def)

lemma announce_frame [simp]:
  "ap_slices (announce now s nid v price db) = upd_where (\<lambda>x. ts_id x = ts_id s) (mark_notified now nid v price) (ap_slices db)"
  "ap_core (announce now s nid v price db) = ap_core db"
  by (simp_all add: announce_def upd_intent_def upd_slice_def)

lemma notify_frame: "legacy_notify n db = Inr db1 \<Longrightarrow> ap_slices db1 = ap_slices db \<and> ap_intents db1 = ap_intents db"
  by (auto simp: legacy_notify_Inr_iff)

text \<open>The rows still to process are in the table as they were loaded.\<close>

definition rows_live :: "(slice_row \<Rightarrow> bool) \<Rightarrow> (slice_row \<times> uuid) list \<Rightarrow> app_db \<Rightarrow> bool" where
  "rows_live p rows db \<longleftrightarrow> distinct (map (ts_id \<circ> fst) rows) \<and>
     (\<forall>(s, i) \<in> set rows. s \<in> set (ap_slices db) \<and> i = ts_trade_intent_id s \<and> p s)"

lemma rows_live_Cons:
  assumes "rows_live p ((s, i) # rows) db" and "\<And>x. x \<in> set (ap_slices db) \<Longrightarrow> ts_id x \<noteq> ts_id s \<Longrightarrow> x \<in> set (ap_slices db')"
  shows "rows_live p rows db'"
  unfolding rows_live_def
proof (intro conjI ballI)
  show "distinct (map (ts_id \<circ> fst) rows)" using assms(1) by (simp add: rows_live_def)
  fix row assume row: "row \<in> set rows"
  then have "ts_id (fst row) \<noteq> ts_id s" using assms(1) by (auto simp: rows_live_def image_iff)
  with row assms(1) show "case row of (s, i) \<Rightarrow> s \<in> set (ap_slices db') \<and> i = ts_trade_intent_id s \<and> p s"
    by (auto simp: rows_live_def intro!: assms(2))
qed

lemma process_rows_steps:
  assumes "rows_live p rows db" and "twap_ok db"
    and f: "\<And>s d d' sent. s \<in> set (ap_slices d) \<Longrightarrow> p s \<Longrightarrow> twap_ok d \<Longrightarrow> f (s, ts_trade_intent_id s) d = (Inr d', sent) \<Longrightarrow>
      twap_steps d d' \<and> (\<forall>x \<in> set (ap_slices d). ts_id x \<noteq> ts_id s \<longrightarrow> x \<in> set (ap_slices d'))"
    and "process_rows f rows db = (Inr db', sent)"
  shows "twap_steps db db'"
  using assms(1,2,4)
proof (induction rows arbitrary: db sent)
  case (Cons row rows)
  obtain s i where row: "row = (s, i)" by fastforce
  with Cons.prems(1) have s: "s \<in> set (ap_slices db)" "p s" and i: "i = ts_trade_intent_id s" by (auto simp: rows_live_def)
  from Cons.prems(3) obtain d sent1 sent2 where d: "f row db = (Inr d, sent1)" "process_rows f rows d = (Inr db', sent2)"
    by (auto split: prod.split_asm sum.split_asm)
  have st: "twap_steps db d" and fr: "\<And>x. x \<in> set (ap_slices db) \<Longrightarrow> ts_id x \<noteq> ts_id s \<Longrightarrow> x \<in> set (ap_slices d)"
    using f [OF s Cons.prems(2) d(1) [unfolded row i]] by auto
  have "rows_live p rows d" by (rule rows_live_Cons [OF Cons.prems(1) [unfolded row] fr])
  from Cons.IH [OF this twap_steps_ok [OF st Cons.prems(2)] d(2)] st show ?case by (rule rtranclp_trans [rotated])
qed simp

lemma due_slice_steps:
  assumes "s \<in> set (ap_slices d)" "ts_status s = slice_pending"
    and "process_due_slice ops note_id t now p (s, ts_trade_intent_id s) d = (Inr d', sent)"
  shows "twap_steps d d' \<and> (\<forall>x \<in> set (ap_slices d). ts_id x \<noteq> ts_id s \<longrightarrow> x \<in> set (ap_slices d'))"
proof -
  from process_due_slice_InrD [OF assms(3)] obtain n d1 v price where n: "n_type n = twap_slice" "legacy_notify n d = Inr d1"
    and d': "d' = announce now s (n_id n) v price d1" by blast
  show ?thesis using announce_steps [OF assms(1,2) n] notify_frame [OF n(2)] by (force simp: d' upd_where_mem_iff)
qed

lemma upd_slice_frame [simp]:
  "ap_intents (upd_slice i g db) = ap_intents db" "ap_core (upd_slice i g db) = ap_core db"
  by (simp_all add: upd_slice_def)

lemma followup_steps:
  assumes ok: "twap_ok d" and s: "s \<in> set (ap_slices d)" "ts_price_followup_required s"
    and res: "process_followup ops note_id t now p (s, ts_trade_intent_id s) d = (Inr d', sent)"
  shows "twap_steps d d' \<and> (\<forall>x \<in> set (ap_slices d). ts_id x \<noteq> ts_id s \<longrightarrow> x \<in> set (ap_slices d'))"
proof -
  have only: "x = s" if "x \<in> set (ap_slices d)" "ts_id x = ts_id s" for x
    using distinct_key_eq [of ts_id "ap_slices d" x s] that s(1) ok by (simp add: twap_ok_def)
  have sok: "slice_ok s" using ok s(1) by (simp add: twap_ok_def)
  have change: "twap_steps d0 (upd_slice (ts_id s) g d0) \<and> (\<forall>x \<in> set (ap_slices d0). ts_id x \<noteq> ts_id s \<longrightarrow> x \<in> set (ap_slices (upd_slice (ts_id s) g d0)))"
    if "ap_slices d0 = ap_slices d" "keeps_slice s (g s)" for d0 g
  proof -
    have "twap_steps d0 (upd_slice (ts_id s) g d0)"
      unfolding upd_slice_def by (rule twap_step_slices) (use that only in auto)
    then show ?thesis by (force simp: upd_slice_def upd_where_mem_iff)
  qed
  let ?a = "ts_price_followup_attempts s + 1"
  let ?count = "\<lambda>x. x\<lparr>ts_price_followup_attempts := ?a, ts_updated_at := now\<rparr>"
  have compose: "upd_slice j g (upd_slice j h d0) = upd_slice j (\<lambda>x. g (h x)) d0" if "\<And>x. ts_id (h x) = ts_id x" for j g h d0
    using that by (simp add: upd_slice_def upd_where_def comp_def cong: if_cong)
  from res obtain intent where i: "find_row (\<lambda>r. lg_id r = ts_trade_intent_id s) (ap_intents d) = Some intent"
    by (auto simp: process_followup_def split: option.split_asm)
  show ?thesis
  proof (cases "get_reference_price ops p (lg_symbol intent) (lg_position_side intent)")
    case None
    let ?g = "if TWAP_PRICE_FOLLOWUP_MAX_ATTEMPTS \<le> ?a
      then (\<lambda>x. (?count x)\<lparr>ts_price_followup_required := False, ts_next_price_followup_at := None\<rparr>)
      else (\<lambda>x. (?count x)\<lparr>ts_next_price_followup_at := Some (now + seconds TWAP_PRICE_FOLLOWUP_DELAY_SECONDS)\<rparr>)"
    have "d' = upd_slice (ts_id s) ?g d"
      using res i None by (auto simp: process_followup_def Let_def compose split: if_split_asm)
    moreover have "keeps_slice s (?g s)" using sok s(2) by (auto simp: keeps_slice_def slice_ok_def)
    ultimately show ?thesis using change [of d ?g] by simp
  next
    case (Some pr)
    obtain v ty q where pr: "pr = (v, ty, q)" by (cases pr) auto
    from res i Some obtain k where k: "lg_twap_materialized_slice_count intent = Some k"
      by (auto simp: process_followup_def Let_def pr split: option.split_asm)
    let ?n = "slice_notification t (note_id (ts_id s)) s twap_price_followup
      (render_twap_price_followup (lg_symbol intent) (ts_sequence_no s) k v ty now)"
    let ?c = "upd_slice (ts_id s) ?count d"
    let ?g = "\<lambda>x. x\<lparr>ts_price_followup_required := False, ts_next_price_followup_at := None,
      ts_price_followup_notification_id := Some (n_id ?n), ts_price_followup_sent_at := Some now\<rparr>"
    from res i Some k obtain d1 where n: "legacy_notify ?n ?c = Inr d1"
      by (cases "legacy_notify ?n ?c") (simp_all add: process_followup_def Let_def pr)
    with res i Some k have d': "d' = upd_slice (ts_id s) ?g d1" by (simp add: process_followup_def Let_def pr)
    from n obtain c where c: "insert_notification ?n (ap_core d) = Inr c"
      "(case n_trade_intent_id ?n of None \<Rightarrow> True | Some i \<Rightarrow> i \<in> lg_id ` set (ap_intents d))" "d1 = ?c\<lparr>ap_core := c\<rparr>"
      unfolding legacy_notify_Inr_iff upd_slice_frame by blast
    then have "legacy_notify ?n d = Inr (d\<lparr>ap_core := c\<rparr>)" unfolding legacy_notify_Inr_iff by blast
    then have noted: "twap_steps d (d\<lparr>ap_core := c\<rparr>)"
      by (intro r_into_rtranclp tw_note) (simp_all add: slice_notification_def)
    have "d' = upd_slice (ts_id s) (\<lambda>x. ?g (?count x)) (d\<lparr>ap_core := c\<rparr>)"
      unfolding d' c(3) using compose [of ?count "ts_id s" ?g "d\<lparr>ap_core := c\<rparr>"] by (simp add: upd_slice_def)
    moreover have "keeps_slice s (?g (?count s))" using sok s(2) by (auto simp: keeps_slice_def slice_ok_def)
    ultimately show ?thesis
      using change [of "d\<lparr>ap_core := c\<rparr>" "\<lambda>x. ?g (?count x)"] noted by (auto intro: rtranclp_trans)
  qed
qed

section \<open>Passes\<close>

lemma join_slices_mem:
  "(s, i) \<in> set (join_slices q db) \<longleftrightarrow> s \<in> set (ap_slices db) \<and> (\<exists>r \<in> set (ap_intents db). i = lg_id r \<and> lg_id r = ts_trade_intent_id s \<and> q s r)"
  by (auto simp: join_slices_def) metis

lemma join_slices_distinct:
  assumes "distinct (map lg_id (ap_intents db))" and "distinct (map ts_id (ap_slices db))"
  shows "distinct (map (ts_id \<circ> fst) (join_slices q db))"
proof -
  have "map (ts_id \<circ> fst) (map (\<lambda>r. (s, lg_id r)) (filter (\<lambda>r. lg_id r = ts_trade_intent_id s \<and> q s r) rs)) =
      map (\<lambda>_. ts_id s) (filter (\<lambda>r. lg_id r = ts_trade_intent_id s \<and> q s r) rs)" for s rs by simp
  have short: "length (filter (\<lambda>r. lg_id r = ts_trade_intent_id s \<and> q s r) (ap_intents db)) \<le> 1" for s
  proof -
    have "distinct (map lg_id (filter (\<lambda>r. lg_id r = ts_trade_intent_id s \<and> q s r) (ap_intents db)))"
      using assms(1) by (rule distinct_map_filter)
    then have "card (lg_id ` set (filter (\<lambda>r. lg_id r = ts_trade_intent_id s \<and> q s r) (ap_intents db))) =
        length (filter (\<lambda>r. lg_id r = ts_trade_intent_id s \<and> q s r) (ap_intents db))"
      using distinct_card by fastforce
    moreover have "card (lg_id ` set (filter (\<lambda>r. lg_id r = ts_trade_intent_id s \<and> q s r) (ap_intents db))) \<le> card {ts_trade_intent_id s}"
      by (rule card_mono) auto
    ultimately show ?thesis by simp
  qed
  have "distinct (map (ts_id \<circ> fst) (concat (map (\<lambda>s. map (\<lambda>r. (s, lg_id r))
      (filter (\<lambda>r. lg_id r = ts_trade_intent_id s \<and> q s r) (ap_intents db))) ss)))" if "distinct (map ts_id ss)" for ss
    using that
  proof (induction ss)
    case (Cons s ss)
    have "filter (\<lambda>r. lg_id r = ts_trade_intent_id s \<and> q s r) (ap_intents db) = [] \<or>
        (\<exists>r. filter (\<lambda>r. lg_id r = ts_trade_intent_id s \<and> q s r) (ap_intents db) = [r])"
      using short [of s] by (cases "filter (\<lambda>r. lg_id r = ts_trade_intent_id s \<and> q s r) (ap_intents db)") auto
    then show ?case using Cons by auto
  qed simp
  then show ?thesis using assms(2) by (simp add: join_slices_def)
qed

lemma loaded_live:
  assumes "twap_ok db" and "\<And>s r. q s r \<Longrightarrow> p s"
  shows "rows_live p (take k (sort_key f (join_slices q db))) db"
proof -
  have "distinct (map (ts_id \<circ> fst) (join_slices q db))"
    using assms(1) by (intro join_slices_distinct) (simp_all add: twap_ok_def)
  then have "distinct (map (ts_id \<circ> fst) (sort_key f (join_slices q db)))" by (simp add: distinct_map)
  then have "distinct (map (ts_id \<circ> fst) (take k (sort_key f (join_slices q db))))" by (simp add: take_map [symmetric])
  moreover have "case x of (s, i) \<Rightarrow> s \<in> set (ap_slices db) \<and> i = ts_trade_intent_id s \<and> p s"
    if "x \<in> set (take k (sort_key f (join_slices q db)))" for x
  proof -
    obtain s i where x: "x = (s, i)" by fastforce
    have "(s, i) \<in> set (join_slices q db)" using in_set_takeD [OF that] by (simp add: x)
    then show ?thesis unfolding join_slices_mem x using assms(2) by auto
  qed
  ultimately show ?thesis unfolding rows_live_def by blast
qed

lemma worker_pass_steps:
  assumes "twap_ok db" and "\<And>d. twap_ok d \<Longrightarrow> rows_live q (load d) d"
    and f: "\<And>s d d' sent. s \<in> set (ap_slices d) \<Longrightarrow> q s \<Longrightarrow> twap_ok d \<Longrightarrow> f (s, ts_trade_intent_id s) d = (Inr d', sent) \<Longrightarrow>
      twap_steps d d' \<and> (\<forall>x \<in> set (ap_slices d). ts_id x \<noteq> ts_id s \<longrightarrow> x \<in> set (ap_slices d'))"
  shows "twap_steps db (fst (snd (worker_pass halted now load f db)))"
proof -
  let ?d = "legacy_after now db"
  have st: "twap_steps db ?d" and ok: "twap_ok ?d" using legacy_after_steps twap_steps_ok [OF legacy_after_steps assms(1)] .
  have "twap_steps db d'" if "process_rows f (load ?d) ?d = (Inr d', sent)" for d' sent
    using rtranclp_trans [OF st process_rows_steps [OF assms(2) [OF ok] ok f that]] .
  then show ?thesis
    using st unfolding worker_pass_def Let_def legacy_committed legacy_after_def [symmetric]
    by (auto split: prod.split sum.split)
qed

lemma process_due_slices_steps:
  "twap_ok db \<Longrightarrow> twap_steps db (fst (snd (process_due_slices ops halted note_id t now k p db)))"
  unfolding process_due_slices_def
  by (rule worker_pass_steps [where q = "\<lambda>s. ts_status s = slice_pending"])
    (auto simp: load_due_slices_def intro!: loaded_live dest: due_slice_steps)

lemma process_price_followups_steps:
  "twap_ok db \<Longrightarrow> twap_steps db (fst (snd (process_price_followups ops halted note_id t now k p db)))"
  unfolding process_price_followups_def
  by (rule worker_pass_steps [where q = ts_price_followup_required])
    (auto simp: load_followup_slices_def intro!: loaded_live dest: followup_steps)

lemma scheduler_run_once_steps:
  assumes "twap_ok db"
  shows "twap_steps db (fst (scheduler_run_once ops halted n n' t now p db))"
proof -
  let ?d = "fst (snd (process_due_slices ops halted n t now 100 p db))"
  have "twap_steps db ?d" by (rule process_due_slices_steps [OF assms])
  moreover from this have "twap_steps ?d (fst (snd (process_price_followups ops halted n' t now 100 p ?d)))"
    by (intro process_price_followups_steps twap_steps_ok [OF _ assms])
  ultimately show ?thesis by (auto simp: scheduler_run_once_def case_prod_unfold intro: rtranclp_trans)
qed

section \<open>Runs\<close>

inductive twap_step :: "'p quote_ops \<Rightarrow> app_db \<Rightarrow> app_db \<Rightarrow> bool" for ops where
  st_confirm: "twap_confirm ops t i ids limits now inp p db = (r, db', p') \<Longrightarrow> twap_step ops db db'"
| st_pass: "scheduler_run_once ops halted n n' t now p db = (db', sent) \<Longrightarrow> twap_step ops db db'"
| st_cancel: "legacy_cancel t i u db = Inr (d, db') \<Longrightarrow> twap_step ops db db'"
| st_disable: "legacy_cancel_active_for_owner u cancelled_by_account_disabled now db = (k, db') \<Longrightarrow> twap_step ops db db'"
| st_new_track: "set (db_users (ap_core db)) \<subseteq> set (db_users c) \<Longrightarrow>
    filter (\<lambda>n. n_type n = twap_slice) (db_notifications c) = slice_notes db \<Longrightarrow> distinct (map n_id (db_notifications c)) \<Longrightarrow>
    twap_step ops db (db\<lparr>ap_core := c\<rparr>)"

lemma twap_step_steps: "twap_step ops db db' \<Longrightarrow> twap_ok db \<Longrightarrow> twap_steps db db'"
proof (induction rule: twap_step.induct)
  case (st_confirm t i ids limits now inp p db r db' p')
  then show ?case using twap_confirm_steps [of db ops t i ids limits now inp p] by simp
next
  case (st_pass halted n n' t now p db db' sent)
  then show ?case using scheduler_run_once_steps [of db ops halted n n' t now p] by simp
next
  case (st_cancel t i u db d db')
  then show ?case using legacy_cancel_steps by blast
next
  case (st_disable u now db k db')
  then show ?case using legacy_owner_cancel_steps [of db db cancelled_by_account_disabled u now] by simp
next
  case (st_new_track db c)
  then show ?case using tw_core by blast
qed

lemma twap_run_ok: "(twap_step ops)\<^sup>*\<^sup>* db db' \<Longrightarrow> twap_ok db \<Longrightarrow> twap_ok db'"
  by (induction rule: rtranclp_induct) (auto intro: twap_steps_ok twap_step_steps)

lemma announced_count:
  assumes "twap_ok db"
  shows "length (slice_notes db) = count_where (\<lambda>s. ts_status s = slice_notified) (ap_slices db)"
proof -
  have ann: "announce_ok db" and sok: "\<And>s. s \<in> set (ap_slices db) \<Longrightarrow> slice_ok s" and d: "distinct (map ts_id (ap_slices db))"
    using assms by (auto simp: twap_ok_def)
  have dn: "distinct (map n_id (slice_notes db))" using ann by (simp add: announce_ok_def distinct_map_filter)
  have "length (slice_notes db) = card ((\<lambda>n. Some (n_id n)) ` set (slice_notes db))"
  proof -
    have "inj_on (\<lambda>n. Some (n_id n)) (set (slice_notes db))" using dn by (auto simp: distinct_map inj_on_def)
    then have "card ((\<lambda>n. Some (n_id n)) ` set (slice_notes db)) = card (set (slice_notes db))" by (rule card_image)
    also have "\<dots> = length (slice_notes db)" by (rule distinct_card) (use dn in \<open>simp add: distinct_map\<close>)
    finally show ?thesis by simp
  qed
  also have "\<dots> = card (announced db)" using ann by (simp add: announce_ok_def card_image)
  also have "announced db = set (filter (\<lambda>s. ts_status s = slice_notified) (ap_slices db))"
    using sok by (auto simp: slice_ok_def)
  also have "card \<dots> = length (filter (\<lambda>s. ts_status s = slice_notified) (ap_slices db))"
    by (rule distinct_card) (use d in \<open>simp add: distinct_map\<close>)
  finally show ?thesis by (simp add: count_where_def)
qed

end
