(* ===== verification/Twap_Properties.thy ===== *)
theory Twap_Properties
  imports Twap_System
begin

text \<open>What the TWAP worker promises: over time, and of a single pass.\<close>

section \<open>Over time\<close>

text \<open>(C9) Along every sequence of confirmations, scheduler passes, cancellations, account disables and
  changes on the new track, starting from empty TWAP tables: there are exactly as many slice notifications
  as slices marked notified, no two slices share one, a slice gets at most three follow-up attempts and
  a follow-up message only when its first one had no price, and an order is completed only when none of
  its slices is pending.\<close>

theorem twap_announced_once:
  assumes "(twap_step ops)\<^sup>*\<^sup>* db db'" and "ap_intents db = []" and "ap_slices db = []" and "slice_notes db = []"
    and "distinct (map n_id (db_notifications (ap_core db)))"
  shows "length (slice_notes db') = count_where (\<lambda>s. ts_status s = slice_notified) (ap_slices db') \<and>
    distinct (map ts_primary_notification_id (filter (\<lambda>s. ts_status s = slice_notified) (ap_slices db'))) \<and>
    list_all (\<lambda>s. ts_price_followup_attempts s \<le> 3 \<and>
      (ts_price_followup_notification_id s = None \<or> ts_primary_price_available s = Some False)) (ap_slices db') \<and>
    list_all (\<lambda>r. lg_status r \<noteq> triggered \<or>
      count_where (\<lambda>s. ts_trade_intent_id s = lg_id r \<and> ts_status s = slice_pending) (ap_slices db') = 0) (ap_intents db')"
proof -
  have "twap_ok db" using assms(2-5) by (simp add: twap_ok_def announce_ok_def completed_ok_def)
  then have ok: "twap_ok db'" by (rule twap_run_ok [OF assms(1)])
  have "distinct (filter (\<lambda>s. ts_status s = slice_notified) (ap_slices db'))" using ok by (simp add: twap_ok_def distinct_map)
  moreover have "set (filter (\<lambda>s. ts_status s = slice_notified) (ap_slices db')) = announced db'"
    using ok by (auto simp: twap_ok_def slice_ok_def)
  ultimately have "distinct (map ts_primary_notification_id (filter (\<lambda>s. ts_status s = slice_notified) (ap_slices db')))"
    using ok by (simp add: distinct_map twap_ok_def announce_ok_def)
  moreover have "list_all (\<lambda>s. ts_price_followup_attempts s \<le> 3 \<and>
      (ts_price_followup_notification_id s = None \<or> ts_primary_price_available s = Some False)) (ap_slices db')"
    using ok unfolding list_all_iff twap_ok_def slice_ok_def TWAP_PRICE_FOLLOWUP_MAX_ATTEMPTS_def by blast
  moreover have "list_all (\<lambda>r. lg_status r \<noteq> triggered \<or> no_pending (lg_id r) db') (ap_intents db')"
    using ok by (auto simp: list_all_iff twap_ok_def completed_ok_def count_where_0_iff)
  ultimately show ?thesis using announced_count [OF ok] by simp
qed

section \<open>One pass\<close>

text \<open>What the provider quotes fits the column and is positive.\<close>

definition prices_storable :: "'p quote_ops \<Rightarrow> 'p \<Rightarrow> bool" where
  "prices_storable ops p \<longleftrightarrow> (\<forall>symbol side v t q. get_reference_price ops p symbol side = Some (v, t, q) \<longrightarrow>
     (\<exists>x. numeric94 v = Inr x \<and> \<not> nonpositive (Some x)))"

definition note_ids_fresh :: "(uuid \<Rightarrow> uuid) \<Rightarrow> app_db \<Rightarrow> bool" where
  "note_ids_fresh note_id db \<longleftrightarrow> inj note_id \<and> (\<forall>i. note_id i \<notin> n_id ` set (db_notifications (ap_core db)))"

definition open_intent :: "legacy_row \<Rightarrow> bool" where
  "open_intent r \<longleftrightarrow> lg_status r \<in> {scheduled, active}"

definition intents_back :: "app_db \<Rightarrow> app_db \<Rightarrow> bool" where
  "intents_back db db' \<longleftrightarrow> (\<forall>r' \<in> set (ap_intents db'). \<exists>r \<in> set (ap_intents db).
     lg_id r = lg_id r' \<and> lg_strategy r = lg_strategy r' \<and> (open_intent r' \<longrightarrow> open_intent r))"

lemma intents_back_trans: "intents_back a b \<Longrightarrow> intents_back b c \<Longrightarrow> intents_back a c"
  unfolding intents_back_def by metis

lemma intents_back_upd:
  assumes "intents_back db0 db" and "\<And>r. lg_id (f r) = lg_id r \<and> lg_strategy (f r) = lg_strategy r \<and> (open_intent (f r) \<longrightarrow> open_intent r)"
  shows "intents_back db0 (upd_intent i f db)"
proof -
  have "intents_back db (upd_intent i f db)"
    unfolding intents_back_def
  proof
    fix r' assume "r' \<in> set (ap_intents (upd_intent i f db))"
    then obtain r where "r \<in> set (ap_intents db)" "r' = f r \<or> r' = r" by (auto simp: upd_intent_def upd_where_mem_iff)
    then show "\<exists>r \<in> set (ap_intents db). lg_id r = lg_id r' \<and> lg_strategy r = lg_strategy r' \<and> (open_intent r' \<longrightarrow> open_intent r)"
      using assms(2) [of r] by auto
  qed
  with assms(1) show ?thesis by (rule intents_back_trans)
qed

lemma intents_back_announce:
  assumes "ap_intents db1 = ap_intents db"
  shows "intents_back db (announce now s nid v price db1)"
proof -
  have "intents_back db (upd_slice (ts_id s) (mark_notified now nid v price) db1)"
    using assms by (auto simp: intents_back_def)
  then have a: "intents_back db (upd_intent (ts_trade_intent_id s) (promote now) (upd_slice (ts_id s) (mark_notified now nid v price) db1))"
    by (rule intents_back_upd) (auto simp: promote_def open_intent_def)
  then show ?thesis
    unfolding announce_def complete_intent_if_all_slices_done_def
    by (auto intro!: intents_back_upd [OF a] simp: open_intent_def split: if_split_asm)
qed

lemma due_slice_total:
  assumes ok: "twap_ok d" and s: "s \<in> set (ap_slices d)" and "prices_storable ops p"
    and fresh: "note_id (ts_id s) \<notin> n_id ` set (db_notifications (ap_core d))"
  shows "\<exists>n d1 v price. process_due_slice ops note_id t now p (s, ts_trade_intent_id s) d = (Inr (announce now s (n_id n) v price d1), [n]) \<and>
    n_type n = twap_slice \<and> n_id n = note_id (ts_id s) \<and> n_trade_intent_id n = Some (ts_trade_intent_id s) \<and>
    legacy_notify n d = Inr d1 \<and> db_notifications (ap_core d1) = db_notifications (ap_core d) @ [n]"
proof -
  from ok s obtain r where r: "r \<in> set (ap_intents d)" "parent_fits s r" by (auto simp: twap_ok_def)
  then have i: "find_row (\<lambda>x. lg_id x = ts_trade_intent_id s) (ap_intents d) = Some r"
    using find_row_key [of lg_id "ap_intents d" r] ok by (simp add: twap_ok_def parent_fits_def)
  from r(2) obtain side k where sk: "lg_position_side r = Some side" "lg_twap_materialized_slice_count r = Some k"
    by (auto simp: parent_fits_def)
  let ?price = "get_reference_price ops p (lg_symbol r) (lg_position_side r)"
  let ?r = "render_twap_slice (lg_symbol r) side (ts_sequence_no s) k (ts_planned_quantity_lots s) (map_option fst ?price)
    (map_option (\<lambda>(v, t, q). t) ?price) (map_option (\<lambda>(v, t, q). q) ?price)"
  obtain msg where msg: "?r = Inr msg"
    by (cases ?price; cases side) (auto simp: render_twap_slice_def POSITION_LABELS_def Let_def)
  obtain v where v: "numeric94_opt (map_option fst ?price) = Inr v" "\<not> nonpositive v"
  proof (cases ?price)
    case None
    then show ?thesis by (intro that [of None]) (simp_all add: numeric94_opt_def nonpositive_def)
  next
    case (Some x)
    then obtain w where "numeric94 (fst x) = Inr w" "\<not> nonpositive (Some w)"
      using assms(3) unfolding prices_storable_def by (metis prod.collapse)
    then show ?thesis using Some by (intro that [of "Some w"]) (simp_all add: numeric94_opt_def)
  qed
  let ?n = "slice_notification t (note_id (ts_id s)) s twap_slice msg"
  let ?d1 = "d\<lparr>ap_core := (ap_core d)\<lparr>db_notifications := db_notifications (ap_core d) @ [?n]\<rparr>\<rparr>"
  have "ts_owner_user_id s \<in> set (db_users (ap_core d))" using ok r by (auto simp: twap_ok_def parent_fits_def)
  then have "insert_notification ?n (ap_core d) = Inr ((ap_core d)\<lparr>db_notifications := db_notifications (ap_core d) @ [?n]\<rparr>)"
    using fresh by (simp add: insert_notification_def slice_notification_def)
  then have n: "legacy_notify ?n d = Inr ?d1"
    unfolding legacy_notify_Inr_iff using imageI [OF r(1), of lg_id] r(2) by (simp add: slice_notification_def parent_fits_def)
  have "process_due_slice ops note_id t now p (s, ts_trade_intent_id s) d = (Inr (announce now s (n_id ?n) v ?price ?d1), [?n])"
    using i sk msg v n by (simp add: process_due_slice_def Let_def announce_def promote_def [abs_def])
  with n show ?thesis
    by (intro exI [of _ ?n] exI [of _ ?d1] exI [of _ v] exI [of _ ?price]) (simp add: slice_notification_def)
qed

lemma process_due_rows:
  assumes "rows_live (\<lambda>s. ts_status s = slice_pending) rows db" and "twap_ok db" and "prices_storable ops p"
    and "distinct (map (\<lambda>(s, i). note_id (ts_id s)) rows)"
    and "\<And>s i. (s, i) \<in> set rows \<Longrightarrow> note_id (ts_id s) \<notin> n_id ` set (db_notifications (ap_core db))"
  shows "\<exists>db' sent. process_rows (process_due_slice ops note_id t now p) rows db = (Inr db', sent) \<and>
    map n_id sent = map (\<lambda>(s, i). note_id (ts_id s)) rows \<and> map n_trade_intent_id sent = map (\<lambda>(s, i). Some i) rows \<and>
    intents_back db db' \<and>
    (\<forall>x \<in> set (ap_slices db'). ts_status x = slice_notified \<or> x \<in> set (ap_slices db) \<and> ts_id x \<notin> (\<lambda>(s, i). ts_id s) ` set rows)"
  using assms(1,2,4,5)
proof (induction rows arbitrary: db)
  case Nil
  then show ?case by (auto simp: intents_back_def)
next
  case (Cons row rows)
  obtain s i where row: "row = (s, i)" by fastforce
  have s: "s \<in> set (ap_slices db)" "ts_status s = slice_pending" and i: "i = ts_trade_intent_id s"
    using Cons.prems(1) by (auto simp: rows_live_def row)
  have new: "note_id (ts_id s) \<notin> n_id ` set (db_notifications (ap_core db))" using Cons.prems(4) [of s i] by (simp add: row)
  obtain n d1 v price where d: "process_due_slice ops note_id t now p row db = (Inr (announce now s (n_id n) v price d1), [n])"
    and n: "n_type n = twap_slice" "legacy_notify n db = Inr d1" "n_id n = note_id (ts_id s)" "n_trade_intent_id n = Some i"
      "db_notifications (ap_core d1) = db_notifications (ap_core db) @ [n]"
    using due_slice_total [where note_id = note_id and t = t and now = now, OF Cons.prems(2) s(1) assms(3) new] unfolding row i by blast
  let ?d = "announce now s (n_id n) v price d1"
  note fr = notify_frame [OF n(2)]
  have steps: "twap_steps db ?d" by (rule announce_steps [OF s n(1,2)])
  have live: "rows_live (\<lambda>s. ts_status s = slice_pending) rows ?d"
    by (rule rows_live_Cons [OF Cons.prems(1) [unfolded row]]) (use fr in \<open>force simp: upd_where_mem_iff\<close>)
  have ids: "note_id (ts_id s') \<notin> n_id ` set (db_notifications (ap_core ?d))" if "(s', i') \<in> set rows" for s' i'
  proof -
    have "note_id (ts_id s') \<noteq> note_id (ts_id s)" using Cons.prems(3) that by (auto simp: row image_iff)
    then show ?thesis using Cons.prems(4) [of s' i'] that n(3,5) by simp
  qed
  have dist: "distinct (map (\<lambda>(s, i). note_id (ts_id s)) rows)" using Cons.prems(3) by simp
  obtain db' sent where
    IH: "process_rows (process_due_slice ops note_id t now p) rows ?d = (Inr db', sent)"
      "map n_id sent = map (\<lambda>(s, i). note_id (ts_id s)) rows" "map n_trade_intent_id sent = map (\<lambda>(s, i). Some i) rows"
      "intents_back ?d db'"
      "\<forall>x \<in> set (ap_slices db'). ts_status x = slice_notified \<or> x \<in> set (ap_slices ?d) \<and> ts_id x \<notin> (\<lambda>(s, i). ts_id s) ` set rows"
    using ids Cons.IH [OF live twap_steps_ok [OF steps Cons.prems(2)] dist] by metis
  have "intents_back db db'" using intents_back_trans [OF intents_back_announce IH(4)] fr by blast
  moreover have "ts_status x = slice_notified \<or> x \<in> set (ap_slices db) \<and> ts_id x \<notin> (\<lambda>(s, i). ts_id s) ` set (row # rows)"
    if "x \<in> set (ap_slices db')" for x
  proof -
    have "ts_status x = slice_notified \<or> x \<in> set (ap_slices db) \<and> ts_id x \<noteq> ts_id s" if "x \<in> set (ap_slices ?d)"
      using that fr by (auto simp: upd_where_mem_iff mark_notified_def)
    then show ?thesis using IH(5) [rule_format, OF \<open>x \<in> set (ap_slices db')\<close>] unfolding row by (simp only: list.simps image_insert prod.case) blast
  qed
  moreover have "process_rows (process_due_slice ops note_id t now p) (row # rows) db = (Inr db', n # sent)"
    using d IH(1) by simp
  ultimately show ?case using IH(2,3) n(3,4) row by (intro exI [of _ db'] exI [of _ "n # sent"]) auto
qed

lemma legacy_after_core [simp]: "ap_core (legacy_after now db) = ap_core db"
proof -
  have e: "ap_core (ss_working (snd (old_expire d now s))) = ap_core (ss_working s)"
    and a: "ap_core (ss_working (snd (old_activate d now s))) = ap_core (ss_working s)" for d s
    by (simp_all add: old_expire_def old_activate_def legacy_expire_def legacy_activate_def Let_def case_prod_unfold)
  show ?thesis
    using e a by (simp add: legacy_after_def legacy_lifecycle_def lifecycle_run_def Let_def case_prod_unfold)
qed

lemma load_due_all:
  assumes "length (load_due_slices now (Suc k) db) \<le> k"
  shows "set (load_due_slices now k db) = set (join_slices (\<lambda>s r. ts_status s = slice_pending \<and> ts_scheduled_at s \<le> now \<and>
    lg_strategy r = twap_order \<and> lg_status r \<in> {scheduled, active}) db)"
proof -
  let ?xs = "sort_key (\<lambda>(s, i). (ts_scheduled_at s, ts_sequence_no s))
       (join_slices (\<lambda>s r. ts_status s = slice_pending \<and> ts_scheduled_at s \<le> now \<and> lg_strategy r = twap_order \<and>
          lg_status r \<in> {scheduled, active}) db)"
  have "length ?xs \<le> k" using assms unfolding load_due_slices_def by simp
  then have "take k ?xs = ?xs" by simp
  then show ?thesis unfolding load_due_slices_def by simp
qed


section \<open>A concrete order\<close>

text \<open>A provider without quotes, and an order of three slices confirmed at ten o'clock.\<close>

definition mute_ops :: "unit quote_ops" where
  "mute_ops = \<lparr>qo_get_quotes = (\<lambda>ss p. Inr []), qo_current_price = None, qo_subscribe = (\<lambda>s p. Inr p),
     qo_unsubscribe = (\<lambda>s p. p), qo_active_subscriptions = (\<lambda>p. {})\<rparr>"

definition tw0 :: app_db where
  "tw0 = \<lparr>ap_core = empty_db [7] [sample_symbol], ap_intents = [], ap_slices = []\<rparr>"

definition tw_now :: datetime where
  "tw_now = combine 20000 (10 * 3600 * usec_per_sec)"

definition tw_plan :: "position_side \<Rightarrow> twap_plan_input" where
  "tw_plan side = \<lparr>tq_symbol = ''2330'', tq_position_side = side, tq_quantity_lots = 3, tq_interval_seconds = 3600,
     tq_start_time = None, tq_end_time = TWAP_LATEST_END_TIME, tq_owner_user_id = 7\<rparr>"

definition tw1 :: app_db where
  "tw1 = fst (snd (twap_confirm mute_ops 0 1 (\<lambda>n. n + 2) None tw_now (tw_plan long_position) () tw0))"

definition tw2 :: app_db where
  "tw2 = fst (scheduler_run_once mute_ops False (\<lambda>n. n + 10) (\<lambda>n. n + 20) 0 (tw_now + seconds 60) () tw1)"

lemma tw_run1: "(twap_step mute_ops)\<^sup>*\<^sup>* tw0 tw1"
proof -
  obtain r d p' where e: "twap_confirm mute_ops 0 1 (\<lambda>n. n + 2) None tw_now (tw_plan long_position) () tw0 = (r, d, p')"
    using prod_cases3 by blast
  show ?thesis unfolding tw1_def e using st_confirm [OF e] by auto
qed

lemma tw_run2: "(twap_step mute_ops)\<^sup>*\<^sup>* tw0 tw2"
proof -
  obtain d sent where e: "scheduler_run_once mute_ops False (\<lambda>n. n + 10) (\<lambda>n. n + 20) 0 (tw_now + seconds 60) () tw1 = (d, sent)"
    by fastforce
  show ?thesis unfolding tw2_def e using rtranclp.rtrancl_into_rtrancl [OF tw_run1 st_pass [OF e]] by simp
qed

theorem twap_announced_once_witness:
  "length (slice_notes tw2) = count_where (\<lambda>s. ts_status s = slice_notified) (ap_slices tw2) \<and>
   map ts_status (ap_slices tw2) = [slice_notified, slice_pending, slice_pending]"
proof -
  have "map ts_status (ap_slices tw2) = [slice_notified, slice_pending, slice_pending]" by code_simp
  with twap_announced_once [OF tw_run2] show ?thesis by (simp add: tw0_def empty_db_def)
qed

lemma tw1_ok: "twap_ok tw1"
  by (rule twap_run_ok [OF tw_run1]) (simp add: twap_ok_def announce_ok_def completed_ok_def tw0_def empty_db_def)


text \<open>The index over the open orders of the old track does not hold the side: a plan for the other side of
  the same symbol, day and quantity is refused as a duplicate.\<close>

theorem opposite_side_plan_refused:
  "fst (twap_confirm mute_ops 0 5 (\<lambda>n. n + 6) None tw_now (tw_plan short_position) () tw1) =
     Inl (ExTwap (TwapDuplicateActivePlanError 7 ''2330'' short_position))"
  by code_simp

text \<open>Only the status \<open>cancelled\<close> stops the follow-ups: those of a disabled account are still picked up.\<close>

theorem disabled_account_still_followed_up:
  "map (\<lambda>(s, i). (ts_sequence_no s, i)) (load_followup_slices (tw_now + seconds 120) 100
     (snd (legacy_cancel_active_for_owner 7 cancelled_by_account_disabled (tw_now + seconds 90) tw2))) = [(1, 1)]"
  by code_simp

end
