(* ===== verification/Api_Errors.thy ===== *)
theory Api_Errors
  imports Exceptions
begin

text \<open>
  \<open>api/errors.py\<close>: what the HTTP interface answers to an exception: the status, the code and the message of
  the error envelope, its details and the \<open>Retry-After\<close> header. The Chinese messages are symbolic: the
  default text of a code, the generic text of the quote service, and the text of a provider error.
\<close>

section \<open>Codes\<close>

fun code_value :: "error_code \<Rightarrow> string" where
  "code_value INTERNAL_ERROR = ''INTERNAL_ERROR''"
| "code_value VALIDATION_ERROR = ''VALIDATION_ERROR''"
| "code_value DATABASE_UNAVAILABLE = ''DATABASE_UNAVAILABLE''"
| "code_value UNKNOWN_SYMBOL = ''UNKNOWN_SYMBOL''"
| "code_value SYMBOL_NOT_TRADABLE = ''SYMBOL_NOT_TRADABLE''"
| "code_value INVALID_PRICE = ''INVALID_PRICE''"
| "code_value INVALID_TICK_SIZE = ''INVALID_TICK_SIZE''"
| "code_value INVALID_AMOUNT = ''INVALID_AMOUNT''"
| "code_value INVALID_TYPE = ''INVALID_TYPE''"
| "code_value DUPLICATE_INTENT = ''DUPLICATE_INTENT''"
| "code_value USER_INTENT_LIMIT_EXCEEDED = ''USER_INTENT_LIMIT_EXCEEDED''"
| "code_value SYMBOL_INTENT_LIMIT_EXCEEDED = ''SYMBOL_INTENT_LIMIT_EXCEEDED''"
| "code_value IDEMPOTENCY_KEY_REQUIRED = ''IDEMPOTENCY_KEY_REQUIRED''"
| "code_value IDEMPOTENCY_KEY_CONFLICT = ''IDEMPOTENCY_KEY_CONFLICT''"
| "code_value NOT_FOUND = ''NOT_FOUND''"
| "code_value CANCEL_NOT_ALLOWED = ''CANCEL_NOT_ALLOWED''"
| "code_value INVALID_CURSOR = ''INVALID_CURSOR''"
| "code_value QUOTE_PROVIDER_UNAVAILABLE = ''QUOTE_PROVIDER_UNAVAILABLE''"
| "code_value QUOTE_UNAVAILABLE = ''QUOTE_UNAVAILABLE''"
| "code_value CURRENT_PRICE_SYMBOL_NOT_ALLOWED = ''CURRENT_PRICE_SYMBOL_NOT_ALLOWED''"
| "code_value TWAP_END_TIME_OUTSIDE_SESSION = ''TWAP_END_TIME_OUTSIDE_SESSION''"
| "code_value TWAP_END_TIME_ALREADY_PASSED = ''TWAP_END_TIME_ALREADY_PASSED''"
| "code_value TWAP_INSUFFICIENT_SLICES = ''TWAP_INSUFFICIENT_SLICES''"
| "code_value TWAP_TOO_MANY_SLICES = ''TWAP_TOO_MANY_SLICES''"
| "code_value TWAP_INVALID_INTERVAL = ''TWAP_INVALID_INTERVAL''"
| "code_value TWAP_INVALID_QUANTITY = ''TWAP_INVALID_QUANTITY''"
| "code_value TWAP_DUPLICATE_ACTIVE_PLAN = ''TWAP_DUPLICATE_ACTIVE_PLAN''"
| "code_value UNAUTHENTICATED = ''UNAUTHENTICATED''"
| "code_value FORBIDDEN = ''FORBIDDEN''"
| "code_value ACCOUNT_DISABLED = ''ACCOUNT_DISABLED''"
| "code_value SESSION_REVOKED = ''SESSION_REVOKED''"
| "code_value LOGIN_FAILED = ''LOGIN_FAILED''"
| "code_value LOGIN_LOCKED = ''LOGIN_LOCKED''"
| "code_value REFRESH_INVALID = ''REFRESH_INVALID''"
| "code_value REFRESH_REUSE_DETECTED = ''REFRESH_REUSE_DETECTED''"
| "code_value CSRF_FAILED = ''CSRF_FAILED''"
| "code_value MFA_REQUIRED = ''MFA_REQUIRED''"
| "code_value RATE_LIMITED = ''RATE_LIMITED''"
| "code_value EMAIL_ALREADY_EXISTS = ''EMAIL_ALREADY_EXISTS''"
| "code_value INVITATION_INVALID = ''INVITATION_INVALID''"
| "code_value INVITATION_EXPIRED = ''INVITATION_EXPIRED''"
| "code_value INVITATION_CONSUMED = ''INVITATION_CONSUMED''"
| "code_value WEAK_PASSWORD = ''WEAK_PASSWORD''"
| "code_value PASSWORD_RESET_INVALID = ''PASSWORD_RESET_INVALID''"
| "code_value MFA_INVALID_CODE = ''MFA_INVALID_CODE''"
| "code_value MFA_ALREADY_ENABLED = ''MFA_ALREADY_ENABLED''"
| "code_value MFA_NOT_SETUP = ''MFA_NOT_SETUP''"
| "code_value ACCOUNT_NOT_DISABLED = ''ACCOUNT_NOT_DISABLED''"

definition ERROR_CODES :: "error_code list" where
  "ERROR_CODES =
    [INTERNAL_ERROR, VALIDATION_ERROR, DATABASE_UNAVAILABLE, UNKNOWN_SYMBOL, SYMBOL_NOT_TRADABLE, INVALID_PRICE,
     INVALID_TICK_SIZE, INVALID_AMOUNT, INVALID_TYPE, DUPLICATE_INTENT, USER_INTENT_LIMIT_EXCEEDED,
     SYMBOL_INTENT_LIMIT_EXCEEDED, IDEMPOTENCY_KEY_REQUIRED, IDEMPOTENCY_KEY_CONFLICT, NOT_FOUND,
     CANCEL_NOT_ALLOWED, INVALID_CURSOR, QUOTE_PROVIDER_UNAVAILABLE, QUOTE_UNAVAILABLE,
     CURRENT_PRICE_SYMBOL_NOT_ALLOWED, TWAP_END_TIME_OUTSIDE_SESSION, TWAP_END_TIME_ALREADY_PASSED,
     TWAP_INSUFFICIENT_SLICES, TWAP_TOO_MANY_SLICES, TWAP_INVALID_INTERVAL, TWAP_INVALID_QUANTITY,
     TWAP_DUPLICATE_ACTIVE_PLAN, UNAUTHENTICATED, FORBIDDEN, ACCOUNT_DISABLED, SESSION_REVOKED, LOGIN_FAILED,
     LOGIN_LOCKED, REFRESH_INVALID, REFRESH_REUSE_DETECTED, CSRF_FAILED, MFA_REQUIRED, RATE_LIMITED,
     EMAIL_ALREADY_EXISTS, INVITATION_INVALID, INVITATION_EXPIRED, INVITATION_CONSUMED, WEAK_PASSWORD,
     PASSWORD_RESET_INVALID, MFA_INVALID_CODE, MFA_ALREADY_ENABLED, MFA_NOT_SETUP, ACCOUNT_NOT_DISABLED]"

text \<open>\<open>ErrorCode(value)\<close>: \<open>None\<close> is the \<open>ValueError\<close>.\<close>

definition error_code_of :: "string \<Rightarrow> error_code option" where
  "error_code_of s = find (\<lambda>c. code_value c = s) ERROR_CODES"

section \<open>Envelopes\<close>

datatype detail =
    DText string
  | DNum int
  | DDecimal decimal
  | DTime tod
  | DInstant datetime
  | DStrategy strategy
  | DStatus intent_status
  | DSide position_side
  | DSymbols "string set"

datatype message = DefaultMessage error_code | QuoteServiceMessage | ProviderMessage quote_error

text \<open>A code of the enumeration, or a string that is not in it.\<close>

datatype envelope_code = KnownCode error_code | OtherCode string

record api_response =
  rs_status :: nat
  rs_code :: string
  rs_message :: message
  rs_details :: "(string \<times> detail) list"
  rs_retry_after :: "int option"

definition code_string :: "envelope_code \<Rightarrow> string" where
  "code_string c = (case c of KnownCode k \<Rightarrow> code_value k | OtherCode s \<Rightarrow> s)"

definition default_message :: "envelope_code \<Rightarrow> message" where
  "default_message c = (case c of KnownCode k \<Rightarrow> DefaultMessage k | OtherCode _ \<Rightarrow> QuoteServiceMessage)"

definition build_error_response ::
  "nat \<Rightarrow> envelope_code \<Rightarrow> message option \<Rightarrow> (string \<times> detail) list \<Rightarrow> api_response" where
  "build_error_response status code msg details =
     \<lparr>rs_status = status, rs_code = code_string code,
      rs_message = (case msg of Some m \<Rightarrow> m | None \<Rightarrow> default_message code), rs_details = details, rs_retry_after = None\<rparr>"

abbreviation plain :: "nat \<Rightarrow> error_code \<Rightarrow> api_response" where
  "plain status code \<equiv> build_error_response status (KnownCode code) None []"

section \<open>Handlers\<close>

text \<open>\<open>max(1, ceil(seconds))\<close>; \<open>ceil\<close> of an infinite float raises \<open>OverflowError\<close> inside the handler.\<close>

definition throttled :: "error_code \<Rightarrow> rat option \<Rightarrow> api_response option" where
  "throttled code seconds_left = (case seconds_left of
      None \<Rightarrow> None
    | Some s \<Rightarrow>
        let retry_after = max 1 \<lceil>s\<rceil>
        in Some ((build_error_response 429 (KnownCode code) None [(''retryAfterSeconds'', DNum retry_after)])
                   \<lparr>rs_retry_after := Some retry_after\<rparr>))"

definition auth_error_handler :: "auth_error \<Rightarrow> api_response option" where
  "auth_error_handler e = (case e of
      UnauthenticatedError \<Rightarrow> Some (plain 401 UNAUTHENTICATED)
    | LoginFailedError \<Rightarrow> Some (plain 401 LOGIN_FAILED)
    | LoginLockedError s \<Rightarrow> throttled LOGIN_LOCKED s
    | RefreshReuseDetectedError \<Rightarrow> Some (plain 401 REFRESH_REUSE_DETECTED)
    | RefreshInvalidError \<Rightarrow> Some (plain 401 REFRESH_INVALID)
    | CsrfFailedError \<Rightarrow> Some (plain 403 CSRF_FAILED)
    | MfaInvalidCodeError \<Rightarrow> Some (plain 422 MFA_INVALID_CODE)
    | RateLimitedError s \<Rightarrow> throttled RATE_LIMITED s
    | MfaRequiredError \<Rightarrow> Some (plain 403 MFA_REQUIRED)
    | ForbiddenError \<Rightarrow> Some (plain 403 FORBIDDEN))"

definition account_error_handler :: "account_error \<Rightarrow> api_response" where
  "account_error_handler e = (case e of
      UserNotFoundError \<Rightarrow> plain 404 NOT_FOUND
    | EmailAlreadyExistsError \<Rightarrow> plain 409 EMAIL_ALREADY_EXISTS
    | InvitationExpiredError \<Rightarrow> plain 410 INVITATION_EXPIRED
    | InvitationConsumedError \<Rightarrow> plain 409 INVITATION_CONSUMED
    | InvitationInvalidError \<Rightarrow> plain 400 INVITATION_INVALID
    | WeakPasswordError \<Rightarrow> plain 422 WEAK_PASSWORD
    | PasswordResetInvalidError \<Rightarrow> plain 400 PASSWORD_RESET_INVALID
    | MfaAlreadyEnabledError \<Rightarrow> plain 409 MFA_ALREADY_ENABLED
    | MfaNotSetupError \<Rightarrow> plain 409 MFA_NOT_SETUP
    | AccountNotDisabledError \<Rightarrow> plain 409 ACCOUNT_NOT_DISABLED)"

definition symbol_error_handler :: "symbol_error \<Rightarrow> api_response" where
  "symbol_error_handler e = (case e of
      UnknownSymbolError s \<Rightarrow> build_error_response 404 (KnownCode UNKNOWN_SYMBOL) None [(''symbol'', DText s)]
    | SymbolNotTradableError s st \<Rightarrow>
        build_error_response 422 (KnownCode SYMBOL_NOT_TRADABLE) None [(''symbol'', DText s), (''tradable_status'', DText st)])"

text \<open>The fallback handler.\<close>

definition unhandled_error :: api_response where
  "unhandled_error = plain 500 INTERNAL_ERROR"

definition price_error_handler :: "price_error \<Rightarrow> api_response" where
  "price_error_handler e = (case e of
      InvalidTickSizeError v r lower_price upper_price fld \<Rightarrow>
        build_error_response 422 (KnownCode INVALID_TICK_SIZE) None
          ([(''value'', DText v), (''nearest_lower'', DDecimal lower_price), (''nearest_upper'', DDecimal upper_price)] @
           (case fld of None \<Rightarrow> [] | Some f \<Rightarrow> [(''field'', DText f)]))
    | InvalidPriceError v r \<Rightarrow> build_error_response 422 (KnownCode INVALID_PRICE) None [(''value'', DText v)]
    | InvalidAmountError a r \<Rightarrow> build_error_response 422 (KnownCode INVALID_AMOUNT) None [(''value'', DNum a)]
    | InvalidTypeError v r \<Rightarrow> build_error_response 422 (KnownCode INVALID_TYPE) None [(''value'', DText v)]
    | PriceArithmetic _ \<Rightarrow> unhandled_error)"

definition intent_error_handler :: "intent_error \<Rightarrow> api_response" where
  "intent_error_handler e = (case e of
      DuplicateIntentError u s st \<Rightarrow>
        build_error_response 409 (KnownCode DUPLICATE_INTENT) None [(''symbol'', DText s), (''strategy'', DStrategy st)]
    | SymbolIntentLimitExceededError s l c \<Rightarrow>
        build_error_response 409 (KnownCode SYMBOL_INTENT_LIMIT_EXCEEDED) None
          [(''symbol'', DText s), (''limit'', DNum l), (''current'', DNum c)]
    | UserIntentLimitExceededError l c \<Rightarrow>
        build_error_response 409 (KnownCode USER_INTENT_LIMIT_EXCEEDED) None [(''limit'', DNum l), (''current'', DNum c)]
    | IntentNotFoundError i \<Rightarrow> plain 404 NOT_FOUND
    | InvalidCursorError i \<Rightarrow> plain 400 INVALID_CURSOR
    | CancelNotAllowedError i st \<Rightarrow>
        build_error_response 409 (KnownCode CANCEL_NOT_ALLOWED) None [(''currentStatus'', DStatus st)])"

text \<open>The class attributes and \<open>details()\<close> of the TWAP errors.\<close>

definition twap_error_code :: "twap_error \<Rightarrow> string" where
  "twap_error_code e = (case e of
      TwapInvalidIntervalError _ \<Rightarrow> ''TWAP_INVALID_INTERVAL''
    | TwapInvalidQuantityError _ \<Rightarrow> ''TWAP_INVALID_QUANTITY''
    | TwapEndTimeOutsideSessionError _ \<Rightarrow> ''TWAP_END_TIME_OUTSIDE_SESSION''
    | TwapStartTimeOutsideSessionError _ \<Rightarrow> ''TWAP_START_TIME_OUTSIDE_SESSION''
    | TwapStartTimeAfterEndTimeError _ _ \<Rightarrow> ''TWAP_START_TIME_AFTER_END_TIME''
    | TwapEndTimeAlreadyPassedError _ _ \<Rightarrow> ''TWAP_END_TIME_ALREADY_PASSED''
    | TwapInsufficientSlicesError _ _ \<Rightarrow> ''TWAP_INSUFFICIENT_SLICES''
    | TwapTooManySlicesError _ \<Rightarrow> ''TWAP_TOO_MANY_SLICES''
    | TwapDuplicateActivePlanError _ _ _ \<Rightarrow> ''TWAP_DUPLICATE_ACTIVE_PLAN'')"

definition twap_details :: "twap_error \<Rightarrow> (string \<times> detail) list" where
  "twap_details e = (case e of
      TwapInvalidIntervalError n \<Rightarrow> [(''intervalSeconds'', DNum n), (''minIntervalSeconds'', DNum TWAP_MIN_INTERVAL_SECONDS),
        (''maxIntervalSeconds'', DNum TWAP_MAX_INTERVAL_SECONDS)]
    | TwapInvalidQuantityError n \<Rightarrow> [(''quantityLots'', DNum n), (''minQuantityLots'', DNum TWAP_MIN_QUANTITY_LOTS),
        (''maxQuantityLots'', DNum TWAP_MAX_QUANTITY_LOTS)]
    | TwapEndTimeOutsideSessionError t \<Rightarrow> [(''endTime'', DTime t), (''sessionStart'', DTime SESSION_START_TIME),
        (''latestEndTime'', DTime TWAP_LATEST_END_TIME)]
    | TwapStartTimeOutsideSessionError t \<Rightarrow> [(''startTime'', DTime t), (''sessionStart'', DTime SESSION_START_TIME),
        (''latestStartTime'', DTime TWAP_LATEST_START_TIME)]
    | TwapStartTimeAfterEndTimeError s t \<Rightarrow> [(''startTime'', DTime s), (''endTime'', DTime t)]
    | TwapEndTimeAlreadyPassedError t n \<Rightarrow> [(''endAt'', DInstant t), (''now'', DInstant n)]
    | TwapInsufficientSlicesError a m \<Rightarrow> [(''availableSliceCount'', DNum a), (''materializedSliceCount'', DNum m),
        (''minMaterializedSliceCount'', DNum TWAP_MIN_MATERIALIZED_SLICES)]
    | TwapTooManySlicesError m \<Rightarrow> [(''materializedSliceCount'', DNum m),
        (''maxMaterializedSliceCount'', DNum TWAP_MAX_MATERIALIZED_SLICES)]
    | TwapDuplicateActivePlanError u s p \<Rightarrow> [(''symbol'', DText s), (''positionSide'', DSide p)])"

definition envelope_code_of :: "string \<Rightarrow> envelope_code" where
  "envelope_code_of s = (case error_code_of s of Some c \<Rightarrow> KnownCode c | None \<Rightarrow> OtherCode s)"

definition twap_error_handler :: "twap_error \<Rightarrow> api_response" where
  "twap_error_handler e = build_error_response (case e of TwapDuplicateActivePlanError _ _ _ \<Rightarrow> 409 | _ \<Rightarrow> 422)
     (envelope_code_of (twap_error_code e)) None (twap_details e)"

definition quote_details :: "quote_error \<Rightarrow> (string \<times> detail) list" where
  "quote_details e = (case e of
      QuoteUnavailableError s \<Rightarrow> [(''symbol'', DText s)]
    | QuoteProviderUnavailableError p r \<Rightarrow> (''provider'', DText p) #
        (case r of None \<Rightarrow> [] | Some x \<Rightarrow> if x = [] then [] else [(''reason'', DText x)])
    | SymbolNotAvailableInDemo s allowed \<Rightarrow> [(''symbol'', DText s), (''allowed'', DSymbols allowed)]
    | QuoteSubscriptionLimitExceeded s current limit \<Rightarrow>
        [(''symbol'', DText s), (''current'', DNum (int current)), (''limit'', DNum (int limit))])"

definition quote_provider_error_handler :: "quote_error \<Rightarrow> api_response" where
  "quote_provider_error_handler e = build_error_response (quote_http_status e) (envelope_code_of (quote_error_code e))
     (Some (ProviderMessage e)) (quote_details e)"

text \<open>
  The registered handlers, chosen by the class of the exception. \<open>None\<close>: the handler itself raised, and the
  server answers with a bare 500.
\<close>

definition handle_exn :: "exn \<Rightarrow> api_response option" where
  "handle_exn e = (case e of
      ExApi code status \<Rightarrow> Some (plain status code)
    | ExAuth a \<Rightarrow> auth_error_handler a
    | ExAccount a \<Rightarrow> Some (account_error_handler a)
    | ExSymbol s \<Rightarrow> Some (symbol_error_handler s)
    | ExPrice p \<Rightarrow> Some (price_error_handler p)
    | ExIntent i \<Rightarrow> Some (intent_error_handler i)
    | ExIdempotencyConflict \<Rightarrow> Some (plain 409 IDEMPOTENCY_KEY_CONFLICT)
    | ExNotification _ \<Rightarrow> Some (plain 404 NOT_FOUND)
    | ExTwap t \<Rightarrow> Some (twap_error_handler t)
    | ExQuote q \<Rightarrow> Some (quote_provider_error_handler q)
    | _ \<Rightarrow> Some unhandled_error)"

section \<open>The enumeration\<close>

lemma ERROR_CODES_all: "set ERROR_CODES = UNIV"
proof -
  have "c \<in> set ERROR_CODES" for c by (cases c) (simp_all add: ERROR_CODES_def)
  then show ?thesis by auto
qed

lemma ERROR_CODES_distinct: "distinct (map code_value ERROR_CODES)"
  by (simp add: ERROR_CODES_def)

lemma code_value_inject [simp]: "code_value a = code_value b \<longleftrightarrow> a = b"
  using ERROR_CODES_distinct ERROR_CODES_all by (auto simp: distinct_map inj_on_def)

lemma error_code_of_value [simp]: "error_code_of (code_value c) = Some c"
proof -
  have "find (\<lambda>x. code_value x = code_value c) xs = Some c" if "c \<in> set xs" for xs using that by (induction xs) auto
  then show ?thesis by (simp add: error_code_of_def ERROR_CODES_all)
qed

lemma error_code_of_SomeD: "error_code_of s = Some c \<Longrightarrow> code_value c = s"
  by (simp add: error_code_of_def find_Some_iff) blast

section \<open>The envelopes\<close>

text \<open>The exceptions that are not part of the interface: they are answered by the fallback handler.\<close>

definition internal_error :: "exn \<Rightarrow> bool" where
  "internal_error e = (case e of
      ExApi _ _ \<Rightarrow> False | ExAuth _ \<Rightarrow> False | ExAccount _ \<Rightarrow> False | ExSymbol _ \<Rightarrow> False | ExIntent _ \<Rightarrow> False
    | ExIdempotencyConflict \<Rightarrow> False | ExNotification _ \<Rightarrow> False | ExTwap _ \<Rightarrow> False | ExQuote _ \<Rightarrow> False
    | ExPrice p \<Rightarrow> (case p of PriceArithmetic _ \<Rightarrow> True | _ \<Rightarrow> False) | _ \<Rightarrow> True)"

definition waits_for :: "exn \<Rightarrow> rat option" where
  "waits_for e = (case e of ExAuth (LoginLockedError s) \<Rightarrow> s | ExAuth (RateLimitedError s) \<Rightarrow> s | _ \<Rightarrow> None)"

definition envelope_ok :: "exn \<Rightarrow> api_response \<Rightarrow> bool" where
  "envelope_ok e r \<longleftrightarrow>
     (case e of ExApi code status \<Rightarrow> rs_status r = status \<and> rs_code r = code_value code
      | _ \<Rightarrow> rs_status r \<in> {400, 401, 403, 404, 409, 410, 422, 429, 500, 503} \<and> (rs_status r = 500 \<longleftrightarrow> internal_error e)) \<and>
     (case rs_retry_after r of
        None \<Rightarrow> waits_for e = None
      | Some k \<Rightarrow> rs_status r = 429 \<and> 1 \<le> k \<and> rs_details r = [(''retryAfterSeconds'', DNum k)] \<and>
          (\<exists>s. waits_for e = Some s \<and> s \<le> of_int k \<and> k \<le> max 1 (\<lfloor>s\<rfloor> + 1)))"

lemma throttled_ok:
  assumes "waits_for (ExAuth a) = s"
  shows "case throttled c s of None \<Rightarrow> s = None | Some r \<Rightarrow> envelope_ok (ExAuth a) r"
proof (cases s)
  case (Some x)
  have "\<lceil>x\<rceil> \<le> \<lfloor>x\<rfloor> + 1" by linarith
  then have "max 1 \<lceil>x\<rceil> \<le> max 1 (\<lfloor>x\<rfloor> + 1)" by simp
  moreover have "x \<le> of_int (max 1 \<lceil>x\<rceil>)" using le_of_int_ceiling [of x] by (simp add: of_int_max le_max_iff_disj)
  ultimately show ?thesis using assms Some
    by (simp add: throttled_def Let_def envelope_ok_def build_error_response_def internal_error_def)
qed (simp add: throttled_def)

lemma plain_ok:
  assumes "waits_for e = None" and "st \<in> {400, 401, 403, 404, 409, 410, 422, 429, 500, 503}" and "st = 500 \<longleftrightarrow> internal_error e"
    and "\<And>c n. e \<noteq> ExApi c n"
  shows "envelope_ok e (build_error_response st c m d)"
  using assms by (cases e) (auto simp: envelope_ok_def build_error_response_def)


text \<open>Two codes of the TWAP errors are not in the enumeration: a start time out of range is reported to the
  user with the generic text of the quote service.\<close>

theorem twap_start_time_message:
  "rs_message (twap_error_handler (TwapStartTimeOutsideSessionError t)) = QuoteServiceMessage"
  "rs_message (twap_error_handler (TwapStartTimeAfterEndTimeError t t')) = QuoteServiceMessage"
proof -
  have "error_code_of ''TWAP_START_TIME_OUTSIDE_SESSION'' = None" "error_code_of ''TWAP_START_TIME_AFTER_END_TIME'' = None"
    by (simp_all add: error_code_of_def ERROR_CODES_def)
  then show "rs_message (twap_error_handler (TwapStartTimeOutsideSessionError t)) = QuoteServiceMessage"
    "rs_message (twap_error_handler (TwapStartTimeAfterEndTimeError t t')) = QuoteServiceMessage"
    by (simp_all add: twap_error_handler_def build_error_response_def twap_error_code_def envelope_code_of_def default_message_def)
qed

end
