(* ===== verification/Telegram_Domain.thy ===== *)
theory Telegram_Domain
  imports Trade_Intent "HOL-Library.AList"
begin

text \<open>
  \<open>domain/telegram_intent.py\<close> and \<open>services/telegram_intent_llm.py\<close>: what a chat message can ask for, and the
  strict boundary behind which the language model's answer becomes a decision. The HTTP call is an
  argument, and so is the reader of the model's JSON text into the declared fields; the validators
  the source writes are the definitions below. An error of the boundary is \<open>None\<close>, since the command
  looks at nothing else of it.
\<close>

section \<open>Vocabulary\<close>

datatype capability_id = limit_buy | limit_sell | market_buy | market_sell

datatype decision_type = dt_unsupported | dt_needs_clarification | dt_draft_intent | dt_ambiguous

datatype interaction_kind = kind_clarification | kind_draft

datatype interaction_status = ia_pending | ia_confirming | ia_confirmed | ia_cancelled | ia_expired | ia_superseded

datatype missing_field = mf_symbol | mf_quantityLots | mf_targetPrice

definition LIMIT_CAPABILITIES :: "capability_id set" where
  "LIMIT_CAPABILITIES = {limit_buy, limit_sell}"

definition MARKET_CAPABILITIES :: "capability_id set" where
  "MARKET_CAPABILITIES = {market_buy, market_sell}"

fun CAPABILITY_TO_NOTIFY_ONLY_STRATEGY :: "capability_id \<Rightarrow> strategy" where
  "CAPABILITY_TO_NOTIFY_ONLY_STRATEGY limit_buy = limit_buy_order"
| "CAPABILITY_TO_NOTIFY_ONLY_STRATEGY limit_sell = limit_sell_order"
| "CAPABILITY_TO_NOTIFY_ONLY_STRATEGY market_buy = market_buy_order"
| "CAPABILITY_TO_NOTIFY_ONLY_STRATEGY market_sell = market_sell_order"

fun CAPABILITY_TO_TRANSACTION_MODE :: "capability_id \<Rightarrow> transaction_mode" where
  "CAPABILITY_TO_TRANSACTION_MODE limit_buy = single_notification"
| "CAPABILITY_TO_TRANSACTION_MODE limit_sell = single_notification"
| "CAPABILITY_TO_TRANSACTION_MODE market_buy = partial_fill_allowed"
| "CAPABILITY_TO_TRANSACTION_MODE market_sell = partial_fill_allowed"

fun CAPABILITY_LABELS :: "capability_id \<Rightarrow> string" where
  "CAPABILITY_LABELS limit_buy =
     [CHR 0xE9, CHR 0x99, CHR 0x90, CHR 0xE5, CHR 0x83, CHR 0xB9, CHR 0xE8, CHR 0xB2, CHR 0xB7,
      CHR 0xE9, CHR 0x80, CHR 0xB2, CHR 0xE6, CHR 0x8F, CHR 0x90, CHR 0xE9, CHR 0x86, CHR 0x92]"
| "CAPABILITY_LABELS limit_sell =
     [CHR 0xE9, CHR 0x99, CHR 0x90, CHR 0xE5, CHR 0x83, CHR 0xB9, CHR 0xE8, CHR 0xB3, CHR 0xA3,
      CHR 0xE5, CHR 0x87, CHR 0xBA, CHR 0xE6, CHR 0x8F, CHR 0x90, CHR 0xE9, CHR 0x86, CHR 0x92]"
| "CAPABILITY_LABELS market_buy =
     [CHR 0xE5, CHR 0xB8, CHR 0x82, CHR 0xE5, CHR 0x83, CHR 0xB9, CHR 0xE8, CHR 0xB2, CHR 0xB7,
      CHR 0xE9, CHR 0x80, CHR 0xB2, CHR 0xE6, CHR 0x8F, CHR 0x90, CHR 0xE9, CHR 0x86, CHR 0x92]"
| "CAPABILITY_LABELS market_sell =
     [CHR 0xE5, CHR 0xB8, CHR 0x82, CHR 0xE5, CHR 0x83, CHR 0xB9, CHR 0xE8, CHR 0xB3, CHR 0xA3,
      CHR 0xE5, CHR 0x87, CHR 0xBA, CHR 0xE6, CHR 0x8F, CHR 0x90, CHR 0xE9, CHR 0x86, CHR 0x92]"

definition capability_value :: "capability_id \<Rightarrow> string" where
  "capability_value c = (case c of limit_buy \<Rightarrow> ''limit_buy'' | limit_sell \<Rightarrow> ''limit_sell''
    | market_buy \<Rightarrow> ''market_buy'' | market_sell \<Rightarrow> ''market_sell'')"

definition capability_of :: "string \<Rightarrow> capability_id option" where
  "capability_of s = find (\<lambda>c. capability_value c = s) [limit_buy, limit_sell, market_buy, market_sell]"

text \<open>The literals of the four strategies.\<close>

definition strategy_value :: "capability_id \<Rightarrow> string" where
  "strategy_value c = (case c of limit_buy \<Rightarrow> ''limit_buy_order'' | limit_sell \<Rightarrow> ''limit_sell_order''
    | market_buy \<Rightarrow> ''market_buy_order'' | market_sell \<Rightarrow> ''market_sell_order'')"

lemma capability_of_value [simp]: "capability_of (capability_value c) = Some c"
  by (cases c) (simp_all add: capability_of_def capability_value_def)

lemma capability_of_SomeD: "capability_of s = Some c \<Longrightarrow> s = capability_value c"
  by (auto simp: capability_of_def capability_value_def split: if_splits)

lemma capability_partition: "c \<in> MARKET_CAPABILITIES \<longleftrightarrow> c \<notin> LIMIT_CAPABILITIES"
  by (cases c) (simp_all add: LIMIT_CAPABILITIES_def MARKET_CAPABILITIES_def)

record telegram_intent_decision =
  td_decision :: decision_type
  td_capability_id :: "capability_id option"
  td_symbol :: "string option"
  td_quantity_lots :: "int option"
  td_target_price :: "decimal option"
  td_missing_fields :: "missing_field list"

text \<open>
  JSON values, as the language model's answer and the stored payload use them. A float is the text
  \<open>str\<close> gives it; a string outside ASCII is its UTF-8 bytes.
\<close>

datatype json = JNull | JBool bool | JInt int | JFloat string | JStr string
  | JList "json list" | JObj "(string \<times> json) list"

type_synonym payload = "(string \<times> json) list"

definition int_str :: "int \<Rightarrow> string" where
  "int_str i = (if i < 0 then ''-'' else '''') @ nat_str (nat \<bar>i\<bar>)"

section \<open>The validators of the model's answer\<close>

text \<open>The declared fields of \<open>_DecisionPayload\<close>; only the price is still unchecked.\<close>

record decision_fields =
  df_decision :: decision_type
  df_capability_id :: "capability_id option"
  df_symbol :: "string option"
  df_quantity_lots :: "int option"
  df_target_price :: json
  df_missing_fields :: "missing_field list"

definition normalize_numeric_price :: "json \<Rightarrow> json" where
  "normalize_numeric_price value = (case value of JInt i \<Rightarrow> JStr (int_str i) | JFloat s \<Rightarrow> JStr s | _ \<Rightarrow> value)"

definition strict_optional_str :: "json \<Rightarrow> string option option" where
  "strict_optional_str value = (case value of JNull \<Rightarrow> Some None | JStr s \<Rightarrow> Some (Some s) | _ \<Rightarrow> None)"

definition numeric_symbol :: "string option \<Rightarrow> bool" where
  "numeric_symbol value = (case value of
      None \<Rightarrow> True | Some s \<Rightarrow> list_all is_digit s \<and> 4 \<le> length s \<and> length s \<le> 6)"

definition positive_quantity :: "int option \<Rightarrow> bool" where
  "positive_quantity value = (case value of None \<Rightarrow> True | Some q \<Rightarrow> 0 < q)"

definition positive_price :: "string option \<Rightarrow> bool" where
  "positive_price value = (case value of
      None \<Rightarrow> True
    | Some s \<Rightarrow> (case dec_of_string s of Some (PFinite d) \<Rightarrow> dec_less dec_zero d | _ \<Rightarrow> False))"

definition required_fields :: "capability_id option \<Rightarrow> missing_field set" where
  "required_fields c = {mf_symbol, mf_quantityLots} \<union>
     (if c = Some limit_buy \<or> c = Some limit_sell then {mf_targetPrice} else {})"

definition supplied_fields :: "string option \<Rightarrow> int option \<Rightarrow> string option \<Rightarrow> missing_field set" where
  "supplied_fields symbol quantity_lots target_price =
     (if symbol \<noteq> None then {mf_symbol} else {}) \<union> (if quantity_lots \<noteq> None then {mf_quantityLots} else {}) \<union>
     (if target_price \<noteq> None then {mf_targetPrice} else {})"

definition validate_shape :: "decision_fields \<Rightarrow> string option \<Rightarrow> bool" where
  "validate_shape f price =
     (if df_decision f \<in> {dt_needs_clarification, dt_draft_intent} \<and> df_capability_id f = None then False
      else if df_decision f \<in> {dt_unsupported, dt_ambiguous}
      then df_capability_id f = None \<and> df_symbol f = None \<and> df_quantity_lots f = None \<and> price = None \<and>
           df_missing_fields f = []
      else let actually_missing = required_fields (df_capability_id f) -
                 supplied_fields (df_symbol f) (df_quantity_lots f) price;
               missing = set (df_missing_fields f)
           in distinct (df_missing_fields f) \<and>
              (if df_decision f = dt_needs_clarification then missing \<noteq> {} \<and> missing = actually_missing
               else missing = {} \<and> actually_missing = {}) \<and>
              \<not> (df_capability_id f \<in> {Some market_buy, Some market_sell} \<and> price \<noteq> None))"

definition validate_decision_payload :: "decision_fields \<Rightarrow> string option option" where
  "validate_decision_payload f =
     (case strict_optional_str (normalize_numeric_price (df_target_price f)) of
        None \<Rightarrow> None
      | Some price \<Rightarrow>
          if numeric_symbol (df_symbol f) \<and> positive_quantity (df_quantity_lots f) \<and> positive_price price \<and>
             validate_shape f price
          then Some price else None)"

section \<open>From the response to the decision\<close>

definition obj_get :: "string \<Rightarrow> (string \<times> json) list \<Rightarrow> json option" where
  "obj_get k obj = map_of obj k"

text \<open>Truth of a JSON value; a float is zero or not as its text says.\<close>

definition truthy :: "json option \<Rightarrow> bool" where
  "truthy v = (case v of
      None \<Rightarrow> False
    | Some JNull \<Rightarrow> False
    | Some (JBool b) \<Rightarrow> b
    | Some (JInt i) \<Rightarrow> i \<noteq> 0
    | Some (JFloat s) \<Rightarrow> (case dec_of_string s of Some (PFinite d) \<Rightarrow> dcoeff d \<noteq> 0 | _ \<Rightarrow> True)
    | Some (JStr s) \<Rightarrow> s \<noteq> ''''
    | Some (JList xs) \<Rightarrow> xs \<noteq> []
    | Some (JObj xs) \<Rightarrow> xs \<noteq> [])"

fun content_texts :: "json list \<Rightarrow> string option" where
  "content_texts [] = Some ''''"
| "content_texts (part # parts) = (case part of
      JObj obj \<Rightarrow>
        if obj_get ''type'' obj = Some (JStr ''refusal'') then None
        else (case (obj_get ''type'' obj, obj_get ''text'' obj) of
                (Some (JStr ty), Some (JStr txt)) \<Rightarrow>
                  if ty \<noteq> ''output_text'' then None else map_option (\<lambda>rest. txt @ rest) (content_texts parts)
              | _ \<Rightarrow> None)
    | _ \<Rightarrow> None)"

fun output_texts :: "json list \<Rightarrow> string option" where
  "output_texts [] = Some ''''"
| "output_texts (item # items) = (case item of
      JObj obj \<Rightarrow>
        if obj_get ''type'' obj = Some (JStr ''reasoning'') then output_texts items
        else if obj_get ''type'' obj \<noteq> Some (JStr ''message'') \<or> obj_get ''role'' obj \<noteq> Some (JStr ''assistant'') \<or>
                obj_get ''status'' obj \<noteq> Some (JStr ''completed'') then None
        else (case obj_get ''content'' obj of
                Some (JList content) \<Rightarrow>
                  (case content_texts content of
                     None \<Rightarrow> None | Some t \<Rightarrow> map_option (\<lambda>rest. t @ rest) (output_texts items))
              | _ \<Rightarrow> None)
    | _ \<Rightarrow> None)"

definition extract_response_content :: "(string \<times> json) list \<Rightarrow> string option" where
  "extract_response_content raw =
     (if obj_get ''status'' raw \<noteq> Some (JStr ''completed'') \<or> truthy (obj_get ''error'' raw) \<or>
         truthy (obj_get ''incomplete_details'' raw) then None
      else case obj_get ''output'' raw of
             Some (JList out) \<Rightarrow>
               (case output_texts out of None \<Rightarrow> None | Some combined \<Rightarrow> if combined = '''' then None else Some combined)
           | _ \<Rightarrow> None)"

definition parse_response :: "(string \<Rightarrow> decision_fields option) \<Rightarrow> (string \<times> json) list \<Rightarrow> telegram_intent_decision option" where
  "parse_response read_fields raw =
     (case extract_response_content raw of
        None \<Rightarrow> None
      | Some txt \<Rightarrow>
          (case read_fields txt of
             None \<Rightarrow> None
           | Some f \<Rightarrow>
               (case validate_decision_payload f of
                  None \<Rightarrow> None
                | Some price \<Rightarrow>
                    (case (case price of None \<Rightarrow> Some None
                           | Some s \<Rightarrow> (case dec_of_string s of Some (PFinite d) \<Rightarrow> Some (Some d) | _ \<Rightarrow> None)) of
                       None \<Rightarrow> None
                     | Some target_price \<Rightarrow>
                         Some \<lparr>td_decision = df_decision f, td_capability_id = df_capability_id f,
                           td_symbol = df_symbol f, td_quantity_lots = df_quantity_lots f,
                           td_target_price = target_price, td_missing_fields = df_missing_fields f\<rparr>))))"

text \<open>The decider: the message with the capability and payload of the pending interaction; \<open>None\<close> is
  \<open>TelegramIntentLlmError\<close>. The HTTP exchange returns the decoded response, or \<open>None\<close> when it failed.\<close>

type_synonym decider = "string \<Rightarrow> capability_id option \<Rightarrow> payload option \<Rightarrow> telegram_intent_decision option"

definition openai_decide ::
  "(string \<Rightarrow> capability_id option \<Rightarrow> payload option \<Rightarrow> json option) \<Rightarrow> (string \<Rightarrow> decision_fields option) \<Rightarrow> decider" where
  "openai_decide post read_fields message previous_capability_id previous_payload =
     (case post message previous_capability_id previous_payload of
        Some (JObj raw) \<Rightarrow> parse_response read_fields raw
      | _ \<Rightarrow> None)"

definition disabled_decide :: decider where
  "disabled_decide message previous_capability_id previous_payload = None"

definition build_telegram_intent_decider ::
  "string option \<Rightarrow> (string \<Rightarrow> capability_id option \<Rightarrow> payload option \<Rightarrow> json option) \<Rightarrow> (string \<Rightarrow> decision_fields option) \<Rightarrow> decider" where
  "build_telegram_intent_decider openai_api_key post read_fields =
     (if openai_api_key = None \<or> openai_api_key = Some '''' then disabled_decide else openai_decide post read_fields)"

section \<open>What passes the boundary\<close>

text \<open>
  The decisions the command may meet: a trading decision names a capability, a draft is complete and
  a clarification names exactly the fields that are missing.
\<close>

definition decision_ok :: "telegram_intent_decision \<Rightarrow> bool" where
  "decision_ok d \<longleftrightarrow>
     (case td_symbol d of None \<Rightarrow> True | Some s \<Rightarrow> s \<noteq> [] \<and> list_all is_digit s) \<and>
     (case td_quantity_lots d of None \<Rightarrow> True | Some q \<Rightarrow> 0 < q) \<and>
     (case td_target_price d of None \<Rightarrow> True | Some p \<Rightarrow> 0 < dval p) \<and>
     (td_decision d \<in> {dt_needs_clarification, dt_draft_intent} \<longrightarrow>
        (\<exists>c. td_capability_id d = Some c \<and> (c \<in> MARKET_CAPABILITIES \<longrightarrow> td_target_price d = None) \<and>
          (td_decision d = dt_draft_intent \<longrightarrow>
             td_symbol d \<noteq> None \<and> td_quantity_lots d \<noteq> None \<and> (c \<in> LIMIT_CAPABILITIES \<longrightarrow> td_target_price d \<noteq> None)) \<and>
          (td_decision d = dt_needs_clarification \<longrightarrow> td_missing_fields d \<noteq> [])))"

lemma positive_priceD:
  assumes "positive_price (Some s)"
  obtains d where "dec_of_string s = Some (PFinite d)" "0 < dval d"
  using assms by (auto simp: positive_price_def dec_less_iff dval_dec_zero split: option.splits py_number.splits)

lemma validated_shape:
  assumes "validate_shape f price" and "df_decision f \<in> {dt_needs_clarification, dt_draft_intent}"
  shows "\<exists>c. df_capability_id f = Some c \<and> (c \<in> MARKET_CAPABILITIES \<longrightarrow> price = None) \<and>
    (df_decision f = dt_draft_intent \<longrightarrow>
       df_symbol f \<noteq> None \<and> df_quantity_lots f \<noteq> None \<and> (c \<in> LIMIT_CAPABILITIES \<longrightarrow> price \<noteq> None)) \<and>
    (df_decision f = dt_needs_clarification \<longrightarrow> df_missing_fields f \<noteq> [])"
proof -
  from assms have "df_capability_id f \<noteq> None" by (auto simp: validate_shape_def split: if_split_asm)
  then obtain c where c: "df_capability_id f = Some c" by blast
  with assms show ?thesis
    by (cases c) (auto simp: validate_shape_def Let_def required_fields_def supplied_fields_def
      LIMIT_CAPABILITIES_def MARKET_CAPABILITIES_def split: if_split_asm)
qed

lemma parse_response_ok:
  assumes "parse_response read_fields raw = Some d"
  shows "decision_ok d"
proof -
  from assms obtain f price tp where v: "validate_decision_payload f = Some price"
    and tp: "(case price of None \<Rightarrow> Some None
        | Some s \<Rightarrow> (case dec_of_string s of Some (PFinite d) \<Rightarrow> Some (Some d) | _ \<Rightarrow> None)) = Some tp"
    and d: "d = \<lparr>td_decision = df_decision f, td_capability_id = df_capability_id f, td_symbol = df_symbol f,
      td_quantity_lots = df_quantity_lots f, td_target_price = tp, td_missing_fields = df_missing_fields f\<rparr>"
    unfolding parse_response_def by (auto split: option.split_asm)
  from v have ok: "numeric_symbol (df_symbol f)" "positive_quantity (df_quantity_lots f)" "positive_price price"
    "validate_shape f price"
    by (auto simp: validate_decision_payload_def split: option.splits if_splits)
  have price: "(tp = None) = (price = None)" "case tp of None \<Rightarrow> True | Some p \<Rightarrow> 0 < dval p"
    using tp ok(3) by (auto split: option.splits py_number.splits elim!: positive_priceD)
  with ok(1,2) validated_shape [OF ok(4)] show ?thesis
    unfolding decision_ok_def d by (auto simp: numeric_symbol_def positive_quantity_def split: option.splits)
qed

lemma decider_ok:
  assumes "build_telegram_intent_decider key post read_fields m c p = Some d"
  shows "decision_ok d"
  using assms by (auto simp: build_telegram_intent_decider_def disabled_decide_def openai_decide_def
    split: if_splits option.splits json.splits dest: parse_response_ok)

end
