(* ===== verification/Telegram_Store.thy ===== *)
theory Telegram_Store
  imports Telegram_Domain Core_Store
begin

text \<open>
  \<open>repositories/telegram_intent_repository.py\<close> and the table \<open>telegram_intent_interactions\<close> of
  \<open>db/models/core.py\<close>: the one shared draft of the group. The timestamps of the row's mixin are read by
  nobody and left out. The partial unique index allows one open interaction per chat.
\<close>

section \<open>Rows\<close>

record interaction_row =
  tl_id :: uuid
  tl_owner_user_id :: uuid
  tl_chat_id :: string
  tl_bot_message_id :: "int option"
  tl_kind :: interaction_kind
  tl_capability_id :: capability_id
  tl_strategy :: strategy
  tl_payload :: payload
  tl_missing_fields :: "missing_field list"
  tl_attempts :: int
  tl_status :: interaction_status
  tl_expires_at :: datetime
  tl_confirmed_at :: "datetime option"
  tl_created_trade_intent_id :: "uuid option"

type_synonym interactions = "interaction_row list"

definition is_open :: "interaction_row \<Rightarrow> bool" where
  "is_open r \<longleftrightarrow> tl_status r \<in> {ia_pending, ia_confirming}"

section \<open>Operations\<close>

definition find_pending_for_chat :: "string \<Rightarrow> interactions \<Rightarrow> exn + interaction_row option" where
  "find_pending_for_chat chat rows = one_or_none (filter (\<lambda>r. tl_chat_id r = chat \<and> is_open r) rows)"

definition interaction_by_id :: "uuid \<Rightarrow> string \<Rightarrow> interactions \<Rightarrow> exn + interaction_row option" where
  "interaction_by_id i chat rows = one_or_none (filter (\<lambda>r. tl_id r = i \<and> tl_chat_id r = chat) rows)"

text \<open>The fields a decision determines, written by \<open>create\<close> and by \<open>update_pending\<close>.\<close>

record interaction_fields =
  tf_kind :: interaction_kind
  tf_capability_id :: capability_id
  tf_strategy :: strategy
  tf_payload :: payload
  tf_missing_fields :: "missing_field list"
  tf_attempts :: int
  tf_expires_at :: datetime

definition new_interaction :: "uuid \<Rightarrow> uuid \<Rightarrow> string \<Rightarrow> interaction_fields \<Rightarrow> interaction_row" where
  "new_interaction i owner chat f =
     \<lparr>tl_id = i, tl_owner_user_id = owner, tl_chat_id = chat, tl_bot_message_id = None, tl_kind = tf_kind f,
      tl_capability_id = tf_capability_id f, tl_strategy = tf_strategy f, tl_payload = tf_payload f,
      tl_missing_fields = tf_missing_fields f, tl_attempts = tf_attempts f, tl_status = ia_pending,
      tl_expires_at = tf_expires_at f, tl_confirmed_at = None, tl_created_trade_intent_id = None\<rparr>"

definition create_interaction ::
  "uuid list \<Rightarrow> uuid \<Rightarrow> uuid \<Rightarrow> string \<Rightarrow> interaction_fields \<Rightarrow> interactions \<Rightarrow> exn + interaction_row \<times> interactions" where
  "create_interaction users i owner chat f rows =
     (let r = new_interaction i owner chat f
      in if i \<in> tl_id ` set rows then Inl (ExIntegrity pk_violation)
         else if owner \<notin> set users then Inl (ExIntegrity fk_violation)
         else if tl_strategy r \<notin> {limit_buy_order, limit_sell_order, market_buy_order, market_sell_order}
         then Inl (ExIntegrity (check_violation ''telegram_intent_interaction_strategy''))
         else if tl_attempts r < 0
         then Inl (ExIntegrity (check_violation ''telegram_intent_interaction_attempt_count''))
         else if list_ex (\<lambda>q. is_open q \<and> tl_chat_id q = chat) rows
         then Inl (ExIntegrity (uq_other ''uq_telegram_intent_interactions_chat_pending''))
         else Inr (r, rows @ [r]))"

definition set_fields :: "interaction_fields \<Rightarrow> interaction_row \<Rightarrow> interaction_row" where
  "set_fields f r = r\<lparr>tl_kind := tf_kind f, tl_capability_id := tf_capability_id f, tl_strategy := tf_strategy f,
     tl_payload := tf_payload f, tl_missing_fields := tf_missing_fields f, tl_attempts := tf_attempts f,
     tl_expires_at := tf_expires_at f\<rparr>"

definition pending_in :: "uuid \<Rightarrow> string \<Rightarrow> interaction_row \<Rightarrow> bool" where
  "pending_in i chat r \<longleftrightarrow> tl_id r = i \<and> tl_chat_id r = chat \<and> tl_status r = ia_pending"

definition update_pending ::
  "uuid \<Rightarrow> string \<Rightarrow> interaction_fields \<Rightarrow> interactions \<Rightarrow> exn + interaction_row option \<times> interactions" where
  "update_pending i chat f rows =
     (let rows' = upd_where (pending_in i chat) (set_fields f) rows
      in if count_where (pending_in i chat) rows \<noteq> 1 then Inr (None, rows')
         else r_bind (interaction_by_id i chat rows') (\<lambda>r. Inr (r, rows')))"

text \<open>The column of the message identifier is a 32-bit integer.\<close>

definition attach_bot_message_id :: "uuid \<Rightarrow> string \<Rightarrow> int \<Rightarrow> interactions \<Rightarrow> exn + bool \<times> interactions" where
  "attach_bot_message_id i chat message_id rows =
     (let hit = (\<lambda>r. tl_id r = i \<and> tl_chat_id r = chat)
      in if count_where hit rows \<noteq> 0 \<and> \<not> pg_integer message_id then Inl ExNumericRange
         else Inr (count_where hit rows = 1, upd_where hit (\<lambda>r. r\<lparr>tl_bot_message_id := Some message_id\<rparr>) rows))"

definition mark_status :: "uuid \<Rightarrow> interaction_status \<Rightarrow> string \<Rightarrow> interactions \<Rightarrow> bool \<times> interactions" where
  "mark_status i status chat rows =
     (count_where (pending_in i chat) rows = 1,
      upd_where (pending_in i chat) (\<lambda>r. r\<lparr>tl_status := status\<rparr>) rows)"

definition claim_confirming :: "uuid \<Rightarrow> string \<Rightarrow> interactions \<Rightarrow> bool \<times> interactions" where
  "claim_confirming i chat rows =
     (count_where (pending_in i chat) rows = 1,
      upd_where (pending_in i chat) (\<lambda>r. r\<lparr>tl_status := ia_confirming\<rparr>) rows)"

definition confirming_in :: "uuid \<Rightarrow> string \<Rightarrow> interaction_row \<Rightarrow> bool" where
  "confirming_in i chat r \<longleftrightarrow> tl_id r = i \<and> tl_chat_id r = chat \<and> tl_status r = ia_confirming"

definition set_confirmed :: "datetime \<Rightarrow> uuid \<Rightarrow> interaction_row \<Rightarrow> interaction_row" where
  "set_confirmed confirmed_at intent_id r =
     r\<lparr>tl_status := ia_confirmed, tl_confirmed_at := Some confirmed_at, tl_created_trade_intent_id := Some intent_id\<rparr>"

text \<open>The reference to \<open>trade_intent_core\<close> is checked for the rows the update touches.\<close>

definition mark_confirmed ::
  "uuid list \<Rightarrow> uuid \<Rightarrow> string \<Rightarrow> datetime \<Rightarrow> uuid \<Rightarrow> interactions \<Rightarrow> exn + bool \<times> interactions" where
  "mark_confirmed intents i chat confirmed_at intent_id rows =
     (if intent_id \<notin> set intents \<and> count_where (confirming_in i chat) rows \<noteq> 0 then Inl (ExIntegrity fk_violation)
      else Inr (count_where (confirming_in i chat) rows = 1,
                upd_where (confirming_in i chat) (set_confirmed confirmed_at intent_id) rows))"

end
