(* ===== verification/Telegram_Buttons.thy ===== *)
theory Telegram_Buttons
  imports Telegram_Domain Py_Text
begin

text \<open>
  The inline buttons of \<open>commands/telegram_intent.py\<close>: the keyboards a reply carries and the reading of the
  callback data a pressed button sends back.
\<close>

section \<open>Keyboards and callbacks\<close>

datatype button_label = btn_cancel | btn_confirm

type_synonym keyboard = "(button_label \<times> string) list list"

datatype callback_action = act_confirm | act_cancel

definition action_value :: "callback_action \<Rightarrow> string" where
  "action_value a = (case a of act_confirm \<Rightarrow> ''confirm'' | act_cancel \<Rightarrow> ''cancel'')"

definition callback_data :: "callback_action \<Rightarrow> uuid \<Rightarrow> string" where
  "callback_data a i = ''tg_intent:'' @ action_value a @ '':'' @ uuid_str i"

definition cancel_markup :: "uuid \<Rightarrow> keyboard" where
  "cancel_markup i = [[(btn_cancel, callback_data act_cancel i)]]"

definition confirmation_markup :: "uuid \<Rightarrow> keyboard" where
  "confirmation_markup i = [[(btn_confirm, callback_data act_confirm i), (btn_cancel, callback_data act_cancel i)]]"

definition parse_callback_data :: "string \<Rightarrow> (callback_action \<times> uuid) option" where
  "parse_callback_data data = (case split_on (CHR '':'') data of
      [a, b, c] \<Rightarrow>
        if a \<noteq> ''tg_intent'' then None
        else if b = ''confirm'' then map_option (Pair act_confirm) (uuid_of_string c)
        else if b = ''cancel'' then map_option (Pair act_cancel) (uuid_of_string c)
        else None
    | _ \<Rightarrow> None)"

section \<open>A pressed button is read back\<close>

lemma parse_button:
  assumes "i < 2 ^ 128"
  shows "parse_callback_data (callback_data a i) = Some (a, i)"
proof -
  have u: "CHR '':'' \<notin> set (uuid_str i)" using uuid_str_chars [of i] by (auto simp: list_all_iff dest: is_hex_plain(1))
  have "split_on (CHR '':'') (callback_data a i) = [''tg_intent'', action_value a, uuid_str i]"
    using split_on_append [of "CHR '':''" "''tg_intent''" "action_value a @ '':'' @ uuid_str i"]
      split_on_append [of "CHR '':''" "action_value a" "uuid_str i"] split_on_absent [OF u]
    by (simp add: callback_data_def action_value_def split: callback_action.split)
  then show ?thesis
    by (cases a) (simp_all add: parse_callback_data_def action_value_def uuid_of_uuid_str [OF assms])
qed

end
