(* ===== verification/Telegram_Commands.thy ===== *)
theory Telegram_Commands
  imports Telegram_Store Telegram_Buttons Core_Commands Identity_Store
begin

text \<open>
  \<open>commands/telegram_intent.py\<close> and the webhook of \<open>api/routes/telegram.py\<close>: the conversation that turns a
  message of the group into a draft and a pressed button into an order. The interactions and the orders share
  one database session, so that the commit inside the create command commits the claim of the draft and
  its rollback undoes it; the table of interactions is therefore a \<open>session\<close> here. The language model and
  the bot's answers are arguments; a reply's text is a symbol with the values it shows.
\<close>

section \<open>Replies\<close>

datatype clarification = ask_quantity_and_price | ask_quantity | ask_price | ask_symbol | ask_everything

text \<open>Label, symbol, quantity and, unless it is a market order, the price.\<close>

type_synonym shown_lines = "json \<times> json \<times> json \<times> json option"

datatype reply_text = LLM_FAILURE_REPLY | EXPIRED_REPLY | CANCELLED_REPLY | ALREADY_CONFIRMED_REPLY | CONFIRMING_REPLY
  | FIELD_ERROR_REPLY | UNSUPPORTED_REPLY | USER_PAGE_ERROR_REPLY | DUPLICATE_INTENT_REPLY
  | CURRENT_DRAFT_REPLY reply_text | ConfirmationText shown_lines | CreatedText shown_lines
  | ClarificationText clarification

record telegram_reply =
  tr_chat_id :: string
  tr_text :: reply_text
  tr_reply_markup :: "keyboard option"
  tr_interaction_id :: "uuid option"
  tr_bot_message_id :: "int option"

definition plain_reply :: "string \<Rightarrow> reply_text \<Rightarrow> telegram_reply" where
  "plain_reply chat t =
     \<lparr>tr_chat_id = chat, tr_text = t, tr_reply_markup = None, tr_interaction_id = None, tr_bot_message_id = None\<rparr>"

definition reply_about :: "string \<Rightarrow> reply_text \<Rightarrow> interaction_row \<Rightarrow> telegram_reply" where
  "reply_about chat t i = (plain_reply chat t)\<lparr>tr_interaction_id := Some (tl_id i)\<rparr>"

definition payload_item :: "string \<Rightarrow> payload \<Rightarrow> exn + json" where
  "payload_item k p = (case map_of p k of None \<Rightarrow> Inl (ExKey k) | Some v \<Rightarrow> Inr v)"

definition payload_lines :: "payload \<Rightarrow> exn + shown_lines" where
  "payload_lines p =
     r_bind (payload_item ''typeLabel'' p) (\<lambda>label.
     r_bind (payload_item ''symbol'' p) (\<lambda>symbol.
     r_bind (payload_item ''quantityLots'' p) (\<lambda>quantity.
     Inr (label, symbol, quantity, map_of p ''targetPrice''))))"

definition confirmation_text :: "payload \<Rightarrow> exn + reply_text" where
  "confirmation_text p = r_bind (payload_lines p) (\<lambda>l. Inr (ConfirmationText l))"

definition created_reply :: "payload \<Rightarrow> exn + reply_text" where
  "created_reply p = r_bind (payload_lines p) (\<lambda>l. Inr (CreatedText l))"

definition clarification_reply :: "missing_field list \<Rightarrow> reply_text" where
  "clarification_reply missing = ClarificationText
     (if mf_quantityLots \<in> set missing \<and> mf_targetPrice \<in> set missing then ask_quantity_and_price
      else if mf_quantityLots \<in> set missing then ask_quantity
      else if mf_targetPrice \<in> set missing then ask_price
      else if mf_symbol \<in> set missing then ask_symbol
      else ask_everything)"

section \<open>Payloads\<close>

definition payload_from_decision :: "telegram_intent_decision \<Rightarrow> capability_id \<Rightarrow> payload option \<Rightarrow> payload" where
  "payload_from_decision d c previous =
     (let p0 = (case previous of None \<Rightarrow> [] | Some p \<Rightarrow> p);
          p1 = AList.update ''typeLabel'' (JStr (CAPABILITY_LABELS c))
                 (AList.update ''strategy'' (JStr (strategy_value c))
                   (AList.update ''capabilityId'' (JStr (capability_value c)) p0));
          p2 = (case td_symbol d of None \<Rightarrow> p1 | Some s \<Rightarrow> AList.update ''symbol'' (JStr s) p1);
          p3 = (case td_quantity_lots d of None \<Rightarrow> p2 | Some q \<Rightarrow> AList.update ''quantityLots'' (JInt q) p2)
      in case td_target_price d of
           Some t \<Rightarrow> AList.update ''targetPrice'' (JStr (dec_str t)) p3
         | None \<Rightarrow> if c \<in> MARKET_CAPABILITIES then AList.delete ''targetPrice'' p3 else p3)"

text \<open>\<open>payload.get(k)\<close>; a missing key and a null both read as \<open>None\<close>.\<close>

definition payload_get :: "string \<Rightarrow> payload \<Rightarrow> json option" where
  "payload_get k p = (case map_of p k of Some JNull \<Rightarrow> None | v \<Rightarrow> v)"

text \<open>A capability that is a list or an object cannot be looked up in a dictionary: \<open>TypeError\<close>.\<close>

definition create_input_from_payload :: "payload \<Rightarrow> uuid \<Rightarrow> exn + create_trade_intent_input" where
  "create_input_from_payload p owner =
     (case payload_get ''capabilityId'' p of
        Some (JList _) \<Rightarrow> Inl ExType
      | Some (JObj _) \<Rightarrow> Inl ExType
      | Some (JStr cv) \<Rightarrow>
          (case capability_of cv of
             None \<Rightarrow> Inl ExValue
           | Some c \<Rightarrow>
               (case (payload_get ''strategy'' p, payload_get ''symbol'' p, payload_get ''quantityLots'' p) of
                  (Some (JStr sv), Some (JStr symbol), Some (JInt q)) \<Rightarrow>
                    if sv \<noteq> strategy_value c \<or> q \<le> 0 then Inl ExValue
                    else (case payload_get ''targetPrice'' p of
                            None \<Rightarrow>
                              if c \<in> LIMIT_CAPABILITIES then Inl ExValue
                              else Inr \<lparr>ci_symbol = symbol, ci_strategy = CAPABILITY_TO_NOTIFY_ONLY_STRATEGY c,
                                     ci_quantity_lots = q, ci_owner_user_id = owner, ci_target_price = None,
                                     ci_transaction_mode = CAPABILITY_TO_TRANSACTION_MODE c, ci_notification_mode = ''single'',
                                     ci_trail_mode = None, ci_trail_value = None\<rparr>
                          | Some (JStr t) \<Rightarrow>
                              if c \<in> MARKET_CAPABILITIES then Inl ExValue
                              else Inr \<lparr>ci_symbol = symbol, ci_strategy = CAPABILITY_TO_NOTIFY_ONLY_STRATEGY c,
                                     ci_quantity_lots = q, ci_owner_user_id = owner, ci_target_price = Some t,
                                     ci_transaction_mode = CAPABILITY_TO_TRANSACTION_MODE c, ci_notification_mode = ''single'',
                                     ci_trail_mode = None, ci_trail_value = None\<rparr>
                          | Some _ \<Rightarrow> Inl ExValue)
                | _ \<Rightarrow> Inl ExValue))
      | _ \<Rightarrow> Inl ExValue)"

section \<open>Messages\<close>

record telegram_settings =
  tc_telegram_chat_id :: "string option"
  tc_telegram_owner_email :: string
  tc_telegram_webhook_secret :: "string option"

definition INTERACTION_TTL :: datetime where
  "INTERACTION_TTL = seconds 300"

definition configured_chat :: "telegram_settings \<Rightarrow> string" where
  "configured_chat st = strip (case tc_telegram_chat_id st of None \<Rightarrow> '''' | Some s \<Rightarrow> s)"

definition chat_is_allowed :: "telegram_settings \<Rightarrow> string \<Rightarrow> bool" where
  "chat_is_allowed st chat \<longleftrightarrow> configured_chat st \<noteq> '''' \<and> chat = configured_chat st"

definition resolve_owner_user_id :: "telegram_settings \<Rightarrow> ident_db \<Rightarrow> exn + uuid option" where
  "resolve_owner_user_id st ident =
     r_bind (user_by_email (tc_telegram_owner_email st) ident) (\<lambda>u.
       Inr (case u of None \<Rightarrow> None | Some r \<Rightarrow> if us_status r = st_active then Some (us_id r) else None))"

text \<open>\<open>Decimal(str(previous_price)) != price\<close>, an unreadable price counting as different.\<close>

definition price_differs :: "json option \<Rightarrow> decimal \<Rightarrow> bool" where
  "price_differs previous price =
     (case (case previous of
              Some (JStr s) \<Rightarrow> dec_of_string s
            | Some (JInt i) \<Rightarrow> dec_of_string (int_str i)
            | Some (JFloat s) \<Rightarrow> dec_of_string s
            | _ \<Rightarrow> None) of
        Some (PFinite d) \<Rightarrow> \<not> dec_eq d price
      | _ \<Rightarrow> True)"

definition is_different_request :: "interaction_row \<Rightarrow> telegram_intent_decision \<Rightarrow> bool" where
  "is_different_request pending d =
     (if td_capability_id d \<noteq> Some (tl_capability_id pending) then True
      else if (case (payload_get ''symbol'' (tl_payload pending), td_symbol d) of
                 (Some (JStr s), Some s') \<Rightarrow> s \<noteq> s' | _ \<Rightarrow> False) then True
      else if tl_kind pending \<noteq> kind_draft then False
      else if td_decision d \<noteq> dt_draft_intent then True
      else if (case td_quantity_lots d of
                 None \<Rightarrow> False | Some q \<Rightarrow> payload_get ''quantityLots'' (tl_payload pending) \<noteq> Some (JInt q)) then True
      else (case td_target_price d of
              None \<Rightarrow> False | Some t \<Rightarrow> price_differs (payload_get ''targetPrice'' (tl_payload pending)) t))"

definition current_draft_reply :: "string \<Rightarrow> interaction_row \<Rightarrow> exn + telegram_reply" where
  "current_draft_reply chat pending =
     r_bind (if tl_kind pending = kind_draft
             then r_bind (confirmation_text (tl_payload pending)) (\<lambda>t. Inr (t, confirmation_markup (tl_id pending)))
             else Inr (clarification_reply (tl_missing_fields pending), cancel_markup (tl_id pending))) (\<lambda>(t, markup).
       Inr \<lparr>tr_chat_id = chat, tr_text = CURRENT_DRAFT_REPLY t, tr_reply_markup = Some markup,
            tr_interaction_id = Some (tl_id pending), tr_bot_message_id = tl_bot_message_id pending\<rparr>)"

definition saved_fields ::
  "interaction_row option \<Rightarrow> telegram_intent_decision \<Rightarrow> capability_id \<Rightarrow> interaction_kind \<Rightarrow> missing_field list \<Rightarrow> datetime \<Rightarrow>
   interaction_fields" where
  "saved_fields pending d c kind missing now =
     \<lparr>tf_kind = kind, tf_capability_id = c, tf_strategy = CAPABILITY_TO_NOTIFY_ONLY_STRATEGY c,
      tf_payload = payload_from_decision d c (map_option tl_payload pending), tf_missing_fields = missing,
      tf_attempts = (case pending of None \<Rightarrow> 1 | Some r \<Rightarrow> tl_attempts r + 1), tf_expires_at = now + INTERACTION_TTL\<rparr>"

definition save_interaction ::
  "uuid list \<Rightarrow> uuid \<Rightarrow> uuid \<Rightarrow> string \<Rightarrow> interaction_row option \<Rightarrow> telegram_intent_decision \<Rightarrow> capability_id \<Rightarrow>
   interaction_kind \<Rightarrow> missing_field list \<Rightarrow> datetime \<Rightarrow> interactions \<Rightarrow> exn + telegram_reply \<times> interactions" where
  "save_interaction users new_id owner chat pending d c kind missing now rows =
     (let f = saved_fields pending d c kind missing now
      in r_bind (case pending of None \<Rightarrow> Inr (None, rows) | Some r \<Rightarrow> update_pending (tl_id r) chat f rows) (\<lambda>(updated, rows1).
         r_bind (case updated of
                   Some i \<Rightarrow> Inr (i, rows1)
                 | None \<Rightarrow> create_interaction users new_id owner chat f rows1) (\<lambda>(i, rows2).
         r_bind (if kind = kind_clarification then Inr (clarification_reply missing, cancel_markup (tl_id i))
                 else r_bind (confirmation_text (tf_payload f)) (\<lambda>t. Inr (t, confirmation_markup (tl_id i)))) (\<lambda>(t, markup).
         Inr (\<lparr>tr_chat_id = chat, tr_text = t, tr_reply_markup = Some markup, tr_interaction_id = Some (tl_id i),
               tr_bot_message_id = tl_bot_message_id i\<rparr>, rows2)))))"

text \<open>The errors \<open>except (SymbolError, ValueError)\<close> catches: every price error but the decimal
  module's own, which is an \<open>ArithmeticError\<close>.\<close>

definition is_symbol_or_value_error :: "exn \<Rightarrow> bool" where
  "is_symbol_or_value_error e = (case e of
      ExSymbol _ \<Rightarrow> True
    | ExValue \<Rightarrow> True
    | ExPrice (PriceArithmetic _) \<Rightarrow> False
    | ExPrice _ \<Rightarrow> True
    | _ \<Rightarrow> False)"

definition check_tradable :: "string \<Rightarrow> int \<Rightarrow> decimal option \<Rightarrow> core_db \<Rightarrow> exn + unit" where
  "check_tradable symbol q target_price db =
     r_bind (get_tradable_symbol symbol db) (\<lambda>r.
       case security_type_of (sy_instrument_type r) of
         None \<Rightarrow> Inl ExValue
       | Some st \<Rightarrow>
           (case target_price of
              None \<Rightarrow> Inr ()
            | Some t \<Rightarrow> r_bind (lift_ex ExPrice (validate \<lparr>pr_type = st, pr_price = dec_str t, pr_amount = q\<rparr>)) (\<lambda>_. Inr ())))"

definition validate_decision :: "telegram_intent_decision \<Rightarrow> core_db \<Rightarrow> exn + reply_text option" where
  "validate_decision d db =
     (case (td_capability_id d, td_symbol d, td_quantity_lots d) of
        (None, _, _) \<Rightarrow> Inr (Some UNSUPPORTED_REPLY)
      | (Some c, Some symbol, Some q) \<Rightarrow>
          if symbol = '''' \<or> \<not> list_all is_digit symbol then Inr (Some FIELD_ERROR_REPLY)
          else if q \<le> 0 then Inr (Some FIELD_ERROR_REPLY)
          else if c \<in> LIMIT_CAPABILITIES \<and> td_target_price d = None then Inr (Some FIELD_ERROR_REPLY)
          else if c \<in> MARKET_CAPABILITIES \<and> td_target_price d \<noteq> None then Inr (Some FIELD_ERROR_REPLY)
          else (case check_tradable symbol q (if c \<in> LIMIT_CAPABILITIES then td_target_price d else None) db of
                  Inr _ \<Rightarrow> Inr None
                | Inl e \<Rightarrow> if is_symbol_or_value_error e then Inr (Some USER_PAGE_ERROR_REPLY) else Inl e)
      | _ \<Rightarrow> Inr (Some FIELD_ERROR_REPLY))"

datatype bot_call = AnswerCallback string | EditMessage string int reply_text "keyboard option"
  | SendMessage string reply_text "keyboard option"

text \<open>
  One request: settings, the language model, what the bot's calls answer (a failed edit is \<open>False\<close>, a failed
  send \<open>None\<close>), the collaborators of the create command, the clocks and the fresh identifiers.
\<close>

record 'p telegram_env =
  te_settings :: telegram_settings
  te_decide :: decider
  te_edit :: "bot_call \<Rightarrow> bool"
  te_send :: "bot_call \<Rightarrow> int option"
  te_ops :: "'p quote_ops"
  te_halted :: bool
  te_limits :: "intent_limits option"
  te_now :: datetime
  te_session_now :: datetime
  te_tx_now :: datetime
  te_interaction_id :: uuid
  te_intent_id :: uuid
  te_trigger_id :: uuid
  te_notification_id :: uuid

text \<open>The decision on a message, given the interaction that is still pending.\<close>

definition act_on_decision ::
  "'p telegram_env \<Rightarrow> uuid list \<Rightarrow> uuid \<Rightarrow> string \<Rightarrow> interaction_row option \<Rightarrow> telegram_intent_decision \<Rightarrow> core_db \<Rightarrow>
   interactions \<Rightarrow> exn + telegram_reply option \<times> interactions" where
  "act_on_decision env users owner chat pending d db rows =
     (let current = (case pending of
            None \<Rightarrow> Inr (None, rows)
          | Some i \<Rightarrow> r_bind (current_draft_reply chat i) (\<lambda>r. Inr (Some r, rows)));
          save = (\<lambda>c kind missing.
            r_bind (save_interaction users (te_interaction_id env) owner chat pending d c kind missing (te_now env) rows)
              (\<lambda>(r, rows'). Inr (Some r, rows')))
      in if td_decision d = dt_unsupported then Inr (None, rows)
         else if td_decision d = dt_ambiguous then current
         else case td_capability_id d of
                None \<Rightarrow> current
              | Some c \<Rightarrow>
                  if (case pending of None \<Rightarrow> False | Some i \<Rightarrow> is_different_request i d) then current
                  else if td_decision d = dt_needs_clarification then save c kind_clarification (td_missing_fields d)
                  else r_bind (validate_decision d db) (\<lambda>err.
                    case err of
                      Some t \<Rightarrow> Inr (Some (plain_reply chat t), rows)
                    | None \<Rightarrow> save c kind_draft []))"

definition decide_on_message ::
  "'p telegram_env \<Rightarrow> ident_db \<Rightarrow> uuid \<Rightarrow> string \<Rightarrow> string \<Rightarrow> interaction_row option \<Rightarrow> core_db \<Rightarrow> interactions \<Rightarrow>
   exn + telegram_reply option \<times> interactions" where
  "decide_on_message env ident owner chat msg found db rows =
     (let lapsed = (case found of None \<Rightarrow> False | Some i \<Rightarrow> tl_expires_at i \<le> te_now env);
          rows1 = (case found of
            None \<Rightarrow> rows | Some i \<Rightarrow> if lapsed then snd (mark_status (tl_id i) ia_expired chat rows) else rows);
          pending = (if lapsed then None else found)
      in case te_decide env msg (map_option tl_capability_id pending) (map_option tl_payload pending) of
           None \<Rightarrow> Inr (Some (plain_reply chat LLM_FAILURE_REPLY), rows1)
         | Some d \<Rightarrow> act_on_decision env (map us_id (id_users ident)) owner chat pending d db rows1)"

definition handle_message ::
  "'p telegram_env \<Rightarrow> ident_db \<Rightarrow> string \<Rightarrow> string \<Rightarrow> core_db \<Rightarrow> interactions \<Rightarrow>
   exn + telegram_reply option \<times> interactions" where
  "handle_message env ident chat msg db rows =
     (if \<not> chat_is_allowed (te_settings env) chat then Inr (None, rows)
      else r_bind (resolve_owner_user_id (te_settings env) ident) (\<lambda>owner_user_id.
        case owner_user_id of
          None \<Rightarrow> Inr (None, rows)
        | Some owner \<Rightarrow>
            r_bind (find_pending_for_chat chat rows) (\<lambda>found.
              case found of
                None \<Rightarrow> decide_on_message env ident owner chat msg None db rows
              | Some i \<Rightarrow>
                  if tl_status i = ia_confirming
                  then Inr (Some \<lparr>tr_chat_id = chat, tr_text = CONFIRMING_REPLY, tr_reply_markup = Some [],
                         tr_interaction_id = Some (tl_id i), tr_bot_message_id = tl_bot_message_id i\<rparr>, rows)
                  else decide_on_message env ident owner chat msg (Some i) db rows)))"

section \<open>Callbacks\<close>

record 'p tg_state =
  gs_rows :: "interactions session"
  gs_core :: core_db
  gs_provider :: 'p
  gs_sent :: "notification_row list"

definition set_rows :: "interactions \<Rightarrow> 'p tg_state \<Rightarrow> 'p tg_state" where
  "set_rows rows s = s\<lparr>gs_rows := (gs_rows s)\<lparr>ss_working := rows\<rparr>\<rparr>"

abbreviation working :: "'p tg_state \<Rightarrow> interactions" where
  "working s \<equiv> ss_working (gs_rows s)"

definition is_duplicate_intent :: "exn \<Rightarrow> bool" where
  "is_duplicate_intent e = (case e of ExIntent (DuplicateIntentError _ _ _) \<Rightarrow> True | _ \<Rightarrow> False)"

type_synonym 'p callback_outcome = "(exn + telegram_reply option) \<times> 'p tg_state"

text \<open>What follows the create command, whether it returned or raised.\<close>

definition after_create ::
  "'p telegram_env \<Rightarrow> string \<Rightarrow> interaction_row \<Rightarrow> exn + trade_intent_data \<Rightarrow> 'p tg_state \<Rightarrow> 'p callback_outcome" where
  "after_create env chat i result s = (case result of
      Inl e \<Rightarrow>
        if is_duplicate_intent e
        then (Inr (Some (reply_about chat DUPLICATE_INTENT_REPLY i)),
              set_rows (snd (mark_status (tl_id i) ia_cancelled chat (working s))) s)
        else (Inr (Some (reply_about chat USER_PAGE_ERROR_REPLY i)), s)
    | Inr intent \<Rightarrow>
        (case mark_confirmed (map c_id (db_core (gs_core s))) (tl_id i) chat (te_now env) (ti_id intent) (working s) of
           Inl e \<Rightarrow> (Inl e, s)
         | Inr (won, rows) \<Rightarrow>
             if \<not> won
             then (case interaction_by_id (tl_id i) chat rows of
                     Inl e \<Rightarrow> (Inl e, set_rows rows s)
                   | Inr _ \<Rightarrow> (Inr (Some (reply_about chat ALREADY_CONFIRMED_REPLY i)), set_rows rows s))
             else (case created_reply (tl_payload i) of
                     Inl e \<Rightarrow> (Inl e, set_rows rows s)
                   | Inr t \<Rightarrow> (Inr (Some ((reply_about chat t i)\<lparr>tr_bot_message_id := tl_bot_message_id i\<rparr>)), set_rows rows s))))"

text \<open>The claimed draft is turned into an order by the create command, whose commit or rollback is
  also that of the claim.\<close>

definition create_claimed ::
  "'p telegram_env \<Rightarrow> string \<Rightarrow> interaction_row \<Rightarrow> create_trade_intent_input \<Rightarrow> 'p tg_state \<Rightarrow> 'p callback_outcome" where
  "create_claimed env chat i inp s =
     (case create_tx (te_ops env) (te_halted env) (te_limits env) (te_tx_now env) (te_intent_id env) (te_trigger_id env)
             (te_notification_id env) (te_session_now env) inp (gs_provider s) (gs_core s) of
        (Inl e, p) \<Rightarrow> after_create env chat i (Inl e) (s\<lparr>gs_rows := ss_rollback (gs_rows s), gs_provider := p\<rparr>)
      | (Inr (intent_id, db, sent), p) \<Rightarrow>
          after_create env chat i (find_by_id intent_id (ci_owner_user_id inp) db)
            (s\<lparr>gs_rows := ss_commit (gs_rows s), gs_core := db, gs_provider := p, gs_sent := gs_sent s @ sent\<rparr>))"

definition confirm_draft :: "'p telegram_env \<Rightarrow> string \<Rightarrow> interaction_row \<Rightarrow> 'p tg_state \<Rightarrow> 'p callback_outcome" where
  "confirm_draft env chat i s =
     (case create_input_from_payload (tl_payload i) (tl_owner_user_id i) of
        Inl e \<Rightarrow> if e = ExValue then (Inr (Some (reply_about chat FIELD_ERROR_REPLY i)), s) else (Inl e, s)
      | Inr inp \<Rightarrow>
          (case claim_confirming (tl_id i) chat (working s) of
             (claimed, rows) \<Rightarrow>
               if claimed then create_claimed env chat i inp (set_rows rows s)
               else (case interaction_by_id (tl_id i) chat rows of
                       Inl e \<Rightarrow> (Inl e, set_rows rows s)
                     | Inr cur \<Rightarrow>
                         (Inr (Some (reply_about chat
                            (if (case cur of None \<Rightarrow> False | Some r \<Rightarrow> tl_status r = ia_confirming)
                             then CONFIRMING_REPLY else ALREADY_CONFIRMED_REPLY) i)), set_rows rows s))))"

definition handle_callback ::
  "'p telegram_env \<Rightarrow> string \<Rightarrow> string \<Rightarrow> int option \<Rightarrow> 'p tg_state \<Rightarrow> 'p callback_outcome" where
  "handle_callback env chat data message_id s =
     (if \<not> chat_is_allowed (te_settings env) chat then (Inr None, s)
      else case parse_callback_data data of
        None \<Rightarrow> (Inr (Some (plain_reply chat UNSUPPORTED_REPLY)), s)
      | Some (action, interaction_id) \<Rightarrow>
          (case interaction_by_id interaction_id chat (working s) of
             Inl e \<Rightarrow> (Inl e, s)
           | Inr None \<Rightarrow> (Inr (Some (plain_reply chat EXPIRED_REPLY)), s)
           | Inr (Some i) \<Rightarrow>
               if tl_bot_message_id i = None \<or> message_id \<noteq> tl_bot_message_id i then (Inr None, s)
               else if tl_status i = ia_confirming then (Inr (Some (reply_about chat CONFIRMING_REPLY i)), s)
               else if tl_status i = ia_confirmed then (Inr (Some (plain_reply chat ALREADY_CONFIRMED_REPLY)), s)
               else if tl_status i = ia_expired then (Inr (Some (plain_reply chat EXPIRED_REPLY)), s)
               else if tl_status i \<noteq> ia_pending then (Inr (Some (plain_reply chat CANCELLED_REPLY)), s)
               else if tl_expires_at i \<le> te_now env
               then (Inr (Some (plain_reply chat EXPIRED_REPLY)),
                     set_rows (snd (mark_status (tl_id i) ia_expired chat (working s))) s)
               else if action = act_cancel
               then (case mark_status (tl_id i) ia_cancelled chat (working s) of
                       (ok, rows) \<Rightarrow>
                         (Inr (Some (if ok then reply_about chat CANCELLED_REPLY i else plain_reply chat CANCELLED_REPLY)),
                          set_rows rows s))
               else if tl_kind i \<noteq> kind_draft then (Inr (Some (reply_about chat UNSUPPORTED_REPLY i)), s)
               else confirm_draft env chat i s))"

section \<open>The webhook\<close>

record telegram_message =
  tm_message_id :: int
  tm_chat :: string
  tm_text :: "string option"
  tm_from_bot :: "bool option"

record telegram_callback_query =
  cq_id :: "string option"
  cq_data :: "string option"
  cq_message :: "telegram_message option"
  cq_from_bot :: "bool option"

record telegram_update =
  up_message :: "telegram_message option"
  up_callback_query :: "telegram_callback_query option"

datatype webhook_answer = NotHandled | Handled telegram_reply

definition verify_secret :: "string option \<Rightarrow> string option \<Rightarrow> exn + unit" where
  "verify_secret actual expected_secret =
     (if expected_secret \<in> {None, Some ''''} \<or> actual \<in> {None, Some ''''} \<or> actual \<noteq> expected_secret
      then Inl (ExApi FORBIDDEN 403) else Inr ())"

definition update_chat_id :: "telegram_update \<Rightarrow> string option" where
  "update_chat_id u =
     (case (case up_callback_query u of None \<Rightarrow> None | Some cb \<Rightarrow> cq_message cb) of
        Some m \<Rightarrow> Some (tm_chat m)
      | None \<Rightarrow> map_option tm_chat (up_message u))"

definition handle_callback_update ::
  "'p telegram_env \<Rightarrow> telegram_callback_query \<Rightarrow> 'p tg_state \<Rightarrow> 'p callback_outcome" where
  "handle_callback_update env cb s = (case (cq_message cb, cq_data cb) of
      (Some m, Some data) \<Rightarrow> handle_callback env (tm_chat m) data (Some (tm_message_id m)) s
    | _ \<Rightarrow> (Inr None, s))"

definition deliver_message_reply ::
  "'p telegram_env \<Rightarrow> telegram_reply \<Rightarrow> interactions \<Rightarrow> (exn + interactions) \<times> bot_call list" where
  "deliver_message_reply env r rows =
     (let send = SendMessage (tr_chat_id r) (tr_text r) (tr_reply_markup r);
          sent = (case (tr_interaction_id r, te_send env send) of
            (Some i, Some m) \<Rightarrow> r_bind (attach_bot_message_id i (tr_chat_id r) m rows) (\<lambda>(ok, rows'). Inr rows')
          | _ \<Rightarrow> Inr rows)
      in case tr_bot_message_id r of
           None \<Rightarrow> (sent, [send])
         | Some m \<Rightarrow>
             let edit = EditMessage (tr_chat_id r) m (tr_text r) (tr_reply_markup r)
             in if te_edit env edit then (Inr rows, [edit]) else (sent, [edit, send]))"

definition edit_callback_message :: "telegram_callback_query \<Rightarrow> telegram_reply \<Rightarrow> bot_call list" where
  "edit_callback_message cb r = (case cq_message cb of
      None \<Rightarrow> [] | Some m \<Rightarrow> [EditMessage (tm_chat m) (tm_message_id m) (tr_text r) (Some [])])"

definition commit_rows :: "'p tg_state \<Rightarrow> 'p tg_state" where
  "commit_rows s = s\<lparr>gs_rows := ss_commit (gs_rows s)\<rparr>"

definition rollback_rows :: "'p tg_state \<Rightarrow> 'p tg_state" where
  "rollback_rows s = s\<lparr>gs_rows := ss_rollback (gs_rows s)\<rparr>"

definition webhook_callback ::
  "'p telegram_env \<Rightarrow> telegram_callback_query \<Rightarrow> 'p tg_state \<Rightarrow> (exn + webhook_answer) \<times> 'p tg_state \<times> bot_call list" where
  "webhook_callback env cb s =
     (let from_bot = (cq_from_bot cb = Some True);
          answer = (case cq_id cb of None \<Rightarrow> [] | Some i \<Rightarrow> if from_bot then [] else [AnswerCallback i])
      in if from_bot then (Inr NotHandled, s, answer)
         else case handle_callback_update env cb s of
                (Inl e, s') \<Rightarrow> (Inl e, rollback_rows s', answer)
              | (Inr None, s') \<Rightarrow> (Inr NotHandled, commit_rows s', answer)
              | (Inr (Some r), s') \<Rightarrow> (Inr (Handled r), commit_rows s', answer @ edit_callback_message cb r))"

definition webhook_message ::
  "'p telegram_env \<Rightarrow> ident_db \<Rightarrow> string \<Rightarrow> telegram_message \<Rightarrow> 'p tg_state \<Rightarrow>
   (exn + webhook_answer) \<times> 'p tg_state \<times> bot_call list" where
  "webhook_message env ident chat m s = (case tm_text m of
      None \<Rightarrow> (Inr NotHandled, s, [])
    | Some msg \<Rightarrow>
        if tm_from_bot m = Some True then (Inr NotHandled, s, [])
        else (case handle_message env ident chat msg (gs_core s) (working s) of
                Inl e \<Rightarrow> (Inl e, rollback_rows s, [])
              | Inr (None, rows) \<Rightarrow> (Inr NotHandled, commit_rows (set_rows rows s), [])
              | Inr (Some r, rows) \<Rightarrow>
                  (case deliver_message_reply env r rows of
                     (Inl e, calls) \<Rightarrow> (Inl e, rollback_rows s, calls)
                   | (Inr rows', calls) \<Rightarrow> (Inr (Handled r), commit_rows (set_rows rows' s), calls))))"

definition telegram_webhook ::
  "'p telegram_env \<Rightarrow> ident_db \<Rightarrow> string option \<Rightarrow> telegram_update \<Rightarrow> 'p tg_state \<Rightarrow>
   (exn + webhook_answer) \<times> 'p tg_state \<times> bot_call list" where
  "telegram_webhook env ident secret u s =
     (case verify_secret secret (tc_telegram_webhook_secret (te_settings env)) of
        Inl e \<Rightarrow> (Inl e, s, [])
      | Inr _ \<Rightarrow>
          (case update_chat_id u of
             None \<Rightarrow> (Inr NotHandled, s, [])
           | Some chat \<Rightarrow>
               if configured_chat (te_settings env) = '''' \<or> chat \<noteq> configured_chat (te_settings env)
               then (Inr NotHandled, s, [])
               else (case (up_callback_query u, up_message u) of
                       (Some cb, _) \<Rightarrow> webhook_callback env cb s
                     | (None, None) \<Rightarrow> (Inr NotHandled, s, [])
                     | (None, Some m) \<Rightarrow> webhook_message env ident chat m s)))"

end
