(* ===== verification/Telegram_Invariant.thy ===== *)
theory Telegram_Invariant
  imports Telegram_Commands
begin

text \<open>
  The consistency of the Telegram conversations: one open interaction per chat, drafts that are complete
  orders, and a link from every confirmed interaction to the one order it created. Every repository
  operation keeps it, and moves an interaction's status forwards only.
\<close>

section \<open>Drafts are complete orders\<close>

text \<open>The lines shown of a payload are those of the order it describes.\<close>

definition payload_shows :: "payload \<Rightarrow> create_trade_intent_input \<Rightarrow> bool" where
  "payload_shows p inp \<longleftrightarrow> (\<exists>c. ci_strategy inp = CAPABILITY_TO_NOTIFY_ONLY_STRATEGY c \<and>
     payload_lines p = Inr (JStr (CAPABILITY_LABELS c), JStr (ci_symbol inp), JInt (ci_quantity_lots inp),
       map_option JStr (ci_target_price inp)))"

definition draft_ok :: "interaction_row \<Rightarrow> bool" where
  "draft_ok r \<longleftrightarrow> (\<exists>inp. create_input_from_payload (tl_payload r) (tl_owner_user_id r) = Inr inp \<and>
     payload_shows (tl_payload r) inp)"

lemma payload_from_decision_get:
  "map_of (payload_from_decision d c prev) ''capabilityId'' = Some (JStr (capability_value c))"
  "map_of (payload_from_decision d c prev) ''strategy'' = Some (JStr (strategy_value c))"
  "map_of (payload_from_decision d c prev) ''typeLabel'' = Some (JStr (CAPABILITY_LABELS c))"
  "td_symbol d = Some s \<Longrightarrow> map_of (payload_from_decision d c prev) ''symbol'' = Some (JStr s)"
  "td_quantity_lots d = Some q \<Longrightarrow> map_of (payload_from_decision d c prev) ''quantityLots'' = Some (JInt q)"
  "td_target_price d = Some t \<Longrightarrow> map_of (payload_from_decision d c prev) ''targetPrice'' = Some (JStr (dec_str t))"
  "td_target_price d = None \<Longrightarrow> c \<in> MARKET_CAPABILITIES \<Longrightarrow> map_of (payload_from_decision d c prev) ''targetPrice'' = None"
  by (cases "td_symbol d"; cases "td_quantity_lots d"; cases "td_target_price d";
      simp add: payload_from_decision_def Let_def update_conv' delete_conv')+

text \<open>The order a complete decision describes.\<close>

definition decided_order :: "telegram_intent_decision \<Rightarrow> capability_id \<Rightarrow> string \<Rightarrow> int \<Rightarrow> uuid \<Rightarrow> create_trade_intent_input" where
  "decided_order d c symbol q owner =
     \<lparr>ci_symbol = symbol, ci_strategy = CAPABILITY_TO_NOTIFY_ONLY_STRATEGY c, ci_quantity_lots = q,
      ci_owner_user_id = owner, ci_target_price = map_option dec_str (td_target_price d),
      ci_transaction_mode = CAPABILITY_TO_TRANSACTION_MODE c, ci_notification_mode = ''single'',
      ci_trail_mode = None, ci_trail_value = None\<rparr>"

lemma validate_decision_None:
  assumes "validate_decision d db = Inr None"
  obtains c symbol q where "td_capability_id d = Some c" "td_symbol d = Some symbol" "td_quantity_lots d = Some q" "0 < q"
    "td_target_price d = None \<longleftrightarrow> c \<in> MARKET_CAPABILITIES" "check_tradable symbol q (td_target_price d) db = Inr ()"
  using assms
  by (auto simp: validate_decision_def capability_partition split: option.split_asm if_split_asm sum.split_asm)

lemma drafted_payload:
  assumes "td_capability_id d = Some c" and "td_symbol d = Some symbol" and "td_quantity_lots d = Some q" and "0 < q"
    and "td_target_price d = None \<longleftrightarrow> c \<in> MARKET_CAPABILITIES"
  shows "create_input_from_payload (payload_from_decision d c prev) owner = Inr (decided_order d c symbol q owner)"
    and "payload_shows (payload_from_decision d c prev) (decided_order d c symbol q owner)"
proof -
  note G = payload_from_decision_get [where d = d and c = c and prev = prev]
  show "create_input_from_payload (payload_from_decision d c prev) owner = Inr (decided_order d c symbol q owner)"
    using assms G(1,2) G(4) [OF assms(2)] G(5) [OF assms(3)] G(6,7)
    by (cases "td_target_price d")
      (simp_all add: create_input_from_payload_def payload_get_def decided_order_def capability_partition)
  have "payload_lines (payload_from_decision d c prev) =
      Inr (JStr (CAPABILITY_LABELS c), JStr symbol, JInt q, map_option (\<lambda>t. JStr (dec_str t)) (td_target_price d))"
    using assms G(3) G(4) [OF assms(2)] G(5) [OF assms(3)] G(6,7)
    by (cases "td_target_price d") (simp_all add: payload_lines_def payload_item_def)
  then show "payload_shows (payload_from_decision d c prev) (decided_order d c symbol q owner)"
    by (auto simp: payload_shows_def decided_order_def option.map_comp comp_def)
qed

section \<open>The invariant\<close>

definition order_matches :: "create_trade_intent_input \<Rightarrow> core_row \<Rightarrow> bool" where
  "order_matches inp c \<longleftrightarrow> c_owner_user_id c = ci_owner_user_id inp \<and> c_symbol c = ci_symbol inp \<and>
     c_strategy c = ci_strategy inp \<and> c_quantity_lots c = ci_quantity_lots inp"

definition linked :: "core_db \<Rightarrow> interaction_row \<Rightarrow> bool" where
  "linked db r \<longleftrightarrow> (\<exists>inp. create_input_from_payload (tl_payload r) (tl_owner_user_id r) = Inr inp \<and>
     (\<exists>c \<in> set (db_core db). tl_created_trade_intent_id r = Some (c_id c) \<and> order_matches inp c))"

definition interaction_ok :: "core_db \<Rightarrow> interaction_row \<Rightarrow> bool" where
  "interaction_ok db r \<longleftrightarrow> (tl_kind r = kind_draft \<longrightarrow> draft_ok r) \<and>
     (tl_status r \<in> {ia_confirming, ia_confirmed} \<longrightarrow> tl_kind r = kind_draft) \<and>
     (if tl_status r = ia_confirmed then linked db r \<and> tl_confirmed_at r \<noteq> None
      else tl_created_trade_intent_id r = None \<and> tl_confirmed_at r = None)"

definition interactions_ok :: "core_db \<Rightarrow> interactions \<Rightarrow> bool" where
  "interactions_ok db rows \<longleftrightarrow> distinct (map tl_id rows) \<and> unique_on is_open tl_chat_id rows \<and>
     unique_on (\<lambda>r. tl_created_trade_intent_id r \<noteq> None) tl_created_trade_intent_id rows \<and>
     (\<forall>r \<in> set rows. interaction_ok db r)"

lemma order_kept:
  assumes "core_evolves db db'" and "c \<in> set (db_core db)"
  obtains c' where "c' \<in> set (db_core db')" "c_id c' = c_id c" "order_matches inp c' \<longleftrightarrow> order_matches inp c"
proof -
  from core_evolves_row [OF assms] obtain c' where "c' \<in> set (db_core db')" "order_of c' = order_of c"
    by (auto simp: row_evolves_def)
  then show thesis using that [of c'] by (auto simp: order_of_def order_matches_def)
qed

lemma linked_mono: "core_evolves db db' \<Longrightarrow> linked db r \<Longrightarrow> linked db' r"
  unfolding linked_def by (metis order_kept)

lemma interactions_ok_mono: "core_evolves db db' \<Longrightarrow> interactions_ok db rows \<Longrightarrow> interactions_ok db' rows"
  by (auto simp: interactions_ok_def interaction_ok_def intro: linked_mono split: if_splits)

section \<open>Forward moves\<close>

definition status_le :: "interaction_status \<Rightarrow> interaction_status \<Rightarrow> bool" where
  "status_le a b \<longleftrightarrow> a = b \<or> a = ia_pending \<or> a = ia_confirming \<and> b = ia_confirmed"

text \<open>An interaction keeps its identity, its status moves forwards, and once it is no longer pending
  what it asks for is fixed.\<close>

definition interaction_le :: "interaction_row \<Rightarrow> interaction_row \<Rightarrow> bool" where
  "interaction_le r r' \<longleftrightarrow> tl_id r' = tl_id r \<and> tl_owner_user_id r' = tl_owner_user_id r \<and> tl_chat_id r' = tl_chat_id r \<and>
     status_le (tl_status r) (tl_status r') \<and> (tl_status r \<noteq> ia_pending \<longrightarrow> tl_payload r' = tl_payload r \<and> tl_kind r' = tl_kind r)"

definition interactions_le :: "interactions \<Rightarrow> interactions \<Rightarrow> bool" where
  "interactions_le rows rows' \<longleftrightarrow> (\<exists>xs ys. rows' = xs @ ys \<and> list_all2 interaction_le rows xs)"

lemma status_le_trans: "status_le a b \<Longrightarrow> status_le b c \<Longrightarrow> status_le a c"
  by (auto simp: status_le_def)

lemma interaction_le_refl [simp]: "interaction_le r r"
  by (simp add: interaction_le_def status_le_def)

lemma interaction_le_trans: "interaction_le a b \<Longrightarrow> interaction_le b c \<Longrightarrow> interaction_le a c"
  by (auto simp: interaction_le_def status_le_def)

lemma interactions_le_refl [simp]: "interactions_le rows rows"
  by (auto simp: interactions_le_def list.rel_refl intro: exI [of _ rows])

lemma interactions_le_snoc: "interactions_le rows (rows @ [r])"
  by (auto simp: interactions_le_def list.rel_refl intro: exI [of _ rows])

lemma interactions_le_trans:
  assumes "interactions_le a b" and "interactions_le b c"
  shows "interactions_le a c"
proof -
  from assms obtain xs ys us vs where b: "b = xs @ ys" "list_all2 interaction_le a xs"
    and c: "c = us @ vs" "list_all2 interaction_le b us" by (auto simp: interactions_le_def)
  from c(2) b(1) obtain u1 u2 where u: "us = u1 @ u2" "list_all2 interaction_le xs u1"
    by (auto simp: list_all2_append1)
  have "list_all2 interaction_le a u1" by (rule list_all2_trans [OF interaction_le_trans b(2) u(2)])
  with c(1) u(1) show ?thesis by (auto simp: interactions_le_def)
qed

lemma interactions_le_upd:
  assumes "\<And>r. r \<in> set rows \<Longrightarrow> p r \<Longrightarrow> interaction_le r (f r)"
  shows "interactions_le rows (upd_where p f rows)"
proof -
  have "list_all2 interaction_le rows (upd_where p f rows)"
    using assms by (induction rows) auto
  then show ?thesis by (auto simp: interactions_le_def)
qed

lemma interactions_le_mem:
  assumes "interactions_le rows rows'" and "r \<in> set rows"
  shows "\<exists>r' \<in> set rows'. interaction_le r r'"
  using assms by (auto simp: interactions_le_def list_all2_conv_all_nth in_set_conv_nth) (metis Un_iff nth_mem)

section \<open>The repository operations\<close>

definition keeps :: "core_db \<Rightarrow> interactions \<Rightarrow> interactions \<Rightarrow> bool" where
  "keeps db rows rows' \<longleftrightarrow> interactions_ok db rows' \<and> interactions_le rows rows'"

lemma keeps_trans: "keeps db a b \<Longrightarrow> keeps db b c \<Longrightarrow> keeps db a c"
  by (auto simp: keeps_def intro: interactions_le_trans)

lemma keeps_refl: "interactions_ok db rows \<Longrightarrow> keeps db rows rows"
  by (simp add: keeps_def)

lemma keeps_upd:
  assumes ok: "interactions_ok db rows"
    and row: "\<And>r. r \<in> set rows \<Longrightarrow> p r \<Longrightarrow> interaction_ok db r \<Longrightarrow>
      interaction_ok db (f r) \<and> interaction_le r (f r) \<and> (is_open (f r) \<longrightarrow> is_open r) \<and>
      tl_created_trade_intent_id (f r) = tl_created_trade_intent_id r"
  shows "keeps db rows (upd_where p f rows)"
proof -
  have each: "interaction_ok db (f r)" "interaction_le r (f r)" "is_open (f r) \<Longrightarrow> is_open r"
    "tl_created_trade_intent_id (f r) = tl_created_trade_intent_id r" if "r \<in> set rows" "p r" for r
    using row that ok by (auto simp: interactions_ok_def)
  have frame: "tl_id (f r) = tl_id r" "tl_chat_id (f r) = tl_chat_id r" if "r \<in> set rows" "p r" for r
    using each(2) [OF that] by (auto simp: interaction_le_def)
  have "map tl_id (upd_where p f rows) = map tl_id rows"
    using frame(1) by (auto simp: upd_where_def)
  moreover have "unique_on is_open tl_chat_id (upd_where p f rows)"
    using ok frame(2) each(3) by (intro unique_on_upd_where) (auto simp: interactions_ok_def)
  moreover have "unique_on (\<lambda>r. tl_created_trade_intent_id r \<noteq> None) tl_created_trade_intent_id (upd_where p f rows)"
    using ok each(4) by (intro unique_on_upd_where) (auto simp: interactions_ok_def)
  moreover have "\<forall>r \<in> set (upd_where p f rows). interaction_ok db r"
    using ok each(1) by (auto simp: set_upd_where interactions_ok_def)
  ultimately have "interactions_ok db (upd_where p f rows)" using ok by (simp add: interactions_ok_def)
  then show ?thesis using interactions_le_upd [of rows p f] each(2) by (simp add: keeps_def)
qed

lemma mark_status_keeps:
  assumes "interactions_ok db rows" and "st \<in> {ia_cancelled, ia_expired}"
  shows "keeps db rows (snd (mark_status i st chat rows))"
  unfolding mark_status_def snd_conv
  by (rule keeps_upd [OF assms(1)])
    (use assms(2) in \<open>auto simp: pending_in_def interaction_ok_def draft_ok_def interaction_le_def status_le_def is_open_def\<close>)

lemma attach_Inr:
  assumes "attach_bot_message_id i chat m rows = Inr (b, rows')"
  shows "rows' = upd_where (\<lambda>r. tl_id r = i \<and> tl_chat_id r = chat) (\<lambda>r. r\<lparr>tl_bot_message_id := Some m\<rparr>) rows"
  using assms by (auto simp: attach_bot_message_id_def Let_def split: if_split_asm)

lemma attach_keeps:
  assumes "interactions_ok db rows" and "attach_bot_message_id i chat m rows = Inr (b, rows')"
  shows "keeps db rows rows'"
  unfolding attach_Inr [OF assms(2)]
  by (rule keeps_upd [OF assms(1)])
    (auto simp: interaction_ok_def draft_ok_def linked_def interaction_le_def status_le_def is_open_def)

text \<open>What a decision writes: a draft must be a complete order.\<close>

definition fields_ok :: "interaction_fields \<Rightarrow> bool" where
  "fields_ok f \<longleftrightarrow> (tf_kind f = kind_draft \<longrightarrow>
     (\<forall>owner. \<exists>inp. create_input_from_payload (tf_payload f) owner = Inr inp \<and> payload_shows (tf_payload f) inp))"

lemma update_pending_keeps:
  assumes "interactions_ok db rows" and "fields_ok f" and "update_pending i chat f rows = Inr (x, rows')"
  shows "keeps db rows rows'" "x = Some r \<Longrightarrow> tl_id r = i"
proof -
  have eq: "rows' = upd_where (pending_in i chat) (set_fields f) rows"
    using assms(3) by (auto simp: update_pending_def Let_def r_bind_Inr_iff split: if_split_asm)
  show "keeps db rows rows'" unfolding eq
    by (rule keeps_upd [OF assms(1)])
      (use assms(2) in \<open>auto simp: pending_in_def set_fields_def interaction_ok_def draft_ok_def fields_ok_def
        interaction_le_def status_le_def is_open_def\<close>)
  show "tl_id r = i" if "x = Some r"
    using assms(3) that
    by (auto simp: update_pending_def interaction_by_id_def Let_def r_bind_Inr_iff split: if_split_asm dest!: one_or_none_SomeD)
qed

lemma create_interaction_keeps:
  assumes "interactions_ok db rows" and "fields_ok f" and "create_interaction users i owner chat f rows = Inr (r, rows')"
  shows "keeps db rows rows'"
proof -
  from assms(3) have rows': "rows' = rows @ [new_interaction i owner chat f]" and new: "i \<notin> tl_id ` set rows"
    and free: "\<forall>q \<in> set rows. \<not> (is_open q \<and> tl_chat_id q = chat)"
    by (auto simp: create_interaction_def Let_def list_ex_iff split: if_split_asm)
  have "interaction_ok db (new_interaction i owner chat f)"
    using assms(2) by (auto simp: new_interaction_def interaction_ok_def draft_ok_def fields_ok_def)
  then show ?thesis
    using assms(1) new free unfolding rows' keeps_def interactions_ok_def
    by (auto simp: unique_on_snoc interactions_le_snoc) (auto simp: new_interaction_def)
qed

lemma claim_keeps:
  assumes "interactions_ok db rows" and "claim_confirming i chat rows = (b, rows')"
    and "\<And>r. r \<in> set rows \<Longrightarrow> tl_id r = i \<Longrightarrow> tl_kind r = kind_draft"
  shows "keeps db rows rows'"
proof -
  have "rows' = upd_where (pending_in i chat) (\<lambda>r. r\<lparr>tl_status := ia_confirming\<rparr>) rows"
    using assms(2) by (simp add: claim_confirming_def)
  then show ?thesis using assms(1,3)
    by (auto intro!: keeps_upd simp: pending_in_def interaction_ok_def draft_ok_def interaction_le_def status_le_def is_open_def)
qed

lemma mark_confirmed_keeps:
  assumes ok: "interactions_ok db rows" and mc: "mark_confirmed ids i chat now j rows = Inr (won, rows')"
    and fresh: "\<And>r. r \<in> set rows \<Longrightarrow> tl_created_trade_intent_id r \<noteq> Some j"
    and link: "\<And>r. r \<in> set rows \<Longrightarrow> tl_id r = i \<Longrightarrow> linked db (set_confirmed now j r)"
  shows "keeps db rows rows'"
proof -
  let ?p = "confirming_in i chat" and ?f = "set_confirmed now j"
  have rows': "rows' = upd_where ?p ?f rows" using mc by (auto simp: mark_confirmed_def split: if_split_asm)
  have frame [simp]: "tl_id (?f r) = tl_id r" "tl_chat_id (?f r) = tl_chat_id r" "tl_kind (?f r) = tl_kind r"
    "tl_payload (?f r) = tl_payload r" "tl_owner_user_id (?f r) = tl_owner_user_id r" "tl_status (?f r) = ia_confirmed"
    "tl_created_trade_intent_id (?f r) = Some j" "tl_confirmed_at (?f r) = Some now" for r by (simp_all add: set_confirmed_def)
  have "map tl_id rows' = map tl_id rows" unfolding rows' by (rule map_upd_where_frame) simp
  moreover have "unique_on is_open tl_chat_id rows'" unfolding rows'
    by (rule unique_on_upd_where) (use ok in \<open>auto simp: interactions_ok_def is_open_def\<close>)
  moreover have "\<forall>r \<in> set rows'. interaction_ok db r" unfolding rows'
    using ok link by (auto simp: set_upd_where interactions_ok_def interaction_ok_def draft_ok_def confirming_in_def)
  moreover have "unique_on (\<lambda>r. tl_created_trade_intent_id r \<noteq> None) tl_created_trade_intent_id rows'"
  proof -
    have "distinct (map tl_id rows)" "unique_on (\<lambda>r. tl_created_trade_intent_id r \<noteq> None) tl_created_trade_intent_id rows"
      using ok by (auto simp: interactions_ok_def)
    then show ?thesis unfolding rows' using fresh
    proof (induction rows)
      case (Cons r rows)
      then have IH: "unique_on (\<lambda>r. tl_created_trade_intent_id r \<noteq> None) tl_created_trade_intent_id (upd_where ?p ?f rows)"
        by (simp add: unique_on_def split: if_split_asm)
      have one: "\<forall>q \<in> set rows. \<not> ?p q" if "?p r"
        using Cons.prems(1) that by (auto simp: confirming_in_def) (metis image_eqI)
      show ?case using Cons.prems IH one
        by (auto simp: unique_on_def set_upd_where upd_where_id_if_none) (metis (mono_tags, lifting) image_eqI mem_Collect_eq)
    qed simp
  qed
  ultimately have "interactions_ok db rows'" using ok by (simp add: interactions_ok_def)
  moreover have "interactions_le rows rows'" unfolding rows'
    by (rule interactions_le_upd) (auto simp: confirming_in_def interaction_le_def status_le_def)
  ultimately show ?thesis by (simp add: keeps_def)
qed

end
