(* ===== verification/Telegram_System.thy ===== *)
theory Telegram_System
  imports Telegram_Invariant Core_System
begin

text \<open>
  The Telegram conversation as a system, interleaved with everything else that happens to the orders: what a
  confirmation does, exactly; that messages and callbacks keep the invariant; and the runs, in which the
  last commit of a request may be lost.
\<close>

section \<open>The transaction of the create command\<close>

lemma create_tx_failed:
  assumes "create_tx ops halted limits t i g n now inp p db = (Inl e, p')"
  shows "create_execute ops halted limits t i g n now inp p db = (Inl e, db, p', [])"
  using assms by (simp add: create_execute_def)

lemma create_tx_created:
  assumes inv: "core_inv db" and tx: "create_tx ops halted limits t i g n now inp p db = (Inr (j, db2, sent), p')"
  obtains r where "j = i" "find_by_id i (ci_owner_user_id inp) db2 = Inr (view db2 r)" "r \<in> set (db_core db2)" "c_id r = i"
    "order_matches inp r" "i \<notin> c_id ` set (db_core db)" "core_inv db2" "core_evolves db db2"
    "map c_id (db_core db2) = map c_id (db_core db) @ [i]"
    "create_execute ops halted limits t i g n now inp p db = (Inr (view db2 r), db2, p', sent)"
proof -
  from tx obtain db1 where ins: "create_insert t i limits now inp db = Inr (j, db1)"
    and tr: "(if initial_status now = active \<and> \<not> halted
      then apply_inline_trigger_if_quote_met ops t g n j inp now p' db1 else Inr (db1, [])) = Inr (db2, sent)"
    by (auto simp: create_tx_def split: sum.split_asm)
  from create_insert_Inr [OF inv ins] obtain r0 where j: "j = i" and d1: "db_core db1 = db_core db @ [r0]"
    and r0: "created_row t i now inp r0" and "core_inv db1" and new: "i \<notin> c_id ` set (db_core db)" by blast
  have ids: "map c_id (db_core db2) = map c_id (db_core db1)"
    using tr by (auto split: if_split_asm dest: inline_trigger_ids)
  have ex: "create_execute ops halted limits t i g n now inp p db = (find_by_id j (ci_owner_user_id inp) db2, db2, p', sent)"
    using tx by (simp add: create_execute_def)
  from inv ex show thesis
  proof (cases rule: create_execute_cases)
    case (failed e)
    then have "length (db_core db1) = length (db_core db)" using ids by (metis length_map)
    with d1 show thesis by simp
  next
    case (created db1' q0 q)
    have "core_evolves db db2" using created(11,12) by (rule core_evolves_trans)
    with created that [of q] j ids d1 new ex created_row_simps [OF r0] created_row_simps [OF created(6)]
    show thesis by (simp add: order_matches_def)
  qed
qed

section \<open>One row by its identifier\<close>

lemma count_one:
  assumes "distinct (map tl_id rows)" and "r \<in> set rows" and "Q r" and "\<And>q. Q q \<Longrightarrow> tl_id q = tl_id r"
  shows "count_where Q rows = 1"
proof -
  have "filter Q rows = filter (\<lambda>q. tl_id q = tl_id r \<and> Q q) rows" using assms(4) by (intro filter_cong) auto
  also have "\<dots> = filter Q [r]" using filter_key [OF assms(1,2)] by (simp flip: filter_filter)
  finally show ?thesis using assms(3) by (simp add: count_where_def)
qed

definition tg_ok :: "'p tg_state \<Rightarrow> bool" where
  "tg_ok s \<longleftrightarrow> ss_committed (gs_rows s) = working s \<and> core_inv (gs_core s) \<and> interactions_ok (gs_core s) (working s)"

text \<open>The row with this identifier replaced.\<close>

definition upd_interaction :: "uuid \<Rightarrow> (interaction_row \<Rightarrow> interaction_row) \<Rightarrow> interactions \<Rightarrow> interactions" where
  "upd_interaction k = upd_where (\<lambda>r. tl_id r = k)"

definition set_status :: "interaction_status \<Rightarrow> interaction_row \<Rightarrow> interaction_row" where
  "set_status st r = r\<lparr>tl_status := st\<rparr>"

lemma pending_row_ops:
  assumes "distinct (map tl_id rows)" and "i \<in> set rows" and "tl_status i = ia_pending"
  shows "claim_confirming (tl_id i) (tl_chat_id i) rows = (True, upd_interaction (tl_id i) (set_status ia_confirming) rows)"
    and "mark_status (tl_id i) st (tl_chat_id i) rows = (True, upd_interaction (tl_id i) (set_status st) rows)"
    and "j \<in> set ids \<Longrightarrow>
      mark_confirmed ids (tl_id i) (tl_chat_id i) now j (upd_interaction (tl_id i) (set_status ia_confirming) rows) =
      Inr (True, upd_interaction (tl_id i) (set_confirmed now j) rows)"
proof -
  have one: "r = i" if "r \<in> set rows" "tl_id r = tl_id i" for r
    using assms(1,2) that by (auto simp: distinct_map inj_on_def)
  have c1: "count_where (pending_in (tl_id i) (tl_chat_id i)) rows = 1"
    by (rule count_one [OF assms(1,2)]) (auto simp: pending_in_def assms(3))
  have upd: "upd_where (pending_in (tl_id i) (tl_chat_id i)) f rows = upd_interaction (tl_id i) f rows" for f
    using one assms(3) by (auto simp: upd_interaction_def upd_where_def pending_in_def)
  show "claim_confirming (tl_id i) (tl_chat_id i) rows = (True, upd_interaction (tl_id i) (set_status ia_confirming) rows)"
    "mark_status (tl_id i) st (tl_chat_id i) rows = (True, upd_interaction (tl_id i) (set_status st) rows)"
    using c1 upd by (simp_all add: claim_confirming_def mark_status_def set_status_def [abs_def])
  let ?rows = "upd_interaction (tl_id i) (set_status ia_confirming) rows"
  have ids: "map tl_id ?rows = map tl_id rows"
    unfolding upd_interaction_def by (rule map_upd_where_frame) (simp add: set_status_def)
  have mem: "set_status ia_confirming i \<in> set ?rows" using assms(2) by (auto simp: upd_interaction_def set_upd_where)
  have c2: "count_where (confirming_in (tl_id i) (tl_chat_id i)) ?rows = 1"
    by (rule count_one [OF _ mem]) (auto simp: ids assms(1) confirming_in_def set_status_def)
  have "upd_where (confirming_in (tl_id i) (tl_chat_id i)) (set_confirmed now j) ?rows =
      upd_interaction (tl_id i) (set_confirmed now j) rows"
    using one by (auto simp: upd_interaction_def upd_where_def confirming_in_def set_status_def set_confirmed_def)
  then show "mark_confirmed ids (tl_id i) (tl_chat_id i) now j ?rows =
      Inr (True, upd_interaction (tl_id i) (set_confirmed now j) rows)" if "j \<in> set ids"
    using c2 that by (simp add: mark_confirmed_def)
qed

section \<open>What a confirmation does\<close>

abbreviation create_for ::
  "'p telegram_env \<Rightarrow> create_trade_intent_input \<Rightarrow> 'p tg_state \<Rightarrow> (exn + uuid \<times> core_db \<times> notification_row list) \<times> 'p" where
  "create_for env inp s \<equiv> create_tx (te_ops env) (te_halted env) (te_limits env) (te_tx_now env) (te_intent_id env)
     (te_trigger_id env) (te_notification_id env) (te_session_now env) inp (gs_provider s) (gs_core s)"

lemma confirm_draft_failed:
  assumes ok: "tg_ok s" and i: "i \<in> set (working s)" "tl_status i = ia_pending"
    and inp: "create_input_from_payload (tl_payload i) (tl_owner_user_id i) = Inr inp"
    and tx: "create_for env inp s = (Inl e, p)"
  shows "confirm_draft env (tl_chat_id i) i s =
    (if is_duplicate_intent e
     then (Inr (Some (reply_about (tl_chat_id i) DUPLICATE_INTENT_REPLY i)),
           set_rows (upd_interaction (tl_id i) (set_status ia_cancelled) (working s)) (s\<lparr>gs_provider := p\<rparr>))
     else (Inr (Some (reply_about (tl_chat_id i) USER_PAGE_ERROR_REPLY i)), s\<lparr>gs_provider := p\<rparr>))"
proof -
  have d: "distinct (map tl_id (working s))" and c: "ss_committed (gs_rows s) = working s"
    using ok by (auto simp: tg_ok_def interactions_ok_def)
  note P = pending_row_ops [OF d i]
  have rb: "ss_rollback (gs_rows (set_rows rows s)) = gs_rows s" for rows
    using c by (simp add: set_rows_def ss_rollback_def)
  show ?thesis
    unfolding confirm_draft_def inp P(1) sum.case prod.case if_True create_claimed_def
    using tx P(2) [of ia_cancelled] rb by (simp add: set_rows_def after_create_def)
qed

lemma confirm_draft_created:
  assumes ok: "tg_ok s" and i: "i \<in> set (working s)" "tl_status i = ia_pending"
    and inp: "create_input_from_payload (tl_payload i) (tl_owner_user_id i) = Inr inp"
    and lines: "payload_lines (tl_payload i) = Inr l"
    and tx: "create_for env inp s = (Inr (j, db, sent), p)"
  shows "confirm_draft env (tl_chat_id i) i s =
    (Inr (Some ((reply_about (tl_chat_id i) (CreatedText l) i)\<lparr>tr_bot_message_id := tl_bot_message_id i\<rparr>)),
     s\<lparr>gs_rows := \<lparr>ss_committed = upd_interaction (tl_id i) (set_status ia_confirming) (working s),
                   ss_working = upd_interaction (tl_id i) (set_confirmed (te_now env) (te_intent_id env)) (working s)\<rparr>,
       gs_core := db, gs_provider := p, gs_sent := gs_sent s @ sent\<rparr>)"
proof -
  have d: "distinct (map tl_id (working s))" and inv: "core_inv (gs_core s)"
    using ok by (auto simp: tg_ok_def interactions_ok_def)
  note P = pending_row_ops [OF d i]
  from create_tx_created [OF inv tx] obtain r where r: "j = te_intent_id env"
    "find_by_id (te_intent_id env) (ci_owner_user_id inp) db = Inr (view db r)" "r \<in> set (db_core db)" "c_id r = te_intent_id env"
    by metis
  have mem: "te_intent_id env \<in> set (map c_id (db_core db))" using r(3,4) by force
  show ?thesis
    unfolding confirm_draft_def inp P(1) sum.case prod.case if_True create_claimed_def
    using tx r P(3) [OF mem] lines
    by (simp add: set_rows_def after_create_def ss_commit_def created_reply_def)
qed

section \<open>Messages keep the invariant\<close>

lemma save_interaction_Inr:
  assumes "save_interaction users k owner chat pending d c kind missing now rows = Inr (r, rows')"
  obtains x rows1 i t markup where
    "(case pending of None \<Rightarrow> Inr (None, rows)
      | Some r \<Rightarrow> update_pending (tl_id r) chat (saved_fields pending d c kind missing now) rows) = Inr (x, rows1)"
    "(case x of Some i \<Rightarrow> Inr (i, rows1)
      | None \<Rightarrow> create_interaction users k owner chat (saved_fields pending d c kind missing now) rows1) = Inr (i, rows')"
    "tr_interaction_id r = Some (tl_id i)" "tr_text r = t"
    "kind = kind_draft \<Longrightarrow> confirmation_text (payload_from_decision d c (map_option tl_payload pending)) = Inr t"
proof -
  define f where "f = saved_fields pending d c kind missing now"
  have p: "tf_payload f = payload_from_decision d c (map_option tl_payload pending)" by (simp add: f_def saved_fields_def)
  from assms that show thesis
    unfolding save_interaction_def Let_def f_def [symmetric] p by (auto simp: r_bind_Inr_iff split: if_split_asm)
qed

lemma save_interaction_keeps:
  assumes ok: "interactions_ok db rows"
    and draft: "kind = kind_draft \<Longrightarrow> validate_decision d db' = Inr None \<and> td_capability_id d = Some c"
    and sv: "save_interaction users k owner chat pending d c kind missing now rows = Inr (r, rows')"
  shows "keeps db rows rows'"
proof -
  let ?p = "payload_from_decision d c (map_option tl_payload pending)" and ?f = "saved_fields pending d c kind missing now"
  have "create_input_from_payload ?p o' = Inr (decided_order d c sy q o') \<and> payload_shows ?p (decided_order d c sy q o')"
    if "validate_decision d db' = Inr None" "td_capability_id d = Some c" "td_symbol d = Some sy" "td_quantity_lots d = Some q" for o' sy q
    using validate_decision_None [OF that(1)] drafted_payload [OF that(2,3,4)] that(2-) by (metis option.inject)
  then have fok: "fields_ok ?f"
    using draft by (auto simp: fields_ok_def saved_fields_def elim!: validate_decision_None)
  from save_interaction_Inr [OF sv] obtain x rows1 i where
    up: "(case pending of None \<Rightarrow> Inr (None, rows) | Some r \<Rightarrow> update_pending (tl_id r) chat ?f rows) = Inr (x, rows1)"
    and cr: "(case x of Some i \<Rightarrow> Inr (i, rows1) | None \<Rightarrow> create_interaction users k owner chat ?f rows1) = Inr (i, rows')"
    by metis
  have k1: "keeps db rows rows1"
    using up update_pending_keeps(1) [OF ok fok] keeps_refl [OF ok] by (auto split: option.split_asm)
  then have "interactions_ok db rows1" by (simp add: keeps_def)
  with cr fok have "keeps db rows1 rows'"
    by (auto split: option.split_asm intro: keeps_refl create_interaction_keeps)
  with k1 show ?thesis by (rule keeps_trans)
qed

lemma act_on_decision_keeps:
  assumes "interactions_ok db rows" and "act_on_decision env users owner chat pending d db' rows = Inr (x, rows')"
  shows "keeps db rows rows'"
proof -
  have save: "keeps db rows rows'"
    if "save_interaction users k owner chat pending d c kind missing now rows = Inr (r, rows')"
      "kind = kind_draft \<Longrightarrow> validate_decision d db' = Inr None \<and> td_capability_id d = Some c" for k c kind missing now r
    by (rule save_interaction_keeps [OF assms(1) that(2,1)])
  have "rows' = rows \<or> (\<exists>k c kind missing now r. save_interaction users k owner chat pending d c kind missing now rows = Inr (r, rows') \<and>
      (kind = kind_draft \<longrightarrow> validate_decision d db' = Inr None \<and> td_capability_id d = Some c))"
    using assms(2) unfolding act_on_decision_def Let_def
    by (auto simp: r_bind_Inr_iff split: if_split_asm option.split_asm) blast+
  then show ?thesis using save keeps_refl [OF assms(1)] by metis
qed

lemma handle_message_keeps:
  assumes ok: "interactions_ok db rows" and hm: "handle_message env ident chat msg db' rows = Inr (x, rows')"
  shows "keeps db rows rows'"
proof -
  have decide: "keeps db rows rows'"
    if "decide_on_message env ident owner chat msg found db' rows = Inr (x, rows')" for owner found
  proof -
    define rows1 where "rows1 = (case found of None \<Rightarrow> rows
      | Some i \<Rightarrow> if tl_expires_at i \<le> te_now env then snd (mark_status (tl_id i) ia_expired chat rows) else rows)"
    have k1: "keeps db rows rows1"
      using mark_status_keeps [OF ok] keeps_refl [OF ok] by (auto simp: rows1_def split: option.split)
    from that have "rows' = rows1 \<or> (\<exists>pending d. act_on_decision env (map us_id (id_users ident)) owner chat pending d db' rows1 = Inr (x, rows'))"
      by (auto simp: decide_on_message_def Let_def rows1_def split: option.split_asm if_split_asm)
    moreover have "interactions_ok db rows1" using k1 by (simp add: keeps_def)
    ultimately show ?thesis using k1 act_on_decision_keeps keeps_trans by metis
  qed
  have "rows' = rows \<or> (\<exists>owner found. decide_on_message env ident owner chat msg found db' rows = Inr (x, rows'))"
    using hm by (auto simp: handle_message_def r_bind_Inr_iff split: if_split_asm option.split_asm)
  then show ?thesis using decide keeps_refl [OF ok] by blast
qed

lemma deliver_Inr:
  assumes "deliver_message_reply env r rows = (Inr rows', calls)"
  shows "rows' = rows \<or> (\<exists>i m b. attach_bot_message_id i (tr_chat_id r) m rows = Inr (b, rows'))"
  using assms by (auto simp: deliver_message_reply_def Let_def r_bind_Inr_iff split: option.split_asm if_split_asm)

lemma deliver_keeps:
  assumes "interactions_ok db rows" and "deliver_message_reply env r rows = (Inr rows', calls)"
  shows "keeps db rows rows'"
  using deliver_Inr [OF assms(2)] attach_keeps [OF assms(1)] keeps_refl [OF assms(1)] by blast

section \<open>Callbacks keep the invariant\<close>

definition tg_kept :: "'p tg_state \<Rightarrow> 'p tg_state \<Rightarrow> bool" where
  "tg_kept s s' \<longleftrightarrow> core_inv (gs_core s') \<and> core_evolves (gs_core s) (gs_core s') \<and>
     keeps (gs_core s') (working s) (working s') \<and> keeps (gs_core s') (working s) (ss_committed (gs_rows s'))"

lemma set_rows_simps [simp]:
  "working (set_rows rows s) = rows" "ss_committed (gs_rows (set_rows rows s)) = ss_committed (gs_rows s)"
  "gs_core (set_rows rows s) = gs_core s"
  by (simp_all add: set_rows_def)

lemma tg_kept_refl: "tg_ok s \<Longrightarrow> tg_kept s s"
  by (simp add: tg_ok_def tg_kept_def keeps_def)

lemma tg_kept_rows:
  assumes "tg_ok s" and "keeps (gs_core s) (working s) rows"
  shows "tg_kept s (set_rows rows s)"
  using assms by (simp add: tg_ok_def tg_kept_def keeps_def)

lemma draft_inputs:
  assumes "tg_ok s" and "i \<in> set (working s)" and "tl_kind i = kind_draft"
  obtains inp where "create_input_from_payload (tl_payload i) (tl_owner_user_id i) = Inr inp"
    "payload_shows (tl_payload i) inp" "ci_owner_user_id inp = tl_owner_user_id i"
proof -
  from assms obtain inp where il: "create_input_from_payload (tl_payload i) (tl_owner_user_id i) = Inr inp"
    "payload_shows (tl_payload i) inp"
    by (auto simp: tg_ok_def interactions_ok_def interaction_ok_def draft_ok_def)
  moreover from il(1) have "ci_owner_user_id inp = tl_owner_user_id i"
    by (auto simp: create_input_from_payload_def split: option.split_asm json.split_asm if_split_asm)
  ultimately show thesis by (rule that)
qed

lemma created_mem:
  "interaction_ok db r \<Longrightarrow> tl_created_trade_intent_id r = Some j \<Longrightarrow> j \<in> c_id ` set (db_core db)"
  by (auto simp: interaction_ok_def linked_def split: if_split_asm)

lemma confirmed_keeps:
  assumes ok: "tg_ok s" and i: "i \<in> set (working s)" "tl_status i = ia_pending" "tl_kind i = kind_draft"
    and inp: "create_input_from_payload (tl_payload i) (tl_owner_user_id i) = Inr inp"
    and db: "core_evolves (gs_core s) db" "c \<in> set (db_core db)" "c_id c = j" "order_matches inp c"
    and new: "j \<notin> c_id ` set (db_core (gs_core s))"
  shows "keeps db (working s) (upd_interaction (tl_id i) (set_status ia_confirming) (working s))"
    and "keeps db (working s) (upd_interaction (tl_id i) (set_confirmed now j) (working s))"
proof -
  let ?rows = "working s"
  have iok: "interactions_ok (gs_core s) ?rows" and d: "distinct (map tl_id ?rows)"
    using ok by (auto simp: tg_ok_def interactions_ok_def)
  have one: "r = i" if "r \<in> set ?rows" "tl_id r = tl_id i" for r
    using d i(1) that by (auto simp: distinct_map inj_on_def)
  note P = pending_row_ops [OF d i(1,2)]
  note okdb = interactions_ok_mono [OF db(1) iok]
  let ?claimed = "upd_interaction (tl_id i) (set_status ia_confirming) ?rows"
  have draft: "\<And>r. r \<in> set ?rows \<Longrightarrow> tl_id r = tl_id i \<Longrightarrow> tl_kind r = kind_draft" using one i(3) by blast
  note C = claim_keeps [OF _ P(1) draft]
  show cl: "keeps db ?rows ?claimed" by (rule C [OF okdb])
  have old: "interactions_ok (gs_core s) ?claimed" using C [OF iok] by (simp add: keeps_def)
  have mem: "j \<in> set [j]" by simp
  have "keeps db ?claimed (upd_interaction (tl_id i) (set_confirmed now j) ?rows)"
  proof (rule mark_confirmed_keeps [OF _ P(3) [OF mem]])
    show "interactions_ok db ?claimed" using cl by (simp add: keeps_def)
    show "tl_created_trade_intent_id r \<noteq> Some j" if "r \<in> set ?claimed" for r
      using old that new created_mem by (auto simp: interactions_ok_def)
    show "linked db (set_confirmed now j r)" if "r \<in> set ?claimed" "tl_id r = tl_id i" for r
    proof -
      from that one have "r = set_status ia_confirming i"
        by (auto simp: upd_interaction_def set_upd_where set_status_def split: if_split_asm)
      with inp db(2,3,4) show ?thesis by (auto simp: linked_def set_confirmed_def set_status_def)
    qed
  qed
  with cl show "keeps db ?rows (upd_interaction (tl_id i) (set_confirmed now j) ?rows)" by (rule keeps_trans)
qed

lemma confirm_draft_kept:
  assumes ok: "tg_ok s" and i: "i \<in> set (working s)" "tl_status i = ia_pending" "tl_kind i = kind_draft"
    and cd: "confirm_draft env (tl_chat_id i) i s = (res, s')"
  shows "tg_kept s s'"
proof -
  from draft_inputs [OF ok i(1,3)] obtain inp where
    inp: "create_input_from_payload (tl_payload i) (tl_owner_user_id i) = Inr inp" and "payload_shows (tl_payload i) inp" .
  then obtain l where l: "payload_lines (tl_payload i) = Inr l" by (auto simp: payload_shows_def)
  have iok: "interactions_ok (gs_core s) (working s)" and inv: "core_inv (gs_core s)"
    and d: "distinct (map tl_id (working s))" and c: "ss_committed (gs_rows s) = working s"
    using ok by (auto simp: tg_ok_def interactions_ok_def)
  obtain out p where tx: "create_for env inp s = (out, p)" by fastforce
  show ?thesis
  proof (cases out)
    case (Inl e)
    have "keeps (gs_core s) (working s) (upd_interaction (tl_id i) (set_status ia_cancelled) (working s))"
      using mark_status_keeps [OF iok, of ia_cancelled "tl_id i" "tl_chat_id i"]
      by (simp add: pending_row_ops(2) [OF d i(1,2)])
    with confirm_draft_failed [OF ok i(1,2) inp tx [unfolded Inl]] cd ok show ?thesis
      by (auto simp: tg_kept_def tg_ok_def keeps_def set_rows_def split: if_split_asm)
  next
    case (Inr y)
    obtain j db sent where y: "y = (j, db, sent)" by (cases y) auto
    note tx' = tx [unfolded Inr y]
    from create_tx_created [OF inv tx'] obtain r where
      r: "r \<in> set (db_core db)" "c_id r = te_intent_id env" "order_matches inp r"
      and new: "te_intent_id env \<notin> c_id ` set (db_core (gs_core s))" and db: "core_inv db" "core_evolves (gs_core s) db" by metis
    note K = confirmed_keeps [OF ok i inp db(2) r new]
    from confirm_draft_created [OF ok i(1,2) inp l tx'] cd db K show ?thesis by (auto simp: tg_kept_def)
  qed
qed

lemma handle_callback_kept:
  assumes ok: "tg_ok s" and hc: "handle_callback env chat data m s = (res, s')"
  shows "tg_kept s s'"
proof -
  have iok: "interactions_ok (gs_core s) (working s)" using ok by (simp add: tg_ok_def)
  have marked: "tg_kept s (set_rows (snd (mark_status k st chat (working s))) s)" if "st \<in> {ia_cancelled, ia_expired}" for k st
    by (rule tg_kept_rows [OF ok mark_status_keeps [OF iok that]])
  have "s' = s \<or> (\<exists>k st. st \<in> {ia_cancelled, ia_expired} \<and> s' = set_rows (snd (mark_status k st chat (working s))) s) \<or>
    (\<exists>i. i \<in> set (working s) \<and> tl_chat_id i = chat \<and> tl_status i = ia_pending \<and> tl_kind i = kind_draft \<and>
      confirm_draft env chat i s = (res, s'))"
    using hc unfolding handle_callback_def interaction_by_id_def
    by (auto split: if_split_asm option.split_asm sum.split_asm prod.split_asm dest!: one_or_none_SomeD)
      (metis snd_conv)+
  then show ?thesis using marked tg_kept_refl [OF ok] confirm_draft_kept [OF ok] by blast
qed

end
