(* ===== verification/Telegram_Properties.thy ===== *)
theory Telegram_Properties
  imports Telegram_System
begin

text \<open>
  The theorems about the Telegram conversation: along every run an order comes from one confirmed draft, a request
  creates an order only when the button of a live draft was pressed on its own message, and what that press
  does. Two theorems at the end record where the code falls short of its comments.
\<close>

section \<open>Runs\<close>

text \<open>
  A request, a callback whose last commit is lost (the process stops after the create command has committed),
  or anything else that happens to the orders.
\<close>

inductive tg_step :: "'p tg_state \<Rightarrow> 'p tg_state \<Rightarrow> bool" where
  request: "telegram_webhook env ident secret u s = (res, s', calls) \<Longrightarrow> tg_step s s'"
| lost: "handle_callback_update env cb s = (res, s') \<Longrightarrow> tg_step s (rollback_rows s')"
| orders: "core_step ops (gs_core s, gs_provider s) (db, p) \<Longrightarrow> tg_step s (s\<lparr>gs_core := db, gs_provider := p\<rparr>)"

definition tg_next :: "'p tg_state \<Rightarrow> 'p tg_state \<Rightarrow> bool" where
  "tg_next s s' \<longleftrightarrow> tg_ok s' \<and> core_evolves (gs_core s) (gs_core s') \<and> interactions_le (working s) (working s')"

lemma tg_next_refl: "tg_ok s \<Longrightarrow> tg_next s s"
  by (simp add: tg_next_def)

lemma kept_commit: "tg_kept s s' \<Longrightarrow> tg_next s (commit_rows s')"
  by (simp add: tg_kept_def tg_next_def tg_ok_def commit_rows_def keeps_def)

lemma kept_rollback: "tg_kept s s' \<Longrightarrow> tg_next s (rollback_rows s')"
  by (simp add: tg_kept_def tg_next_def tg_ok_def rollback_rows_def keeps_def)

lemma callback_update_kept:
  "tg_ok s \<Longrightarrow> handle_callback_update env cb s = (res, s') \<Longrightarrow> tg_kept s s'"
  by (auto simp: handle_callback_update_def split: option.split_asm intro: handle_callback_kept tg_kept_refl)

lemma webhook_message_next:
  assumes "tg_ok s" and "webhook_message env ident chat m s = (res, s', calls)"
  shows "tg_next s s' \<and> gs_core s' = gs_core s"
proof -
  have iok: "interactions_ok (gs_core s) (working s)" using assms(1) by (simp add: tg_ok_def)
  have rows: "tg_kept s (set_rows rows s)" "deliver_message_reply env r rows = (Inr rows', cs) \<Longrightarrow> tg_kept s (set_rows rows' s)"
    if "handle_message env ident chat msg (gs_core s) (working s) = Inr (x, rows)" for msg x rows r rows' cs
  proof -
    have k: "keeps (gs_core s) (working s) rows" by (rule handle_message_keeps [OF iok that])
    then have "interactions_ok (gs_core s) rows" by (simp add: keeps_def)
    then show "tg_kept s (set_rows rows' s)" if "deliver_message_reply env r rows = (Inr rows', cs)"
      by (rule tg_kept_rows [OF assms(1) keeps_trans [OF k deliver_keeps [OF _ that]]])
    show "tg_kept s (set_rows rows s)" by (rule tg_kept_rows [OF assms(1) k])
  qed
  have "s' = s \<or> s' = rollback_rows s \<or> (\<exists>msg x rows. handle_message env ident chat msg (gs_core s) (working s) = Inr (x, rows) \<and>
      (s' = commit_rows (set_rows rows s) \<or>
       (\<exists>r rows' cs. deliver_message_reply env r rows = (Inr rows', cs) \<and> s' = commit_rows (set_rows rows' s))))"
    using assms(2) by (auto simp: webhook_message_def split: option.split_asm if_split_asm sum.split_asm prod.split_asm) blast+
  with rows consider "s' = s" | "s' = rollback_rows s" | t where "tg_kept s t" "gs_core t = gs_core s" "s' = commit_rows t"
    by (metis set_rows_simps(3))
  then show ?thesis
  proof cases
    case 1
    then show ?thesis using tg_next_refl [OF assms(1)] by simp
  next
    case 2
    then show ?thesis using kept_rollback [OF tg_kept_refl [OF assms(1)]] by (simp add: rollback_rows_def)
  next
    case (3 t)
    then show ?thesis using kept_commit [of s t] by (simp add: commit_rows_def)
  qed
qed

lemma webhook_next:
  assumes ok: "tg_ok s" and wh: "telegram_webhook env ident secret u s = (res, s', calls)"
  shows "tg_next s s'"
proof -
  have callback: "tg_next s s'" if "webhook_callback env cb s = (res, s', calls)" for cb
    using that tg_next_refl [OF ok] callback_update_kept [OF ok, of env cb] kept_commit kept_rollback
    by (auto simp: webhook_callback_def Let_def split: if_split_asm sum.split_asm option.split_asm prod.split_asm)
  show ?thesis
    using wh tg_next_refl [OF ok] callback webhook_message_next [OF ok]
    by (auto simp: telegram_webhook_def split: sum.split_asm option.split_asm if_split_asm)
qed

lemma tg_step_next:
  assumes "tg_step s s'" and "tg_ok s"
  shows "tg_next s s'"
  using assms
proof cases
  case (request env ident secret u res calls)
  with assms(2) show ?thesis by (auto intro: webhook_next)
next
  case (lost env cb res t)
  with assms(2) show ?thesis by (auto intro: kept_rollback callback_update_kept)
next
  case (orders ops db p)
  then show ?thesis using core_step_safe [OF orders(2)] assms(2)
    by (auto simp: tg_next_def tg_ok_def intro: interactions_ok_mono)
qed

lemma tg_run_next:
  assumes "tg_step\<^sup>*\<^sup>* s s'" and "tg_ok s"
  shows "tg_next s s'"
  using assms
proof (induction rule: rtranclp_induct)
  case (step t u)
  then have "tg_next s t" "tg_next t u" using tg_step_next by (auto simp: tg_next_def)
  then show ?case by (auto simp: tg_next_def intro: core_evolves_trans interactions_le_trans)
qed (rule tg_next_refl)

section \<open>A conversation\<close>

definition talk_ops :: "string list quote_ops" where
  "talk_ops = \<lparr>qo_get_quotes = (\<lambda>ss p. Inr []), qo_current_price = None, qo_subscribe = (\<lambda>s p. Inr (s # p)),
     qo_unsubscribe = removeAll, qo_active_subscriptions = set\<rparr>"

definition talk_env :: "string list telegram_env" where
  "talk_env =
     \<lparr>te_settings = \<lparr>tc_telegram_chat_id = Some ''-100'', tc_telegram_owner_email = ''a@b'', tc_telegram_webhook_secret = Some ''k''\<rparr>,
      te_decide = (\<lambda>m c p. Some \<lparr>td_decision = dt_draft_intent, td_capability_id = Some market_buy,
        td_symbol = Some ''2330'', td_quantity_lots = Some 2, td_target_price = None, td_missing_fields = []\<rparr>),
      te_edit = (\<lambda>c. True), te_send = (\<lambda>c. Some 55), te_ops = talk_ops, te_halted = False, te_limits = None,
      te_now = sample_now, te_session_now = sample_now, te_tx_now = sample_now, te_interaction_id = 9, te_intent_id = 1,
      te_trigger_id = 2, te_notification_id = 3\<rparr>"

definition talk_ident :: ident_db where
  "talk_ident = \<lparr>id_users = [\<lparr>us_id = 7, us_email = ''a@b'', us_password_hash = None, us_role = role_user, us_status = st_active,
     us_mfa_enabled = False, us_mfa_secret_encrypted = None, us_disabled_at = None, us_created_at = 0, us_updated_at = 0\<rparr>],
     id_invitations = [], id_resets = [], id_tokens = [], id_buckets = [], id_audit = []\<rparr>"

definition talk_message :: telegram_update where
  "talk_message = \<lparr>up_message = Some \<lparr>tm_message_id = 54, tm_chat = ''-100'', tm_text = Some ''buy'', tm_from_bot = None\<rparr>,
     up_callback_query = None\<rparr>"

definition talk_press :: telegram_update where
  "talk_press = \<lparr>up_message = None, up_callback_query = Some \<lparr>cq_id = None, cq_data = Some (callback_data act_confirm 9),
     cq_message = Some \<lparr>tm_message_id = 55, tm_chat = ''-100'', tm_text = None, tm_from_bot = None\<rparr>, cq_from_bot = None\<rparr>\<rparr>"

definition talk0 :: "string list tg_state" where
  "talk0 = \<lparr>gs_rows = ss_open [], gs_core = fresh_db, gs_provider = [], gs_sent = []\<rparr>"

definition talk1 :: "string list tg_state" where
  "talk1 = fst (snd (telegram_webhook talk_env talk_ident (Some ''k'') talk_message talk0))"

definition talk2 :: "string list tg_state" where
  "talk2 = fst (snd (telegram_webhook talk_env talk_ident (Some ''k'') talk_press talk1))"

lemma talk0_ok: "tg_ok talk0"
  by (simp add: talk0_def tg_ok_def fresh_db_inv interactions_ok_def)

lemma request_step: "tg_step s (fst (snd (telegram_webhook env ident secret u s)))"
  by (rule tg_step.request [of env ident secret u s "fst (telegram_webhook env ident secret u s)" _
      "snd (snd (telegram_webhook env ident secret u s))"]) simp

lemma talk_run: "tg_step talk0 talk1" "tg_step talk1 talk2"
  unfolding talk1_def talk2_def by (rule request_step)+

lemma talk1_ok: "tg_ok talk1"
  using tg_step_next [OF talk_run(1) talk0_ok] by (simp add: tg_next_def)

definition talk_row :: interaction_row where
  "talk_row = \<lparr>tl_id = 9, tl_owner_user_id = 7, tl_chat_id = ''-100'', tl_bot_message_id = Some 55, tl_kind = kind_draft,
     tl_capability_id = market_buy, tl_strategy = market_buy_order,
     tl_payload = [(''capabilityId'', JStr ''market_buy''), (''strategy'', JStr ''market_buy_order''),
       (''typeLabel'', JStr (CAPABILITY_LABELS market_buy)), (''symbol'', JStr ''2330''), (''quantityLots'', JInt 2)],
     tl_missing_fields = [], tl_attempts = 1, tl_status = ia_pending, tl_expires_at = sample_now + INTERACTION_TTL,
     tl_confirmed_at = None, tl_created_trade_intent_id = None\<rparr>"

lemma talk1_eval [code]:
  "talk1 = \<lparr>gs_rows = ss_open [talk_row], gs_core = fresh_db, gs_provider = [], gs_sent = []\<rparr>"
  by code_simp

lemma talk2_eval:
  "(map tl_status (working talk2), length (db_core (gs_core talk2))) = ([ia_confirmed], 1)"
  by code_simp

lemma talk_row_facts [simp]:
  "working talk1 = [talk_row]" "tl_status talk_row = ia_pending" "tl_kind talk_row = kind_draft" "tl_id talk_row = 9"
  "tl_chat_id talk_row = ''-100''" "tl_bot_message_id talk_row = Some 55" "te_now talk_env < tl_expires_at talk_row"
  "gs_core talk1 = fresh_db"
  by (simp_all add: talk1_eval talk_row_def talk_env_def INTERACTION_TTL_def)

section \<open>Orders come from confirmed drafts\<close>

text \<open>
  (C13) Along every run, with any answers of the language model, the bot and the broker, interleaved with every
  other change of the orders, and with requests whose last commit is lost: no interaction disappears, its status
  only moves forwards and what it asks for is fixed once it has left pending; a chat has at most one open
  interaction; an interaction is linked to an order exactly when it is confirmed, the order has the owner,
  the symbol, the strategy and the quantity of its draft, and no two interactions share one.
\<close>

theorem telegram_orders_confirmed_once:
  assumes "tg_step\<^sup>*\<^sup>* s s'" and "tg_ok s"
  shows "interactions_le (working s) (working s') \<and> unique_on is_open tl_chat_id (working s') \<and>
    (\<forall>r \<in> set (working s'). (tl_created_trade_intent_id r \<noteq> None \<longleftrightarrow> tl_status r = ia_confirmed) \<and>
      (tl_status r = ia_confirmed \<longrightarrow> linked (gs_core s') r)) \<and>
    (\<forall>r \<in> set (working s'). \<forall>q \<in> set (working s'). tl_created_trade_intent_id r \<noteq> None \<longrightarrow>
      tl_created_trade_intent_id r = tl_created_trade_intent_id q \<longrightarrow> r = q)"
proof -
  from tg_run_next [OF assms] have le: "interactions_le (working s) (working s')"
    and ok: "interactions_ok (gs_core s') (working s')" by (auto simp: tg_next_def tg_ok_def)
  have each: "(tl_created_trade_intent_id r \<noteq> None \<longleftrightarrow> tl_status r = ia_confirmed) \<and>
      (tl_status r = ia_confirmed \<longrightarrow> linked (gs_core s') r)" if "r \<in> set (working s')" for r
    using ok that by (auto simp: interactions_ok_def interaction_ok_def linked_def split: if_split_asm)
  have "r = q" if "r \<in> set (working s')" "q \<in> set (working s')" "tl_created_trade_intent_id r \<noteq> None"
    "tl_created_trade_intent_id r = tl_created_trade_intent_id q" for r q
    using ok that unique_onD [of "\<lambda>r. tl_created_trade_intent_id r \<noteq> None" tl_created_trade_intent_id "working s'" r q]
    by (simp add: interactions_ok_def)
  moreover have "unique_on is_open tl_chat_id (working s')" using ok by (simp add: interactions_ok_def)
  ultimately show ?thesis using le each by blast
qed

theorem telegram_orders_confirmed_once_witness:
  "tg_step\<^sup>*\<^sup>* talk0 talk2 \<and> tg_ok talk0 \<and> (\<exists>r \<in> set (working talk2). tl_status r = ia_confirmed \<and> linked (gs_core talk2) r)"
proof -
  have run: "tg_step\<^sup>*\<^sup>* talk0 talk2" using talk_run by (meson converse_rtranclp_into_rtranclp r_into_rtranclp)
  from talk2_eval obtain r where "r \<in> set (working talk2)" "tl_status r = ia_confirmed" by auto
  with telegram_orders_confirmed_once [OF run talk0_ok] run talk0_ok show ?thesis by blast
qed

text \<open>
  What a callback that changes the orders must have been.
\<close>

lemma callback_press:
  assumes ok: "tg_ok s" and hc: "handle_callback env chat data m s = (res, s')" and ch: "gs_core s' \<noteq> gs_core s"
  obtains i inp l j sent where "chat_is_allowed (te_settings env) chat" "parse_callback_data data = Some (act_confirm, tl_id i)"
    "i \<in> set (working s)" "tl_chat_id i = chat" "tl_status i = ia_pending" "tl_kind i = kind_draft"
    "tl_bot_message_id i = m" "m \<noteq> None" "te_now env < tl_expires_at i"
    "create_input_from_payload (tl_payload i) (tl_owner_user_id i) = Inr inp" "payload_lines (tl_payload i) = Inr l"
    "create_for env inp s = (Inr (j, gs_core s', sent), gs_provider s')"
    "res = Inr (Some ((reply_about chat (CreatedText l) i)\<lparr>tr_bot_message_id := tl_bot_message_id i\<rparr>))"
    "working s' = upd_interaction (tl_id i) (set_confirmed (te_now env) (te_intent_id env)) (working s)"
proof -
  have "\<exists>i. chat_is_allowed (te_settings env) chat \<and> parse_callback_data data = Some (act_confirm, tl_id i) \<and>
    i \<in> set (working s) \<and> tl_chat_id i = chat \<and> tl_status i = ia_pending \<and> tl_kind i = kind_draft \<and>
    tl_bot_message_id i = m \<and> m \<noteq> None \<and> te_now env < tl_expires_at i \<and> confirm_draft env chat i s = (res, s')"
    using hc ch unfolding handle_callback_def interaction_by_id_def
    by (auto split: if_split_asm option.split_asm sum.split_asm prod.split_asm callback_action.split_asm dest!: one_or_none_SomeD)
      (metis callback_action.exhaust)+
  then obtain i where i: "chat_is_allowed (te_settings env) chat" "parse_callback_data data = Some (act_confirm, tl_id i)"
    "i \<in> set (working s)" "tl_chat_id i = chat" "tl_status i = ia_pending" "tl_kind i = kind_draft"
    "tl_bot_message_id i = m" "m \<noteq> None" "te_now env < tl_expires_at i" and cd: "confirm_draft env (tl_chat_id i) i s = (res, s')"
    by blast
  from draft_inputs [OF ok i(3,6)] obtain inp where
    inp: "create_input_from_payload (tl_payload i) (tl_owner_user_id i) = Inr inp" and "payload_shows (tl_payload i) inp" .
  then obtain l where l: "payload_lines (tl_payload i) = Inr l" by (auto simp: payload_shows_def)
  obtain out p where tx: "create_for env inp s = (out, p)" by fastforce
  show thesis
  proof (cases out)
    case (Inl e)
    from confirm_draft_failed [OF ok i(3,5) inp tx [unfolded Inl]] cd ch show thesis by (auto split: if_split_asm)
  next
    case (Inr y)
    obtain j db sent where y: "y = (j, db, sent)" by (cases y) auto
    from confirm_draft_created [OF ok i(3,5) inp l tx [unfolded Inr y]] cd tx Inr y
    show thesis by (intro that [OF i inp l]) (auto simp: i(4))
  qed
qed

text \<open>
  (C14) A webhook request changes the orders only when the confirm button of a draft was pressed: the request carries the
  configured secret, comes from the configured chat and not from a bot, names a pending draft that has not
  expired, and was pressed on the message that showed this draft. It then does what the create command does for
  the order of the draft, which is shown in the reply, adds exactly this one order, and confirms the draft.
\<close>

theorem telegram_order_needs_press:
  assumes "tg_ok s" and "telegram_webhook env ident secret u s = (res, s', calls)" and "gs_core s' \<noteq> gs_core s"
  shows "\<exists>cb m data i inp c sent. secret = tc_telegram_webhook_secret (te_settings env) \<and> secret \<noteq> None \<and>
    up_callback_query u = Some cb \<and> cq_from_bot cb \<noteq> Some True \<and> cq_message cb = Some m \<and> cq_data cb = Some data \<and>
    parse_callback_data data = Some (act_confirm, tl_id i) \<and> i \<in> set (working s) \<and>
    tl_chat_id i = configured_chat (te_settings env) \<and> tl_bot_message_id i = Some (tm_message_id m) \<and>
    tl_status i = ia_pending \<and> tl_kind i = kind_draft \<and> te_now env < tl_expires_at i \<and>
    create_input_from_payload (tl_payload i) (tl_owner_user_id i) = Inr inp \<and>
    create_execute (te_ops env) (te_halted env) (te_limits env) (te_tx_now env) (te_intent_id env) (te_trigger_id env)
      (te_notification_id env) (te_session_now env) inp (gs_provider s) (gs_core s) =
      (Inr (view (gs_core s') c), gs_core s', gs_provider s', sent) \<and> order_matches inp c \<and>
    map c_id (db_core (gs_core s')) = map c_id (db_core (gs_core s)) @ [te_intent_id env] \<and>
    working s' = upd_interaction (tl_id i) (set_confirmed (te_now env) (te_intent_id env)) (working s)"
proof -
  from assms(2,3) webhook_message_next [OF assms(1)] obtain cb chat where
    wh: "webhook_callback env cb s = (res, s', calls)" "up_callback_query u = Some cb"
    and sec: "verify_secret secret (tc_telegram_webhook_secret (te_settings env)) = Inr ()"
    by (auto simp: telegram_webhook_def split: sum.split_asm option.split_asm if_split_asm)
  have core: "gs_core (commit_rows t) = gs_core t" "gs_core (rollback_rows t) = gs_core t" "working (commit_rows t) = working t"
    "gs_provider (commit_rows t) = gs_provider t" for t :: "'a tg_state" by (simp_all add: commit_rows_def rollback_rows_def)
  from wh(1) assms(3) obtain r t where bot: "cq_from_bot cb \<noteq> Some True" and hu: "handle_callback_update env cb s = (r, t)"
    and t: "gs_core t \<noteq> gs_core s" "s' = commit_rows t \<or> s' = rollback_rows t \<and> (\<exists>e. r = Inl e)"
    by (auto simp: webhook_callback_def Let_def core split: if_split_asm sum.split_asm option.split_asm prod.split_asm)
  from hu t(1) obtain m data where cb: "cq_message cb = Some m" "cq_data cb = Some data"
    and hc: "handle_callback env (tm_chat m) data (Some (tm_message_id m)) s = (r, t)"
    by (auto simp: handle_callback_update_def split: option.split_asm)
  from callback_press [OF assms(1) hc t(1)] obtain i inp l j sent where
    allowed: "chat_is_allowed (te_settings env) (tm_chat m)" and i: "parse_callback_data data = Some (act_confirm, tl_id i)"
    "i \<in> set (working s)" "tl_chat_id i = tm_chat m" "tl_status i = ia_pending" "tl_kind i = kind_draft"
    "tl_bot_message_id i = Some (tm_message_id m)" "te_now env < tl_expires_at i"
    "create_input_from_payload (tl_payload i) (tl_owner_user_id i) = Inr inp"
    and tx: "create_for env inp s = (Inr (j, gs_core t, sent), gs_provider t)" and r: "\<exists>x. r = Inr x"
    and rows: "working t = upd_interaction (tl_id i) (set_confirmed (te_now env) (te_intent_id env)) (working s)" by metis
  have s': "s' = commit_rows t" using t(2) r by auto
  have "core_inv (gs_core s)" using assms(1) by (simp add: tg_ok_def)
  from create_tx_created [OF this tx] obtain c where c: "order_matches inp c"
    "map c_id (db_core (gs_core t)) = map c_id (db_core (gs_core s)) @ [te_intent_id env]"
    "create_execute (te_ops env) (te_halted env) (te_limits env) (te_tx_now env) (te_intent_id env) (te_trigger_id env)
      (te_notification_id env) (te_session_now env) inp (gs_provider s) (gs_core s) =
      (Inr (view (gs_core t) c), gs_core t, gs_provider t, sent)" by metis
  have "secret = tc_telegram_webhook_secret (te_settings env) \<and> secret \<noteq> None"
    using sec by (auto simp: verify_secret_def split: if_split_asm)
  moreover have "tl_chat_id i = configured_chat (te_settings env)" using allowed i(3) by (simp add: chat_is_allowed_def)
  ultimately show ?thesis using wh(2) bot cb i c rows unfolding s' core by blast
qed

lemma talk2_webhook:
  obtains res calls where "telegram_webhook talk_env talk_ident (Some ''k'') talk_press talk1 = (res, talk2, calls)"
  unfolding talk2_def by (metis prod.collapse)

theorem telegram_order_needs_press_witness:
  "tg_ok talk1 \<and> gs_core talk2 \<noteq> gs_core talk1 \<and> map c_id (db_core (gs_core talk2)) = [1]"
proof -
  have ne: "gs_core talk2 \<noteq> gs_core talk1" using talk2_eval by (auto simp: empty_db_def)
  obtain res calls where wh: "telegram_webhook talk_env talk_ident (Some ''k'') talk_press talk1 = (res, talk2, calls)"
    by (rule talk2_webhook)
  from telegram_order_needs_press [OF talk1_ok wh ne] have "map c_id (db_core (gs_core talk2)) =
      map c_id (db_core (gs_core talk1)) @ [te_intent_id talk_env]" by blast
  then show ?thesis using talk1_ok ne by (simp add: empty_db_def talk_env_def)
qed

text \<open>
  Pressing a button of a live draft. Its data is read back as the action and the draft it was made for. Cancel
  cancels it. Confirm runs the create command on the order the draft shows: when that succeeds the order and the
  confirmed draft are kept and the reply names the order; a duplicate cancels the draft; after any other failure
  nothing has changed but possibly the subscription, and the draft can be confirmed again.
\<close>

theorem telegram_press_outcome:
  assumes "tg_ok s" and "chat_is_allowed (te_settings env) (tl_chat_id i)" and "i \<in> set (working s)"
    and "tl_status i = ia_pending" and "tl_kind i = kind_draft" and "tl_bot_message_id i = Some m"
    and "te_now env < tl_expires_at i" and "tl_id i < 2 ^ 128"
  shows "handle_callback env (tl_chat_id i) (callback_data act_cancel (tl_id i)) (Some m) s =
      (Inr (Some (reply_about (tl_chat_id i) CANCELLED_REPLY i)),
       set_rows (upd_interaction (tl_id i) (set_status ia_cancelled) (working s)) s) \<and>
    (\<exists>inp l. create_input_from_payload (tl_payload i) (tl_owner_user_id i) = Inr inp \<and>
      payload_shows (tl_payload i) inp \<and> payload_lines (tl_payload i) = Inr l \<and>
      handle_callback env (tl_chat_id i) (callback_data act_confirm (tl_id i)) (Some m) s =
      (case create_for env inp s of
         (Inl e, p) \<Rightarrow>
           if is_duplicate_intent e
           then (Inr (Some (reply_about (tl_chat_id i) DUPLICATE_INTENT_REPLY i)),
                 set_rows (upd_interaction (tl_id i) (set_status ia_cancelled) (working s)) (s\<lparr>gs_provider := p\<rparr>))
           else (Inr (Some (reply_about (tl_chat_id i) USER_PAGE_ERROR_REPLY i)), s\<lparr>gs_provider := p\<rparr>)
       | (Inr (j, db, sent), p) \<Rightarrow>
           (Inr (Some ((reply_about (tl_chat_id i) (CreatedText l) i)\<lparr>tr_bot_message_id := Some m\<rparr>)),
            s\<lparr>gs_rows := \<lparr>ss_committed = upd_interaction (tl_id i) (set_status ia_confirming) (working s),
                ss_working = upd_interaction (tl_id i) (set_confirmed (te_now env) (te_intent_id env)) (working s)\<rparr>,
              gs_core := db, gs_provider := p, gs_sent := gs_sent s @ sent\<rparr>)))"
proof -
  have d: "distinct (map tl_id (working s))" using assms(1) by (auto simp: tg_ok_def interactions_ok_def)
  note P = pending_row_ops [OF d assms(3,4)]
  have "filter (\<lambda>r. tl_id r = tl_id i \<and> tl_chat_id r = tl_chat_id i) (working s) = filter (\<lambda>r. tl_chat_id r = tl_chat_id i) [i]"
    using filter_key [OF d assms(3)] by (simp flip: filter_filter)
  then have by_id: "interaction_by_id (tl_id i) (tl_chat_id i) (working s) = Inr (Some i)"
    by (simp add: interaction_by_id_def one_or_none_def)
  have hc: "handle_callback env (tl_chat_id i) (callback_data a (tl_id i)) (Some m) s =
      (if a = act_cancel then (Inr (Some (reply_about (tl_chat_id i) CANCELLED_REPLY i)),
         set_rows (upd_interaction (tl_id i) (set_status ia_cancelled) (working s)) s)
       else confirm_draft env (tl_chat_id i) i s)" for a
    using assms(2,4-7) P(2) [of ia_cancelled] by (simp add: handle_callback_def parse_button [OF assms(8)] by_id)
  from draft_inputs [OF assms(1,3,5)] obtain inp where
    inp: "create_input_from_payload (tl_payload i) (tl_owner_user_id i) = Inr inp" and sh: "payload_shows (tl_payload i) inp" .
  then obtain l where l: "payload_lines (tl_payload i) = Inr l" by (auto simp: payload_shows_def)
  show ?thesis
    using hc [of act_cancel] hc [of act_confirm] inp sh l assms(6)
      confirm_draft_failed [OF assms(1,3,4) inp] confirm_draft_created [OF assms(1,3,4) inp l]
    by (auto split: prod.split sum.split)
qed

theorem telegram_press_outcome_witness:
  "tg_ok talk1 \<and> fst (handle_callback talk_env ''-100'' (callback_data act_cancel 9) (Some 55) talk1) =
     Inr (Some (reply_about ''-100'' CANCELLED_REPLY talk_row))"
proof -
  have "chat_is_allowed (te_settings talk_env) (tl_chat_id talk_row)" by code_simp
  from telegram_press_outcome [of talk1 talk_env talk_row 55, OF talk1_ok this] show ?thesis
    using talk1_ok by simp
qed

section \<open>What the group is shown\<close>

lemma pending_found:
  assumes "find_pending_for_chat chat rows = Inr (Some i)"
  shows "i \<in> set rows" "tl_chat_id i = chat" "is_open i"
  using assms by (auto simp: find_pending_for_chat_def dest!: one_or_none_SomeD)

definition shown_draft :: "string \<Rightarrow> uuid \<Rightarrow> reply_text \<Rightarrow> interaction_row \<Rightarrow> bool" where
  "shown_draft chat k t i \<longleftrightarrow> tl_id i = k \<and> tl_chat_id i = chat \<and> tl_status i = ia_pending \<and> tl_kind i = kind_draft \<and>
     (\<exists>inp c. create_input_from_payload (tl_payload i) (tl_owner_user_id i) = Inr inp \<and>
        ci_strategy inp = CAPABILITY_TO_NOTIFY_ONLY_STRATEGY c \<and>
        t = ConfirmationText (JStr (CAPABILITY_LABELS c), JStr (ci_symbol inp), JInt (ci_quantity_lots inp),
              map_option JStr (ci_target_price inp)))"

lemma shown_draftI:
  assumes "interaction_ok db i" and "tl_status i = ia_pending" and "tl_kind i = kind_draft"
    and "confirmation_text (tl_payload i) = Inr t"
  shows "shown_draft (tl_chat_id i) (tl_id i) t i"
proof -
  from assms(1,3) have "draft_ok i" by (simp add: interaction_ok_def)
  with assms show ?thesis
    by (auto simp: shown_draft_def draft_ok_def payload_shows_def confirmation_text_def r_bind_Inr_iff)
qed

lemma save_interaction_row:
  assumes ok: "interactions_ok db rows" and val: "validate_decision d db' = Inr None" "td_capability_id d = Some c"
    and pend: "\<And>q. pending = Some q \<Longrightarrow> q \<in> set rows \<and> tl_chat_id q = chat \<and> tl_status q = ia_pending"
    and sv: "save_interaction users k owner chat pending d c kind_draft missing now rows = Inr (r, rows')"
  shows "\<exists>i \<in> set rows'. tr_interaction_id r = Some (tl_id i) \<and> shown_draft chat (tl_id i) (tr_text r) i"
proof -
  let ?p = "payload_from_decision d c (map_option tl_payload pending)"
  define f where "f = saved_fields pending d c kind_draft missing now"
  from save_interaction_Inr [OF sv, folded f_def] obtain x rows1 i t where
    up: "(case pending of None \<Rightarrow> Inr (None, rows) | Some r \<Rightarrow> update_pending (tl_id r) chat f rows) = Inr (x, rows1)"
    and cr: "(case x of Some i \<Rightarrow> Inr (i, rows1) | None \<Rightarrow> create_interaction users k owner chat f rows1) = Inr (i, rows')"
    and r: "tr_interaction_id r = Some (tl_id i)" "tr_text r = t" and t: "confirmation_text ?p = Inr t"
    by metis
  have d: "distinct (map tl_id rows)" using ok by (simp add: interactions_ok_def)
  have row: "i \<in> set rows' \<and> tl_chat_id i = chat \<and> tl_status i = ia_pending \<and> tl_kind i = kind_draft \<and> tl_payload i = ?p"
  proof (cases x)
    case None
    with cr show ?thesis
      by (auto simp: create_interaction_def Let_def new_interaction_def f_def saved_fields_def split: if_split_asm)
  next
    case (Some j)
    with up obtain q where q: "pending = Some q" "update_pending (tl_id q) chat f rows = Inr (Some j, rows1)"
      by (auto split: option.split_asm)
    note pq = pend [OF q(1)]
    from q(2) have rows1: "rows1 = upd_where (pending_in (tl_id q) chat) (set_fields f) rows"
      and "interaction_by_id (tl_id q) chat rows1 = Inr (Some j)"
      by (auto simp: update_pending_def Let_def r_bind_Inr_iff split: if_split_asm)
    then have "j \<in> set rows1" "tl_id j = tl_id q" by (auto simp: interaction_by_id_def dest!: one_or_none_SomeD)
    then obtain z where "z \<in> set rows" and j: "j = (if pending_in (tl_id q) chat z then set_fields f z else z)" "tl_id z = tl_id q"
      unfolding rows1 set_upd_where by (auto simp: set_fields_def split: if_split_asm)
    with d pq have "z = q" by (auto simp: distinct_map inj_on_def)
    with j pq have "j = set_fields f q" by (simp add: pending_in_def)
    with \<open>j \<in> set rows1\<close> pq cr Some show ?thesis by (auto simp: set_fields_def f_def saved_fields_def)
  qed
  have "keeps db rows rows'" by (rule save_interaction_keeps [OF ok _ sv]) (use val in auto)
  with row have "interaction_ok db i" by (auto simp: keeps_def interactions_ok_def)
  from shown_draftI [OF this _ _ t [folded conjunct2 [OF conjunct2 [OF conjunct2 [OF conjunct2 [OF row]]]]]] row r
  show ?thesis by auto
qed

lemma act_on_decision_shown:
  assumes ok: "interactions_ok db rows"
    and pend: "\<And>q. pending = Some q \<Longrightarrow> q \<in> set rows \<and> tl_chat_id q = chat \<and> tl_status q = ia_pending"
    and act: "act_on_decision env users owner chat pending d db' rows = Inr (Some r, rows')"
    and kb: "tr_reply_markup r = Some (confirmation_markup k)" "tr_interaction_id r = Some k"
  shows "\<exists>t. (\<exists>i \<in> set rows'. shown_draft chat k t i) \<and> tr_text r \<in> {t, CURRENT_DRAFT_REPLY t}"
proof -
  have save: ?thesis if "save_interaction users j owner chat pending d c kind missing now rows = Inr (r, rows')"
    "kind = kind_draft \<Longrightarrow> validate_decision d db' = Inr None \<and> td_capability_id d = Some c" for j c kind missing now
  proof (cases kind)
    case kind_draft
    with save_interaction_row [OF ok _ _ pend] that kb(2) show ?thesis by fastforce
  next
    case kind_clarification
    with that(1) kb(1) show ?thesis
      by (auto simp: save_interaction_def Let_def r_bind_Inr_iff cancel_markup_def confirmation_markup_def)
  qed
  have current: ?thesis if "pending = Some q" "current_draft_reply chat q = Inr r" "rows' = rows" for q
  proof -
    have q: "q \<in> set rows" "tl_chat_id q = chat" "tl_status q = ia_pending" using pend [OF that(1)] by auto
    with ok have "interaction_ok db q" by (simp add: interactions_ok_def)
    with q that(2,3) kb show ?thesis
      by (auto simp: current_draft_reply_def r_bind_Inr_iff cancel_markup_def confirmation_markup_def
          split: if_split_asm intro!: bexI [of _ q] dest!: shown_draftI)
  qed
  have "(\<exists>q. pending = Some q \<and> current_draft_reply chat q = Inr r \<and> rows' = rows) \<or> tr_reply_markup r = None \<or>
    (\<exists>j c kind missing now. save_interaction users j owner chat pending d c kind missing now rows = Inr (r, rows') \<and>
      (kind = kind_draft \<longrightarrow> validate_decision d db' = Inr None \<and> td_capability_id d = Some c))"
    using act unfolding act_on_decision_def Let_def
    by (auto simp: r_bind_Inr_iff plain_reply_def split: if_split_asm option.split_asm) blast+
  then show ?thesis using kb(1) by (elim disjE exE conjE) (rule current, assumption+, simp, rule save, assumption, blast)
qed



section \<open>The language model's boundary\<close>

text \<open>
  (C28) Whatever the language model answers, a decision that reaches the command is well formed: a symbol is a
  number, quantity and price are positive, a trading decision names its capability, a draft is complete for it
  and a market order has no price. So the command never answers a draft with its field error, only with the
  error of an order that cannot be placed.
\<close>

theorem llm_boundary_sound:
  assumes "build_telegram_intent_decider key post read_fields msg previous_capability previous_payload = Some d"
  shows "decision_ok d \<and>
    (td_decision d = dt_draft_intent \<longrightarrow>
       validate_decision d db \<notin> {Inr (Some FIELD_ERROR_REPLY), Inr (Some UNSUPPORTED_REPLY)})"
proof -
  have ok: "decision_ok d" by (rule decider_ok [OF assms])
  have "validate_decision d db \<notin> {Inr (Some FIELD_ERROR_REPLY), Inr (Some UNSUPPORTED_REPLY)}" if "td_decision d = dt_draft_intent"
  proof -
    from ok that obtain c symbol q where "td_capability_id d = Some c" "td_symbol d = Some symbol" "td_quantity_lots d = Some q"
      "symbol \<noteq> []" "list_all is_digit symbol" "0 < q" "c \<in> LIMIT_CAPABILITIES \<longrightarrow> td_target_price d \<noteq> None"
      "c \<in> MARKET_CAPABILITIES \<longrightarrow> td_target_price d = None"
      by (auto simp: decision_ok_def)
    then show ?thesis by (auto simp: validate_decision_def split: sum.split)
  qed
  with ok show ?thesis by blast
qed

definition talk_response :: json where
  "talk_response = JObj [(''status'', JStr ''completed''), (''output'', JList [JObj [(''type'', JStr ''reasoning'')],
     JObj [(''type'', JStr ''message''), (''role'', JStr ''assistant''), (''status'', JStr ''completed''),
       (''content'', JList [JObj [(''type'', JStr ''output_text''), (''text'', JStr ''x'')]])]])]"

definition talk_fields :: decision_fields where
  "talk_fields = \<lparr>df_decision = dt_draft_intent, df_capability_id = Some limit_buy, df_symbol = Some ''2330'',
     df_quantity_lots = Some 1, df_target_price = JFloat ''600.5'', df_missing_fields = []\<rparr>"

theorem llm_boundary_sound_witness:
  "\<exists>d. build_telegram_intent_decider (Some ''key'') (\<lambda>m c p. Some talk_response) (\<lambda>s. Some talk_fields) ''buy'' None None = Some d \<and>
     decision_ok d"
proof -
  let ?build = "build_telegram_intent_decider (Some ''key'') (\<lambda>m c p. Some talk_response) (\<lambda>s. Some talk_fields) ''buy'' None None"
  have "?build \<noteq> None" by code_simp
  then obtain d where "?build = Some d" by blast
  with llm_boundary_sound [OF this] show ?thesis by blast
qed

section \<open>Where the code falls short\<close>

text \<open>
  An interaction left in confirming is never left again: while a chat has one, no request changes the status of any
  of its interactions or an order, and every message of it is answered with "being confirmed", past the expiry
  too. The comment expects a failed create to return the draft to pending; a request that is cut off
  between the commit of the create command and its own leaves the claim behind.
\<close>

lemma lost_commit_leaves_claim:
  "\<exists>res t. handle_callback talk_env ''-100'' (callback_data act_confirm 9) (Some 55) talk1 = (res, t) \<and>
     (map tl_status (working (rollback_rows t)), length (db_core (gs_core (rollback_rows t)))) = ([ia_confirming], 1)"
proof -
  have "(let t = rollback_rows (snd (handle_callback talk_env ''-100'' (callback_data act_confirm 9) (Some 55) talk1))
     in (map tl_status (working t), length (db_core (gs_core t)))) = ([ia_confirming], 1)" by code_simp
  then show ?thesis by (metis prod.collapse)
qed

lemma deliver_status:
  assumes "deliver_message_reply env r rows = (Inr rows', calls)"
  shows "map tl_status rows' = map tl_status rows"
  using deliver_Inr [OF assms] by (auto dest!: attach_Inr simp: map_upd_where_frame)

definition unmoved :: "'p tg_state \<Rightarrow> 'p tg_state \<Rightarrow> bool" where
  "unmoved s s' \<longleftrightarrow> map tl_status (working s') = map tl_status (working s) \<and> gs_core s' = gs_core s"

lemma unmoved_refl [simp]: "unmoved s s"
  by (simp add: unmoved_def)

lemma unmoved_simps:
  assumes "tg_ok s"
  shows "unmoved s (commit_rows s)" "unmoved s (rollback_rows s)"
    "unmoved s (commit_rows (set_rows rows s)) \<longleftrightarrow> map tl_status rows = map tl_status (working s)"
  using assms by (auto simp: unmoved_def commit_rows_def rollback_rows_def tg_ok_def set_rows_def)

lemma confirming_only:
  assumes "tg_ok s" and "i \<in> set (working s)" and "tl_status i = ia_confirming"
    and "q \<in> set (working s)" and "tl_chat_id q = tl_chat_id i" and "is_open q"
  shows "q = i"
proof -
  have "unique_on is_open tl_chat_id (working s)" using assms(1) by (simp add: tg_ok_def interactions_ok_def)
  from unique_onD [OF this assms(4,2,6)] assms(3,5) show ?thesis by (simp add: is_open_def)
qed

lemma confirming_message:
  assumes ok: "tg_ok s" and i: "i \<in> set (working s)" "tl_status i = ia_confirming"
    and hm: "handle_message env ident (tl_chat_id i) msg (gs_core s) (working s) = Inr (x, rows)"
  shows "rows = working s" "x \<noteq> None \<Longrightarrow> map_option tr_text x = Some CONFIRMING_REPLY"
proof -
  have some: "find_pending_for_chat (tl_chat_id i) (working s) \<noteq> Inr None"
    using i by (auto simp: find_pending_for_chat_def one_or_none_def filter_empty_conv is_open_def split: list.split_asm)
  have "y = Some i" if "find_pending_for_chat (tl_chat_id i) (working s) = Inr y" for y
  proof (cases y)
    case None
    with that some show ?thesis by simp
  next
    case (Some q)
    with confirming_only [OF ok i pending_found [OF that [unfolded Some]]] show ?thesis by simp
  qed
  then consider "find_pending_for_chat (tl_chat_id i) (working s) = Inr (Some i)"
    | e where "find_pending_for_chat (tl_chat_id i) (working s) = Inl e"
    by (cases "find_pending_for_chat (tl_chat_id i) (working s)") blast+
  then have "rows = working s \<and> (x \<noteq> None \<longrightarrow> map_option tr_text x = Some CONFIRMING_REPLY)"
    using hm i(2) by cases (auto simp: handle_message_def r_bind_Inr_iff split: if_split_asm option.split_asm)
  then show "rows = working s" "x \<noteq> None \<Longrightarrow> map_option tr_text x = Some CONFIRMING_REPLY"
    by auto
qed

lemma confirming_callback:
  assumes ok: "tg_ok s" and i: "i \<in> set (working s)" "tl_status i = ia_confirming"
    and hc: "handle_callback env (tl_chat_id i) data k s = (r, t)"
  shows "t = s"
proof -
  have "tl_status q \<noteq> ia_pending" if "q \<in> set (working s)" "tl_chat_id q = tl_chat_id i" for q
    using confirming_only [OF ok i that] i(2) by (auto simp: is_open_def)
  then show ?thesis
    using hc unfolding handle_callback_def interaction_by_id_def
    by (auto split: if_split_asm option.split_asm sum.split_asm prod.split_asm dest!: one_or_none_SomeD)
qed

theorem confirming_blocks_chat:
  assumes ok: "tg_ok s" and i: "i \<in> set (working s)" "tl_status i = ia_confirming" "tl_chat_id i = configured_chat (te_settings env)"
    and wh: "telegram_webhook env ident secret u s = (res, s', calls)"
  shows "map tl_status (working s') = map tl_status (working s) \<and> gs_core s' = gs_core s"
proof -
  have cb: "t = s" if "handle_callback env c data k s = (r, t)" for c data k r t
    using that confirming_callback [OF ok i(1,2)] i(3)
    by (cases "chat_is_allowed (te_settings env) c") (simp_all add: chat_is_allowed_def, simp add: handle_callback_def chat_is_allowed_def)
  have c: "unmoved s s'" if "webhook_callback env cq s = (res, s', calls)" for cq
  proof -
    obtain r t where u: "handle_callback_update env cq s = (r, t)" by fastforce
    have "t = s" using u cb by (auto simp: handle_callback_update_def split: option.split_asm)
    with u that show ?thesis
      using unmoved_simps(1,2) [OF ok]
      by (auto simp: webhook_callback_def Let_def split: sum.split_asm option.split_asm if_split_asm)
  qed
  have m: "unmoved s s'" if "webhook_message env ident (configured_chat (te_settings env)) mm s = (res, s', calls)" for mm
    using that [folded i(3)]
    by (auto simp: webhook_message_def unmoved_simps [OF ok] split: option.split_asm if_split_asm sum.split_asm prod.split_asm
        dest!: confirming_message(1) [OF ok i(1,2)] deliver_status)
  have "s' = s \<or> (\<exists>cq. webhook_callback env cq s = (res, s', calls)) \<or>
      (\<exists>mm. webhook_message env ident (configured_chat (te_settings env)) mm s = (res, s', calls))"
    using wh by (auto simp: telegram_webhook_def split: sum.split_asm option.split_asm if_split_asm)
  then have "unmoved s s'" using m c by auto
  then show ?thesis by (simp add: unmoved_def)
qed

text \<open>
  A price no exchange quotes stops the request: the model's answer may name any positive decimal, but the tick check
  of an enormous one raises an error of the decimal module, which the command does not catch.
\<close>

theorem enormous_price_escapes:
  "validate_decision \<lparr>td_decision = dt_draft_intent, td_capability_id = Some limit_buy, td_symbol = Some ''2330'',
     td_quantity_lots = Some 1, td_target_price = Some (Dec False 1 40), td_missing_fields = []\<rparr> fresh_db =
   Inl (ExPrice (PriceArithmetic InvalidOperation))"
proof -
  have "dec_str (Dec False 1 40) = ''1E+40''" by code_simp
  moreover have "parse ''1E+40'' = Inr (Dec False 1 40)"
    by (simp add: parse_eval Let_def dec_le_iff dval_pos_iff dint_def not_le)
  moreover have "is_valid_tick STOCK (Dec False 1 40) = Inl InvalidOperation"
    by (rule is_valid_tick_overflow) (simp add: dval_1e40 [simplified] tick_val_def prec_def)
  ultimately have "validate \<lparr>pr_type = STOCK, pr_price = dec_str (Dec False 1 40), pr_amount = 1\<rparr> =
      Inl (PriceArithmetic InvalidOperation)" by (simp add: validate_def)
  then show ?thesis
    by (simp add: validate_decision_def check_tradable_def get_tradable_symbol_def get_by_symbol_def find_by_symbol_def
        security_type_of_def LIMIT_CAPABILITIES_def MARKET_CAPABILITIES_def is_symbol_or_value_error_def is_digit_def
        empty_db_def sample_symbol_def)
qed

end
