(* ===== verification/Intent_Requests.thy ===== *)
theory Intent_Requests
  imports Telegram_Buttons Twap_Commands
begin

text \<open>
  The request models of \<open>schemas/intent.py\<close> over the base \<open>api/schemas/base.py\<close>: one model per strategy, their
  union by the field \<open>strategy\<close>, and the TWAP plan. A body is a JSON object; how pydantic turns a JSON value
  into a \<open>str\<close>, an \<open>int\<close> or a \<open>Decimal\<close> is an argument, what the models declare (aliases, literals, bounds,
  defaults, no other field) and their own validators are written out. Every rejection is the same
  \<open>RequestValidationError\<close>, answered 422.
\<close>

section \<open>Reading a field\<close>

record coercion =
  co_str :: "json \<Rightarrow> string option"
  co_int :: "json \<Rightarrow> int option"
  co_decimal :: "json \<Rightarrow> decimal option"

abbreviation invalid_body :: exn where
  "invalid_body \<equiv> ExApi VALIDATION_ERROR 422"

definition no_extra :: "string list \<Rightarrow> payload \<Rightarrow> bool" where
  "no_extra declared body \<longleftrightarrow> list_all (\<lambda>(k, _). k \<in> set declared) body"

definition required :: "(json \<Rightarrow> 'a option) \<Rightarrow> string \<Rightarrow> payload \<Rightarrow> exn + 'a" where
  "required read k body = (case obj_get k body of
      None \<Rightarrow> Inl invalid_body
    | Some v \<Rightarrow> (case read v of None \<Rightarrow> Inl invalid_body | Some x \<Rightarrow> Inr x))"

definition defaulted :: "'a \<Rightarrow> (json \<Rightarrow> 'a option) \<Rightarrow> string \<Rightarrow> payload \<Rightarrow> exn + 'a" where
  "defaulted x read k body = (if obj_get k body = None then Inr x else required read k body)"

definition literal :: "(string \<times> 'a) list \<Rightarrow> json \<Rightarrow> 'a option" where
  "literal allowed v = (case v of JStr s \<Rightarrow> map_of allowed s | _ \<Rightarrow> None)"

definition bounded :: "('a \<Rightarrow> bool) \<Rightarrow> (json \<Rightarrow> 'a option) \<Rightarrow> json \<Rightarrow> 'a option" where
  "bounded ok read v = (case read v of None \<Rightarrow> None | Some x \<Rightarrow> if ok x then Some x else None)"

section \<open>The order models\<close>

datatype intent_create_request =
    BuyPriceAlertCreateRequest string int string
  | SellPriceAlertCreateRequest string int string
  | LimitBuyOrderCreateRequest string int string transaction_mode string
  | LimitSellOrderCreateRequest string int string transaction_mode string
  | MarketOrderCreateRequest string int strategy transaction_mode string
  | TrailingStopAlertCreateRequest string int trail_mode decimal

definition base_fields :: "coercion \<Rightarrow> payload \<Rightarrow> exn + string \<times> int" where
  "base_fields co body =
     r_bind (required (co_str co) ''symbol'' body) (\<lambda>symbol.
     r_bind (required (bounded (\<lambda>n. 1 \<le> n) (co_int co)) ''quantityLots'' body) (\<lambda>quantity_lots.
       Inr (symbol, quantity_lots)))"

definition target_price_fields :: "coercion \<Rightarrow> payload \<Rightarrow> exn + string \<times> int \<times> string" where
  "target_price_fields co body =
     r_bind (base_fields co body) (\<lambda>(symbol, quantity_lots).
     r_bind (required (co_str co) ''targetPrice'' body) (\<lambda>target_price. Inr (symbol, quantity_lots, target_price)))"

definition price_alert_request ::
  "string \<Rightarrow> (string \<Rightarrow> int \<Rightarrow> string \<Rightarrow> intent_create_request) \<Rightarrow> coercion \<Rightarrow> payload \<Rightarrow> exn + intent_create_request" where
  "price_alert_request tag build co body =
     (if \<not> no_extra [''symbol'', ''quantityLots'', ''targetPrice'', ''strategy''] body then Inl invalid_body
      else r_bind (target_price_fields co body) (\<lambda>(symbol, quantity_lots, target_price).
           r_bind (required (literal [(tag, ())]) ''strategy'' body) (\<lambda>_. Inr (build symbol quantity_lots target_price))))"

definition buy_price_alert_request :: "coercion \<Rightarrow> payload \<Rightarrow> exn + intent_create_request" where
  "buy_price_alert_request = price_alert_request ''buy_price_alert'' BuyPriceAlertCreateRequest"

definition sell_price_alert_request :: "coercion \<Rightarrow> payload \<Rightarrow> exn + intent_create_request" where
  "sell_price_alert_request = price_alert_request ''sell_price_alert'' SellPriceAlertCreateRequest"

definition limit_order_request ::
  "string \<Rightarrow> (string \<Rightarrow> int \<Rightarrow> string \<Rightarrow> transaction_mode \<Rightarrow> string \<Rightarrow> intent_create_request) \<Rightarrow> coercion \<Rightarrow> payload \<Rightarrow>
   exn + intent_create_request" where
  "limit_order_request tag build co body =
     (if \<not> no_extra [''symbol'', ''quantityLots'', ''targetPrice'', ''transactionMode'', ''notificationMode'', ''strategy''] body
      then Inl invalid_body
      else r_bind (target_price_fields co body) (\<lambda>(symbol, quantity_lots, target_price).
           r_bind (defaulted single_notification
             (literal [(''single_notification'', single_notification), (''partial_fill_allowed'', partial_fill_allowed)])
             ''transactionMode'' body) (\<lambda>transaction_mode.
           r_bind (defaulted ''single'' (literal [(''single'', ''single'')]) ''notificationMode'' body) (\<lambda>notification_mode.
           r_bind (required (literal [(tag, ())]) ''strategy'' body) (\<lambda>_.
             Inr (build symbol quantity_lots target_price transaction_mode notification_mode))))))"

definition limit_buy_order_request :: "coercion \<Rightarrow> payload \<Rightarrow> exn + intent_create_request" where
  "limit_buy_order_request = limit_order_request ''limit_buy_order'' LimitBuyOrderCreateRequest"

definition limit_sell_order_request :: "coercion \<Rightarrow> payload \<Rightarrow> exn + intent_create_request" where
  "limit_sell_order_request = limit_order_request ''limit_sell_order'' LimitSellOrderCreateRequest"

definition market_order_request :: "coercion \<Rightarrow> payload \<Rightarrow> exn + intent_create_request" where
  "market_order_request co body =
     (if \<not> no_extra [''symbol'', ''quantityLots'', ''strategy'', ''transactionMode'', ''notificationMode''] body
      then Inl invalid_body
      else r_bind (base_fields co body) (\<lambda>(symbol, quantity_lots).
           r_bind (required (literal [(''market_order'', market_order), (''market_buy_order'', market_buy_order),
             (''market_sell_order'', market_sell_order)]) ''strategy'' body) (\<lambda>strategy.
           r_bind (defaulted partial_fill_allowed (literal [(''partial_fill_allowed'', partial_fill_allowed)])
             ''transactionMode'' body) (\<lambda>transaction_mode.
           r_bind (defaulted ''single'' (literal [(''single'', ''single'')]) ''notificationMode'' body) (\<lambda>notification_mode.
             Inr (MarketOrderCreateRequest symbol quantity_lots strategy transaction_mode notification_mode))))))"

subsection \<open>The trailing stop\<close>

text \<open>\<open>Decimal.quantize\<close> to the exponent \<open>e\<close> in the default context: half even, \<open>InvalidOperation\<close> when the result
  needs more than the 28 digits.\<close>

definition half_even :: "nat \<Rightarrow> nat \<Rightarrow> nat" where
  "half_even n p = (let q = n div p; r = n mod p in if p < 2 * r \<or> (p = 2 * r \<and> odd q) then q + 1 else q)"

definition dec_quantize :: "decimal \<Rightarrow> int \<Rightarrow> dec_error + decimal" where
  "dec_quantize d e =
     (if dcoeff d = 0 then Inr (Dec (dneg d) 0 e)
      else if int prec < dexp d + int (ndigits (dcoeff d)) - e then Inl InvalidOperation
      else let c = (if e \<le> dexp d then dcoeff d * 10 ^ nat (dexp d - e) else half_even (dcoeff d) (10 ^ nat (e - dexp d)))
           in if prec < ndigits c then Inl InvalidOperation else Inr (Dec (dneg d) c e))"

definition validate_percentage_trail_value :: "trail_mode \<Rightarrow> decimal \<Rightarrow> exn + unit" where
  "validate_percentage_trail_value mode trail_value =
     (if mode \<noteq> percentage then Inr ()
      else if dec_less (Dec False 10 0) trail_value then Inl invalid_body
      else r_bind (lift_ex ExDecimal (dec_quantize trail_value (- 4))) (\<lambda>q.
           if \<not> dec_eq q trail_value then Inl invalid_body else Inr ()))"

definition trailing_stop_alert_request :: "coercion \<Rightarrow> payload \<Rightarrow> exn + intent_create_request" where
  "trailing_stop_alert_request co body =
     (if \<not> no_extra [''symbol'', ''quantityLots'', ''strategy'', ''trailMode'', ''trailValue''] body then Inl invalid_body
      else r_bind (base_fields co body) (\<lambda>(symbol, quantity_lots).
           r_bind (required (literal [(''trailing_stop_alert'', ())]) ''strategy'' body) (\<lambda>_.
           r_bind (required (literal [(''percentage'', percentage), (''fixed_amount'', fixed_amount)]) ''trailMode'' body) (\<lambda>mode.
           r_bind (required (bounded (dec_less dec_zero) (co_decimal co)) ''trailValue'' body) (\<lambda>trail_value.
           r_bind (validate_percentage_trail_value mode trail_value) (\<lambda>_.
             Inr (TrailingStopAlertCreateRequest symbol quantity_lots mode trail_value)))))))"

subsection \<open>The union\<close>

definition union_request :: "coercion \<Rightarrow> payload \<Rightarrow> exn + intent_create_request" where
  "union_request co body = (case obj_get ''strategy'' body of
      Some (JStr s) \<Rightarrow>
        if s = ''buy_price_alert'' then buy_price_alert_request co body
        else if s = ''sell_price_alert'' then sell_price_alert_request co body
        else if s = ''limit_buy_order'' then limit_buy_order_request co body
        else if s = ''limit_sell_order'' then limit_sell_order_request co body
        else if s \<in> {''market_order'', ''market_buy_order'', ''market_sell_order''} then market_order_request co body
        else if s = ''trailing_stop_alert'' then trailing_stop_alert_request co body
        else Inl invalid_body
    | _ \<Rightarrow> Inl invalid_body)"

section \<open>The TWAP plan\<close>

record twap_plan_request =
  tw_symbol :: string
  tw_position_side :: position_side
  tw_quantity_lots :: int
  tw_interval_seconds :: int
  tw_start_time :: "tod option"
  tw_end_time :: tod

abbreviation minutes :: "nat \<Rightarrow> nat \<Rightarrow> tod" where
  "minutes hour minute \<equiv> (int hour * 60 + int minute) * 60 * usec_per_sec"

definition validate_time_precision :: "json \<Rightarrow> tod option option" where
  "validate_time_precision value = (case value of
      JNull \<Rightarrow> Some None
    | JStr s \<Rightarrow> (case split_on (CHR '':'') s of
          [h, m] \<Rightarrow>
            if list_all (\<lambda>part. length part = 2 \<and> list_all is_digit part) [h, m] \<and> digits_val h \<le> 23 \<and> digits_val m \<le> 59
            then Some (Some (minutes (digits_val h) (digits_val m))) else None
        | _ \<Rightarrow> None)
    | _ \<Rightarrow> None)"

definition read_twap_plan :: "coercion \<Rightarrow> payload \<Rightarrow> exn + twap_plan_request" where
  "read_twap_plan co body =
     (if \<not> no_extra [''symbol'', ''positionSide'', ''quantityLots'', ''intervalSeconds'', ''startTime'', ''endTime''] body
      then Inl invalid_body
      else r_bind (required (co_str co) ''symbol'' body) (\<lambda>symbol.
           r_bind (required (literal [(''long'', long_position), (''short'', short_position)]) ''positionSide'' body) (\<lambda>side.
           r_bind (required (co_int co) ''quantityLots'' body) (\<lambda>quantity_lots.
           r_bind (required (co_int co) ''intervalSeconds'' body) (\<lambda>interval_seconds.
           r_bind (defaulted None validate_time_precision ''startTime'' body) (\<lambda>start_time.
           r_bind (required (\<lambda>v. case validate_time_precision v of Some t \<Rightarrow> t | None \<Rightarrow> None) ''endTime'' body) (\<lambda>end_time.
             Inr \<lparr>tw_symbol = symbol, tw_position_side = side, tw_quantity_lots = quantity_lots,
                  tw_interval_seconds = interval_seconds, tw_start_time = start_time, tw_end_time = end_time\<rparr>)))))))"

section \<open>From a request to the command's input\<close>

text \<open>The typed endpoints, one clause each; what a clause leaves to the defaults of \<open>CreateTradeIntentInput\<close> is
  filled in.\<close>

fun typed_input :: "uuid \<Rightarrow> intent_create_request \<Rightarrow> create_trade_intent_input" where
  "typed_input user_id (BuyPriceAlertCreateRequest s n t) =
     \<lparr>ci_symbol = s, ci_strategy = buy_price_alert, ci_quantity_lots = n, ci_owner_user_id = user_id, ci_target_price = Some t,
      ci_transaction_mode = single_notification, ci_notification_mode = ''single'', ci_trail_mode = None, ci_trail_value = None\<rparr>"
| "typed_input user_id (SellPriceAlertCreateRequest s n t) =
     \<lparr>ci_symbol = s, ci_strategy = sell_price_alert, ci_quantity_lots = n, ci_owner_user_id = user_id, ci_target_price = Some t,
      ci_transaction_mode = single_notification, ci_notification_mode = ''single'', ci_trail_mode = None, ci_trail_value = None\<rparr>"
| "typed_input user_id (LimitBuyOrderCreateRequest s n t tm nm) =
     \<lparr>ci_symbol = s, ci_strategy = limit_buy_order, ci_quantity_lots = n, ci_owner_user_id = user_id, ci_target_price = Some t,
      ci_transaction_mode = tm, ci_notification_mode = nm, ci_trail_mode = None, ci_trail_value = None\<rparr>"
| "typed_input user_id (LimitSellOrderCreateRequest s n t tm nm) =
     \<lparr>ci_symbol = s, ci_strategy = limit_sell_order, ci_quantity_lots = n, ci_owner_user_id = user_id, ci_target_price = Some t,
      ci_transaction_mode = tm, ci_notification_mode = nm, ci_trail_mode = None, ci_trail_value = None\<rparr>"
| "typed_input user_id (MarketOrderCreateRequest s n st tm nm) =
     \<lparr>ci_symbol = s, ci_strategy = st, ci_quantity_lots = n, ci_owner_user_id = user_id, ci_target_price = None,
      ci_transaction_mode = tm, ci_notification_mode = nm, ci_trail_mode = None, ci_trail_value = None\<rparr>"
| "typed_input user_id (TrailingStopAlertCreateRequest s n mode v) =
     \<lparr>ci_symbol = s, ci_strategy = trailing_stop_alert, ci_quantity_lots = n, ci_owner_user_id = user_id, ci_target_price = None,
      ci_transaction_mode = single_notification, ci_notification_mode = ''single'', ci_trail_mode = Some mode,
      ci_trail_value = Some v\<rparr>"

text \<open>The endpoint of the union reads the attributes a model may lack with \<open>getattr\<close> and a default.\<close>

fun attr_base :: "intent_create_request \<Rightarrow> string \<times> int \<times> strategy" where
  "attr_base (BuyPriceAlertCreateRequest s n t) = (s, n, buy_price_alert)"
| "attr_base (SellPriceAlertCreateRequest s n t) = (s, n, sell_price_alert)"
| "attr_base (LimitBuyOrderCreateRequest s n t tm nm) = (s, n, limit_buy_order)"
| "attr_base (LimitSellOrderCreateRequest s n t tm nm) = (s, n, limit_sell_order)"
| "attr_base (MarketOrderCreateRequest s n st tm nm) = (s, n, st)"
| "attr_base (TrailingStopAlertCreateRequest s n mode v) = (s, n, trailing_stop_alert)"

fun attr_target_price :: "intent_create_request \<Rightarrow> string option" where
  "attr_target_price (BuyPriceAlertCreateRequest s n t) = Some t"
| "attr_target_price (SellPriceAlertCreateRequest s n t) = Some t"
| "attr_target_price (LimitBuyOrderCreateRequest s n t tm nm) = Some t"
| "attr_target_price (LimitSellOrderCreateRequest s n t tm nm) = Some t"
| "attr_target_price _ = None"

fun attr_modes :: "intent_create_request \<Rightarrow> (transaction_mode \<times> string) option" where
  "attr_modes (LimitBuyOrderCreateRequest s n t tm nm) = Some (tm, nm)"
| "attr_modes (LimitSellOrderCreateRequest s n t tm nm) = Some (tm, nm)"
| "attr_modes (MarketOrderCreateRequest s n st tm nm) = Some (tm, nm)"
| "attr_modes _ = None"

fun attr_trail :: "intent_create_request \<Rightarrow> (trail_mode \<times> decimal) option" where
  "attr_trail (TrailingStopAlertCreateRequest s n mode v) = Some (mode, v)"
| "attr_trail _ = None"

definition union_input :: "uuid \<Rightarrow> intent_create_request \<Rightarrow> create_trade_intent_input" where
  "union_input user_id r =
     (case (attr_base r, case attr_modes r of Some m \<Rightarrow> m | None \<Rightarrow> (single_notification, ''single'')) of
        ((symbol, quantity_lots, strategy), (transaction_mode, notification_mode)) \<Rightarrow>
          \<lparr>ci_symbol = symbol, ci_strategy = strategy, ci_quantity_lots = quantity_lots, ci_owner_user_id = user_id,
           ci_target_price = attr_target_price r, ci_transaction_mode = transaction_mode,
           ci_notification_mode = notification_mode, ci_trail_mode = map_option fst (attr_trail r),
           ci_trail_value = map_option snd (attr_trail r)\<rparr>)"

definition twap_input :: "uuid \<Rightarrow> twap_plan_request \<Rightarrow> twap_plan_input" where
  "twap_input user_id q =
     \<lparr>tq_symbol = tw_symbol q, tq_position_side = tw_position_side q, tq_quantity_lots = tw_quantity_lots q,
      tq_interval_seconds = tw_interval_seconds q, tq_start_time = tw_start_time q, tq_end_time = tw_end_time q,
      tq_owner_user_id = user_id\<rparr>"

text \<open>\<open>model_dump(mode="json")\<close>, what the idempotency key is compared on. A \<open>Decimal\<close> is dumped as \<open>str\<close> writes it.\<close>

definition transaction_mode_value :: "transaction_mode \<Rightarrow> string" where
  "transaction_mode_value m = (case m of single_notification \<Rightarrow> ''single_notification'' | partial_fill_allowed \<Rightarrow> ''partial_fill_allowed'')"

definition strategy_text :: "strategy \<Rightarrow> string" where
  "strategy_text s = (case s of
      buy_price_alert \<Rightarrow> ''buy_price_alert'' | sell_price_alert \<Rightarrow> ''sell_price_alert''
    | limit_buy_order \<Rightarrow> ''limit_buy_order'' | limit_sell_order \<Rightarrow> ''limit_sell_order''
    | trailing_stop_alert \<Rightarrow> ''trailing_stop_alert'' | market_order \<Rightarrow> ''market_order''
    | market_buy_order \<Rightarrow> ''market_buy_order'' | market_sell_order \<Rightarrow> ''market_sell_order'' | twap_order \<Rightarrow> ''twap_order''
    | other_strategy t \<Rightarrow> t)"

definition dump_request :: "intent_create_request \<Rightarrow> payload" where
  "dump_request r = (case attr_base r of (symbol, quantity_lots, strategy) \<Rightarrow>
     [(''symbol'', JStr symbol), (''quantity_lots'', JInt quantity_lots), (''strategy'', JStr (strategy_text strategy))] @
     (case attr_target_price r of None \<Rightarrow> [] | Some t \<Rightarrow> [(''target_price'', JStr t)]) @
     (case attr_modes r of None \<Rightarrow> []
      | Some (tm, nm) \<Rightarrow> [(''transaction_mode'', JStr (transaction_mode_value tm)), (''notification_mode'', JStr nm)]) @
     (case attr_trail r of None \<Rightarrow> []
      | Some (mode, v) \<Rightarrow> [(''trail_mode'', JStr (trail_mode_str (Some mode))), (''trail_value'', JStr (dec_str v))]))"

definition time_value :: "tod \<Rightarrow> string" where
  "time_value t = (let m = nat (t div (60 * usec_per_sec))
     in fixed_digits 2 (m div 60) @ '':'' @ fixed_digits 2 (m mod 60) @ '':00'')"

definition dump_twap :: "twap_plan_request \<Rightarrow> payload" where
  "dump_twap q =
     [(''symbol'', JStr (tw_symbol q)),
      (''position_side'', JStr (case tw_position_side q of long_position \<Rightarrow> ''long'' | short_position \<Rightarrow> ''short'')),
      (''quantity_lots'', JInt (tw_quantity_lots q)), (''interval_seconds'', JInt (tw_interval_seconds q)),
      (''start_time'', case tw_start_time q of None \<Rightarrow> JNull | Some t \<Rightarrow> JStr (time_value t)),
      (''end_time'', JStr (time_value (tw_end_time q)))]"

section \<open>The two ways to the command agree\<close>

lemma union_input_typed: "union_input user_id r = typed_input user_id r"
  by (cases r) (simp_all add: union_input_def)

section \<open>The endpoints of one order\<close>

datatype create_endpoint = create_intent | create_buy_price_alert | create_sell_price_alert | create_limit_buy_order
  | create_limit_sell_order | create_market_order | create_trailing_stop_alert

definition read_request :: "create_endpoint \<Rightarrow> coercion \<Rightarrow> payload \<Rightarrow> exn + intent_create_request" where
  "read_request e = (case e of
      create_intent \<Rightarrow> union_request
    | create_buy_price_alert \<Rightarrow> buy_price_alert_request
    | create_sell_price_alert \<Rightarrow> sell_price_alert_request
    | create_limit_buy_order \<Rightarrow> limit_buy_order_request
    | create_limit_sell_order \<Rightarrow> limit_sell_order_request
    | create_market_order \<Rightarrow> market_order_request
    | create_trailing_stop_alert \<Rightarrow> trailing_stop_alert_request)"

definition endpoint_input :: "create_endpoint \<Rightarrow> uuid \<Rightarrow> intent_create_request \<Rightarrow> create_trade_intent_input" where
  "endpoint_input e = (if e = create_intent then union_input else typed_input)"

lemmas request_defs = buy_price_alert_request_def sell_price_alert_request_def price_alert_request_def
  limit_buy_order_request_def limit_sell_order_request_def limit_order_request_def market_order_request_def
  trailing_stop_alert_request_def

lemma required_Inr: "required read k body = Inr x \<longleftrightarrow> (\<exists>v. obj_get k body = Some v \<and> read v = Some x)"
  by (auto simp: required_def split: option.splits)

lemma literal_Some: "literal allowed v = Some x \<longleftrightarrow> (\<exists>s. v = JStr s \<and> map_of allowed s = Some x)"
  by (cases v) (auto simp: literal_def)

text \<open>The strategies each endpoint takes.\<close>

definition endpoint_tags :: "create_endpoint \<Rightarrow> string set" where
  "endpoint_tags e = (case e of
      create_intent \<Rightarrow> {''buy_price_alert'', ''sell_price_alert'', ''limit_buy_order'', ''limit_sell_order'', ''market_order'',
        ''market_buy_order'', ''market_sell_order'', ''trailing_stop_alert''}
    | create_buy_price_alert \<Rightarrow> {''buy_price_alert''} | create_sell_price_alert \<Rightarrow> {''sell_price_alert''}
    | create_limit_buy_order \<Rightarrow> {''limit_buy_order''} | create_limit_sell_order \<Rightarrow> {''limit_sell_order''}
    | create_market_order \<Rightarrow> {''market_order'', ''market_buy_order'', ''market_sell_order''}
    | create_trailing_stop_alert \<Rightarrow> {''trailing_stop_alert''})"

lemma request_tag:
  assumes "read_request e co body = Inr r"
  shows "\<exists>s \<in> endpoint_tags e. obj_get ''strategy'' body = Some (JStr s)"
proof (cases "e = create_intent")
  case True
  with assms show ?thesis
    by (auto simp: read_request_def union_request_def endpoint_tags_def split: option.splits json.splits if_split_asm)
next
  case False
  with assms show ?thesis
    by (cases e) (auto simp: read_request_def endpoint_tags_def request_defs r_bind_Inr_iff required_Inr literal_Some split: if_split_asm)
qed

text \<open>What a typed endpoint accepts the endpoint of the union accepts, as the same request.\<close>

lemma typed_union: "read_request e co body = Inr r \<Longrightarrow> read_request create_intent co body = Inr r"
  using request_tag [of e co body r] by (cases e) (auto simp: read_request_def union_request_def endpoint_tags_def)

lemma endpoint_input_typed: "endpoint_input e user_id r = typed_input user_id r"
  by (simp add: endpoint_input_def union_input_typed)

lemma typed_input_owner: "ci_owner_user_id (typed_input user_id r) = user_id"
  by (cases r) simp_all

end
