(* ===== verification/Intent_Responses.thy ===== *)
theory Intent_Responses
  imports Twap_Commands
begin

text \<open>
  The response models of \<open>schemas/intent.py\<close> and the functions that fill them. Prices are text in the
  rendered form; identifiers, dates and instants keep their value (their text is pydantic's). A row read back from
  the database has its instants in the time zone of the database session, which the connection does not set: its
  offset from UTC is an argument.
\<close>

section \<open>Models\<close>

record twap_summary_data =
  sm_position_side :: position_side
  sm_interval_seconds :: int
  sm_start_time :: tod
  sm_end_time :: tod
  sm_start_at :: datetime
  sm_end_at :: datetime
  sm_available_slice_count :: int
  sm_materialized_slice_count :: int

record intent_response_data =
  ir_id :: uuid
  ir_symbol :: string
  ir_strategy :: strategy
  ir_quantity_lots :: int
  ir_target_price_original :: "string option"
  ir_target_price_effective :: "string option"
  ir_trading_date :: date
  ir_time_in_force :: string
  ir_execution_mode :: string
  ir_status :: intent_status
  ir_transaction_mode :: transaction_mode
  ir_notification_mode :: string
  ir_filled_quantity_lots :: int
  ir_last_fill_at :: "datetime option"
  ir_trail_mode :: "trail_mode option"
  ir_trail_value :: "string option"
  ir_baseline :: "string option"
  ir_dynamic_trigger_price :: "string option"
  ir_baseline_updated_at :: "datetime option"
  ir_twap :: "twap_summary_data option"
  ir_created_at :: datetime
  ir_cancelled_at :: "datetime option"

record twap_slice_response_data =
  sr_id :: "uuid option"
  sr_sequence_no :: int
  sr_scheduled_at :: datetime
  sr_planned_quantity_lots :: int
  sr_status :: "slice_status option"
  sr_primary_notification_id :: "uuid option"
  sr_notified_at :: "datetime option"
  sr_primary_price_available :: "bool option"
  sr_primary_reference_price :: "string option"
  sr_primary_reference_price_type :: "reference_price_type option"
  sr_primary_quote_time :: "datetime option"
  sr_price_followup_required :: "bool option"
  sr_price_followup_attempts :: "int option"
  sr_next_price_followup_at :: "datetime option"
  sr_price_followup_notification_id :: "uuid option"
  sr_price_followup_sent_at :: "datetime option"

record intent_detail_response_data = intent_response_data +
  ir_twap_slices :: "twap_slice_response_data list option"

record twap_plan_data =
  pd_symbol :: string
  pd_position_side :: position_side
  pd_trading_phase :: trading_day_phase
  pd_trading_date :: date
  pd_target_quantity_lots :: int
  pd_interval_seconds :: int
  pd_start_time :: tod
  pd_end_time :: tod
  pd_start_at :: datetime
  pd_end_at :: datetime
  pd_available_slice_count :: int
  pd_materialized_slice_count :: int
  pd_slices :: "twap_slice_response_data list"

record intent_list_response =
  lr_data :: "intent_response_data list"
  lr_next_cursor :: "string option"
  lr_page_size :: nat

datatype http_body =
    IntentCreateResponse intent_response_data
  | IntentDetailResponse intent_detail_response_data
  | IntentListResponse intent_list_response
  | TwapPreviewResponse twap_plan_data
  | TwapConfirmResponse intent_detail_response_data

section \<open>Mapping\<close>

text \<open>\<open>start_at.timetz().replace(tzinfo=None)\<close>: the time of day in the zone the instant carries.\<close>

definition wall_clock :: "int \<Rightarrow> datetime \<Rightarrow> tod" where
  "wall_clock utc_offset t = (t + utc_offset) mod usec_per_day"

definition map_twap_summary :: "int \<Rightarrow> trade_intent_data \<Rightarrow> exn + twap_summary_data option" where
  "map_twap_summary utc_offset intent =
     (if ti_strategy intent \<noteq> twap_order then Inr None
      else case (ti_position_side intent, ti_twap_interval_seconds intent, ti_twap_end_time intent, ti_twap_start_at intent,
                 ti_twap_end_at intent, ti_twap_available_slice_count intent, ti_twap_materialized_slice_count intent) of
        (Some side, Some interval_seconds, Some end_time, Some start_at, Some end_at, Some available, Some materialized) \<Rightarrow>
          Inr (Some \<lparr>sm_position_side = side, sm_interval_seconds = interval_seconds,
            sm_start_time = wall_clock utc_offset start_at, sm_end_time = end_time, sm_start_at = start_at, sm_end_at = end_at,
            sm_available_slice_count = available, sm_materialized_slice_count = materialized\<rparr>)
      | _ \<Rightarrow> Inl ExRuntime)"

text \<open>A \<open>Decimal\<close> is true when it is not zero.\<close>

definition price_if_true :: "decimal option \<Rightarrow> string option" where
  "price_if_true v = (case v of None \<Rightarrow> None | Some d \<Rightarrow> if dcoeff d = 0 then None else Some (format_price_str d))"

definition map_to_response_data :: "int \<Rightarrow> trade_intent_data \<Rightarrow> exn + intent_response_data" where
  "map_to_response_data utc_offset intent =
     r_bind (map_twap_summary utc_offset intent) (\<lambda>twap. Inr
       \<lparr>ir_id = ti_id intent, ir_symbol = ti_symbol intent, ir_strategy = ti_strategy intent,
        ir_quantity_lots = ti_quantity_lots intent,
        ir_target_price_original = map_option format_price_str (ti_target_price_original intent),
        ir_target_price_effective = map_option format_price_str (ti_target_price_effective intent),
        ir_trading_date = ti_trading_date intent, ir_time_in_force = ti_time_in_force intent,
        ir_execution_mode = ti_execution_mode intent, ir_status = ti_status intent,
        ir_transaction_mode = ti_transaction_mode intent, ir_notification_mode = ti_notification_mode intent,
        ir_filled_quantity_lots = ti_filled_quantity_lots intent, ir_last_fill_at = ti_last_fill_at intent,
        ir_trail_mode = ti_trail_mode intent, ir_trail_value = price_if_true (ti_trail_value intent),
        ir_baseline = price_if_true (ti_baseline intent),
        ir_dynamic_trigger_price = price_if_true (ti_dynamic_trigger_price intent),
        ir_baseline_updated_at = ti_baseline_updated_at intent, ir_twap = twap,
        ir_created_at = ti_created_at intent, ir_cancelled_at = ti_cancelled_at intent\<rparr>)"

definition map_twap_slice_to_response_data :: "slice_row \<Rightarrow> twap_slice_response_data" where
  "map_twap_slice_to_response_data s =
     \<lparr>sr_id = Some (ts_id s), sr_sequence_no = ts_sequence_no s, sr_scheduled_at = ts_scheduled_at s,
      sr_planned_quantity_lots = ts_planned_quantity_lots s, sr_status = Some (ts_status s),
      sr_primary_notification_id = ts_primary_notification_id s, sr_notified_at = ts_notified_at s,
      sr_primary_price_available = ts_primary_price_available s,
      sr_primary_reference_price = map_option format_price_str (ts_primary_reference_price s),
      sr_primary_reference_price_type = ts_primary_reference_price_type s,
      sr_primary_quote_time = ts_primary_quote_time s, sr_price_followup_required = Some (ts_price_followup_required s),
      sr_price_followup_attempts = Some (ts_price_followup_attempts s),
      sr_next_price_followup_at = ts_next_price_followup_at s,
      sr_price_followup_notification_id = ts_price_followup_notification_id s,
      sr_price_followup_sent_at = ts_price_followup_sent_at s\<rparr>"

definition map_to_detail_response_data ::
  "int \<Rightarrow> trade_intent_data \<Rightarrow> slice_row list option \<Rightarrow> exn + intent_detail_response_data" where
  "map_to_detail_response_data utc_offset intent twap_slices =
     r_bind (map_to_response_data utc_offset intent) (\<lambda>base.
       Inr (intent_response_data.extend base
         (intent_detail_response_data.fields (map_option (map map_twap_slice_to_response_data) twap_slices))))"

definition plan_slice_data :: "twap_slice_plan \<Rightarrow> twap_slice_response_data" where
  "plan_slice_data s =
     \<lparr>sr_id = None, sr_sequence_no = sp_sequence_no s, sr_scheduled_at = sp_scheduled_at s,
      sr_planned_quantity_lots = sp_planned_quantity_lots s, sr_status = None, sr_primary_notification_id = None,
      sr_notified_at = None, sr_primary_price_available = None, sr_primary_reference_price = None,
      sr_primary_reference_price_type = None, sr_primary_quote_time = None, sr_price_followup_required = None,
      sr_price_followup_attempts = None, sr_next_price_followup_at = None, sr_price_followup_notification_id = None,
      sr_price_followup_sent_at = None\<rparr>"

definition map_twap_plan :: "string \<Rightarrow> twap_plan \<Rightarrow> twap_plan_data" where
  "map_twap_plan symbol plan =
     \<lparr>pd_symbol = symbol, pd_position_side = tp_position_side plan, pd_trading_phase = tp_trading_phase plan,
      pd_trading_date = tp_trading_date plan, pd_target_quantity_lots = tp_target_quantity_lots plan,
      pd_interval_seconds = tp_interval_seconds plan, pd_start_time = tp_requested_start_time plan,
      pd_end_time = tp_requested_end_time plan, pd_start_at = tp_start_at plan, pd_end_at = tp_end_at plan,
      pd_available_slice_count = tp_available_slice_count plan,
      pd_materialized_slice_count = tp_materialized_slice_count plan, pd_slices = map plan_slice_data (tp_slices plan)\<rparr>"

end
