(* ===== verification/Idempotency.thy ===== *)
theory Idempotency
  imports Exceptions
begin

text \<open>
  \<open>services/idempotency.py\<close>, \<open>repositories/idempotency_repository.py\<close>, \<open>services/idempotency_cleanup.py\<close>: the
  response of a mutating request is kept per user and key for a day and replayed. The request is known
  by its hash (\<open>hash_payload\<close> is SHA-256 over the canonical JSON, an argument here); the snapshot is any
  value. \<open>execute\<close> is the command: on the committed application state it gives its outcome, the state it
  committed, and whether the session committed on the way.
\<close>

section \<open>The source\<close>

record 'a idem_row =
  ik_id :: uuid
  ik_user_id :: uuid
  ik_key :: string
  ik_endpoint :: string
  ik_request_hash :: string
  ik_response_snapshot :: 'a
  ik_status :: string
  ik_created_at :: datetime
  ik_expires_at :: datetime

definition RECORD_TTL :: int where
  "RECORD_TTL = usec_per_day"

definition idem_get :: "uuid \<Rightarrow> string \<Rightarrow> 'a idem_row list \<Rightarrow> exn + 'a idem_row option" where
  "idem_get user_id key rows = one_or_none (filter (\<lambda>r. ik_user_id r = user_id \<and> ik_key r = key) rows)"

definition idem_create ::
  "uuid list \<Rightarrow> uuid \<Rightarrow> uuid \<Rightarrow> string \<Rightarrow> string \<Rightarrow> string \<Rightarrow> 'a \<Rightarrow> datetime \<Rightarrow> datetime \<Rightarrow> 'a idem_row list \<Rightarrow>
   exn + 'a idem_row list" where
  "idem_create users new_id user_id key endpoint request_hash snapshot now expires_at rows =
     (if new_id \<in> ik_id ` set rows then Inl (ExIntegrity pk_violation)
      else if (user_id, key) \<in> (\<lambda>r. (ik_user_id r, ik_key r)) ` set rows
      then Inl (ExIntegrity (uq_other ''uq_idempotency_keys_user_id_key''))
      else if user_id \<notin> set users then Inl (ExIntegrity fk_violation)
      else Inr (rows @ [\<lparr>ik_id = new_id, ik_user_id = user_id, ik_key = key, ik_endpoint = endpoint,
             ik_request_hash = request_hash, ik_response_snapshot = snapshot, ik_status = ''completed'',
             ik_created_at = now, ik_expires_at = expires_at\<rparr>]))"

definition idem_delete :: "uuid \<Rightarrow> string \<Rightarrow> 'a idem_row list \<Rightarrow> 'a idem_row list" where
  "idem_delete user_id key rows = filter (\<lambda>r. \<not> (ik_user_id r = user_id \<and> ik_key r = key)) rows"

definition delete_expired :: "datetime \<Rightarrow> 'a idem_row list \<Rightarrow> nat \<times> 'a idem_row list" where
  "delete_expired now rows = (count_where (\<lambda>r. ik_expires_at r < now) rows, filter (\<lambda>r. \<not> ik_expires_at r < now) rows)"

text \<open>\<open>IdempotencyCleanupScheduler.run_once\<close> commits what it deletes; there is nothing else to fail here.\<close>

definition cleanup_run_once :: "datetime \<Rightarrow> 'a idem_row list \<Rightarrow> nat \<times> 'a idem_row list" where
  "cleanup_run_once clock rows = delete_expired clock rows"

record idem_request =
  iq_user_id :: uuid
  iq_key :: string
  iq_endpoint :: string
  iq_request_hash :: string
  iq_now :: datetime
  iq_new_id :: uuid

record ('a, 's) idem_world =
  iw_users :: "uuid list"
  iw_keys :: "'a idem_row list"
  iw_app :: 's

type_synonym ('a, 's) command = "'s \<Rightarrow> (exn + 'a) \<times> 's \<times> bool"

datatype 'a idem_decision = Replay 'a | Proceed bool

text \<open>Before the command: replay, refuse, or go on (clearing an expired record in the open transaction).\<close>

definition idem_check :: "idem_request \<Rightarrow> 'a idem_row list \<Rightarrow> exn + 'a idem_decision" where
  "idem_check q rows =
     r_bind (idem_get (iq_user_id q) (iq_key q) rows) (\<lambda>existing.
       case existing of
         None \<Rightarrow> Inr (Proceed False)
       | Some r \<Rightarrow>
           if iq_now q < ik_expires_at r
           then if ik_request_hash r \<noteq> iq_request_hash q then Inl ExIdempotencyConflict else Inr (Replay (ik_response_snapshot r))
           else Inr (Proceed True))"

text \<open>
  After the command: the insert, in the transaction that may still hold the delete. An integrity error
  means another request was first: its snapshot is replayed when the request is the same.
\<close>

definition idem_store ::
  "uuid list \<Rightarrow> idem_request \<Rightarrow> bool \<Rightarrow> 'a \<Rightarrow> 'a idem_row list \<Rightarrow> (exn + 'a) \<times> 'a idem_row list" where
  "idem_store users q pending_delete snapshot rows =
     (case idem_create users (iq_new_id q) (iq_user_id q) (iq_key q) (iq_endpoint q) (iq_request_hash q) snapshot
             (iq_now q) (iq_now q + RECORD_TTL)
             (if pending_delete then idem_delete (iq_user_id q) (iq_key q) rows else rows) of
        Inr rows' \<Rightarrow> (Inr snapshot, rows')
      | Inl (ExIntegrity _) \<Rightarrow>
          (case idem_get (iq_user_id q) (iq_key q) rows of
             Inl e \<Rightarrow> (Inl e, rows)
           | Inr (Some winner) \<Rightarrow>
               if iq_now q < ik_expires_at winner \<and> ik_request_hash winner = iq_request_hash q
               then (Inr (ik_response_snapshot winner), rows) else (Inl ExIdempotencyConflict, rows)
           | Inr None \<Rightarrow> (Inl ExIdempotencyConflict, rows))
      | Inl e \<Rightarrow> (Inl e, rows))"

definition idem_run ::
  "('a, 's) command \<Rightarrow> idem_request \<Rightarrow> ('a, 's) idem_world \<Rightarrow> (exn + 'a) \<times> ('a, 's) idem_world" where
  "idem_run execute q w = (case idem_check q (iw_keys w) of
      Inl e \<Rightarrow> (Inl e, w)
    | Inr (Replay snapshot) \<Rightarrow> (Inr snapshot, w)
    | Inr (Proceed stale) \<Rightarrow>
        (case execute (iw_app w) of (outcome, app', committed) \<Rightarrow>
           let keys = (if stale \<and> committed then idem_delete (iq_user_id q) (iq_key q) (iw_keys w) else iw_keys w)
           in case outcome of
                Inl e \<Rightarrow> (Inl e, w\<lparr>iw_keys := keys, iw_app := app'\<rparr>)
              | Inr snapshot \<Rightarrow>
                  (case idem_store (iw_users w) q (stale \<and> \<not> committed) snapshot keys of
                     (res, keys') \<Rightarrow> (res, w\<lparr>iw_keys := keys', iw_app := app'\<rparr>))))"

section \<open>One record per user and key\<close>

definition idem_ok :: "'a idem_row list \<Rightarrow> bool" where
  "idem_ok rows \<longleftrightarrow> distinct (map ik_id rows) \<and> distinct (map (\<lambda>r. (ik_user_id r, ik_key r)) rows)"

lemma idem_get_mem:
  assumes "idem_ok rows" and "r \<in> set rows"
  shows "idem_get (ik_user_id r) (ik_key r) rows = Inr (Some r)"
proof -
  have "filter (\<lambda>x. (ik_user_id x, ik_key x) = (ik_user_id r, ik_key r)) rows = [r]"
    using filter_key [of "\<lambda>r. (ik_user_id r, ik_key r)" rows r] assms by (simp add: idem_ok_def)
  then show ?thesis by (simp add: idem_get_def one_or_none_def)
qed

lemma idem_get_none: "(u, k) \<notin> (\<lambda>r. (ik_user_id r, ik_key r)) ` set rows \<Longrightarrow> idem_get u k rows = Inr None"
proof -
  assume "(u, k) \<notin> (\<lambda>r. (ik_user_id r, ik_key r)) ` set rows"
  then have "filter (\<lambda>r. ik_user_id r = u \<and> ik_key r = k) rows = []" by (auto simp: filter_empty_conv image_iff)
  then show ?thesis by (simp add: idem_get_def one_or_none_def)
qed

lemma idem_get_cases:
  assumes "idem_ok rows"
  obtains "idem_get u k rows = Inr None" "(u, k) \<notin> (\<lambda>r. (ik_user_id r, ik_key r)) ` set rows"
  | r where "idem_get u k rows = Inr (Some r)" "r \<in> set rows" "ik_user_id r = u" "ik_key r = k"
  using idem_get_mem [OF assms] idem_get_none [of u k rows] by (cases "(u, k) \<in> (\<lambda>r. (ik_user_id r, ik_key r)) ` set rows") auto

lemma idem_ok_filter: "idem_ok rows \<Longrightarrow> idem_ok (filter p rows)"
  by (simp add: idem_ok_def distinct_map_filter)

lemma idem_ok_delete [simp]: "idem_ok rows \<Longrightarrow> idem_ok (idem_delete u k rows)"
  by (simp add: idem_delete_def idem_ok_filter)

lemma idem_create_Inr:
  "idem_create us i u k ep h s now ex rows = Inr rows' \<Longrightarrow>
   rows' = rows @ [\<lparr>ik_id = i, ik_user_id = u, ik_key = k, ik_endpoint = ep, ik_request_hash = h, ik_response_snapshot = s,
     ik_status = ''completed'', ik_created_at = now, ik_expires_at = ex\<rparr>] \<and> (idem_ok rows \<longrightarrow> idem_ok rows')"
  by (auto simp: idem_create_def idem_ok_def split: if_split_asm)

lemma idem_create_Inl: "idem_create us i u k ep h s now ex rows = Inl e \<Longrightarrow> \<exists>c. e = ExIntegrity c"
  by (auto simp: idem_create_def split: if_split_asm)

lemma idem_store_ok:
  assumes "idem_ok rows"
  shows "idem_ok (snd (idem_store us q pend s rows))"
proof (cases "idem_create us (iq_new_id q) (iq_user_id q) (iq_key q) (iq_endpoint q) (iq_request_hash q) s (iq_now q) (iq_now q + RECORD_TTL)
    (if pend then idem_delete (iq_user_id q) (iq_key q) rows else rows)")
  case (Inl e)
  then show ?thesis using assms idem_create_Inl [OF Inl]
    by (auto simp: idem_store_def split: sum.split option.split)
next
  case (Inr r)
  then show ?thesis using assms idem_create_Inr [OF Inr] by (auto simp: idem_store_def)
qed

text \<open>The command runs only past the check; what follows is the insert.\<close>

lemma idem_run_Proceed:
  assumes "idem_check q (iw_keys w) = Inr (Proceed stale)" and "execute (iw_app w) = (outcome, app', committed)"
  shows "idem_run execute q w =
    (let keys = (if stale \<and> committed then idem_delete (iq_user_id q) (iq_key q) (iw_keys w) else iw_keys w)
     in case outcome of
          Inl e \<Rightarrow> (Inl e, w\<lparr>iw_keys := keys, iw_app := app'\<rparr>)
        | Inr snapshot \<Rightarrow>
            (case idem_store (iw_users w) q (stale \<and> \<not> committed) snapshot keys of
               (res, keys') \<Rightarrow> (res, w\<lparr>iw_keys := keys', iw_app := app'\<rparr>)))"
  using assms by (simp add: idem_run_def)

lemma idem_run_ok:
  assumes "idem_ok (iw_keys w)"
  shows "idem_ok (iw_keys (snd (idem_run execute q w)))"
proof (cases "idem_check q (iw_keys w)")
  case (Inr dec)
  show ?thesis
  proof (cases dec)
    case (Proceed stale)
    obtain outcome app' committed where ex: "execute (iw_app w) = (outcome, app', committed)" using prod_cases3 by blast
    let ?keys = "if stale \<and> committed then idem_delete (iq_user_id q) (iq_key q) (iw_keys w) else iw_keys w"
    have "idem_ok ?keys" using assms by simp
    with idem_store_ok [OF this] show ?thesis
      unfolding idem_run_Proceed [where execute = execute and w = w, OF Inr [unfolded Proceed] ex] Let_def by (cases outcome) (auto simp: case_prod_unfold)
  qed (use assms Inr in \<open>simp add: idem_run_def\<close>)
qed (use assms in \<open>simp add: idem_run_def\<close>)

section \<open>The contract\<close>

text \<open>A request that executed and succeeded left its record.\<close>

lemma idem_run_stored:
  assumes ok: "idem_ok (iw_keys w)" and proceed: "idem_check q (iw_keys w) = Inr (Proceed stale)"
    and run: "idem_run execute q w = (Inr snapshot, w')"
  shows "\<exists>r \<in> set (iw_keys w'). ik_user_id r = iq_user_id q \<and> ik_key r = iq_key q \<and> ik_request_hash r = iq_request_hash q \<and>
    ik_response_snapshot r = snapshot \<and> ik_expires_at r = iq_now q + RECORD_TTL"
proof -
  obtain outcome app' committed where ex: "execute (iw_app w) = (outcome, app', committed)" using prod_cases3 by blast
  let ?keys = "if stale \<and> committed then idem_delete (iq_user_id q) (iq_key q) (iw_keys w) else iw_keys w"
  let ?rows = "if stale \<and> \<not> committed then idem_delete (iq_user_id q) (iq_key q) ?keys else ?keys"
  from run obtain s where s: "outcome = Inr s" unfolding idem_run_Proceed [where execute = execute and w = w, OF proceed ex] Let_def by (cases outcome) auto
  from run have st: "idem_store (iw_users w) q (stale \<and> \<not> committed) s ?keys = (Inr snapshot, iw_keys w')"
    unfolding idem_run_Proceed [where execute = execute and w = w, OF proceed ex] Let_def s by (auto split: prod.split_asm)
  show ?thesis
  proof (cases "idem_create (iw_users w) (iq_new_id q) (iq_user_id q) (iq_key q) (iq_endpoint q) (iq_request_hash q) s (iq_now q)
      (iq_now q + RECORD_TTL) ?rows")
    case (Inr rows')
    with st have "s = snapshot" "iw_keys w' = rows'" by (simp_all add: idem_store_def)
    with idem_create_Inr [OF Inr] show ?thesis by force
  next
    case (Inl e)
    from idem_create_Inl [OF Inl] obtain c where e: "e = ExIntegrity c" ..
    from proceed have no: "\<not> (iq_now q < ik_expires_at r)" if "idem_get (iq_user_id q) (iq_key q) (iw_keys w) = Inr (Some r)" for r
      using that by (auto simp: idem_check_def split: if_split_asm)
    have "idem_get (iq_user_id q) (iq_key q) (idem_delete (iq_user_id q) (iq_key q) (iw_keys w)) = Inr None"
      by (rule idem_get_none) (auto simp: idem_delete_def)
    then have "\<not> (iq_now q < ik_expires_at r)" if "idem_get (iq_user_id q) (iq_key q) ?keys = Inr (Some r)" for r
      using that no by (auto split: if_split_asm)
    with st Inl e show ?thesis by (auto simp: idem_store_def split: sum.split_asm option.split_asm if_split_asm)
  qed
qed

text \<open>Once a request was executed and answered, for a day every request with the same user and key is
  answered without running its command and without touching any table, whatever else has changed: with the
  stored response when it is the same request, with a conflict when it is not.\<close>

theorem idempotency_replays:
  assumes "idem_ok (iw_keys w)" and "idem_check q (iw_keys w) = Inr (Proceed stale)"
    and "idem_run execute q w = (Inr snapshot, w')"
    and "iq_user_id q' = iq_user_id q" and "iq_key q' = iq_key q" and "iq_now q' < iq_now q + RECORD_TTL"
    and "iw_keys w'' = iw_keys w'"
  shows "idem_run execute' q' w'' =
    (if iq_request_hash q' = iq_request_hash q then Inr snapshot else Inl ExIdempotencyConflict, w'')"
proof -
  have ok: "idem_ok (iw_keys w')" using idem_run_ok [OF assms(1), of execute q] assms(3) by simp
  from idem_run_stored [OF assms(1-3)] obtain r where r: "r \<in> set (iw_keys w')" "ik_user_id r = iq_user_id q'" "ik_key r = iq_key q'"
    "ik_request_hash r = iq_request_hash q" "ik_response_snapshot r = snapshot" "ik_expires_at r = iq_now q + RECORD_TTL"
    using assms(4,5) by auto
  have "idem_get (iq_user_id q') (iq_key q') (iw_keys w') = Inr (Some r)" using idem_get_mem [OF ok r(1)] r(2,3) by simp
  then have "idem_check q' (iw_keys w') =
      (if iq_request_hash q' = iq_request_hash q then Inr (Replay snapshot) else Inl ExIdempotencyConflict)"
    using r assms(6) by (simp add: idem_check_def)
  then show ?thesis using assms(7) by (simp add: idem_run_def)
qed

lemma idem_check_free:
  assumes "idem_ok rows"
    and "\<And>r. r \<in> set rows \<Longrightarrow> ik_user_id r = iq_user_id q \<Longrightarrow> ik_key r = iq_key q \<Longrightarrow> ik_expires_at r \<le> iq_now q"
  shows "\<exists>stale. idem_check q rows = Inr (Proceed stale)"
proof (rule idem_get_cases [OF assms(1), of "iq_user_id q" "iq_key q"])
  assume "idem_get (iq_user_id q) (iq_key q) rows = Inr None"
  then show ?thesis by (auto simp: idem_check_def)
next
  fix r assume r: "idem_get (iq_user_id q) (iq_key q) rows = Inr (Some r)" "r \<in> set rows" "ik_user_id r = iq_user_id q" "ik_key r = iq_key q"
  from assms(2) [OF r(2-4)] have "\<not> iq_now q < ik_expires_at r" by simp
  with r(1) show ?thesis by (auto simp: idem_check_def)
qed

definition demo_request :: "string \<Rightarrow> datetime \<Rightarrow> uuid \<Rightarrow> idem_request" where
  "demo_request h now i = \<lparr>iq_user_id = 7, iq_key = ''k'', iq_endpoint = ''create_intent'', iq_request_hash = h, iq_now = now, iq_new_id = i\<rparr>"

definition demo_keys :: "(string, nat) idem_world" where
  "demo_keys = \<lparr>iw_users = [7], iw_keys = [], iw_app = 0\<rparr>"

definition demo_command :: "(string, nat) command" where
  "demo_command n = (Inr ''created'', Suc n, True)"

theorem idempotency_replays_witness:
  "fst (idem_run demo_command (demo_request ''h'' 5 2) (snd (idem_run demo_command (demo_request ''h'' 0 1) demo_keys))) = Inr ''created'' \<and>
   iw_app (snd (idem_run demo_command (demo_request ''h'' 5 2) (snd (idem_run demo_command (demo_request ''h'' 0 1) demo_keys)))) = 1"
proof -
  let ?w = "snd (idem_run demo_command (demo_request ''h'' 0 1) demo_keys)"
  have c: "idem_check (demo_request ''h'' 0 1) (iw_keys demo_keys) = Inr (Proceed False)" by code_simp
  have r: "idem_run demo_command (demo_request ''h'' 0 1) demo_keys = (Inr ''created'', ?w)" by code_simp
  have "iw_app ?w = 1" by code_simp
  moreover have "idem_run demo_command (demo_request ''h'' 5 2) ?w = (Inr ''created'', ?w)"
    using idempotency_replays [OF _ c r, of "demo_request ''h'' 5 2" ?w demo_command]
    by (simp add: demo_keys_def idem_ok_def demo_request_def RECORD_TTL_def)
  ultimately show ?thesis by simp
qed

text \<open>The sweep removes only records that no longer count: every later request is decided alike, but for
  whether there was a record to clear.\<close>

lemma cleanup_transparent:
  assumes "idem_ok rows" and "clock \<le> iq_now q"
  shows "(case idem_check q (snd (cleanup_run_once clock rows)) of Inr (Proceed _) \<Rightarrow> Inr (Proceed True) | d \<Rightarrow> d) =
    (case idem_check q rows of Inr (Proceed _) \<Rightarrow> Inr (Proceed True) | d \<Rightarrow> d)"
proof -
  let ?rows = "snd (cleanup_run_once clock rows)"
  have rows: "?rows = filter (\<lambda>r. \<not> ik_expires_at r < clock) rows" by (simp add: cleanup_run_once_def delete_expired_def)
  have ok: "idem_ok ?rows" using assms(1) by (simp add: rows idem_ok_filter)
  show ?thesis
  proof (rule idem_get_cases [OF assms(1), of "iq_user_id q" "iq_key q"])
    assume n: "idem_get (iq_user_id q) (iq_key q) rows = Inr None" "(iq_user_id q, iq_key q) \<notin> (\<lambda>r. (ik_user_id r, ik_key r)) ` set rows"
    then have "idem_get (iq_user_id q) (iq_key q) ?rows = Inr None" by (intro idem_get_none) (auto simp: rows)
    with n show ?thesis by (simp add: idem_check_def)
  next
    fix r assume r: "idem_get (iq_user_id q) (iq_key q) rows = Inr (Some r)" "r \<in> set rows" "ik_user_id r = iq_user_id q" "ik_key r = iq_key q"
    show ?thesis
    proof (cases "ik_expires_at r < clock")
      case True
      have "x = r" if "x \<in> set rows" "ik_user_id x = iq_user_id q" "ik_key x = iq_key q" for x
        using distinct_key_eq [of "\<lambda>r. (ik_user_id r, ik_key r)" rows x r] assms(1) that r by (simp add: idem_ok_def)
      then have "idem_get (iq_user_id q) (iq_key q) ?rows = Inr None" using True by (intro idem_get_none) (auto simp: rows)
      then show ?thesis using r True assms(2) by (simp add: idem_check_def)
    next
      case False
      then have "idem_get (iq_user_id q) (iq_key q) ?rows = Inr (Some r)" using idem_get_mem [OF ok, of r] r by (simp add: rows)
      then show ?thesis using r by (simp add: idem_check_def)
    qed
  qed
qed

text \<open>The loser of a race replays the winner's response, although its own command has run.\<close>

lemma idem_race_loser:
  assumes "idem_ok rows" and "r \<in> set rows" and "ik_user_id r = iq_user_id q" and "ik_key r = iq_key q"
    and "iq_now q < ik_expires_at r" and "ik_request_hash r = iq_request_hash q"
  shows "idem_store users q False snapshot rows = (Inr (ik_response_snapshot r), rows)"
proof -
  have "(iq_user_id q, iq_key q) \<in> (\<lambda>r. (ik_user_id r, ik_key r)) ` set rows"
    using assms(2-4) by (intro image_eqI [of _ _ r]) simp_all
  then obtain c where "idem_create users (iq_new_id q) (iq_user_id q) (iq_key q) (iq_endpoint q) (iq_request_hash q) snapshot
      (iq_now q) (iq_now q + RECORD_TTL) rows = Inl (ExIntegrity c)"
    unfolding idem_create_def by (cases "iq_new_id q \<in> ik_id ` set rows") simp_all
  moreover have "idem_get (iq_user_id q) (iq_key q) rows = Inr (Some r)" using idem_get_mem [OF assms(1,2)] assms(3,4) by simp
  ultimately show ?thesis using assms(5,6) by (simp add: idem_store_def)
qed

end
