(* ===== verification/Intent_Routes.thy ===== *)
theory Intent_Routes
  imports Intent_Requests Intent_Responses Session_Gate Idempotency Listing
begin

text \<open>
  \<open>api/routes/intents.py\<close> and \<open>api/routes/_pagination.py\<close>: the order endpoints, composed of the request gates, the
  request models, the idempotency manager, the commands and the response models. The framework resolves the
  dependencies of a route before it reports what is wrong with the body, so the throttle is charged for an invalid
  body too. A body that is not a JSON object and a path segment that is not a UUID never reach these functions.
\<close>

section \<open>A request and the state it meets\<close>

record 'p route_env =
  en_crypto :: crypto
  en_settings :: settings
  en_mutation_capacity :: rat
  en_mutation_refill :: rat
  en_ops :: "'p quote_ops"
  en_halted :: bool
  en_limits :: "intent_limits option"
  en_coercion :: coercion
  en_hash_payload :: "payload \<Rightarrow> string"
  en_utc_offset :: int

text \<open>The headers, the instants the handlers read, and the identifiers drawn on the way.\<close>

record http_request =
  hq_authorization :: "string option"
  hq_idempotency_key :: "string option"
  hq_auth_now :: datetime
  hq_bucket_now :: datetime
  hq_now :: datetime
  hq_session_now :: datetime
  hq_tx_now :: datetime
  hq_record_id :: uuid
  hq_intent_id :: uuid
  hq_trigger_id :: uuid
  hq_notification_id :: uuid
  hq_slice_id :: "nat \<Rightarrow> uuid"

record 'p http_state =
  hs_ident :: ident_db
  hs_app :: app_db
  hs_provider :: 'p
  hs_sent :: "notification_row list"
  hs_keys :: "http_body idem_row list"

type_synonym 'p app_state = "app_db \<times> 'p \<times> notification_row list"

section \<open>The gates of a mutating endpoint\<close>

definition request_user_of :: "'p route_env \<Rightarrow> http_request \<Rightarrow> 'p http_state \<Rightarrow> exn + request_user" where
  "request_user_of env q s = active_user (en_crypto env) (en_settings env) (hq_auth_now q) (hq_authorization q) (hs_ident s)"

definition mutation_gate ::
  "'p route_env \<Rightarrow> http_request \<Rightarrow> 'p http_state \<Rightarrow> (exn + request_user \<times> string) \<times> 'p http_state" where
  "mutation_gate env q s =
     (case request_user_of env q s of
        Inl e \<Rightarrow> (Inl e, s)
      | Inr user \<Rightarrow>
          (case enforce_mutation_rate_limit (en_mutation_capacity env) (en_mutation_refill env) (hq_bucket_now q) user (hs_ident s) of
             (Inl e, ident) \<Rightarrow> (Inl e, s\<lparr>hs_ident := ident\<rparr>)
           | (Inr _, ident) \<Rightarrow>
               (case get_idempotency_key (hq_idempotency_key q) of
                  Inl e \<Rightarrow> (Inl e, s\<lparr>hs_ident := ident\<rparr>)
                | Inr key \<Rightarrow> (Inr (user, key), s\<lparr>hs_ident := ident\<rparr>))))"

definition run_idempotent ::
  "'p route_env \<Rightarrow> http_request \<Rightarrow> request_user \<Rightarrow> string \<Rightarrow> string \<Rightarrow> payload \<Rightarrow> (http_body, 'p app_state) command \<Rightarrow>
   'p http_state \<Rightarrow> (exn + http_body) \<times> 'p http_state" where
  "run_idempotent env q user key endpoint payload execute s =
     (case idem_run execute
        \<lparr>iq_user_id = ru_user_id user, iq_key = key, iq_endpoint = endpoint, iq_request_hash = en_hash_payload env payload,
         iq_now = hq_now q, iq_new_id = hq_record_id q\<rparr>
        \<lparr>iw_users = map us_id (id_users (hs_ident s)), iw_keys = hs_keys s, iw_app = (hs_app s, hs_provider s, hs_sent s)\<rparr> of
        (res, w) \<Rightarrow> (case iw_app w of (app, p, sent) \<Rightarrow>
          (res, s\<lparr>hs_app := app, hs_provider := p, hs_sent := sent, hs_keys := iw_keys w\<rparr>)))"

text \<open>A mutating endpoint: the gates, then the body, then the command behind its idempotency key.\<close>

definition mutating_route ::
  "'p route_env \<Rightarrow> http_request \<Rightarrow> string \<Rightarrow> exn + 'r \<Rightarrow> ('r \<Rightarrow> payload) \<Rightarrow>
   (request_user \<Rightarrow> 'r \<Rightarrow> (http_body, 'p app_state) command) \<Rightarrow> 'p http_state \<Rightarrow> (exn + http_body) \<times> 'p http_state" where
  "mutating_route env q endpoint request dump execute s =
     (case mutation_gate env q s of
        (Inl e, s1) \<Rightarrow> (Inl e, s1)
      | (Inr (user, key), s1) \<Rightarrow>
          (case request of
             Inl e \<Rightarrow> (Inl e, s1)
           | Inr r \<Rightarrow> run_idempotent env q user key endpoint (dump r) (execute user r) s1))"

section \<open>Creating\<close>

definition endpoint_name :: "create_endpoint \<Rightarrow> string" where
  "endpoint_name e = (case e of
      create_intent \<Rightarrow> ''create_intent''
    | create_buy_price_alert \<Rightarrow> ''create_buy_price_alert''
    | create_sell_price_alert \<Rightarrow> ''create_sell_price_alert''
    | create_limit_buy_order \<Rightarrow> ''create_limit_buy_order''
    | create_limit_sell_order \<Rightarrow> ''create_limit_sell_order''
    | create_market_order \<Rightarrow> ''create_market_order''
    | create_trailing_stop_alert \<Rightarrow> ''create_trailing_stop_alert'')"

definition run_create_intent ::
  "'p route_env \<Rightarrow> http_request \<Rightarrow> create_trade_intent_input \<Rightarrow> (http_body, 'p app_state) command" where
  "run_create_intent env q inp st = (case st of (app, p, sent) \<Rightarrow>
     (case create_tx (en_ops env) (en_halted env) (en_limits env) (hq_tx_now q) (hq_intent_id q) (hq_trigger_id q)
             (hq_notification_id q) (hq_session_now q) inp p (ap_core app) of
        (Inl e, p') \<Rightarrow> (Inl e, (app, p', sent), False)
      | (Inr (intent_id, core', ns), p') \<Rightarrow>
          (r_bind (find_by_id intent_id (ci_owner_user_id inp) core') (\<lambda>intent.
           r_bind (map_to_response_data (en_utc_offset env) intent) (\<lambda>d. Inr (IntentCreateResponse d))),
           (app\<lparr>ap_core := core'\<rparr>, p', sent @ ns), True)))"

definition create_route ::
  "'p route_env \<Rightarrow> create_endpoint \<Rightarrow> http_request \<Rightarrow> payload \<Rightarrow> 'p http_state \<Rightarrow> (exn + http_body) \<times> 'p http_state" where
  "create_route env e q body =
     mutating_route env q (endpoint_name e) (read_request e (en_coercion env) body) dump_request
       (\<lambda>user r. run_create_intent env q (endpoint_input e (ru_user_id user) r))"

section \<open>TWAP\<close>

definition preview_twap :: "'p route_env \<Rightarrow> http_request \<Rightarrow> payload \<Rightarrow> 'p http_state \<Rightarrow> exn + http_body" where
  "preview_twap env q body s =
     r_bind (request_user_of env q s) (\<lambda>user.
     r_bind (read_twap_plan (en_coercion env) body) (\<lambda>r.
     r_bind (twap_preview (hq_session_now q) (twap_input (ru_user_id user) r) (hs_app s)) (\<lambda>plan.
       Inr (TwapPreviewResponse (map_twap_plan (tw_symbol r) plan)))))"

definition run_confirm_twap :: "'p route_env \<Rightarrow> http_request \<Rightarrow> uuid \<Rightarrow> twap_plan_request \<Rightarrow> (http_body, 'p app_state) command" where
  "run_confirm_twap env q user_id r st = (case st of (app, p, sent) \<Rightarrow>
     (case confirm_tx (en_ops env) (hq_tx_now q) (hq_intent_id q) (hq_slice_id q) (en_limits env) (hq_session_now q)
             (twap_input user_id r) p app of
        (Inl e, p') \<Rightarrow> (Inl e, (app, p', sent), False)
      | (Inr (intent_id, app'), p') \<Rightarrow>
          (r_bind (legacy_find_by_id intent_id user_id app') (\<lambda>intent.
           r_bind (list_twap_slices (ti_id intent) user_id app') (\<lambda>slices.
           r_bind (map_to_detail_response_data (en_utc_offset env) intent (Some slices)) (\<lambda>d. Inr (TwapConfirmResponse d)))),
           (app', p', sent), True)))"

definition confirm_twap ::
  "'p route_env \<Rightarrow> http_request \<Rightarrow> payload \<Rightarrow> 'p http_state \<Rightarrow> (exn + http_body) \<times> 'p http_state" where
  "confirm_twap env q body =
     mutating_route env q ''confirm_twap'' (read_twap_plan (en_coercion env) body) dump_twap
       (\<lambda>user r. run_confirm_twap env q (ru_user_id user) r)"

section \<open>Reading\<close>

text \<open>\<open>lifecycle.run()\<close> on the session of the request: it commits what it changes.\<close>

definition route_lifecycle :: "datetime \<Rightarrow> core_db \<Rightarrow> core_db \<times> bool" where
  "route_lifecycle now core = (case core_lifecycle now (ss_open core) of
     (out, s) \<Rightarrow> (ss_working s, lo_expired_count out \<noteq> 0 \<or> lo_activated_count out \<noteq> 0))"

definition parse_status_list :: "string list option \<Rightarrow> string list option" where
  "parse_status_list raw = (case raw of
      None \<Rightarrow> None
    | Some items \<Rightarrow>
        let result = concat (map (\<lambda>item. filter (\<lambda>x. x \<noteq> []) (map strip (split_on (CHR '','') item))) items)
        in if result = [] then None else Some result)"

definition status_of :: "string \<Rightarrow> intent_status option" where
  "status_of s = map_of [(''active'', active), (''scheduled'', scheduled), (''triggered'', triggered), (''expired'', expired),
     (''cancelled'', cancelled), (''cancelled_by_account_disabled'', cancelled_by_account_disabled)] s"

definition validate_statuses :: "string list option \<Rightarrow> exn + intent_status list option" where
  "validate_statuses wanted = (case wanted of
      None \<Rightarrow> Inr None
    | Some ss \<Rightarrow> if list_all (\<lambda>s. status_of s \<noteq> None) ss then Inr (Some (map (the \<circ> status_of) ss)) else Inl (ExApi VALIDATION_ERROR 422))"

text \<open>\<open>UUID(cursor)\<close> also drops \<open>urn:\<close> and \<open>uuid:\<close>.\<close>

definition validate_cursor :: "string option \<Rightarrow> exn + uuid option" where
  "validate_cursor cursor = (case cursor of
      None \<Rightarrow> Inr None
    | Some c \<Rightarrow> (case uuid_of_string (str_delete ''uuid:'' (str_delete ''urn:'' c)) of
          None \<Rightarrow> Inl (ExApi VALIDATION_ERROR 400)
        | Some i \<Rightarrow> Inr (Some i)))"

definition list_intents ::
  "'p route_env \<Rightarrow> http_request \<Rightarrow> string list option \<Rightarrow> date option \<Rightarrow> string option \<Rightarrow> int \<Rightarrow> 'p http_state \<Rightarrow>
   (exn + http_body) \<times> 'p http_state" where
  "list_intents env q status_filter trading_date cursor page_size s =
     (case r_bind (request_user_of env q s) (\<lambda>user.
           if page_size < 1 \<or> 100 < page_size then Inl invalid_body
           else r_bind (validate_statuses (parse_status_list status_filter)) (\<lambda>wanted.
                r_bind (validate_cursor cursor) (\<lambda>c. Inr (user, wanted, c)))) of
        Inl e \<Rightarrow> (Inl e, s)
      | Inr (user, wanted, c) \<Rightarrow>
          (case route_lifecycle (hq_session_now q) (ap_core (hs_app s)) of (core, _) \<Rightarrow>
             (r_bind (list_by_owner (ru_user_id user) wanted trading_date (nat page_size) core c) (\<lambda>(items, next).
              r_bind (map_r (map_to_response_data (en_utc_offset env)) items) (\<lambda>ds.
                Inr (IntentListResponse \<lparr>lr_data = ds, lr_next_cursor = map_option uuid_str next, lr_page_size = nat page_size\<rparr>))),
              s\<lparr>hs_app := (hs_app s)\<lparr>ap_core := core\<rparr>\<rparr>)))"

definition get_intent :: "'p route_env \<Rightarrow> http_request \<Rightarrow> uuid \<Rightarrow> 'p http_state \<Rightarrow> (exn + http_body) \<times> 'p http_state" where
  "get_intent env q intent_id s =
     (case request_user_of env q s of
        Inl e \<Rightarrow> (Inl e, s)
      | Inr user \<Rightarrow>
          (case route_lifecycle (hq_session_now q) (ap_core (hs_app s)) of (core, _) \<Rightarrow>
             (r_bind (find_by_id intent_id (ru_user_id user) core) (\<lambda>intent.
              r_bind (map_to_detail_response_data (en_utc_offset env) intent None) (\<lambda>d. Inr (IntentDetailResponse d))),
              s\<lparr>hs_app := (hs_app s)\<lparr>ap_core := core\<rparr>\<rparr>)))"

section \<open>Cancelling\<close>

definition run_cancel_intent :: "'p route_env \<Rightarrow> http_request \<Rightarrow> uuid \<Rightarrow> uuid \<Rightarrow> (http_body, 'p app_state) command" where
  "run_cancel_intent env q user_id intent_id st = (case st of (app, p, sent) \<Rightarrow>
     (case route_lifecycle (hq_session_now q) (ap_core app) of (core, swept) \<Rightarrow>
        (case cancel_execute (en_ops env) (hq_tx_now q) \<lparr>xi_intent_id = intent_id, xi_owner_user_id = user_id\<rparr> p core of
           (res, core', p', ns) \<Rightarrow>
             (r_bind res (\<lambda>intent.
              r_bind (map_to_detail_response_data (en_utc_offset env) intent None) (\<lambda>d. Inr (IntentDetailResponse d))),
              (app\<lparr>ap_core := core'\<rparr>, p', sent @ ns), swept \<or> (case res of Inl _ \<Rightarrow> False | Inr _ \<Rightarrow> True)))))"

definition cancel_payload :: "uuid \<Rightarrow> payload" where
  "cancel_payload intent_id = [(''intent_id'', JStr (uuid_str intent_id))]"

definition cancel_intent ::
  "'p route_env \<Rightarrow> http_request \<Rightarrow> uuid \<Rightarrow> 'p http_state \<Rightarrow> (exn + http_body) \<times> 'p http_state" where
  "cancel_intent env q intent_id =
     mutating_route env q ''cancel_intent'' (Inr intent_id) cancel_payload
       (\<lambda>user i. run_cancel_intent env q (ru_user_id user) i)"

end
