(* ===== verification/Owner_Frame.thy ===== *)
theory Owner_Frame
  imports Twap_Commands
begin

text \<open>
  What a command run for one owner leaves alone. \<open>owned\<close> is everything the tables hold of one owner: orders with
  their price, trailing and trigger rows, notifications, TWAP orders and slices. A create, a cancel and a TWAP
  confirmation touch the rows of one order (\<open>confined\<close>), so they leave every other owner's view as it was.
\<close>

section \<open>The view of one owner\<close>

definition owned_ids :: "uuid \<Rightarrow> core_db \<Rightarrow> uuid set" where
  "owned_ids u db = c_id ` {r \<in> set (db_core db). c_owner_user_id r = u}"

definition owned_core ::
  "uuid \<Rightarrow> core_db \<Rightarrow> core_row list \<times> price_params list \<times> trailing_params list \<times> trigger_row list \<times> notification_row list" where
  "owned_core u db =
     (filter (\<lambda>r. c_owner_user_id r = u) (db_core db),
      filter (\<lambda>p. pp_trade_intent_id p \<in> owned_ids u db) (db_price db),
      filter (\<lambda>t. tr_trade_intent_id t \<in> owned_ids u db) (db_trailing db),
      filter (\<lambda>g. tg_trade_intent_id g \<in> owned_ids u db) (db_triggers db),
      filter (\<lambda>n. n_owner_user_id n = u) (db_notifications db))"

definition owned :: "uuid \<Rightarrow> app_db \<Rightarrow> _ \<times> legacy_row list \<times> slice_row list" where
  "owned u app = (owned_core u (ap_core app), filter (\<lambda>r. lg_owner_user_id r = u) (ap_intents app),
     filter (\<lambda>s. ts_owner_user_id s = u) (ap_slices app))"

section \<open>Changes to one order\<close>

definition confined :: "uuid \<Rightarrow> uuid \<Rightarrow> core_db \<Rightarrow> core_db \<Rightarrow> bool" where
  "confined owner i db db' \<longleftrightarrow>
     (\<forall>r \<in> set (db_core db) \<union> set (db_core db'). c_id r = i \<longrightarrow> c_owner_user_id r = owner) \<and>
     filter (\<lambda>r. c_id r \<noteq> i) (db_core db') = filter (\<lambda>r. c_id r \<noteq> i) (db_core db) \<and>
     filter (\<lambda>p. pp_trade_intent_id p \<noteq> i) (db_price db') = filter (\<lambda>p. pp_trade_intent_id p \<noteq> i) (db_price db) \<and>
     filter (\<lambda>t. tr_trade_intent_id t \<noteq> i) (db_trailing db') = filter (\<lambda>t. tr_trade_intent_id t \<noteq> i) (db_trailing db) \<and>
     filter (\<lambda>g. tg_trade_intent_id g \<noteq> i) (db_triggers db') = filter (\<lambda>g. tg_trade_intent_id g \<noteq> i) (db_triggers db) \<and>
     filter (\<lambda>n. n_owner_user_id n \<noteq> owner) (db_notifications db') = filter (\<lambda>n. n_owner_user_id n \<noteq> owner) (db_notifications db)"

definition holds :: "uuid \<Rightarrow> uuid \<Rightarrow> core_db \<Rightarrow> bool" where
  "holds owner i db \<longleftrightarrow> (\<forall>r \<in> set (db_core db). c_id r = i \<longrightarrow> c_owner_user_id r = owner)"

lemma confined_refl: "holds owner i db \<Longrightarrow> confined owner i db db"
  by (auto simp: confined_def holds_def)

lemma confined_trans: "confined owner i a b \<Longrightarrow> confined owner i b c \<Longrightarrow> confined owner i a c"
  by (auto simp: confined_def)

lemma confined_holds: "confined owner i a b \<Longrightarrow> holds owner i b"
  by (auto simp: confined_def holds_def)

lemma filter_coarse: "(\<And>x. x \<in> set xs \<Longrightarrow> P x \<Longrightarrow> Q x) \<Longrightarrow> filter P xs = filter P (filter Q xs)"
  by (auto intro: filter_cong)

lemma filter_coarse_eq:
  assumes "filter Q xs = filter Q ys" and "\<And>x. x \<in> set xs \<Longrightarrow> P x \<Longrightarrow> Q x" and "\<And>x. x \<in> set ys \<Longrightarrow> P x \<Longrightarrow> Q x"
  shows "filter P xs = filter P ys"
  using filter_coarse [of xs P Q] filter_coarse [of ys P Q] assms by simp

lemma confined_owned_core:
  assumes "confined owner i db db'" and "u \<noteq> owner"
  shows "owned_core u db' = owned_core u db"
proof -
  have id: "c_id r \<noteq> i" if "r \<in> set (db_core db) \<union> set (db_core db')" "c_owner_user_id r = u" for r
    using assms that by (auto simp: confined_def)
  have rows: "filter (\<lambda>r. c_owner_user_id r = u) (db_core db') = filter (\<lambda>r. c_owner_user_id r = u) (db_core db)"
    by (rule filter_coarse_eq [of "\<lambda>r. c_id r \<noteq> i"]) (use assms(1) id in \<open>auto simp: confined_def\<close>)
  then have "{r \<in> set (db_core db'). c_owner_user_id r = u} = {r \<in> set (db_core db). c_owner_user_id r = u}"
    by (metis set_filter)
  then have ids: "owned_ids u db' = owned_ids u db" by (simp add: owned_ids_def)
  have i: "i \<notin> owned_ids u db" using id by (auto simp: owned_ids_def)
  have "filter (\<lambda>p. pp_trade_intent_id p \<in> owned_ids u db) (db_price db') = filter (\<lambda>p. pp_trade_intent_id p \<in> owned_ids u db) (db_price db)"
    by (rule filter_coarse_eq [of "\<lambda>p. pp_trade_intent_id p \<noteq> i"]) (use assms(1) i in \<open>auto simp: confined_def\<close>)
  moreover have "filter (\<lambda>t. tr_trade_intent_id t \<in> owned_ids u db) (db_trailing db') = filter (\<lambda>t. tr_trade_intent_id t \<in> owned_ids u db) (db_trailing db)"
    by (rule filter_coarse_eq [of "\<lambda>t. tr_trade_intent_id t \<noteq> i"]) (use assms(1) i in \<open>auto simp: confined_def\<close>)
  moreover have "filter (\<lambda>g. tg_trade_intent_id g \<in> owned_ids u db) (db_triggers db') = filter (\<lambda>g. tg_trade_intent_id g \<in> owned_ids u db) (db_triggers db)"
    by (rule filter_coarse_eq [of "\<lambda>g. tg_trade_intent_id g \<noteq> i"]) (use assms(1) i in \<open>auto simp: confined_def\<close>)
  moreover have "filter (\<lambda>n. n_owner_user_id n = u) (db_notifications db') = filter (\<lambda>n. n_owner_user_id n = u) (db_notifications db)"
    by (rule filter_coarse_eq [of "\<lambda>n. n_owner_user_id n \<noteq> owner"]) (use assms in \<open>auto simp: confined_def\<close>)
  ultimately show ?thesis using rows ids by (simp add: owned_core_def)
qed

section \<open>The writes\<close>

lemma filter_upd_other: "(\<And>r. P r \<Longrightarrow> \<not> Q r \<and> \<not> Q (f r)) \<Longrightarrow> filter Q (upd_where P f rows) = filter Q rows"
  by (induction rows) auto

lemma holds_upd:
  assumes "holds owner i db" and "\<And>r. c_id (f r) = c_id r" and "\<And>r. c_owner_user_id (f r) = c_owner_user_id r"
    and "db_core db' = upd_where P f (db_core db)"
  shows "holds owner i db'"
  using assms by (auto simp: holds_def upd_where_mem_iff)

lemma create_insert_confined:
  assumes "core_inv db" and "create_insert t i limits now inp db = Inr (j, db1)"
  shows "confined (ci_owner_user_id inp) i db db1" "j = i" "core_inv db1"
proof -
  from create_insert_Inr [OF assms] show "j = i" "core_inv db1" by blast+
  from assms(2) obtain e v side where cr: "create t i (create_request now inp side e v) db = Inr (j, db1)"
    by (auto simp: create_insert_def r_bind_Inr_iff split: option.splits)
  let ?a = "create_request now inp side e v"
  note C = create_Inr [OF cr]
  from create_flush_shape [OF C(2,3)] obtain ps ts where db1: "db1 = db\<lparr>db_core := db_core db @ [new_core_row t i ?a],
      db_price := db_price db @ ps, db_trailing := db_trailing db @ ts\<rparr>"
    and p0: "if price_strategy (ca_strategy ?a) then \<exists>p. ps = [p] \<and> price_ok p \<and> pp_trade_intent_id p = i else ps = []"
    and t0: "if ca_strategy ?a = trailing_stop_alert
       then \<exists>x. ts = [x] \<and> trailing_ok x \<and> tr_trade_intent_id x = i \<and>
         numeric94_opt (ca_baseline ?a) = Inr (tr_baseline x) \<and>
         numeric94_opt (ca_dynamic_trigger_price ?a) = Inr (tr_dynamic_trigger_price x) else ts = []" by blast
  have ps: "\<forall>p \<in> set ps. pp_trade_intent_id p = i" using p0 by (auto split: if_split_asm)
  have ts: "\<forall>x \<in> set ts. tr_trade_intent_id x = i" using t0 by (auto split: if_split_asm)
  have "live_status (ca_status ?a)" by (simp add: create_request_def)
  from create_flush_preserves(7) [OF assms(1) C(2,3) this] have new: "i \<notin> c_id ` set (db_core db)" .
  have "c_id (new_core_row t i ?a) = i" "c_owner_user_id (new_core_row t i ?a) = ci_owner_user_id inp"
    by (simp_all add: new_core_row_def create_request_def)
  with new ps ts show "confined (ci_owner_user_id inp) i db db1"
    by (auto simp: db1 confined_def filter_empty_conv)
qed

lemma baseline_confined:
  assumes "holds owner i db" and "system_update_trailing_baseline t i bl dy upd db = Inr db'"
  shows "confined owner i db db'"
  using assms(2)
proof (rule update_baseline_Inr)
  fix b d
  assume db': "db' = db\<lparr>db_trailing := upd_where (\<lambda>r. tr_trade_intent_id r = i) (set_baseline b d upd) (db_trailing db),
       db_core := upd_where (\<lambda>r. c_id r = i) (\<lambda>r. r\<lparr>c_updated_at := t\<rparr>) (db_core db)\<rparr>"
  have "holds owner i db'" by (rule holds_upd [OF assms(1), of "\<lambda>r. r\<lparr>c_updated_at := t\<rparr>"]) (simp_all add: db')
  moreover have "filter (\<lambda>r. c_id r \<noteq> i) (db_core db') = filter (\<lambda>r. c_id r \<noteq> i) (db_core db)"
    "filter (\<lambda>t. tr_trade_intent_id t \<noteq> i) (db_trailing db') = filter (\<lambda>t. tr_trade_intent_id t \<noteq> i) (db_trailing db)"
    by (simp_all add: db' filter_upd_other set_baseline_def)
  ultimately show ?thesis using assms(1) by (auto simp: confined_def holds_def db')
qed

lemma persist_confined:
  assumes "holds owner i db" and "ti_id intent = i" and "ti_owner_user_id intent = owner"
    and "persist_core_trigger t gi ni intent inp db = Inr (g, n, db')"
  shows "confined owner i db db'"
proof -
  note P = persist_Inr [OF assms(4)]
  have "holds owner i db'"
    by (rule holds_upd [OF assms(1), of "set_triggered t (ti_quantity_lots intent)"]) (simp_all add: P(1) set_triggered_def)
  moreover have "filter (\<lambda>r. c_id r \<noteq> i) (db_core db') = filter (\<lambda>r. c_id r \<noteq> i) (db_core db)"
    using assms(2) by (auto simp: P(1) intro!: filter_upd_other)
  ultimately show ?thesis using assms(1-3) P(2,8) by (auto simp: confined_def holds_def P(1))
qed

lemma trigger_at_creation_confined:
  assumes "holds owner i db" and "ti_id intent = i" and "ti_owner_user_id intent = owner"
    and "trigger_at_creation t gi ni q now intent db = Inr (db', ns)"
  shows "confined owner i db db'"
proof -
  from assms(4) obtain r where ev: "evaluate q intent now = Inr r" by (auto simp: trigger_at_creation_def r_bind_Inr_iff)
  from assms(4) ev obtain i1 db1 where up:
    "(if er_baseline_updated_at r \<noteq> None then apply_trailing_baseline_update t intent r db else Inr (intent, db)) = Inr (i1, db1)"
    by (auto simp: trigger_at_creation_def r_bind_Inr_iff)
  then have i1: "ti_id i1 = i" "ti_owner_user_id i1 = owner" and c1: "confined owner i db db1"
    using assms(1-3) baseline_confined [OF assms(1)] confined_refl [OF assms(1)]
    by (auto simp: apply_trailing_baseline_update_def r_bind_Inr_iff split: if_split_asm)
  show ?thesis
  proof (cases "db' = db1")
    case False
    with assms(4) ev up obtain inp g n where "persist_core_trigger t gi ni i1 inp db1 = Inr (g, n, db')"
      by (auto simp: trigger_at_creation_def r_bind_Inr_iff split: if_split_asm option.splits)
    from confined_trans [OF c1 persist_confined [OF confined_holds [OF c1] i1 this]] show ?thesis .
  qed (use c1 in simp)
qed

lemma inline_trigger_confined:
  assumes "core_inv db" and "holds (ci_owner_user_id inp) i db"
    and "apply_inline_trigger_if_quote_met ops t gi ni i inp now p db = Inr (db', ns)"
  shows "confined (ci_owner_user_id inp) i db db'"
proof (cases "fetch_quote_for_create ops (ci_symbol inp) (ci_strategy inp) p")
  case None
  with assms(3) confined_refl [OF assms(2)] show ?thesis by (simp add: apply_inline_trigger_if_quote_met_def)
next
  case (Some q)
  with assms(3) obtain intent where f: "find_by_id i (ci_owner_user_id inp) db = Inr intent"
    and tr: "trigger_at_creation t gi ni q now intent db = Inr (db', ns)"
    by (auto simp: apply_inline_trigger_if_quote_met_def r_bind_Inr_iff)
  from f find_by_id_eq [OF assms(1)] obtain r where "get_core db i = Some r" "c_owner_user_id r = ci_owner_user_id inp" "intent = view db r"
    by (auto split: option.splits if_split_asm)
  with get_core_Some [of db i r] have "ti_id intent = i" "ti_owner_user_id intent = ci_owner_user_id inp" by simp_all
  from trigger_at_creation_confined [OF assms(2) this tr] show ?thesis .
qed

lemma create_tx_confined:
  assumes "core_inv db" and "create_tx ops halted limits t i gi ni now inp p db = (Inr (j, db', ns), p')"
  shows "confined (ci_owner_user_id inp) i db db'"
proof -
  from assms(2) obtain db1 p1 where c: "create_insert t i limits now inp db = Inr (j, db1)"
    and tr: "(if initial_status now = active \<and> \<not> halted
        then apply_inline_trigger_if_quote_met ops t gi ni j inp now p1 db1 else Inr (db1, [])) = Inr (db', ns)"
    by (auto simp: create_tx_def split: sum.split_asm)
  note C = create_insert_confined [OF assms(1) c]
  from tr inline_trigger_confined [OF C(3) confined_holds [OF C(1)]] confined_refl [OF confined_holds [OF C(1)]]
  have "confined (ci_owner_user_id inp) i db1 db'" unfolding C(2) by (auto split: if_split_asm)
  with C(1) show ?thesis by (rule confined_trans)
qed

lemma cancel_confined:
  assumes "core_inv db" and "cancel t i owner db = Inr (d, db')"
  shows "confined owner i db db'"
proof -
  from assms cancel_eq [OF assms(1)] obtain r where r: "get_core db i = Some r" "c_owner_user_id r = owner"
    and db': "db' = db \<or> db' = cancelled_db t i db"
    by (auto split: option.splits if_split_asm)
  have h: "holds owner i db" using get_core_mem [OF assms(1)] r by (auto simp: holds_def)
  have "holds owner i (cancelled_db t i db)"
    by (rule holds_upd [OF h, of "set_cancelled t"]) (simp_all add: cancelled_db_def set_cancelled_def)
  moreover have "filter (\<lambda>r. c_id r \<noteq> i) (db_core (cancelled_db t i db)) = filter (\<lambda>r. c_id r \<noteq> i) (db_core db)"
    by (simp add: cancelled_db_def filter_upd_other set_cancelled_def)
  ultimately show ?thesis using db' h by (auto simp: confined_def holds_def cancelled_db_def)
qed

section \<open>TWAP confirmation\<close>

lemma insert_slices_frame:
  assumes "insert_slices t ids n i owner y sps db = Inr db'" and "u \<noteq> owner"
  shows "ap_core db' = ap_core db" "ap_intents db' = ap_intents db"
    "filter (\<lambda>s. ts_owner_user_id s = u) (ap_slices db') = filter (\<lambda>s. ts_owner_user_id s = u) (ap_slices db)"
  using assms
proof (induction sps arbitrary: n db)
  case (Cons sp sps)
  {
    case 1
    then show ?case by (auto simp: r_bind_Inr_iff insert_slice_def split: if_split_asm dest!: Cons.IH(1))
  next
    case 2
    then show ?case by (auto simp: r_bind_Inr_iff insert_slice_def split: if_split_asm dest!: Cons.IH(2))
  next
    case 3
    then obtain db1 where db1: "insert_slice (new_slice_row t (ids n) i owner y sp) db = Inr db1"
      "insert_slices t ids (Suc n) i owner y sps db1 = Inr db'" by (auto simp: r_bind_Inr_iff)
    from Cons.IH(3) [OF db1(2) 3(2)] db1(1) 3(2) show ?case
      by (auto simp: insert_slice_def new_slice_row_def split: if_split_asm)
  }
qed auto

lemma create_twap_owned:
  assumes "create_twap t i ids owner y plan em tif st rt db = Inr (j, db')" and "u \<noteq> owner"
  shows "owned u db' = owned u db"
proof -
  let ?r = "new_twap_row t i owner y plan em tif st rt"
  from assms(1) obtain db1 where db1: "insert_legacy ?r db = Inr db1" "insert_slices t ids 0 i owner y (tp_slices plan) db1 = Inr db'"
    by (auto simp: create_twap_def Let_def bind_simps split: sum.split_asm exn.split_asm option.split_asm)
  from db1(1) have d: "db1 = db\<lparr>ap_intents := ap_intents db @ [?r]\<rparr>"
    by (auto simp: insert_legacy_def split: if_split_asm option.split_asm)
  have "lg_owner_user_id ?r \<noteq> u" using assms(2) by (simp add: new_twap_row_def)
  with insert_slices_frame [OF db1(2) assms(2)] d show ?thesis by (simp add: owned_def)
qed

lemma confirm_tx_owned:
  assumes "confirm_tx ops t i ids limits now inp p db = (Inr (j, db'), p')" and "u \<noteq> tq_owner_user_id inp"
  shows "owned u db' = owned u db"
  using assms create_twap_owned
  by (fastforce simp: confirm_tx_def confirm_insert_def r_bind_Inr_iff split: sum.split_asm)

end
