(* ===== verification/Request_Properties.thy ===== *)
theory Request_Properties
  imports Intent_Requests
begin

text \<open>
  What the request models let through: a percentage trail value in steps of a ten-thousandth up to ten,
  which the column stores unchanged, and times of day in whole minutes.
\<close>

section \<open>Ten-thousandths\<close>

lemma dval_nonneg: "\<not> dneg d \<Longrightarrow> dval d = of_nat (dcoeff d) * 10 powi dexp d"
  by (simp add: dval_def dint_def)

lemma dval_step4: "dval (Dec False n (- 4)) * 10 ^ 4 = of_nat n"
  by (simp add: dval_nonneg power_int_minus)

text \<open>A value is a whole number of ten-thousandths when its digits beyond the fourth decimal are zero.\<close>

lemma steps4:
  assumes "\<not> dneg d" and "dval d * 10 ^ 4 = of_int n"
  shows "- 4 \<le> dexp d \<Longrightarrow> nat n = dcoeff d * 10 ^ nat (dexp d + 4)"
    and "dexp d < - 4 \<Longrightarrow> dcoeff d = nat n * 10 ^ nat (- 4 - dexp d)" and "0 \<le> n"
proof -
  have v: "of_int n = of_nat (dcoeff d) * (10 powi dexp d * 10 ^ 4 :: rat)"
    using assms by (simp add: dval_nonneg)
  then have "(0::rat) \<le> of_int n" by simp
  then show n0: "0 \<le> n" by simp
  show "nat n = dcoeff d * 10 ^ nat (dexp d + 4)" if e: "- 4 \<le> dexp d"
  proof -
    have "(10 powi dexp d :: rat) * 10 ^ 4 = 10 ^ nat (dexp d + 4)"
      using powi_10_shift [OF e] by (simp add: power_int_minus)
    with v have "(of_int n :: rat) = of_int (int (dcoeff d * 10 ^ nat (dexp d + 4)))" by simp
    then have "n = int (dcoeff d * 10 ^ nat (dexp d + 4))" by (simp only: of_int_eq_iff)
    then show ?thesis by (simp only: nat_int)
  qed
  show "dcoeff d = nat n * 10 ^ nat (- 4 - dexp d)" if e: "dexp d < - 4"
  proof -
    have "(10 powi (- 4) :: rat) = 10 ^ nat (- 4 - dexp d) * 10 powi dexp d" using powi_10_shift [of "dexp d" "- 4"] e by simp
    then have p: "(10 powi dexp d :: rat) * 10 ^ 4 * 10 ^ nat (- 4 - dexp d) = 1"
      by (simp add: power_int_minus field_simps)
    have "of_int n * (10 ^ nat (- 4 - dexp d) :: rat) =
        of_nat (dcoeff d) * ((10 powi dexp d :: rat) * 10 ^ 4 * 10 ^ nat (- 4 - dexp d))" unfolding v by (simp only: mult.assoc)
    also have "\<dots> = of_nat (dcoeff d)" unfolding p by simp
    finally have "(of_nat (dcoeff d) :: rat) = of_nat (nat n * 10 ^ nat (- 4 - dexp d))" using n0 by simp
    then show ?thesis by (simp only: of_nat_eq_iff)
  qed
qed

lemma numeric94_exact:
  assumes "\<not> dneg d" and "dval d * 10 ^ 4 = of_int n" and "numeric94 d = Inr x"
  shows "dval x = dval d"
proof -
  let ?k = "nat (- 4 - dexp d)"
  let ?m = "if -4 \<le> dexp d then dcoeff d * 10 ^ nat (dexp d + 4) else (2 * dcoeff d + 10 ^ ?k) div (2 * 10 ^ ?k)"
  note s = steps4 [OF assms(1,2)]
  have m: "?m = nat n"
  proof (cases "- 4 \<le> dexp d")
    case False
    have "(2 * (nat n * 10 ^ ?k) + 10 ^ ?k) div (2 * 10 ^ ?k) = (10 ^ ?k * (2 * nat n + 1)) div (10 ^ ?k * 2)"
      by (simp add: algebra_simps)
    also have "\<dots> = nat n" by (subst div_mult_mult1) simp_all
    finally show ?thesis using False s(2) by simp
  qed (use s(1) in simp)
  from assms(3) have x: "x = Dec False ?m (- 4)" by (auto simp: numeric94_def Let_def assms(1) split: if_split_asm)
  have "dval x * 10 ^ 4 = dval d * 10 ^ 4"
    unfolding x dval_step4 m assms(2) using s(3) by simp
  then show ?thesis by simp
qed

section \<open>The percentage\<close>

lemma half_even_exact: "0 < p \<Longrightarrow> half_even (m * p) p = m"
  by (simp add: half_even_def Let_def)

lemma half_even_le: "half_even n p \<le> n div p + 1"
  by (simp add: half_even_def Let_def)

lemma small_digits:
  assumes "\<not> dneg d" and "0 < dcoeff d" and "dval d \<le> 10"
  shows "dexp d + int (ndigits (dcoeff d)) \<le> 2"
proof (rule ccontr)
  assume "\<not> ?thesis"
  then have e: "1 < dexp d + int (ndigits (dcoeff d) - 1)" using ndigits_pos [of "dcoeff d"] by linarith
  have "10 ^ (ndigits (dcoeff d) - 1) \<le> dcoeff d" using ndigits_lower [of "dcoeff d"] assms(2) by simp
  then have "(of_nat (10 ^ (ndigits (dcoeff d) - 1)) :: rat) \<le> of_nat (dcoeff d)" by (simp only: of_nat_le_iff)
  then have "10 ^ (ndigits (dcoeff d) - 1) * 10 powi dexp d \<le> dval d"
    unfolding dval_nonneg [OF assms(1)] by (intro mult_right_mono) simp_all
  moreover have "(10 ^ (ndigits (dcoeff d) - 1) * 10 powi dexp d :: rat) = 10 powi (dexp d + int (ndigits (dcoeff d) - 1))"
    by (simp add: power_int_add mult.commute)
  moreover have "(10 powi 1 :: rat) < 10 powi (dexp d + int (ndigits (dcoeff d) - 1))"
    using e by (intro power_int_strict_increasing) simp_all
  ultimately show False using assms(3) by simp
qed

text \<open>On a positive value of at most ten the rounding does not raise, and it changes the value exactly when it is
  not a whole number of ten-thousandths.\<close>

lemma quantize_small:
  assumes "\<not> dneg d" and "0 < dcoeff d" and "dval d \<le> 10"
  shows "\<exists>c. dec_quantize d (- 4) = Inr (Dec False c (- 4)) \<and>
    (dval (Dec False c (- 4)) = dval d \<longleftrightarrow> (\<exists>n. dval d * 10 ^ 4 = of_int n))"
proof -
  let ?k = "nat (- 4 - dexp d)"
  let ?c = "if - 4 \<le> dexp d then dcoeff d * 10 ^ nat (dexp d - - 4) else half_even (dcoeff d) (10 ^ ?k)"
  have hi: "(of_nat (dcoeff d) :: rat) * 10 powi dexp d \<le> 10" using assms(3) dval_nonneg [OF assms(1)] by simp
  have c: "?c < 10 ^ 6"
  proof (cases "- 4 \<le> dexp d")
    case True
    then have "(10 powi dexp d :: rat) * 10 ^ 4 = 10 ^ nat (dexp d + 4)"
      using powi_10_shift [OF True] by (simp add: power_int_minus)
    then have "(of_nat (dcoeff d * 10 ^ nat (dexp d + 4)) :: rat) = of_nat (dcoeff d) * 10 powi dexp d * 10 ^ 4" by simp
    also have "\<dots> \<le> 10 * 10 ^ 4" using hi by (intro mult_right_mono) simp_all
    finally have "(of_nat (dcoeff d * 10 ^ nat (dexp d + 4)) :: rat) \<le> of_nat (10 ^ 5)" by simp
    then have "dcoeff d * 10 ^ nat (dexp d + 4) \<le> 10 ^ 5" by (simp only: of_nat_le_iff)
    with True show ?thesis by simp
  next
    case False
    have "(10 powi (- 4) :: rat) = 10 ^ ?k * 10 powi dexp d" using powi_10_shift [of "dexp d" "- 4"] False by simp
    then have p: "(10 powi dexp d :: rat) * (10 ^ 4 * 10 ^ ?k) = 1" by (simp add: power_int_minus field_simps)
    have "(of_nat (dcoeff d) :: rat) = of_nat (dcoeff d) * 10 powi dexp d * (10 ^ 4 * 10 ^ ?k)" using p by simp
    also have "\<dots> \<le> 10 * (10 ^ 4 * 10 ^ ?k)" using hi by (intro mult_right_mono) simp_all
    finally have "(of_nat (dcoeff d) :: rat) \<le> of_nat (10 ^ 5 * 10 ^ ?k)" by simp
    then have "dcoeff d \<le> 10 ^ 5 * 10 ^ ?k" by (simp only: of_nat_le_iff)
    from div_le_mono [OF this, of "10 ^ ?k"] have "dcoeff d div 10 ^ ?k \<le> 10 ^ 5" by simp
    then show ?thesis using half_even_le [of "dcoeff d" "10 ^ ?k"] False by simp
  qed
  then have "ndigits ?c \<le> 6" by (rule ndigits_bound) simp
  with small_digits [OF assms] assms(2) have q: "dec_quantize d (- 4) = Inr (Dec False ?c (- 4))"
    by (simp add: dec_quantize_def Let_def assms(1) prec_def)
  have "dval (Dec False ?c (- 4)) = dval d" if n: "dval d * 10 ^ 4 = of_int n" for n
  proof -
    note s = steps4 [OF assms(1) n]
    have "?c = nat n"
    proof (cases "- 4 \<le> dexp d")
      case False
      with s(2) show ?thesis by (simp add: half_even_exact)
    qed (use s(1) in simp)
    then have "dval (Dec False ?c (- 4)) * 10 ^ 4 = dval d * 10 ^ 4" unfolding dval_step4 n using s(3) by simp
    then show ?thesis by simp
  qed
  moreover have "\<exists>n. dval d * 10 ^ 4 = of_int n" if "dval (Dec False ?c (- 4)) = dval d"
    unfolding that [symmetric] dval_step4 by (metis of_int_of_nat_eq)
  ultimately show ?thesis using q by blast
qed

theorem percentage_accepts_iff:
  assumes "0 < dval v"
  shows "validate_percentage_trail_value percentage v =
    (if dval v \<le> 10 \<and> (\<exists>n. dval v * 10 ^ 4 = of_int n) then Inr () else Inl invalid_body)"
proof (cases "dval v \<le> 10")
  case True
  from assms have d: "\<not> dneg v" "0 < dcoeff v" unfolding dval_pos_iff dint_pos_iff by simp_all
  from quantize_small [OF d True] obtain c where "dec_quantize v (- 4) = Inr (Dec False c (- 4))"
    "dval (Dec False c (- 4)) = dval v \<longleftrightarrow> (\<exists>n. dval v * 10 ^ 4 = of_int n)" by blast
  with True show ?thesis by (simp add: validate_percentage_trail_value_def dec_cmp_iff dval_exp0 dint_def lift_ex_def not_less)
qed (simp add: validate_percentage_trail_value_def dec_cmp_iff dval_exp0 dint_def)

section \<open>The fixed amount\<close>

lemma fixed_tick_steps: "dval (fixed_amount_tick_size st) * 10 ^ 4 = of_int (case st of ETF \<Rightarrow> 500 | STOCK \<Rightarrow> 1000)"
  by (cases st) (simp_all add: fixed_amount_tick_size_def dval_nonneg power_int_minus)

lemma fixed_amount_steps:
  assumes "validate_fixed_amount_tick st v = Inr ()"
  shows "\<exists>n. dval v * 10 ^ 4 = of_int n"
proof -
  let ?t = "fixed_amount_tick_size st"
  have t: "dcoeff ?t \<noteq> 0" by (cases st) (simp_all add: fixed_amount_tick_size_def)
  from assms obtain r where r: "dec_mod v ?t = Inr r"
    by (auto simp: validate_fixed_amount_tick_def lift_dec_def Let_def split: sum.splits)
  with assms have "dval r = 0"
    by (auto simp: validate_fixed_amount_tick_def lift_dec_def Let_def dec_cmp_iff r_bind_Inr_iff split: if_split_asm)
  moreover have "\<bar>dval v / dval ?t\<bar> < 10 ^ prec"
    using dec_mod_invalid [OF t, of v] r by (metis Inl_Inr_False not_less)
  ultimately obtain k :: int where "dval v = of_int k * dval ?t"
    using dec_mod_zero_iff [OF t, of v] r by auto
  then have "dval v * 10 ^ 4 = of_int k * (dval ?t * 10 ^ 4)" by simp
  then show ?thesis unfolding fixed_tick_steps by (metis of_int_mult)
qed

section \<open>What is stored is what was sent\<close>

lemma trailing_request_Inr:
  assumes "trailing_stop_alert_request co body = Inr r"
  obtains s n m v where "r = TrailingStopAlertCreateRequest s n m v" "m \<in> {percentage, fixed_amount}" "0 < dval v"
    "validate_percentage_trail_value m v = Inr ()"
proof -
  from assms obtain s n m v where "r = TrailingStopAlertCreateRequest s n m v" "m \<in> {percentage, fixed_amount}"
    "dec_less dec_zero v" "validate_percentage_trail_value m v = Inr ()"
    unfolding trailing_stop_alert_request_def r_bind_Inr_iff
    by (auto simp: r_bind_Inr_iff required_Inr literal_Some bounded_def split: if_split_asm option.splits)
  with that show thesis by (simp add: dec_cmp_iff)
qed

lemma trail_steps:
  assumes "m \<in> {percentage, fixed_amount}" and "0 < dval v" and "validate_percentage_trail_value m v = Inr ()"
    and "ci_strategy inp = trailing_stop_alert" and "ci_trail_mode inp = Some m" and "ci_trail_value inp = Some v"
    and "create_prices inp db = Inr (e, w)"
  shows "e = None" "w = Some v" "\<exists>n. dval v * 10 ^ 4 = of_int n"
proof -
  from assms(4-) show "e = None" "w = Some v"
    by (auto simp: create_prices_def r_bind_Inr_iff split: option.splits if_split_asm)
  show "\<exists>n. dval v * 10 ^ 4 = of_int n"
  proof (cases "m = percentage")
    case True
    with percentage_accepts_iff [OF assms(2)] assms(3) show ?thesis by (auto split: if_split_asm)
  next
    case False
    with assms(1) have m: "m = fixed_amount" by simp
    with assms(4-) obtain st where "lift_ex ExPrice (validate_fixed_amount_tick st v) = Inr ()"
      by (auto simp: create_prices_def r_bind_Inr_iff split: option.splits if_split_asm)
    then show ?thesis using fixed_amount_steps [of st v] by (auto simp: lift_ex_def split: sum.splits)
  qed
qed

lemma flush_trailing:
  assumes "create_guard a = Inr ()" and "create_flush t i a db = Inr db1" and "ca_strategy a = trailing_stop_alert"
    and "ca_trail_mode a = Some m" and "ca_trail_value a = Some v"
  shows "\<exists>x. tr_trade_intent_id x = i \<and> tr_trail_mode x = m \<and> numeric94 v = Inr (tr_trail_value x) \<and>
    i \<notin> tr_trade_intent_id ` set (db_trailing db) \<and> db_trailing db1 = db_trailing db @ [x] \<and>
    db_core db1 = db_core db @ [new_core_row t i a]"
proof -
  from assms(2) obtain db0 where ins: "insert_core (new_core_row t i a) db = Inr db0"
    by (auto simp: create_flush_def r_bind_Inr_iff)
  note I = insert_core_Inr [OF ins]
  have "ca_target_price_effective a = None"
    using assms(1,3) by (auto simp: create_guard_def Let_def split: if_split_asm)
  with assms(2-) ins have "insert_trailing_params i m v (ca_baseline a) (ca_dynamic_trigger_price a)
      (ca_baseline_updated_at a) db0 = Inr db1"
    by (simp add: create_flush_def)
  from insert_trailing_Inr [OF this] I(5) show ?thesis by auto
qed

text \<open>A trailing-stop order that the request model and the tick check let through is stored with exactly the trail
  value that was sent, and its duplicate key is the key of the stored value: no two different texts of the key stand
  for the same stored order.\<close>

theorem trail_stored_as_sent:
  assumes "trailing_stop_alert_request co body = Inr (TrailingStopAlertCreateRequest s n m v)"
    and "create_insert tx_now i limits now (typed_input user_id (TrailingStopAlertCreateRequest s n m v)) db = Inr (j, db1)"
  shows "\<exists>x row. x \<in> set (db_trailing db1) \<and> tr_trade_intent_id x = i \<and> tr_trail_mode x = m \<and>
    dval (tr_trail_value x) = dval v \<and> row \<in> set (db_core db1) \<and> c_id row = i \<and>
    c_dedup_key row = build_dedup_key trailing_stop_alert None (Some m) (Some (tr_trail_value x)) None"
proof -
  let ?inp = "typed_input user_id (TrailingStopAlertCreateRequest s n m v)"
  from trailing_request_Inr [OF assms(1)] have r: "m \<in> {percentage, fixed_amount}" "0 < dval v"
    "validate_percentage_trail_value m v = Inr ()" by auto
  from assms(2) obtain e w side where c: "create_prices ?inp db = Inr (e, w)"
    "create tx_now i (create_request now ?inp side e w) db = Inr (j, db1)"
    by (auto simp: create_insert_def r_bind_Inr_iff split: option.splits)
  from trail_steps [OF r _ _ _ c(1)] obtain k where e: "e = None" "w = Some v" and k: "dval v * 10 ^ 4 = of_int k" by auto
  let ?a = "create_request now ?inp side e w"
  note C = create_Inr [OF c(2)]
  have a: "ca_strategy ?a = trailing_stop_alert" "ca_trail_mode ?a = Some m" "ca_trail_value ?a = Some v"
    by (simp_all add: create_request_def e)
  from flush_trailing [OF C(2,3) a] obtain x where x: "tr_trade_intent_id x = i" "tr_trail_mode x = m"
    "numeric94 v = Inr (tr_trail_value x)" "db_trailing db1 = db_trailing db @ [x]" "db_core db1 = db_core db @ [new_core_row tx_now i ?a]"
    by blast
  have neg: "\<not> dneg v" using r(2) unfolding dval_pos_iff dint_pos_iff by simp
  have eq: "dval (tr_trail_value x) = dval v" by (rule numeric94_exact [OF neg k x(3)])
  have "dedup_price (Some v) = dedup_price (Some (tr_trail_value x))"
    using r(2) eq by (intro dedup_price_cong) (simp add: same_amount_def)
  then have key: "c_dedup_key (new_core_row tx_now i ?a) =
      build_dedup_key trailing_stop_alert None (Some m) (Some (tr_trail_value x)) None"
    by (simp add: new_core_row_def create_dedup_key_def build_dedup_key_def create_request_def e)
  have "c_id (new_core_row tx_now i ?a) = i" by (simp add: new_core_row_def)
  with x eq key show ?thesis by (intro exI [of _ x] exI [of _ "new_core_row tx_now i ?a"]) simp
qed

definition sample_coercion :: coercion where
  "sample_coercion =
     \<lparr>co_str = (\<lambda>v. case v of JStr s \<Rightarrow> Some s | _ \<Rightarrow> None),
      co_int = (\<lambda>v. case v of JInt i \<Rightarrow> Some i | _ \<Rightarrow> None),
      co_decimal = (\<lambda>v. case v of JStr s \<Rightarrow> (case dec_of_string s of Some (PFinite d) \<Rightarrow> Some d | _ \<Rightarrow> None) | _ \<Rightarrow> None)\<rparr>"

definition sample_trailing_body :: payload where
  "sample_trailing_body =
     [(''symbol'', JStr ''2330''), (''quantityLots'', JInt 2), (''strategy'', JStr ''trailing_stop_alert''),
      (''trailMode'', JStr ''percentage''), (''trailValue'', JStr ''2.50'')]"

lemma sample_trailing_request:
  "trailing_stop_alert_request sample_coercion sample_trailing_body =
     Inr (TrailingStopAlertCreateRequest ''2330'' 2 percentage (Dec False 250 (- 2)))"
proof -
  have t: "dec_of_string ''2.50'' = Some (PFinite (Dec False 250 (- 2)))" by code_simp
  have v: "dval (Dec False 250 (- 2)) = 5 / 2" by (simp add: dval_nonneg power_int_minus)
  have "(5 / 2 :: rat) * 10 ^ 4 = of_int 25000" by simp
  then have "validate_percentage_trail_value percentage (Dec False 250 (- 2)) = Inr ()"
    using percentage_accepts_iff [of "Dec False 250 (- 2)"] unfolding v by auto
  then show ?thesis
    by (simp add: trailing_stop_alert_request_def sample_trailing_body_def sample_coercion_def no_extra_def base_fields_def
        required_def obj_get_def bounded_def literal_def t dec_cmp_iff v)
qed

lemma sample_trailing_insert:
  "\<exists>db1. create_insert 0 1 None now (typed_input 7 (TrailingStopAlertCreateRequest ''2330'' 2 percentage (Dec False 250 (- 2)))) fresh_db =
     Inr (1, db1)"
  by (simp add: create_insert_def create_prices_def get_tradable_symbol_def get_by_symbol_def find_by_symbol_def
      empty_db_def sample_symbol_def security_type_of_def strategy_sets derive_order_side_def
      check_limits_def create_def Let_def create_guard_def create_request_def one_or_none_def create_flush_def insert_core_def
      pg_integer_def core_checks_def known_strategy_def new_core_row_def insert_trailing_params_def numeric94_opt_def
      numeric94_def trailing_checks_def nonpositive_def dec_cmp_iff dval_nonneg power_int_minus)

theorem trail_stored_as_sent_witness:
  "\<exists>db1 x row. create_insert 0 1 None 0 (typed_input 7 (TrailingStopAlertCreateRequest ''2330'' 2 percentage (Dec False 250 (- 2))))
       fresh_db = Inr (1, db1) \<and> x \<in> set (db_trailing db1) \<and> dval (tr_trail_value x) = 5 / 2 \<and> row \<in> set (db_core db1) \<and>
     c_dedup_key row = build_dedup_key trailing_stop_alert None (Some percentage) (Some (tr_trail_value x)) None"
proof -
  from sample_trailing_insert obtain db1 where c: "create_insert 0 1 None 0
      (typed_input 7 (TrailingStopAlertCreateRequest ''2330'' 2 percentage (Dec False 250 (- 2)))) fresh_db = Inr (1, db1)" by blast
  have "dval (Dec False 250 (- 2)) = 5 / 2" by (simp add: dval_nonneg power_int_minus)
  with trail_stored_as_sent [OF sample_trailing_request c] c show ?thesis by metis
qed

section \<open>Times of day\<close>

lemma two_digits: "length s = 2 \<Longrightarrow> list_all is_digit s \<Longrightarrow> fixed_digits 2 (digits_val s) = s \<and> digits_val s < 100"
proof -
  assume "length s = 2" and d: "list_all is_digit s"
  then obtain a b where s: "s = [a, b]" by (auto simp: numeral_2_eq_2 length_Suc_conv)
  have c: "digit_char (digit_val x) = x" "digit_val x < 10" if "is_digit x" for x
    using that by (auto simp: is_digit_def digit_char_def digit_val_def)
  from d s have ab: "is_digit a" "is_digit b" by simp_all
  have "digits_val s = digit_val a * 10 + digit_val b" by (simp add: s)
  with c [OF ab(1)] c [OF ab(2)] s show ?thesis by (simp add: numeral_2_eq_2)
qed

text \<open>The accepted texts are exactly \<open>HH:MM\<close>, and the value is the minute they name.\<close>

theorem time_precision_iff:
  "validate_time_precision (JStr s) = Some (Some t) \<longleftrightarrow>
   (\<exists>h m. h < 24 \<and> m < 60 \<and> s = fixed_digits 2 h @ '':'' @ fixed_digits 2 m \<and> t = minutes h m)"
proof
  assume "validate_time_precision (JStr s) = Some (Some t)"
  then obtain h m where hm: "split_on (CHR '':'') s = [h, m]" "length h = 2" "length m = 2" "list_all is_digit h" "list_all is_digit m"
    "digits_val h \<le> 23" "digits_val m \<le> 59" "t = minutes (digits_val h) (digits_val m)"
    by (auto simp: validate_time_precision_def split: list.splits if_split_asm)
  have "s = h @ '':'' @ m" using split_on_join [of "CHR '':''" s] hm(1) by simp
  with two_digits [OF hm(2,4)] two_digits [OF hm(3,5)] hm(6-) show
    "\<exists>h m. h < 24 \<and> m < 60 \<and> s = fixed_digits 2 h @ '':'' @ fixed_digits 2 m \<and> t = minutes h m"
    by (intro exI [of _ "digits_val h"] exI [of _ "digits_val m"]) simp
next
  assume "\<exists>h m. h < 24 \<and> m < 60 \<and> s = fixed_digits 2 h @ '':'' @ fixed_digits 2 m \<and> t = minutes h m"
  then obtain h m where hm: "h < 24" "m < 60" "s = fixed_digits 2 h @ '':'' @ fixed_digits 2 m" "t = minutes h m" by blast
  have nc: "CHR '':'' \<notin> set (fixed_digits 2 x)" for x
    using fixed_digits_digits [of 2 x] by (auto simp: list_all_iff is_digit_def)
  have "split_on (CHR '':'') s = [fixed_digits 2 h, fixed_digits 2 m]"
    using split_on_append [OF nc, of h "fixed_digits 2 m"] split_on_absent [OF nc] by (simp add: hm(3))
  with hm show "validate_time_precision (JStr s) = Some (Some t)"
    by (simp add: validate_time_precision_def fixed_digits_digits digits_val_fixed_digits)
qed

lemma time_value_minutes: "h < 24 \<Longrightarrow> m < 60 \<Longrightarrow> time_value (minutes h m) = fixed_digits 2 h @ '':'' @ fixed_digits 2 m @ '':00''"
proof -
  assume hm: "h < 24" "m < 60"
  have "minutes h m div (60 * usec_per_sec) = int (h * 60 + m)" by simp
  then have "nat (minutes h m div (60 * usec_per_sec)) = h * 60 + m" by simp
  with hm show ?thesis unfolding time_value_def Let_def by (simp add: div_mult_self3)
qed

end
