(* ===== verification/Route_Properties.thy ===== *)
theory Route_Properties
  imports Intent_Routes Owner_Frame Identity_Samples Request_Properties
begin

text \<open>
  The order endpoints as a whole: no request reaches another owner's orders, a retry is answered from the record
  of the first attempt without running anything, and the typed endpoints do what the endpoint of the union does.
\<close>

section \<open>The mutating requests\<close>

datatype mutation = PostCreate create_endpoint payload | PostConfirm payload | PostCancel uuid

definition mutation_route :: "'p route_env \<Rightarrow> mutation \<Rightarrow> http_request \<Rightarrow> 'p http_state \<Rightarrow> (exn + http_body) \<times> 'p http_state" where
  "mutation_route env m q = (case m of
      PostCreate e body \<Rightarrow> create_route env e q body
    | PostConfirm body \<Rightarrow> confirm_twap env q body
    | PostCancel i \<Rightarrow> cancel_intent env q i)"

lemmas route_defs = create_route_def confirm_twap_def cancel_intent_def

lemma gate_frame:
  assumes "mutation_gate env q s = (r, s1)"
  shows "hs_app s1 = hs_app s" "hs_provider s1 = hs_provider s" "hs_sent s1 = hs_sent s" "hs_keys s1 = hs_keys s"
  using assms by (auto simp: mutation_gate_def split: sum.splits prod.splits)

lemma gate_user:
  assumes "mutation_gate env q s = (Inr (user, key), s1)"
  shows "request_user_of env q s = Inr user"
  using assms by (auto simp: mutation_gate_def split: sum.splits prod.splits)

section \<open>Commands of one owner\<close>

text \<open>What the routes rely on: a command run for one owner leaves the view of every other owner as it was, or as the
  system's own sweep leaves it. The idempotency manager keeps this.\<close>

locale owner_scoped =
  fixes ok :: "'s \<Rightarrow> bool" and view_of :: "uuid \<Rightarrow> 's \<Rightarrow> 'v" and sweep :: "'s \<Rightarrow> 's"
    and execute :: "uuid \<Rightarrow> ('a, 's) command"
  assumes respects: "ok st \<Longrightarrow> u \<noteq> owner \<Longrightarrow> execute owner st = (res, st', c) \<Longrightarrow>
    view_of u st' = view_of u st \<or> view_of u st' = view_of u (sweep st)"
begin

lemma idem_respects:
  assumes "ok (iw_app w)" and "u \<noteq> owner"
  shows "view_of u (iw_app (snd (idem_run (execute owner) iq w))) \<in> {view_of u (iw_app w), view_of u (sweep (iw_app w))}"
proof (cases "idem_check iq (iw_keys w)")
  case (Inr dec)
  show ?thesis
  proof (cases dec)
    case (Proceed stale)
    obtain out st' c where ex: "execute owner (iw_app w) = (out, st', c)" using prod_cases3 by blast
    have "iw_app (snd (idem_run (execute owner) iq w)) = st'"
      unfolding idem_run_Proceed [where execute = "execute owner" and w = w, OF Inr [unfolded Proceed] ex] Let_def
      by (cases out) (auto split: prod.splits)
    with respects [OF assms ex] show ?thesis by auto
  qed (use Inr in \<open>simp add: idem_run_def\<close>)
qed (simp add: idem_run_def)

end

definition swept :: "datetime \<Rightarrow> app_db \<Rightarrow> app_db" where
  "swept now app = app\<lparr>ap_core := fst (route_lifecycle now (ap_core app))\<rparr>"

lemma owned_core_update: "owned_core u core' = owned_core u (ap_core app) \<Longrightarrow> owned u (app\<lparr>ap_core := core'\<rparr>) = owned u app"
  by (simp add: owned_def)

interpretation create_command: owner_scoped "\<lambda>st. core_inv (ap_core (fst st))" "\<lambda>u st. owned u (fst st)" "\<lambda>st. st"
  "\<lambda>owner. run_create_intent env q (typed_input owner r)"
proof unfold_locales
  fix st :: "'a app_state" and u owner res st' c
  assume inv: "core_inv (ap_core (fst st))" and u: "u \<noteq> owner"
    and ex: "run_create_intent env q (typed_input owner r) st = (res, st', c)"
  obtain app p sent where st: "st = (app, p, sent)" by (cases st)
  from ex have "fst st' = app \<or> (\<exists>i core' ns p'. fst st' = app\<lparr>ap_core := core'\<rparr> \<and>
      create_tx (en_ops env) (en_halted env) (en_limits env) (hq_tx_now q) (hq_intent_id q) (hq_trigger_id q)
        (hq_notification_id q) (hq_session_now q) (typed_input owner r) p (ap_core app) = (Inr (i, core', ns), p'))"
    by (auto simp: run_create_intent_def st split: prod.splits sum.splits)
  moreover have "owned u (app\<lparr>ap_core := core'\<rparr>) = owned u app"
    if "create_tx ops h l t i g n now (typed_input owner r) p (ap_core app) = (Inr (j, core', ns), p')" for ops h l t i g n now j core' ns p'
    using confined_owned_core [OF create_tx_confined [OF _ that], of u] inv u
    by (intro owned_core_update) (simp add: st typed_input_owner)
  ultimately show "owned u (fst st') = owned u (fst st) \<or> owned u (fst st') = owned u (fst st)" by (auto simp: st)
qed

interpretation confirm_command: owner_scoped "\<lambda>st. core_inv (ap_core (fst st))" "\<lambda>u st. owned u (fst st)" "\<lambda>st. st"
  "\<lambda>owner. run_confirm_twap env q owner r"
proof unfold_locales
  fix st :: "'a app_state" and u owner res st' c
  assume u: "u \<noteq> owner" and ex: "run_confirm_twap env q owner r st = (res, st', c)"
  obtain app p sent where st: "st = (app, p, sent)" by (cases st)
  from ex have "fst st' = app \<or> (\<exists>i p'. confirm_tx (en_ops env) (hq_tx_now q) (hq_intent_id q) (hq_slice_id q) (en_limits env)
      (hq_session_now q) (twap_input owner r) p app = (Inr (i, fst st'), p'))"
    by (auto simp: run_confirm_twap_def st split: prod.splits sum.splits)
  then show "owned u (fst st') = owned u (fst st) \<or> owned u (fst st') = owned u (fst st)"
    using u confirm_tx_owned by (fastforce simp: st twap_input_def)
qed

lemma route_lifecycle_inv: "core_inv db \<Longrightarrow> core_inv (fst (route_lifecycle now db))"
  using core_lifecycle_session [of now db] by (auto simp: route_lifecycle_def case_prod_unfold)

interpretation cancel_command: owner_scoped "\<lambda>st. core_inv (ap_core (fst st))" "\<lambda>u st. owned u (fst st)"
  "\<lambda>st. (swept (hq_session_now q) (fst st), snd st)" "\<lambda>owner. run_cancel_intent env q owner i"
proof unfold_locales
  fix st :: "'a app_state" and u owner res st' c
  assume inv: "core_inv (ap_core (fst st))" and u: "u \<noteq> owner" and ex: "run_cancel_intent env q owner i st = (res, st', c)"
  obtain app p sent where st: "st = (app, p, sent)" by (cases st)
  let ?core = "fst (route_lifecycle (hq_session_now q) (ap_core app))"
  have ci: "core_inv ?core" using inv route_lifecycle_inv by (simp add: st)
  from ex obtain core' where st': "fst st' = app\<lparr>ap_core := core'\<rparr>"
    and core': "core' = ?core \<or> (\<exists>d. cancel (hq_tx_now q) i owner ?core = Inr (d, core'))"
    by (auto simp: run_cancel_intent_def st cancel_execute_def case_prod_unfold split: sum.split_asm)
  then have "owned_core u core' = owned_core u ?core"
    using cancel_confined [OF ci] confined_owned_core u by blast
  then show "owned u (fst st') = owned u (fst st) \<or> owned u (fst st') = owned u (fst (swept (hq_session_now q) (fst st), snd st))"
    by (simp add: st' owned_def st swept_def)
qed

section \<open>No request reaches another owner\<close>

lemma run_idempotent_app:
  "hs_app (snd (run_idempotent env q user key ep pl execute s)) =
     fst (iw_app (snd (idem_run execute
        \<lparr>iq_user_id = ru_user_id user, iq_key = key, iq_endpoint = ep, iq_request_hash = en_hash_payload env pl,
         iq_now = hq_now q, iq_new_id = hq_record_id q\<rparr>
        \<lparr>iw_users = map us_id (id_users (hs_ident s)), iw_keys = hs_keys s, iw_app = (hs_app s, hs_provider s, hs_sent s)\<rparr>)))"
  by (simp add: run_idempotent_def case_prod_unfold)

lemma mutating_route_cases:
  assumes "mutating_route env q ep request dump execute s = (res, s')"
  obtains (refused) e where "res = Inl e" "hs_app s' = hs_app s" "hs_provider s' = hs_provider s" "hs_sent s' = hs_sent s" "hs_keys s' = hs_keys s"
  | (ran) user key s1 r where "mutation_gate env q s = (Inr (user, key), s1)" "request = Inr r"
      "run_idempotent env q user key ep (dump r) (execute user r) s1 = (res, s')"
  using assms gate_frame [of env q s]
  by (auto simp: mutating_route_def split: prod.split_asm sum.split_asm)

lemma mutating_route_respects:
  assumes scoped: "\<And>r. owner_scoped (\<lambda>st. core_inv (ap_core (fst st))) (\<lambda>u st. owned u (fst st)) sweep (\<lambda>owner. execute owner r)"
    and inv: "core_inv (ap_core (hs_app s))" and u: "\<And>user. request_user_of env q s = Inr user \<Longrightarrow> ru_user_id user \<noteq> u"
    and run: "mutating_route env q ep request dump (\<lambda>user r. execute (ru_user_id user) r) s = (res, s')"
  shows "owned u (hs_app s') \<in> {owned u (hs_app s), owned u (fst (sweep (hs_app s, hs_provider s, hs_sent s)))}"
  using run
proof (cases rule: mutating_route_cases)
  case (ran user key s1 r)
  let ?w = "\<lparr>iw_users = map us_id (id_users (hs_ident s1)), iw_keys = hs_keys s, iw_app = (hs_app s, hs_provider s, hs_sent s)\<rparr>"
  have other: "u \<noteq> ru_user_id user" using u gate_user [OF ran(1)] by blast
  have "hs_app s' = hs_app (snd (run_idempotent env q user key ep (dump r) (execute (ru_user_id user) r) s1))" using ran(3) by simp
  moreover have "core_inv (ap_core (fst (iw_app ?w)))" using inv by simp
  note owner_scoped.idem_respects [OF scoped [of r] this other, where iq = "\<lparr>iq_user_id = ru_user_id user, iq_key = key, iq_endpoint = ep,
    iq_request_hash = en_hash_payload env (dump r), iq_now = hq_now q, iq_new_id = hq_record_id q\<rparr>"]
  ultimately show ?thesis unfolding run_idempotent_app gate_frame [OF ran(1)] by (simp only: idem_world.simps fst_conv)
qed simp

text \<open>(C16) No order request reaches another owner: whatever a create, confirm or cancel request carries, and however it
  ends, everything the tables hold of any other owner is as before, except that a cancel request first runs the
  daily sweep over all orders.\<close>

theorem requests_respect_owner:
  assumes "core_inv (ap_core (hs_app s))" and "mutation_route env m q s = (res, s')"
    and "\<And>user. request_user_of env q s = Inr user \<Longrightarrow> ru_user_id user \<noteq> u"
  shows "owned u (hs_app s') = owned u (hs_app s) \<or>
    (\<exists>i. m = PostCancel i) \<and> owned u (hs_app s') = owned u (swept (hq_session_now q) (hs_app s))"
proof (cases m)
  case (PostCreate e body)
  from mutating_route_respects [OF create_command.owner_scoped_axioms assms(1,3)] assms(2) show ?thesis
    by (simp add: PostCreate mutation_route_def create_route_def endpoint_input_typed)
next
  case (PostConfirm body)
  from mutating_route_respects [OF confirm_command.owner_scoped_axioms assms(1,3)] assms(2) show ?thesis
    by (simp add: PostConfirm mutation_route_def confirm_twap_def)
next
  case (PostCancel i)
  from mutating_route_respects [OF cancel_command.owner_scoped_axioms assms(1,3)] assms(2) show ?thesis
    by (simp add: PostCancel mutation_route_def cancel_intent_def)
qed

section \<open>A retry is answered from the record\<close>

lemma mutating_route_retry:
  assumes ok: "idem_ok (hs_keys s)" and gate: "mutation_gate env q s = (Inr (user, key), s1)"
    and free: "\<And>k. k \<in> set (hs_keys s) \<Longrightarrow> ik_user_id k = ru_user_id user \<Longrightarrow> ik_key k = key \<Longrightarrow> ik_expires_at k \<le> hq_now q"
    and run: "mutating_route env q ep request dump execute s = (Inr resp, s')"
    and gate': "mutation_gate env' q' s' = (Inr (user', key), s2)" "ru_user_id user' = ru_user_id user"
    and time: "hq_now q' < hq_now q + RECORD_TTL" and hash: "en_hash_payload env' = en_hash_payload env"
  shows "mutating_route env' q' ep' request dump execute' s' = (Inr resp, s2)"
proof -
  note G = gate_frame [OF gate] and G' = gate_frame [OF gate'(1)]
  from run gate obtain r where r: "request = Inr r"
    and ex: "run_idempotent env q user key ep (dump r) (execute user r) s1 = (Inr resp, s')"
    by (auto simp: mutating_route_def split: sum.split_asm)
  define iq where "iq = \<lparr>iq_user_id = ru_user_id user, iq_key = key, iq_endpoint = ep, iq_request_hash = en_hash_payload env (dump r),
     iq_now = hq_now q, iq_new_id = hq_record_id q\<rparr>"
  define w where "w = \<lparr>iw_users = map us_id (id_users (hs_ident s1)), iw_keys = hs_keys s1, iw_app = (hs_app s1, hs_provider s1, hs_sent s1)\<rparr>"
  obtain w' where w': "idem_run (execute user r) iq w = (Inr resp, w')" "hs_keys s' = iw_keys w'"
    using ex by (auto simp: run_idempotent_def iq_def w_def split: prod.split_asm)
  have ok1: "idem_ok (iw_keys w)" using ok by (simp add: w_def G)
  from idem_check_free [OF ok1, of iq] free obtain stale where "idem_check iq (iw_keys w) = Inr (Proceed stale)"
    by (auto simp: iq_def w_def G)
  note I = idempotency_replays [OF ok1 this w'(1)]
  let ?iq = "\<lparr>iq_user_id = ru_user_id user', iq_key = key, iq_endpoint = ep', iq_request_hash = en_hash_payload env' (dump r),
     iq_now = hq_now q', iq_new_id = hq_record_id q'\<rparr>"
  let ?w = "\<lparr>iw_users = map us_id (id_users (hs_ident s2)), iw_keys = hs_keys s2, iw_app = (hs_app s2, hs_provider s2, hs_sent s2)\<rparr>"
  have "idem_run (execute' user' r) ?iq ?w = (Inr resp, ?w)"
    using I [of ?iq ?w "execute' user' r"] gate'(2) time hash w'(2) G' by (simp add: iq_def)
  then have "run_idempotent env' q' user' key ep' (dump r) (execute' user' r) s2 = (Inr resp, s2)" by (simp add: run_idempotent_def)
  then show ?thesis by (simp add: mutating_route_def gate'(1) r)
qed


section \<open>The typed endpoints and the endpoint of the union\<close>

definition forget_endpoint :: "http_body idem_row \<Rightarrow> http_body idem_row" where
  "forget_endpoint k = k\<lparr>ik_endpoint := []\<rparr>"

lemma idem_store_endpoint:
  "fst (idem_store users (q\<lparr>iq_endpoint := e\<rparr>) pd sn rows) = fst (idem_store users q pd sn rows)"
  "map forget_endpoint (snd (idem_store users (q\<lparr>iq_endpoint := e\<rparr>) pd sn rows)) = map forget_endpoint (snd (idem_store users q pd sn rows))"
  by (auto simp: idem_store_def idem_create_def forget_endpoint_def split: sum.split option.split)

lemma idem_run_endpoint:
  "fst (idem_run ex (q\<lparr>iq_endpoint := e\<rparr>) w) = fst (idem_run ex q w) \<and>
   iw_app (snd (idem_run ex (q\<lparr>iq_endpoint := e\<rparr>) w)) = iw_app (snd (idem_run ex q w)) \<and>
   map forget_endpoint (iw_keys (snd (idem_run ex (q\<lparr>iq_endpoint := e\<rparr>) w))) = map forget_endpoint (iw_keys (snd (idem_run ex q w)))"
proof -
  have c: "idem_check (q\<lparr>iq_endpoint := e\<rparr>) (iw_keys w) = idem_check q (iw_keys w)"
    by (simp add: idem_check_def cong: option.case_cong if_cong)
  show ?thesis
  proof (cases "idem_check q (iw_keys w)")
    case (Inr dec)
    show ?thesis
    proof (cases dec)
      case (Proceed stale)
      obtain out st' com where x: "ex (iw_app w) = (out, st', com)" using prod_cases3 by blast
      note p = Inr [unfolded Proceed]
      show ?thesis
        unfolding idem_run_Proceed [where execute = ex and w = w, OF p x] idem_run_Proceed [where execute = ex and w = w, OF p [folded c] x] Let_def
        by (cases out) (simp_all add: idem_store_endpoint case_prod_unfold)
    qed (simp add: idem_run_def c Inr)
  qed (simp add: idem_run_def c)
qed

text \<open>The typed endpoints are the endpoint of the union: on a body a typed endpoint accepts, both give the same
  answer and leave the same state, but for the endpoint name in the idempotency record.\<close>

theorem typed_endpoint_agrees:
  assumes "read_request e (en_coercion env) body = Inr r"
  shows "fst (create_route env e q body s) = fst (create_route env create_intent q body s) \<and>
    hs_app (snd (create_route env e q body s)) = hs_app (snd (create_route env create_intent q body s)) \<and>
    hs_provider (snd (create_route env e q body s)) = hs_provider (snd (create_route env create_intent q body s)) \<and>
    hs_sent (snd (create_route env e q body s)) = hs_sent (snd (create_route env create_intent q body s)) \<and>
    hs_ident (snd (create_route env e q body s)) = hs_ident (snd (create_route env create_intent q body s)) \<and>
    map forget_endpoint (hs_keys (snd (create_route env e q body s))) =
      map forget_endpoint (hs_keys (snd (create_route env create_intent q body s)))"
proof (cases "mutation_gate env q s")
  case (Pair g s1)
  show ?thesis
  proof (cases g)
    case (Inr uk)
    obtain user key where uk: "uk = (user, key)" by fastforce
    define w where "w = \<lparr>iw_users = map us_id (id_users (hs_ident s1)), iw_keys = hs_keys s1, iw_app = (hs_app s1, hs_provider s1, hs_sent s1)\<rparr>"
    define iq where "iq = \<lparr>iq_user_id = ru_user_id user, iq_key = key, iq_endpoint = endpoint_name create_intent,
      iq_request_hash = en_hash_payload env (dump_request r), iq_now = hq_now q, iq_new_id = hq_record_id q\<rparr>"
    have "iq\<lparr>iq_endpoint := endpoint_name e\<rparr> = \<lparr>iq_user_id = ru_user_id user, iq_key = key, iq_endpoint = endpoint_name e,
      iq_request_hash = en_hash_payload env (dump_request r), iq_now = hq_now q, iq_new_id = hq_record_id q\<rparr>" by (simp add: iq_def)
    note * = idem_run_endpoint [where e = "endpoint_name e" and q = iq and w = w, unfolded this, unfolded iq_def w_def]
    show ?thesis
      using * by (simp add: create_route_def mutating_route_def Pair Inr uk assms typed_union [OF assms] run_idempotent_def
          endpoint_input_typed case_prod_unfold)
  qed (simp add: create_route_def mutating_route_def Pair)
qed

section \<open>Reading\<close>

text \<open>The order a response shows is one of the owner's.\<close>

definition shown :: "uuid \<Rightarrow> core_db \<Rightarrow> 'x intent_response_data_scheme \<Rightarrow> bool" where
  "shown owner core d \<longleftrightarrow> (\<exists>row \<in> set (db_core core). c_owner_user_id row = owner \<and> ir_id d = c_id row \<and>
     ir_symbol d = c_symbol row \<and> ir_strategy d = c_strategy row \<and> ir_quantity_lots d = c_quantity_lots row \<and> ir_status d = c_status row)"

lemma map_response_fields:
  assumes "map_to_response_data off intent = Inr d"
  shows "ir_id d = ti_id intent" "ir_symbol d = ti_symbol intent" "ir_strategy d = ti_strategy intent"
    "ir_quantity_lots d = ti_quantity_lots intent" "ir_status d = ti_status intent"
  using assms by (auto simp: map_to_response_data_def r_bind_Inr_iff)

lemma to_domain_fields:
  "ti_id (to_domain db r st) = c_id r" "ti_symbol (to_domain db r st) = c_symbol r" "ti_strategy (to_domain db r st) = c_strategy r"
  "ti_quantity_lots (to_domain db r st) = c_quantity_lots r" "ti_status (to_domain db r st) = c_status r"
  by (simp_all add: to_domain_def Let_def)

lemma joined_mem: "x \<in> set (core_with_symbol_type p db) \<Longrightarrow> fst x \<in> set (db_core db) \<and> p (fst x)"
  by (auto simp: core_with_symbol_type_def)

lemma domain_of_Inr: "domain_of db x = Inr d \<Longrightarrow> \<exists>st. d = to_domain db (fst x) st"
  by (auto simp: domain_of_def split: option.splits)

lemma find_by_id_own:
  assumes "find_by_id i owner db = Inr d"
  shows "\<exists>row st. row \<in> set (db_core db) \<and> c_owner_user_id row = owner \<and> c_id row = i \<and> d = to_domain db row st"
proof -
  from assms obtain x where x: "select_core i owner db = Inr x" "domain_of db x = Inr d"
    unfolding find_by_id_def r_bind_Inr_iff by blast
  obtain a t where at: "x = (a, t)" by fastforce
  from x(1) obtain res where res: "one_or_none (core_with_symbol_type (\<lambda>r. c_id r = i) db) = Inr res"
    "(case res of None \<Rightarrow> Inl (ExIntent (IntentNotFoundError i))
      | Some (row, instrument_type) \<Rightarrow> if c_owner_user_id row \<noteq> owner then Inl (ExIntent (IntentNotFoundError i))
          else Inr (row, instrument_type)) = Inr x"
    unfolding select_core_def r_bind_Inr_iff by blast
  then have "res = Some (a, t)" "c_owner_user_id a = owner" by (auto simp: at split: option.splits if_split_asm)
  with joined_mem [OF one_or_none_SomeD, of "\<lambda>r. c_id r = i" db "(a, t)"] res(1) domain_of_Inr [OF x(2)] show ?thesis by (auto simp: at)
qed

lemma list_by_owner_own:
  assumes "list_by_owner owner wanted td n db c = Inr (items, next_id)" and "d \<in> set items"
  shows "\<exists>row st. row \<in> set (db_core db) \<and> list_match owner wanted td row \<and> d = to_domain db row st"
proof -
  let ?rows = "core_with_symbol_type (list_match owner wanted td) db"
  let ?page = "\<lambda>anchor. fst (keyset_page (\<lambda>x. list_order (terminal_only wanted) (fst x)) (\<lambda>x. c_id (fst x))
      (\<lambda>a x. list_after (terminal_only wanted) (fst a) (fst x)) anchor n ?rows)"
  from assms(1) obtain anchor where "map_r (domain_of db) (?page anchor) = Inr items"
    by (auto simp: list_by_owner_def Let_def case_prod_unfold r_bind_Inr_iff split: option.splits)
  from map_r_mem [OF this assms(2)] obtain x where x: "x \<in> set (?page anchor)" "domain_of db x = Inr d" by (rule bexE)
  from x(1) have "x \<in> set ?rows" by (rule subsetD [OF page_subset])
  from joined_mem [OF this] domain_of_Inr [OF x(2)] show ?thesis by blast
qed

text \<open>(C18) The reading endpoints show the caller's own orders only, as they are in the table, and the list only those in a
  requested status.\<close>

theorem reads_own_only:
  assumes "request_user_of env q s = Inr user"
  shows "(case get_intent env q i s of (Inr (IntentDetailResponse d), s') \<Rightarrow> ir_id d = i \<and> shown (ru_user_id user) (ap_core (hs_app s')) d
      | (Inr _, _) \<Rightarrow> False | (Inl _, _) \<Rightarrow> True) \<and>
    (case list_intents env q status_filter td cursor n s of
        (Inr (IntentListResponse l), s') \<Rightarrow> 1 \<le> n \<and> n \<le> 100 \<and>
          (\<forall>d \<in> set (lr_data l). shown (ru_user_id user) (ap_core (hs_app s')) d \<and>
            (case parse_status_list status_filter of None \<Rightarrow> True | Some ss \<Rightarrow> Some (ir_status d) \<in> status_of ` set ss))
      | (Inr _, _) \<Rightarrow> False | (Inl _, _) \<Rightarrow> True)"
proof (intro conjI, goal_cases)
  case 1
  obtain core b where lc: "route_lifecycle (hq_session_now q) (ap_core (hs_app s)) = (core, b)" by fastforce
  show ?case
  proof (cases "find_by_id i (ru_user_id user) core")
    case (Inr intent)
    from find_by_id_own [OF this] obtain row st where row: "row \<in> set (db_core core)" "c_owner_user_id row = ru_user_id user" "c_id row = i"
      "intent = to_domain core row st" by blast
    then show ?thesis
      by (cases "map_to_response_data (en_utc_offset env) intent")
        (auto simp: get_intent_def assms lc Inr map_to_detail_response_data_def shown_def intent_response_data.defs intent_detail_response_data.defs
          map_response_fields to_domain_fields)
  qed (simp add: get_intent_def assms lc)
next
  case 2
  obtain core b where lc: "route_lifecycle (hq_session_now q) (ap_core (hs_app s)) = (core, b)" by fastforce
  show ?case
  proof (cases "fst (list_intents env q status_filter td cursor n s)")
    case (Inr x)
    from Inr obtain wanted c items next_id ds where n: "1 \<le> n" "n \<le> 100"
      and w: "validate_statuses (parse_status_list status_filter) = Inr wanted"
      and it: "list_by_owner (ru_user_id user) wanted td (nat n) core c = Inr (items, next_id)"
      and ds: "map_r (map_to_response_data (en_utc_offset env)) items = Inr ds"
      and x: "x = IntentListResponse \<lparr>lr_data = ds, lr_next_cursor = map_option uuid_str next_id, lr_page_size = nat n\<rparr>"
      and s': "ap_core (hs_app (snd (list_intents env q status_filter td cursor n s))) = core"
      by (auto simp: list_intents_def assms lc r_bind_Inr_iff split: sum.split_asm if_split_asm)
    have "shown (ru_user_id user) core d \<and>
        (case parse_status_list status_filter of None \<Rightarrow> True | Some ss \<Rightarrow> Some (ir_status d) \<in> status_of ` set ss)" if "d \<in> set ds" for d
    proof -
      from map_r_mem [OF ds that] obtain intent where i: "intent \<in> set items" "map_to_response_data (en_utc_offset env) intent = Inr d" by blast
      from list_by_owner_own [OF it i(1)] obtain row st where row: "row \<in> set (db_core core)" "list_match (ru_user_id user) wanted td row"
        "intent = to_domain core row st" by blast
      have "Some (c_status row) \<in> status_of ` set ss" if "parse_status_list status_filter = Some ss" for ss
      proof -
        from w that have ss: "wanted = Some (map (the \<circ> status_of) ss)" "list_all (\<lambda>s. status_of s \<noteq> None) ss"
          by (auto simp: validate_statuses_def split: if_split_asm)
        have "ss \<noteq> []" using that by (auto simp: parse_status_list_def Let_def split: option.splits if_split_asm)
        with row(2) ss obtain t where "t \<in> set ss" "c_status row = the (status_of t)" by (auto simp: list_match_def)
        with ss(2) show ?thesis by (force simp: list_all_iff)
      qed
      with row map_response_fields [OF i(2)] show ?thesis
        by (auto simp: shown_def list_match_def to_domain_fields split: option.split)
    qed
    with Inr x n s' show ?thesis by (simp add: case_prod_unfold)
  qed (simp add: case_prod_unfold)
qed

section \<open>A small deployment\<close>

definition payload_text :: "payload \<Rightarrow> string" where
  "payload_text p = concat (map (\<lambda>(k, v). k @ '':'' @ (case v of JStr s \<Rightarrow> s | JInt i \<Rightarrow> int_str i | _ \<Rightarrow> ''-'') @ '','') p)"

definition route_demo_env :: "in_memory_provider route_env" where
  "route_demo_env = \<lparr>en_crypto = demo_crypto, en_settings = demo_settings, en_mutation_capacity = 10, en_mutation_refill = 1,
     en_ops = im_ops, en_halted = True, en_limits = None, en_coercion = sample_coercion, en_hash_payload = payload_text,
     en_utc_offset = 0\<rparr>"

text \<open>User 2 of the identity samples, with the session of its login.\<close>

definition route_demo_request :: "datetime \<Rightarrow> uuid \<Rightarrow> http_request" where
  "route_demo_request t i = \<lparr>hq_authorization = bearer (demo_token 2 role_user 6 False), hq_idempotency_key = Some ''k'',
     hq_auth_now = 0, hq_bucket_now = t, hq_now = t, hq_session_now = 0, hq_tx_now = t, hq_record_id = i, hq_intent_id = i,
     hq_trigger_id = i, hq_notification_id = i, hq_slice_id = (\<lambda>n. n)\<rparr>"

definition route_demo_state :: "core_db \<Rightarrow> in_memory_provider http_state" where
  "route_demo_state core = \<lparr>hs_ident = aw_ident demo4, hs_app = \<lparr>ap_core = core, ap_intents = [], ap_slices = []\<rparr>,
     hs_provider = im_init, hs_sent = [], hs_keys = []\<rparr>"

definition route_demo_body :: payload where
  "route_demo_body = [(''symbol'', JStr ''2330''), (''quantityLots'', JInt 2), (''strategy'', JStr ''market_buy_order'')]"

abbreviation route_demo_user :: request_user where
  "route_demo_user \<equiv> \<lparr>ru_user_id = 2, ru_role = role_user, ru_session_id = 6, ru_mfa_verified = False\<rparr>"

abbreviation route_demo_create :: mutation where
  "route_demo_create \<equiv> PostCreate create_market_order route_demo_body"

definition route_demo_after :: "in_memory_provider http_state" where
  "route_demo_after = snd (mutation_route route_demo_env route_demo_create (route_demo_request 0 1)
     (route_demo_state (empty_db [2] [sample_symbol])))"

lemma route_demo_gate:
  "fst (mutation_gate route_demo_env (route_demo_request 0 1) (route_demo_state (empty_db [2] [sample_symbol]))) = Inr (route_demo_user, ''k'')"
  by code_simp

lemma route_demo_created:
  "(case fst (mutation_route route_demo_env route_demo_create (route_demo_request 0 1) (route_demo_state (empty_db [2] [sample_symbol]))) of
      Inl _ \<Rightarrow> False | Inr _ \<Rightarrow> True) \<and>
   fst (mutation_gate route_demo_env (route_demo_request 5 2) route_demo_after) = Inr (route_demo_user, ''k'') \<and>
   request_user_of route_demo_env (route_demo_request 5 2) route_demo_after = Inr route_demo_user \<and>
   (case fst (get_intent route_demo_env (route_demo_request 5 2) 1 route_demo_after) of Inl _ \<Rightarrow> False | Inr _ \<Rightarrow> True)"
  by code_simp


lemma route_demo_reader: "request_user_of route_demo_env (route_demo_request 0 1) (route_demo_state core) = Inr route_demo_user"
proof -
  have "active_user demo_crypto demo_settings 0 (bearer (demo_token 2 role_user 6 False)) (aw_ident demo4) = Inr route_demo_user" by code_simp
  then show ?thesis by (simp add: request_user_of_def route_demo_env_def route_demo_request_def route_demo_state_def)
qed

text \<open>A market order of user 7, which user 2 tries to cancel.\<close>

definition other_db :: core_db where
  "other_db = sample_db\<lparr>db_core := [sample_row\<lparr>c_strategy := market_buy_order, c_dedup_key := ''''\<rparr>], db_price := []\<rparr>"

lemma other_db_eval [code]:
  "other_db = \<lparr>db_users = [7], db_symbols = [sample_symbol], db_core = [sample_row\<lparr>c_strategy := market_buy_order, c_dedup_key := ''''\<rparr>],
     db_price = [], db_trailing = [], db_twap = [], db_triggers = [], db_notifications = []\<rparr>"
  by (simp add: other_db_def sample_db_def)

lemma other_db_inv: "core_inv other_db"
  by (simp add: core_inv_def other_db_eval symbols_ok_def sample_symbol_def security_type_of_def unique_on_def
      core_row_ok_def sample_row_def core_checks_def known_strategy_def price_strategy_def)

theorem requests_respect_owner_witness:
  "\<exists>s'. mutation_route route_demo_env (PostCancel 1) (route_demo_request 0 1) (route_demo_state other_db) =
       (Inl (ExIntent (IntentNotFoundError 1)), s') \<and>
     owned 7 (hs_app s') \<in> {owned 7 (hs_app (route_demo_state other_db)), owned 7 (swept 0 (hs_app (route_demo_state other_db)))}"
proof -
  obtain res s' where run: "mutation_route route_demo_env (PostCancel 1) (route_demo_request 0 1) (route_demo_state other_db) = (res, s')" by fastforce
  have inv: "core_inv (ap_core (hs_app (route_demo_state other_db)))" using other_db_inv by (simp add: route_demo_state_def)
  have "fst (mutation_route route_demo_env (PostCancel 1) (route_demo_request 0 1) (route_demo_state other_db)) =
      Inl (ExIntent (IntentNotFoundError 1))" by code_simp
  moreover have "hq_session_now (route_demo_request 0 1) = 0" by (simp add: route_demo_request_def)
  moreover have "ru_user_id user \<noteq> 7" if "request_user_of route_demo_env (route_demo_request 0 1) (route_demo_state other_db) = Inr user" for user
    using that route_demo_reader [of other_db] by auto
  note requests_respect_owner [OF inv run this]
  ultimately show ?thesis using run by auto
qed

theorem typed_endpoint_agrees_witness:
  "\<exists>r. read_request create_market_order sample_coercion route_demo_body = Inr r \<and>
     fst (create_route route_demo_env create_market_order (route_demo_request 0 1) route_demo_body (route_demo_state fresh_db)) =
     fst (create_route route_demo_env create_intent (route_demo_request 0 1) route_demo_body (route_demo_state fresh_db))"
proof -
  have "read_request create_market_order sample_coercion route_demo_body =
      Inr (MarketOrderCreateRequest ''2330'' 2 market_buy_order partial_fill_allowed ''single'')" by code_simp
  then show ?thesis
    using typed_endpoint_agrees [of create_market_order route_demo_env route_demo_body _ "route_demo_request 0 1" "route_demo_state fresh_db"]
    by (auto simp: route_demo_env_def)
qed

theorem reads_own_only_witness:
  "case get_intent route_demo_env (route_demo_request 5 2) 1 route_demo_after of
      (Inr (IntentDetailResponse d), s') \<Rightarrow> ir_id d = 1 \<and> shown 2 (ap_core (hs_app s')) d
    | _ \<Rightarrow> False"
proof -
  have u: "request_user_of route_demo_env (route_demo_request 5 2) route_demo_after = Inr route_demo_user"
    and ok: "case fst (get_intent route_demo_env (route_demo_request 5 2) 1 route_demo_after) of Inl _ \<Rightarrow> False | Inr _ \<Rightarrow> True"
    using route_demo_created by simp_all
  from conjunct1 [OF reads_own_only [OF u, of 1]] ok show ?thesis by (auto split: prod.splits sum.splits http_body.splits)
qed

section \<open>The start time of a confirmed TWAP order\<close>

text \<open>The preview shows the start the user asked for; the confirmation shows the time of day in the zone of the database
  session. The two agree exactly when that zone has Taipei's offset.\<close>

theorem confirm_start_time_zone:
  assumes "build_twap_plan side lots interval start_time end_time now = Inr plan"
    and "map_twap_summary off (legacy_to_domain (new_twap_row tx i owner symbol plan em tif st rt) sec) = Inr (Some sm)"
  shows "sm_start_time sm = pd_start_time (map_twap_plan symbol plan) \<longleftrightarrow> (off - TAIPEI_OFFSET) mod usec_per_day = 0"
proof -
  have sm: "sm_start_time sm = (tp_start_at plan + off) mod usec_per_day"
    using assms(2) by (auto simp: map_twap_summary_def legacy_to_domain_def new_twap_row_def wall_clock_def)
  have "tp_requested_start_time plan = taipei_time (tp_start_at plan)"
  proof (cases start_time)
    case None
    with assms(1) show ?thesis
      by (auto simp: build_twap_plan_def Let_def split: if_split_asm prod.split_asm)
  next
    case (Some t)
    with assms(1) have t: "SESSION_START_TIME \<le> t" "t \<le> TWAP_LATEST_START_TIME"
      by (auto simp: build_twap_plan_def split: if_split_asm)
    then have b: "0 \<le> t" "t < usec_per_day" by (simp_all add: SESSION_START_TIME_def TWAP_LATEST_START_TIME_def)
    from Some assms(1) obtain d where "tp_start_at plan = combine d t" "tp_requested_start_time plan = t"
      by (auto simp: build_twap_plan_def Let_def twap_start_def split: if_split_asm trading_day_phase.split_asm)
    then show ?thesis using taipei_combine(2) [OF b] by simp
  qed
  then have "sm_start_time sm = pd_start_time (map_twap_plan symbol plan) \<longleftrightarrow>
      (tp_start_at plan + off) mod usec_per_day = (tp_start_at plan + TAIPEI_OFFSET) mod usec_per_day"
    by (simp add: sm map_twap_plan_def taipei_time_def)
  also have "\<dots> \<longleftrightarrow> (off - TAIPEI_OFFSET) mod usec_per_day = 0"
    by (simp add: mod_eq_dvd_iff mod_eq_0_iff_dvd)
  finally show ?thesis .
qed

end
