(* ===== verification/Legacy_Trigger.thy ===== *)
theory Legacy_Trigger
  imports Twap_System Listing "HOL-Library.Char_ord" "HOL-Library.List_Lexorder"
begin

text \<open>
  \<open>commands/trigger_intent.py\<close>, \<open>services/quote_dispatcher.py\<close>, the endpoint \<open>/dev/evaluate-quotes\<close> of
  \<open>api/routes/dev.py\<close>, and the evaluator's queries of \<open>repositories/intent_repository.py\<close>: a quote drives the
  active intents of the old track. The old track's trigger table is \<open>trigger_events\<close>; its rows have the
  columns of the new track's. A session of the application does not autoflush, and the row \<open>stage\<close> selects
  is read afresh, since the session holds no reference to the rows it listed.
\<close>

section \<open>Constraints of \<open>trade_intents\<close>\<close>

record legacy_db =
  ld_app :: app_db
  ld_trigger_events :: "trigger_row list"

text \<open>
  A \<open>CHECK\<close> fails when its condition is false, not when it is unknown: a missing price of an alert, or a
  missing mode of a trail, passes.
\<close>

definition target_price_presence :: "legacy_row \<Rightarrow> bool" where
  "target_price_presence r =
     (if lg_strategy r = trailing_stop_alert \<or> lg_strategy r \<in> MARKET_ORDER_STRATEGIES \<or> lg_strategy r = twap_order
      then lg_target_price_original r = None \<and> lg_target_price_effective r = None
      else \<not> nonpositive (lg_target_price_original r) \<and> \<not> nonpositive (lg_target_price_effective r))"

definition trailing_fields_presence :: "legacy_row \<Rightarrow> bool" where
  "trailing_fields_presence r =
     (if lg_strategy r = trailing_stop_alert
      then (case lg_trail_mode r of Some (other_mode _) \<Rightarrow> False | _ \<Rightarrow> True) \<and> lg_trail_value r \<noteq> None
      else lg_trail_mode r = None \<and> lg_trail_value r = None \<and> lg_baseline r = None \<and>
           lg_dynamic_trigger_price r = None \<and> lg_baseline_updated_at r = None)"

definition trail_value_range :: "legacy_row \<Rightarrow> bool" where
  "trail_value_range r = (case lg_trail_value r of
      None \<Rightarrow> True
    | Some v \<Rightarrow> dec_less dec_zero v \<and>
        (case lg_trail_mode r of
           Some percentage \<Rightarrow> dec_le v (Dec False 10 0) | Some (other_mode _) \<Rightarrow> False | _ \<Rightarrow> True))"

definition twap_fields_presence :: "legacy_row \<Rightarrow> bool" where
  "twap_fields_presence r =
     (if lg_strategy r = twap_order
      then lg_twap_interval_seconds r \<noteq> None \<and> lg_twap_end_time r \<noteq> None \<and> lg_twap_start_at r \<noteq> None \<and>
           lg_twap_end_at r \<noteq> None \<and> lg_twap_available_slice_count r \<noteq> None \<and>
           lg_twap_materialized_slice_count r \<noteq> None
      else lg_position_side r = None \<and> lg_twap_interval_seconds r = None \<and> lg_twap_end_time r = None \<and>
           lg_twap_start_at r = None \<and> lg_twap_end_at r = None \<and> lg_twap_available_slice_count r = None \<and>
           lg_twap_materialized_slice_count r = None)"

definition order_checks :: "legacy_row \<Rightarrow> db_constraint option" where
  "order_checks r =
     (if \<not> known_strategy (lg_strategy r) then Some (check_violation ''strategy'')
      else if \<not> target_price_presence r then Some (check_violation ''target_price_presence'')
      else if lg_notification_mode r \<noteq> ''single'' then Some (check_violation ''notification_mode'')
      else if lg_filled_quantity_lots r < 0 then Some (check_violation ''filled_quantity_lots'')
      else if \<not> trailing_fields_presence r then Some (check_violation ''trailing_fields_presence'')
      else if \<not> trail_value_range r then Some (check_violation ''trail_value_range'')
      else if nonpositive (lg_baseline r) then Some (check_violation ''baseline_positive'')
      else if nonpositive (lg_dynamic_trigger_price r) then Some (check_violation ''dynamic_trigger_price'')
      else if \<not> twap_fields_presence r then Some (check_violation ''twap_fields_presence'')
      else None)"

section \<open>The evaluator's queries\<close>

definition legacy_active_symbols :: "app_db \<Rightarrow> string list" where
  "legacy_active_symbols db = remdups (map lg_symbol (filter (\<lambda>r. lg_status r = active) (ap_intents db)))"

definition legacy_active_by_symbols :: "string list \<Rightarrow> app_db \<Rightarrow> exn + trade_intent_data list" where
  "legacy_active_by_symbols symbols db =
     (if symbols = [] then Inr []
      else map_r legacy_domain_of
        (legacy_with_symbol_type (\<lambda>r. lg_status r = active \<and> lg_symbol r \<in> set symbols) db))"

definition set_legacy_baseline ::
  "decimal option \<Rightarrow> decimal option \<Rightarrow> datetime option \<Rightarrow> legacy_row \<Rightarrow> legacy_row" where
  "set_legacy_baseline baseline dyn upd r =
     r\<lparr>lg_baseline := baseline, lg_dynamic_trigger_price := dyn,
       lg_baseline_updated_at := (case upd of None \<Rightarrow> lg_baseline_updated_at r | Some t \<Rightarrow> Some t)\<rparr>"

text \<open>The \<open>UPDATE\<close>, with the column's range and the constraints on the rows it changes.\<close>

definition write_baseline ::
  "uuid \<Rightarrow> decimal option \<Rightarrow> decimal option \<Rightarrow> datetime option \<Rightarrow> (legacy_row \<Rightarrow> legacy_row) \<Rightarrow> app_db \<Rightarrow> exn + app_db" where
  "write_baseline intent_id baseline dyn upd touch db =
     r_bind (numeric94_opt baseline) (\<lambda>b. r_bind (numeric94_opt dyn) (\<lambda>d.
       let hit = (\<lambda>r. lg_id r = intent_id);
           f = (\<lambda>r. touch (set_legacy_baseline b d upd r))
       in case List.map_filter order_checks (map f (filter hit (ap_intents db))) of
            k # _ \<Rightarrow> Inl (ExIntegrity k)
          | [] \<Rightarrow> Inr (db\<lparr>ap_intents := upd_where hit f (ap_intents db)\<rparr>)))"

definition legacy_update_trailing_baseline ::
  "datetime \<Rightarrow> uuid \<Rightarrow> decimal option \<Rightarrow> decimal option \<Rightarrow> datetime option \<Rightarrow> app_db \<Rightarrow> exn + app_db" where
  "legacy_update_trailing_baseline tx_now intent_id baseline dyn upd db =
     write_baseline intent_id baseline dyn upd (\<lambda>r. r\<lparr>lg_updated_at := tx_now\<rparr>) db"

section \<open>Writing a trigger\<close>

record trigger_intent_input =
  tii_intent_id :: uuid
  tii_trigger_price :: decimal
  tii_trigger_reference_price_type :: reference_price_type
  tii_fallback_used :: bool
  tii_quote_snapshot :: quote_json
  tii_quote_time :: datetime

definition legacy_trigger_content ::
  "legacy_row \<Rightarrow> trigger_intent_input \<Rightarrow>
   exn + notification_type \<times> decimal \<times> decimal option \<times> decimal option \<times> rendered" where
  "legacy_trigger_content intent inp =
     (if lg_strategy intent \<in> {market_order, market_buy_order, market_sell_order}
      then r_bind (render_market_order_triggered (lg_symbol intent) (lg_strategy intent) (tii_trigger_price inp)
             (lg_quantity_lots intent) (lg_quantity_lots intent) (tii_quote_time inp)) (\<lambda>m.
           Inr (market_order_triggered, tii_trigger_price inp, None, None, m))
      else if lg_strategy intent \<in> {limit_buy_order, limit_sell_order}
      then (case lg_target_price_effective intent of
              None \<Rightarrow> Inl ExRuntime
            | Some target \<Rightarrow>
                r_bind (render_limit_order_triggered (lg_symbol intent) (lg_strategy intent) target
                  (tii_trigger_price inp) (lg_quantity_lots intent) (lg_quantity_lots intent)
                  (tii_quote_time inp)) (\<lambda>m. Inr (limit_order_triggered, target, None, None, m)))
      else if lg_strategy intent = trailing_stop_alert
      then (case (lg_baseline intent, lg_dynamic_trigger_price intent) of
              (Some b, Some d) \<Rightarrow>
                (case (lg_trail_mode intent, lg_trail_value intent) of
                   (Some mode, Some v) \<Rightarrow>
                     r_bind (render_trailing_stop_triggered (lg_symbol intent) mode v b d (tii_trigger_price inp)
                       (tii_trigger_reference_price_type inp) (tii_quote_time inp)) (\<lambda>m.
                       Inr (trailing_stop_triggered, d, Some b, Some d, m))
                 | _ \<Rightarrow> Inl ExValue)
            | _ \<Rightarrow> Inl ExRuntime)
      else (case lg_target_price_effective intent of
              None \<Rightarrow> Inl ExRuntime
            | Some target \<Rightarrow>
                r_bind (render_price_triggered (lg_symbol intent) (lg_strategy intent) target
                  (tii_trigger_price inp) (tii_quote_time inp)) (\<lambda>m.
                  Inr (price_triggered, target, None, None, m))))"

definition insert_trigger_event :: "trigger_row \<Rightarrow> legacy_db \<Rightarrow> exn + trigger_row \<times> legacy_db" where
  "insert_trigger_event g db =
     r_bind (numeric94 (tg_target_price_effective g)) (\<lambda>te. r_bind (numeric94 (tg_trigger_price g)) (\<lambda>tp.
     r_bind (numeric94_opt (tg_baseline_at_trigger g)) (\<lambda>b.
     r_bind (numeric94_opt (tg_dynamic_trigger_price_at_trigger g)) (\<lambda>d.
       let g' = g\<lparr>tg_target_price_effective := te, tg_trigger_price := tp, tg_baseline_at_trigger := b,
                  tg_dynamic_trigger_price_at_trigger := d\<rparr>
       in case trigger_checks g' of
            Some k \<Rightarrow> Inl (ExIntegrity k)
          | None \<Rightarrow>
              if tg_id g \<in> tg_id ` set (ld_trigger_events db) then Inl (ExIntegrity pk_violation)
              else if tg_trade_intent_id g \<in> tg_trade_intent_id ` set (ld_trigger_events db)
              then Inl (ExIntegrity uq_trigger_intent)
              else if tg_trade_intent_id g \<notin> lg_id ` set (ap_intents (ld_app db)) \<or>
                      tg_owner_user_id g \<notin> set (db_users (ap_core (ld_app db))) \<or>
                      tg_symbol g \<notin> sy_symbol ` set (db_symbols (ap_core (ld_app db)))
              then Inl (ExIntegrity fk_violation)
              else Inr (g', db\<lparr>ld_trigger_events := ld_trigger_events db @ [g']\<rparr>)))))"

definition set_legacy_triggered :: "datetime \<Rightarrow> int \<Rightarrow> legacy_row \<Rightarrow> legacy_row" where
  "set_legacy_triggered tx_now filled r = r\<lparr>lg_status := triggered, lg_triggered_at := Some tx_now,
     lg_updated_at := tx_now, lg_filled_quantity_lots := filled, lg_last_fill_at := Some tx_now\<rparr>"

definition trigger_event_of ::
  "datetime \<Rightarrow> uuid \<Rightarrow> legacy_row \<Rightarrow> trigger_intent_input \<Rightarrow> decimal \<Rightarrow> decimal option \<Rightarrow> decimal option \<Rightarrow> trigger_row" where
  "trigger_event_of tx_now new_id intent inp target b d =
     \<lparr>tg_id = new_id, tg_trade_intent_id = lg_id intent, tg_owner_user_id = lg_owner_user_id intent,
      tg_symbol = lg_symbol intent, tg_quote_snapshot = tii_quote_snapshot inp,
      tg_target_price_effective = target, tg_trigger_price = tii_trigger_price inp,
      tg_trigger_reference_price_type = tii_trigger_reference_price_type inp,
      tg_fallback_used = tii_fallback_used inp, tg_filled_quantity_lots = lg_quantity_lots intent,
      tg_baseline_at_trigger = b, tg_dynamic_trigger_price_at_trigger = d, tg_triggered_at = tx_now,
      tg_created_at = tx_now\<rparr>"

definition trigger_notification ::
  "datetime \<Rightarrow> uuid \<Rightarrow> legacy_row \<Rightarrow> notification_type \<Rightarrow> rendered \<Rightarrow> notification_row" where
  "trigger_notification tx_now new_id intent ntype m =
     \<lparr>n_id = new_id, n_owner_user_id = lg_owner_user_id intent, n_trade_intent_id = Some (lg_id intent),
      n_trade_intent_core_id = None, n_type = ntype, n_rendered_title = fst m, n_rendered_body = snd m,
      n_read_at = None, n_created_at = tx_now, n_updated_at = tx_now\<rparr>"

text \<open>
  \<open>persist_trigger\<close>: the guarded \<open>UPDATE\<close>, then the flush of both rows together with whatever else the
  caller has left unflushed on the session (\<open>pending\<close>). The notification goes to Telegram last.
\<close>

definition persist_trigger ::
  "datetime \<Rightarrow> uuid \<Rightarrow> uuid \<Rightarrow> (app_db \<Rightarrow> exn + app_db) \<Rightarrow> legacy_row \<Rightarrow> trigger_intent_input \<Rightarrow> legacy_db \<Rightarrow>
   exn + trigger_row \<times> notification_row \<times> legacy_db" where
  "persist_trigger tx_now trigger_id notification_id pending intent inp db =
     r_bind (legacy_trigger_content intent inp) (\<lambda>(ntype, target, b, d, m).
       let hit = (\<lambda>r. lg_id r = lg_id intent \<and> lg_status r = active);
           n = trigger_notification tx_now notification_id intent ntype m
       in if count_where hit (ap_intents (ld_app db)) = 0
          then Inl (ExTrigger (IntentNotActiveError (lg_id intent) None))
          else r_bind (pending ((ld_app db)\<lparr>ap_intents :=
                 upd_where hit (set_legacy_triggered tx_now (lg_quantity_lots intent)) (ap_intents (ld_app db))\<rparr>)) (\<lambda>app1.
               r_bind (insert_trigger_event (trigger_event_of tx_now trigger_id intent inp target b d) (db\<lparr>ld_app := app1\<rparr>))
                 (\<lambda>(g, db1).
               r_bind (legacy_notify n (ld_app db1)) (\<lambda>app2. Inr (g, n, db1\<lparr>ld_app := app2\<rparr>)))))"

text \<open>\<open>except IntegrityError\<close> in \<open>stage\<close>: any violation is reported as a duplicate trigger.\<close>

definition any_integrity_duplicate :: "uuid \<Rightarrow> exn \<Rightarrow> exn" where
  "any_integrity_duplicate i e = (case e of ExIntegrity _ \<Rightarrow> ExTrigger (DuplicateTriggerError i) | _ \<Rightarrow> e)"

definition stage ::
  "datetime \<Rightarrow> uuid \<Rightarrow> uuid \<Rightarrow> trigger_intent_input \<Rightarrow> legacy_db \<Rightarrow> exn + trigger_row \<times> notification_row \<times> legacy_db" where
  "stage tx_now trigger_id notification_id inp db =
     r_bind (one_or_none (filter (\<lambda>r. lg_id r = tii_intent_id inp) (ap_intents (ld_app db)))) (\<lambda>intent.
       case intent of
         None \<Rightarrow> Inl (ExIntent (IntentNotFoundError (tii_intent_id inp)))
       | Some r \<Rightarrow>
           if lg_status r \<noteq> active then Inl (ExTrigger (IntentNotActiveError (tii_intent_id inp) (Some (lg_status r))))
           else catch (persist_trigger tx_now trigger_id notification_id Inr r inp db)
                  (any_integrity_duplicate (tii_intent_id inp)))"

definition trigger_notification_data :: "notification_row \<Rightarrow> notification_data" where
  "trigger_notification_data r = \<lparr>nd_id = n_id r, nd_owner_user_id = n_owner_user_id r,
     nd_trade_intent_id = n_trade_intent_id r, nd_type = n_type r, nd_rendered_title = n_rendered_title r,
     nd_rendered_body = n_rendered_body r, nd_read_at = n_read_at r, nd_created_at = n_created_at r,
     nd_updated_at = n_updated_at r\<rparr>"

text \<open>
  \<open>TriggerIntentCommand.execute\<close>: the transaction commits or is left to be rolled back; in both cases the
  committed tables are those of the second component. The sent notification is the third.
\<close>

definition trigger_execute ::
  "datetime \<Rightarrow> uuid \<Rightarrow> uuid \<Rightarrow> trigger_intent_input \<Rightarrow> legacy_db \<Rightarrow>
   (exn + trigger_row \<times> notification_data) \<times> legacy_db \<times> notification_row list" where
  "trigger_execute tx_now trigger_id notification_id inp db =
     (case stage tx_now trigger_id notification_id inp db of
        Inl e \<Rightarrow> (Inl e, db, [])
      | Inr (g, n, db') \<Rightarrow> (Inr (g, trigger_notification_data n), db', [n]))"

section \<open>The dispatcher\<close>

definition trigger_input_of :: "quote_snapshot \<Rightarrow> uuid \<Rightarrow> decimal \<Rightarrow> reference_price_type \<Rightarrow> bool \<Rightarrow> trigger_intent_input" where
  "trigger_input_of q i price ref_type fallback =
     \<lparr>tii_intent_id = i, tii_trigger_price = price, tii_trigger_reference_price_type = ref_type,
      tii_fallback_used = fallback, tii_quote_snapshot = quote_snapshot_to_jsonb q, tii_quote_time = q_quote_time q\<rparr>"

text \<open>
  One turn of the loop, the same in the dispatcher and in the endpoint: the baseline, then the trigger
  inside a savepoint, whose three expected errors are skipped.
\<close>

definition legacy_dispatch_one ::
  "datetime \<Rightarrow> (uuid \<Rightarrow> uuid \<times> uuid) \<Rightarrow> quote_snapshot \<Rightarrow> datetime \<Rightarrow> trade_intent_data \<Rightarrow> legacy_db \<Rightarrow>
   exn + legacy_db \<times> bool \<times> notification_row list" where
  "legacy_dispatch_one tx_now ids q now intent db =
     r_bind (evaluate q intent now) (\<lambda>result.
     r_bind (if er_baseline_updated_at result \<noteq> None
             then r_bind (legacy_update_trailing_baseline tx_now (ti_id intent) (er_baseline result)
                    (er_dynamic_trigger_price result) (er_baseline_updated_at result) (ld_app db)) (\<lambda>app1.
                    Inr (db\<lparr>ld_app := app1\<rparr>, True))
             else Inr (db, False)) (\<lambda>(db1, pending).
     if \<not> er_should_trigger result then Inr (db1, pending, [])
     else case (er_trigger_price result, er_trigger_reference_price_type result) of
       (Some p, Some t) \<Rightarrow>
         (case stage tx_now (fst (ids (ti_id intent))) (snd (ids (ti_id intent)))
                 (trigger_input_of q (ti_id intent) p t (er_fallback_used result)) db1 of
            Inr (g, n, db2) \<Rightarrow> Inr (db2, True, [n])
          | Inl (ExTrigger _) \<Rightarrow> Inr (db1, pending, [])
          | Inl (ExIntent (IntentNotFoundError _)) \<Rightarrow> Inr (db1, pending, [])
          | Inl e \<Rightarrow> Inl e)
     | _ \<Rightarrow> Inl ExRuntime))"

fun legacy_dispatch_loop ::
  "datetime \<Rightarrow> (uuid \<Rightarrow> uuid \<times> uuid) \<Rightarrow> (string \<Rightarrow> quote_snapshot option) \<Rightarrow> datetime \<Rightarrow> trade_intent_data list \<Rightarrow>
   legacy_db \<Rightarrow> bool \<Rightarrow> notification_row list \<Rightarrow> (exn + legacy_db \<times> bool) \<times> notification_row list" where
  "legacy_dispatch_loop tx_now ids quote_of now [] db pending sent = (Inr (db, pending), sent)"
| "legacy_dispatch_loop tx_now ids quote_of now (intent # rest) db pending sent =
     (case quote_of (ti_symbol intent) of
        None \<Rightarrow> legacy_dispatch_loop tx_now ids quote_of now rest db pending sent
      | Some q \<Rightarrow>
          (case legacy_dispatch_one tx_now ids q now intent db of
             Inl e \<Rightarrow> (Inl e, sent)
           | Inr (db', p, ns) \<Rightarrow> legacy_dispatch_loop tx_now ids quote_of now rest db' (pending \<or> p) (sent @ ns)))"

text \<open>\<open>_dispatch_inner\<close>: the life cycle commits on its own; the batch commits when it wrote something.\<close>

definition legacy_dispatch_inner ::
  "bool \<Rightarrow> datetime \<Rightarrow> (uuid \<Rightarrow> uuid \<times> uuid) \<Rightarrow> quote_snapshot \<Rightarrow> datetime \<Rightarrow> legacy_db \<Rightarrow>
   (exn + unit) \<times> legacy_db \<times> notification_row list" where
  "legacy_dispatch_inner halted tx_now ids snapshot now db =
     (if halted then (Inr (), db, [])
      else
        let s = snd (legacy_lifecycle now (ss_open (ld_app db)));
            saved = db\<lparr>ld_app := ss_committed s\<rparr>
        in case legacy_active_by_symbols [q_symbol snapshot] (ss_working s) of
             Inl e \<Rightarrow> (Inl e, saved, [])
           | Inr intents \<Rightarrow>
               if intents = [] then (Inr (), saved, [])
               else (case legacy_dispatch_loop tx_now ids (\<lambda>_. Some snapshot) now intents (db\<lparr>ld_app := ss_working s\<rparr>) False [] of
                       (Inl e, sent) \<Rightarrow> (Inl e, saved, sent)
                     | (Inr (db', pending), sent) \<Rightarrow> (Inr (), if pending then db' else saved, sent)))"

definition legacy_dispatch ::
  "bool \<Rightarrow> datetime \<Rightarrow> (uuid \<Rightarrow> uuid \<times> uuid) \<Rightarrow> quote_snapshot \<Rightarrow> datetime \<Rightarrow> legacy_db \<Rightarrow> legacy_db \<times> notification_row list" where
  "legacy_dispatch halted tx_now ids snapshot now db = snd (legacy_dispatch_inner halted tx_now ids snapshot now db)"

section \<open>The evaluation endpoint\<close>

text \<open>
  \<open>POST /dev/evaluate-quotes\<close>. Its life cycle command is wired to the new track's repository
  (\<open>get_intent_lifecycle_command\<close> in \<open>api/deps.py\<close>); the intents it evaluates are the old track's.
  Only an unavailable quote is skipped, any other error of the provider ends the request.
\<close>

record evaluate_quotes_data =
  eq_evaluated_symbols :: "string list"
  eq_triggered_intent_ids :: "uuid list"

definition requested_symbols :: "string list option \<Rightarrow> app_db \<Rightarrow> string list" where
  "requested_symbols symbols db = (case symbols of
      Some (x # xs) \<Rightarrow> sort (remdups (x # xs)) | _ \<Rightarrow> sort (legacy_active_symbols db))"

fun collect_quotes ::
  "'p quote_ops \<Rightarrow> 'p \<Rightarrow> string list \<Rightarrow> (string \<Rightarrow> quote_snapshot option) \<Rightarrow> exn + (string \<Rightarrow> quote_snapshot option)" where
  "collect_quotes ops p [] m = Inr m"
| "collect_quotes ops p (s # ss) m = (case qo_get_quotes ops [s] p of
      Inr qs \<Rightarrow> collect_quotes ops p ss (foldl (\<lambda>m q. m(q_symbol q \<mapsto> q)) m qs)
    | Inl (QuoteUnavailableError _) \<Rightarrow> collect_quotes ops p ss m
    | Inl e \<Rightarrow> Inl (ExQuote e))"

definition evaluate_quotes ::
  "'p quote_ops \<Rightarrow> datetime \<Rightarrow> (uuid \<Rightarrow> uuid \<times> uuid) \<Rightarrow> string list option \<Rightarrow> datetime \<Rightarrow> 'p \<Rightarrow> legacy_db \<Rightarrow>
   (exn + evaluate_quotes_data) \<times> legacy_db \<times> notification_row list" where
  "evaluate_quotes ops tx_now ids symbols_in now p db =
     (let s = snd (core_lifecycle now (ss_open (ap_core (ld_app db))));
          saved = db\<lparr>ld_app := (ld_app db)\<lparr>ap_core := ss_committed s\<rparr>\<rparr>;
          working = db\<lparr>ld_app := (ld_app db)\<lparr>ap_core := ss_working s\<rparr>\<rparr>;
          symbols = requested_symbols symbols_in (ld_app working)
      in case r_bind (collect_quotes ops p symbols (\<lambda>_. None)) (\<lambda>quotes.
                r_bind (legacy_active_by_symbols symbols (ld_app working)) (\<lambda>intents. Inr (quotes, intents))) of
           Inl e \<Rightarrow> (Inl e, saved, [])
         | Inr (quotes, intents) \<Rightarrow>
             (case legacy_dispatch_loop tx_now ids quotes now intents working False [] of
                (Inl e, sent) \<Rightarrow> (Inl e, saved, sent)
              | (Inr (db', pending), sent) \<Rightarrow>
                  (Inr \<lparr>eq_evaluated_symbols = symbols,
                        eq_triggered_intent_ids = List.map_filter n_trade_intent_id sent\<rparr>,
                   if pending then db' else saved, sent)))"

text \<open>The two worker endpoints beside it run one pass with the default limit.\<close>

definition process_twap_due_slices ::
  "'p quote_ops \<Rightarrow> bool \<Rightarrow> (uuid \<Rightarrow> uuid) \<Rightarrow> datetime \<Rightarrow> datetime \<Rightarrow> 'p \<Rightarrow> app_db \<Rightarrow> (exn + nat) \<times> app_db \<times> notification_row list" where
  "process_twap_due_slices ops halted note_id tx_now now p db = process_due_slices ops halted note_id tx_now now 100 p db"

definition process_twap_price_followups ::
  "'p quote_ops \<Rightarrow> bool \<Rightarrow> (uuid \<Rightarrow> uuid) \<Rightarrow> datetime \<Rightarrow> datetime \<Rightarrow> 'p \<Rightarrow> app_db \<Rightarrow> (exn + nat) \<times> app_db \<times> notification_row list" where
  "process_twap_price_followups ops halted note_id tx_now now p db =
     process_price_followups ops halted note_id tx_now now 100 p db"

section \<open>The listeners of a quote\<close>

text \<open>
  \<open>lifespan\<close> of \<open>main.py\<close> registers the old track's dispatcher, then the new track's; a quote runs them in
  that order, each on its own session, each reading the kill switch for itself.
\<close>

definition quote_listeners ::
  "bool \<Rightarrow> bool \<Rightarrow> datetime \<Rightarrow> datetime \<Rightarrow> (uuid \<Rightarrow> uuid \<times> uuid) \<Rightarrow> (uuid \<Rightarrow> uuid \<times> uuid) \<Rightarrow> quote_snapshot \<Rightarrow>
   datetime \<Rightarrow> datetime \<Rightarrow> legacy_db \<Rightarrow> legacy_db \<times> notification_row list" where
  "quote_listeners halted halted' tx_now tx_now' ids ids' snapshot now now' db =
     (case legacy_dispatch halted tx_now ids snapshot now db of (db1, sent1) \<Rightarrow>
        (case dispatch halted' tx_now' ids' snapshot now' (ap_core (ld_app db1)) of (c, sent2) \<Rightarrow>
           (db1\<lparr>ld_app := (ld_app db1)\<lparr>ap_core := c\<rparr>\<rparr>, sent1 @ sent2)))"

section \<open>Agreement with the new track\<close>

definition core_input :: "trigger_intent_input \<Rightarrow> trigger_core_input" where
  "core_input inp = \<lparr>tci_trigger_price = tii_trigger_price inp,
     tci_trigger_reference_price_type = tii_trigger_reference_price_type inp, tci_fallback_used = tii_fallback_used inp,
     tci_quote_snapshot = tii_quote_snapshot inp, tci_quote_time = tii_quote_time inp\<rparr>"

lemma core_input_simps:
  "tci_trigger_price (core_input inp) = tii_trigger_price inp" "tci_fallback_used (core_input inp) = tii_fallback_used inp"
  "tci_trigger_reference_price_type (core_input inp) = tii_trigger_reference_price_type inp"
  "tci_quote_snapshot (core_input inp) = tii_quote_snapshot inp" "tci_quote_time (core_input inp) = tii_quote_time inp"
  by (simp_all add: core_input_def)

lemma legacy_view_simps:
  "ti_id (legacy_to_domain r st) = lg_id r" "ti_owner_user_id (legacy_to_domain r st) = lg_owner_user_id r"
  "ti_symbol (legacy_to_domain r st) = lg_symbol r" "ti_strategy (legacy_to_domain r st) = lg_strategy r"
  "ti_quantity_lots (legacy_to_domain r st) = lg_quantity_lots r" "ti_status (legacy_to_domain r st) = lg_status r"
  "ti_target_price_effective (legacy_to_domain r st) = lg_target_price_effective r"
  "ti_trail_mode (legacy_to_domain r st) = lg_trail_mode r" "ti_trail_value (legacy_to_domain r st) = lg_trail_value r"
  "ti_baseline (legacy_to_domain r st) = lg_baseline r"
  "ti_dynamic_trigger_price (legacy_to_domain r st) = lg_dynamic_trigger_price r"
  by (simp_all add: legacy_to_domain_def)

lemma content_agrees: "legacy_trigger_content r inp = trigger_content (legacy_to_domain r st) (core_input inp)"
  unfolding legacy_trigger_content_def trigger_content_def legacy_view_simps core_input_simps MARKET_ORDER_STRATEGIES_def ..

lemma insert_trigger_event_Inr:
  assumes "insert_trigger_event g db = Inr (g', db')"
  shows "db' = db\<lparr>ld_trigger_events := ld_trigger_events db @ [g']\<rparr>" "tg_trade_intent_id g' = tg_trade_intent_id g"
    "tg_trade_intent_id g \<notin> tg_trade_intent_id ` set (ld_trigger_events db)"
  using assms unfolding insert_trigger_event_def Let_def
  by (auto simp: r_bind_Inr_iff split: option.splits if_splits)

section \<open>TWAP orders are not evaluated\<close>

definition only_twap :: "app_db \<Rightarrow> bool" where
  "only_twap db \<longleftrightarrow> (\<forall>r \<in> set (ap_intents db). lg_strategy r = twap_order)"

lemma evaluate_twap: "ti_strategy i = twap_order \<Longrightarrow> \<exists>r. evaluate q i now = Inr (result_skip r)"
  by (cases "quote_usable q now") (auto simp: evaluate_usable evaluate_strategy_def dest: evaluate_not_usable)

lemma dispatch_one_twap:
  assumes "ti_strategy i = twap_order"
  shows "legacy_dispatch_one t ids q now i db = Inr (db, False, [])"
  using evaluate_twap [OF assms, of q now] by (auto simp: legacy_dispatch_one_def)

lemma dispatch_loop_twap:
  "(\<And>i. i \<in> set intents \<Longrightarrow> ti_strategy i = twap_order) \<Longrightarrow>
   legacy_dispatch_loop t ids qs now intents db pending sent = (Inr (db, pending), sent)"
  by (induction intents arbitrary: pending) (auto simp: dispatch_one_twap split: option.split)

lemma active_by_symbols_twap:
  assumes "only_twap db" and "legacy_active_by_symbols ss db = Inr intents" and "i \<in> set intents"
  shows "ti_strategy i = twap_order"
proof -
  have "map_r legacy_domain_of (legacy_with_symbol_type (\<lambda>r. lg_status r = active \<and> lg_symbol r \<in> set ss) db) = Inr intents"
    using assms(2,3) by (auto simp: legacy_active_by_symbols_def split: if_split_asm)
  from map_r_mem [OF this assms(3)] show ?thesis
    using assms(1) by (auto simp: legacy_with_symbol_type_def only_twap_def legacy_domain_of_def legacy_to_domain_def split: option.splits)
qed

lemma only_twap_upd: "only_twap db \<Longrightarrow> (\<And>r. lg_strategy (f r) = lg_strategy r) \<Longrightarrow> only_twap (db\<lparr>ap_intents := upd_where p f (ap_intents db)\<rparr>)"
  by (auto simp: only_twap_def upd_where_def)

lemma only_twap_prim:
  assumes "twap_prim db db'" and "only_twap db"
  shows "only_twap db'"
  using assms
proof cases
  case (tw_intents p f)
  then show ?thesis using assms(2) by (auto simp: only_twap_def upd_where_mem_iff keeps_intent_def) 
next
  case (tw_complete i f)
  then have "lg_strategy (f r) = lg_strategy r" for r by (auto simp: keeps_intent_def)
  then show ?thesis using tw_complete assms(2) by (simp add: upd_intent_def only_twap_upd)
next
  case (tw_announce s n db1 now v price)
  then show ?thesis using assms(2) by (auto simp: only_twap_def upd_slice_def legacy_notify_Inr_iff)
next
  case (tw_insert r)
  then show ?thesis using assms(2) by (auto simp: only_twap_def insert_legacy_def split: if_split_asm option.split_asm)
next
  case (tw_slice s r)
  then show ?thesis using assms(2) by (auto simp: only_twap_def insert_slice_def split: if_split_asm)
qed (auto simp: only_twap_def legacy_notify_Inr_iff)

lemma only_twap_steps: "twap_steps db db' \<Longrightarrow> only_twap db \<Longrightarrow> only_twap db'"
  by (induction rule: rtranclp_induct) (auto intro: only_twap_prim)

lemma legacy_dispatch_twap:
  assumes "only_twap (ld_app db)"
  shows "legacy_dispatch halted t ids q now db =
    (if halted then db else db\<lparr>ld_app := legacy_after now (ld_app db)\<rparr>, [])"
proof -
  let ?s = "snd (legacy_lifecycle now (ss_open (ld_app db)))"
  have "only_twap (ss_working ?s)"
    using only_twap_steps [OF legacy_after_steps assms] by (simp add: legacy_after_def)
  from active_by_symbols_twap [OF this] have *: "legacy_dispatch_loop t ids qs now intents d p sent = (Inr (d, p), sent)"
    if "legacy_active_by_symbols ss (ss_working ?s) = Inr intents" for qs intents d p sent ss
    using that by (intro dispatch_loop_twap) blast
  show ?thesis
    using * by (auto simp: legacy_dispatch_def legacy_dispatch_inner_def Let_def legacy_committed split: sum.split)
qed

lemma evaluate_quotes_twap:
  assumes "only_twap (ld_app db)"
  shows "snd (evaluate_quotes ops t ids ss now p db) =
    (db\<lparr>ld_app := (ld_app db)\<lparr>ap_core := ss_committed (snd (core_lifecycle now (ss_open (ap_core (ld_app db)))))\<rparr>\<rparr>, [])"
proof -
  have "only_twap ((ld_app db)\<lparr>ap_core := c\<rparr>)" for c using assms by (simp add: only_twap_def)
  note * = dispatch_loop_twap [OF active_by_symbols_twap [OF this]]
  show ?thesis
    by (auto simp: evaluate_quotes_def Let_def * r_bind_Inr_iff split: sum.split prod.split)
qed

end
