(* ===== verification/Legacy_Orders.thy ===== *)
theory Legacy_Orders
  imports Legacy_Trigger
begin

text \<open>
  \<open>commands/trade_intent.py\<close> and the rest of \<open>repositories/intent_repository.py\<close>: creating, listing and
  cancelling an intent of any strategy on the old track. The routes use the new track's commands; these
  stay beside them with the same checks in the same order. Differences the model keeps: a provider
  error other than an unavailable quote fails the create, a market order is triggered at the best price
  at hand without the evaluator, and the baseline of a trailing stop is set on the loaded row and
  written by the flush.
\<close>

section \<open>The repository\<close>

definition nullable_equals :: "decimal option \<Rightarrow> decimal option \<Rightarrow> bool" where
  "nullable_equals column v = (case v of
      None \<Rightarrow> column = None | Some x \<Rightarrow> (case column of None \<Rightarrow> False | Some c \<Rightarrow> dec_eq c x))"

definition new_order_row :: "datetime \<Rightarrow> uuid \<Rightarrow> create_args \<Rightarrow> legacy_row" where
  "new_order_row tx_now new_id a =
     \<lparr>lg_id = new_id, lg_owner_user_id = ca_owner_user_id a, lg_symbol = ca_symbol a, lg_strategy = ca_strategy a,
      lg_execution_mode = ca_execution_mode a, lg_quantity_lots = ca_quantity_lots a,
      lg_target_price_original = ca_target_price_original a, lg_target_price_effective = ca_target_price_effective a,
      lg_trigger_reference_price_type = ca_trigger_reference_price_type a, lg_trading_date = ca_trading_date a,
      lg_time_in_force = ca_time_in_force a, lg_status = ca_status a, lg_cancelled_at = None, lg_triggered_at = None,
      lg_transaction_mode = ca_transaction_mode a, lg_notification_mode = ca_notification_mode a,
      lg_filled_quantity_lots = 0, lg_last_fill_at = None, lg_trail_mode = ca_trail_mode a,
      lg_trail_value = ca_trail_value a, lg_baseline = ca_baseline a,
      lg_dynamic_trigger_price = ca_dynamic_trigger_price a, lg_baseline_updated_at = ca_baseline_updated_at a,
      lg_position_side = None, lg_twap_interval_seconds = None, lg_twap_end_time = None, lg_twap_start_at = None,
      lg_twap_end_at = None, lg_twap_available_slice_count = None, lg_twap_materialized_slice_count = None,
      lg_created_at = tx_now, lg_updated_at = tx_now\<rparr>"

text \<open>The flush: the numeric columns are rounded to their scale, then the constraints are checked.\<close>

definition insert_order :: "legacy_row \<Rightarrow> app_db \<Rightarrow> exn + app_db" where
  "insert_order r db =
     r_bind (numeric94_opt (lg_target_price_original r)) (\<lambda>po. r_bind (numeric94_opt (lg_target_price_effective r)) (\<lambda>pe.
     r_bind (numeric94_opt (lg_trail_value r)) (\<lambda>tv. r_bind (numeric94_opt (lg_baseline r)) (\<lambda>b.
     r_bind (numeric94_opt (lg_dynamic_trigger_price r)) (\<lambda>d.
       let r' = r\<lparr>lg_target_price_original := po, lg_target_price_effective := pe, lg_trail_value := tv,
                  lg_baseline := b, lg_dynamic_trigger_price := d\<rparr>
       in case order_checks r' of
            Some k \<Rightarrow> Inl (ExIntegrity k)
          | None \<Rightarrow> insert_legacy r' db)))))"

definition legacy_create :: "datetime \<Rightarrow> uuid \<Rightarrow> create_args \<Rightarrow> app_db \<Rightarrow> exn + uuid \<times> app_db" where
  "legacy_create tx_now new_id a db =
     (let dup_err = ExIntent (DuplicateIntentError (ca_owner_user_id a) (ca_symbol a) (ca_strategy a))
      in r_bind (one_or_none (filter (\<lambda>r. lg_owner_user_id r = ca_owner_user_id a \<and> lg_symbol r = ca_symbol a \<and>
             lg_strategy r = ca_strategy a \<and> nullable_equals (lg_target_price_effective r) (ca_target_price_effective a) \<and>
             lg_trail_mode r = ca_trail_mode a \<and> nullable_equals (lg_trail_value r) (ca_trail_value a) \<and>
             lg_quantity_lots r = ca_quantity_lots a \<and> lg_trading_date r = ca_trading_date a \<and>
             lg_status r \<in> CANCELLABLE_STATUSES) (ap_intents db))) (\<lambda>duplicate.
         case duplicate of
           Some _ \<Rightarrow> Inl dup_err
         | None \<Rightarrow> (case insert_order (new_order_row tx_now new_id a) db of
             Inl (ExIntegrity _) \<Rightarrow> Inl dup_err
           | Inl e \<Rightarrow> Inl e
           | Inr db' \<Rightarrow> Inr (new_id, db'))))"

definition legacy_list_match :: "uuid \<Rightarrow> intent_status list option \<Rightarrow> date option \<Rightarrow> legacy_row \<Rightarrow> bool" where
  "legacy_list_match owner sts trading_date r \<longleftrightarrow> lg_owner_user_id r = owner \<and>
     (case sts of None \<Rightarrow> True | Some ss \<Rightarrow> ss = [] \<or> lg_status r \<in> set ss) \<and>
     (case trading_date of None \<Rightarrow> True | Some d \<Rightarrow> lg_trading_date r = d)"

definition legacy_list_order :: "bool \<Rightarrow> legacy_row \<Rightarrow> int \<times> int \<times> uuid" where
  "legacy_list_order terminal r =
     (if terminal then (0, - lg_updated_at r, lg_id r) else (lg_trading_date r, - lg_created_at r, lg_id r))"

definition legacy_list_after :: "bool \<Rightarrow> legacy_row \<Rightarrow> legacy_row \<Rightarrow> bool" where
  "legacy_list_after terminal anchor r =
     (if terminal
      then lg_updated_at r < lg_updated_at anchor \<or> (lg_updated_at r = lg_updated_at anchor \<and> lg_id anchor < lg_id r)
      else lg_trading_date anchor < lg_trading_date r \<or>
           (lg_trading_date r = lg_trading_date anchor \<and> lg_created_at r < lg_created_at anchor) \<or>
           (lg_trading_date r = lg_trading_date anchor \<and> lg_created_at r = lg_created_at anchor \<and> lg_id anchor < lg_id r))"

definition legacy_list_by_owner ::
  "uuid \<Rightarrow> intent_status list option \<Rightarrow> date option \<Rightarrow> nat \<Rightarrow> app_db \<Rightarrow> uuid option \<Rightarrow>
   exn + trade_intent_data list \<times> uuid option" where
  "legacy_list_by_owner owner sts trading_date page_size db cursor =
     (let terminal = terminal_only sts;
          rows = legacy_with_symbol_type (legacy_list_match owner sts trading_date) db;
          finish = (\<lambda>anchor.
            case keyset_page (\<lambda>x. legacy_list_order terminal (fst x)) (\<lambda>x. lg_id (fst x))
                   (\<lambda>a x. legacy_list_after terminal (fst a) (fst x)) anchor page_size rows of
              (page, next) \<Rightarrow> r_bind (map_r legacy_domain_of page) (\<lambda>ds. Inr (ds, next)))
      in case cursor of
           None \<Rightarrow> finish None
         | Some cursor_id \<Rightarrow>
             r_bind (one_or_none (filter (\<lambda>r. lg_id r = cursor_id \<and> lg_owner_user_id r = owner) (ap_intents db))) (\<lambda>anchor.
             case anchor of
               None \<Rightarrow> Inl (ExIntent (InvalidCursorError cursor_id))
             | Some a \<Rightarrow> finish (Some (a, []))))"

section \<open>Creating\<close>

definition TRIGGER_REF :: "strategy \<Rightarrow> reference_price_type option" where
  "TRIGGER_REF s = (case s of
      buy_price_alert \<Rightarrow> Some ref_ask | sell_price_alert \<Rightarrow> Some ref_bid | limit_buy_order \<Rightarrow> Some ref_ask
    | limit_sell_order \<Rightarrow> Some ref_bid | market_order \<Rightarrow> Some ref_ask | market_buy_order \<Rightarrow> Some ref_ask
    | market_sell_order \<Rightarrow> Some ref_bid | trailing_stop_alert \<Rightarrow> Some ref_bid | _ \<Rightarrow> None)"

definition legacy_check_limits :: "intent_limits option \<Rightarrow> create_trade_intent_input \<Rightarrow> app_db \<Rightarrow> exn + unit" where
  "legacy_check_limits limits inp db = (case limits of
      None \<Rightarrow> Inr ()
    | Some l \<Rightarrow>
        let user_count = int (legacy_count_user (ci_owner_user_id inp) db);
            symbol_count = int (legacy_count_user_symbol (ci_owner_user_id inp) (ci_symbol inp) db)
        in if il_per_user l \<le> user_count
           then Inl (ExIntent (UserIntentLimitExceededError (il_per_user l) user_count))
           else if il_per_symbol l \<le> symbol_count
           then Inl (ExIntent (SymbolIntentLimitExceededError (ci_symbol inp) (il_per_symbol l) symbol_count))
           else Inr ())"

text \<open>
  Steps 1 to 4. The validation of symbol, price and trail is, line by line, that of the new track's
  command (\<open>create_prices\<close>), over the same \<open>symbols\<close> table.
\<close>

definition legacy_create_insert ::
  "datetime \<Rightarrow> uuid \<Rightarrow> intent_limits option \<Rightarrow> datetime \<Rightarrow> create_trade_intent_input \<Rightarrow> app_db \<Rightarrow> exn + uuid \<times> app_db" where
  "legacy_create_insert tx_now new_id limits now inp db =
     r_bind (create_prices inp (ap_core db)) (\<lambda>(effective_price, trail_value).
     case TRIGGER_REF (ci_strategy inp) of
       None \<Rightarrow> Inl ExValue
     | Some trigger_ref \<Rightarrow>
         r_bind (legacy_check_limits limits inp db) (\<lambda>_.
         legacy_create tx_now new_id
           \<lparr>ca_owner_user_id = ci_owner_user_id inp, ca_symbol = ci_symbol inp, ca_strategy = ci_strategy inp,
            ca_quantity_lots = ci_quantity_lots inp, ca_target_price_original = effective_price,
            ca_target_price_effective = effective_price, ca_trigger_reference_price_type = trigger_ref,
            ca_trading_date = get_day_intent_trading_date now, ca_time_in_force = ''day'',
            ca_execution_mode = ''notify_only'', ca_status = initial_status now,
            ca_transaction_mode = ci_transaction_mode inp, ca_notification_mode = ci_notification_mode inp,
            ca_trail_mode = ci_trail_mode inp, ca_trail_value = trail_value, ca_baseline = None,
            ca_dynamic_trigger_price = None, ca_baseline_updated_at = None\<rparr> db))"

text \<open>\<open>scalar_one\<close>: no row and more than one row are errors of the session.\<close>

definition the_order :: "uuid \<Rightarrow> legacy_db \<Rightarrow> exn + legacy_row" where
  "the_order intent_id db = (case filter (\<lambda>r. lg_id r = intent_id) (ap_intents (ld_app db)) of
      [r] \<Rightarrow> Inr r | _ \<Rightarrow> Inl ExMultipleResults)"

text \<open>
  \<open>_apply_inline_trigger_if_quote_met\<close>. The new baseline is set on the row the session holds: the trigger
  is rendered from the values as evaluated, and the flush (or the commit) writes them rounded.
\<close>

definition legacy_trigger_if_quote_met ::
  "'p quote_ops \<Rightarrow> datetime \<Rightarrow> uuid \<Rightarrow> uuid \<Rightarrow> uuid \<Rightarrow> string \<Rightarrow> datetime \<Rightarrow> security_type \<Rightarrow> 'p \<Rightarrow> legacy_db \<Rightarrow>
   exn + legacy_db \<times> notification_row list" where
  "legacy_trigger_if_quote_met ops tx_now trigger_id notification_id intent_id symbol now st p db =
     (case qo_get_quotes ops [symbol] p of
        Inl (QuoteUnavailableError _) \<Rightarrow> Inr (db, [])
      | Inl e \<Rightarrow> Inl (ExQuote e)
      | Inr [] \<Rightarrow> Inr (db, [])
      | Inr (q # _) \<Rightarrow>
          r_bind (the_order intent_id db) (\<lambda>row.
          r_bind (evaluate q (legacy_to_domain row st) now) (\<lambda>result.
            let moved = er_baseline_updated_at result \<noteq> None;
                held = (if moved then set_legacy_baseline (er_baseline result) (er_dynamic_trigger_price result)
                          (er_baseline_updated_at result) row else row);
                pending = (if moved then write_baseline intent_id (er_baseline result) (er_dynamic_trigger_price result)
                             (er_baseline_updated_at result) id else Inr)
            in if \<not> er_should_trigger result then r_bind (pending (ld_app db)) (\<lambda>app'. Inr (db\<lparr>ld_app := app'\<rparr>, []))
               else case (er_trigger_price result, er_trigger_reference_price_type result) of
                 (Some price, Some t) \<Rightarrow>
                   r_bind (persist_trigger tx_now trigger_id notification_id pending held
                     (trigger_input_of q intent_id price t (er_fallback_used result)) db) (\<lambda>(g, n, db'). Inr (db', [n]))
               | _ \<Rightarrow> Inl ExRuntime)))"

definition market_order_quote :: "'p quote_ops \<Rightarrow> string \<Rightarrow> 'p \<Rightarrow> quote_error + quote_snapshot" where
  "market_order_quote ops symbol p =
     (let cached = (case qo_get_quotes ops [symbol] p of
            Inl e \<Rightarrow> Inl e | Inr [] \<Rightarrow> Inl (QuoteUnavailableError symbol) | Inr (q # _) \<Rightarrow> Inr q)
      in case qo_current_price ops of
           None \<Rightarrow> cached
         | Some get \<Rightarrow> (case get symbol p of Inr q \<Rightarrow> Inr q | Inl _ \<Rightarrow> cached))"

definition market_trigger_price :: "strategy \<Rightarrow> quote_snapshot \<Rightarrow> (decimal \<times> reference_price_type \<times> bool) option" where
  "market_trigger_price strategy q =
     (let is_sell_side = strategy = market_sell_order
      in case (if is_sell_side then q_bid_price q else q_ask_price q) of
           Some v \<Rightarrow> if dec_le v dec_zero then None else Some (v, if is_sell_side then ref_bid else ref_ask, False)
         | None \<Rightarrow> (case q_last_price q of
             None \<Rightarrow> None
           | Some v \<Rightarrow> if dec_le v dec_zero then None else Some (v, ref_last_fallback, True)))"

definition legacy_market_trigger ::
  "'p quote_ops \<Rightarrow> datetime \<Rightarrow> uuid \<Rightarrow> uuid \<Rightarrow> uuid \<Rightarrow> string \<Rightarrow> 'p \<Rightarrow> legacy_db \<Rightarrow> exn + legacy_db \<times> notification_row list" where
  "legacy_market_trigger ops tx_now trigger_id notification_id intent_id symbol p db =
     (case market_order_quote ops symbol p of
        Inl _ \<Rightarrow> Inr (db, [])
      | Inr q \<Rightarrow>
          if q_bid_price q = None \<and> q_ask_price q = None \<and> q_last_price q = None then Inr (db, [])
          else r_bind (the_order intent_id db) (\<lambda>row.
            case market_trigger_price (lg_strategy row) q of
              None \<Rightarrow> Inr (db, [])
            | Some (price, t, fallback) \<Rightarrow>
                r_bind (persist_trigger tx_now trigger_id notification_id Inr row
                  (trigger_input_of q intent_id price t fallback) db) (\<lambda>(g, n, db'). Inr (db', [n]))))"

definition create_security_type :: "create_trade_intent_input \<Rightarrow> core_db \<Rightarrow> exn + security_type" where
  "create_security_type inp db =
     r_bind (get_tradable_symbol (ci_symbol inp) db) (\<lambda>symbol_obj.
     case security_type_of (sy_instrument_type symbol_obj) of
       None \<Rightarrow> Inl (ExPrice (InvalidTypeError (sy_instrument_type symbol_obj) ''must be stock or etf''))
     | Some st \<Rightarrow> Inr st)"

text \<open>The transaction: \<open>execute\<close> up to its commit, or the exception it rolls back on. A subscription stays.\<close>

definition legacy_create_tx ::
  "'p quote_ops \<Rightarrow> bool \<Rightarrow> intent_limits option \<Rightarrow> datetime \<Rightarrow> uuid \<Rightarrow> uuid \<Rightarrow> uuid \<Rightarrow> datetime \<Rightarrow>
   create_trade_intent_input \<Rightarrow> 'p \<Rightarrow> legacy_db \<Rightarrow> (exn + uuid \<times> legacy_db \<times> notification_row list) \<times> 'p" where
  "legacy_create_tx ops halted limits tx_now new_id trigger_id notification_id now inp p db =
     (case r_bind (create_security_type inp (ap_core (ld_app db))) (\<lambda>st.
             r_bind (legacy_create_insert tx_now new_id limits now inp (ld_app db)) (\<lambda>x. Inr (st, x))) of
        Inl e \<Rightarrow> (Inl e, p)
      | Inr (st, intent_id, app1) \<Rightarrow>
          (case reconcile_on_create (qo_active_subscriptions ops) (qo_subscribe ops) (ci_symbol inp) p of
             Inl e \<Rightarrow> (Inl (ExQuote e), p)
           | Inr p1 \<Rightarrow>
               let db1 = db\<lparr>ld_app := app1\<rparr>
               in case (if halted \<or> initial_status now \<noteq> active then Inr (db1, [])
                        else if ci_strategy inp \<in> MARKET_ORDER_STRATEGIES
                        then legacy_market_trigger ops tx_now trigger_id notification_id intent_id (ci_symbol inp) p1 db1
                        else legacy_trigger_if_quote_met ops tx_now trigger_id notification_id intent_id (ci_symbol inp) now
                               st p1 db1) of
                    Inl e \<Rightarrow> (Inl e, p1)
                  | Inr (db2, sent) \<Rightarrow> (Inr (intent_id, db2, sent), p1)))"

type_synonym 'p legacy_outcome = "(exn + trade_intent_data) \<times> legacy_db \<times> 'p \<times> notification_row list"

definition legacy_create_execute ::
  "'p quote_ops \<Rightarrow> bool \<Rightarrow> intent_limits option \<Rightarrow> datetime \<Rightarrow> uuid \<Rightarrow> uuid \<Rightarrow> uuid \<Rightarrow> datetime \<Rightarrow>
   create_trade_intent_input \<Rightarrow> 'p \<Rightarrow> legacy_db \<Rightarrow> 'p legacy_outcome" where
  "legacy_create_execute ops halted limits tx_now new_id trigger_id notification_id now inp p db =
     (case legacy_create_tx ops halted limits tx_now new_id trigger_id notification_id now inp p db of
        (Inl e, p') \<Rightarrow> (Inl e, db, p', [])
      | (Inr (intent_id, db2, sent), p') \<Rightarrow>
          (legacy_find_by_id intent_id (ci_owner_user_id inp) (ld_app db2), db2, p', sent))"

section \<open>Cancelling\<close>

definition legacy_cancel_execute ::
  "'p quote_ops \<Rightarrow> datetime \<Rightarrow> cancel_trade_intent_input \<Rightarrow> 'p \<Rightarrow> legacy_db \<Rightarrow> 'p legacy_outcome" where
  "legacy_cancel_execute ops tx_now inp p db =
     (case legacy_cancel tx_now (xi_intent_id inp) (xi_owner_user_id inp) (ld_app db) of
        Inl e \<Rightarrow> (Inl e, db, p, [])
      | Inr (intent, app') \<Rightarrow>
          (Inr intent, db\<lparr>ld_app := app'\<rparr>,
           reconcile_after_terminal_transition (qo_unsubscribe ops) (\<lambda>s. legacy_count_symbol s app') (ti_symbol intent) p, []))"

interpretation old_intents: keyset_listing "\<lambda>x. legacy_list_order t (fst (x :: legacy_row \<times> string))" "\<lambda>x. lg_id (fst x)"
  "\<lambda>a x. legacy_list_after t (fst a) (fst x)"
proof unfold_locales
  show "legacy_list_after t (fst a) (fst r) = (legacy_list_order t (fst a) < legacy_list_order t (fst r))"
    for a r :: "legacy_row \<times> string"
    by (auto simp: legacy_list_after_def legacy_list_order_def less_prod_def less_le)
  show "lg_id (fst a) = lg_id (fst b)" if "legacy_list_order t (fst a) = legacy_list_order t (fst b)"
    for a b :: "legacy_row \<times> string"
    using that by (simp add: legacy_list_order_def split: if_split_asm)
qed

end
