(* ===== verification/Legacy_Properties.thy ===== *)
theory Legacy_Properties
  imports Legacy_Orders Twap_Properties
begin

text \<open>
  The two order tracks side by side: which of them a quote can trigger, that both write the same
  trigger for the same intent, and that the old track's trigger command acts once.
\<close>

section \<open>A quote reaches both tracks\<close>

lemma twap_run_only: "(twap_step ops)\<^sup>*\<^sup>* db0 db \<Longrightarrow> twap_ok db0 \<Longrightarrow> only_twap db0 \<Longrightarrow> only_twap db"
proof (induction rule: rtranclp_induct)
  case (step y z)
  then show ?case by (meson only_twap_steps twap_run_ok twap_step_steps)
qed simp

text \<open>
  (C11) An order is triggered by one track only. Starting from tables whose old track holds TWAP orders
  only, whatever confirmations, scheduler passes, cancellations, disabled accounts and new-track
  operations have happened, a quote delivered to both dispatchers sends exactly what the new track's
  dispatcher alone sends, writes no \<open>trigger_events\<close> row and changes the old track by its life cycle at
  most; the evaluation endpoint likewise sends and triggers nothing.
\<close>

theorem quotes_trigger_new_track_only:
  assumes "(twap_step ops)\<^sup>*\<^sup>* db0 db" and "twap_ok db0" and "only_twap db0"
  shows "quote_listeners h h' t t' ids ids' q now now' \<lparr>ld_app = db, ld_trigger_events = gs\<rparr> =
      (\<lparr>ld_app = (if h then db else legacy_after now db)\<lparr>ap_core := fst (dispatch h' t' ids' q now' (ap_core db))\<rparr>,
        ld_trigger_events = gs\<rparr>,
       snd (dispatch h' t' ids' q now' (ap_core db))) \<and>
    snd (evaluate_quotes ops t ids symbols now p \<lparr>ld_app = db, ld_trigger_events = gs\<rparr>) =
      (\<lparr>ld_app = db\<lparr>ap_core := ss_committed (snd (core_lifecycle now (ss_open (ap_core db))))\<rparr>, ld_trigger_events = gs\<rparr>, [])"
proof -
  have o: "only_twap db" by (rule twap_run_only [OF assms])
  have "legacy_dispatch h t ids q now \<lparr>ld_app = db, ld_trigger_events = gs\<rparr> =
      (\<lparr>ld_app = if h then db else legacy_after now db, ld_trigger_events = gs\<rparr>, [])"
    using legacy_dispatch_twap [of "\<lparr>ld_app = db, ld_trigger_events = gs\<rparr>"] o by simp
  then have "quote_listeners h h' t t' ids ids' q now now' \<lparr>ld_app = db, ld_trigger_events = gs\<rparr> =
      (\<lparr>ld_app = (if h then db else legacy_after now db)\<lparr>ap_core := fst (dispatch h' t' ids' q now' (ap_core db))\<rparr>,
        ld_trigger_events = gs\<rparr>,
       snd (dispatch h' t' ids' q now' (ap_core db)))"
    by (simp add: quote_listeners_def case_prod_unfold if_distrib cong: if_cong)
  then show ?thesis
    using evaluate_quotes_twap [of "\<lparr>ld_app = db, ld_trigger_events = gs\<rparr>"] o by simp
qed

section \<open>The same trigger on either track\<close>

text \<open>The notification of the new track is that of the old one, pointing at the other table.\<close>

definition retarget :: "notification_row \<Rightarrow> notification_row" where
  "retarget n = n\<lparr>n_trade_intent_id := None, n_trade_intent_core_id := n_trade_intent_id n\<rparr>"

lemma map_id_upd: "(\<And>r. k (f r) = k r) \<Longrightarrow> k ` set (upd_where p f rows) = k ` set rows"
  by (metis (no_types) list.set_map map_upd_where_frame)

definition written :: "exn + trigger_row \<times> notification_row \<times> 'd \<Rightarrow> (trigger_row \<times> notification_row) option" where
  "written res = (case res of Inl _ \<Rightarrow> None | Inr (g, n, _) \<Rightarrow> Some (g, n))"

lemma written_simps [simp]: "written (Inl e) = None" "written (Inr (g, n, d)) = Some (g, n)"
  by (simp_all add: written_def)

lemma written_catch [simp]: "written (catch res h) = written res"
  by (cases res) (simp_all add: catch_def)

lemma insert_trigger_agrees:
  assumes "tg_id ` set (db_triggers C) = tg_id ` set (ld_trigger_events L)"
    "tg_trade_intent_id ` set (db_triggers C) = tg_trade_intent_id ` set (ld_trigger_events L)"
    "tg_trade_intent_id g \<in> c_id ` set (db_core C)" "tg_trade_intent_id g \<in> lg_id ` set (ap_intents (ld_app L))"
    "db_users C = db_users (ap_core (ld_app L))" "db_symbols C = db_symbols (ap_core (ld_app L))"
  shows "(case insert_trigger g C of Inl e \<Rightarrow> Inl e | Inr (g', C') \<Rightarrow> Inr (g', C'\<lparr>db_triggers := db_triggers C\<rparr> = C)) =
    (case insert_trigger_event g L of Inl e \<Rightarrow> Inl e | Inr (g', L') \<Rightarrow> Inr (g', L'\<lparr>ld_trigger_events := ld_trigger_events L\<rparr> = L))"
proof -
  obtain a b c d where n: "numeric94 (tg_target_price_effective g) = a" "numeric94 (tg_trigger_price g) = b"
    "numeric94_opt (tg_baseline_at_trigger g) = c" "numeric94_opt (tg_dynamic_trigger_price_at_trigger g) = d" by blast
  show ?thesis
    unfolding insert_trigger_def insert_trigger_event_def n assms(1,2,5,6)
    using assms(3,4) by (cases a; cases b; cases c; cases d) (simp_all add: Let_def split: option.split)
qed

text \<open>
  (C12) The two tracks write the same trigger. Take an active order of the old track and an active order
  of the new one with the same data, and tables that agree on users, symbols, notifications and on which
  identifiers have triggers: the trigger command of the one succeeds exactly when that of the other
  does, with the same trigger row, and with the same notification but for the order it points at.
\<close>

theorem tracks_write_same_trigger:
  assumes r: "filter (\<lambda>x. lg_id x = lg_id r) (ap_intents (ld_app L)) = [r]" "lg_status r = active"
    and c: "c \<in> set (db_core C)" "c_id c = lg_id r" "c_status c = active"
    and shared: "db_users C = db_users (ap_core (ld_app L))" "db_symbols C = db_symbols (ap_core (ld_app L))"
      "db_notifications C = db_notifications (ap_core (ld_app L))"
    and triggers: "tg_id ` set (db_triggers C) = tg_id ` set (ld_trigger_events L)"
      "tg_trade_intent_id ` set (db_triggers C) = tg_trade_intent_id ` set (ld_trigger_events L)"
    and inp: "tii_intent_id inp = lg_id r"
  shows "map_option (map_prod id retarget) (written (stage t gi ni inp L)) =
    written (persist_core_trigger t gi ni (legacy_to_domain r st) (core_input inp) C)"
proof (cases "legacy_trigger_content r inp")
  case (Inl e)
  then show ?thesis
    using content_agrees [of r inp st] r inp
    by (simp add: stage_def one_or_none_def persist_trigger_def persist_core_trigger_def)
next
  case (Inr x)
  obtain nt target b d m where x: "x = (nt, target, b, d, m)" by (cases x) auto
  let ?g = "trigger_event_of t gi r inp target b d"
  let ?n = "trigger_notification t ni r nt m"
  let ?hc = "\<lambda>x. c_id x = lg_id r \<and> c_status x = active" and ?hl = "\<lambda>x. lg_id x = lg_id r \<and> lg_status x = active"
  let ?C1 = "C\<lparr>db_core := upd_where ?hc (set_triggered t (lg_quantity_lots r)) (db_core C)\<rparr>"
  let ?L1 = "L\<lparr>ld_app := (ld_app L)\<lparr>ap_intents := upd_where ?hl (set_legacy_triggered t (lg_quantity_lots r)) (ap_intents (ld_app L))\<rparr>\<rparr>"
  have rl: "r \<in> set (ap_intents (ld_app L))" using arg_cong [OF r(1), of set] by auto
  have cnt: "count_where ?hc (db_core C) \<noteq> 0" "count_where ?hl (ap_intents (ld_app L)) \<noteq> 0"
    using c r(2) rl by (auto simp: count_where_0_iff)
  have ids: "c_id ` set (db_core ?C1) = c_id ` set (db_core C)"
    "lg_id ` set (ap_intents (ld_app ?L1)) = lg_id ` set (ap_intents (ld_app L))"
    by (simp_all add: map_id_upd set_legacy_triggered_def)
  have mem: "lg_id r \<in> c_id ` set (db_core C)" "lg_id r \<in> lg_id ` set (ap_intents (ld_app L))"
    using c rl by (metis imageI)+
  have ag: "(case insert_trigger ?g ?C1 of Inl e \<Rightarrow> Inl e | Inr (g', C') \<Rightarrow> Inr (g', C'\<lparr>db_triggers := db_triggers ?C1\<rparr> = ?C1)) =
    (case insert_trigger_event ?g ?L1 of Inl e \<Rightarrow> Inl e | Inr (g', L') \<Rightarrow> Inr (g', L'\<lparr>ld_trigger_events := ld_trigger_events ?L1\<rparr> = ?L1))"
    by (rule insert_trigger_agrees) (use triggers shared ids mem in \<open>simp_all add: trigger_event_of_def\<close>)
  have tc: "trigger_content (legacy_to_domain r st) (core_input inp) = Inr (nt, target, b, d, fst m, snd m)"
    using content_agrees [of r inp st] Inr x by simp
  have core: "written (persist_core_trigger t gi ni (legacy_to_domain r st) (core_input inp) C) =
      written (r_bind (insert_trigger ?g ?C1) (\<lambda>(g, C1). r_bind (insert_notification (retarget ?n) C1) (\<lambda>C2. Inr (g, retarget ?n, C2))))"
    unfolding persist_core_trigger_def tc r_bind_simps prod.case Let_def legacy_view_simps if_not_P [OF cnt(1)]
    by (simp add: core_input_simps trigger_event_of_def trigger_notification_def retarget_def case_prod_unfold)
  have old: "written (stage t gi ni inp L) =
      written (r_bind (insert_trigger_event ?g ?L1) (\<lambda>(g, L1). r_bind (legacy_notify ?n (ld_app L1)) (\<lambda>a. Inr (g, ?n, L1\<lparr>ld_app := a\<rparr>))))"
    using r inp Inr x cnt(2) by (simp add: stage_def one_or_none_def persist_trigger_def Let_def)
  show ?thesis
  proof (cases "insert_trigger ?g ?C1")
    case (Inl e)
    then have "insert_trigger_event ?g ?L1 = Inl e" using ag by (auto split: sum.split_asm prod.split_asm)
    with Inl show ?thesis unfolding core old by simp
  next
    case gi: (Inr y)
    obtain g C1 where y: "y = (g, C1)" by fastforce
    then obtain L1 where L1: "insert_trigger_event ?g ?L1 = Inr (g, L1)"
      using ag gi by (auto split: sum.split_asm prod.split_asm)
    have C1: "C1 = ?C1\<lparr>db_triggers := db_triggers C @ [g]\<rparr>" using insert_trigger_Inr(4) gi y by fastforce
    have L1': "L1 = ?L1\<lparr>ld_trigger_events := ld_trigger_events L @ [g]\<rparr>" using insert_trigger_event_Inr(1) [OF L1] by simp
    have "n_owner_user_id (retarget ?n) = lg_owner_user_id r" "n_id (retarget ?n) = ni" "n_trade_intent_id (retarget ?n) = None"
      "n_trade_intent_core_id (retarget ?n) = Some (lg_id r)" "n_owner_user_id ?n = lg_owner_user_id r" "n_id ?n = ni"
      "n_trade_intent_id ?n = Some (lg_id r)" "n_trade_intent_core_id ?n = None"
      by (simp_all add: retarget_def trigger_notification_def)
    then show ?thesis
      unfolding core old gi y L1 r_bind_simps prod.case
      using shared ids mem by (auto simp: C1 L1' insert_notification_def legacy_notify_def)
  qed
qed

section \<open>Once per order\<close>

lemma stage_Inr:
  assumes "distinct (map lg_id (ap_intents (ld_app db)))" and "stage t gi ni inp db = Inr (g, n, db')"
  obtains r where "r \<in> set (ap_intents (ld_app db))" "lg_id r = tii_intent_id inp" "lg_status r = active"
    "tg_trade_intent_id g = lg_id r" "lg_id r \<notin> tg_trade_intent_id ` set (ld_trigger_events db)"
    "ap_intents (ld_app db') = upd_where (\<lambda>x. lg_id x = lg_id r) (set_legacy_triggered t (lg_quantity_lots r)) (ap_intents (ld_app db))"
    "ap_slices (ld_app db') = ap_slices (ld_app db)" "ld_trigger_events db' = ld_trigger_events db @ [g]"
    "db_notifications (ap_core (ld_app db')) = db_notifications (ap_core (ld_app db)) @ [n]"
    "n_trade_intent_id n = Some (lg_id r)" "n_owner_user_id n = lg_owner_user_id r"
proof -
  from assms(2) obtain r where r: "one_or_none (filter (\<lambda>r. lg_id r = tii_intent_id inp) (ap_intents (ld_app db))) = Inr (Some r)"
    "lg_status r = active" "persist_trigger t gi ni Inr r inp db = Inr (g, n, db')"
    by (auto simp: stage_def r_bind_Inr_iff split: option.splits if_splits)
  have rm: "r \<in> set (ap_intents (ld_app db))" "lg_id r = tii_intent_id inp"
    using one_or_none_SomeD [OF r(1)] by auto
  from r(3) obtain nt target b d m app1 db1 where
    pend: "app1 = (ld_app db)\<lparr>ap_intents := upd_where (\<lambda>x. lg_id x = lg_id r \<and> lg_status x = active)
        (set_legacy_triggered t (lg_quantity_lots r)) (ap_intents (ld_app db))\<rparr>"
    and ins: "insert_trigger_event (trigger_event_of t gi r inp target b d) (db\<lparr>ld_app := app1\<rparr>) = Inr (g, db1)"
    and lgn: "legacy_notify n (ld_app db1) = Inr (ld_app db')" "db' = db1\<lparr>ld_app := ld_app db'\<rparr>"
    and n: "n = trigger_notification t ni r nt m"
    by (auto simp: persist_trigger_def Let_def r_bind_Inr_iff split: if_split_asm)
  have same: "upd_where (\<lambda>x. lg_id x = lg_id r \<and> lg_status x = active) f (ap_intents (ld_app db)) =
      upd_where (\<lambda>x. lg_id x = lg_id r) f (ap_intents (ld_app db))" for f
    using distinct_key_eq [OF assms(1) _ rm(1)] r(2) by (auto simp: upd_where_def)
  note I = insert_trigger_event_Inr [OF ins]
  show thesis
    by (rule that [OF rm r(2)])
      (use I lgn n in \<open>auto simp: pend same trigger_event_of_def trigger_notification_def legacy_notify_Inr_iff
         dest!: insert_notification_InrD\<close>)
qed

text \<open>
  The old track's trigger command acts once. When it succeeds the order was active and had no
  trigger; now it is triggered in full, it has one, and one notification was stored and sent to its
  owner, other orders and all slices being as before. Any later call for the same order, with whatever
  price and quote, is refused because of the status, changes nothing and sends nothing.
\<close>

theorem trigger_command_once:
  assumes "distinct (map lg_id (ap_intents (ld_app db)))"
    and "trigger_execute t gi ni inp db = (Inr (g, nd), db', sent)"
    and "tii_intent_id inp' = tii_intent_id inp"
  shows "\<exists>r n. r \<in> set (ap_intents (ld_app db)) \<and> lg_id r = tii_intent_id inp \<and> lg_status r = active \<and>
    lg_id r \<notin> tg_trade_intent_id ` set (ld_trigger_events db) \<and>
    ap_intents (ld_app db') = upd_where (\<lambda>x. lg_id x = lg_id r) (set_legacy_triggered t (lg_quantity_lots r)) (ap_intents (ld_app db)) \<and>
    ap_slices (ld_app db') = ap_slices (ld_app db) \<and>
    ld_trigger_events db' = ld_trigger_events db @ [g] \<and> tg_trade_intent_id g = lg_id r \<and>
    sent = [n] \<and> n_owner_user_id n = lg_owner_user_id r \<and> n_trade_intent_id n = Some (lg_id r) \<and>
    db_notifications (ap_core (ld_app db')) = db_notifications (ap_core (ld_app db)) @ [n] \<and>
    trigger_execute t' gi' ni' inp' db' =
      (Inl (ExTrigger (IntentNotActiveError (tii_intent_id inp) (Some triggered))), db', [])"
proof -
  from assms(2) obtain n where st: "stage t gi ni inp db = Inr (g, n, db')" and sent: "sent = [n]"
    by (auto simp: trigger_execute_def split: sum.split_asm)
  from stage_Inr [OF assms(1) st] obtain r where R:
    "r \<in> set (ap_intents (ld_app db))" "lg_id r = tii_intent_id inp" "lg_status r = active"
    "tg_trade_intent_id g = lg_id r" "lg_id r \<notin> tg_trade_intent_id ` set (ld_trigger_events db)"
    "ap_intents (ld_app db') = upd_where (\<lambda>x. lg_id x = lg_id r) (set_legacy_triggered t (lg_quantity_lots r)) (ap_intents (ld_app db))"
    "ap_slices (ld_app db') = ap_slices (ld_app db)" "ld_trigger_events db' = ld_trigger_events db @ [g]"
    "db_notifications (ap_core (ld_app db')) = db_notifications (ap_core (ld_app db)) @ [n]"
    "n_trade_intent_id n = Some (lg_id r)" "n_owner_user_id n = lg_owner_user_id r" .
  let ?r = "set_legacy_triggered t (lg_quantity_lots r) r"
  have "?r \<in> set (ap_intents (ld_app db'))" "lg_id ?r = tii_intent_id inp" "lg_status ?r = triggered"
    using R(1,2,6) by (auto simp: upd_where_mem_iff set_legacy_triggered_def)
  moreover have "distinct (map lg_id (ap_intents (ld_app db')))"
    using assms(1) R(6) by (simp add: map_upd_where_frame set_legacy_triggered_def)
  ultimately have "filter (\<lambda>x. lg_id x = tii_intent_id inp) (ap_intents (ld_app db')) = [?r]" "lg_status ?r = triggered"
    using filter_key by metis+
  then have "trigger_execute t' gi' ni' inp' db' =
      (Inl (ExTrigger (IntentNotActiveError (tii_intent_id inp) (Some triggered))), db', [])"
    by (simp add: trigger_execute_def stage_def assms(3) one_or_none_def)
  with R sent show ?thesis by blast
qed

section \<open>Concrete tables\<close>

definition old_order :: legacy_row where
  "old_order = \<lparr>lg_id = 1, lg_owner_user_id = 7, lg_symbol = ''2330'', lg_strategy = market_buy_order,
     lg_execution_mode = ''notify_only'', lg_quantity_lots = 2, lg_target_price_original = None,
     lg_target_price_effective = None, lg_trigger_reference_price_type = ref_ask, lg_trading_date = 20000,
     lg_time_in_force = ''day'', lg_status = active, lg_cancelled_at = None, lg_triggered_at = None,
     lg_transaction_mode = single_notification, lg_notification_mode = ''single'', lg_filled_quantity_lots = 0,
     lg_last_fill_at = None, lg_trail_mode = None, lg_trail_value = None, lg_baseline = None,
     lg_dynamic_trigger_price = None, lg_baseline_updated_at = None, lg_position_side = None,
     lg_twap_interval_seconds = None, lg_twap_end_time = None, lg_twap_start_at = None, lg_twap_end_at = None,
     lg_twap_available_slice_count = None, lg_twap_materialized_slice_count = None, lg_created_at = 0, lg_updated_at = 0\<rparr>"

definition old_db :: legacy_db where
  "old_db = \<lparr>ld_app = \<lparr>ap_core = empty_db [7] [sample_symbol], ap_intents = [old_order], ap_slices = []\<rparr>, ld_trigger_events = []\<rparr>"

definition old_input :: trigger_intent_input where
  "old_input = \<lparr>tii_intent_id = 1, tii_trigger_price = Dec False 5 0, tii_trigger_reference_price_type = ref_ask,
     tii_fallback_used = False, tii_quote_snapshot = quote_snapshot_to_jsonb sample_quote, tii_quote_time = 0\<rparr>"

definition old_after :: legacy_db where
  "old_after = fst (snd (trigger_execute 5 11 12 old_input old_db))"

theorem quotes_trigger_new_track_only_witness:
  "only_twap tw0 \<and> snd (quote_listeners False False 0 0 (\<lambda>i. (i, i)) (\<lambda>i. (i, i)) sample_quote tw_now tw_now
     \<lparr>ld_app = tw1, ld_trigger_events = []\<rparr>) = snd (dispatch False 0 (\<lambda>i. (i, i)) sample_quote tw_now (ap_core tw1)) \<and>
   map lg_status (ap_intents tw1) = [active]"
proof -
  have a: "twap_ok tw0" "only_twap tw0"
    by (simp_all add: twap_ok_def announce_ok_def completed_ok_def only_twap_def tw0_def empty_db_def)
  have "map lg_status (ap_intents tw1) = [active]" by code_simp
  with quotes_trigger_new_track_only [OF tw_run1 a, of False False 0 0 "\<lambda>i. (i, i)" "\<lambda>i. (i, i)" sample_quote tw_now tw_now "[]"] a
  show ?thesis by simp
qed

theorem tracks_write_same_trigger_witness:
  "map_option (map_prod id retarget) (written (stage 5 11 12 old_input old_db)) =
     written (persist_core_trigger 5 11 12 (legacy_to_domain old_order STOCK) (core_input old_input) sample_db)"
  by (rule tracks_write_same_trigger [of old_order old_db sample_row])
    (simp_all add: old_db_def old_order_def sample_db_def sample_row_def old_input_def empty_db_def)

theorem trigger_command_once_witness:
  "\<exists>g nd n. trigger_execute 5 11 12 old_input old_db = (Inr (g, nd), old_after, [n]) \<and>
     trigger_execute 6 21 22 old_input old_after = (Inl (ExTrigger (IntentNotActiveError 1 (Some triggered))), old_after, [])"
proof -
  have "(case fst (trigger_execute 5 11 12 old_input old_db) of Inl _ \<Rightarrow> False | Inr _ \<Rightarrow> True)"
    by (simp add: trigger_execute_def stage_def one_or_none_def persist_trigger_def old_db_def old_order_def old_input_def
        legacy_trigger_content_def render_market_order_triggered_def MARKET_ORDER_LABELS_def Let_def
        insert_trigger_event_def trigger_event_of_def numeric94_def numeric94_opt_def trigger_checks_def nonpositive_def
        dec_le_def dscale_def dint_def dec_zero_def empty_db_def sample_symbol_def legacy_notify_def insert_notification_def trigger_notification_def
        set_legacy_triggered_def catch_def)
  then obtain g nd sent where e: "trigger_execute 5 11 12 old_input old_db = (Inr (g, nd), old_after, sent)"
    unfolding old_after_def by (cases "trigger_execute 5 11 12 old_input old_db") (auto split: sum.split_asm)
  have i: "tii_intent_id old_input = 1" by (simp add: old_input_def)
  have d: "distinct (map lg_id (ap_intents (ld_app old_db)))" by (simp add: old_db_def)
  show ?thesis
    using trigger_command_once [OF d e refl, of 6 21 22] e unfolding i by blast
qed

end
