(* ===== verification/Py_Ipaddress.thy ===== *)
theory Py_Ipaddress
  imports Py_Text "HOL-Library.Word"
begin

text \<open>
  The part of Python's \<open>ipaddress\<close> module the program uses: \<open>ip_address\<close> and \<open>ip_network\<close> (with
  \<open>strict=False\<close>) on a string, membership of an address in a network, and the text of an address.
  Addresses are machine words of 32 and 128 bits; \<open>None\<close> is the \<open>ValueError\<close>.
\<close>

unbundle bit_operations_syntax

datatype ip_address = IPv4Address "32 word" | IPv6Address "128 word" "string option"

datatype ip_network = IPv4Network "32 word" "32 word" | IPv6Network "128 word" "128 word"

section \<open>Reading\<close>

text \<open>\<open>_parse_octet\<close>: one to three decimal digits without a leading zero, at most 255.\<close>

definition parse_octet :: "string \<Rightarrow> nat option" where
  "parse_octet s =
     (if s = [] \<or> \<not> list_all is_digit s \<or> 3 < length s \<or> (s \<noteq> ''0'' \<and> hd s = CHR ''0'') \<or> 255 < digits_val s
      then None else Some (digits_val s))"

definition ipv4_of_string :: "string \<Rightarrow> 32 word option" where
  "ipv4_of_string s = (case split_on (CHR ''.'') s of
      [a, b, c, d] \<Rightarrow>
        (case (parse_octet a, parse_octet b, parse_octet c, parse_octet d) of
           (Some a, Some b, Some c, Some d) \<Rightarrow> Some (fold (\<lambda>octet acc. push_bit 8 acc OR of_nat octet) [a, b, c, d] 0)
         | _ \<Rightarrow> None)
    | _ \<Rightarrow> None)"

text \<open>\<open>_parse_hextet\<close>: one to four hexadecimal digits.\<close>

definition parse_hextet :: "string \<Rightarrow> nat option" where
  "parse_hextet s =
     (if \<not> list_all (\<lambda>c. hex_val c \<noteq> None) s \<or> 4 < length s then None else hex_run False 0 s)"

fun parse_hextets :: "string list \<Rightarrow> 128 word \<Rightarrow> 128 word option" where
  "parse_hextets [] acc = Some acc"
| "parse_hextets (p # ps) acc = (case parse_hextet p of None \<Rightarrow> None | Some v \<Rightarrow> parse_hextets ps (push_bit 16 acc OR of_nat v))"

text \<open>\<open>'%x' % n\<close>\<close>

fun hex_str :: "nat \<Rightarrow> string" where
  "hex_str n = (if n < 16 then [hex_char n] else hex_str (n div 16) @ [hex_char (n mod 16)])"

declare hex_str.simps [simp del]

text \<open>An IPv4 address at the end stands for the last two groups.\<close>

definition expand_ipv4_suffix :: "string list \<Rightarrow> string list option" where
  "expand_ipv4_suffix parts =
     (if CHR ''.'' \<notin> set (last parts) then Some parts
      else case ipv4_of_string (last parts) of
        None \<Rightarrow> None
      | Some v \<Rightarrow> Some (butlast parts @ [hex_str (unat (drop_bit 16 v)), hex_str (unat (v AND 0xFFFF))]))"

definition ipv6_of_parts :: "string list \<Rightarrow> 128 word option" where
  "ipv6_of_parts parts =
     (if 9 < length parts then None
      else case filter (\<lambda>i. parts ! i = []) [1..<length parts - 1] of
        [] \<Rightarrow> if length parts \<noteq> 8 \<or> hd parts = [] \<or> last parts = [] then None else parse_hextets parts 0
      | [skip_index] \<Rightarrow>
          (let parts_hi = (if hd parts = [] then skip_index - 1 else skip_index);
               parts_lo = length parts - skip_index - 1 - (if last parts = [] then 1 else 0)
           in if hd parts = [] \<and> parts_hi \<noteq> 0 \<or> last parts = [] \<and> parts_lo \<noteq> 0 \<or> 8 < parts_hi + parts_lo + 1 then None
              else case parse_hextets (take parts_hi parts) 0 of
                None \<Rightarrow> None
              | Some hi \<Rightarrow>
                  parse_hextets (drop (length parts - parts_lo) parts) (push_bit (16 * (8 - (parts_hi + parts_lo))) hi))
      | _ \<Rightarrow> None)"

definition ipv6_of_string :: "string \<Rightarrow> 128 word option" where
  "ipv6_of_string s =
     (let parts = split_on (CHR '':'') s
      in if length parts < 3 then None
         else case expand_ipv4_suffix parts of
           None \<Rightarrow> None
         | Some parts \<Rightarrow> ipv6_of_parts parts)"

text \<open>\<open>_split_scope_id\<close>; the outer \<open>None\<close> is the error.\<close>

definition split_scope_id :: "string \<Rightarrow> (string \<times> string option) option" where
  "split_scope_id s =
     (let addr = takeWhile (\<lambda>c. c \<noteq> CHR ''%'') s; rest = dropWhile (\<lambda>c. c \<noteq> CHR ''%'') s
      in if rest = [] then Some (addr, None)
         else if tl rest = [] \<or> CHR ''%'' \<in> set (tl rest) then None
         else Some (addr, Some (tl rest)))"

definition ipv6_address :: "string \<Rightarrow> (128 word \<times> string option) option" where
  "ipv6_address s =
     (if CHR ''/'' \<in> set s then None
      else case split_scope_id s of
        None \<Rightarrow> None
      | Some (addr, scope_id) \<Rightarrow> map_option (\<lambda>v. (v, scope_id)) (ipv6_of_string addr))"

definition ip_address :: "string \<Rightarrow> ip_address option" where
  "ip_address s = (case ipv4_of_string s of
      Some v \<Rightarrow> Some (IPv4Address v)
    | None \<Rightarrow> map_option (\<lambda>(v, scope_id). IPv6Address v scope_id) (ipv6_address s))"

section \<open>Networks\<close>

text \<open>\<open>_ip_int_from_prefix\<close> and its inverse \<open>_prefix_from_ip_int\<close> on masks.\<close>

definition netmask :: "nat \<Rightarrow> 'a::len word" where
  "netmask prefixlen = (- 1) XOR drop_bit prefixlen (- 1)"

definition righthand_zero_bits :: "32 word \<Rightarrow> nat" where
  "righthand_zero_bits v = length (takeWhile (\<lambda>i. \<not> bit v i) [0..<32])"

definition prefix_from_ip_int :: "32 word \<Rightarrow> nat option" where
  "prefix_from_ip_int v =
     (let trailing_zeroes = righthand_zero_bits v; prefixlen = 32 - trailing_zeroes
      in if drop_bit trailing_zeroes v \<noteq> 2 ^ prefixlen - 1 then None else Some prefixlen)"

definition prefix_from_prefix_string :: "nat \<Rightarrow> string \<Rightarrow> nat option" where
  "prefix_from_prefix_string max_prefixlen s =
     (if s \<noteq> [] \<and> list_all is_digit s \<and> digits_val s \<le> max_prefixlen then Some (digits_val s) else None)"

definition prefix_from_ip_string :: "string \<Rightarrow> nat option" where
  "prefix_from_ip_string s = (case ipv4_of_string s of
      None \<Rightarrow> None
    | Some v \<Rightarrow> (case prefix_from_ip_int v of Some p \<Rightarrow> Some p | None \<Rightarrow> prefix_from_ip_int (v XOR (- 1))))"

definition ipv4_network :: "string \<Rightarrow> string option \<Rightarrow> ip_network option" where
  "ipv4_network addr msk = (case ipv4_of_string addr of
      None \<Rightarrow> None
    | Some v \<Rightarrow>
        (case (case msk of
             None \<Rightarrow> Some 32
           | Some m \<Rightarrow> (case prefix_from_prefix_string 32 m of Some p \<Rightarrow> Some p | None \<Rightarrow> prefix_from_ip_string m)) of
           None \<Rightarrow> None
         | Some p \<Rightarrow> Some (IPv4Network (v AND netmask p) (netmask p))))"

definition ipv6_network :: "string \<Rightarrow> string option \<Rightarrow> ip_network option" where
  "ipv6_network addr msk = (case ipv6_address addr of
      None \<Rightarrow> None
    | Some (v, _) \<Rightarrow>
        (case (case msk of None \<Rightarrow> Some 128 | Some m \<Rightarrow> prefix_from_prefix_string 128 m) of
           None \<Rightarrow> None
         | Some p \<Rightarrow> Some (IPv6Network (v AND netmask p) (netmask p))))"

definition ip_network :: "string \<Rightarrow> ip_network option" where
  "ip_network s =
     (let read = (\<lambda>addr msk. case ipv4_network addr msk of Some n \<Rightarrow> Some n | None \<Rightarrow> ipv6_network addr msk)
      in case split_on (CHR ''/'') s of
           [addr] \<Rightarrow> read addr None
         | [addr, msk] \<Rightarrow> read addr (Some msk)
         | _ \<Rightarrow> None)"

fun in_network :: "ip_address \<Rightarrow> ip_network \<Rightarrow> bool" where
  "in_network (IPv4Address a) (IPv4Network n m) \<longleftrightarrow> a AND m = n"
| "in_network (IPv6Address a _) (IPv6Network n m) \<longleftrightarrow> a AND m = n"
| "in_network _ _ \<longleftrightarrow> False"

section \<open>Printing\<close>

definition ipv4_str :: "32 word \<Rightarrow> string" where
  "ipv4_str v = join_on (CHR ''.'')
     (map (\<lambda>k. nat_str (unat (drop_bit k v AND 0xFF))) [24, 16, 8, 0])"

text \<open>\<open>_compress_hextets\<close>: the leftmost longest run of zero groups, found in one pass.\<close>

fun zero_run :: "nat \<Rightarrow> string list \<Rightarrow> nat option \<Rightarrow> nat \<Rightarrow> nat \<times> nat \<Rightarrow> nat \<times> nat" where
  "zero_run index [] start len best = best"
| "zero_run index (h # hs) start len best =
     (if h = ''0''
      then let len' = Suc len; start' = (case start of None \<Rightarrow> index | Some i \<Rightarrow> i)
           in zero_run (Suc index) hs (Some start') len' (if snd best < len' then (start', len') else best)
      else zero_run (Suc index) hs None 0 best)"

definition compress_hextets :: "string list \<Rightarrow> string list" where
  "compress_hextets hextets =
     (case zero_run 0 hextets None 0 (0, 0) of
        (start, len) \<Rightarrow>
          if len \<le> 1 then hextets
          else (if start = 0 then [[]] else []) @ take start hextets @ [[]] @ drop (start + len) hextets @
               (if start + len = length hextets then [[]] else []))"

definition hextets_of :: "128 word \<Rightarrow> nat list" where
  "hextets_of v = map (\<lambda>k. unat (drop_bit k v AND 0xFFFF)) [112, 96, 80, 64, 48, 32, 16, 0]"

text \<open>An address that maps an IPv4 address shows it in dotted form.\<close>

definition ipv6_str :: "128 word \<Rightarrow> string" where
  "ipv6_str v =
     (if drop_bit 32 v = 0xFFFF then ''::ffff:'' @ ipv4_str (ucast v)
      else join_on (CHR '':'') (compress_hextets (map hex_str (hextets_of v))))"

fun ip_str :: "ip_address \<Rightarrow> string" where
  "ip_str (IPv4Address v) = ipv4_str v"
| "ip_str (IPv6Address v scope_id) =
     (case scope_id of None \<Rightarrow> ipv6_str v | Some s \<Rightarrow> ipv6_str v @ CHR ''%'' # s)"

section \<open>Masks\<close>

lemma bit_netmask: "bit (netmask p :: 'a::len word) i \<longleftrightarrow> i < LENGTH('a) \<and> LENGTH('a) \<le> i + p"
  by (auto simp: netmask_def bit_simps)

text \<open>Agreeing under the mask of length \<open>p\<close> is agreeing on the first \<open>p\<close> bits.\<close>

lemma netmask_agree:
  fixes a b :: "'a::len word"
  assumes "p \<le> LENGTH('a)"
  shows "a AND netmask p = b AND netmask p \<longleftrightarrow> drop_bit (LENGTH('a) - p) a = drop_bit (LENGTH('a) - p) b"
proof
  assume "a AND netmask p = b AND netmask p"
  then have "bit (a AND netmask p) i = bit (b AND netmask p) i" for i by simp
  then have "bit a i = bit b i" if "LENGTH('a) \<le> i + p" for i
    using that bit_imp_le_length [of a i] bit_imp_le_length [of b i] by (metis bit_and_iff bit_netmask)
  then show "drop_bit (LENGTH('a) - p) a = drop_bit (LENGTH('a) - p) b"
    using assms by (intro bit_word_eqI) (simp add: bit_simps)
next
  assume "drop_bit (LENGTH('a) - p) a = drop_bit (LENGTH('a) - p) b"
  then have "bit (drop_bit (LENGTH('a) - p) a) j = bit (drop_bit (LENGTH('a) - p) b) j" for j by simp
  then have eq: "bit a (LENGTH('a) - p + j) = bit b (LENGTH('a) - p + j)" for j
    by (simp only: bit_drop_bit_eq comp_apply)
  have "bit a i = bit b i" if "LENGTH('a) \<le> i + p" for i
    using that assms eq [of "i - (LENGTH('a) - p)"] by simp
  then show "a AND netmask p = b AND netmask p"
    by (intro bit_word_eqI) (auto simp: bit_simps bit_netmask)
qed

section \<open>A printed address is read back\<close>

lemma split_join: "ps \<noteq> [] \<Longrightarrow> list_all (\<lambda>p. c \<notin> set p) ps \<Longrightarrow> split_on c (join_on c ps) = ps"
proof (induction c ps rule: join_on.induct)
  case (3 c x y ys)
  then show ?case by (simp add: split_on_append)
qed (simp_all add: split_on_absent)

lemma length_nat_str: "n < 10 ^ k \<Longrightarrow> 0 < k \<Longrightarrow> length (nat_str n) \<le> k"
proof (induction k arbitrary: n)
  case (Suc k)
  show ?case
  proof (cases "n < 10")
    case True
    then show ?thesis by (simp add: nat_str.simps [of n])
  next
    case False
    then have "0 < k" using Suc.prems(1) by (cases k) auto
    moreover have "n div 10 < 10 ^ k" using Suc.prems(1) by (simp add: less_mult_imp_div_less mult.commute)
    ultimately show ?thesis using Suc.IH [of "n div 10"] False by (simp add: nat_str.simps [of n])
  qed
qed simp

lemma hd_nat_str: "n \<noteq> 0 \<Longrightarrow> hd (nat_str n) \<noteq> CHR ''0''"
proof (induction n rule: nat_str.induct)
  case (1 n)
  show ?case
  proof (cases "n < 10")
    case True
    then have "digit_val (digit_char n) \<noteq> digit_val (CHR ''0'')" using "1.prems" by (simp add: digit_val_def of_char_digit_char)
    then show ?thesis using True by (metis list.sel(1) nat_str.simps)
  next
    case False
    then show ?thesis using 1 by (subst nat_str.simps) (simp add: hd_append)
  qed
qed

lemma parse_octet_str: "n < 256 \<Longrightarrow> parse_octet (nat_str n) = Some n"
  using length_nat_str [of n 3] nat_str_digits [of n] hd_nat_str [of n]
  by (cases "n = 0") (auto simp: parse_octet_def nat_str.simps [of 0] digit_char_0 digit_val_def)

lemma unat_octet: "unat (w AND 0xFF :: 32 word) < 256"
proof -
  have "w AND 0xFF = take_bit 8 w" by (simp add: take_bit_eq_mask mask_numeral)
  then have "unat (w AND 0xFF) = take_bit 8 (unat w)" by (simp only: unsigned_take_bit_eq)
  then show ?thesis using take_bit_nat_less_exp [of 8 "unat w"] by simp
qed

lemma octets_join:
  "push_bit 8 (push_bit 8 (push_bit 8 (drop_bit 24 v AND 0xFF) OR (drop_bit 16 v AND 0xFF)) OR (drop_bit 8 v AND 0xFF)) OR
     (v AND 0xFF) = (v :: 32 word)"
proof (rule bit_word_eqI)
  fix i assume i: "i < LENGTH(32)"
  have ff: "(0xFF :: 32 word) = mask 8" by (simp add: mask_numeral)
  show "bit (push_bit 8 (push_bit 8 (push_bit 8 (drop_bit 24 v AND 0xFF) OR (drop_bit 16 v AND 0xFF)) OR (drop_bit 8 v AND 0xFF)) OR
     (v AND 0xFF)) i = bit v i"
    unfolding ff using i
    by (cases "i < 8"; cases "i < 16"; cases "i < 24") (auto simp: bit_simps not_less)
qed

lemma ipv4_round_trip: "ipv4_of_string (ipv4_str v) = Some v"
proof -
  let ?o = "\<lambda>k. unat (drop_bit k v AND 0xFF)"
  have nodot: "CHR ''.'' \<notin> set (nat_str n)" for n
    using nat_str_digits [of n] digit_not_special(4) by (auto simp: list_all_iff)
  have "list_all (\<lambda>p. CHR ''.'' \<notin> set p) (map (\<lambda>k. nat_str (?o k)) [24, 16, 8, 0])"
    using nodot by simp
  then have sp: "split_on (CHR ''.'') (ipv4_str v) = map (\<lambda>k. nat_str (?o k)) [24, 16, 8, 0]"
    unfolding ipv4_str_def by (intro split_join) simp_all
  show ?thesis
    unfolding ipv4_of_string_def sp
    using octets_join [of v] by (simp add: parse_octet_str unat_octet)
qed

subsection \<open>Groups of an IPv6 address\<close>

lemma hex_str_props: "list_all is_hex (hex_str n)" "hex_str n \<noteq> []"
proof (induction n rule: hex_str.induct)
  case (1 n)
  show "list_all is_hex (hex_str n)" using 1 by (subst hex_str.simps) (auto simp: is_hex_char)
  show "hex_str n \<noteq> []" by (subst hex_str.simps) simp
qed

lemma hex_str_fold: "fold (\<lambda>c a. 16 * a + the (hex_val c)) (hex_str n) 0 = n"
proof (induction n rule: hex_str.induct)
  case (1 n)
  then show ?case by (subst hex_str.simps) auto
qed

lemma length_hex_str: "n < 16 ^ k \<Longrightarrow> 0 < k \<Longrightarrow> length (hex_str n) \<le> k"
proof (induction k arbitrary: n)
  case (Suc k)
  show ?case
  proof (cases "n < 16")
    case True
    then show ?thesis by (simp add: hex_str.simps [of n])
  next
    case False
    then have "0 < k" using Suc.prems(1) by (cases k) auto
    moreover have "n div 16 < 16 ^ k" using Suc.prems(1) by (simp add: less_mult_imp_div_less mult.commute)
    ultimately show ?thesis using Suc.IH [of "n div 16"] False by (simp add: hex_str.simps [of n])
  qed
qed simp

lemma parse_hextet_str: "n < 65536 \<Longrightarrow> parse_hextet (hex_str n) = Some n"
proof -
  assume "n < 65536"
  then have "length (hex_str n) \<le> 4" using length_hex_str [of n 4] by simp
  moreover have "list_all (\<lambda>c. hex_val c \<noteq> None) (hex_str n)"
    using hex_str_props(1) [of n] by (auto simp: list_all_iff is_hex_def)
  moreover have "hex_run False 0 (hex_str n) = Some n"
    using hex_run_append [OF hex_str_props(1) [of n] hex_str_props(2) [of n], of False 0 "[]"] by (simp add: hex_str_fold)
  ultimately show ?thesis by (simp add: parse_hextet_def)
qed

lemma hex_str_0: "hex_str 0 = ''0''"
  by (subst hex_str.simps) code_simp

lemma hex_str_zero: "hex_str n = ''0'' \<longleftrightarrow> n = 0"
proof
  assume "hex_str n = ''0''"
  then have "fold (\<lambda>c a. 16 * a + the (hex_val c)) (hex_str n) 0 = 0" by (simp add: hex_val_def)
  then show "n = 0" by (simp add: hex_str_fold)
qed (simp add: hex_str_0)

lemma parse_hextets_append:
  "parse_hextets (xs @ ys) acc = (case parse_hextets xs acc of None \<Rightarrow> None | Some v \<Rightarrow> parse_hextets ys v)"
  by (induction xs arbitrary: acc) (auto split: option.split)

lemma parse_zeros: "parse_hextets (replicate l ''0'') acc = Some (push_bit (16 * l) acc)"
proof (induction l arbitrary: acc)
  case (Suc l)
  have "parse_hextet ''0'' = Some 0" using parse_hextet_str [of 0] by (simp add: hex_str_0)
  with Suc show ?case by (simp add: add.commute)
qed simp

lemma parse_hextets_Some: "list_all (\<lambda>n. n < 65536) ns \<Longrightarrow> \<exists>v. parse_hextets (map hex_str ns) acc = Some v"
  by (induction ns arbitrary: acc) (auto simp: parse_hextet_str)

text \<open>The run found lies inside the list and consists of zeros.\<close>

definition run_in :: "string list \<Rightarrow> nat \<times> nat \<Rightarrow> bool" where
  "run_in hs r \<longleftrightarrow> fst r + snd r \<le> length hs \<and> (\<forall>i. fst r \<le> i \<and> i < fst r + snd r \<longrightarrow> hs ! i = ''0'')"

lemma zero_run_sound:
  assumes "run_in all best" and "drop index all = hs" and "index + length hs = length all"
    and "case start of None \<Rightarrow> len = 0 | Some i \<Rightarrow> i + len = index \<and> run_in all (i, len)"
  shows "run_in all (zero_run index hs start len best)"
  using assms
proof (induction index hs start len best rule: zero_run.induct)
  case (2 index h hs start len best)
  have h: "all ! index = h" and d: "drop (Suc index) all = hs"
    using "2.prems"(2,3) hd_drop_conv_nth [of index all] tl_drop [of index all] by (auto simp: drop_Suc)
  let ?start = "case start of None \<Rightarrow> index | Some i \<Rightarrow> i"
  show ?case
  proof (cases "h = ''0''")
    case True
    have st: "?start + Suc len = Suc index" using "2.prems"(4) by (auto split: option.splits)
    have run: "run_in all (?start, Suc len)"
      using "2.prems"(3,4) h True by (auto simp: run_in_def less_Suc_eq split: option.splits)
    show ?thesis
      using "2.IH"(1) [OF True refl refl] run st d "2.prems"(1,3) True by (simp add: Let_def)
  next
    case False
    then show ?thesis using "2.IH"(2) d "2.prems"(1,3) by simp
  qed
qed simp

lemma zero_run_in: "run_in hs (zero_run 0 hs None 0 (0, 0))"
  by (rule zero_run_sound) (simp_all add: run_in_def)

lemma length_compress: "3 \<le> length hs \<Longrightarrow> 3 \<le> length (compress_hextets hs)"
  using zero_run_in [of hs] by (auto simp: compress_hextets_def run_in_def split: prod.split)

lemma filter_single: "m \<le> k \<Longrightarrow> k < n \<Longrightarrow> (\<And>i. m \<le> i \<Longrightarrow> i < n \<Longrightarrow> P i \<longleftrightarrow> i = k) \<Longrightarrow> filter P [m..<n] = [k]"
proof -
  assume a: "m \<le> k" "k < n" and P: "\<And>i. m \<le> i \<Longrightarrow> i < n \<Longrightarrow> P i \<longleftrightarrow> i = k"
  have "[m..<n] = [m..<k] @ k # [Suc k..<n]"
    using a upt_add_eq_append [of m k "n - k"] upt_conv_Cons [of k n] by simp
  moreover have "filter P [m..<k] = []" "filter P [Suc k..<n] = []" using P a by (auto simp: filter_empty_conv)
  ultimately show "filter P [m..<n] = [k]" using P a by simp
qed

lemma compressed_parts:
  assumes hs: "hs = pre @ replicate l ''0'' @ post" "length hs = 8" "[] \<notin> set hs" "2 \<le> l"
    and v: "parse_hextets pre 0 = Some v"
    and parts: "parts = (if pre = [] then [[]] else []) @ pre @ [[]] @ post @ (if post = [] then [[]] else [])"
  shows "ipv6_of_parts parts = parse_hextets hs 0"
proof -
  let ?skip = "if pre = [] then 1 else length pre"
  have len: "length pre + l + length post = 8" using hs(1,2) by simp
  have n: "length parts = length pre + length post + 1 + (if pre = [] then 1 else 0) + (if post = [] then 1 else 0)"
    unfolding parts by simp
  have inner: "parts ! i = [] \<longleftrightarrow> i = ?skip" if "1 \<le> i" "i < length parts - 1" for i
  proof -
    have "x \<noteq> []" if "x \<in> set pre \<union> set post" for x using that hs(1,3) by auto
    then have ne: "j < length pre \<Longrightarrow> pre ! j \<noteq> []" "j < length post \<Longrightarrow> post ! j \<noteq> []" for j
      by (meson UnI1 UnI2 nth_mem)+
    show ?thesis using that n ne unfolding parts by (auto simp: nth_append nth_Cons' split: if_splits)
  qed
  have skip: "filter (\<lambda>i. parts ! i = []) [1..<length parts - 1] = [?skip]"
    by (rule filter_single [OF _ _ inner]) (use n in \<open>auto simp: Suc_le_eq\<close>)
  have ends: "hd parts = [] \<longleftrightarrow> pre = []" "last parts = [] \<longleftrightarrow> post = []"
    using hs(1,3) unfolding parts by (auto simp: hd_append last_append) (metis hd_in_set, metis last_in_set)
  have cut: "take (length pre) parts = pre" "drop (length parts - length post) parts = post"
    unfolding parts by auto
  have lo: "length parts - ?skip - 1 - (if post = [] then 1 else 0) = length post"
    "(if pre = [] then ?skip - 1 else ?skip) = length pre" using n by auto
  have l: "8 - (length pre + length post) = l" using len by simp
  have "parse_hextets hs 0 = parse_hextets post (push_bit (16 * l) v)"
    by (simp add: hs(1) parse_hextets_append parse_zeros v)
  moreover have "ipv6_of_parts parts = parse_hextets post (push_bit (16 * l) v)"
    unfolding ipv6_of_parts_def skip list.case ends lo Let_def cut v option.case l
    using n len hs(4) by auto
  ultimately show ?thesis by simp
qed

lemma plain_parts: "length hs = 8 \<Longrightarrow> [] \<notin> set hs \<Longrightarrow> ipv6_of_parts hs = parse_hextets hs 0"
proof -
  assume a: "length hs = 8" "[] \<notin> set hs"
  then have ne: "hs \<noteq> []" by auto
  have "hd hs \<noteq> []" "last hs \<noteq> []" using a(2) hd_in_set [OF ne] last_in_set [OF ne] by metis+
  moreover have "hs ! i \<noteq> []" if "i < length hs" for i using a(2) nth_mem [OF that] by metis
  then have "filter (\<lambda>i. hs ! i = []) [1..<length hs - 1] = []" by (auto simp: filter_empty_conv)
  ultimately show ?thesis using a(1) by (simp add: ipv6_of_parts_def)
qed

lemma compress_parse:
  assumes "length ns = 8" and "list_all (\<lambda>n. n < 65536) ns"
  shows "ipv6_of_parts (compress_hextets (map hex_str ns)) = parse_hextets (map hex_str ns) 0"
proof -
  let ?hs = "map hex_str ns"
  obtain start len where r: "zero_run 0 ?hs None 0 (0, 0) = (start, len)" by fastforce
  have ne: "[] \<notin> set ?hs" by (metis (no_types) hex_str_props(2) imageE list.set_map)
  have run: "run_in ?hs (start, len)" using zero_run_in [of ?hs] by (simp only: r)
  show ?thesis
  proof (cases "len \<le> 1")
    case True
    then show ?thesis using plain_parts [OF _ ne] assms(1) by (simp add: compress_hextets_def r)
  next
    case False
    have b: "start + len \<le> 8" using run assms(1) by (simp add: run_in_def)
    have z: "take len (drop start ?hs) = replicate len ''0''"
      using run b assms(1) by (intro nth_equalityI) (auto simp: run_in_def)
    have split: "?hs = take start ?hs @ replicate len ''0'' @ drop (start + len) ?hs"
      unfolding z [symmetric] by (metis add.commute append_take_drop_id drop_drop)
    obtain v where v: "parse_hextets (take start ?hs) 0 = Some v"
      using parse_hextets_Some [of "take start ns" 0] assms(2) by (auto simp: take_map list_all_iff dest: in_set_takeD)
    have "take start ?hs = [] \<longleftrightarrow> start = 0" "drop (start + len) ?hs = [] \<longleftrightarrow> start + len = length ?hs"
      using assms(1) b by auto
    then show ?thesis
      using compressed_parts [OF split _ ne _ v refl] False assms(1) by (simp add: compress_hextets_def r)
  qed
qed

subsection \<open>Addresses\<close>

lemma unat_group: "unat (w AND 0xFFFF :: 'a::len word) < 65536"
proof -
  have "(w AND 0xFFFF) = take_bit 16 w" by (simp add: take_bit_eq_mask mask_numeral)
  then have "unat (w AND 0xFFFF) = take_bit 16 (unat w)" by (simp only: unsigned_take_bit_eq)
  then show ?thesis using take_bit_nat_less_exp [of 16 "unat w"] by simp
qed

lemma group_bit: "bit (w AND 0xFFFF :: 'a::len word) i \<longleftrightarrow> bit w i \<and> i < 16"
proof -
  have "(w AND 0xFFFF) = take_bit 16 w" by (simp add: take_bit_eq_mask mask_numeral)
  then show ?thesis by (auto simp: bit_simps)
qed

text \<open>Reading groups one after the other shifts and fills in.\<close>

lemma parse_groups:
  "parse_hextets (map (\<lambda>k. hex_str (unat (drop_bit (16 * k) v AND 0xFFFF))) (rev [0..<m])) (drop_bit (16 * m) v) = Some (v :: 128 word)"
proof (induction m)
  case (Suc m)
  have "push_bit 16 (drop_bit (16 * Suc m) v) OR (drop_bit (16 * m) v AND 0xFFFF) = drop_bit (16 * m) v"
  proof (rule bit_word_eqI)
    fix i assume "i < LENGTH(128)"
    then show "bit (push_bit 16 (drop_bit (16 * Suc m) v) OR (drop_bit (16 * m) v AND 0xFFFF)) i = bit (drop_bit (16 * m) v) i"
      by (cases "16 \<le> i") (simp_all add: bit_or_iff group_bit bit_push_bit_iff bit_drop_bit_eq)
  qed
  with Suc show ?case by (simp add: parse_hextet_str unat_group)
qed simp

lemma hextets_of_rev: "hextets_of v = map (\<lambda>k. unat (drop_bit (16 * k) v AND 0xFFFF)) (rev [0..<8])"
  by (simp add: hextets_of_def upt_rec)

lemma parse_hextets_of: "parse_hextets (map hex_str (hextets_of v)) 0 = Some v"
  using parse_groups [of v 8] by (simp add: hextets_of_rev comp_def)

lemma join_on_mem: "2 \<le> length ps \<Longrightarrow> c \<in> set (join_on c ps)"
  by (induction c ps rule: join_on.induct) auto

lemma join_on_set: "set (join_on c ps) \<subseteq> {c} \<union> \<Union> (set ` set ps)"
  by (induction c ps rule: join_on.induct) auto

lemma ipv4_text: "ipv4_of_string s = Some v \<Longrightarrow> x \<in> set s \<Longrightarrow> is_digit x \<or> x = CHR ''.''"
proof -
  assume "ipv4_of_string s = Some v" and x: "x \<in> set s"
  then obtain a b c d where sp: "split_on (CHR ''.'') s = [a, b, c, d]"
    and o: "parse_octet a \<noteq> None" "parse_octet b \<noteq> None" "parse_octet c \<noteq> None" "parse_octet d \<noteq> None"
    by (auto simp: ipv4_of_string_def split: list.splits option.splits)
  have "list_all is_digit t" if "parse_octet t \<noteq> None" for t using that by (auto simp: parse_octet_def split: if_splits)
  with o have "list_all is_digit a" "list_all is_digit b" "list_all is_digit c" "list_all is_digit d" by blast+
  moreover have "s = join_on (CHR ''.'') [a, b, c, d]" using split_on_join [of "CHR ''.''" s] sp by simp
  ultimately show ?thesis using x by (auto simp: list_all_iff)
qed

lemma ipv4_str_chars: "x \<in> set (ipv4_str v) \<Longrightarrow> is_digit x \<or> x = CHR ''.''"
  by (rule ipv4_text [OF ipv4_round_trip])

lemma compress_mem: "p \<in> set (compress_hextets hs) \<Longrightarrow> p = [] \<or> p \<in> set hs"
  by (auto simp: compress_hextets_def split: if_splits prod.splits dest: in_set_takeD in_set_dropD)

lemma ipv6_mapped_bits:
  "push_bit 16 (push_bit 16 (drop_bit 32 v) OR ucast (drop_bit 16 (ucast v :: 32 word))) OR ucast ((ucast v :: 32 word) AND 0xFFFF) =
    (v :: 128 word)" (is "?l = v")
proof (rule bit_word_eqI)
  fix i assume "i < LENGTH(128)"
  then show "bit ?l i = bit v i"
    by (cases "i < 16"; cases "i < 32")
      (auto simp: bit_or_iff bit_push_bit_iff bit_ucast_iff group_bit bit_drop_bit_eq not_less)
qed

lemma unat_high_group: "unat (drop_bit 16 (w :: 32 word)) < 65536"
proof -
  have "drop_bit 16 w AND 0xFFFF = drop_bit 16 w"
    by (rule bit_word_eqI) (auto simp: group_bit bit_drop_bit_eq dest: bit_imp_le_length)
  then show ?thesis using unat_group [of "drop_bit 16 w"] by simp
qed

lemma mapped_parts:
  assumes "a < 65536" and "b < 65536"
  shows "ipv6_of_parts [[], [], ''ffff'', hex_str a, hex_str b] =
    Some (push_bit 16 (push_bit 16 0xFFFF OR of_nat a) OR of_nat b)"
proof -
  have "parse_hextet ''ffff'' = Some 65535" by (simp add: parse_hextet_def hex_val_def)
  moreover have "[Suc 0..<4] = [1, 2, 3]" by (simp add: upt_rec)
  ultimately show ?thesis
    using assms by (simp add: ipv6_of_parts_def hex_str_props parse_hextet_str)
qed

lemma not_hex: "\<not> is_hex (CHR '':'')" "\<not> is_hex (CHR ''.'')" "\<not> is_hex (CHR ''%'')" "\<not> is_hex (CHR ''/'')"
proof -
  have "hex_val c \<noteq> None" if "is_hex c" for c using that by (auto simp: is_hex_def)
  moreover have "hex_val (CHR '':'') = None" "hex_val (CHR ''.'') = None" "hex_val (CHR ''%'') = None" "hex_val (CHR ''/'') = None"
    by (simp_all add: hex_val_def)
  ultimately show "\<not> is_hex (CHR '':'')" "\<not> is_hex (CHR ''.'')" "\<not> is_hex (CHR ''%'')" "\<not> is_hex (CHR ''/'')" by blast+
qed

lemma ipv6_round_trip: "ipv6_of_string (ipv6_str v) = Some v"
proof (cases "drop_bit 32 v = 0xFFFF")
  case True
  let ?w = "ucast v :: 32 word"
  have colon: "CHR '':'' \<notin> set (ipv4_str ?w)" using ipv4_str_chars [of "CHR '':''" ?w] by (auto simp: is_digit_def)
  have sp: "split_on (CHR '':'') (ipv6_str v) = [[], [], ''ffff'', ipv4_str ?w]"
    using split_join [of "[[], [], ''ffff'', ipv4_str ?w]" "CHR '':''"] colon True by (simp add: ipv6_str_def)
  have dot: "CHR ''.'' \<in> set (ipv4_str ?w)" unfolding ipv4_str_def by (rule join_on_mem) simp
  have ex: "expand_ipv4_suffix [[], [], ''ffff'', ipv4_str ?w] =
      Some [[], [], ''ffff'', hex_str (unat (drop_bit 16 ?w)), hex_str (unat (?w AND 0xFFFF))]"
    using dot by (simp add: expand_ipv4_suffix_def ipv4_round_trip)
  show ?thesis
    unfolding ipv6_of_string_def sp Let_def ex option.case mapped_parts [OF unat_high_group [of ?w] unat_group [of ?w]]
      of_nat_unat True [symmetric] ipv6_mapped_bits by simp
next
  case False
  let ?ps = "compress_hextets (map hex_str (hextets_of v))"
  have groups: "length (hextets_of v) = 8" "list_all (\<lambda>n. n < 65536) (hextets_of v)"
    by (simp_all add: hextets_of_def unat_group)
  have hex: "p = [] \<or> list_all is_hex p" if "p \<in> set ?ps" for p
    using compress_mem [OF that] hex_str_props(1) by auto
  have no: "c \<notin> set p" if "p \<in> set ?ps" "\<not> is_hex c" for p c using hex [OF that(1)] that(2) by (auto simp: list_all_iff)
  have len: "3 \<le> length ?ps" by (rule length_compress) (simp add: groups)
  then have ne: "?ps \<noteq> []" by auto
  have sp: "split_on (CHR '':'') (ipv6_str v) = ?ps"
    using split_join [of ?ps "CHR '':''"] no not_hex(1) ne False by (auto simp: ipv6_str_def list_all_iff)
  have "CHR ''.'' \<notin> set (last ?ps)" by (rule no [OF last_in_set [OF ne] not_hex(2)])
  then have ex: "expand_ipv4_suffix ?ps = Some ?ps" by (simp add: expand_ipv4_suffix_def)
  show ?thesis
    unfolding ipv6_of_string_def sp Let_def ex
    using len compress_parse [OF groups] parse_hextets_of [of v] by simp
qed

lemma ipv6_str_chars: "x \<in> set (ipv6_str v) \<Longrightarrow> is_hex x \<or> is_digit x \<or> x = CHR '':'' \<or> x = CHR ''.''"
proof (cases "drop_bit 32 v = 0xFFFF")
  case True
  have "is_hex (CHR ''f'')" unfolding is_hex_def by (rule exI [of _ 15]) code_simp
  moreover assume "x \<in> set (ipv6_str v)"
  ultimately show ?thesis using True ipv4_str_chars [of x] by (auto simp: ipv6_str_def)
next
  case False
  let ?ps = "compress_hextets (map hex_str (hextets_of v))"
  assume "x \<in> set (ipv6_str v)"
  then have "x = CHR '':'' \<or> (\<exists>p \<in> set ?ps. x \<in> set p)"
    using False join_on_set [of "CHR '':''" ?ps] by (auto simp: ipv6_str_def)
  moreover have "is_hex y" if "p \<in> set ?ps" "y \<in> set p" for p y
    using compress_mem [OF that(1)] that(2) hex_str_props(1) by (auto simp: list_all_iff)
  ultimately show ?thesis by blast
qed

lemma ipv6_str_plain: "CHR ''%'' \<notin> set (ipv6_str v)" "CHR ''/'' \<notin> set (ipv6_str v)"
  using ipv6_str_chars not_hex(3,4) by (fastforce simp: is_digit_def)+

lemma ipv6_str_colon: "CHR '':'' \<in> set (ipv6_str v)"
proof (cases "drop_bit 32 v = 0xFFFF")
  case False
  have "3 \<le> length (compress_hextets (map hex_str (hextets_of v)))" by (rule length_compress) (simp add: hextets_of_def)
  then show ?thesis using False by (auto simp: ipv6_str_def intro: join_on_mem)
qed (simp add: ipv6_str_def)

lemma scope_split:
  assumes "CHR ''%'' \<notin> set s"
  shows "split_scope_id s = Some (s, None)"
    "t \<noteq> [] \<Longrightarrow> CHR ''%'' \<notin> set t \<Longrightarrow> split_scope_id (s @ CHR ''%'' # t) = Some (s, Some t)"
proof -
  have "takeWhile (\<lambda>c. c \<noteq> CHR ''%'') s = s" "dropWhile (\<lambda>c. c \<noteq> CHR ''%'') s = []"
    using assms by (auto simp: takeWhile_eq_all_conv)
  then show "split_scope_id s = Some (s, None)" by (simp add: split_scope_id_def)
  have "takeWhile (\<lambda>c. c \<noteq> CHR ''%'') (s @ CHR ''%'' # t) = s" "dropWhile (\<lambda>c. c \<noteq> CHR ''%'') (s @ CHR ''%'' # t) = CHR ''%'' # t"
    using assms by (auto simp: takeWhile_append dropWhile_append)
  then show "t \<noteq> [] \<Longrightarrow> CHR ''%'' \<notin> set t \<Longrightarrow> split_scope_id (s @ CHR ''%'' # t) = Some (s, Some t)"
    by (simp add: split_scope_id_def)
qed

text \<open>What the parser accepts as an IPv6 scope: not empty, without \<open>%\<close> and \<open>/\<close>.\<close>

fun scope_ok :: "ip_address \<Rightarrow> bool" where
  "scope_ok (IPv4Address _) = True"
| "scope_ok (IPv6Address _ None) = True"
| "scope_ok (IPv6Address _ (Some s)) \<longleftrightarrow> s \<noteq> [] \<and> CHR ''%'' \<notin> set s \<and> CHR ''/'' \<notin> set s"

lemma scope_of_split:
  assumes "split_scope_id s = Some (addr, Some t)"
  shows "t \<noteq> []" "CHR ''%'' \<notin> set t" "set t \<subseteq> set s"
proof -
  let ?r = "dropWhile (\<lambda>c. c \<noteq> CHR ''%'') s"
  from assms have t: "t = tl ?r" "?r \<noteq> []" and "t \<noteq> []" "CHR ''%'' \<notin> set t"
    by (auto simp: split_scope_id_def Let_def split: if_splits)
  then show "t \<noteq> []" "CHR ''%'' \<notin> set t" by blast+
  show "set t \<subseteq> set s"
  proof
    fix c assume "c \<in> set t"
    then have "c \<in> set ?r" using t by (metis list.set_sel(2))
    then show "c \<in> set s" by (blast dest: set_dropWhileD)
  qed
qed

lemma ip_address_scope: "ip_address s = Some a \<Longrightarrow> scope_ok a"
proof (cases a rule: scope_ok.cases)
  case (3 v t)
  assume "ip_address s = Some a"
  with 3 have "ipv6_address s = Some (v, Some t)" by (auto simp: ip_address_def split: option.splits)
  then obtain addr where "split_scope_id s = Some (addr, Some t)" "CHR ''/'' \<notin> set s"
    by (auto simp: ipv6_address_def split: if_splits option.splits)
  then show ?thesis using 3 scope_of_split [of s addr t] by auto
qed simp_all

lemma ip_str_round_trip: "scope_ok a \<Longrightarrow> ip_address (ip_str a) = Some a"
proof (cases a)
  case (IPv4Address v)
  then show ?thesis by (simp add: ip_address_def ipv4_round_trip)
next
  case (IPv6Address v scope)
  assume ok: "scope_ok a"
  have "CHR '':'' \<in> set (ip_str a)" using ipv6_str_colon [of v] IPv6Address by (auto split: option.split)
  then have "ipv4_of_string (ip_str a) = None"
    using ipv4_text [of "ip_str a" _ "CHR '':''"] by (cases "ipv4_of_string (ip_str a)") (auto simp: is_digit_def)
  then show ?thesis
    using ok IPv6Address ipv6_str_plain [of v] scope_split [of "ipv6_str v"] ipv6_round_trip [of v]
    by (cases scope) (auto simp: ip_address_def ipv6_address_def)
qed

text \<open>Every address that was read is read back from its text: the text is a canonical name of the address.\<close>

lemma ip_str_canonical:
  assumes "ip_address s = Some a" and "ip_address t = Some b"
  shows "ip_address (ip_str a) = Some a" and "ip_str a = ip_str b \<longleftrightarrow> a = b"
proof -
  have "ip_address (ip_str a) = Some a" "ip_address (ip_str b) = Some b"
    using assms ip_address_scope ip_str_round_trip by blast+
  then show "ip_address (ip_str a) = Some a" "ip_str a = ip_str b \<longleftrightarrow> a = b" by (metis option.inject)+
qed

end
