(* ===== verification/App_Settings.thy ===== *)
theory App_Settings
  imports Py_Ipaddress Shioaji_Provider Core_Commands Account_Commands
begin

text \<open>
  \<open>core/config.py\<close>: the settings, the checks that stop the application from booting on an inconsistent
  environment, and what is derived from them; \<open>services/quote/factory.py\<close> and \<open>create_app\<close> of \<open>main.py\<close>,
  which assemble the application from them. Reading the environment into typed fields is the settings
  library's work: a value of \<open>app_settings\<close> is its result. Floats are rationals.
\<close>

section \<open>Settings\<close>

datatype quote_provider_name = shioaji_demo | in_memory

record app_settings =
  cf_app_env :: string
  cf_app_name :: string
  cf_app_version :: string
  cf_database_url :: "string option"
  cf_local_user_id :: "uuid option"
  cf_local_mode :: bool
  cf_initial_admin_email :: "string option"
  cf_initial_admin_password :: "string option"
  cf_initial_admin_allow_non_local :: bool
  cf_request_id_header :: string
  cf_app_base_url :: string
  cf_trusted_proxy_ips :: "string option"
  cf_cors_allow_origins :: string
  cf_quote_provider :: quote_provider_name
  cf_shioaji_api_key :: "string option"
  cf_shioaji_secret_key :: "string option"
  cf_shioaji_max_subscriptions :: int
  cf_shioaji_simulation :: bool
  cf_shioaji_demo_allowed_symbols :: "string option"
  cf_ses_from_address :: "string option"
  cf_ses_region :: "string option"
  cf_ses_smtp_username :: "string option"
  cf_ses_smtp_password :: "string option"
  cf_telegram_bot_token :: "string option"
  cf_telegram_chat_id :: "string option"
  cf_telegram_timeout_seconds :: rat
  cf_telegram_webhook_secret :: "string option"
  cf_telegram_owner_email :: string
  cf_telegram_webhook_url :: "string option"
  cf_telegram_llm_model :: string
  cf_telegram_llm_timeout_seconds :: rat
  cf_openai_api_key :: "string option"
  cf_twap_worker_enabled :: bool
  cf_twap_worker_interval_seconds :: rat
  cf_intent_limit_per_user :: int
  cf_intent_limit_per_symbol :: int
  cf_mutation_rate_limit_capacity :: rat
  cf_mutation_rate_limit_refill_per_second :: rat
  cf_idempotency_cleanup_enabled :: bool
  cf_idempotency_cleanup_interval_seconds :: rat
  cf_jwt_access_secret :: "string option"
  cf_access_token_ttl_user_seconds :: int
  cf_access_token_ttl_admin_seconds :: int
  cf_refresh_token_ttl_user_seconds :: int
  cf_refresh_token_ttl_admin_seconds :: int
  cf_argon2_time_cost :: int
  cf_argon2_memory_cost :: int
  cf_argon2_parallelism :: int
  cf_mfa_encryption_key :: "string option"

definition default_settings :: app_settings where
  "default_settings =
    \<lparr>cf_app_env = ''local'', cf_app_name = ''ai-stock-api'', cf_app_version = ''0.5.0'',
     cf_database_url = None, cf_local_user_id = None, cf_local_mode = True, cf_initial_admin_email = None,
     cf_initial_admin_password = None, cf_initial_admin_allow_non_local = False,
     cf_request_id_header = ''X-Request-Id'', cf_app_base_url = ''http://localhost:3000'',
     cf_trusted_proxy_ips = None,
     cf_cors_allow_origins = ''http://localhost:3000,http://127.0.0.1:3000,http://localhost:3001,http://127.0.0.1:3001,http://localhost:3100,http://127.0.0.1:3100'',
     cf_quote_provider = shioaji_demo, cf_shioaji_api_key = None, cf_shioaji_secret_key = None,
     cf_shioaji_max_subscriptions = 5, cf_shioaji_simulation = False, cf_shioaji_demo_allowed_symbols = None,
     cf_ses_from_address = None, cf_ses_region = None, cf_ses_smtp_username = None,
     cf_ses_smtp_password = None, cf_telegram_bot_token = None, cf_telegram_chat_id = None,
     cf_telegram_timeout_seconds = 5, cf_telegram_webhook_secret = None,
     cf_telegram_owner_email = ''admin@tingfong.com'', cf_telegram_webhook_url = None,
     cf_telegram_llm_model = ''gpt-6-luna'', cf_telegram_llm_timeout_seconds = 10, cf_openai_api_key = None,
     cf_twap_worker_enabled = True, cf_twap_worker_interval_seconds = 1, cf_intent_limit_per_user = 200,
     cf_intent_limit_per_symbol = 20, cf_mutation_rate_limit_capacity = 60,
     cf_mutation_rate_limit_refill_per_second = 1, cf_idempotency_cleanup_enabled = True,
     cf_idempotency_cleanup_interval_seconds = 3600, cf_jwt_access_secret = None,
     cf_access_token_ttl_user_seconds = 900, cf_access_token_ttl_admin_seconds = 300,
     cf_refresh_token_ttl_user_seconds = 2592000, cf_refresh_token_ttl_admin_seconds = 43200,
     cf_argon2_time_cost = 3, cf_argon2_memory_cost = 65536, cf_argon2_parallelism = 4,
     cf_mfa_encryption_key = None\<rparr>"

text \<open>A \<open>ValueError\<close> raised by a check, with its text; one raised by \<open>ip_network\<close>, with the token.\<close>

datatype settings_error = SettingsError string | NetworkError string

text \<open>Truth of an optional text.\<close>

definition given :: "string option \<Rightarrow> bool" where
  "given v \<longleftrightarrow> v \<noteq> None \<and> v \<noteq> Some []"

fun comma_join :: "string list \<Rightarrow> string" where
  "comma_join [] = []"
| "comma_join [x] = x"
| "comma_join (x # y # ys) = x @ '', '' @ comma_join (y # ys)"

definition missing :: "(string \<times> string option) list \<Rightarrow> string list" where
  "missing values = map fst (filter (\<lambda>(env, v). \<not> given v) values)"

section \<open>Checks\<close>

definition ses_values :: "app_settings \<Rightarrow> (string \<times> string option) list" where
  "ses_values s = [(''SES_FROM_ADDRESS'', cf_ses_from_address s), (''SES_REGION'', cf_ses_region s),
     (''SES_SMTP_USERNAME'', cf_ses_smtp_username s), (''SES_SMTP_PASSWORD'', cf_ses_smtp_password s)]"

definition enforce_ses_all_or_none :: "app_settings \<Rightarrow> settings_error + app_settings" where
  "enforce_ses_all_or_none s =
     (if list_ex (\<lambda>(_, v). given v) (ses_values s) \<and> \<not> list_all (\<lambda>(_, v). given v) (ses_values s)
      then Inl (SettingsError (''SES is partially configured; missing '' @ comma_join (missing (ses_values s)) @
        ''. Set all four SES_* values to send real mail, or none to use the logging stub.''))
      else Inr s)"

definition enforce_local_user_id :: "app_settings \<Rightarrow> settings_error + app_settings" where
  "enforce_local_user_id s =
     (if cf_local_mode s \<and> cf_local_user_id s = None
      then Inl (SettingsError ''LOCAL_USER_ID is required when LOCAL_MODE is true'') else Inr s)"

definition webhook_secret_char :: "char \<Rightarrow> bool" where
  "webhook_secret_char c = (let n = (of_char c :: nat)
     in (65 \<le> n \<and> n \<le> 90) \<or> (97 \<le> n \<and> n \<le> 122) \<or> (48 \<le> n \<and> n \<le> 57) \<or> c = CHR ''_'' \<or> c = CHR ''-'')"

text \<open>A webhook secret that is set (an empty one counts as unset) has a form Telegram accepts.\<close>

definition webhook_secret_ok :: "string option \<Rightarrow> bool" where
  "webhook_secret_ok v = (case v of
      None \<Rightarrow> True
    | Some secret \<Rightarrow>
        secret = [] \<or> (1 \<le> length secret \<and> length secret \<le> 256 \<and> list_all webhook_secret_char secret))"

definition validate_telegram_settings :: "app_settings \<Rightarrow> settings_error + app_settings" where
  "validate_telegram_settings s =
     (if cf_telegram_llm_timeout_seconds s \<le> 0
      then Inl (SettingsError ''TELEGRAM_LLM_TIMEOUT_SECONDS must be positive'')
      else if cf_telegram_timeout_seconds s \<le> 0
      then Inl (SettingsError ''TELEGRAM_TIMEOUT_SECONDS must be positive'')
      else if \<not> webhook_secret_ok (cf_telegram_webhook_secret s)
      then Inl (SettingsError ''TELEGRAM_WEBHOOK_SECRET must be 1-256 characters using only A-Z, a-z, 0-9, _ or -'')
      else if strip (cf_telegram_owner_email s) = []
      then Inl (SettingsError ''TELEGRAM_OWNER_EMAIL must not be empty'')
      else Inr s)"

definition inbound_values :: "app_settings \<Rightarrow> (string \<times> string option) list" where
  "inbound_values s = [(''TELEGRAM_BOT_TOKEN'', cf_telegram_bot_token s), (''TELEGRAM_CHAT_ID'', cf_telegram_chat_id s),
     (''TELEGRAM_WEBHOOK_SECRET'', cf_telegram_webhook_secret s), (''OPENAI_API_KEY'', cf_openai_api_key s)]"

definition inbound_enabled :: "app_settings \<Rightarrow> bool" where
  "inbound_enabled s \<longleftrightarrow> given (cf_openai_api_key s) \<or> given (cf_telegram_webhook_secret s) \<or> given (cf_telegram_webhook_url s)"

definition enforce_production_telegram_inbound_config :: "app_settings \<Rightarrow> settings_error + app_settings" where
  "enforce_production_telegram_inbound_config s =
     (if \<not> cf_local_mode s \<and> inbound_enabled s \<and> missing (inbound_values s) \<noteq> []
      then Inl (SettingsError (''Telegram inbound workflow is partially configured; missing '' @
        comma_join (missing (inbound_values s))))
      else Inr s)"

definition enforce_jwt_access_secret :: "app_settings \<Rightarrow> settings_error + app_settings" where
  "enforce_jwt_access_secret s =
     (if \<not> cf_local_mode s \<and> \<not> given (cf_jwt_access_secret s)
      then Inl (SettingsError ''JWT_ACCESS_SECRET is required when LOCAL_MODE is false'') else Inr s)"

definition enforce_mfa_encryption_key :: "app_settings \<Rightarrow> settings_error + app_settings" where
  "enforce_mfa_encryption_key s =
     (if \<not> cf_local_mode s \<and> \<not> given (cf_mfa_encryption_key s)
      then Inl (SettingsError ''MFA_ENCRYPTION_KEY is required when LOCAL_MODE is false'') else Inr s)"

fun read_networks :: "string list \<Rightarrow> settings_error + ip_network list" where
  "read_networks [] = Inr []"
| "read_networks (token # tokens) =
     (if strip token = [] then read_networks tokens
      else case ip_network (strip token) of
        None \<Rightarrow> Inl (NetworkError (strip token))
      | Some n \<Rightarrow> r_bind (read_networks tokens) (\<lambda>ns. Inr (n # ns)))"

definition trusted_proxy_networks :: "app_settings \<Rightarrow> settings_error + ip_network list" where
  "trusted_proxy_networks s = (case cf_trusted_proxy_ips s of
      None \<Rightarrow> Inr []
    | Some t \<Rightarrow> if t = [] then Inr [] else read_networks (split_on (CHR '','') t))"

definition validate_trusted_proxy_ips :: "app_settings \<Rightarrow> settings_error + app_settings" where
  "validate_trusted_proxy_ips s = r_bind (trusted_proxy_networks s) (\<lambda>_. Inr s)"

definition shioaji_values :: "app_settings \<Rightarrow> (string \<times> string option) list" where
  "shioaji_values s = [(''SHIOAJI_API_KEY'', cf_shioaji_api_key s), (''SHIOAJI_SECRET_KEY'', cf_shioaji_secret_key s)]"

definition enforce_shioaji_credentials :: "app_settings \<Rightarrow> settings_error + app_settings" where
  "enforce_shioaji_credentials s =
     (if cf_quote_provider s = shioaji_demo \<and> missing (shioaji_values s) \<noteq> []
      then Inl (SettingsError (''QUOTE_PROVIDER=shioaji_demo requires '' @ comma_join (missing (shioaji_values s)) @
        ''; set them in .env or switch to QUOTE_PROVIDER=in_memory for tests.''))
      else Inr s)"

text \<open>The checks run in the order of their declaration; the first that fails stops the boot.\<close>

definition load_settings :: "app_settings \<Rightarrow> settings_error + app_settings" where
  "load_settings s =
     r_bind (enforce_ses_all_or_none s) (\<lambda>s. r_bind (enforce_local_user_id s) (\<lambda>s.
     r_bind (validate_telegram_settings s) (\<lambda>s. r_bind (enforce_production_telegram_inbound_config s) (\<lambda>s.
     r_bind (enforce_jwt_access_secret s) (\<lambda>s. r_bind (enforce_mfa_encryption_key s) (\<lambda>s.
     r_bind (validate_trusted_proxy_ips s) enforce_shioaji_credentials))))))"

section \<open>Derived values\<close>

definition DEV_JWT_ACCESS_SECRET :: string where
  "DEV_JWT_ACCESS_SECRET = ''dev-only-insecure-jwt-access-secret-do-not-use-in-prod''"

text \<open>The base64 form of \<open>dev-mfa-key-do-not-use-in-prod!!\<close>.\<close>

definition DEV_MFA_ENCRYPTION_KEY :: string where
  "DEV_MFA_ENCRYPTION_KEY = ''ZGV2LW1mYS1rZXktZG8tbm90LXVzZS1pbi1wcm9kISE=''"

definition resolved_ses_mailer_config :: "app_settings \<Rightarrow> (string \<times> string \<times> string \<times> string) option" where
  "resolved_ses_mailer_config s =
     (case (cf_ses_from_address s, cf_ses_region s, cf_ses_smtp_username s, cf_ses_smtp_password s) of
        (Some a, Some r, Some u, Some p) \<Rightarrow> if a \<noteq> [] \<and> r \<noteq> [] \<and> u \<noteq> [] \<and> p \<noteq> [] then Some (a, r, u, p) else None
      | _ \<Rightarrow> None)"

definition resolved_mfa_encryption_key :: "app_settings \<Rightarrow> string" where
  "resolved_mfa_encryption_key s = (case cf_mfa_encryption_key s of
      Some k \<Rightarrow> if k \<noteq> [] then k else DEV_MFA_ENCRYPTION_KEY | None \<Rightarrow> DEV_MFA_ENCRYPTION_KEY)"

definition resolved_jwt_access_secret :: "app_settings \<Rightarrow> string" where
  "resolved_jwt_access_secret s = (case cf_jwt_access_secret s of
      Some k \<Rightarrow> if k \<noteq> [] then k else DEV_JWT_ACCESS_SECRET | None \<Rightarrow> DEV_JWT_ACCESS_SECRET)"

definition cookie_secure :: "app_settings \<Rightarrow> bool" where
  "cookie_secure s = (\<not> cf_local_mode s)"

definition cors_allow_origins_list :: "app_settings \<Rightarrow> string list" where
  "cors_allow_origins_list s =
     map strip (filter (\<lambda>t. strip t \<noteq> []) (split_on (CHR '','') (cf_cors_allow_origins s)))"

text \<open>What the account commands read of the settings.\<close>

definition command_settings :: "app_settings \<Rightarrow> settings" where
  "command_settings s = \<lparr>se_access_ttl_user = cf_access_token_ttl_user_seconds s,
     se_access_ttl_admin = cf_access_token_ttl_admin_seconds s,
     se_refresh_ttl_user = cf_refresh_token_ttl_user_seconds s,
     se_refresh_ttl_admin = cf_refresh_token_ttl_admin_seconds s,
     se_jwt_access_secret = resolved_jwt_access_secret s,
     se_mfa_encryption_key = resolved_mfa_encryption_key s, se_app_base_url = cf_app_base_url s\<rparr>"

definition get_intent_limits :: "app_settings \<Rightarrow> intent_limits" where
  "get_intent_limits s = \<lparr>il_per_user = cf_intent_limit_per_user s, il_per_symbol = cf_intent_limit_per_symbol s\<rparr>"

datatype mailer_choice = SesMailer string string string string | LoggingMailer

definition get_mailer :: "app_settings \<Rightarrow> mailer_choice" where
  "get_mailer s = (case resolved_ses_mailer_config s of
      Some (from_address, region, user, password) \<Rightarrow>
        SesMailer from_address (''email-smtp.'' @ region @ ''.amazonaws.com'') user password
    | None \<Rightarrow> LoggingMailer)"

section \<open>Assembling the application\<close>

record client_config =
  cc_api_key :: string
  cc_secret_key :: string
  cc_simulation :: bool

datatype built_provider = BuiltInMemory in_memory_provider | BuiltShioaji client_config shioaji_provider

definition from_settings :: "app_settings \<Rightarrow> exn + built_provider" where
  "from_settings s = (case (cf_shioaji_api_key s, cf_shioaji_secret_key s) of
      (Some k, Some secret) \<Rightarrow>
        if k = [] \<or> secret = [] then Inl ExRuntime
        else Inr (BuiltShioaji \<lparr>cc_api_key = k, cc_secret_key = secret, cc_simulation = cf_shioaji_simulation s\<rparr>
          (sj_init \<lparr>cl_logged_in = False\<rparr> (parse_allowlist_override (cf_shioaji_demo_allowed_symbols s))
            (cf_shioaji_max_subscriptions s)))
    | _ \<Rightarrow> Inl ExRuntime)"

definition build_quote_provider :: "app_settings \<Rightarrow> exn + built_provider" where
  "build_quote_provider s = (case cf_quote_provider s of
      in_memory \<Rightarrow> Inr (BuiltInMemory im_init)
    | shioaji_demo \<Rightarrow> from_settings s)"

datatype background_task = OldDispatcher | CoreDispatcher | TwapWorker rat | IdempotencySweep rat

text \<open>What \<open>lifespan\<close> starts besides the provider.\<close>

definition lifespan_tasks :: "app_settings \<Rightarrow> background_task list" where
  "lifespan_tasks s =
     (if \<not> given (cf_database_url s) then []
      else [OldDispatcher, CoreDispatcher] @
        (if cf_twap_worker_enabled s then [TwapWorker (cf_twap_worker_interval_seconds s)] else []) @
        (if cf_idempotency_cleanup_enabled s then [IdempotencySweep (cf_idempotency_cleanup_interval_seconds s)] else []))"

record application =
  fa_title :: string
  fa_version :: string
  fa_request_id_header :: string
  fa_provider :: built_provider
  fa_kill_switch :: bool
  fa_cors :: "string list option"
  fa_hsts :: bool
  fa_routers :: "string list"

definition create_app :: "app_settings \<Rightarrow> exn + application" where
  "create_app s = r_bind (build_quote_provider s) (\<lambda>provider.
     Inr \<lparr>fa_title = cf_app_name s, fa_version = cf_app_version s, fa_request_id_header = cf_request_id_header s,
       fa_provider = provider, fa_kill_switch = given (cf_database_url s),
       fa_cors = (if cors_allow_origins_list s = [] then None else Some (cors_allow_origins_list s)),
       fa_hsts = (\<not> cf_local_mode s),
       fa_routers = [[], ''/auth'', ''/admin'', ''/symbols'', ''/quotes'', ''/trade-intents'', ''/notifications'', ''/telegram''] @
         (if cf_local_mode s then [''/dev''] else [])\<rparr>)"

section \<open>What boots\<close>

lemma given_iff: "given v \<longleftrightarrow> (\<exists>x xs. v = Some (x # xs))"
  by (cases v; cases "the v") (auto simp: given_def)

lemma missing_Nil: "missing vs = [] \<longleftrightarrow> list_all (\<lambda>(_, v). given v) vs"
  by (auto simp: missing_def filter_empty_conv list_all_iff)

lemma check_iff: "(if c then Inl e else Inr s) = Inr s' \<longleftrightarrow> s' = s \<and> \<not> c"
  by auto

text \<open>The condition on the environment, field by field.\<close>

definition environment_ok :: "app_settings \<Rightarrow> bool" where
  "environment_ok s \<longleftrightarrow>
     (list_all (\<lambda>(_, v). given v) (ses_values s) \<or> list_all (\<lambda>(_, v). \<not> given v) (ses_values s)) \<and>
     (cf_local_mode s \<longrightarrow> cf_local_user_id s \<noteq> None) \<and>
     0 < cf_telegram_llm_timeout_seconds s \<and> 0 < cf_telegram_timeout_seconds s \<and>
     webhook_secret_ok (cf_telegram_webhook_secret s) \<and> strip (cf_telegram_owner_email s) \<noteq> [] \<and>
     (\<not> cf_local_mode s \<longrightarrow> given (cf_jwt_access_secret s) \<and> given (cf_mfa_encryption_key s) \<and>
        (inbound_enabled s \<longrightarrow> list_all (\<lambda>(_, v). given v) (inbound_values s))) \<and>
     (\<exists>networks. trusted_proxy_networks s = Inr networks) \<and>
     (cf_quote_provider s = shioaji_demo \<longrightarrow> given (cf_shioaji_api_key s) \<and> given (cf_shioaji_secret_key s))"

lemma load_settings_iff: "load_settings s = Inr s' \<longleftrightarrow> s' = s \<and> environment_ok s"
proof -
  have ses: "enforce_ses_all_or_none s = Inr t \<longleftrightarrow> t = s \<and>
      (list_all (\<lambda>(_, v). given v) (ses_values s) \<or> list_all (\<lambda>(_, v). \<not> given v) (ses_values s))" for t
    unfolding enforce_ses_all_or_none_def check_iff by (auto simp: list_ex_iff list_all_iff)
  have usr: "enforce_local_user_id s = Inr t \<longleftrightarrow> t = s \<and> (cf_local_mode s \<longrightarrow> cf_local_user_id s \<noteq> None)" for t
    unfolding enforce_local_user_id_def check_iff by auto
  have tele: "validate_telegram_settings s = Inr t \<longleftrightarrow> t = s \<and> 0 < cf_telegram_llm_timeout_seconds s \<and>
      0 < cf_telegram_timeout_seconds s \<and> webhook_secret_ok (cf_telegram_webhook_secret s) \<and> strip (cf_telegram_owner_email s) \<noteq> []" for t
    unfolding validate_telegram_settings_def by (auto simp: not_le)
  have inb: "enforce_production_telegram_inbound_config s = Inr t \<longleftrightarrow> t = s \<and>
      (\<not> cf_local_mode s \<and> inbound_enabled s \<longrightarrow> list_all (\<lambda>(_, v). given v) (inbound_values s))" for t
    unfolding enforce_production_telegram_inbound_config_def check_iff missing_Nil by blast
  have jwt: "enforce_jwt_access_secret s = Inr t \<longleftrightarrow> t = s \<and> (\<not> cf_local_mode s \<longrightarrow> given (cf_jwt_access_secret s))"
    "enforce_mfa_encryption_key s = Inr t \<longleftrightarrow> t = s \<and> (\<not> cf_local_mode s \<longrightarrow> given (cf_mfa_encryption_key s))" for t
    unfolding enforce_jwt_access_secret_def enforce_mfa_encryption_key_def check_iff by blast+
  have net: "validate_trusted_proxy_ips s = Inr t \<longleftrightarrow> t = s \<and> (\<exists>networks. trusted_proxy_networks s = Inr networks)" for t
    by (auto simp: validate_trusted_proxy_ips_def r_bind_Inr_iff)
  have shi: "enforce_shioaji_credentials s = Inr t \<longleftrightarrow> t = s \<and>
      (cf_quote_provider s = shioaji_demo \<longrightarrow> given (cf_shioaji_api_key s) \<and> given (cf_shioaji_secret_key s))" for t
    unfolding enforce_shioaji_credentials_def check_iff missing_Nil by (auto simp: shioaji_values_def)
  show ?thesis
    unfolding load_settings_def r_bind_Inr_iff ses
    by (simp add: usr tele inb jwt net shi environment_ok_def r_bind_Inr_iff) blast
qed

lemma resolved_given:
  "given (cf_jwt_access_secret s) \<Longrightarrow> cf_jwt_access_secret s = Some (resolved_jwt_access_secret s) \<and> resolved_jwt_access_secret s \<noteq> []"
  "given (cf_mfa_encryption_key s) \<Longrightarrow> cf_mfa_encryption_key s = Some (resolved_mfa_encryption_key s) \<and> resolved_mfa_encryption_key s \<noteq> []"
  by (auto simp: given_iff resolved_jwt_access_secret_def resolved_mfa_encryption_key_def)

lemma mailer_stub: "get_mailer s = LoggingMailer \<longleftrightarrow> \<not> list_all (\<lambda>(_, v). given v) (ses_values s)"
  by (auto simp: get_mailer_def resolved_ses_mailer_config_def ses_values_def given_def split: option.splits if_splits)

lemma provider_built: "environment_ok s \<Longrightarrow> \<exists>p. build_quote_provider s = Inr p"
  by (auto simp: environment_ok_def build_quote_provider_def from_settings_def given_iff split: quote_provider_name.split)


text \<open>A production environment behind one proxy network.\<close>

definition sample_settings :: app_settings where
  "sample_settings = default_settings\<lparr>cf_local_mode := False, cf_jwt_access_secret := Some ''k1'', cf_mfa_encryption_key := Some ''k2'',
     cf_trusted_proxy_ips := Some ''10.0.0.0/8, 192.168.1.7'', cf_quote_provider := in_memory,
     cf_cors_allow_origins := ''https://a.example''\<rparr>"

lemma sample_networks:
  "trusted_proxy_networks sample_settings = Inr [IPv4Network 0x0A000000 0xFF000000, IPv4Network 0xC0A80107 0xFFFFFFFF]"
  by code_simp

lemma sample_environment: "environment_ok sample_settings"
  unfolding environment_ok_def
  using sample_networks by (simp add: sample_settings_def default_settings_def ses_values_def given_def webhook_secret_ok_def
    inbound_enabled_def strip_def rstrip_where_def is_space_def)


end
