(* ===== verification/Py_Url.thy ===== *)
theory Py_Url
  imports Py_Ipaddress
begin

text \<open>
  \<open>urllib.parse.urlsplit\<close> as far as scheme and network location go. \<open>None\<close> is the \<open>ValueError\<close> of a
  malformed bracketed host. The text comes from a request header, that is from Latin-1, where the
  module's normalisation check never fires.
\<close>

definition c0_or_space :: "char \<Rightarrow> bool" where
  "c0_or_space c \<longleftrightarrow> (of_char c :: nat) \<le> 32"

definition is_ascii_alpha :: "char \<Rightarrow> bool" where
  "is_ascii_alpha c = (let n = (of_char c :: nat) in (65 \<le> n \<and> n \<le> 90) \<or> (97 \<le> n \<and> n \<le> 122))"

definition scheme_char :: "char \<Rightarrow> bool" where
  "scheme_char c \<longleftrightarrow> is_ascii_alpha c \<or> is_digit c \<or> c = CHR ''+'' \<or> c = CHR ''-'' \<or> c = CHR ''.''"

text \<open>\<open>s.partition(c)\<close> with the separator dropped, and \<open>s.rpartition(c)[2]\<close>.\<close>

definition before :: "char \<Rightarrow> string \<Rightarrow> string" where
  "before c s = takeWhile (\<lambda>x. x \<noteq> c) s"

definition after :: "char \<Rightarrow> string \<Rightarrow> string" where
  "after c s = drop 1 (dropWhile (\<lambda>x. x \<noteq> c) s)"

definition after_last :: "char \<Rightarrow> string \<Rightarrow> string" where
  "after_last c s = rev (takeWhile (\<lambda>x. x \<noteq> c) (rev s))"

definition check_bracketed_host :: "string \<Rightarrow> bool" where
  "check_bracketed_host hostname =
     (case hostname of
        CHR ''v'' # rest \<Rightarrow>
          takeWhile (\<lambda>c. hex_val c \<noteq> None) rest \<noteq> [] \<and>
          (case dropWhile (\<lambda>c. hex_val c \<noteq> None) rest of CHR ''.'' # more \<Rightarrow> more \<noteq> [] | _ \<Rightarrow> False)
      | _ \<Rightarrow> (case ip_address hostname of Some (IPv6Address _ _) \<Rightarrow> True | _ \<Rightarrow> False))"

definition check_bracketed_netloc :: "string \<Rightarrow> bool" where
  "check_bracketed_netloc netloc =
     (let hostname_and_port = after_last (CHR ''@'') netloc
      in if CHR ''['' \<in> set hostname_and_port
         then let bracketed = after (CHR ''['') hostname_and_port; port = after (CHR '']'') bracketed
              in before (CHR ''['') hostname_and_port = [] \<and> (port = [] \<or> hd port = CHR '':'') \<and>
                 check_bracketed_host (before (CHR '']'') bracketed)
         else check_bracketed_host (before (CHR '':'') hostname_and_port))"

definition urlsplit :: "string \<Rightarrow> (string \<times> string) option" where
  "urlsplit raw =
     (let url = filter (\<lambda>c. (of_char c :: nat) \<notin> {9, 10, 13}) (dropWhile c0_or_space raw);
          name = before (CHR '':'') url;
          has_scheme = (CHR '':'' \<in> set url \<and> name \<noteq> [] \<and> is_ascii_alpha (hd name) \<and> list_all scheme_char name);
          scheme = (if has_scheme then lower name else []);
          rest = (if has_scheme then after (CHR '':'') url else url)
      in if take 2 rest \<noteq> ''//'' then Some (scheme, [])
         else let netloc = takeWhile (\<lambda>c. c \<noteq> CHR ''/'' \<and> c \<noteq> CHR ''?'' \<and> c \<noteq> CHR ''#'') (drop 2 rest);
                  op = CHR ''['' \<in> set netloc; cl = CHR '']'' \<in> set netloc
              in if op \<noteq> cl then None
                 else if op \<and> cl \<and> \<not> check_bracketed_netloc netloc then None
                 else Some (scheme, netloc))"

end
