(* ===== verification/Auth_Routes.thy ===== *)
theory Auth_Routes
  imports App_Settings Py_Url Session_Gate Intent_Requests
begin

text \<open>
  \<open>api/routes/auth.py\<close> and \<open>api/schemas/auth.py\<close>: the endpoints of a session over the account commands. The
  refresh and CSRF tokens travel as cookies, the access token in the body. Which address stands for the
  client in the throttles, and which origins may use the cookies, is decided here. How pydantic reads a text
  and an email address from a JSON value is an argument.
\<close>

section \<open>Requests and responses\<close>

record web_env =
  we_settings :: app_settings
  we_crypto :: crypto
  we_mailer :: mailer
  we_str :: "json \<Rightarrow> string option"
  we_bool :: "json \<Rightarrow> bool option"
  we_email :: "json \<Rightarrow> string option"

record web_request =
  wr_client :: "string option"
  wr_header :: "string \<Rightarrow> string option"
  wr_cookie :: "string \<Rightarrow> string option"
  wr_body :: payload
  wr_now :: datetime
  wr_request_id :: "string option"

record cookie =
  ck_name :: string
  ck_value :: string
  ck_max_age :: int
  ck_httponly :: bool
  ck_secure :: bool
  ck_samesite :: string
  ck_path :: string

record session_token_response =
  sp_access_token :: string
  sp_token_type :: string
  sp_expires_in :: int
  sp_role :: user_role

record me_response =
  me_id :: uuid
  me_email :: string
  me_role :: user_role
  me_status :: user_status
  me_mfa_enabled :: bool

definition REFRESH_COOKIE :: string where "REFRESH_COOKIE = ''refresh_token''"
definition CSRF_COOKIE :: string where "CSRF_COOKIE = ''csrf_token''"
definition CSRF_HEADER :: string where "CSRF_HEADER = ''X-CSRF-Token''"
definition REFRESH_COOKIE_PATH :: string where "REFRESH_COOKIE_PATH = ''/auth''"
definition CSRF_COOKIE_PATH :: string where "CSRF_COOKIE_PATH = ''/''"

section \<open>The client's address\<close>

text \<open>The first hop from the right that parses and is not one of our proxies.\<close>

fun client_hop :: "ip_network list \<Rightarrow> string list \<Rightarrow> ip_address option" where
  "client_hop trusted [] = None"
| "client_hop trusted (hop # hops) = (case ip_address hop of
      None \<Rightarrow> client_hop trusted hops
    | Some candidate \<Rightarrow> if \<not> list_ex (in_network candidate) trusted then Some candidate else client_hop trusted hops)"

definition forwarded_hops :: "string \<Rightarrow> string list" where
  "forwarded_hops forwarded = rev (map strip (filter (\<lambda>part. strip part \<noteq> []) (split_on (CHR '','') forwarded)))"

definition client_ip :: "app_settings \<Rightarrow> web_request \<Rightarrow> exn + string option" where
  "client_ip s q = (case wr_client q of
      None \<Rightarrow> Inr None
    | Some host \<Rightarrow> (case ip_address host of
        None \<Rightarrow> Inr None
      | Some peer \<Rightarrow> (case trusted_proxy_networks s of
          Inl _ \<Rightarrow> Inl ExValue
        | Inr trusted \<Rightarrow>
            if trusted = [] \<or> \<not> list_ex (in_network peer) trusted then Inr (Some host)
            else (case wr_header q ''X-Forwarded-For'' of
                None \<Rightarrow> Inr (Some host)
              | Some forwarded \<Rightarrow>
                  if forwarded = [] then Inr (Some host)
                  else (case client_hop trusted (forwarded_hops forwarded) of
                      None \<Rightarrow> Inr (Some host)
                    | Some candidate \<Rightarrow> Inr (Some (ip_str candidate)))))))"

section \<open>Cookies and the origin check\<close>

text \<open>\<open>int(timedelta.total_seconds())\<close>: towards zero.\<close>

definition whole_seconds :: "int \<Rightarrow> int" where
  "whole_seconds d = (if 0 \<le> d then d div usec_per_sec else - ((- d) div usec_per_sec))"

definition set_session_cookies :: "issued_session \<Rightarrow> app_settings \<Rightarrow> datetime \<Rightarrow> cookie list" where
  "set_session_cookies issued s now =
     (let refresh_max_age = whole_seconds (is_refresh_expires_at issued - now)
      in [\<lparr>ck_name = REFRESH_COOKIE, ck_value = is_refresh_token issued, ck_max_age = refresh_max_age, ck_httponly = True,
           ck_secure = cookie_secure s, ck_samesite = ''lax'', ck_path = REFRESH_COOKIE_PATH\<rparr>,
          \<lparr>ck_name = CSRF_COOKIE, ck_value = is_csrf_token issued, ck_max_age = refresh_max_age, ck_httponly = False,
           ck_secure = cookie_secure s, ck_samesite = ''lax'', ck_path = CSRF_COOKIE_PATH\<rparr>])"

definition delete_cookie :: "string \<Rightarrow> string \<Rightarrow> cookie" where
  "delete_cookie name path = \<lparr>ck_name = name, ck_value = [], ck_max_age = 0, ck_httponly = False, ck_secure = False,
     ck_samesite = ''lax'', ck_path = path\<rparr>"

definition clear_session_cookies :: "cookie list" where
  "clear_session_cookies = [delete_cookie REFRESH_COOKIE REFRESH_COOKIE_PATH, delete_cookie CSRF_COOKIE CSRF_COOKIE_PATH]"

definition enforce_csrf_origin :: "web_request \<Rightarrow> string list \<Rightarrow> exn + unit" where
  "enforce_csrf_origin q allowed_origins =
     (if allowed_origins = [] then Inr ()
      else case wr_header q ''Origin'' of
        Some origin \<Rightarrow> if origin \<notin> set allowed_origins then Inl (ExAuth CsrfFailedError) else Inr ()
      | None \<Rightarrow> (case wr_header q ''Referer'' of
          None \<Rightarrow> Inr ()
        | Some referer \<Rightarrow> (case urlsplit referer of
            None \<Rightarrow> Inl ExValue
          | Some (scheme, netloc) \<Rightarrow>
              if scheme @ ''://'' @ netloc \<notin> set allowed_origins then Inl (ExAuth CsrfFailedError) else Inr ())))"

definition session_response :: "issued_session \<Rightarrow> datetime \<Rightarrow> session_token_response" where
  "session_response issued now = \<lparr>sp_access_token = is_access_token issued, sp_token_type = ''Bearer'',
     sp_expires_in = whole_seconds (is_access_expires_at issued - now), sp_role = is_role issued\<rparr>"

type_synonym session_answer = "exn + session_token_response \<times> cookie list"

definition answer_session :: "web_env \<Rightarrow> datetime \<Rightarrow> (exn + issued_session) \<times> ident_db \<Rightarrow> session_answer \<times> ident_db" where
  "answer_session env now r = (case r of
      (Inl e, db) \<Rightarrow> (Inl e, db)
    | (Inr issued, db) \<Rightarrow> (Inr (session_response issued now, set_session_cookies issued (we_settings env) now), db))"

section \<open>Request models\<close>

definition login_request :: "web_env \<Rightarrow> payload \<Rightarrow> exn + string \<times> string" where
  "login_request env body =
     (if \<not> no_extra [''email'', ''password''] body then Inl invalid_body
      else r_bind (required (we_email env) ''email'' body) (\<lambda>email.
           r_bind (required (we_str env) ''password'' body) (\<lambda>password. Inr (email, password))))"

definition accept_invitation_request :: "web_env \<Rightarrow> payload \<Rightarrow> exn + string \<times> string" where
  "accept_invitation_request env body =
     (if \<not> no_extra [''token'', ''password''] body then Inl invalid_body
      else r_bind (required (we_str env) ''token'' body) (\<lambda>token.
           r_bind (required (we_str env) ''password'' body) (\<lambda>password. Inr (token, password))))"

definition password_reset_request_request :: "web_env \<Rightarrow> payload \<Rightarrow> exn + string" where
  "password_reset_request_request env body =
     (if \<not> no_extra [''email''] body then Inl invalid_body else required (we_email env) ''email'' body)"

definition password_reset_confirm_request :: "web_env \<Rightarrow> payload \<Rightarrow> exn + string \<times> string" where
  "password_reset_confirm_request env body =
     (if \<not> no_extra [''token'', ''newPassword''] body then Inl invalid_body
      else r_bind (required (we_str env) ''token'' body) (\<lambda>token.
           r_bind (required (we_str env) ''newPassword'' body) (\<lambda>new_password. Inr (token, new_password))))"

section \<open>Endpoints\<close>

abbreviation web_settings :: "web_env \<Rightarrow> settings" where
  "web_settings env \<equiv> command_settings (we_settings env)"

definition login_route :: "web_env \<Rightarrow> draws \<Rightarrow> web_request \<Rightarrow> ident_db \<Rightarrow> session_answer \<times> ident_db" where
  "login_route env dr q db =
     (case r_bind (login_request env (wr_body q)) (\<lambda>body. r_bind (client_ip (we_settings env) q) (\<lambda>ip. Inr (body, ip))) of
        Inl e \<Rightarrow> (Inl e, db)
      | Inr ((email, password), ip) \<Rightarrow>
          answer_session env (wr_now q) (login (we_crypto env) (web_settings env) dr
            \<lparr>li_email = email, li_password = password, li_now = wr_now q, li_user_agent = wr_header q ''User-Agent'',
             li_ip = ip, li_request_id = wr_request_id q\<rparr> db))"

definition accept_invitation_route ::
  "web_env \<Rightarrow> draws \<Rightarrow> string \<Rightarrow> web_request \<Rightarrow> ident_db \<Rightarrow> session_answer \<times> ident_db" where
  "accept_invitation_route env dr salt q db =
     (case r_bind (accept_invitation_request env (wr_body q)) (\<lambda>body.
             r_bind (client_ip (we_settings env) q) (\<lambda>ip. Inr (body, ip))) of
        Inl e \<Rightarrow> (Inl e, db)
      | Inr ((token, password), ip) \<Rightarrow>
          answer_session env (wr_now q) (accept_invitation (we_crypto env) (web_settings env) dr salt
            \<lparr>ai_raw_token = token, ai_password = password, ai_now = wr_now q, ai_user_agent = wr_header q ''User-Agent'',
             ai_ip = ip, ai_request_id = wr_request_id q\<rparr> db))"

definition refresh_route :: "web_env \<Rightarrow> draws \<Rightarrow> web_request \<Rightarrow> ident_db \<Rightarrow> session_answer \<times> ident_db" where
  "refresh_route env dr q db =
     (case r_bind (enforce_csrf_origin q (cors_allow_origins_list (we_settings env))) (\<lambda>_. client_ip (we_settings env) q) of
        Inl e \<Rightarrow> (Inl e, db)
      | Inr ip \<Rightarrow>
          answer_session env (wr_now q) (refresh_session (we_crypto env) (web_settings env) dr
            \<lparr>ri_raw_refresh_token = wr_cookie q REFRESH_COOKIE, ri_csrf_cookie = wr_cookie q CSRF_COOKIE,
             ri_csrf_header = wr_header q CSRF_HEADER, ri_now = wr_now q, ri_user_agent = wr_header q ''User-Agent'',
             ri_ip = ip, ri_request_id = wr_request_id q\<rparr> db))"

definition password_reset_request_route ::
  "web_env \<Rightarrow> account_draws \<Rightarrow> web_request \<Rightarrow> ident_db \<Rightarrow> (exn + unit) \<times> ident_db \<times> mail_message list" where
  "password_reset_request_route env adr q db =
     (case r_bind (password_reset_request_request env (wr_body q)) (\<lambda>email.
             r_bind (client_ip (we_settings env) q) (\<lambda>ip. Inr (email, ip))) of
        Inl e \<Rightarrow> (Inl e, db, [])
      | Inr (email, ip) \<Rightarrow>
          password_reset_request (we_crypto env) (we_mailer env) (cf_app_base_url (we_settings env)) adr
            \<lparr>rq_email = email, rq_now = wr_now q, rq_ip = ip, rq_request_id = wr_request_id q\<rparr> db)"

definition password_reset_confirm_route ::
  "web_env \<Rightarrow> account_draws \<Rightarrow> web_request \<Rightarrow> ident_db \<Rightarrow> (exn + unit) \<times> ident_db" where
  "password_reset_confirm_route env adr q db =
     (case password_reset_confirm_request env (wr_body q) of
        Inl e \<Rightarrow> (Inl e, db)
      | Inr (token, new_password) \<Rightarrow>
          password_reset_confirm (we_crypto env) adr
            \<lparr>rc_raw_token = token, rc_new_password = new_password, rc_now = wr_now q, rc_request_id = wr_request_id q\<rparr> db)"

definition logout_route :: "web_env \<Rightarrow> draws \<Rightarrow> web_request \<Rightarrow> ident_db \<Rightarrow> (exn + cookie list) \<times> ident_db" where
  "logout_route env dr q db =
     (case enforce_csrf_origin q (cors_allow_origins_list (we_settings env)) of
        Inl e \<Rightarrow> (Inl e, db)
      | Inr _ \<Rightarrow>
          (case logout (we_crypto env) dr
              \<lparr>lo_raw_refresh_token = wr_cookie q REFRESH_COOKIE, lo_csrf_cookie = wr_cookie q CSRF_COOKIE,
               lo_csrf_header = wr_header q CSRF_HEADER, lo_now = wr_now q, lo_request_id = wr_request_id q\<rparr> db of
             (Inl e, db') \<Rightarrow> (Inl e, db')
           | (Inr _, db') \<Rightarrow> (Inr clear_session_cookies, db')))"

definition me_route :: "web_env \<Rightarrow> web_request \<Rightarrow> ident_db \<Rightarrow> exn + me_response" where
  "me_route env q db =
     r_bind (active_user (we_crypto env) (web_settings env) (wr_now q) (wr_header q ''Authorization'') db) (\<lambda>user.
     r_bind (user_by_id (ru_user_id user) db) (\<lambda>profile.
       case profile of
         None \<Rightarrow> Inl (ExApi UNAUTHENTICATED 401)
       | Some u \<Rightarrow> Inr \<lparr>me_id = us_id u, me_email = us_email u, me_role = us_role u, me_status = us_status u,
           me_mfa_enabled = us_mfa_enabled u\<rparr>))"

end
