(* ===== verification/Admin_Routes.thy ===== *)
theory Admin_Routes
  imports Auth_Routes Account_Disable Kill_Switch
begin

text \<open>
  \<open>api/routes/admin.py\<close> and \<open>api/schemas/admin.py\<close>: the administrators' endpoints. Every one of them asks for
  the administrator's gate, the two endpoints of the second factor for the role only. The gate is passed
  before a body is looked at.
\<close>

section \<open>State and responses\<close>

record web_state =
  ws_ident :: ident_db
  ws_app :: app_db
  ws_flags :: "flag_row list"
  ws_kill_switch :: "kill_switch_provider option"

record create_user_response =
  cp_id :: uuid
  cp_status :: string

record user_summary =
  sm_id :: uuid
  sm_email :: string
  sm_role :: user_role
  sm_status :: user_status
  sm_mfa_enabled :: bool
  sm_created_at :: datetime

record two_factor_verify_response =
  tv_access_token :: string
  tv_token_type :: string
  tv_expires_in :: int
  tv_role :: user_role

text \<open>The tables the kill switch reaches, seen from the shared database.\<close>

definition ops_view :: "web_state \<Rightarrow> ops_db" where
  "ops_view w = \<lparr>od_users = map us_id (id_users (ws_ident w)), od_flags = ws_flags w, od_audit = id_audit (ws_ident w)\<rparr>"

definition ops_put :: "ops_db \<Rightarrow> kill_switch_provider option \<Rightarrow> web_state \<Rightarrow> web_state" where
  "ops_put ops p w = w\<lparr>ws_ident := (ws_ident w)\<lparr>id_audit := od_audit ops\<rparr>, ws_flags := od_flags ops, ws_kill_switch := p\<rparr>"

section \<open>Request models\<close>

definition role_literal :: "json \<Rightarrow> user_role option" where
  "role_literal = literal [(''user'', role_user), (''admin'', role_admin)]"

definition create_user_request :: "web_env \<Rightarrow> payload \<Rightarrow> exn + string \<times> user_role" where
  "create_user_request env body =
     (if \<not> no_extra [''email'', ''role''] body then Inl invalid_body
      else r_bind (required (we_email env) ''email'' body) (\<lambda>email.
           r_bind (required role_literal ''role'' body) (\<lambda>role. Inr (email, role))))"

definition provision_user_request :: "web_env \<Rightarrow> payload \<Rightarrow> exn + string \<times> string \<times> user_role" where
  "provision_user_request env body =
     (if \<not> no_extra [''email'', ''password'', ''role''] body then Inl invalid_body
      else r_bind (required (we_email env) ''email'' body) (\<lambda>email.
           r_bind (required (we_str env) ''password'' body) (\<lambda>password.
           r_bind (required role_literal ''role'' body) (\<lambda>role. Inr (email, password, role)))))"

definition two_factor_verify_request :: "web_env \<Rightarrow> payload \<Rightarrow> exn + string" where
  "two_factor_verify_request env body =
     (if \<not> no_extra [''code''] body then Inl invalid_body else required (we_str env) ''code'' body)"

text \<open>The reason is stripped and must not be blank.\<close>

definition kill_switch_request :: "web_env \<Rightarrow> payload \<Rightarrow> exn + bool \<times> string" where
  "kill_switch_request env body =
     (if \<not> no_extra [''enabled'', ''reason''] body then Inl invalid_body
      else r_bind (required (we_bool env) ''enabled'' body) (\<lambda>enabled.
           r_bind (required (\<lambda>v. map_option strip (we_str env v)) ''reason'' body) (\<lambda>reason.
             if reason = [] then Inl invalid_body else Inr (enabled, reason))))"

section \<open>The gates\<close>

definition admin_gate :: "web_env \<Rightarrow> web_request \<Rightarrow> web_state \<Rightarrow> exn + request_user" where
  "admin_gate env q w = admin_user (we_crypto env) (web_settings env) (wr_now q) (wr_header q ''Authorization'') (ws_ident w)"

definition admin_role_gate :: "web_env \<Rightarrow> web_request \<Rightarrow> web_state \<Rightarrow> exn + request_user" where
  "admin_role_gate env q w =
     admin_role_user (we_crypto env) (web_settings env) (wr_now q) (wr_header q ''Authorization'') (ws_ident w)"

definition gated ::
  "exn + request_user \<Rightarrow> web_state \<Rightarrow> (request_user \<Rightarrow> (exn + 'a) \<times> web_state) \<Rightarrow> (exn + 'a) \<times> web_state" where
  "gated gate w run = (case gate of Inl e \<Rightarrow> (Inl e, w) | Inr admin \<Rightarrow> run admin)"

definition on_ident :: "web_state \<Rightarrow> (exn + 'a) \<times> ident_db \<Rightarrow> (exn + 'a) \<times> web_state" where
  "on_ident w r = (fst r, w\<lparr>ws_ident := snd r\<rparr>)"

definition map_answer :: "('a \<Rightarrow> 'b) \<Rightarrow> (exn + 'a) \<times> 's \<Rightarrow> (exn + 'b) \<times> 's" where
  "map_answer f r = ((case fst r of Inl e \<Rightarrow> Inl e | Inr x \<Rightarrow> Inr (f x)), snd r)"

section \<open>Endpoints\<close>

definition create_user_route ::
  "web_env \<Rightarrow> account_draws \<Rightarrow> web_request \<Rightarrow> web_state \<Rightarrow> (exn + create_user_response) \<times> web_state" where
  "create_user_route env adr q w = gated (admin_gate env q w) w (\<lambda>admin.
     case create_user_request env (wr_body q) of
       Inl e \<Rightarrow> (Inl e, w)
     | Inr (email, role) \<Rightarrow>
         map_answer (\<lambda>i. \<lparr>cp_id = i, cp_status = ''invited''\<rparr>) (on_ident w
           (create_user (we_crypto env) (we_mailer env) (cf_app_base_url (we_settings env)) adr
              \<lparr>cu_email = email, cu_role = role, cu_created_by_admin_id = ru_user_id admin, cu_now = wr_now q,
               cu_request_id = wr_request_id q\<rparr> (ws_ident w))))"

definition provision_user_route ::
  "web_env \<Rightarrow> account_draws \<Rightarrow> web_request \<Rightarrow> web_state \<Rightarrow> (exn + create_user_response) \<times> web_state" where
  "provision_user_route env adr q w = gated (admin_gate env q w) w (\<lambda>admin.
     case provision_user_request env (wr_body q) of
       Inl e \<Rightarrow> (Inl e, w)
     | Inr (email, password, role) \<Rightarrow>
         map_answer (\<lambda>i. \<lparr>cp_id = i, cp_status = ''active''\<rparr>) (on_ident w
           (provision_user (we_crypto env) adr
              \<lparr>pu_email = email, pu_password = password, pu_role = role, pu_created_by_admin_id = ru_user_id admin,
               pu_now = wr_now q, pu_request_id = wr_request_id q\<rparr> (ws_ident w))))"

text \<open>\<open>list_all\<close>: newest first; ties are left to the database, here to the order of the table.\<close>

definition list_users :: "ident_db \<Rightarrow> user_row list" where
  "list_users db = sort_key (\<lambda>u. - us_created_at u) (id_users db)"

definition list_users_route :: "web_env \<Rightarrow> web_request \<Rightarrow> web_state \<Rightarrow> (exn + user_summary list) \<times> web_state" where
  "list_users_route env q w = gated (admin_gate env q w) w (\<lambda>admin.
     (Inr (map (\<lambda>u. \<lparr>sm_id = us_id u, sm_email = us_email u, sm_role = us_role u, sm_status = us_status u,
        sm_mfa_enabled = us_mfa_enabled u, sm_created_at = us_created_at u\<rparr>) (list_users (ws_ident w))), w))"

definition admin_target :: "web_request \<Rightarrow> uuid \<Rightarrow> request_user \<Rightarrow> admin_target_input" where
  "admin_target q user_id admin = \<lparr>at_target_user_id = user_id, at_actor_admin_id = ru_user_id admin, at_now = wr_now q,
     at_request_id = wr_request_id q\<rparr>"

definition disable_user_route ::
  "web_env \<Rightarrow> account_draws \<Rightarrow> uuid \<Rightarrow> web_request \<Rightarrow> web_state \<Rightarrow> (exn + unit) \<times> web_state" where
  "disable_user_route env adr user_id q w = gated (admin_gate env q w) w (\<lambda>admin.
     case disable_user adr (admin_target q user_id admin) (ws_ident w) (ws_app w) of
       (r, db, app) \<Rightarrow> (r, w\<lparr>ws_ident := db, ws_app := app\<rparr>))"

definition reactivate_user_route ::
  "web_env \<Rightarrow> account_draws \<Rightarrow> uuid \<Rightarrow> web_request \<Rightarrow> web_state \<Rightarrow> (exn + unit) \<times> web_state" where
  "reactivate_user_route env adr user_id q w = gated (admin_gate env q w) w (\<lambda>admin.
     on_ident w (reactivate_user adr (admin_target q user_id admin) (ws_ident w)))"

definition resend_invitation_route ::
  "web_env \<Rightarrow> account_draws \<Rightarrow> uuid \<Rightarrow> web_request \<Rightarrow> web_state \<Rightarrow> (exn + unit) \<times> web_state" where
  "resend_invitation_route env adr user_id q w = gated (admin_gate env q w) w (\<lambda>admin.
     on_ident w (resend_invitation (we_crypto env) (we_mailer env) (cf_app_base_url (we_settings env)) adr
       (admin_target q user_id admin) (ws_ident w)))"

definition setup_two_factor_route ::
  "web_env \<Rightarrow> string \<Rightarrow> web_request \<Rightarrow> web_state \<Rightarrow> (exn + setup_two_factor_result) \<times> web_state" where
  "setup_two_factor_route env secret q w = gated (admin_role_gate env q w) w (\<lambda>admin.
     on_ident w (setup_two_factor (we_crypto env) (web_settings env) secret
       \<lparr>sf_admin_user_id = ru_user_id admin, sf_now = wr_now q, sf_request_id = wr_request_id q\<rparr> (ws_ident w)))"

definition verify_two_factor_route ::
  "web_env \<Rightarrow> uuid \<Rightarrow> uuid \<Rightarrow> datetime \<Rightarrow> web_request \<Rightarrow> web_state \<Rightarrow> (exn + two_factor_verify_response) \<times> web_state" where
  "verify_two_factor_route env audit_id1 audit_id2 clock q w = gated (admin_role_gate env q w) w (\<lambda>admin.
     case two_factor_verify_request env (wr_body q) of
       Inl e \<Rightarrow> (Inl e, w)
     | Inr code \<Rightarrow>
         map_answer (\<lambda>v. \<lparr>tv_access_token = vr_access_token v, tv_token_type = ''Bearer'', tv_expires_in = vr_expires_in v,
           tv_role = vr_role v\<rparr>) (on_ident w
           (verify_two_factor (we_crypto env) (web_settings env) audit_id1 audit_id2 clock
              \<lparr>vf_admin_user_id = ru_user_id admin, vf_session_id = ru_session_id admin, vf_code = code, vf_now = wr_now q,
               vf_request_id = wr_request_id q\<rparr> (ws_ident w))))"

definition kill_switch_state_of :: "web_state \<Rightarrow> exn + kill_switch_state" where
  "kill_switch_state_of w = get_state GLOBAL_TRIGGER_HALT (ops_view w)"

definition set_kill_switch_route ::
  "web_env \<Rightarrow> uuid \<Rightarrow> web_request \<Rightarrow> web_state \<Rightarrow> (exn + kill_switch_state) \<times> web_state" where
  "set_kill_switch_route env audit_id q w = gated (admin_gate env q w) w (\<lambda>admin.
     case kill_switch_request env (wr_body q) of
       Inl e \<Rightarrow> (Inl e, w)
     | Inr (enabled, reason) \<Rightarrow>
         (case set_kill_switch audit_id
             \<lparr>sk_enabled = enabled, sk_reason = reason, sk_actor_admin_id = ru_user_id admin, sk_now = wr_now q,
              sk_request_id = wr_request_id q\<rparr> (ops_view w) (ws_kill_switch w) of
            (Inl e, ops, p) \<Rightarrow> (Inl e, ops_put ops p w)
          | (Inr _, ops, p) \<Rightarrow> (kill_switch_state_of (ops_put ops p w), ops_put ops p w)))"

definition get_kill_switch_route :: "web_env \<Rightarrow> web_request \<Rightarrow> web_state \<Rightarrow> (exn + kill_switch_state) \<times> web_state" where
  "get_kill_switch_route env q w = gated (admin_gate env q w) w (\<lambda>admin. (kill_switch_state_of w, w))"

end
