(* ===== verification/Web_Sessions.thy ===== *)
theory Web_Sessions
  imports Auth_Routes Identity_Properties
begin

text \<open>What the session endpoints promise: whose address throttles a client, who may use its cookies, and
  that the cookies of a login carry a session on.\<close>

section \<open>The client's address\<close>

lemma split_on_glue: "split_on c (s @ c # t) = split_on c s @ split_on c t"
proof (induction s)
  case (Cons x s)
  obtain y ys where "split_on c s = y # ys" by (cases "split_on c s") simp_all
  with Cons show ?case by simp
qed simp

lemma split_join_concat: "ps \<noteq> [] \<Longrightarrow> split_on c (join_on c ps) = concat (map (split_on c) ps)"
proof (induction ps)
  case (Cons p ps)
  then show ?case by (cases ps) (simp_all add: split_on_glue)
qed simp

lemma client_hop_skip:
  "list_all (\<lambda>h. case ip_address h of None \<Rightarrow> True | Some a \<Rightarrow> list_ex (in_network a) trusted) hs \<Longrightarrow>
   client_hop trusted (hs @ ks) = client_hop trusted ks"
  by (induction hs) (auto split: option.splits)

lemma ip_address_nonempty: "ip_address s = Some a \<Longrightarrow> s \<noteq> []"
  by (rule notI) (simp add: ip_address_def ipv4_of_string_def ipv6_address_def split_scope_id_def ipv6_of_string_def)

lemma forwarded_hops_join:
  assumes "CHR '','' \<notin> set seen" and "strip seen \<noteq> []" and "list_all (\<lambda>p. CHR '','' \<notin> set p) proxies"
  shows "\<exists>more. forwarded_hops (join_on (CHR '','') (lefts @ seen # proxies)) =
    rev (filter (\<lambda>h. h \<noteq> []) (map strip proxies)) @ strip seen # more"
proof -
  have "concat (map (split_on (CHR '','')) proxies) = proxies" using assms(3) by (induction proxies) (simp_all add: split_on_absent)
  then show ?thesis
    using assms(1,2) by (simp add: forwarded_hops_def split_join_concat split_on_absent filter_map o_def)
qed


definition proxied_request :: "string \<Rightarrow> web_request" where
  "proxied_request forwarded = \<lparr>wr_client = Some ''10.0.0.1'', wr_header = [''X-Forwarded-For'' \<mapsto> forwarded], wr_cookie = Map.empty,
     wr_body = [], wr_now = 0, wr_request_id = None\<rparr>"

lemma proxied_addresses:
  "ip_address ''10.0.0.1'' = Some (IPv4Address 0x0A000001)" "ip_address (strip '' 1.2.3.4'') = Some (IPv4Address 0x01020304)"
  "ip_address (strip '' 10.1.1.1'') = Some (IPv4Address 0x0A010101)" "ip_str (IPv4Address 0x01020304) = ''1.2.3.4''"
  by code_simp+

lemma proxied_trust:
  "list_ex (in_network (IPv4Address 0x0A000001)) [IPv4Network 0x0A000000 0xFF000000, IPv4Network 0xC0A80107 0xFFFFFFFF]"
  "list_ex (in_network (IPv4Address 0x0A010101)) [IPv4Network 0x0A000000 0xFF000000, IPv4Network 0xC0A80107 0xFFFFFFFF]"
  "\<not> list_ex (in_network (IPv4Address 0x01020304)) [IPv4Network 0x0A000000 0xFF000000, IPv4Network 0xC0A80107 0xFFFFFFFF]"
  by code_simp+


text \<open>The guarantee needs a right-most part that parses. A proxy that reports the address with a port, or as
  \<open>unknown\<close>, is passed over, and the text the client wrote itself is taken.\<close>

theorem malformed_hop_spoofable:
  "client_ip sample_settings (proxied_request ''6.6.6.6, 1.2.3.4:5678'') = Inr (Some ''6.6.6.6'')"
  by code_simp

section \<open>Sessions\<close>

text \<open>The session \<open>issue_session\<close> handed out and the row that stands behind it.\<close>

definition session_of ::
  "crypto \<Rightarrow> settings \<Rightarrow> draws \<Rightarrow> user_row \<Rightarrow> datetime \<Rightarrow> bool \<Rightarrow> issued_session \<Rightarrow> ident_db \<Rightarrow> bool" where
  "session_of cr st dr u now m s db \<longleftrightarrow> u \<in> set (id_users db) \<and> us_status u = st_active \<and>
     s = \<lparr>is_access_token = encode_access_token cr (se_jwt_access_secret st) (us_id u) (us_role u) (dr_token_id dr)
            (access_ttl_seconds st (us_role u)) now m,
          is_refresh_token = dr_raw_refresh dr, is_csrf_token = dr_csrf_token dr, is_role = us_role u,
          is_session_id = dr_token_id dr, is_access_expires_at = now + seconds (access_ttl_seconds st (us_role u)),
          is_refresh_expires_at = now + seconds (refresh_ttl_seconds st (us_role u))\<rparr> \<and>
     (\<exists>t \<in> set (id_tokens db). rt_id t = dr_token_id dr \<and> rt_user_id t = us_id u \<and>
        rt_token_hash t = hash_refresh_token cr (dr_raw_refresh dr) \<and>
        rt_expires_at t = now + seconds (refresh_ttl_seconds st (us_role u)) \<and> rt_revoked_at t = None \<and> rt_mfa_verified t = m)"

lemma session_of_cong:
  "session_of cr st dr u now m s db \<Longrightarrow> id_users db' = id_users db \<Longrightarrow> id_tokens db' = id_tokens db \<Longrightarrow>
   session_of cr st dr u now m s db'"
  by (simp add: session_of_def)

lemma issue_session_of:
  "issue_session cr st dr u now par ua ip m db = Inr (s, db') \<Longrightarrow> u \<in> set (id_users db) \<Longrightarrow> us_status u = st_active \<Longrightarrow>
   session_of cr st dr u now m s db'"
  by (auto simp: issue_session_def Let_def bind_simps create_token_Inr_iff session_of_def)

abbreviation logged_in :: "crypto \<Rightarrow> settings \<Rightarrow> draws \<Rightarrow> login_input \<Rightarrow> (exn + issued_session) \<times> ident_db \<Rightarrow> bool" where
  "logged_in cr st dr inp \<equiv> \<lambda>(r, db'). case r of Inl _ \<Rightarrow> True | Inr s \<Rightarrow>
     \<exists>u. lower (us_email u) = lower (normalize_email (li_email inp)) \<and> session_of cr st dr u (li_now inp) False s db'"

lemma login_session: "logged_in cr st dr inp (login cr st dr inp db)"
proof -
  have refuse: "holds (logged_in cr st dr inp) (login_refuse dr inp reason aid err db)" for reason aid err db
    unfolding login_refuse_def by (rule holds_bind_eq) simp
  have issue: "holds (logged_in cr st dr inp) (r_bind (issue_session cr st dr u (li_now inp) None ua ip False db) (\<lambda>(s, db1).
      r_bind (db_audit i ev ac aid (md s) rid now' db1) (\<lambda>db2. Inr (Inr s, db2))))"
    if "u \<in> set (id_users db)" "us_status u = st_active" "lower (us_email u) = lower (normalize_email (li_email inp))"
    for u ua ip i ev ac aid md rid now' db
  proof (intro holds_bind_eq holds_prod)
    fix x s db1 db2 assume "issue_session cr st dr u (li_now inp) None ua ip False db = Inr x" "x = (s, db1)"
      and a: "db_audit i ev ac aid (md s) rid now' db1 = Inr db2"
    then have "session_of cr st dr u (li_now inp) False s db1" using issue_session_of that(1,2) by blast
    from session_of_cong [OF this] db_audit_keeps [OF a] that(3) show "holds (logged_in cr st dr inp) (Inr (Inr s, db2))" by auto
  qed
  have auth: "holds (logged_in cr st dr inp) (login_authenticate cr st dr inp db)" for db
    unfolding login_authenticate_def user_by_email_def Let_def
    by (intro steps_query holds_bind_eq [where r = "verify_password _ _ _"] holds_option holds_if refuse issue) auto
  show ?thesis
    unfolding login_def login_email_gate_def
    by (rule transact_case, intro holds_bind_eq [where r = "login_ip_gate _ _"] holds_bind_eq [where r = "db_consume _ _ _ _ _"]
        holds_prod holds_option holds_if refuse auth) simp
qed

lemma token_hash_live:
  assumes "ident_ok db" and "session_of cr st dr u now m s db"
  obtains t where "token_by_hash (hash_refresh_token cr (is_refresh_token s)) db = Inr (Some t)" "t \<in> set (id_tokens db)"
    "rt_id t = dr_token_id dr" "rt_user_id t = us_id u" "rt_expires_at t = is_refresh_expires_at s" "rt_revoked_at t = None"
    "rt_mfa_verified t = m"
proof -
  from assms(2) obtain t where t: "t \<in> set (id_tokens db)" "rt_id t = dr_token_id dr" "rt_user_id t = us_id u"
    "rt_token_hash t = hash_refresh_token cr (is_refresh_token s)" "rt_expires_at t = is_refresh_expires_at s" "rt_revoked_at t = None"
    "rt_mfa_verified t = m"
    by (auto simp: session_of_def)
  from that [of t] t token_by_hash_mem [OF assms(1) t(1)] show ?thesis by simp
qed

lemma user_by_id_mem: "ident_ok db \<Longrightarrow> u \<in> set (id_users db) \<Longrightarrow> user_by_id (us_id u) db = Inr (Some u)"
  using filter_key [of us_id "id_users db" u] by (simp add: user_by_id_def one_or_none_def ident_ok_def users_ok_def)

lemma refresh_session_resumes:
  assumes "ident_ok db" and "session_of cr st dr u now m s db" and "ri_raw_refresh_token inp = Some (is_refresh_token s)"
    and "csrf_tokens_match (ri_csrf_cookie inp) (ri_csrf_header inp) = Inr True" and "ri_now inp < is_refresh_expires_at s"
    and "draws_fresh cr dr' db"
  shows "\<exists>s' db'. refresh_session cr st dr' inp db = (Inr s', db') \<and> session_of cr st dr' u (ri_now inp) m s' db'"
proof -
  from token_hash_live [OF assms(1,2)] obtain t where
    t: "token_by_hash (hash_refresh_token cr (is_refresh_token s)) db = Inr (Some t)" "t \<in> set (id_tokens db)"
      "rt_user_id t = us_id u" "rt_expires_at t = is_refresh_expires_at s" "rt_revoked_at t = None" "rt_mfa_verified t = m"
    by metis
  have u: "u \<in> set (id_users db)" "us_status u = st_active" using assms(2) by (simp_all add: session_of_def)
  have read: "refresh_read cr inp db = Inr (PlanRotate t u)"
    using assms(3-5) t u user_by_id_mem [OF assms(1) u(1)] by (simp add: refresh_read_def)
  let ?db = "revoke (rt_id t) rev_rotated (ri_now inp) db"
  have frame: "id_users ?db = id_users db" "map rt_id (id_tokens ?db) = map rt_id (id_tokens db)"
    "map rt_token_hash (id_tokens ?db) = map rt_token_hash (id_tokens db)" "id_audit ?db = id_audit db"
    by (simp_all add: revoke_def map_upd_where_frame)
  have keys: "rt_id ` set (id_tokens ?db) = rt_id ` set (id_tokens db)"
    "rt_token_hash ` set (id_tokens ?db) = rt_token_hash ` set (id_tokens db)"
    using arg_cong [OF frame(2), of set] arg_cong [OF frame(3), of set] by (simp_all only: set_map)
  have "\<exists>db1. create_token (dr_token_id dr') (dr_db_now dr') (us_id u) (hash_refresh_token cr (dr_raw_refresh dr'))
      e (Some (rt_id t)) ua ip m ?db = Inr db1 \<and> id_audit db1 = id_audit db" for e ua ip
    unfolding create_token_Inr_iff
    using assms(6) u(1) t(2) by (simp add: draws_fresh_def keys frame)
  from this [of "ri_now inp + seconds (refresh_ttl_seconds st (us_role u))" "ri_user_agent inp" "ri_ip inp"] obtain s1 db1 where
    i: "issue_session cr st dr' u (ri_now inp) (Some (rt_id t)) (ri_user_agent inp) (ri_ip inp) m ?db = Inr (s1, db1)"
    and a: "id_audit db1 = id_audit db"
    by (auto simp: issue_session_def Let_def)
  obtain db2 where d: "db_audit (dr_audit_id dr') ''session_refreshed'' (role_actor (us_role u)) (Some (us_id u))
      [(''session_id'', MUuid (is_session_id s1))] (ri_request_id inp) (ri_now inp) db1 = Inr db2"
    using assms(6) a by (auto simp: db_audit_def audit_write_def draws_fresh_def)
  have "session_of cr st dr' u (ri_now inp) m s1 db1" by (rule issue_session_of [OF i]) (simp_all add: frame u)
  from session_of_cong [OF this] db_audit_keeps [OF d] have "session_of cr st dr' u (ri_now inp) m s1 db2" by simp
  then show ?thesis
    using i d t(6) by (simp add: refresh_session_def read refresh_write_def transact_def)
qed

lemma timestamp_margin: "clock + seconds 1 \<le> d \<Longrightarrow> clock < seconds (int_timestamp d)"
proof -
  have "seconds (d div usec_per_sec) = d - d mod usec_per_sec" "- seconds (- d div usec_per_sec) = d + - d mod usec_per_sec"
    using minus_mod_eq_div_mult [of d usec_per_sec] minus_mod_eq_div_mult [of "- d" usec_per_sec] by linarith+
  moreover have "d mod usec_per_sec < usec_per_sec" "0 \<le> - d mod usec_per_sec" by simp_all
  moreover assume "clock + seconds 1 \<le> d"
  ultimately show ?thesis unfolding int_timestamp_def by (cases "0 \<le> d") simp_all
qed

lemma active_user_session:
  assumes "jwt_ok cr" and "ident_ok db" and "session_of cr st dr u now m s db" and "clock + seconds 1 \<le> is_access_expires_at s"
  shows "active_user cr st clock (bearer (is_access_token s)) db =
    Inr \<lparr>ru_user_id = us_id u, ru_role = us_role u, ru_session_id = dr_token_id dr, ru_mfa_verified = m\<rparr>"
proof -
  from token_hash_live [OF assms(2,3)] obtain t where t: "t \<in> set (id_tokens db)" "rt_id t = dr_token_id dr" "rt_revoked_at t = None"
    by metis
  have d: "distinct (map rt_id (id_tokens db))" using assms(2) by (simp add: ident_ok_def tokens_ok_def)
  let ?p = "\<lparr>jp_sub = us_id u, jp_role = us_role u, jp_session_id = dr_token_id dr, jp_mfa_verified = m, jp_iat = int_timestamp now,
    jp_exp = int_timestamp (is_access_expires_at s)\<rparr>"
  have tk: "is_access_token s = jwt_encode cr (se_jwt_access_secret st) ?p"
    using assms(3) by (simp add: session_of_def encode_access_token_def)
  show ?thesis
    using get_current_bearer [OF assms(1) tk, of clock] timestamp_margin [OF assms(4)] t
    by (auto simp: active_user_def get_active_user_Inr_iff [OF d])
qed

text \<open>A browser sends the cookies back.\<close>

definition presents :: "cookie list \<Rightarrow> web_request \<Rightarrow> bool" where
  "presents cs q \<longleftrightarrow> list_all (\<lambda>c. wr_cookie q (ck_name c) = Some (ck_value c)) cs"

lemma whole_seconds_exact [simp]: "whole_seconds (seconds n) = n"
  using nonzero_mult_div_cancel_right [of usec_per_sec "- n"] by (simp add: whole_seconds_def)

lemma login_route_session:
  assumes "login_route env dr q db = (Inr (answer, cookies), db')" and "login_request env (wr_body q) = Inr (email, password)"
  obtains s u where "answer = session_response s (wr_now q)" "cookies = set_session_cookies s (we_settings env) (wr_now q)"
    "lower (us_email u) = lower (normalize_email email)"
    "session_of (we_crypto env) (web_settings env) dr u (wr_now q) False s db'" "ident_steps db db'"
proof -
  from assms obtain ip where ip: "client_ip (we_settings env) q = Inr ip"
    by (auto simp: login_route_def bind_simps split: sum.splits)
  let ?inp = "\<lparr>li_email = email, li_password = password, li_now = wr_now q, li_user_agent = wr_header q ''User-Agent'', li_ip = ip,
    li_request_id = wr_request_id q\<rparr>"
  let ?l = "login (we_crypto env) (web_settings env) dr ?inp db"
  from assms ip obtain s where l: "?l = (Inr s, db')" "answer = session_response s (wr_now q)"
      "cookies = set_session_cookies s (we_settings env) (wr_now q)"
    by (cases ?l; cases "fst ?l") (auto simp: login_route_def answer_session_def)
  from login_session [where inp = ?inp and cr = "we_crypto env" and st = "web_settings env" and dr = dr and db = db]
    login_steps [of db "we_crypto env" "web_settings env" dr ?inp]
    that [OF l(2,3)] show ?thesis unfolding l(1) by auto
qed

lemma me_route_session:
  assumes "jwt_ok (we_crypto env)" and "ident_ok db" and "session_of (we_crypto env) (web_settings env) dr u now m s db"
    and "wr_header q ''Authorization'' = bearer (is_access_token s)" and "wr_now q + seconds 1 \<le> is_access_expires_at s"
  shows "me_route env q db = Inr \<lparr>me_id = us_id u, me_email = us_email u, me_role = us_role u, me_status = us_status u,
    me_mfa_enabled = us_mfa_enabled u\<rparr>"
proof -
  have "u \<in> set (id_users db)" using assms(3) by (simp add: session_of_def)
  from user_by_id_mem [OF assms(2) this] active_user_session [OF assms(1-3,5)] assms(4) show ?thesis by (simp add: me_route_def)
qed


section \<open>A browser session\<close>

definition sample_env :: web_env where
  "sample_env = \<lparr>we_settings = sample_settings\<lparr>cf_access_token_ttl_user_seconds := 9, cf_refresh_token_ttl_user_seconds := 50,
       cf_access_token_ttl_admin_seconds := 9, cf_refresh_token_ttl_admin_seconds := 50\<rparr>,
     we_crypto = demo_crypto, we_mailer = (\<lambda>_. True),
     we_str = (\<lambda>v. case v of JStr t \<Rightarrow> Some t | _ \<Rightarrow> None), we_bool = (\<lambda>v. case v of JBool b \<Rightarrow> Some b | _ \<Rightarrow> None),
     we_email = (\<lambda>v. case v of JStr t \<Rightarrow> Some t | _ \<Rightarrow> None)\<rparr>"

definition sample_login :: web_request where
  "sample_login = \<lparr>wr_client = None, wr_header = Map.empty, wr_cookie = Map.empty,
     wr_body = [(''email'', JStr ''b''), (''password'', JStr ''pw'')], wr_now = 0, wr_request_id = None\<rparr>"

definition sample_refresh :: web_request where
  "sample_refresh = \<lparr>wr_client = None, wr_header = [''Origin'' \<mapsto> ''https://a.example'', CSRF_HEADER \<mapsto> ''c''],
     wr_cookie = [REFRESH_COOKIE \<mapsto> ''rrrrrr'', CSRF_COOKIE \<mapsto> ''c''], wr_body = [], wr_now = 1, wr_request_id = None\<rparr>"

lemma sample_login_answer:
  "login_route sample_env (demo_draws 6) sample_login demo_ident =
    (Inr (\<lparr>sp_access_token = demo_token 2 role_user 6 False, sp_token_type = ''Bearer'', sp_expires_in = 9, sp_role = role_user\<rparr>,
       [\<lparr>ck_name = REFRESH_COOKIE, ck_value = ''rrrrrr'', ck_max_age = 50, ck_httponly = True, ck_secure = True, ck_samesite = ''lax'',
         ck_path = REFRESH_COOKIE_PATH\<rparr>,
        \<lparr>ck_name = CSRF_COOKIE, ck_value = ''c'', ck_max_age = 50, ck_httponly = False, ck_secure = True, ck_samesite = ''lax'',
         ck_path = CSRF_COOKIE_PATH\<rparr>]),
     snd (login_route sample_env (demo_draws 6) sample_login demo_ident))"
  by code_simp

lemma sample_draws_fresh: "draws_fresh demo_crypto (demo_draws 7) (snd (login_route sample_env (demo_draws 6) sample_login demo_ident))"
  unfolding draws_fresh_def by code_simp


section \<open>Requests across sites\<close>

text \<open>What a page of another site cannot bring about: the header with the cookie's value, and an own origin
  in the list.\<close>

definition same_site :: "web_request \<Rightarrow> string list \<Rightarrow> bool" where
  "same_site q origins \<longleftrightarrow> origins = [] \<or> (case wr_header q ''Origin'' of
      Some origin \<Rightarrow> origin \<in> set origins
    | None \<Rightarrow> (case wr_header q ''Referer'' of
        None \<Rightarrow> True
      | Some referer \<Rightarrow> (case urlsplit referer of None \<Rightarrow> False | Some (scheme, netloc) \<Rightarrow> scheme @ ''://'' @ netloc \<in> set origins)))"

definition csrf_confirmed :: "web_request \<Rightarrow> bool" where
  "csrf_confirmed q \<longleftrightarrow> wr_cookie q CSRF_COOKIE = wr_header q CSRF_HEADER \<and> wr_cookie q CSRF_COOKIE \<notin> {None, Some []}"

lemma enforce_csrf_origin_iff: "enforce_csrf_origin q origins = Inr () \<longleftrightarrow> same_site q origins"
  by (auto simp: enforce_csrf_origin_def same_site_def split: option.splits)

lemma enforce_csrf_origin_error: "enforce_csrf_origin q origins = Inl e \<Longrightarrow> e \<in> {ExAuth CsrfFailedError, ExValue}"
  by (auto simp: enforce_csrf_origin_def split: option.splits if_splits)

lemma csrf_tokens_refused:
  "\<not> csrf_confirmed q \<Longrightarrow> csrf_tokens_match (wr_cookie q CSRF_COOKIE) (wr_header q CSRF_HEADER) \<in> {Inr False, Inl ExType}"
  by (auto simp: csrf_tokens_match_def csrf_confirmed_def split: option.splits)

lemma client_ip_error: "client_ip s q = Inl e \<Longrightarrow> e = ExValue"
  by (auto simp: client_ip_def split: option.splits sum.splits if_splits)

lemma refresh_unconfirmed:
  assumes "csrf_tokens_match (ri_csrf_cookie inp) (ri_csrf_header inp) \<in> {Inr False, Inl ExType}"
  shows "\<exists>e \<in> {ExAuth CsrfFailedError, ExType}. refresh_session cr st dr inp db = (Inl e, db)"
  using assms by (auto simp: refresh_session_def refresh_read_def transact_def)

lemma logout_unconfirmed:
  assumes "csrf_tokens_match (lo_csrf_cookie inp) (lo_csrf_header inp) \<in> {Inr False, Inl ExType}"
  shows "snd (logout cr dr inp db) = db \<and> (lo_raw_refresh_token inp \<noteq> None \<longrightarrow> (\<exists>e \<in> {ExAuth CsrfFailedError, ExType}. fst (logout cr dr inp db) = Inl e))"
  using assms by (auto simp: logout_def transact_def split: option.split)

text \<open>(C22) The session cookies act only for the site itself. A refresh, or a logout that brings a refresh
  cookie, whose origin (or referring page) is not in the configured list, or whose CSRF header does not
  repeat a non-empty CSRF cookie, is refused and changes nothing: no session is rotated, revoked or audited.\<close>

theorem csrf_guards_cookies:
  assumes "\<not> (same_site q (cors_allow_origins_list (we_settings env)) \<and> csrf_confirmed q)"
  shows "(\<exists>e \<in> {ExAuth CsrfFailedError, ExType, ExValue}. refresh_route env dr q db = (Inl e, db)) \<and>
    snd (logout_route env dr q db) = db \<and>
    (wr_cookie q REFRESH_COOKIE \<noteq> None \<longrightarrow> (\<exists>e \<in> {ExAuth CsrfFailedError, ExType, ExValue}. fst (logout_route env dr q db) = Inl e))"
proof (cases "enforce_csrf_origin q (cors_allow_origins_list (we_settings env))")
  case (Inl e)
  then show ?thesis using enforce_csrf_origin_error [OF Inl] by (auto simp: refresh_route_def logout_route_def)
next
  case (Inr x)
  then have "\<not> csrf_confirmed q" using assms enforce_csrf_origin_iff by (metis (full_types) old.unit.exhaust)
  note no = csrf_tokens_refused [OF this]
  show ?thesis
  proof (intro conjI)
    show "\<exists>e \<in> {ExAuth CsrfFailedError, ExType, ExValue}. refresh_route env dr q db = (Inl e, db)"
    proof (cases "client_ip (we_settings env) q")
      case (Inl e)
      then show ?thesis using client_ip_error [OF Inl] Inr by (simp add: refresh_route_def)
    next
      case ip: (Inr ip)
      show ?thesis
        using refresh_unconfirmed [of "\<lparr>ri_raw_refresh_token = wr_cookie q REFRESH_COOKIE, ri_csrf_cookie = wr_cookie q CSRF_COOKIE,
             ri_csrf_header = wr_header q CSRF_HEADER, ri_now = wr_now q, ri_user_agent = wr_header q ''User-Agent'',
             ri_ip = ip, ri_request_id = wr_request_id q\<rparr>" "we_crypto env" "web_settings env" dr db] no Inr ip
        by (auto simp: refresh_route_def answer_session_def)
    qed
    have "snd (logout_route env dr q db) = db \<and>
      (wr_cookie q REFRESH_COOKIE \<noteq> None \<longrightarrow> (\<exists>e \<in> {ExAuth CsrfFailedError, ExType, ExValue}. fst (logout_route env dr q db) = Inl e))"
      using logout_unconfirmed [of "\<lparr>lo_raw_refresh_token = wr_cookie q REFRESH_COOKIE, lo_csrf_cookie = wr_cookie q CSRF_COOKIE,
             lo_csrf_header = wr_header q CSRF_HEADER, lo_now = wr_now q, lo_request_id = wr_request_id q\<rparr>" "we_crypto env" dr db] no Inr
      by (auto simp: logout_route_def split: sum.splits prod.splits)
    then show "snd (logout_route env dr q db) = db"
      "wr_cookie q REFRESH_COOKIE \<noteq> None \<longrightarrow> (\<exists>e \<in> {ExAuth CsrfFailedError, ExType, ExValue}. fst (logout_route env dr q db) = Inl e)"
      by blast+
  qed
qed

theorem csrf_guards_cookies_witness:
  "let q = sample_refresh\<lparr>wr_header := [''Origin'' \<mapsto> ''https://evil.example'', CSRF_HEADER \<mapsto> ''c'']\<rparr>
   in snd (logout_route sample_env (demo_draws 7) q demo_ident) = demo_ident"
proof -
  have "\<not> same_site (sample_refresh\<lparr>wr_header := [''Origin'' \<mapsto> ''https://evil.example'', CSRF_HEADER \<mapsto> ''c'']\<rparr>)
      (cors_allow_origins_list (we_settings sample_env))"
    by code_simp
  with csrf_guards_cookies show ?thesis unfolding Let_def by blast
qed

text \<open>A \<open>Referer\<close> that does not parse as a URL is not answered with CSRF_FAILED: the parser's \<open>ValueError\<close> leaves the
  endpoint.\<close>

theorem malformed_referer_raises:
  "fst (refresh_route sample_env (demo_draws 7) (sample_refresh\<lparr>wr_header := [''Referer'' \<mapsto> ''http://['', CSRF_HEADER \<mapsto> ''c'']\<rparr>) demo_ident) =
     Inl ExValue"
  by code_simp

end
