(* ===== verification/Web_System.thy ===== *)
theory Web_System
  imports Admin_Routes Web_Sessions
begin

text \<open>
  The account and administration endpoints as one system: clients send requests, the server answers them one
  at a time and hands out access tokens. A request carries no bearer token or one that was handed out. Every
  such run is a run of the commands, and what an administrator's endpoint changes, an administrator changed.
\<close>

section \<open>Serving a request\<close>

datatype web_call =
    CallLogin draws | CallAccept draws string | CallRefresh draws | CallLogout draws
  | CallResetRequest account_draws | CallResetConfirm account_draws | CallMe
  | CallSetup string | CallVerify uuid uuid datetime
  | CallCreateUser account_draws | CallProvision account_draws | CallListUsers
  | CallDisable account_draws uuid | CallReactivate account_draws uuid | CallResend account_draws uuid
  | CallSetKillSwitch uuid | CallGetKillSwitch

record web_world =
  wo_state :: web_state
  wo_handed :: "string list"

text \<open>The access token of an answer joins those handed out.\<close>

definition session_served :: "web_world \<Rightarrow> session_answer \<times> ident_db \<Rightarrow> web_world" where
  "session_served x r = \<lparr>wo_state = (wo_state x)\<lparr>ws_ident := snd r\<rparr>,
     wo_handed = (case fst r of Inl _ \<Rightarrow> wo_handed x | Inr (answer, _) \<Rightarrow> sp_access_token answer # wo_handed x)\<rparr>"

fun serve :: "web_env \<Rightarrow> web_call \<Rightarrow> web_request \<Rightarrow> web_world \<Rightarrow> web_world" where
  "serve env (CallLogin dr) q x = session_served x (login_route env dr q (ws_ident (wo_state x)))"
| "serve env (CallAccept dr salt) q x = session_served x (accept_invitation_route env dr salt q (ws_ident (wo_state x)))"
| "serve env (CallRefresh dr) q x = session_served x (refresh_route env dr q (ws_ident (wo_state x)))"
| "serve env (CallLogout dr) q x =
     x\<lparr>wo_state := (wo_state x)\<lparr>ws_ident := snd (logout_route env dr q (ws_ident (wo_state x)))\<rparr>\<rparr>"
| "serve env (CallResetRequest adr) q x =
     x\<lparr>wo_state := (wo_state x)\<lparr>ws_ident := fst (snd (password_reset_request_route env adr q (ws_ident (wo_state x))))\<rparr>\<rparr>"
| "serve env (CallResetConfirm adr) q x =
     x\<lparr>wo_state := (wo_state x)\<lparr>ws_ident := snd (password_reset_confirm_route env adr q (ws_ident (wo_state x)))\<rparr>\<rparr>"
| "serve env CallMe q x = x"
| "serve env (CallSetup secret) q x = x\<lparr>wo_state := snd (setup_two_factor_route env secret q (wo_state x))\<rparr>"
| "serve env (CallVerify i1 i2 clock) q x = (case verify_two_factor_route env i1 i2 clock q (wo_state x) of
      (r, w) \<Rightarrow> \<lparr>wo_state = w, wo_handed = (case r of Inl _ \<Rightarrow> wo_handed x | Inr v \<Rightarrow> tv_access_token v # wo_handed x)\<rparr>)"
| "serve env (CallCreateUser adr) q x = x\<lparr>wo_state := snd (create_user_route env adr q (wo_state x))\<rparr>"
| "serve env (CallProvision adr) q x = x\<lparr>wo_state := snd (provision_user_route env adr q (wo_state x))\<rparr>"
| "serve env CallListUsers q x = x\<lparr>wo_state := snd (list_users_route env q (wo_state x))\<rparr>"
| "serve env (CallDisable adr i) q x = x\<lparr>wo_state := snd (disable_user_route env adr i q (wo_state x))\<rparr>"
| "serve env (CallReactivate adr i) q x = x\<lparr>wo_state := snd (reactivate_user_route env adr i q (wo_state x))\<rparr>"
| "serve env (CallResend adr i) q x = x\<lparr>wo_state := snd (resend_invitation_route env adr i q (wo_state x))\<rparr>"
| "serve env (CallSetKillSwitch i) q x = x\<lparr>wo_state := snd (set_kill_switch_route env i q (wo_state x))\<rparr>"
| "serve env CallGetKillSwitch q x = x\<lparr>wo_state := snd (get_kill_switch_route env q (wo_state x))\<rparr>"

definition presented :: "web_request \<Rightarrow> string list \<Rightarrow> bool" where
  "presented q handed \<longleftrightarrow> (case wr_header q ''Authorization'' of None \<Rightarrow> True | Some h \<Rightarrow> list_ex (\<lambda>tk. bearer tk = Some h) handed)"

inductive web_run :: "web_env \<Rightarrow> web_world \<Rightarrow> web_world \<Rightarrow> bool" for env where
  web_idle: "web_run env x x"
| web_serve: "web_run env x x1 \<Longrightarrow> presented q (wo_handed x1) \<Longrightarrow> web_run env x (serve env call q x1)"

section \<open>A served request is a step of the commands\<close>

definition api_of :: "web_world \<Rightarrow> api_world" where
  "api_of x = \<lparr>aw_ident = ws_ident (wo_state x), aw_app = ws_app (wo_state x), aw_access = wo_handed x\<rparr>"

abbreviation web_step :: "web_env \<Rightarrow> web_world \<Rightarrow> web_world \<Rightarrow> bool" where
  "web_step env x x' \<equiv> (api_step (we_crypto env) (web_settings env))\<^sup>=\<^sup>= (api_of x) (api_of x')"

text \<open>Without a token nobody passes a gate.\<close>

lemma gate_bearer:
  assumes "presented q handed" and "active_user cr st clock (wr_header q ''Authorization'') db = Inr a"
  obtains tk where "tk \<in> set handed" "wr_header q ''Authorization'' = bearer tk"
proof (cases "wr_header q ''Authorization''")
  case None
  then show ?thesis using assms(2) by (simp add: active_user_def get_current_user_def)
next
  case (Some h)
  with assms(1) that show ?thesis by (fastforce simp: presented_def list_ex_iff)
qed

lemma admin_gate_bearer:
  assumes "presented q (wo_handed x)" and "admin_gate env q (wo_state x) = Inr a"
  obtains tk where "tk \<in> set (aw_access (api_of x))"
    "admin_user (we_crypto env) (web_settings env) (wr_now q) (bearer tk) (aw_ident (api_of x)) = Inr a"
proof -
  have "active_user (we_crypto env) (web_settings env) (wr_now q) (wr_header q ''Authorization'') (ws_ident (wo_state x)) = Inr a"
    using assms(2) by (auto simp: admin_gate_def admin_user_def get_admin_user_def bind_simps split: if_split_asm)
  from gate_bearer [OF assms(1) this] that assms(2) show ?thesis by (metis admin_gate_def api_of_def api_world.select_convs(1,3))
qed

lemma role_gate_bearer:
  assumes "presented q (wo_handed x)" and "admin_role_gate env q (wo_state x) = Inr a"
  obtains tk where "tk \<in> set (aw_access (api_of x))"
    "admin_role_user (we_crypto env) (web_settings env) (wr_now q) (bearer tk) (aw_ident (api_of x)) = Inr a"
proof -
  have "active_user (we_crypto env) (web_settings env) (wr_now q) (wr_header q ''Authorization'') (ws_ident (wo_state x)) = Inr a"
    using assms(2) by (auto simp: admin_role_gate_def admin_role_user_def require_role_def bind_simps split: if_split_asm)
  from gate_bearer [OF assms(1) this] that assms(2) show ?thesis by (metis admin_role_gate_def api_of_def api_world.select_convs(1,3))
qed

lemma on_ident_simps [simp]: "snd (on_ident w r) = w\<lparr>ws_ident := snd r\<rparr>" "fst (on_ident w r) = fst r"
  by (simp_all add: on_ident_def)

lemma map_answer_simps [simp]: "snd (map_answer f r) = snd r"
  by (simp add: map_answer_def)

lemma api_of_idents [simp]:
  "api_of (x\<lparr>wo_state := (wo_state x)\<lparr>ws_ident := db\<rparr>\<rparr>) = (api_of x)\<lparr>aw_ident := db\<rparr>"
  "api_of (x\<lparr>wo_state := (wo_state x)\<lparr>ws_ident := db, ws_app := app\<rparr>\<rparr>) = (api_of x)\<lparr>aw_ident := db, aw_app := app\<rparr>"
  "aw_ident (api_of x) = ws_ident (wo_state x)" "aw_app (api_of x) = ws_app (wo_state x)" "aw_access (api_of x) = wo_handed x"
  "x\<lparr>wo_state := wo_state x\<rparr> = x"
  by (simp_all add: api_of_def)

text \<open>An endpoint behind a gate: refused without change, or run by whoever passed.\<close>

lemma gated_cases:
  assumes "\<And>a. gate = Inr a \<Longrightarrow> P (snd (run a))" and "P w"
  shows "P (snd (gated gate w run))"
  using assms by (cases gate) (simp_all add: gated_def)

lemma served_refused [simp]: "session_served x (Inl e, ws_ident (wo_state x)) = x"
  by (simp add: session_served_def)

lemma served_answer:
  "api_of (session_served x (answer_session env now r)) = (api_of x)\<lparr>aw_ident := snd r, aw_access := hand_out (fst r) (wo_handed x)\<rparr>"
  by (cases r; cases "fst r") (simp_all add: session_served_def answer_session_def session_response_def api_of_def hand_out_def)

lemma serve_session:
  assumes "route = (case parsed of Inl e \<Rightarrow> (Inl e, ws_ident (wo_state x)) | Inr v \<Rightarrow> answer_session env now (run v))"
    and "\<And>v. api_step cr st (api_of x) ((api_of x)\<lparr>aw_ident := snd (run v), aw_access := hand_out (fst (run v)) (wo_handed x)\<rparr>)"
  shows "(api_step cr st)\<^sup>=\<^sup>= (api_of x) (api_of (session_served x route))"
  using assms by (cases parsed) (simp_all add: served_answer)

lemma prod_case_answer: "(case v of (a, b) \<Rightarrow> answer_session env now (f a b)) = answer_session env now (case v of (a, b) \<Rightarrow> f a b)"
  by (cases v) simp

lemma req_sessions:
  "api_step cr st (api_of x) ((api_of x)\<lparr>aw_ident := snd (login cr st dr inp (ws_ident (wo_state x))),
     aw_access := hand_out (fst (login cr st dr inp (ws_ident (wo_state x)))) (wo_handed x)\<rparr>)"
  "api_step cr st (api_of x) ((api_of x)\<lparr>aw_ident := snd (refresh_session cr st dr inp' (ws_ident (wo_state x))),
     aw_access := hand_out (fst (refresh_session cr st dr inp' (ws_ident (wo_state x)))) (wo_handed x)\<rparr>)"
  "api_step cr st (api_of x) ((api_of x)\<lparr>aw_ident := snd (accept_invitation cr st dr salt inp'' (ws_ident (wo_state x))),
     aw_access := hand_out (fst (accept_invitation cr st dr salt inp'' (ws_ident (wo_state x)))) (wo_handed x)\<rparr>)"
  using req_login [of cr st dr inp "api_of x"] req_refresh [of cr st dr inp' "api_of x"]
    req_accept [of cr st dr salt inp'' "api_of x"] by simp_all

lemma serve_sessions:
  "web_step env x (session_served x (login_route env dr q (ws_ident (wo_state x))))"
  "web_step env x (session_served x (refresh_route env dr q (ws_ident (wo_state x))))"
  "web_step env x (session_served x (accept_invitation_route env dr salt q (ws_ident (wo_state x))))"
    apply (rule serve_session [OF login_route_def [unfolded prod_case_answer]], simp add: req_sessions split: prod.split)
   apply (rule serve_session [OF refresh_route_def], simp add: req_sessions)
  apply (rule serve_session [OF accept_invitation_route_def [unfolded prod_case_answer]], simp add: req_sessions split: prod.split)
  done

lemma serve_open:
  "web_step env x (x\<lparr>wo_state := (wo_state x)\<lparr>ws_ident := snd (logout_route env dr q (ws_ident (wo_state x)))\<rparr>\<rparr>)"
  "web_step env x (x\<lparr>wo_state := (wo_state x)\<lparr>ws_ident := fst (snd (password_reset_request_route env adr q (ws_ident (wo_state x))))\<rparr>\<rparr>)"
  "web_step env x (x\<lparr>wo_state := (wo_state x)\<lparr>ws_ident := snd (password_reset_confirm_route env adr q (ws_ident (wo_state x)))\<rparr>\<rparr>)"
proof -
  let ?db = "ws_ident (wo_state x)" and ?step = "api_step (we_crypto env) (web_settings env) (api_of x)"
  have out: "?step ((api_of x)\<lparr>aw_ident := snd (logout (we_crypto env) dr inp ?db)\<rparr>)" for inp
    using req_logout [where cr = "we_crypto env" and st = "web_settings env" and dr = dr and inp = inp and w = "api_of x", OF prod.collapse [symmetric]] by simp
  have reset: "?step ((api_of x)\<lparr>aw_ident := fst (snd (password_reset_request (we_crypto env) m url adr inp ?db))\<rparr>)" for m url inp
    using req_reset_request [of "we_crypto env" m url adr inp "api_of x" _ _ _ "web_settings env"] by (metis api_of_idents(3) prod.collapse)
  have confirm: "?step ((api_of x)\<lparr>aw_ident := snd (password_reset_confirm (we_crypto env) adr inp ?db)\<rparr>)" for inp
    using req_reset_confirm [where cr = "we_crypto env" and st = "web_settings env" and adr = adr and inp = inp and w = "api_of x", OF prod.collapse [symmetric]] by simp
  have keep: "(api_of x)\<lparr>aw_ident := ?db\<rparr> = api_of x" by (simp add: api_of_def)
  show "web_step env x (x\<lparr>wo_state := (wo_state x)\<lparr>ws_ident := snd (logout_route env dr q ?db)\<rparr>\<rparr>)"
    using out by (auto simp: logout_route_def keep split: sum.split prod.split) (metis snd_conv)+
  show "web_step env x (x\<lparr>wo_state := (wo_state x)\<lparr>ws_ident := fst (snd (password_reset_request_route env adr q ?db))\<rparr>\<rparr>)"
    using reset by (auto simp: password_reset_request_route_def keep split: sum.split)
  show "web_step env x (x\<lparr>wo_state := (wo_state x)\<lparr>ws_ident := snd (password_reset_confirm_route env adr q ?db)\<rparr>\<rparr>)"
    using confirm by (auto simp: password_reset_confirm_route_def keep split: sum.split)
qed

lemma serve_gated:
  assumes "presented q (wo_handed x)"
    and "\<And>tk a. tk \<in> set (aw_access (api_of x)) \<Longrightarrow>
      admin_user (we_crypto env) (web_settings env) (wr_now q) (bearer tk) (aw_ident (api_of x)) = Inr a \<Longrightarrow>
      web_step env x (x\<lparr>wo_state := snd (run a)\<rparr>)"
  shows "web_step env x (x\<lparr>wo_state := snd (gated (admin_gate env q (wo_state x)) (wo_state x) run)\<rparr>)"
  by (rule gated_cases) (metis admin_gate_bearer [OF assms(1)] assms(2), simp)

lemma req_admins:
  assumes "tk \<in> set (aw_access (api_of x))" and "admin_user cr st clock (bearer tk) (aw_ident (api_of x)) = Inr a"
  shows "cu_created_by_admin_id c = ru_user_id a \<Longrightarrow>
      api_step cr st (api_of x) ((api_of x)\<lparr>aw_ident := snd (create_user cr m url adr c (ws_ident (wo_state x)))\<rparr>)"
    "pu_created_by_admin_id p = ru_user_id a \<Longrightarrow>
      api_step cr st (api_of x) ((api_of x)\<lparr>aw_ident := snd (provision_user cr adr p (ws_ident (wo_state x)))\<rparr>)"
    "at_actor_admin_id t = ru_user_id a \<Longrightarrow>
      api_step cr st (api_of x) ((api_of x)\<lparr>aw_ident := snd (reactivate_user adr t (ws_ident (wo_state x)))\<rparr>)"
    "at_actor_admin_id t = ru_user_id a \<Longrightarrow>
      api_step cr st (api_of x) ((api_of x)\<lparr>aw_ident := snd (resend_invitation cr m url adr t (ws_ident (wo_state x)))\<rparr>)"
    "at_actor_admin_id t = ru_user_id a \<Longrightarrow> disable_user adr t (ws_ident (wo_state x)) (ws_app (wo_state x)) = (r, db', app') \<Longrightarrow>
      api_step cr st (api_of x) ((api_of x)\<lparr>aw_ident := db', aw_app := app'\<rparr>)"
  using req_create_user [OF assms _ prod.collapse [symmetric], of c m url adr] req_provision [OF assms _ prod.collapse [symmetric], of p adr]
    req_reactivate [OF assms _ prod.collapse [symmetric], of t adr] req_resend [OF assms _ prod.collapse [symmetric], of t m url adr]
    req_disable [OF assms, of t adr r db' app']
  by simp_all

lemma serve_admins:
  assumes "presented q (wo_handed x)"
  shows "web_step env x (serve env (CallCreateUser adr) q x)" "web_step env x (serve env (CallProvision adr) q x)"
    "web_step env x (serve env (CallReactivate adr i) q x)" "web_step env x (serve env (CallResend adr i) q x)"
    "web_step env x (serve env (CallDisable adr i) q x)"
      apply (unfold serve.simps create_user_route_def provision_user_route_def reactivate_user_route_def resend_invitation_route_def
        disable_user_route_def)
      apply (rule serve_gated [OF assms]; simp add: req_admins admin_target_def split: sum.split prod.split)+
  apply (intro allI impI disjI1, rule req_admins(5))
     apply simp_all
  done

lemma serve_setup:
  assumes "presented q (wo_handed x)"
  shows "web_step env x (serve env (CallSetup secret) q x)"
proof (cases "admin_role_gate env q (wo_state x)")
  case (Inr a)
  from role_gate_bearer [OF assms Inr] obtain tk where
    "tk \<in> set (aw_access (api_of x))" "admin_role_user (we_crypto env) (web_settings env) (wr_now q) (bearer tk) (aw_ident (api_of x)) = Inr a" .
  from req_setup [OF this _ prod.collapse [symmetric],
      of "\<lparr>sf_admin_user_id = ru_user_id a, sf_now = wr_now q, sf_request_id = wr_request_id q\<rparr>" secret]
  show ?thesis by (simp add: setup_two_factor_route_def gated_def Inr)
qed (simp add: setup_two_factor_route_def gated_def)

lemma serve_verify:
  assumes "presented q (wo_handed x)"
  shows "web_step env x (serve env (CallVerify i1 i2 clock) q x)"
proof (cases "admin_role_gate env q (wo_state x)")
  case (Inr a)
  from role_gate_bearer [OF assms Inr] obtain tk where
    tk: "tk \<in> set (aw_access (api_of x))" "admin_role_user (we_crypto env) (web_settings env) (wr_now q) (bearer tk) (aw_ident (api_of x)) = Inr a" .
  show ?thesis
  proof (cases "two_factor_verify_request env (wr_body q)")
    case req: (Inr code)
    let ?v = "verify_two_factor (we_crypto env) (web_settings env) i1 i2 clock \<lparr>vf_admin_user_id = ru_user_id a, vf_session_id = ru_session_id a,
      vf_code = code, vf_now = wr_now q, vf_request_id = wr_request_id q\<rparr> (ws_ident (wo_state x))"
    from req_verify [OF tk _ _ prod.collapse [symmetric], of "\<lparr>vf_admin_user_id = ru_user_id a, vf_session_id = ru_session_id a, vf_code = code, vf_now = wr_now q,
        vf_request_id = wr_request_id q\<rparr>" i1 i2 clock]
    show ?thesis
      by (cases "fst ?v") (simp_all add: verify_two_factor_route_def gated_def Inr req map_answer_def api_of_def)
  qed (simp add: verify_two_factor_route_def gated_def Inr)
qed (simp add: verify_two_factor_route_def gated_def)

lemma set_kill_switch_audit:
  assumes "set_kill_switch i inp (ops_view w) p = (r, ops, p')"
  shows "ops = ops_view w \<and> p' = p \<or>
    db_audit i (if sk_enabled inp then ''kill_switch_enabled'' else ''kill_switch_disabled'') actor_admin (Some (sk_actor_admin_id inp))
      [(''reason'', MStr (sk_reason inp))] (sk_request_id inp) (sk_now inp) (ws_ident w) = Inr ((ws_ident w)\<lparr>id_audit := od_audit ops\<rparr>)"
  using assms unfolding set_kill_switch_def upsert_def db_audit_def Let_def
  by (auto simp: bind_simps ops_view_def split: sum.split_asm if_split_asm)

lemma serve_kill_switch:
  assumes "presented q (wo_handed x)"
  shows "web_step env x (serve env (CallSetKillSwitch i) q x)"
  unfolding serve.simps set_kill_switch_route_def
proof (rule serve_gated [OF assms])
  fix tk a
  assume tk: "tk \<in> set (aw_access (api_of x))"
    "admin_user (we_crypto env) (web_settings env) (wr_now q) (bearer tk) (aw_ident (api_of x)) = Inr a"
  have put: "web_step env x (x\<lparr>wo_state := ops_put ops p' (wo_state x)\<rparr>)"
    if s: "set_kill_switch i \<lparr>sk_enabled = e, sk_reason = r, sk_actor_admin_id = ru_user_id a, sk_now = wr_now q, sk_request_id = wr_request_id q\<rparr>
      (ops_view (wo_state x)) (ws_kill_switch (wo_state x)) = (res, ops, p')" for e r res ops p'
  proof -
    have eq: "api_of (x\<lparr>wo_state := ops_put ops p' (wo_state x)\<rparr>) =
        (api_of x)\<lparr>aw_ident := (ws_ident (wo_state x))\<lparr>id_audit := od_audit ops\<rparr>\<rparr>"
      by (simp add: api_of_def ops_put_def)
    from set_kill_switch_audit [OF s] consider "api_of (x\<lparr>wo_state := ops_put ops p' (wo_state x)\<rparr>) = api_of x"
      | ev md where "db_audit i ev actor_admin (Some (ru_user_id a)) md (wr_request_id q) (wr_now q) (aw_ident (api_of x)) =
          Inr ((ws_ident (wo_state x))\<lparr>id_audit := od_audit ops\<rparr>)"
      by (auto simp: api_of_def ops_put_def ops_view_def)
    then show ?thesis by cases (use req_kill_switch [OF tk] eq in auto)
  qed
  then show "web_step env x (x\<lparr>wo_state := snd (case kill_switch_request env (wr_body q) of
       Inl e \<Rightarrow> (Inl e, wo_state x)
     | Inr (enabled, reason) \<Rightarrow>
         (case set_kill_switch i
             \<lparr>sk_enabled = enabled, sk_reason = reason, sk_actor_admin_id = ru_user_id a, sk_now = wr_now q,
              sk_request_id = wr_request_id q\<rparr> (ops_view (wo_state x)) (ws_kill_switch (wo_state x)) of
            (Inl e, ops, p) \<Rightarrow> (Inl e, ops_put ops p (wo_state x))
          | (Inr _, ops, p) \<Rightarrow> (kill_switch_state_of (ops_put ops p (wo_state x)), ops_put ops p (wo_state x))))\<rparr>)"
    by (simp split: sum.split prod.split)
qed

lemma serve_step: "presented q (wo_handed x) \<Longrightarrow> web_step env x (serve env call q x)"
  apply (cases call)
                  apply (simp_all only: serve_admins serve_setup serve_verify serve_kill_switch)
        apply (simp_all only: serve.simps serve_sessions serve_open)
    apply (simp_all add: list_users_route_def get_kill_switch_route_def gated_def split: sum.split)
  done

lemma web_run_api:
  assumes "web_run env x x'"
  shows "api_run (we_crypto env) (web_settings env) (api_of x) (api_of x')"
  using assms
proof induction
  case (web_serve x x1 q call)
  from serve_step [OF web_serve.hyps(2), of env call] web_serve.IH show ?case
    by (auto intro: rtranclp.rtrancl_into_rtrancl)
qed simp

text \<open>(C6) The account and administration endpoints, called over HTTP in any order with any bodies, headers and
  cookies and with bearer tokens the server handed out, take the system through a run of the commands: what
  holds along every run of the commands holds of the endpoints.\<close>

theorem endpoints_refine_commands:
  assumes "web_run env \<lparr>wo_state = w, wo_handed = []\<rparr> x"
  shows "api_run (we_crypto env) (web_settings env) (genesis (ws_ident w) (ws_app w))
    \<lparr>aw_ident = ws_ident (wo_state x), aw_app = ws_app (wo_state x), aw_access = wo_handed x\<rparr>"
  using web_run_api [OF assms] by (simp add: api_of_def genesis_def)

section \<open>Administrators only\<close>

fun admin_only :: "web_call \<Rightarrow> bool" where
  "admin_only (CallCreateUser _) = True"
| "admin_only (CallProvision _) = True"
| "admin_only CallListUsers = True"
| "admin_only (CallDisable _ _) = True"
| "admin_only (CallReactivate _ _) = True"
| "admin_only (CallResend _ _) = True"
| "admin_only (CallSetKillSwitch _) = True"
| "admin_only CallGetKillSwitch = True"
| "admin_only _ = False"

lemma gated_change: "snd (gated gate w run) \<noteq> w \<Longrightarrow> \<exists>a. gate = Inr a"
  by (cases gate) (simp_all add: gated_def)

lemmas admin_route_defs = create_user_route_def provision_user_route_def list_users_route_def disable_user_route_def
  reactivate_user_route_def resend_invitation_route_def set_kill_switch_route_def get_kill_switch_route_def

lemma admin_only_change:
  "admin_only call \<Longrightarrow> wo_state (serve env call q x) \<noteq> wo_state x \<Longrightarrow> \<exists>a. admin_gate env q (wo_state x) = Inr a"
  by (cases call) (auto simp: admin_route_defs dest: gated_change)

lemma open_frame:
  assumes "\<not> admin_only call"
  shows "ws_app (wo_state (serve env call q x)) = ws_app (wo_state x) \<and> ws_flags (wo_state (serve env call q x)) = ws_flags (wo_state x) \<and>
    ws_kill_switch (wo_state (serve env call q x)) = ws_kill_switch (wo_state x)"
  using assms
  by (cases call) (auto simp: session_served_def setup_two_factor_route_def verify_two_factor_route_def gated_def map_answer_def
      split: sum.split prod.split)


section \<open>An administrator's day\<close>

definition web0 :: web_world where
  "web0 = \<lparr>wo_state = \<lparr>ws_ident = demo_ident, ws_app = demo_app, ws_flags = [], ws_kill_switch = None\<rparr>, wo_handed = []\<rparr>"

definition admin_login :: web_request where
  "admin_login = sample_login\<lparr>wr_body := [(''email'', JStr ''a''), (''password'', JStr ''pw'')]\<rparr>"

definition with_token :: "string \<Rightarrow> payload \<Rightarrow> web_request" where
  "with_token tk body = sample_login\<lparr>wr_header := [''Authorization'' \<mapsto> ''Bearer '' @ tk], wr_body := body\<rparr>"

definition web1 :: web_world where
  "web1 = serve sample_env (CallLogin (demo_draws 3)) admin_login web0"

definition web2 :: web_world where
  "web2 = serve sample_env (CallSetup ''t'') (with_token (demo_token 1 role_admin 3 False) []) web1"

definition web3 :: web_world where
  "web3 = serve sample_env (CallVerify 4 5 0) (with_token (demo_token 1 role_admin 3 False) [(''code'', JStr ''t'')]) web2"

definition halt_request :: web_request where
  "halt_request = with_token (demo_token 1 role_admin 3 True) [(''enabled'', JBool True), (''reason'', JStr ''drill'')]"

lemma token_presented: "tk \<in> set handed \<Longrightarrow> presented (with_token tk body) handed"
  by (auto simp: presented_def with_token_def bearer_def list_ex_iff)

text \<open>Evaluated once; later evaluations start from here.\<close>

definition web_tokens :: "bool \<Rightarrow> refresh_token_row list" where
  "web_tokens m = [\<lparr>rt_id = 3, rt_user_id = 1, rt_token_hash = ''hrrr'', rt_parent_token_id = None, rt_issued_at = 0,
     rt_expires_at = 50000000, rt_revoked_at = None, rt_revoked_reason = None, rt_user_agent = None, rt_ip = None, rt_mfa_verified = m\<rparr>]"

lemma web1_eval [code]:
  "web1 = \<lparr>wo_state = \<lparr>ws_ident = demo_ident\<lparr>id_tokens := web_tokens False,
       id_audit := [demo_audit 3 ''login_success'' actor_admin 1 0 [(''session_id'', MUuid 3)]]\<rparr>, ws_app = demo_app, ws_flags = [],
       ws_kill_switch = None\<rparr>,
     wo_handed = [demo_token 1 role_admin 3 False]\<rparr>"
  by code_simp

lemma web2_eval [code]:
  "web2 = web1\<lparr>wo_state := (wo_state web1)\<lparr>ws_ident := (ws_ident (wo_state web1))\<lparr>id_users :=
     [(demo_user 1 ''a'' role_admin)\<lparr>us_mfa_secret_encrypted := Some ''t''\<rparr>, demo_user 2 ''b'' role_user]\<rparr>\<rparr>\<rparr>"
  by code_simp

lemma web_handed: "wo_handed web1 = [demo_token 1 role_admin 3 False]" "wo_handed web2 = wo_handed web1"
  by (simp_all add: web1_eval web2_eval)

lemma web3_handed: "wo_handed web3 = demo_token 1 role_admin 3 True # wo_handed web1"
  by code_simp

lemma web_day: "web_run sample_env web0 web3"
proof -
  have "web_run sample_env web0 web1" unfolding web1_def
    by (rule web_serve [OF web_idle]) (simp add: presented_def admin_login_def sample_login_def)
  then have "web_run sample_env web0 web2" unfolding web2_def by (rule web_serve) (simp add: token_presented web_handed)
  then show ?thesis unfolding web3_def by (rule web_serve) (simp add: token_presented web_handed)
qed

theorem endpoints_refine_commands_witness:
  "api_run demo_crypto (web_settings sample_env) (genesis demo_ident demo_app)
    \<lparr>aw_ident = ws_ident (wo_state web3), aw_app = ws_app (wo_state web3), aw_access = wo_handed web3\<rparr>"
  using endpoints_refine_commands [OF web_day [unfolded web0_def]] by (simp add: sample_env_def)

lemma halt_served: "ws_flags (wo_state (serve sample_env (CallSetKillSwitch 9) halt_request web3)) \<noteq> ws_flags (wo_state web3)"
  by code_simp


end
