(* ===== verification/Spec2Isabelle.thy ===== *)
theory Spec2Isabelle
  imports Core_System Kill_Switch Listing Identity_Properties Twap_Properties Api_Errors Telegram_Properties Route_Properties
    Legacy_Properties Web_System
begin

text \<open>
  \<^bold>\<open>AI Stock: the back end of a notify-only trading assistant, verified.\<close>

  The program (Python, \<open>src/src/app\<close>) keeps the day orders of its users ("trade intents"), watches the
  quotes of a broker, and notifies the owner when an order's condition is met; it never places an
  order itself. This development models its order core, its TWAP track, its identity side and the
  machinery they share, and proves what makes each part correct. Every definition is a shallow
  embedding of the code it names: exceptions are values (\<open>exn + 'a\<close>), tables are lists of rows in a
  record, a transaction is a state that is kept or dropped, and the clock, the random draws, the
  broker and the cryptographic libraries are arguments.

  \<^bold>\<open>The parts and how they interact.\<close>

  \<^item> \<^emph>\<open>Orders.\<close> A user creates an intent (\<open>commands/trade_intent_core.py\<close>): the price is validated, the
    caps are checked, the row is written, the symbol is subscribed at the quote provider and, when a
    quote at hand already meets the condition, the intent triggers at once. Afterwards every quote is
    dispatched (\<open>services/quote_dispatcher_core.py\<close>) to the active intents on its symbol; the evaluator
    (\<open>domain/quote_evaluation.py\<close>) decides, and \<open>commands/trigger_intent_core.py\<close> writes the trigger, the
    notification and the status in one transaction. The lifecycle (\<open>commands/intent_lifecycle.py\<close>)
    activates the intents of the day and expires those whose session is over.
  \<^item> \<^emph>\<open>TWAP.\<close> \<open>domain/twap.py\<close> splits an order into slices; \<open>commands/twap.py\<close> stores the plan in the old
    track's tables, and a scheduler (\<open>services/twap_scheduler.py\<close>) announces due slices and follows up
    on those announced without a price.
  \<^item> \<^emph>\<open>Identity.\<close> \<open>commands/auth.py\<close>, \<open>account.py\<close>, \<open>password_reset.py\<close> and \<open>two_factor.py\<close> keep users, sessions
    (chains of rotated refresh tokens), invitations and reset links; \<open>api/deps.py\<close> admits a request by
    its access token and the session behind it. Disabling an account closes its sessions and cancels
    its orders on both tracks, which is where the two halves meet.
  \<^item> \<^emph>\<open>Shared.\<close> The token bucket in front of logins and mutations, the kill switch consulted by create and
    dispatch, the idempotency store in front of the mutating routes, keyset pagination, the audit
    trail, and the translation of exceptions into HTTP envelopes.

  \<^bold>\<open>Vocabulary and arithmetic.\<close>

  \<^item> \<open>Prelude\<close>: identifiers, clocks, results, string methods, tables (\<open>upd_where\<close>, \<open>find_row\<close>,
    \<open>unique_on\<close>) and their lemmas.
  \<^item> \<open>Py_Decimal\<close>, \<open>Decimal_Text\<close>: Python's \<open>decimal\<close> at the level of sign, coefficient and exponent, with
    the 28-digit context, rounding, the division operators and their \<open>InvalidOperation\<close>, and the
    constructor from a string. \<open>dval\<close> gives the rational value; the \<open>fits\<close> lemmas say when arithmetic
    is exact. \<open>Py_Text\<close>: splitting and deleting, and the text of a UUID, which reads back.
  \<^item> \<open>Price\<close> (\<open>domain/price.py\<close>): tick tables, \<open>parse\<close>, \<open>validate\<close>, \<open>format_price_str\<close>. Validation accepts
    exactly the legal grid, suggests the nearest legal prices, and the printed form is canonical and
    reads back.
  \<^item> \<open>Trading_Session\<close> (\<open>domain/trading_session.py\<close>), \<open>Trade_Intent\<close> (\<open>domain/trade_intent.py\<close> and the two
    small domain files beside it; the permitted status changes are the relation \<open>intent_step\<close>),
    \<open>Auth_Domain\<close> (\<open>domain/auth.py\<close>), \<open>Error_Code\<close>, \<open>Exceptions\<close> (every exception the modelled code
    raises, as one datatype).

  \<^bold>\<open>The order core.\<close>

  \<^item> \<open>Quote\<close> (\<open>services/quote\<close>): snapshots, their validation, the reconciler. What the order commands rely
    on is the locale \<open>quote_provider\<close>; it is interpreted by the in-memory provider (\<open>im\<close>) and, in
    \<open>Shioaji_Provider\<close> (\<open>services/quote/shioaji_demo\<close>), by the broker's provider (\<open>sj\<close>), whose SDK is an
    argument and whose callbacks, shutdowns and restarts are steps of \<open>sj_step\<close>.
  \<^item> \<open>Quote_Evaluation\<close>: the decision, strategy by strategy, trailing stop included.
    \<open>Notification_Template\<close>: the wording, with the Chinese phrases as symbols.
  \<^item> \<open>Core_Store\<close> (\<open>db/models/trade_intent_core.py\<close>, \<open>repositories/trade_intent_core_repository.py\<close>,
    \<open>services/symbol.py\<close>): rows, constraints, repository. \<open>Core_Invariant\<close>: the consistency
    \<open>core_inv\<close> of the tables and the evolution \<open>core_evolves\<close> of their rows, kept by every operation.
  \<^item> \<open>Trigger_Core\<close>, \<open>Lifecycle\<close> (its store is the locale \<open>day_intent_lifecycle_store\<close>, interpreted by both
    tracks' repositories), \<open>Dispatcher\<close>, \<open>Dispatch_Complete\<close> (in normal operation a dispatch triggers
    exactly the intents that should), \<open>Core_Commands\<close> (create, cancel).
  \<^item> \<open>Core_System\<close>: startup (\<open>main.py\<close>) and any interleaving of creates, cancels, quotes, lifecycle runs and
    disabled accounts (\<open>core_step\<close>), with arbitrary answers of the broker. Along every run a live symbol
    is subscribed, triggers, statuses and notifications agree, and terminal statuses are final.

  \<^bold>\<open>TWAP.\<close> \<open>Twap_Plan\<close>, \<open>Legacy_Store\<close> (\<open>repositories/intent_repository.py\<close>: the operations the
  TWAP track uses), \<open>Twap_Commands\<close>, \<open>Twap_System\<close> (the invariant \<open>twap_ok\<close> along every run of
  confirmations, scheduler passes, cancels and disabled accounts), \<open>Twap_Properties\<close>.

  \<^bold>\<open>The old order track.\<close> \<open>Legacy_Trigger\<close> (\<open>commands/trigger_intent.py\<close>, \<open>services/quote_dispatcher.py\<close>,
  \<open>api/routes/dev.py\<close>, the table \<open>trigger_events\<close> and the quote listeners of \<open>main.py\<close>) and \<open>Legacy_Orders\<close>
  (\<open>commands/trade_intent.py\<close> and the rest of the repository) model the predecessors of the new-track commands, which
  the application still runs beside them. \<open>Legacy_Properties\<close> shows that a quote delivered to both dispatchers acts
  on the new track alone, that both tracks write the same trigger for the same order, and that the old
  trigger command acts once.

  \<^bold>\<open>Identity.\<close> \<open>Identity_Store\<close> (\<open>db/models/auth.py\<close> and the four repositories), \<open>Credentials\<close>
  (\<open>core/tokens.py\<close>, \<open>passwords.py\<close>, \<open>totp.py\<close>, \<open>mfa_crypto.py\<close>; argon2, JWT, TOTP and Fernet are the record
  \<open>crypto\<close>, and the law used of it, that a signed token reads back until
  it expires, is the hypothesis \<open>jwt_ok\<close>), \<open>Auth_Commands\<close>, \<open>Account_Commands\<close>,
  \<open>Account_Disable\<close>, \<open>Session_Gate\<close> (\<open>api/deps.py\<close>, \<open>core/security.py\<close>). \<open>Identity_Invariant\<close> states the
  consistency \<open>ident_ok\<close> of the tables and the primitive changes that keep it; \<open>Identity_Steps\<close> shows
  that every command is a sequence of them; \<open>Identity_System\<close> and \<open>Identity_Runs\<close> follow tokens,
  factors and claims along every sequence of requests (\<open>api_run\<close>); \<open>Identity_Samples\<close> runs the model on
  a concrete deployment; \<open>Identity_Properties\<close> holds the theorems.

  \<^bold>\<open>Telegram.\<close> A group chat creates orders by conversation: a language model classifies each message, the command
  keeps one draft per chat, and a pressed button confirms it through the same create command.
  \<open>Telegram_Domain\<close> (\<open>domain/telegram_intent.py\<close> and the boundary of \<open>services/telegram_intent_llm.py\<close>; the HTTP
  exchange and the reader of the model's JSON text are arguments), \<open>Telegram_Store\<close>
  (\<open>repositories/telegram_intent_repository.py\<close>), \<open>Telegram_Buttons\<close> (keyboards and callback data), \<open>Telegram_Commands\<close> (\<open>commands/telegram_intent.py\<close>, \<open>api/routes/telegram.py\<close>, with the database session the
  drafts and the orders share), \<open>Telegram_Invariant\<close>, \<open>Telegram_System\<close> and \<open>Telegram_Properties\<close>: an order comes from
  exactly one confirmed draft, needs the right button on the right message, and is the order that was shown.

  \<^bold>\<open>The order endpoints.\<close> \<open>Intent_Requests\<close> (the request models of \<open>schemas/intent.py\<close>: declared fields, literals, bounds
  and validators; how pydantic turns a JSON value into a declared type is the argument \<open>coercion\<close>),
  \<open>Request_Properties\<close> (a trail value is stored as sent; times are whole minutes), \<open>Intent_Responses\<close> (the response
  models and mappings, with the time zone of the database session as an argument), \<open>Intent_Routes\<close>
  (\<open>api/routes/intents.py\<close>: every endpoint composed of the gates, the request model, the idempotency manager, the
  command and the response), \<open>Owner_Frame\<close> (what a command run for one owner leaves alone) and \<open>Route_Properties\<close>. What
  the routes rely on is the locale \<open>owner_scoped\<close>, interpreted by the create, confirm and cancel commands: no request
  reaches another owner's rows, a retry changes nothing, the typed endpoints agree with the endpoint of the union,
  and the reading endpoints show the caller's orders only.

  \<^bold>\<open>Shared machinery.\<close> \<open>Rate_Limiter\<close> (grants are bounded by the capacity and the refill),
  \<open>Audit_Trail\<close>, \<open>Kill_Switch\<close> (with the readers of the cache interleaved), \<open>Keyset\<close> and \<open>Listing\<close> (the locale
  \<open>keyset_listing\<close>, interpreted by the intent list and the inbox), \<open>Idempotency\<close>, \<open>Api_Errors\<close>.

  \<^bold>\<open>Bounds and termination.\<close> Every function is total; there is no fuel in the model. The one search
  without a bound in the source, the next weekday, ends within three steps. Paging is proved to end.
  Integers are Python's, hence \<open>int\<close>; the limits that matter are those of the decimal context and of the
  \<open>numeric(9,4)\<close> columns, and both are in the model. Floats in the rate limiter are rationals.

  \<^bold>\<open>Concurrency.\<close> Requests are atomic in the runs, which is what the row locks give, except where the code
  leaves a window and the window matters: readers of the kill switch's cache, the read phase of a token
  refresh (\<open>concurrent_refresh_forks\<close>), two first requests with one idempotency key
  (\<open>idem_race_loser\<close>), and the last commit of a confirmed Telegram draft, which a run may lose.

  \<^bold>\<open>Not modelled.\<close> The HTTP routes other than those of the orders and of Telegram (declarations over the modelled
  commands), the clients of the Bot API and of the language model, the configuration, the database
  engine, migrations and scripts, and logging.
\<close>

end
